(* ===== verification/Iwl_Prelude.thy ===== *)
theory Iwl_Prelude
  imports Main "HOL-Library.Word"
begin

unbundle bit_operations_syntax

section \<open>Shared types, outcomes and byte-level access\<close>

text \<open>
  What every component of the driver uses: the C integer types of
  \<^verbatim>\<open>porting/linux/types.h\<close> as words, the error codes the sources return, the
  undefined behaviours the sources can run into, little-endian reads from a byte buffer
  with the bounds made explicit, and the generic lemmas on words and lists the component
  proofs share.

  A C function that returns an error code and changes a state \<open>s\<close> is a HOL function into
  \<open>fault + (errno option \<times> 's)\<close>: \<open>Inl\<close> is undefined behaviour (an access outside an
  object, through NULL, of an indeterminate value, or a second free of one block) or taking a
  spin lock that is already held,
  \<open>Inr (None, s)\<close> is \<open>return 0\<close>, and \<open>Inr (Some e, s)\<close> is \<open>return -e\<close> with the state
  as it was left.
\<close>

subsection \<open>Types\<close>

type_synonym u8 = "8 word"
type_synonym u16 = "16 word"
type_synonym u32 = "32 word"
type_synonym u64 = "64 word"

text \<open>The error codes the modelled functions return (negated, as the kernel does).\<close>

datatype errno =
    EPERM | ENOENT | EIO | ENOMEM | EFAULT | EBUSY | EINVAL | ENODATA | ENOSPC | ETIMEDOUT | ERFKILL

datatype fault = OutOfBounds | NullDeref | Indeterminate | DoubleFree | Deadlock

type_synonym 'a run = "fault + 'a"
type_synonym 's outcome = "fault + (errno option \<times> 's)"

subsection \<open>Sequencing\<close>

definition bindF :: "'a run \<Rightarrow> ('a \<Rightarrow> 'b run) \<Rightarrow> 'b run" where
  "bindF m k = (case m of Inl f \<Rightarrow> Inl f | Inr x \<Rightarrow> k x)"

text \<open>Run \<open>k\<close> only when the first part returned 0; an error code or a fault ends the run.\<close>

definition thenS :: "'s outcome \<Rightarrow> ('s \<Rightarrow> 's outcome) \<Rightarrow> 's outcome" where
  "thenS m k = (case m of Inl f \<Rightarrow> Inl f
     | Inr (Some e, s) \<Rightarrow> Inr (Some e, s)
     | Inr (None, s) \<Rightarrow> k s)"

abbreviation ok :: "'s \<Rightarrow> 's outcome" where
  "ok s \<equiv> Inr (None, s)"

abbreviation fail :: "errno \<Rightarrow> 's \<Rightarrow> 's outcome" where
  "fail e s \<equiv> Inr (Some e, s)"

subsection \<open>Byte buffers\<close>

definition le16 :: "u8 \<Rightarrow> u8 \<Rightarrow> u16" where
  "le16 a b = ucast a OR push_bit 8 (ucast b)"

definition le32 :: "u8 \<Rightarrow> u8 \<Rightarrow> u8 \<Rightarrow> u8 \<Rightarrow> u32" where
  "le32 a b c d = ucast a OR push_bit 8 (ucast b) OR push_bit 16 (ucast c) OR push_bit 24 (ucast d)"

definition rd8 :: "u8 list \<Rightarrow> nat \<Rightarrow> u8 run" where
  "rd8 bs p = (if p < length bs then Inr (bs ! p) else Inl OutOfBounds)"

definition rd16 :: "u8 list \<Rightarrow> nat \<Rightarrow> u16 run" where
  "rd16 bs p = (if p + 2 \<le> length bs then Inr (le16 (bs ! p) (bs ! (p + 1))) else Inl OutOfBounds)"

definition rd32 :: "u8 list \<Rightarrow> nat \<Rightarrow> u32 run" where
  "rd32 bs p = (if p + 4 \<le> length bs
     then Inr (le32 (bs ! p) (bs ! (p + 1)) (bs ! (p + 2)) (bs ! (p + 3))) else Inl OutOfBounds)"

definition rd_bytes :: "u8 list \<Rightarrow> nat \<Rightarrow> nat \<Rightarrow> u8 list run" where
  "rd_bytes bs p n = (if p + n \<le> length bs then Inr (take n (drop p bs)) else Inl OutOfBounds)"

definition enc16 :: "u16 \<Rightarrow> u8 list" where
  "enc16 w = [ucast w, ucast (drop_bit 8 w)]"

definition enc32 :: "u32 \<Rightarrow> u8 list" where
  "enc32 w = [ucast w, ucast (drop_bit 8 w), ucast (drop_bit 16 w), ucast (drop_bit 24 w)]"

subsection \<open>The allocator\<close>

text \<open>
  \<open>iwh_malloc\<close> forwards to IOKit's allocator, which may refuse any request. Whether it does
  is not under the driver's control: a run is given the list of the allocator's answers,
  one per request in the order of the requests; when the list is used up requests succeed.
\<close>

type_synonym answers = "bool list"

fun iwh_malloc :: "answers \<Rightarrow> bool \<times> answers" where
  "iwh_malloc [] = (True, [])"
| "iwh_malloc (b # bs) = (b, bs)"

section \<open>Lemmas\<close>

named_theorems run_simps \<open>evaluation of the sequencing combinators\<close>
named_theorems byte_simps \<open>reads of encoded values\<close>

lemma bindF_simps [simp, run_simps]:
  "bindF (Inl f) k = Inl f"
  "bindF (Inr x) k = k x"
  by (simp_all add: bindF_def)

lemma thenS_simps [simp, run_simps]:
  "thenS (Inl f) k = Inl f"
  "thenS (Inr (Some e, s)) k = Inr (Some e, s)"
  "thenS (Inr (None, s)) k = k s"
  by (simp_all add: thenS_def)

lemma bindF_cong [fundef_cong]:
  "m = m' \<Longrightarrow> (\<And>x. m' = Inr x \<Longrightarrow> k x = k' x) \<Longrightarrow> bindF m k = bindF m' k'"
  by (cases m') simp_all

lemma thenS_cong [fundef_cong]:
  "m = m' \<Longrightarrow> (\<And>s. m' = ok s \<Longrightarrow> k s = k' s) \<Longrightarrow> thenS m k = thenS m' k'"
  by (auto simp: thenS_def split: sum.splits option.splits)

lemma bindF_eq_Inr [run_simps]:
  "bindF m k = Inr y \<longleftrightarrow> (\<exists>x. m = Inr x \<and> k x = Inr y)"
  by (cases m) simp_all

lemma thenS_ok:
  "thenS m k = ok s' \<longleftrightarrow> (\<exists>s. m = ok s \<and> k s = ok s')"
  by (auto simp: thenS_def split: sum.splits prod.splits option.splits)

lemma thenS_Inr_cases:
  assumes "thenS m k = Inr (r, s')"
  obtains (Stop) e where "m = fail e s'" and "r = Some e"
    | (Go) s where "m = ok s" and "k s = Inr (r, s')"
  using assms by (auto simp: thenS_def split: sum.splits prod.splits option.splits)

lemma rd8_Inr_iff: "rd8 bs p = Inr v \<longleftrightarrow> p < length bs \<and> v = bs ! p"
  by (auto simp: rd8_def)

lemma rd32_Inr_bound: "rd32 bs p = Inr v \<Longrightarrow> p + 4 \<le> length bs"
  by (simp add: rd32_def split: if_splits)

lemma rd32_ok: "p + 4 \<le> length bs \<Longrightarrow> \<exists>v. rd32 bs p = Inr v"
  by (simp add: rd32_def)

lemma rd16_Inr_bound: "rd16 bs p = Inr v \<Longrightarrow> p + 2 \<le> length bs"
  by (simp add: rd16_def split: if_splits)

lemma rd_bytes_Inr_iff:
  "rd_bytes bs p n = Inr xs \<longleftrightarrow> p + n \<le> length bs \<and> xs = take n (drop p bs)"
  by (auto simp: rd_bytes_def)

lemma le16_enc16: "le16 (ucast w) (ucast (drop_bit 8 w)) = w" for w :: u16
  by (rule bit_word_eqI) (auto simp: le16_def bit_simps)

lemma le32_enc32:
  "le32 (ucast w) (ucast (drop_bit 8 w)) (ucast (drop_bit 16 w)) (ucast (drop_bit 24 w)) = w" for w :: u32
proof (rule bit_word_eqI)
  fix n assume "n < LENGTH(32)"
  then show "bit (le32 (ucast w) (ucast (drop_bit 8 w)) (ucast (drop_bit 16 w)) (ucast (drop_bit 24 w))) n = bit w n"
    by (cases "n < 8"; cases "n < 16"; cases "n < 24") (auto simp: le32_def bit_simps)
qed

lemma length_enc16 [simp]: "length (enc16 w) = 2" by (simp add: enc16_def)
lemma length_enc32 [simp]: "length (enc32 w) = 4" by (simp add: enc32_def)

lemma rd32_append_at [byte_simps]:
  "p = length xs \<Longrightarrow> rd32 (xs @ enc32 w @ ys) p = Inr w"
  by (simp add: rd32_def enc32_def nth_append le32_enc32)

lemma rd16_append_at [byte_simps]:
  "p = length xs \<Longrightarrow> rd16 (xs @ enc16 w @ ys) p = Inr w"
  by (simp add: rd16_def enc16_def nth_append le16_enc16)

lemma rd32_append_left: "rd32 bs p = Inr v \<Longrightarrow> rd32 (bs @ cs) p = Inr v"
  by (auto simp: rd32_def nth_append split: if_splits)

subsection \<open>Words\<close>

lemma and_not_mask_push_drop: "w AND NOT (mask k) = push_bit k (drop_bit k w)" for w :: "'a::len word"
  by (rule bit_word_eqI) (auto simp: bit_simps)

lemma unat_take_bit: "unat (take_bit k w) = unat w mod 2 ^ k" for w :: "'a::len word"
  by (metis take_bit_eq_mod unsigned_take_bit_eq)

lemma unat_and_not_mask: "unat (w AND NOT (mask k)) = unat w div 2 ^ k * 2 ^ k" for w :: "'a::len word"
proof -
  have "push_bit k (drop_bit k w) = w - take_bit k w"
    using bits_ident [of k w] by (simp add: algebra_simps)
  moreover have "take_bit k w \<le> w"
    unfolding word_le_nat_alt unat_take_bit by (rule mod_less_eq_dividend)
  ultimately have "unat (w AND NOT (mask k)) = unat w - unat (take_bit k w)"
    by (simp add: and_not_mask_push_drop unat_sub)
  then show ?thesis by (simp only: unat_take_bit minus_mod_eq_div_mult)
qed

lemma unat_of_nat_small: "n < 2 ^ LENGTH('a) \<Longrightarrow> unat (of_nat n :: 'a::len word) = n"
  by (simp add: unsigned_of_nat take_bit_nat_eq_self)

lemma unat_add_small:
  "unat a + unat b < 2 ^ LENGTH('a) \<Longrightarrow> unat (a + b) = unat a + unat b" for a b :: "'a::len word"
  by (simp add: unat_word_ariths)

lemma word_neq_0_bit: "w \<noteq> 0 \<Longrightarrow> \<exists>n < LENGTH('a). bit w n" for w :: "'a::len word"
proof (rule ccontr)
  assume "w \<noteq> 0" and "\<not> (\<exists>n < LENGTH('a). bit w n)"
  then have "w = 0" by (intro bit_word_eqI) simp
  with \<open>w \<noteq> 0\<close> show False by contradiction
qed

end
