(* ===== verification/Bitmap.thy ===== *)
theory Bitmap
  imports Iwl_Prelude
begin

section \<open>Bitmaps: set, clear, test and search\<close>

text \<open>
  The bit operations of \<^verbatim>\<open>porting/linux/bitfield.h\<close> and the search of
  \<^verbatim>\<open>porting/linux/util/find_next_bit.c\<close>, over an array of 64-bit words. A bitmap is the
  list of its words; an access to a word outside the array is the fault \<open>OutOfBounds\<close>.
  The locale \<open>bit_store\<close> states what a client may rely on when it sets and clears bits; it
  is interpreted on \<open>set_bit_c\<close> and \<open>clear_bit\<close>.
\<close>

type_synonym bitmap = "u64 list"

text \<open>\<open>bitmap_bit a n\<close>: bit \<open>n\<close> of the bitmap, counted as the C macros count.\<close>

definition bitmap_bit :: "bitmap \<Rightarrow> nat \<Rightarrow> bool" where
  "bitmap_bit a n = bit (a ! (n div 64)) (n mod 64)"

subsection \<open>bitfield.h\<close>

definition BIT_MASK :: "nat \<Rightarrow> u64" where
  "BIT_MASK nr = push_bit (nr mod 64) 1"

definition BIT_WORD :: "nat \<Rightarrow> nat" where
  "BIT_WORD nr = nr div 64"

text \<open>
  One uninterrupted execution of the compare-and-swap loop: the new value of the word.
  The word is left unchanged by every failed iteration, so the loop's effect is that of
  its last iteration.
\<close>

definition OSBitwiseAtomic64 :: "u64 \<Rightarrow> u64 \<Rightarrow> u64 \<Rightarrow> u64 \<Rightarrow> u64" where
  "OSBitwiseAtomic64 and_mask or_mask xor_mask old = ((old AND and_mask) OR or_mask) XOR xor_mask"

definition OSBitAndAtomic64 :: "u64 \<Rightarrow> u64 \<Rightarrow> u64" where
  "OSBitAndAtomic64 m old = OSBitwiseAtomic64 m 0 0 old"

definition OSBitOrAtomic64 :: "u64 \<Rightarrow> u64 \<Rightarrow> u64" where
  "OSBitOrAtomic64 m old = OSBitwiseAtomic64 (- 1) m 0 old"

definition set_bit_c :: "nat \<Rightarrow> bitmap \<Rightarrow> bitmap run" where
  "set_bit_c nr a = (let msk = BIT_MASK nr; p = BIT_WORD nr in
     if p < length a then Inr (a[p := OSBitOrAtomic64 msk (a ! p)]) else Inl OutOfBounds)"

definition clear_bit :: "nat \<Rightarrow> bitmap \<Rightarrow> bitmap run" where
  "clear_bit nr a = (let msk = BIT_MASK nr; p = BIT_WORD nr in
     if p < length a then Inr (a[p := OSBitAndAtomic64 (NOT msk) (a ! p)]) else Inl OutOfBounds)"

definition test_and_set_bit :: "nat \<Rightarrow> bitmap \<Rightarrow> (bool \<times> bitmap) run" where
  "test_and_set_bit nr a = (let msk = BIT_MASK nr; p = BIT_WORD nr in
     if p < length a then (let old = a ! p in Inr (old AND msk \<noteq> 0, a[p := old OR msk]))
     else Inl OutOfBounds)"

definition test_and_clear_bit :: "nat \<Rightarrow> bitmap \<Rightarrow> (bool \<times> bitmap) run" where
  "test_and_clear_bit nr a = (let msk = BIT_MASK nr; p = BIT_WORD nr in
     if p < length a then (let old = a ! p in Inr (old AND msk \<noteq> 0, a[p := old AND NOT msk]))
     else Inl OutOfBounds)"

text \<open>
  \<open>test_bit\<close> reads the low 32 bits of the first word only (\<open>OSAddAtomic\<close> works on an
  \<open>SInt32\<close>) and masks them with \<open>1 << nr\<close>, an \<open>int\<close> shift. For \<open>nr\<close> of 32 and more that shift
  is undefined in C; the model takes the value the x86 shift instruction gives, which
  uses the count modulo 32 (the sources are x86 only: \<open>__ffs\<close> is inline \<open>bsf\<close>).
\<close>

definition test_bit :: "nat \<Rightarrow> bitmap \<Rightarrow> bool run" where
  "test_bit nr a = (if a = [] then Inl OutOfBounds
     else Inr ((ucast (a ! 0) :: u32) AND push_bit (nr mod 32) 1 \<noteq> 0))"

text \<open>\<open>linux_fls\<close>: one more than the index of the most significant set bit, 0 for 0.\<close>

definition fls_step :: "u32 \<Rightarrow> nat \<Rightarrow> u32 \<times> int \<Rightarrow> u32 \<times> int" where
  "fls_step msk k = (\<lambda>(x, r). if x AND msk = 0 then (push_bit k x, r - int k) else (x, r))"

definition linux_fls :: "u32 \<Rightarrow> int" where
  "linux_fls x = (if x = 0 then 0 else
     snd (fls_step 0x80000000 1 (fls_step 0xc0000000 2 (fls_step 0xf0000000 4
       (fls_step 0xff000000 8 (fls_step 0xffff0000 16 (x, 32)))))))"

subsection \<open>find\_next\_bit.c\<close>

text \<open>\<open>__ffs\<close>: the index of the least significant set bit; the \<open>bsf\<close> result is undefined for 0.\<close>

definition ffs64 :: "u64 \<Rightarrow> u64" where
  "ffs64 w = (case find (bit w) [0..<64] of Some n \<Rightarrow> of_nat n | None \<Rightarrow> 0)"

definition rdw :: "bitmap \<Rightarrow> nat \<Rightarrow> u64 run" where
  "rdw a p = (if p < length a then Inr (a ! p) else Inl OutOfBounds)"

definition fnb_found_first :: "u64 \<Rightarrow> u64 \<Rightarrow> u64 \<Rightarrow> u64" where
  "fnb_found_first tmp sz result =
     (let tmp = tmp AND drop_bit (unat (64 - sz)) (- 1)
      in if tmp = 0 then result + sz else result + ffs64 tmp)"

function fnb_loop :: "bitmap \<Rightarrow> nat \<Rightarrow> u64 \<Rightarrow> u64 \<Rightarrow> u64 run" where
  "fnb_loop a p sz result =
     (if sz AND NOT 63 \<noteq> 0 then
        (if p < length a then
           (if a ! p \<noteq> 0 then Inr (result + ffs64 (a ! p))
            else fnb_loop a (Suc p) (sz - 64) (result + 64))
         else Inl OutOfBounds)
      else if sz = 0 then Inr result
      else bindF (rdw a p) (\<lambda>tmp. Inr (fnb_found_first tmp sz result)))"
  by pat_completeness auto
termination
  by (relation "measure (\<lambda>(a, p, sz, result). length a - p)") auto

definition find_next_bit :: "bitmap \<Rightarrow> u64 \<Rightarrow> u64 \<Rightarrow> u64 run" where
  "find_next_bit a sz offset =
     (let p = unat (offset div 64); result = offset AND NOT 63 in
      if offset \<ge> sz then Inr sz
      else let sz = sz - result; offset = offset mod 64 in
        if offset \<noteq> 0 then
          bindF (rdw a p) (\<lambda>w.
            let tmp = w AND push_bit (unat offset) (- 1) in
            if sz < 64 then Inr (fnb_found_first tmp sz result)
            else if tmp \<noteq> 0 then Inr (result + ffs64 tmp)
            else fnb_loop a (Suc p) (sz - 64) (result + 64))
        else fnb_loop a p sz result)"

text \<open>\<open>find_first_bit\<close>: the header maps it to \<open>find_next_bit\<close> at 0 and the file's own body has the same loop.\<close>

definition find_first_bit :: "bitmap \<Rightarrow> u64 \<Rightarrow> u64 run" where
  "find_first_bit a sz = fnb_loop a 0 sz 0"

section \<open>Properties\<close>

declare fnb_loop.simps [simp del]

subsection \<open>Single bits\<close>

lemma bit_BIT_MASK: "bit (BIT_MASK nr) n \<longleftrightarrow> n = nr mod 64"
  by (auto simp: BIT_MASK_def bit_simps)

lemma and_BIT_MASK: "w AND BIT_MASK nr \<noteq> 0 \<longleftrightarrow> bit w (nr mod 64)" for w :: u64
proof -
  have "w AND BIT_MASK nr = (if bit w (nr mod 64) then BIT_MASK nr else 0)"
    by (rule bit_word_eqI) (auto simp: bit_simps bit_BIT_MASK)
  moreover have "BIT_MASK nr \<noteq> 0"
    by (metis bit_0_eq bit_BIT_MASK bot_apply bot_bool_def)
  ultimately show ?thesis by auto
qed

lemma bitmap_bit_zero: "n < 64 * k \<Longrightarrow> \<not> bitmap_bit (replicate k 0) n"
  by (simp add: bitmap_bit_def less_mult_imp_div_less mult.commute)

lemma bit_index_split: "n div 64 = m div 64 \<and> n mod 64 = m mod 64 \<longleftrightarrow> n = (m::nat)"
  by (metis div_mult_mod_eq)

lemma set_bit_in_range:
  assumes "nr < 64 * length a"
  obtains a' where "set_bit_c nr a = Inr a'" and "length a' = length a"
    and "\<And>n. n < 64 * length a \<Longrightarrow> bitmap_bit a' n \<longleftrightarrow> n = nr \<or> bitmap_bit a n"
proof -
  have p: "nr div 64 < length a" using assms by (simp add: less_mult_imp_div_less mult.commute)
  let ?a' = "a[nr div 64 := OSBitOrAtomic64 (BIT_MASK nr) (a ! (nr div 64))]"
  have "bitmap_bit ?a' n \<longleftrightarrow> n = nr \<or> bitmap_bit a n" if "n < 64 * length a" for n
    using p bit_index_split [of n nr]
    by (auto simp: bitmap_bit_def nth_list_update OSBitOrAtomic64_def OSBitwiseAtomic64_def
        bit_simps bit_BIT_MASK)
  moreover have "set_bit_c nr a = Inr ?a'" using p by (simp add: set_bit_c_def BIT_WORD_def Let_def)
  ultimately show thesis by (intro that [of ?a']) auto
qed

lemma clear_bit_in_range:
  assumes "nr < 64 * length a"
  obtains a' where "clear_bit nr a = Inr a'" and "length a' = length a"
    and "\<And>n. n < 64 * length a \<Longrightarrow> bitmap_bit a' n \<longleftrightarrow> n \<noteq> nr \<and> bitmap_bit a n"
proof -
  have p: "nr div 64 < length a" using assms by (simp add: less_mult_imp_div_less mult.commute)
  let ?a' = "a[nr div 64 := OSBitAndAtomic64 (NOT (BIT_MASK nr)) (a ! (nr div 64))]"
  have "bitmap_bit ?a' n \<longleftrightarrow> n \<noteq> nr \<and> bitmap_bit a n" if "n < 64 * length a" for n
    using p bit_index_split [of n nr]
    by (auto simp: bitmap_bit_def nth_list_update OSBitAndAtomic64_def OSBitwiseAtomic64_def
        bit_simps bit_BIT_MASK)
  moreover have "clear_bit nr a = Inr ?a'" using p by (simp add: clear_bit_def BIT_WORD_def Let_def)
  ultimately show thesis by (intro that [of ?a']) auto
qed


text \<open>
  What a client of a bitmap relies on: setting and clearing an index below the capacity
  succeeds, changes that bit only and keeps the capacity.
\<close>

locale bit_store =
  fixes setb clearb :: "nat \<Rightarrow> 'b \<Rightarrow> 'b run"
    and bits :: "'b \<Rightarrow> nat \<Rightarrow> bool"
    and capacity :: "'b \<Rightarrow> nat"
  assumes setb_ok: "n < capacity b \<Longrightarrow>
      \<exists>b'. setb n b = Inr b' \<and> capacity b' = capacity b \<and>
           (\<forall>m < capacity b. bits b' m \<longleftrightarrow> m = n \<or> bits b m)"
    and clearb_ok: "n < capacity b \<Longrightarrow>
      \<exists>b'. clearb n b = Inr b' \<and> capacity b' = capacity b \<and>
           (\<forall>m < capacity b. bits b' m \<longleftrightarrow> m \<noteq> n \<and> bits b m)"

text \<open>
  The loop of \<open>iwl_set_ucode_api_flags\<close> and \<open>iwl_set_ucode_capabilities\<close>: for every index \<open>i\<close> of the
  list whose bit is set in the flag word, set bit \<open>base + i\<close> of the store.
\<close>

fun set_flagged :: "(nat \<Rightarrow> 'b \<Rightarrow> 'b run) \<Rightarrow> u32 \<Rightarrow> nat \<Rightarrow> nat list \<Rightarrow> 'b \<Rightarrow> 'b run" where
  "set_flagged setb flags base [] b = Inr b"
| "set_flagged setb flags base (i # is) b =
     (if flags AND push_bit i 1 \<noteq> 0
      then bindF (setb (i + base) b) (set_flagged setb flags base is)
      else set_flagged setb flags base is b)"

context bit_store
begin

lemma set_then_clear:
  assumes "n < capacity b"
  shows "\<exists>b'. bindF (setb n b) (clearb n) = Inr b' \<and> capacity b' = capacity b \<and>
           (\<forall>m < capacity b. bits b' m \<longleftrightarrow> m \<noteq> n \<and> bits b m)"
proof -
  obtain b1 where b1: "setb n b = Inr b1" "capacity b1 = capacity b"
      "\<forall>m < capacity b. bits b1 m \<longleftrightarrow> m = n \<or> bits b m"
    using setb_ok [OF assms] by blast
  with assms obtain b2 where "clearb n b1 = Inr b2" "capacity b2 = capacity b1"
      "\<forall>m < capacity b1. bits b2 m \<longleftrightarrow> m \<noteq> n \<and> bits b1 m"
    using clearb_ok [of n b1] by auto
  with b1 show ?thesis by auto
qed

lemma set_flagged_ok:
  assumes "\<forall>i \<in> set is. i + base < capacity b"
  shows "\<exists>b'. set_flagged setb flags base is b = Inr b' \<and> capacity b' = capacity b \<and>
           (\<forall>m < capacity b. bits b' m \<longleftrightarrow>
              bits b m \<or> (\<exists>i \<in> set is. m = i + base \<and> flags AND push_bit i 1 \<noteq> 0))"
  using assms
proof (induction "is" arbitrary: b)
  case Nil
  then show ?case by simp
next
  case (Cons i "is")
  show ?case
  proof (cases "flags AND push_bit i 1 \<noteq> 0")
    case True
    obtain b1 where b1: "setb (i + base) b = Inr b1" "capacity b1 = capacity b"
        "\<forall>m < capacity b. bits b1 m \<longleftrightarrow> m = i + base \<or> bits b m"
      using setb_ok [of "i + base" b] Cons.prems by auto
    from Cons.IH [of b1] Cons.prems b1(2) obtain b2 where
      "set_flagged setb flags base is b1 = Inr b2" "capacity b2 = capacity b1"
      "\<forall>m < capacity b1. bits b2 m \<longleftrightarrow>
         bits b1 m \<or> (\<exists>i \<in> set is. m = i + base \<and> flags AND push_bit i 1 \<noteq> 0)"
      by auto
    with b1 True show ?thesis by auto
  next
    case False
    with Cons.IH [of b] Cons.prems show ?thesis by auto
  qed
qed

end

interpretation words: bit_store set_bit_c clear_bit bitmap_bit "\<lambda>a. 64 * length a"
proof unfold_locales
  fix n and b :: bitmap
  assume n: "n < 64 * length b"
  show "\<exists>b'. set_bit_c n b = Inr b' \<and> 64 * length b' = 64 * length b \<and>
      (\<forall>m < 64 * length b. bitmap_bit b' m \<longleftrightarrow> m = n \<or> bitmap_bit b m)"
    by (rule set_bit_in_range [OF n]) auto
  show "\<exists>b'. clear_bit n b = Inr b' \<and> 64 * length b' = 64 * length b \<and>
      (\<forall>m < 64 * length b. bitmap_bit b' m \<longleftrightarrow> m \<noteq> n \<and> bitmap_bit b m)"
    by (rule clear_bit_in_range [OF n]) auto
qed

lemma and_push_bit_1: "w AND push_bit i 1 \<noteq> 0 \<longleftrightarrow> bit w i" if "i < 32" for w :: u32
proof -
  have "w AND push_bit i 1 = (if bit w i then push_bit i 1 else 0)"
    by (rule bit_word_eqI) (auto simp: bit_simps)
  moreover have "bit (push_bit i 1 :: u32) i" using that by (simp add: bit_simps)
  ultimately show ?thesis by (metis bit_0_eq bot_apply bot_bool_def)
qed

lemma test_bit_eq:
  assumes "a \<noteq> []"
  shows "test_bit nr a = Inr (bitmap_bit a (nr mod 32))"
proof -
  have "bit (ucast (a ! 0) :: u32) (nr mod 32) = bit (a ! 0) (nr mod 32)"
    by (simp add: bit_simps)
  with assms and_push_bit_1 [of "nr mod 32" "ucast (a ! 0)"] show ?thesis
    by (simp add: test_bit_def bitmap_bit_def)
qed

subsection \<open>Search\<close>

text \<open>The specification: the least set bit in \<open>[lo, hi)\<close>, or \<open>hi\<close> when there is none.\<close>

definition next_set :: "bitmap \<Rightarrow> nat \<Rightarrow> nat \<Rightarrow> nat \<Rightarrow> bool" where
  "next_set a lo hi r \<longleftrightarrow> lo \<le> r \<and> r \<le> hi \<and>
     (\<forall>n. lo \<le> n \<and> n < r \<longrightarrow> \<not> bitmap_bit a n) \<and> (r < hi \<longrightarrow> bitmap_bit a r)"

lemma next_set_unique: "next_set a lo hi r \<Longrightarrow> next_set a lo hi r' \<Longrightarrow> r = r'"
  unfolding next_set_def by (metis linorder_neqE_nat order_less_le_trans)

lemma ffs64_spec:
  assumes "w \<noteq> 0"
  shows "unat (ffs64 w) < 64" and "bit w (unat (ffs64 w))" and "\<And>n. n < unat (ffs64 w) \<Longrightarrow> \<not> bit w n"
proof -
  have "\<exists>n < 64. bit w n" using word_neq_0_bit [OF assms] by simp
  then have "find (bit w) [0..<64] \<noteq> None"
    by (auto simp: find_None_iff)
  then obtain k where k: "find (bit w) [0..<64] = Some k" by auto
  then obtain i where "i < length [0..<64]" "bit w ([0..<64] ! i)" "k = [0..<64] ! i"
      "\<forall>j < i. \<not> bit w ([0..<64] ! j)"
    by (auto simp: find_Some_iff)
  then have *: "k < 64" "bit w k" "\<forall>j < k. \<not> bit w j" by (auto simp: less_trans)
  have "ffs64 w = of_nat k" using k by (simp add: ffs64_def)
  with *(1) have "unat (ffs64 w) = k" by (simp add: unat_of_nat_small)
  with * show "unat (ffs64 w) < 64" "bit w (unat (ffs64 w))" "\<And>n. n < unat (ffs64 w) \<Longrightarrow> \<not> bit w n"
    by auto
qed


lemma bitmap_bit_word: "k < 64 \<Longrightarrow> bitmap_bit a (64 * p + k) = bit (a ! p) k"
  by (simp add: bitmap_bit_def)

lemma u64_63: "(63 :: u64) = mask 6"
  by (simp add: mask_eq_exp_minus_1)

lemma unat_align64: "unat (w AND NOT 63) = unat w div 64 * 64" for w :: u64
  unfolding u64_63 unat_and_not_mask by simp

lemma align64_nonzero: "sz AND NOT 63 \<noteq> 0 \<longleftrightarrow> 64 \<le> unat sz" for sz :: u64
proof -
  have "sz AND NOT 63 \<noteq> 0 \<longleftrightarrow> unat (sz AND NOT 63) \<noteq> 0" by (simp add: unat_eq_zero)
  also have "\<dots> \<longleftrightarrow> 64 \<le> unat sz" unfolding unat_align64 by (simp add: div_greater_zero_iff)
  finally show ?thesis .
qed

lemma bit_low_mask:
  fixes sz :: u64
  assumes "0 < unat sz" and "unat sz < 64"
  shows "bit (drop_bit (unat (64 - sz)) (- 1 :: u64)) n \<longleftrightarrow> n < unat sz"
proof -
  have "sz \<le> 64" using assms by (simp add: word_le_nat_alt)
  then have "unat (64 - sz) = 64 - unat sz" by (simp add: unat_sub)
  with assms show ?thesis by (auto simp: bit_simps)
qed

lemma next_set_in_word:
  assumes "w \<noteq> 0" and "unat result = 64 * p" and "64 * p + 64 \<le> 2 ^ 64"
    and "\<And>n. bit w n \<longleftrightarrow> n < 64 \<and> lo \<le> 64 * p + n \<and> 64 * p + n < hi \<and> bit (a ! p) n"
    and "64 * p \<le> lo" and "lo < 64 * p + 64"
  shows "next_set a lo hi (unat (result + ffs64 w))"
proof -
  let ?k = "unat (ffs64 w)"
  note f = ffs64_spec [OF assms(1)]
  have u: "unat (result + ffs64 w) = 64 * p + ?k"
    using assms(2,3) f(1) by (subst unat_add_small) auto
  have "\<not> bitmap_bit a n" if "lo \<le> n" "n < 64 * p + ?k" for n
  proof -
    let ?m = "n - 64 * p"
    have m: "n = 64 * p + ?m" "?m < ?k" "?m < 64" using that assms(5) f(1) by linarith+
    then have "\<not> bit w ?m" using f(3) by blast
    moreover have "bit w ?k" by (rule f(2))
    ultimately have "\<not> bit (a ! p) ?m"
      using assms(4) [of ?m] assms(4) [of ?k] m that by simp
    with m show ?thesis by (metis bitmap_bit_word)
  qed
  moreover have "lo \<le> 64 * p + ?k" "64 * p + ?k < hi" "bit (a ! p) ?k"
    using assms(4) [of ?k] f(2) by auto
  ultimately show ?thesis
    unfolding next_set_def u using f(1) by (simp add: bitmap_bit_word)
qed

lemma next_set_none: "(\<And>n. lo \<le> n \<Longrightarrow> n < hi \<Longrightarrow> \<not> bitmap_bit a n) \<Longrightarrow> lo \<le> hi \<Longrightarrow> next_set a lo hi hi"
  by (simp add: next_set_def)

lemma next_set_skip:
  "next_set a m hi r \<Longrightarrow> lo \<le> m \<Longrightarrow> (\<And>n. lo \<le> n \<Longrightarrow> n < m \<Longrightarrow> \<not> bitmap_bit a n) \<Longrightarrow> next_set a lo hi r"
  unfolding next_set_def by (meson le_trans linorder_not_le)

lemma word_room: "64 * p + 64 \<le> (2::nat) ^ 64" if "64 * p < (2::nat) ^ 64"
proof -
  have "64 * p < 64 * (2::nat) ^ 58" using that by simp
  then have "64 * Suc p \<le> 64 * (2::nat) ^ 58" by (metis Suc_leI mult_le_mono2 nat_mult_less_cancel_disj)
  then show ?thesis by simp
qed

text \<open>The last, partial word: \<open>tmp\<close> holds the bits of word \<open>p\<close> from \<open>lo\<close> on.\<close>

lemma found_first_spec:
  fixes sz result tmp :: u64
  assumes "0 < unat sz" and "unat sz < 64" and "unat result = 64 * p"
    and "64 * p + 64 \<le> 2 ^ 64" and "64 * p \<le> lo" and "lo \<le> 64 * p + unat sz"
    and "\<And>n. bit tmp n \<longleftrightarrow> n < 64 \<and> lo \<le> 64 * p + n \<and> bit (a ! p) n"
  shows "next_set a lo (64 * p + unat sz) (unat (fnb_found_first tmp sz result))"
proof -
  let ?w = "tmp AND drop_bit (unat (64 - sz)) (- 1)"
  have w: "bit ?w n \<longleftrightarrow> n < 64 \<and> lo \<le> 64 * p + n \<and> 64 * p + n < 64 * p + unat sz \<and> bit (a ! p) n" for n
    unfolding bit_and_iff bit_low_mask [OF assms(1,2)] using assms(7) [of n] by auto
  show ?thesis
  proof (cases "?w = 0")
    case True
    have "unat (result + sz) = 64 * p + unat sz"
      using assms(2,3,4) by (subst unat_add_small) auto
    moreover have "\<not> bitmap_bit a n" if n: "lo \<le> n" "n < 64 * p + unat sz" for n
    proof -
      have "\<not> bit (a ! p) (n - 64 * p)"
        using w [of "n - 64 * p"] True n assms(2,5) by (simp add: less_diff_conv2)
      then show ?thesis
        using bitmap_bit_word [of "n - 64 * p" a p] n assms(2,5) by simp
    qed
    ultimately show ?thesis
      using True assms(6) by (simp add: fnb_found_first_def next_set_none)
  next
    case False
    have "lo < 64 * p + 64" using assms(2,6) by linarith
    from next_set_in_word [OF False assms(3,4) w assms(5) this] False show ?thesis
      by (simp add: fnb_found_first_def)
  qed
qed

lemma fnb_loop_spec:
  fixes sz result :: u64
  assumes "unat result = 64 * p" and "64 * p + unat sz \<le> 64 * length a" and "64 * p + unat sz < 2 ^ 64"
  shows "\<exists>r. fnb_loop a p sz result = Inr r \<and> next_set a (64 * p) (64 * p + unat sz) (unat r)"
  using assms
proof (induction a p sz result rule: fnb_loop.induct)
  case (1 a p sz result)
  note IH = "1.IH" and pre = "1.prems"
  have cap: "64 * p + 64 \<le> (2::nat) ^ 64"
    using pre(3) by (intro word_room) simp
  show ?case
  proof (cases "64 \<le> unat sz")
    case big: True
    then have g: "sz AND NOT 63 \<noteq> 0" using align64_nonzero by blast
    have p: "p < length a" using big pre(2) by linarith
    show ?thesis
    proof (cases "a ! p = 0")
      case True
      have s: "unat (sz - 64) = unat sz - 64" using big by (simp add: unat_sub word_le_nat_alt)
      have r: "unat (result + 64) = 64 * Suc p"
        using pre(1,3) big by (subst unat_add_small) auto
      have "\<exists>r. fnb_loop a (Suc p) (sz - 64) (result + 64) = Inr r \<and>
          next_set a (64 * Suc p) (64 * Suc p + unat (sz - 64)) (unat r)"
        using g p True r s pre big by (intro IH) auto
      then obtain r where r: "fnb_loop a (Suc p) (sz - 64) (result + 64) = Inr r"
          and n: "next_set a (64 * Suc p) (64 * p + unat sz) (unat r)"
        using s big by auto
      have "\<not> bitmap_bit a n" if "64 * p \<le> n" "n < 64 * Suc p" for n
        using bitmap_bit_word [of "n - 64 * p" a p] that True by simp
      with n have "next_set a (64 * p) (64 * p + unat sz) (unat r)"
        by (rule_tac next_set_skip) auto
      with r g p True show ?thesis by (simp add: fnb_loop.simps [of a p])
    next
      case False
      have "bit (a ! p) n \<longleftrightarrow> n < 64 \<and> 64 * p \<le> 64 * p + n \<and> 64 * p + n < 64 * p + unat sz \<and> bit (a ! p) n" for n
        using big bit_imp_le_length [of "a ! p" n] by auto
      from next_set_in_word [OF False pre(1) cap this] g p False show ?thesis
        by (simp add: fnb_loop.simps [of a p])
    qed
  next
    case small: False
    then have g: "sz AND NOT 63 = 0" using align64_nonzero by blast
    show ?thesis
    proof (cases "sz = 0")
      case True
      with g pre(1) show ?thesis by (simp add: fnb_loop.simps [of a p] next_set_none)
    next
      case False
      then have z: "0 < unat sz" by (simp add: unat_gt_0)
      have p: "p < length a" using z pre(2) by linarith
      have "bit (a ! p) n \<longleftrightarrow> n < 64 \<and> 64 * p \<le> 64 * p + n \<and> bit (a ! p) n" for n
        using bit_imp_le_length [of "a ! p" n] by auto
      from found_first_spec [OF z _ pre(1) cap _ _ this] small g p False show ?thesis
        by (simp add: fnb_loop.simps [of a p] rdw_def)
    qed
  qed
qed

text \<open>
  The word that holds an unaligned offset. The bits at or after the offset are in \<open>tmp\<close>; the
  search ends in this word or goes on with the next one.
\<close>

lemma offset_in_word: "x \<le> 64 * (x div 64) + n \<longleftrightarrow> x mod 64 \<le> n" for x n :: nat
  by (metis add_le_cancel_left mult_div_mod_eq)

lemma fnb_unaligned_last:
  fixes sz offset :: u64
  assumes p: "unat offset div 64 = p" and lt: "unat offset < 64 * p + unat sz" and "unat sz < 64"
    and res: "unat result = 64 * p" and cap: "64 * p + 64 \<le> (2::nat) ^ 64"
  shows "next_set a (unat offset) (64 * p + unat sz)
     (unat (fnb_found_first (a ! p AND push_bit (unat offset mod 64) (- 1)) sz result))"
proof (rule found_first_spec [OF _ assms(3) res cap])
  show "0 < unat sz" "64 * p \<le> unat offset" "unat offset \<le> 64 * p + unat sz"
    using p lt by linarith+
  show "bit (a ! p AND push_bit (unat offset mod 64) (- 1)) n \<longleftrightarrow>
      n < 64 \<and> unat offset \<le> 64 * p + n \<and> bit (a ! p) n" for n
    using bit_imp_le_length [of "a ! p" n] p by (auto simp: bit_simps offset_in_word)
qed

lemma fnb_unaligned_more:
  fixes sz offset result :: u64 and a :: bitmap and hi :: nat
  defines "p \<equiv> unat offset div 64"
  defines "tmp \<equiv> a ! p AND push_bit (unat offset mod 64) (- 1)"
  assumes ge: "64 \<le> unat sz" and tot: "64 * p + unat sz = hi" and hi: "hi \<le> 64 * length a" "hi < 2 ^ 64"
    and res: "unat result = 64 * p"
  shows "\<exists>r. (if tmp \<noteq> 0 then Inr (result + ffs64 tmp)
              else fnb_loop a (Suc p) (sz - 64) (result + 64)) = Inr r \<and>
             next_set a (unat offset) hi (unat r)"
proof -
  have tmp: "bit tmp n \<longleftrightarrow> n < 64 \<and> unat offset \<le> 64 * p + n \<and> bit (a ! p) n" for n
    using bit_imp_le_length [of "a ! p" n] by (auto simp: bit_simps tmp_def p_def offset_in_word)
  have lo: "64 * p \<le> unat offset" "unat offset < 64 * p + 64" by (simp_all add: p_def)
  have cap: "64 * p + 64 \<le> (2::nat) ^ 64" using tot hi by (intro word_room) linarith
  show ?thesis
  proof (cases "tmp = 0")
    case True
    have r: "unat (result + 64) = 64 * Suc p" using res tot ge hi by (subst unat_add_small) auto
    have s: "unat (sz - 64) = unat sz - 64" using ge by (subst unat_sub) (simp_all add: word_le_nat_alt)
    have t: "64 * Suc p + unat (sz - 64) = hi" using s tot ge by simp
    obtain r where r: "fnb_loop a (Suc p) (sz - 64) (result + 64) = Inr r"
        and n: "next_set a (64 * Suc p) hi (unat r)"
      using fnb_loop_spec [OF r, of "sz - 64" a] t hi by auto
    have none: "\<not> bitmap_bit a n" if "unat offset \<le> n" "n < 64 * Suc p" for n
    proof -
      have "\<not> bit (a ! p) (n - 64 * p)" using tmp [of "n - 64 * p"] True that lo by simp
      then show ?thesis using bitmap_bit_word [of "n - 64 * p" a p] that lo by simp
    qed
    from next_set_skip [OF n _ none] lo have "next_set a (unat offset) hi (unat r)" by simp
    with r True show ?thesis by simp
  next
    case False
    have "bit tmp n \<longleftrightarrow> n < 64 \<and> unat offset \<le> 64 * p + n \<and> 64 * p + n < hi \<and> bit (a ! p) n" for n
      unfolding tmp using ge tot by auto
    from next_set_in_word [OF False res cap this lo] False show ?thesis by simp
  qed
qed

text \<open>
  C1: \<open>find_next_bit\<close> reads only words of the array and returns the least set bit at or after
  the offset and below the size, or the size when there is none.
\<close>

theorem find_next_bit_correct:
  assumes "unat sz \<le> 64 * length a"
  shows "\<exists>r. find_next_bit a sz offset = Inr r \<and>
     (if offset \<ge> sz then r = sz else next_set a (unat offset) (unat sz) (unat r))"
proof (cases "offset \<ge> sz")
  case True
  then show ?thesis by (simp add: find_next_bit_def)
next
  case False
  define p where "p = unat offset div 64"
  let ?res = "offset AND NOT 63" and ?k = "unat offset mod 64"
  have lt: "unat offset < unat sz" using False by (simp add: word_less_nat_alt not_le)
  have res: "unat ?res = 64 * p" using unat_align64 [of offset] by (simp add: p_def mult.commute)
  have "?res \<le> sz" using res lt by (simp add: word_le_nat_alt p_def)
  then have tot: "64 * p + unat (sz - ?res) = unat sz"
    using res lt by (simp add: unat_sub p_def)
  have pd: "unat (offset div 64) = p" and pm: "unat (offset mod 64) = ?k"
    by (simp_all add: unat_div unat_mod p_def)
  have szb: "unat sz < 2 ^ 64" using unsigned_less [of sz] by simp
  have p: "p < length a" using lt assms by (simp add: less_mult_imp_div_less mult.commute p_def)
  consider "offset mod 64 = 0" | "offset mod 64 \<noteq> 0" "sz - ?res < 64"
    | "offset mod 64 \<noteq> 0" "\<not> sz - ?res < 64" by blast
  then show ?thesis
  proof cases
    case 1
    then have "unat offset = 64 * p" using pm by (auto simp: p_def)
    with 1 False pd fnb_loop_spec [OF res, of "sz - ?res" a] tot assms szb show ?thesis
      by (simp add: find_next_bit_def Let_def)
  next
    case 2
    then have "unat (sz - ?res) < 64" by (simp add: word_less_nat_alt)
    moreover have "64 * p + 64 \<le> (2::nat) ^ 64" using tot szb by (intro word_room) linarith
    ultimately have "next_set a (unat offset) (unat sz)
        (unat (fnb_found_first (a ! p AND push_bit ?k (- 1)) (sz - ?res) ?res))"
      using fnb_unaligned_last [of offset p "sz - ?res" ?res a] tot lt res by (simp add: p_def)
    with 2 False p pd pm show ?thesis by (simp add: find_next_bit_def Let_def rdw_def)
  next
    case 3
    then have "64 \<le> unat (sz - ?res)" by (simp add: word_less_nat_alt not_less)
    from fnb_unaligned_more [OF this, of offset "unat sz" a ?res] tot assms szb res
    obtain r where "(if a ! p AND push_bit ?k (- 1) \<noteq> 0
          then Inr (?res + ffs64 (a ! p AND push_bit ?k (- 1)))
          else fnb_loop a (Suc p) (sz - ?res - 64) (?res + 64)) = Inr r"
        and "next_set a (unat offset) (unat sz) (unat r)"
      by (auto simp only: p_def)
    with 3 False p pd pm show ?thesis
      by (auto simp: find_next_bit_def Let_def rdw_def split: if_splits)
  qed
qed

theorem find_next_bit_correct_witness:
  "find_next_bit [0, 0x8000000000000010] 128 70 = Inr 127 \<and>
   next_set [0, 0x8000000000000010] 70 128 127"
proof -
  have v: "find_next_bit [0, 0x8000000000000010] 128 70 = Inr 127" by code_simp
  have "unat (128 :: u64) \<le> 64 * length [0, 0x8000000000000010 :: u64]" by simp
  from find_next_bit_correct [OF this, of 70] v show ?thesis by simp
qed

text \<open>
  \<open>test_bit\<close> answers about bit \<open>nr mod 32\<close> of the bitmap whatever \<open>nr\<close> is, so for \<open>nr\<close>
  of 32 and more it does not see what \<open>set_bit\<close> stored: starting from a cleared map the bit that
  was just set tests as clear.
\<close>

theorem test_bit_after_set_bit:
  assumes "nr < 64 * length a" and "\<forall>n < 64 * length a. \<not> bitmap_bit a n"
  shows "\<exists>a'. set_bit_c nr a = Inr a' \<and> bitmap_bit a' nr \<and> test_bit nr a' = Inr (nr < 32)"
proof -
  obtain a' where a': "set_bit_c nr a = Inr a'" "length a' = length a"
      "\<And>n. n < 64 * length a \<Longrightarrow> bitmap_bit a' n \<longleftrightarrow> n = nr \<or> bitmap_bit a n"
    using set_bit_in_range [OF assms(1)] by blast
  have "a' \<noteq> []" using assms(1) a'(2) by auto
  then have t: "test_bit nr a' = Inr (bitmap_bit a' (nr mod 32))" by (rule test_bit_eq)
  have "nr mod 32 < 64 * length a"
    using assms(1) by (meson le_less_trans mod_less_eq_dividend)
  then have "bitmap_bit a' (nr mod 32) \<longleftrightarrow> nr mod 32 = nr" using a'(3) assms(2) by blast
  also have "\<dots> \<longleftrightarrow> nr < 32" by (metis mod_less mod_less_divisor zero_less_numeral)
  finally have "test_bit nr a' = Inr (nr < 32)" using t by (simp only:)
  with a'(1) a'(3) [OF assms(1)] show ?thesis by blast
qed

theorem test_bit_after_set_bit_witness:
  "\<exists>a'. set_bit_c 77 (replicate 2 0) = Inr a' \<and> bitmap_bit a' 77 \<and> test_bit 77 a' = Inr (77 < (32::nat))"
  by (rule test_bit_after_set_bit) (simp_all add: bitmap_bit_zero del: replicate.simps)

end
