(* ===== verification/Fw_File.thy ===== *)
theory Fw_File
  imports Bitmap
begin

section \<open>Firmware files: parsing into pieces\<close>

text \<open>
  The first half of \<^verbatim>\<open>iwlwifi/iwl-drv.c\<close>: the file formats of \<^verbatim>\<open>iwlwifi/fw/file.h\<close>, the
  structures of \<^verbatim>\<open>iwlwifi/fw/img.h\<close> that the parser fills, and the parsers of the two formats.
  The file is the list of its bytes; a pointer into the file is an offset. A section array
  that comes from \<open>iwh_malloc\<close> holds indeterminate values until they are written, so the
  fields of \<open>fw_sec\<close> are options and reading an unwritten one is the fault \<open>Indeterminate\<close>.
  \<open>size_t\<close> values are 64-bit words: the subtraction that advances the TLV loop wraps around.
\<close>

subsection \<open>Data\<close>

datatype iwl_ucode_type =
    IWL_UCODE_REGULAR | IWL_UCODE_INIT | IWL_UCODE_WOWLAN | IWL_UCODE_REGULAR_USNIFFER

definition ucode_types :: "iwl_ucode_type list" where
  "ucode_types = [IWL_UCODE_REGULAR, IWL_UCODE_INIT, IWL_UCODE_WOWLAN, IWL_UCODE_REGULAR_USNIFFER]"

abbreviation IWL_UCODE_SECTION_DATA :: nat where "IWL_UCODE_SECTION_DATA \<equiv> 0"
abbreviation IWL_UCODE_SECTION_INST :: nat where "IWL_UCODE_SECTION_INST \<equiv> 1"

abbreviation IWLAGN_RTC_INST_LOWER_BOUND :: u32 where "IWLAGN_RTC_INST_LOWER_BOUND \<equiv> 0"
abbreviation IWLAGN_RTC_DATA_LOWER_BOUND :: u32 where "IWLAGN_RTC_DATA_LOWER_BOUND \<equiv> 0x800000"

record fw_sec =
  sec_data :: "nat option"
  sec_size :: "u64 option"
  sec_offset :: "u32 option"

definition uninit_sec :: fw_sec where
  "uninit_sec = \<lparr>sec_data = None, sec_size = None, sec_offset = None\<rparr>"

record fw_img_parsing =
  img_sec :: "fw_sec list option"
  sec_counter :: nat

record iwl_fw_dbg_mem_seg_tlv =
  data_type :: u32
  ofs :: u32
  seg_len :: u32

record iwl_firmware_pieces =
  pimg :: "iwl_ucode_type \<Rightarrow> fw_img_parsing"
  p_init_evtlog_ptr :: u32
  p_init_evtlog_size :: u32
  p_init_errlog_ptr :: u32
  p_inst_evtlog_ptr :: u32
  p_inst_evtlog_size :: u32
  p_inst_errlog_ptr :: u32
  p_dbg_dest_tlv :: "nat option"
  p_dbg_conf_tlv :: "nat option list"
  p_dbg_conf_tlv_len :: "u64 list"
  p_dbg_trigger_tlv :: "nat option list"
  p_dbg_trigger_tlv_len :: "u64 list"
  p_dbg_mem_tlv :: "iwl_fw_dbg_mem_seg_tlv list"

abbreviation FW_DBG_CONF_MAX :: nat where "FW_DBG_CONF_MAX \<equiv> 32"
abbreviation FW_DBG_TRIGGER_MAX :: nat where "FW_DBG_TRIGGER_MAX \<equiv> 15"

text \<open>What \<open>iwh_zalloc(sizeof( *pieces))\<close> gives.\<close>

definition zero_pieces :: iwl_firmware_pieces where
  "zero_pieces = \<lparr>pimg = (\<lambda>_. \<lparr>img_sec = None, sec_counter = 0\<rparr>),
     p_init_evtlog_ptr = 0, p_init_evtlog_size = 0, p_init_errlog_ptr = 0,
     p_inst_evtlog_ptr = 0, p_inst_evtlog_size = 0, p_inst_errlog_ptr = 0,
     p_dbg_dest_tlv = None,
     p_dbg_conf_tlv = replicate FW_DBG_CONF_MAX None,
     p_dbg_conf_tlv_len = replicate FW_DBG_CONF_MAX 0,
     p_dbg_trigger_tlv = replicate FW_DBG_TRIGGER_MAX None,
     p_dbg_trigger_tlv_len = replicate FW_DBG_TRIGGER_MAX 0,
     p_dbg_mem_tlv = []\<rparr>"

record iwl_ucode_capabilities =
  max_probe_length :: u32
  n_scan_channels :: u32
  standard_phy_calibration_size :: u32
  capa_flags :: u32
  api_bits :: bitmap
  capa_bits :: bitmap

definition fw_has_api :: "iwl_ucode_capabilities \<Rightarrow> nat \<Rightarrow> bool run" where
  "fw_has_api c api = test_bit api (api_bits c)"

definition fw_has_capa :: "iwl_ucode_capabilities \<Rightarrow> nat \<Rightarrow> bool run" where
  "fw_has_capa c capa = test_bit capa (capa_bits c)"

abbreviation IWL_UCODE_TLV_API_NEW_VERSION :: nat where "IWL_UCODE_TLV_API_NEW_VERSION \<equiv> 20"
abbreviation IWL_UCODE_TLV_CAPA_GSCAN_SUPPORT :: nat where "IWL_UCODE_TLV_CAPA_GSCAN_SUPPORT \<equiv> 31"
abbreviation IWL_UCODE_TLV_CAPA_USNIFFER_UNIFIED :: nat where "IWL_UCODE_TLV_CAPA_USNIFFER_UNIFIED \<equiv> 77"
abbreviation NUM_IWL_UCODE_TLV_API :: nat where "NUM_IWL_UCODE_TLV_API \<equiv> 46"
abbreviation NUM_IWL_UCODE_TLV_CAPA :: nat where "NUM_IWL_UCODE_TLV_CAPA \<equiv> 97"

definition DIV_ROUND_UP :: "nat \<Rightarrow> nat \<Rightarrow> nat" where
  "DIV_ROUND_UP n d = (n + d - 1) div d"

record iwl_tlv_calib_ctrl =
  flow_trigger :: u32
  event_trigger :: u32

record iwl_fw_cipher_scheme =
  cipher :: u32
  cs_flags :: u8
  hdr_len :: u8
  pn_len :: u8
  pn_off :: u8
  key_idx_off :: u8
  key_idx_mask :: u8
  key_idx_shift :: u8
  mic_len :: u8
  hw_cipher :: u8

abbreviation IWL_UCODE_MAX_CS :: nat where "IWL_UCODE_MAX_CS \<equiv> 1"

record iwl_gscan_capabilities =
  max_scan_cache_size :: u32
  max_scan_buckets :: u32
  max_ap_cache_per_scan :: u32
  max_rssi_sample_size :: u32
  max_scan_reporting_threshold :: u32
  max_hotlist_aps :: u32
  max_significant_change_aps :: u32
  max_bssid_history_entries :: u32
  max_hotlist_ssids :: u32
  max_number_epno_networks :: u32
  max_number_epno_networks_by_ssid :: u32
  max_number_of_white_listed_ssid :: u32
  max_number_of_black_listed_ssid :: u32

datatype iwl_fw_type = IWL_FW_DVM | IWL_FW_MVM

text \<open>\<open>fw_img.sec\<close> is the address of a heap block (see \<open>Iwl_Drv\<close>); the parser does not touch it.\<close>

record fw_img =
  fw_img_sec :: "nat option"
  num_sec :: nat
  is_dual_cpus :: bool
  paging_mem_size :: u32

record iwl_fw =
  ucode_ver :: u32
  fw_version :: string
  img :: "iwl_ucode_type \<Rightarrow> fw_img"
  ucode_capa :: iwl_ucode_capabilities
  enhance_sensitivity_table :: bool
  init_evtlog_ptr :: u32
  init_evtlog_size :: u32
  init_errlog_ptr :: u32
  inst_evtlog_ptr :: u32
  inst_evtlog_size :: u32
  inst_errlog_ptr :: u32
  default_calib :: "iwl_ucode_type \<Rightarrow> iwl_tlv_calib_ctrl"
  phy_config :: u32
  valid_tx_ant :: u8
  valid_rx_ant :: u8
  fw_type :: iwl_fw_type
  cs :: "iwl_fw_cipher_scheme list"
  human_readable :: "u8 list"
  sdio_adma_addr :: u32
  dbg_dest_tlv :: "nat option"
  dbg_conf_tlv :: "nat option list"
  dbg_conf_tlv_len :: "u64 list"
  dbg_trigger_tlv :: "nat option list"
  dbg_trigger_tlv_len :: "u64 list"
  dbg_mem_tlv :: "iwl_fw_dbg_mem_seg_tlv list"
  dbg_dest_reg_num :: u8
  gscan_capa :: iwl_gscan_capabilities

text \<open>What \<open>iwh_zalloc(sizeof( *drv))\<close> leaves in \<open>drv->fw\<close>.\<close>

definition zero_capa :: iwl_ucode_capabilities where
  "zero_capa = \<lparr>max_probe_length = 0, n_scan_channels = 0, standard_phy_calibration_size = 0,
     capa_flags = 0, api_bits = [0], capa_bits = [0, 0]\<rparr>"

definition zero_fw :: iwl_fw where
  "zero_fw = \<lparr>ucode_ver = 0, fw_version = [],
     img = (\<lambda>_. \<lparr>fw_img_sec = None, num_sec = 0, is_dual_cpus = False, paging_mem_size = 0\<rparr>),
     ucode_capa = zero_capa, enhance_sensitivity_table = False,
     init_evtlog_ptr = 0, init_evtlog_size = 0, init_errlog_ptr = 0,
     inst_evtlog_ptr = 0, inst_evtlog_size = 0, inst_errlog_ptr = 0,
     default_calib = (\<lambda>_. \<lparr>flow_trigger = 0, event_trigger = 0\<rparr>),
     phy_config = 0, valid_tx_ant = 0, valid_rx_ant = 0, fw_type = IWL_FW_DVM,
     cs = replicate IWL_UCODE_MAX_CS \<lparr>cipher = 0, cs_flags = 0, hdr_len = 0, pn_len = 0, pn_off = 0,
        key_idx_off = 0, key_idx_mask = 0, key_idx_shift = 0, mic_len = 0, hw_cipher = 0\<rparr>,
     human_readable = replicate 64 0, sdio_adma_addr = 0, dbg_dest_tlv = None,
     dbg_conf_tlv = replicate FW_DBG_CONF_MAX None, dbg_conf_tlv_len = replicate FW_DBG_CONF_MAX 0,
     dbg_trigger_tlv = replicate FW_DBG_TRIGGER_MAX None,
     dbg_trigger_tlv_len = replicate FW_DBG_TRIGGER_MAX 0,
     dbg_mem_tlv = [], dbg_dest_reg_num = 0,
     gscan_capa = \<lparr>max_scan_cache_size = 0, max_scan_buckets = 0, max_ap_cache_per_scan = 0,
        max_rssi_sample_size = 0, max_scan_reporting_threshold = 0, max_hotlist_aps = 0,
        max_significant_change_aps = 0, max_bssid_history_entries = 0, max_hotlist_ssids = 0,
        max_number_epno_networks = 0, max_number_epno_networks_by_ssid = 0,
        max_number_of_white_listed_ssid = 0, max_number_of_black_listed_ssid = 0\<rparr>\<rparr>"

text \<open>
  The state of one parse: the \<open>iwl_fw\<close> of the driver (the capabilities pointer the callers
  pass is \<open>&fw->ucode_capa\<close>), the pieces, the parser's three flags and the allocator's answers.
\<close>

record parse_state =
  fw :: iwl_fw
  pieces :: iwl_firmware_pieces
  usniffer_images :: bool
  usniffer_req :: bool
  has_gscan_capa :: bool
  mem :: answers

definition init_state :: parse_state where
  "init_state = \<lparr>fw = zero_fw, pieces = zero_pieces, usniffer_images = False, usniffer_req = False,
     has_gscan_capa = False, mem = []\<rparr>"

subsection \<open>Sections\<close>

definition upd_img :: "iwl_ucode_type \<Rightarrow> fw_img_parsing \<Rightarrow> iwl_firmware_pieces \<Rightarrow> iwl_firmware_pieces" where
  "upd_img ty i p = p\<lparr>pimg := (pimg p)(ty := i)\<rparr>"

type_synonym pmem = "iwl_firmware_pieces \<times> answers"

definition alloc_sec_data :: "iwl_ucode_type \<Rightarrow> nat \<Rightarrow> pmem \<Rightarrow> pmem run" where
  "alloc_sec_data ty sec pm =
     (let (p, m) = pm; i = pimg p ty; sz = sec + 1 in
      if img_sec i \<noteq> None \<and> sec_counter i \<ge> sz then Inr (p, m)
      else let (okay, m') = iwh_malloc m in
        if \<not> okay then Inr (p, m')
        else case img_sec i of
            Some xs \<Rightarrow>
              if sec_counter i > 0 then
                (if sec \<le> length xs
                 then Inr (upd_img ty \<lparr>img_sec = Some (take sec xs @ [uninit_sec]), sec_counter = sz\<rparr> p, m')
                 else Inl OutOfBounds)
              else Inr (upd_img ty \<lparr>img_sec = Some (replicate sz uninit_sec), sec_counter = sz\<rparr> p, m')
          | None \<Rightarrow>
              Inr (upd_img ty \<lparr>img_sec = Some (replicate sz uninit_sec), sec_counter = sz\<rparr> p, m'))"

text \<open>A write to \<open>pieces->img[type].sec[sec]\<close>.\<close>

definition upd_sec :: "iwl_ucode_type \<Rightarrow> nat \<Rightarrow> (fw_sec \<Rightarrow> fw_sec) \<Rightarrow> pmem \<Rightarrow> pmem run" where
  "upd_sec ty sec f pm =
     (let (p, m) = pm; i = pimg p ty in
      case img_sec i of None \<Rightarrow> Inl NullDeref
      | Some xs \<Rightarrow> if sec < length xs
          then Inr (upd_img ty (i\<lparr>img_sec := Some (xs[sec := f (xs ! sec)])\<rparr>) p, m)
          else Inl OutOfBounds)"

definition get_sec :: "iwl_firmware_pieces \<Rightarrow> iwl_ucode_type \<Rightarrow> nat \<Rightarrow> fw_sec run" where
  "get_sec p ty sec = (case img_sec (pimg p ty) of None \<Rightarrow> Inl NullDeref
     | Some xs \<Rightarrow> if sec < length xs then Inr (xs ! sec) else Inl OutOfBounds)"

definition set_sec_data :: "iwl_ucode_type \<Rightarrow> nat \<Rightarrow> nat \<Rightarrow> pmem \<Rightarrow> pmem run" where
  "set_sec_data ty sec dat pm =
     bindF (alloc_sec_data ty sec pm) (upd_sec ty sec (\<lambda>s. s\<lparr>sec_data := Some dat\<rparr>))"

definition set_sec_size :: "iwl_ucode_type \<Rightarrow> nat \<Rightarrow> u64 \<Rightarrow> pmem \<Rightarrow> pmem run" where
  "set_sec_size ty sec sz pm =
     bindF (alloc_sec_data ty sec pm) (upd_sec ty sec (\<lambda>s. s\<lparr>sec_size := Some sz\<rparr>))"

definition set_sec_offset :: "iwl_ucode_type \<Rightarrow> nat \<Rightarrow> u32 \<Rightarrow> pmem \<Rightarrow> pmem run" where
  "set_sec_offset ty sec off pm =
     bindF (alloc_sec_data ty sec pm) (upd_sec ty sec (\<lambda>s. s\<lparr>sec_offset := Some off\<rparr>))"

definition get_sec_size :: "iwl_firmware_pieces \<Rightarrow> iwl_ucode_type \<Rightarrow> nat \<Rightarrow> u64 run" where
  "get_sec_size p ty sec = bindF (get_sec p ty sec)
     (\<lambda>s. case sec_size s of None \<Rightarrow> Inl Indeterminate | Some n \<Rightarrow> Inr n)"

text \<open>Run an operation on the pieces inside the parse state.\<close>

definition on_pieces :: "(pmem \<Rightarrow> pmem run) \<Rightarrow> parse_state \<Rightarrow> parse_state run" where
  "on_pieces f s = bindF (f (pieces s, mem s)) (\<lambda>(p, m). Inr (s\<lparr>pieces := p, mem := m\<rparr>))"

text \<open>
  \<open>iwl_store_ucode_sec\<close>. The old array is copied before the check for NULL, so a refused
  allocation is a write through NULL unless nothing is copied. The size parameter is an
  \<open>int\<close>: \<open>size - sizeof(offset)\<close> sign-extends it and wraps around below 4.
\<close>

definition iwl_store_ucode_sec ::
  "u8 list \<Rightarrow> nat \<Rightarrow> iwl_ucode_type \<Rightarrow> u32 \<Rightarrow> pmem \<Rightarrow> pmem outcome" where
  "iwl_store_ucode_sec raw dat ty sz pm =
     (let (p, m) = pm; i = pimg p ty; n = sec_counter i; (okay, m') = iwh_malloc m in
      if \<not> okay then (if n = 0 then fail ENOMEM (p, m') else Inl NullDeref)
      else bindF (case img_sec i of
          None \<Rightarrow> if n = 0 then Inr [] else Inl NullDeref
        | Some xs \<Rightarrow> if n \<le> length xs then Inr (take n xs) else Inl OutOfBounds)
        (\<lambda>old. bindF (rd32 raw dat) (\<lambda>off.
          let sec = \<lparr>sec_data = Some (dat + 4), sec_size = Some (scast sz - 4), sec_offset = Some off\<rparr>
          in ok (upd_img ty \<lparr>img_sec = Some (old @ [sec]), sec_counter = n + 1\<rparr> p, m'))))"

subsection \<open>Payloads with a structure of their own\<close>

text \<open>
  \<open>iwl_store_cscheme\<close>: a count and packed 13-byte cipher schemes. The loop runs over at most
  \<open>IWL_UCODE_MAX_CS\<close> entries; \<open>j\<close> counts the stored ones and also selects the entry examined.
\<close>

definition rd_cscheme :: "u8 list \<Rightarrow> nat \<Rightarrow> iwl_fw_cipher_scheme run" where
  "rd_cscheme raw p =
     bindF (rd32 raw p) (\<lambda>c. bindF (rd_bytes raw (p + 4) 9) (\<lambda>b.
       Inr \<lparr>cipher = c, cs_flags = b ! 0, hdr_len = b ! 1, pn_len = b ! 2, pn_off = b ! 3,
            key_idx_off = b ! 4, key_idx_mask = b ! 5, key_idx_shift = b ! 6, mic_len = b ! 7,
            hw_cipher = b ! 8\<rparr>))"

fun cscheme_loop :: "u8 list \<Rightarrow> nat \<Rightarrow> nat \<Rightarrow> nat \<Rightarrow> iwl_fw_cipher_scheme list \<Rightarrow> iwl_fw_cipher_scheme list run" where
  "cscheme_loop raw dat j 0 css = Inr css"
| "cscheme_loop raw dat j (Suc n) css =
     bindF (rd_cscheme raw (dat + 1 + 13 * j)) (\<lambda>fwcs.
       if cipher fwcs = 0 then cscheme_loop raw dat j n css
       else if j < length css then cscheme_loop raw dat (j + 1) n (css[j := fwcs])
       else Inl OutOfBounds)"

definition iwl_store_cscheme :: "u8 list \<Rightarrow> iwl_fw \<Rightarrow> nat \<Rightarrow> u32 \<Rightarrow> iwl_fw outcome" where
  "iwl_store_cscheme raw f dat len =
     (if len < 1 then fail EINVAL f
      else bindF (rd8 raw dat) (\<lambda>n.
        if unat len < 1 + unat n * 13 then fail EINVAL f
        else bindF (cscheme_loop raw dat 0 (min IWL_UCODE_MAX_CS (unat n)) (cs f)) (\<lambda>css.
          ok (f\<lparr>cs := css\<rparr>))))"

definition iwl_store_gscan_capa :: "u8 list \<Rightarrow> iwl_fw \<Rightarrow> nat \<Rightarrow> iwl_fw run" where
  "iwl_store_gscan_capa raw f dat =
     bindF (rd32 raw dat) (\<lambda>a0. bindF (rd32 raw (dat + 4)) (\<lambda>a1.
     bindF (rd32 raw (dat + 8)) (\<lambda>a2. bindF (rd32 raw (dat + 12)) (\<lambda>a3.
     bindF (rd32 raw (dat + 16)) (\<lambda>a4. bindF (rd32 raw (dat + 20)) (\<lambda>a5.
     bindF (rd32 raw (dat + 24)) (\<lambda>a6. bindF (rd32 raw (dat + 28)) (\<lambda>a7.
     bindF (rd32 raw (dat + 32)) (\<lambda>a8. bindF (rd32 raw (dat + 36)) (\<lambda>a9.
     bindF (rd32 raw (dat + 40)) (\<lambda>a10. bindF (rd32 raw (dat + 44)) (\<lambda>a11.
     bindF (rd32 raw (dat + 48)) (\<lambda>a12.
       Inr (f\<lparr>gscan_capa := \<lparr>max_scan_cache_size = a0, max_scan_buckets = a1,
         max_ap_cache_per_scan = a2, max_rssi_sample_size = a3,
         max_scan_reporting_threshold = a4, max_hotlist_aps = a5,
         max_significant_change_aps = a6, max_bssid_history_entries = a7,
         max_hotlist_ssids = a8, max_number_epno_networks = a9,
         max_number_epno_networks_by_ssid = a10, max_number_of_white_listed_ssid = a11,
         max_number_of_black_listed_ssid = a12\<rparr>\<rparr>))))))))))))))"

definition iwl_set_default_calib :: "u8 list \<Rightarrow> iwl_fw \<Rightarrow> nat \<Rightarrow> iwl_fw outcome" where
  "iwl_set_default_calib raw f dat =
     bindF (rd32 raw dat) (\<lambda>ucode_type.
       if ucode_type \<ge> 4 then fail EINVAL f
       else bindF (rd32 raw (dat + 4)) (\<lambda>flow. bindF (rd32 raw (dat + 8)) (\<lambda>event.
         ok (f\<lparr>default_calib := (default_calib f)
                (ucode_types ! unat ucode_type := \<lparr>flow_trigger = flow, event_trigger = event\<rparr>)\<rparr>))))"

definition iwl_set_ucode_api_flags :: "u8 list \<Rightarrow> nat \<Rightarrow> iwl_ucode_capabilities \<Rightarrow> iwl_ucode_capabilities run" where
  "iwl_set_ucode_api_flags raw dat c =
     bindF (rd32 raw dat) (\<lambda>api_index. bindF (rd32 raw (dat + 4)) (\<lambda>api_flags.
       if unat api_index \<ge> DIV_ROUND_UP NUM_IWL_UCODE_TLV_API 32 then Inr c
       else bindF (set_flagged set_bit_c api_flags (32 * unat api_index) [0..<32] (api_bits c))
              (\<lambda>a. Inr (c\<lparr>api_bits := a\<rparr>))))"

definition iwl_set_ucode_capabilities :: "u8 list \<Rightarrow> nat \<Rightarrow> iwl_ucode_capabilities \<Rightarrow> iwl_ucode_capabilities run" where
  "iwl_set_ucode_capabilities raw dat c =
     bindF (rd32 raw dat) (\<lambda>api_index. bindF (rd32 raw (dat + 4)) (\<lambda>api_flags.
       if unat api_index \<ge> DIV_ROUND_UP NUM_IWL_UCODE_TLV_CAPA 32 then Inr c
       else bindF (set_flagged set_bit_c api_flags (32 * unat api_index) [0..<32] (capa_bits c))
              (\<lambda>a. Inr (c\<lparr>capa_bits := a\<rparr>))))"

subsection \<open>The version string\<close>

definition IWL_UCODE_MAJOR :: "u32 \<Rightarrow> u32" where
  "IWL_UCODE_MAJOR ver = drop_bit 24 (ver AND 0xFF000000)"
definition IWL_UCODE_MINOR :: "u32 \<Rightarrow> u32" where
  "IWL_UCODE_MINOR ver = drop_bit 16 (ver AND 0x00FF0000)"
definition IWL_UCODE_API :: "u32 \<Rightarrow> u32" where
  "IWL_UCODE_API ver = drop_bit 8 (ver AND 0x0000FF00)"
definition IWL_UCODE_SERIAL :: "u32 \<Rightarrow> u32" where
  "IWL_UCODE_SERIAL ver = ver AND 0x000000FF"

text \<open>\<open>%u\<close>, and the truncation of \<open>snprintf\<close> to a buffer of \<open>n\<close> characters.\<close>

fun dec_nat :: "nat \<Rightarrow> string" where
  "dec_nat n = (if n < 10 then [char_of (48 + n)] else dec_nat (n div 10) @ [char_of (48 + n mod 10)])"

declare dec_nat.simps [simp del]

abbreviation dec_u :: "'a::len word \<Rightarrow> string" where
  "dec_u w \<equiv> dec_nat (unat w)"

definition snprintf :: "nat \<Rightarrow> string \<Rightarrow> string" where
  "snprintf n s = take (n - 1) s"

definition build_string :: "u32 \<Rightarrow> string" where
  "build_string build = (if build \<noteq> 0 then snprintf 25 (concat ['' build '', dec_u build]) else [])"

definition version_string :: "u32 \<Rightarrow> u32 \<Rightarrow> string" where
  "version_string ver build = snprintf 32 (concat [dec_u (IWL_UCODE_MAJOR ver), ''.'',
     dec_u (IWL_UCODE_MINOR ver), ''.'', dec_u (IWL_UCODE_API ver), ''.'',
     dec_u (IWL_UCODE_SERIAL ver), build_string build])"

end
