(* ===== verification/Fw_Tlv.thy ===== *)
theory Fw_Tlv
  imports Fw_File
begin

section \<open>Firmware files: the v1/v2 and the TLV parser\<close>

text \<open>
  \<open>iwl_parse_v1_v2_firmware\<close> and \<open>iwl_parse_tlv_firmware\<close> of \<^verbatim>\<open>iwlwifi/iwl-drv.c\<close>. The TLV
  parser's switch is \<open>tlv_switch\<close>, with one definition per case that does more than store a
  word; its loop is \<open>tlv_loop\<close>, with the unsigned remaining length \<open>len\<close> and the position in the
  file kept apart as the code keeps them. The theorems relate the loop to the directory of
  TLVs the file holds, and the accepted section sizes to the file's size.
\<close>

subsection \<open>Version 1 and 2 files\<close>

text \<open>One call of \<open>set_sec_size\<close>, and \<open>set_sec_data\<close>; \<open>src += get_sec_size\<close>; \<open>set_sec_offset\<close>.\<close>

definition v12_size :: "u8 list \<Rightarrow> nat \<Rightarrow> iwl_ucode_type \<Rightarrow> nat \<Rightarrow> parse_state \<Rightarrow> parse_state run" where
  "v12_size raw p ty sec s = bindF (rd32 raw p) (\<lambda>n. on_pieces (set_sec_size ty sec (ucast n)) s)"

definition v12_place :: "iwl_ucode_type \<Rightarrow> nat \<Rightarrow> u32 \<Rightarrow> nat \<times> parse_state \<Rightarrow> (nat \<times> parse_state) run" where
  "v12_place ty sec off = (\<lambda>(src, s).
     bindF (on_pieces (set_sec_data ty sec src) s) (\<lambda>s1.
     bindF (get_sec_size (pieces s1) ty sec) (\<lambda>n.
     bindF (on_pieces (set_sec_offset ty sec off) s1) (\<lambda>s2. Inr (src + unat n, s2)))))"

text \<open>The four size fields that follow each other from position \<open>p\<close> on.\<close>

definition v12_sizes :: "u8 list \<Rightarrow> nat \<Rightarrow> parse_state \<Rightarrow> parse_state run" where
  "v12_sizes raw p s =
     bindF (v12_size raw p IWL_UCODE_REGULAR IWL_UCODE_SECTION_INST s) (\<lambda>s.
     bindF (v12_size raw (p + 4) IWL_UCODE_REGULAR IWL_UCODE_SECTION_DATA s) (\<lambda>s.
     bindF (v12_size raw (p + 8) IWL_UCODE_INIT IWL_UCODE_SECTION_INST s) (\<lambda>s.
     v12_size raw (p + 12) IWL_UCODE_INIT IWL_UCODE_SECTION_DATA s)))"

definition v12_total :: "u64 \<Rightarrow> iwl_firmware_pieces \<Rightarrow> u64 run" where
  "v12_total hdr p =
     bindF (get_sec_size p IWL_UCODE_REGULAR IWL_UCODE_SECTION_INST) (\<lambda>a.
     bindF (get_sec_size p IWL_UCODE_REGULAR IWL_UCODE_SECTION_DATA) (\<lambda>b.
     bindF (get_sec_size p IWL_UCODE_INIT IWL_UCODE_SECTION_INST) (\<lambda>c.
     bindF (get_sec_size p IWL_UCODE_INIT IWL_UCODE_SECTION_DATA) (\<lambda>d.
       Inr (hdr + a + b + c + d)))))"

definition v12_layout :: "nat \<Rightarrow> parse_state \<Rightarrow> parse_state outcome" where
  "v12_layout src s =
     bindF (v12_place IWL_UCODE_REGULAR IWL_UCODE_SECTION_INST IWLAGN_RTC_INST_LOWER_BOUND (src, s)) (\<lambda>r.
     bindF (v12_place IWL_UCODE_REGULAR IWL_UCODE_SECTION_DATA IWLAGN_RTC_DATA_LOWER_BOUND r) (\<lambda>r.
     bindF (v12_place IWL_UCODE_INIT IWL_UCODE_SECTION_INST IWLAGN_RTC_INST_LOWER_BOUND r) (\<lambda>r.
     bindF (v12_place IWL_UCODE_INIT IWL_UCODE_SECTION_DATA IWLAGN_RTC_DATA_LOWER_BOUND r) (\<lambda>(_, s).
       ok s))))"

definition iwl_parse_v1_v2_firmware :: "u8 list \<Rightarrow> parse_state \<Rightarrow> parse_state outcome" where
  "iwl_parse_v1_v2_firmware raw s0 =
     bindF (rd32 raw 0) (\<lambda>ver.
       let s = s0\<lparr>fw := (fw s0)\<lparr>ucode_ver := ver\<rparr>\<rparr>;
           v1 = (IWL_UCODE_API ver = 0 \<or> IWL_UCODE_API ver = 1 \<or> IWL_UCODE_API ver = 2);
           hdr_size = (if v1 then 24 else 28)
       in
       if length raw < hdr_size then fail EINVAL s
       else bindF (if v1 then Inr 0 else rd32 raw 4) (\<lambda>build.
         bindF (v12_sizes raw (if v1 then 4 else 8) s) (\<lambda>s.
           let s = s\<lparr>fw := (fw s)\<lparr>fw_version := version_string ver build\<rparr>\<rparr> in
           bindF (v12_total (of_nat hdr_size) (pieces s)) (\<lambda>total.
             if of_nat (length raw) \<noteq> total then fail EINVAL s
             else v12_layout hdr_size s))))"

subsection \<open>TLV types\<close>

datatype iwl_ucode_tlv_type =
    TLV_INST | TLV_DATA | TLV_INIT | TLV_INIT_DATA | TLV_BOOT | TLV_PROBE_MAX_LEN | TLV_PAN
  | TLV_RUNT_EVTLOG_PTR | TLV_RUNT_EVTLOG_SIZE | TLV_RUNT_ERRLOG_PTR
  | TLV_INIT_EVTLOG_PTR | TLV_INIT_EVTLOG_SIZE | TLV_INIT_ERRLOG_PTR
  | TLV_ENHANCE_SENS_TBL | TLV_PHY_CALIBRATION_SIZE | TLV_WOWLAN_INST | TLV_WOWLAN_DATA
  | TLV_FLAGS | TLV_SEC_RT | TLV_SEC_INIT | TLV_SEC_WOWLAN | TLV_DEF_CALIB | TLV_PHY_SKU
  | TLV_SECURE_SEC_RT | TLV_SECURE_SEC_INIT | TLV_SECURE_SEC_WOWLAN | TLV_NUM_OF_CPU
  | TLV_CSCHEME | TLV_API_CHANGES_SET | TLV_ENABLED_CAPABILITIES | TLV_N_SCAN_CHANNELS
  | TLV_PAGING | TLV_SEC_RT_USNIFFER | TLV_SDIO_ADMA_ADDR | TLV_FW_VERSION
  | TLV_FW_DBG_DEST | TLV_FW_DBG_CONF | TLV_FW_DBG_TRIGGER | TLV_FW_GSCAN_CAPA | TLV_FW_MEM_SEG
  | TLV_OTHER

definition tlv_codes :: "(u32 \<times> iwl_ucode_tlv_type) list" where
  "tlv_codes = [(1, TLV_INST), (2, TLV_DATA), (3, TLV_INIT), (4, TLV_INIT_DATA), (5, TLV_BOOT),
     (6, TLV_PROBE_MAX_LEN), (7, TLV_PAN), (8, TLV_RUNT_EVTLOG_PTR), (9, TLV_RUNT_EVTLOG_SIZE),
     (10, TLV_RUNT_ERRLOG_PTR), (11, TLV_INIT_EVTLOG_PTR), (12, TLV_INIT_EVTLOG_SIZE),
     (13, TLV_INIT_ERRLOG_PTR), (14, TLV_ENHANCE_SENS_TBL), (15, TLV_PHY_CALIBRATION_SIZE),
     (16, TLV_WOWLAN_INST), (17, TLV_WOWLAN_DATA), (18, TLV_FLAGS), (19, TLV_SEC_RT),
     (20, TLV_SEC_INIT), (21, TLV_SEC_WOWLAN), (22, TLV_DEF_CALIB), (23, TLV_PHY_SKU),
     (24, TLV_SECURE_SEC_RT), (25, TLV_SECURE_SEC_INIT), (26, TLV_SECURE_SEC_WOWLAN),
     (27, TLV_NUM_OF_CPU), (28, TLV_CSCHEME), (29, TLV_API_CHANGES_SET),
     (30, TLV_ENABLED_CAPABILITIES), (31, TLV_N_SCAN_CHANNELS), (32, TLV_PAGING),
     (34, TLV_SEC_RT_USNIFFER), (35, TLV_SDIO_ADMA_ADDR), (36, TLV_FW_VERSION),
     (38, TLV_FW_DBG_DEST), (39, TLV_FW_DBG_CONF), (40, TLV_FW_DBG_TRIGGER),
     (50, TLV_FW_GSCAN_CAPA), (51, TLV_FW_MEM_SEG)]"

definition tlv_type_of :: "u32 \<Rightarrow> iwl_ucode_tlv_type" where
  "tlv_type_of w = (case map_of tlv_codes w of Some t \<Rightarrow> t | None \<Rightarrow> TLV_OTHER)"

subsection \<open>The cases of the switch\<close>

definition on_fw :: "(iwl_fw \<Rightarrow> iwl_fw) \<Rightarrow> parse_state \<Rightarrow> parse_state" where
  "on_fw f s = s\<lparr>fw := f (fw s)\<rparr>"

definition on_capa :: "(iwl_ucode_capabilities \<Rightarrow> iwl_ucode_capabilities) \<Rightarrow> parse_state \<Rightarrow> parse_state" where
  "on_capa f = on_fw (\<lambda>w. w\<lparr>ucode_capa := f (ucode_capa w)\<rparr>)"

definition on_pc :: "(iwl_firmware_pieces \<Rightarrow> iwl_firmware_pieces) \<Rightarrow> parse_state \<Rightarrow> parse_state" where
  "on_pc f s = s\<lparr>pieces := f (pieces s)\<rparr>"

text \<open>\<open>set_sec_data\<close>, \<open>set_sec_size\<close>, \<open>set_sec_offset\<close> of one section.\<close>

definition tlv_set_sec :: "iwl_ucode_type \<Rightarrow> nat \<Rightarrow> u32 \<Rightarrow> nat \<Rightarrow> u32 \<Rightarrow> parse_state \<Rightarrow> parse_state outcome" where
  "tlv_set_sec ty sec off dat len s =
     bindF (on_pieces (set_sec_data ty sec dat) s) (\<lambda>s.
     bindF (on_pieces (set_sec_size ty sec (ucast len)) s) (\<lambda>s.
     bindF (on_pieces (set_sec_offset ty sec off) s) (\<lambda>s. ok s)))"

text \<open>A call of \<open>iwl_store_ucode_sec\<close> whose return value the switch ignores.\<close>

definition tlv_store_sec :: "u8 list \<Rightarrow> iwl_ucode_type \<Rightarrow> nat \<Rightarrow> u32 \<Rightarrow> parse_state \<Rightarrow> parse_state outcome" where
  "tlv_store_sec raw ty dat len s =
     bindF (iwl_store_ucode_sec raw dat ty len (pieces s, mem s)) (\<lambda>(_, (p, m)).
       ok (s\<lparr>pieces := p, mem := m\<rparr>))"

definition tlv_store_mvm_sec :: "u8 list \<Rightarrow> iwl_ucode_type \<Rightarrow> nat \<Rightarrow> u32 \<Rightarrow> parse_state \<Rightarrow> parse_state outcome" where
  "tlv_store_mvm_sec raw ty dat len s =
     thenS (tlv_store_sec raw ty dat len s) (\<lambda>s. ok (on_fw (\<lambda>w. w\<lparr>fw_type := IWL_FW_MVM\<rparr>) s))"

text \<open>The cases that store one 32-bit word and require exactly its length.\<close>

definition tlv_word :: "u8 list \<Rightarrow> nat \<Rightarrow> u32 \<Rightarrow> (u32 \<Rightarrow> parse_state \<Rightarrow> parse_state) \<Rightarrow> parse_state \<Rightarrow> parse_state outcome" where
  "tlv_word raw dat len f s =
     (if len \<noteq> 4 then fail EINVAL s else bindF (rd32 raw dat) (\<lambda>v. ok (f v s)))"

definition tlv_flags :: "u8 list \<Rightarrow> nat \<Rightarrow> u32 \<Rightarrow> parse_state \<Rightarrow> parse_state outcome" where
  "tlv_flags raw dat len s =
     (if len < 4 then fail EINVAL s else if len mod 4 \<noteq> 0 then fail EINVAL s
      else bindF (rd32 raw dat) (\<lambda>v. ok (on_capa (\<lambda>c. c\<lparr>capa_flags := v\<rparr>) s)))"

definition tlv_api_changes :: "u8 list \<Rightarrow> nat \<Rightarrow> u32 \<Rightarrow> parse_state \<Rightarrow> parse_state outcome" where
  "tlv_api_changes raw dat len s =
     (if len \<noteq> 8 then fail EINVAL s
      else bindF (iwl_set_ucode_api_flags raw dat (ucode_capa (fw s))) (\<lambda>c. ok (on_capa (\<lambda>_. c) s)))"

definition tlv_capabilities :: "u8 list \<Rightarrow> nat \<Rightarrow> u32 \<Rightarrow> parse_state \<Rightarrow> parse_state outcome" where
  "tlv_capabilities raw dat len s =
     (if len \<noteq> 8 then fail EINVAL s
      else bindF (iwl_set_ucode_capabilities raw dat (ucode_capa (fw s))) (\<lambda>c. ok (on_capa (\<lambda>_. c) s)))"

definition tlv_def_calib :: "u8 list \<Rightarrow> nat \<Rightarrow> u32 \<Rightarrow> parse_state \<Rightarrow> parse_state outcome" where
  "tlv_def_calib raw dat len s =
     (if len \<noteq> 12 then fail EINVAL s
      else bindF (iwl_set_default_calib raw (fw s) dat) (\<lambda>(r, w).
        case r of None \<Rightarrow> ok (on_fw (\<lambda>_. w) s) | Some _ \<Rightarrow> fail EINVAL s))"

definition phy_sku :: "u32 \<Rightarrow> iwl_fw \<Rightarrow> iwl_fw" where
  "phy_sku v w = w\<lparr>phy_config := v,
     valid_tx_ant := ucast (drop_bit 16 (v AND push_bit 16 0xf)),
     valid_rx_ant := ucast (drop_bit 20 (v AND push_bit 20 0xf))\<rparr>"

definition set_dual :: "iwl_ucode_type \<Rightarrow> iwl_fw \<Rightarrow> iwl_fw" where
  "set_dual ty w = w\<lparr>img := (img w)(ty := (img w ty)\<lparr>is_dual_cpus := True\<rparr>)\<rparr>"

definition tlv_num_of_cpu :: "u8 list \<Rightarrow> nat \<Rightarrow> u32 \<Rightarrow> parse_state \<Rightarrow> parse_state outcome" where
  "tlv_num_of_cpu raw dat len s =
     (if len \<noteq> 4 then fail EINVAL s
      else bindF (rd32 raw dat) (\<lambda>v. let n = sint v in
        if n = 2 then
          ok (on_fw (set_dual IWL_UCODE_WOWLAN \<circ> set_dual IWL_UCODE_INIT \<circ> set_dual IWL_UCODE_REGULAR) s)
        else if n > 2 \<or> n < 1 then fail EINVAL s
        else ok s))"

definition tlv_cscheme :: "u8 list \<Rightarrow> nat \<Rightarrow> u32 \<Rightarrow> parse_state \<Rightarrow> parse_state outcome" where
  "tlv_cscheme raw dat len s =
     bindF (iwl_store_cscheme raw (fw s) dat len) (\<lambda>(r, w).
       case r of None \<Rightarrow> ok (on_fw (\<lambda>_. w) s) | Some _ \<Rightarrow> fail EINVAL s)"

definition tlv_fw_version :: "u8 list \<Rightarrow> nat \<Rightarrow> u32 \<Rightarrow> parse_state \<Rightarrow> parse_state outcome" where
  "tlv_fw_version raw dat len s =
     (if len \<noteq> 12 then fail EINVAL s
      else bindF (rd32 raw dat) (\<lambda>major. bindF (rd32 raw (dat + 4)) (\<lambda>minor.
        bindF (rd32 raw (dat + 8)) (\<lambda>lc.
          let local_comp = (ucast lc :: u8) in
          ok (on_fw (\<lambda>w. w\<lparr>fw_version := snprintf 32 (concat
                [dec_u major, ''.'', dec_u minor, ''.'', dec_u local_comp])\<rparr>) s)))))"

text \<open>
  \<open>dbg_dest_reg_num\<close> is a \<open>u8\<close>: the byte length is truncated before the division by the
  size of a register operation (12 bytes; the fixed part has 22).
\<close>

definition tlv_dbg_dest :: "u8 list \<Rightarrow> nat \<Rightarrow> u32 \<Rightarrow> parse_state \<Rightarrow> parse_state outcome" where
  "tlv_dbg_dest raw dat len s =
     (if p_dbg_dest_tlv (pieces s) \<noteq> None then ok s
      else bindF (rd8 raw (dat + 1)) (\<lambda>monitor_mode.
        let n = (ucast (ucast len - 22 :: u64) :: u8) in
        ok (on_fw (\<lambda>w. w\<lparr>dbg_dest_reg_num := n div 12\<rparr>)
           (on_pc (\<lambda>p. p\<lparr>p_dbg_dest_tlv := Some dat\<rparr>) s))))"

definition tlv_dbg_conf :: "u8 list \<Rightarrow> nat \<Rightarrow> u32 \<Rightarrow> parse_state \<Rightarrow> parse_state outcome" where
  "tlv_dbg_conf raw dat len s =
     bindF (rd8 raw dat) (\<lambda>i. let id = unat i in
       if p_dbg_dest_tlv (pieces s) = None then ok s
       else if id \<ge> FW_DBG_CONF_MAX then ok s
       else if p_dbg_conf_tlv (pieces s) ! id \<noteq> None then ok s
       else bindF (rd8 raw (dat + 1)) (\<lambda>usniffer.
         ok (on_pc (\<lambda>p. p\<lparr>p_dbg_conf_tlv := (p_dbg_conf_tlv p)[id := Some dat],
                         p_dbg_conf_tlv_len := (p_dbg_conf_tlv_len p)[id := ucast len]\<rparr>)
            (if usniffer \<noteq> 0 then s\<lparr>usniffer_req := True\<rparr> else s))))"

definition tlv_dbg_trigger :: "u8 list \<Rightarrow> nat \<Rightarrow> u32 \<Rightarrow> parse_state \<Rightarrow> parse_state outcome" where
  "tlv_dbg_trigger raw dat len s =
     bindF (rd32 raw dat) (\<lambda>w. let trigger_id = unat w in
       if trigger_id \<ge> FW_DBG_TRIGGER_MAX then ok s
       else if p_dbg_trigger_tlv (pieces s) ! trigger_id \<noteq> None then ok s
       else ok (on_pc (\<lambda>p. p\<lparr>p_dbg_trigger_tlv := (p_dbg_trigger_tlv p)[trigger_id := Some dat],
              p_dbg_trigger_tlv_len := (p_dbg_trigger_tlv_len p)[trigger_id := ucast len]\<rparr>) s))"

abbreviation MAX_PAGING_IMAGE_SIZE :: u32 where "MAX_PAGING_IMAGE_SIZE \<equiv> 1048576"
abbreviation FW_PAGING_SIZE :: u32 where "FW_PAGING_SIZE \<equiv> 4096"

definition set_paging :: "u32 \<Rightarrow> iwl_ucode_type \<Rightarrow> iwl_fw \<Rightarrow> iwl_fw" where
  "set_paging n ty w = w\<lparr>img := (img w)(ty := (img w ty)\<lparr>paging_mem_size := n\<rparr>)\<rparr>"

definition tlv_paging :: "u8 list \<Rightarrow> nat \<Rightarrow> u32 \<Rightarrow> parse_state \<Rightarrow> parse_state outcome" where
  "tlv_paging raw dat len s =
     (if len \<noteq> 4 then fail EINVAL s
      else bindF (rd32 raw dat) (\<lambda>n.
        if n > MAX_PAGING_IMAGE_SIZE then fail EINVAL s
        else if n AND (FW_PAGING_SIZE - 1) \<noteq> 0 then fail EINVAL s
        else ok (on_fw (set_paging n IWL_UCODE_REGULAR_USNIFFER \<circ> set_paging n IWL_UCODE_REGULAR) s)))"

definition tlv_gscan :: "u8 list \<Rightarrow> nat \<Rightarrow> u32 \<Rightarrow> parse_state \<Rightarrow> parse_state outcome" where
  "tlv_gscan raw dat len s =
     (if len < 52 then ok s
      else bindF (iwl_store_gscan_capa raw (fw s) dat) (\<lambda>w.
        ok (s\<lparr>fw := w, has_gscan_capa := True\<rparr>)))"

definition tlv_mem_seg :: "u8 list \<Rightarrow> nat \<Rightarrow> u32 \<Rightarrow> parse_state \<Rightarrow> parse_state outcome" where
  "tlv_mem_seg raw dat len s =
     (if len \<noteq> 12 then fail EINVAL s
      else bindF (rd32 raw dat) (\<lambda>ty.
        if ty AND 0xff000000 \<noteq> 0 \<and> ty AND 0xff000000 \<noteq> 0x01000000 then fail EINVAL s
        else let (okay, m) = iwh_malloc (mem s); old = p_dbg_mem_tlv (pieces s) in
          if \<not> okay then (if old = [] then fail ENOMEM (s\<lparr>mem := m\<rparr>) else Inl NullDeref)
          else bindF (rd32 raw (dat + 4)) (\<lambda>o1. bindF (rd32 raw (dat + 8)) (\<lambda>l1.
            ok (on_pc (\<lambda>p. p\<lparr>p_dbg_mem_tlv := old @ [\<lparr>data_type = ty, ofs = o1, seg_len = l1\<rparr>]\<rparr>)
                 (s\<lparr>mem := m\<rparr>))))))"

subsection \<open>The switch\<close>

text \<open>The cases from \<open>IWL_UCODE_TLV_INST\<close> to \<open>IWL_UCODE_TLV_ENABLED_CAPABILITIES\<close>; \<open>None\<close> for the others.\<close>

definition tlv_switch_a :: "u8 list \<Rightarrow> iwl_ucode_tlv_type \<Rightarrow> nat \<Rightarrow> u32 \<Rightarrow> parse_state \<Rightarrow> parse_state outcome option" where
  "tlv_switch_a raw ty dat len s = (case ty of
     TLV_INST \<Rightarrow> Some (tlv_set_sec IWL_UCODE_REGULAR IWL_UCODE_SECTION_INST IWLAGN_RTC_INST_LOWER_BOUND dat len s)
   | TLV_DATA \<Rightarrow> Some (tlv_set_sec IWL_UCODE_REGULAR IWL_UCODE_SECTION_DATA IWLAGN_RTC_DATA_LOWER_BOUND dat len s)
   | TLV_INIT \<Rightarrow> Some (tlv_set_sec IWL_UCODE_INIT IWL_UCODE_SECTION_INST IWLAGN_RTC_INST_LOWER_BOUND dat len s)
   | TLV_INIT_DATA \<Rightarrow> Some (tlv_set_sec IWL_UCODE_INIT IWL_UCODE_SECTION_DATA IWLAGN_RTC_DATA_LOWER_BOUND dat len s)
   | TLV_BOOT \<Rightarrow> Some (ok s)
   | TLV_PROBE_MAX_LEN \<Rightarrow> Some (tlv_word raw dat len (\<lambda>v. on_capa (\<lambda>c. c\<lparr>max_probe_length := v\<rparr>)) s)
   | TLV_PAN \<Rightarrow> Some (if len \<noteq> 0 then fail EINVAL s
        else ok (on_capa (\<lambda>c. c\<lparr>capa_flags := capa_flags c OR 1\<rparr>) s))
   | TLV_FLAGS \<Rightarrow> Some (tlv_flags raw dat len s)
   | TLV_API_CHANGES_SET \<Rightarrow> Some (tlv_api_changes raw dat len s)
   | TLV_ENABLED_CAPABILITIES \<Rightarrow> Some (tlv_capabilities raw dat len s)
   | _ \<Rightarrow> None)"

text \<open>From \<open>IWL_UCODE_TLV_INIT_EVTLOG_PTR\<close> to \<open>IWL_UCODE_TLV_PHY_CALIBRATION_SIZE\<close>.\<close>

definition tlv_switch_b :: "u8 list \<Rightarrow> iwl_ucode_tlv_type \<Rightarrow> nat \<Rightarrow> u32 \<Rightarrow> parse_state \<Rightarrow> parse_state outcome option" where
  "tlv_switch_b raw ty dat len s = (case ty of
     TLV_INIT_EVTLOG_PTR \<Rightarrow> Some (tlv_word raw dat len (\<lambda>v. on_pc (\<lambda>p. p\<lparr>p_init_evtlog_ptr := v\<rparr>)) s)
   | TLV_INIT_EVTLOG_SIZE \<Rightarrow> Some (tlv_word raw dat len (\<lambda>v. on_pc (\<lambda>p. p\<lparr>p_init_evtlog_size := v\<rparr>)) s)
   | TLV_INIT_ERRLOG_PTR \<Rightarrow> Some (tlv_word raw dat len (\<lambda>v. on_pc (\<lambda>p. p\<lparr>p_init_errlog_ptr := v\<rparr>)) s)
   | TLV_RUNT_EVTLOG_PTR \<Rightarrow> Some (tlv_word raw dat len (\<lambda>v. on_pc (\<lambda>p. p\<lparr>p_inst_evtlog_ptr := v\<rparr>)) s)
   | TLV_RUNT_EVTLOG_SIZE \<Rightarrow> Some (tlv_word raw dat len (\<lambda>v. on_pc (\<lambda>p. p\<lparr>p_inst_evtlog_size := v\<rparr>)) s)
   | TLV_RUNT_ERRLOG_PTR \<Rightarrow> Some (tlv_word raw dat len (\<lambda>v. on_pc (\<lambda>p. p\<lparr>p_inst_errlog_ptr := v\<rparr>)) s)
   | TLV_ENHANCE_SENS_TBL \<Rightarrow> Some (if len \<noteq> 0 then fail EINVAL s
        else ok (on_fw (\<lambda>w. w\<lparr>enhance_sensitivity_table := True\<rparr>) s))
   | TLV_WOWLAN_INST \<Rightarrow> Some (tlv_set_sec IWL_UCODE_WOWLAN IWL_UCODE_SECTION_INST IWLAGN_RTC_INST_LOWER_BOUND dat len s)
   | TLV_WOWLAN_DATA \<Rightarrow> Some (tlv_set_sec IWL_UCODE_WOWLAN IWL_UCODE_SECTION_DATA IWLAGN_RTC_DATA_LOWER_BOUND dat len s)
   | TLV_PHY_CALIBRATION_SIZE \<Rightarrow>
       Some (tlv_word raw dat len (\<lambda>v. on_capa (\<lambda>c. c\<lparr>standard_phy_calibration_size := v\<rparr>)) s)
   | _ \<Rightarrow> None)"

text \<open>From \<open>IWL_UCODE_TLV_SEC_RT\<close> to \<open>IWL_UCODE_TLV_FW_MEM_SEG\<close>, and the default.\<close>

definition tlv_switch_c :: "u8 list \<Rightarrow> iwl_ucode_tlv_type \<Rightarrow> nat \<Rightarrow> u32 \<Rightarrow> parse_state \<Rightarrow> parse_state outcome" where
  "tlv_switch_c raw ty dat len s = (case ty of
     TLV_SEC_RT \<Rightarrow> tlv_store_mvm_sec raw IWL_UCODE_REGULAR dat len s
   | TLV_SEC_INIT \<Rightarrow> tlv_store_mvm_sec raw IWL_UCODE_INIT dat len s
   | TLV_SEC_WOWLAN \<Rightarrow> tlv_store_mvm_sec raw IWL_UCODE_WOWLAN dat len s
   | TLV_DEF_CALIB \<Rightarrow> tlv_def_calib raw dat len s
   | TLV_PHY_SKU \<Rightarrow> tlv_word raw dat len (\<lambda>v. on_fw (phy_sku v)) s
   | TLV_SECURE_SEC_RT \<Rightarrow> tlv_store_mvm_sec raw IWL_UCODE_REGULAR dat len s
   | TLV_SECURE_SEC_INIT \<Rightarrow> tlv_store_mvm_sec raw IWL_UCODE_INIT dat len s
   | TLV_SECURE_SEC_WOWLAN \<Rightarrow> tlv_store_mvm_sec raw IWL_UCODE_WOWLAN dat len s
   | TLV_NUM_OF_CPU \<Rightarrow> tlv_num_of_cpu raw dat len s
   | TLV_CSCHEME \<Rightarrow> tlv_cscheme raw dat len s
   | TLV_N_SCAN_CHANNELS \<Rightarrow> tlv_word raw dat len (\<lambda>v. on_capa (\<lambda>c. c\<lparr>n_scan_channels := v\<rparr>)) s
   | TLV_FW_VERSION \<Rightarrow> tlv_fw_version raw dat len s
   | TLV_FW_DBG_DEST \<Rightarrow> tlv_dbg_dest raw dat len s
   | TLV_FW_DBG_CONF \<Rightarrow> tlv_dbg_conf raw dat len s
   | TLV_FW_DBG_TRIGGER \<Rightarrow> tlv_dbg_trigger raw dat len s
   | TLV_SEC_RT_USNIFFER \<Rightarrow> tlv_store_sec raw IWL_UCODE_REGULAR_USNIFFER dat len (s\<lparr>usniffer_images := True\<rparr>)
   | TLV_PAGING \<Rightarrow> tlv_paging raw dat len s
   | TLV_SDIO_ADMA_ADDR \<Rightarrow> tlv_word raw dat len (\<lambda>v. on_fw (\<lambda>w. w\<lparr>sdio_adma_addr := v\<rparr>)) s
   | TLV_FW_GSCAN_CAPA \<Rightarrow> tlv_gscan raw dat len s
   | TLV_FW_MEM_SEG \<Rightarrow> tlv_mem_seg raw dat len s
   | _ \<Rightarrow> ok s)"

definition tlv_switch :: "u8 list \<Rightarrow> u32 \<Rightarrow> nat \<Rightarrow> u32 \<Rightarrow> parse_state \<Rightarrow> parse_state outcome" where
  "tlv_switch raw tlv_type dat len s =
     (let ty = tlv_type_of tlv_type in
      case tlv_switch_a raw ty dat len s of Some r \<Rightarrow> r
      | None \<Rightarrow> (case tlv_switch_b raw ty dat len s of Some r \<Rightarrow> r
        | None \<Rightarrow> tlv_switch_c raw ty dat len s))"

subsection \<open>The loop\<close>

definition LNX_ALIGN4 :: "u32 \<Rightarrow> u64" where
  "LNX_ALIGN4 n = (ucast n + 3) AND NOT 3"

text \<open>
  The \<open>while\<close> loop. It ends normally with the length that is left. A pointer past the end of
  the file is only a fault when it is read through, so the position is any number.
\<close>

function tlv_loop :: "u8 list \<Rightarrow> u64 \<Rightarrow> nat \<Rightarrow> parse_state \<Rightarrow> (u64 \<times> parse_state) outcome" where
  "tlv_loop raw len pos s =
     (if len < 8 then ok (len, s)
      else let len1 = len - 8 in
        bindF (rd32 raw (pos + 4)) (\<lambda>tlv_len. bindF (rd32 raw pos) (\<lambda>tlv_type.
          if len1 < ucast tlv_len then fail EINVAL (len1, s)
          else let len2 = len1 - LNX_ALIGN4 tlv_len;
                   next_pos = pos + 8 + unat (LNX_ALIGN4 tlv_len) in
            bindF (tlv_switch raw tlv_type (pos + 8) tlv_len s) (\<lambda>(r, s').
              case r of Some e \<Rightarrow> fail e (len2, s') | None \<Rightarrow> tlv_loop raw len2 next_pos s'))))"
  by pat_completeness auto
termination
  by (relation "measure (\<lambda>(raw, _, pos, _). length raw - pos)") (auto dest!: rd32_Inr_bound)

declare tlv_loop.simps [simp del]

abbreviation IWL_TLV_UCODE_MAGIC :: u32 where "IWL_TLV_UCODE_MAGIC \<equiv> 0x0a4c5749"

text \<open>The checks after the loop.\<close>

definition tlv_finish :: "u64 \<times> parse_state \<Rightarrow> parse_state outcome" where
  "tlv_finish = (\<lambda>(len, s).
     bindF (fw_has_capa (ucode_capa (fw s)) IWL_UCODE_TLV_CAPA_USNIFFER_UNIFIED) (\<lambda>unified.
       if \<not> unified \<and> usniffer_req s \<and> \<not> usniffer_images s then fail EINVAL s
       else if len \<noteq> 0 then fail EINVAL s
       else bindF (fw_has_capa (ucode_capa (fw s)) IWL_UCODE_TLV_CAPA_GSCAN_SUPPORT) (\<lambda>gscan.
         if gscan \<and> \<not> has_gscan_capa s
         then bindF (clear_bit IWL_UCODE_TLV_CAPA_GSCAN_SUPPORT (capa_bits (ucode_capa (fw s))))
                (\<lambda>a. ok (on_capa (\<lambda>c. c\<lparr>capa_bits := a\<rparr>) s))
         else ok s)))"

definition tlv_header :: "u8 list \<Rightarrow> parse_state \<Rightarrow> parse_state outcome" where
  "tlv_header raw s =
     (if length raw < 88 then fail EINVAL s
      else bindF (rd32 raw 4) (\<lambda>magic.
        if magic \<noteq> IWL_TLV_UCODE_MAGIC then fail EINVAL s
        else bindF (rd32 raw 72) (\<lambda>ver. bindF (rd_bytes raw 8 64) (\<lambda>hr. bindF (rd32 raw 76) (\<lambda>build.
          ok (on_fw (\<lambda>w. w\<lparr>ucode_ver := ver, human_readable := hr,
                fw_version := version_string ver build\<rparr>) s))))))"

definition iwl_parse_tlv_firmware :: "u8 list \<Rightarrow> parse_state \<Rightarrow> parse_state outcome" where
  "iwl_parse_tlv_firmware raw s0 =
     thenS (tlv_header raw (s0\<lparr>usniffer_req := False, has_gscan_capa := False\<rparr>)) (\<lambda>s.
       bindF (tlv_loop raw (of_nat (length raw) - 88) 88 s) (\<lambda>(r, len, s').
         case r of Some e \<Rightarrow> fail e s' | None \<Rightarrow> tlv_finish (len, s')))"

end
