(* ===== verification/Fw_Directory.thy ===== *)
theory Fw_Directory
  imports Fw_Tlv
begin

section \<open>The TLV directory of a firmware file\<close>

text \<open>
  What the TLV parser promises, stated on the directory of the file: the list of its TLVs in
  order, each with the position of its header, its type and its length, which together tile
  the file from the end of the header on, every payload padded to a multiple of 4. The
  abstract parser \<open>run_dir\<close> applies the switch to the entries one after the other; the loop of
  \<open>iwl_parse_tlv_firmware\<close>, with its pointer and its unsigned length, refines it.
\<close>

subsection \<open>Directories\<close>

record tlv_entry =
  e_pos :: nat
  e_type :: u32
  e_len :: u32

definition align4 :: "nat \<Rightarrow> nat" where
  "align4 n = (n + 3) div 4 * 4"

definition entry_end :: "tlv_entry \<Rightarrow> nat" where
  "entry_end e = e_pos e + 8 + align4 (unat (e_len e))"

fun tiles :: "u8 list \<Rightarrow> nat \<Rightarrow> tlv_entry list \<Rightarrow> bool" where
  "tiles raw pos [] \<longleftrightarrow> pos = length raw"
| "tiles raw pos (e # es) \<longleftrightarrow>
     e_pos e = pos \<and> rd32 raw pos = Inr (e_type e) \<and> rd32 raw (pos + 4) = Inr (e_len e) \<and>
     entry_end e \<le> length raw \<and> tiles raw (entry_end e) es"

definition run_entry :: "u8 list \<Rightarrow> tlv_entry \<Rightarrow> parse_state \<Rightarrow> parse_state outcome" where
  "run_entry raw e s = tlv_switch raw (e_type e) (e_pos e + 8) (e_len e) s"

fun run_dir :: "u8 list \<Rightarrow> tlv_entry list \<Rightarrow> parse_state \<Rightarrow> parse_state outcome" where
  "run_dir raw [] s = ok s"
| "run_dir raw (e # es) s = thenS (run_entry raw e s) (run_dir raw es)"

text \<open>The abstract parser: the header, the entries, the final checks.\<close>

definition parse_dir :: "u8 list \<Rightarrow> tlv_entry list \<Rightarrow> parse_state \<Rightarrow> parse_state outcome" where
  "parse_dir raw es s0 =
     thenS (tlv_header raw (s0\<lparr>usniffer_req := False, has_gscan_capa := False\<rparr>)) (\<lambda>s.
       thenS (run_dir raw es s) (\<lambda>s. tlv_finish (0, s)))"

subsection \<open>The loop refines the directory\<close>

lemma align4_ge: "n \<le> align4 n"
  unfolding align4_def by linarith

lemma align4_less: "align4 n < n + 4"
  unfolding align4_def by linarith

lemma unat_ucast_32_64: "unat (ucast n :: u64) = unat n" for n :: u32
proof -
  have "unat n < 2 ^ LENGTH(32)" by (rule unsigned_less)
  then have "unat n < 2 ^ 64" by simp
  then show ?thesis by (simp add: unsigned_ucast_eq take_bit_nat_eq_self)
qed

lemma unat_LNX_ALIGN4: "unat (LNX_ALIGN4 n) = align4 (unat n)"
proof -
  have lt: "unat n < 2 ^ 32" using unsigned_less [where w = n] by simp
  have "unat (ucast n + 3 :: u64) = unat n + 3"
    using lt by (subst unat_add_small) (simp_all add: unat_ucast_32_64)
  moreover have three: "(3 :: u64) = mask 2" by (simp add: mask_eq_exp_minus_1)
  ultimately show ?thesis
    unfolding LNX_ALIGN4_def align4_def three unat_and_not_mask by simp
qed

lemma of_nat_len_minus:
  "k \<le> n \<Longrightarrow> (of_nat n :: u64) - of_nat k = of_nat (n - k)"
  by (simp add: of_nat_diff)

lemma LNX_ALIGN4_of_nat: "LNX_ALIGN4 n = of_nat (align4 (unat n))"
  by (simp flip: unat_LNX_ALIGN4)

text \<open>
  One turn of the loop with a header in the file: the remaining length, the position and the
  end of the file stay in step as long as the padded payload is in the file.
\<close>

lemma tlv_loop_turn:
  assumes "pos + 8 \<le> length raw" and "length raw < 2 ^ 64"
    and "rd32 raw pos = Inr ty" and "rd32 raw (pos + 4) = Inr n"
  shows "tlv_loop raw (of_nat (length raw - pos)) pos s =
    (if length raw < pos + 8 + unat n then fail EINVAL (of_nat (length raw - (pos + 8)), s)
     else let len2 = of_nat (length raw - (pos + 8)) - of_nat (align4 (unat n)) in
       bindF (tlv_switch raw ty (pos + 8) n s) (\<lambda>(r, s'). case r of Some e \<Rightarrow> fail e (len2, s')
         | None \<Rightarrow> tlv_loop raw len2 (pos + 8 + align4 (unat n)) s'))"
proof -
  have u: "unat (of_nat (length raw - pos) :: u64) = length raw - pos"
    by (rule unat_of_nat_small) (use assms(2) in simp)
  have ge8: "((of_nat (length raw - pos) :: u64) < 8) = False"
    unfolding word_less_nat_alt u using assms(1) by simp
  have l1: "(of_nat (length raw - pos) :: u64) - 8 = of_nat (length raw - (pos + 8))"
    using of_nat_len_minus [of 8 "length raw - pos"] assms(1) by simp
  have u1: "unat (of_nat (length raw - (pos + 8)) :: u64) = length raw - (pos + 8)"
    by (rule unat_of_nat_small) (use assms(2) in simp)
  have fits: "((of_nat (length raw - (pos + 8)) :: u64) < ucast n) \<longleftrightarrow> length raw < pos + 8 + unat n"
    unfolding word_less_nat_alt u1 unat_ucast_32_64 using assms(1) by linarith
  show ?thesis
    by (subst tlv_loop.simps)
      (simp only: ge8 if_False l1 Let_def assms(3,4) bindF_simps fits unat_LNX_ALIGN4,
       simp only: LNX_ALIGN4_of_nat)
qed

lemma tlv_loop_entry:
  assumes "tiles raw pos (e # es)" and "length raw < 2 ^ 64"
  shows "\<exists>len2. tlv_loop raw (of_nat (length raw - pos)) pos s =
     bindF (run_entry raw e s) (\<lambda>(r, s'). case r of Some e \<Rightarrow> fail e (len2, s')
       | None \<Rightarrow> tlv_loop raw (of_nat (length raw - entry_end e)) (entry_end e) s')"
proof -
  let ?n = "unat (e_len e)"
  from assms(1) have rds: "rd32 raw pos = Inr (e_type e)" "rd32 raw (pos + 4) = Inr (e_len e)"
    and e: "pos + 8 + align4 ?n \<le> length raw" "e_pos e = pos" by (auto simp: entry_end_def)
  have "pos + 8 \<le> length raw" "\<not> length raw < pos + 8 + ?n" using e align4_ge [of ?n] by linarith+
  moreover have "(of_nat (length raw - (pos + 8)) :: u64) - of_nat (align4 ?n) = of_nat (length raw - entry_end e)"
    using of_nat_len_minus [of "align4 ?n" "length raw - (pos + 8)"] e by (simp add: entry_end_def)
  ultimately show ?thesis
    using tlv_loop_turn [OF _ assms(2) rds] e
    by (simp only: Let_def run_entry_def if_False entry_end_def) blast
qed

lemma tlv_loop_tiles:
  assumes "tiles raw pos es" and "length raw < 2 ^ 64"
  shows "bindF (tlv_loop raw (of_nat (length raw - pos)) pos s) (\<lambda>(r, len, s').
           case r of Some e \<Rightarrow> fail e s' | None \<Rightarrow> k (len, s'))
       = thenS (run_dir raw es s) (\<lambda>s'. k (0, s'))"
  using assms(1)
proof (induction es arbitrary: pos s)
  case Nil
  then show ?case by (simp add: tlv_loop.simps)
next
  case (Cons e es)
  from Cons.prems have "tiles raw (entry_end e) es" by simp
  note IH = Cons.IH [OF this]
  obtain len2 where "tlv_loop raw (of_nat (length raw - pos)) pos s =
     bindF (run_entry raw e s) (\<lambda>(r, s'). case r of Some e \<Rightarrow> fail e (len2, s')
       | None \<Rightarrow> tlv_loop raw (of_nat (length raw - entry_end e)) (entry_end e) s')"
    using tlv_loop_entry [OF Cons.prems assms(2)] by blast
  then show ?case
    using IH by (cases "run_entry raw e s") (auto simp del: of_nat_diff split: option.splits)
qed

text \<open>
  A payload that is in the file while its padding is not: the unsigned length wraps around,
  the loop goes on and reads a header behind the end of the file.
\<close>

lemma tlv_loop_unpadded:
  assumes "pos + 8 \<le> length raw" and "length raw < 2 ^ 64"
    and "rd32 raw pos = Inr ty" and "rd32 raw (pos + 4) = Inr n"
    and "pos + 8 + unat n \<le> length raw" and "length raw < pos + 8 + align4 (unat n)"
    and "tlv_switch raw ty (pos + 8) n s = ok s'"
  shows "tlv_loop raw (of_nat (length raw - pos)) pos s = Inl OutOfBounds"
proof -
  let ?m = "length raw - (pos + 8)" and ?a = "align4 (unat n)"
  define d where "d = ?a - ?m"
  have d: "0 < d" "d < 4" "?a = ?m + d"
    using assms(5,6) align4_less [of "unat n"] by (auto simp: d_def)
  have "(of_nat ?m :: u64) - of_nat ?a = - of_nat d" by (simp add: d(3) del: of_nat_diff)
  moreover have "\<not> (- of_nat d :: u64) < 8"
  proof -
    have "d = 1 \<or> d = 2 \<or> d = 3" using d(1,2) by linarith
    then show ?thesis by auto
  qed
  moreover have "rd32 raw (pos + 8 + ?a + 4) = Inl OutOfBounds"
    using assms(6) by (simp add: rd32_def)
  ultimately have "tlv_loop raw (of_nat ?m - of_nat ?a) (pos + 8 + ?a) s' = Inl OutOfBounds"
    by (subst tlv_loop.simps) (simp del: of_nat_diff)
  then show ?thesis
    using assms(5,7) by (subst tlv_loop_turn [OF assms(1-4)]) (simp del: of_nat_diff)
qed

lemma tlv_loop_accepts:
  assumes "tlv_loop raw (of_nat (length raw - pos)) pos s = ok (0, s')"
    and "pos \<le> length raw" and "length raw < 2 ^ 64"
  shows "\<exists>es. tiles raw pos es \<and> run_dir raw es s = ok s'"
  using assms(1,2)
proof (induction "length raw - pos" arbitrary: pos s rule: less_induct)
  case less
  show ?case
  proof (cases "pos + 8 \<le> length raw")
    case False
    have u: "unat (of_nat (length raw - pos) :: u64) = length raw - pos"
      by (rule unat_of_nat_small) (use assms(3) in simp)
    have "(of_nat (length raw - pos) :: u64) < 8" unfolding word_less_nat_alt u using False by simp
    with less.prems(1) have "of_nat (length raw - pos) = (0 :: u64)" and "s' = s"
      by (subst (asm) tlv_loop.simps, simp del: of_nat_diff)+
    with u less.prems(2) have "pos = length raw" by simp
    with \<open>s' = s\<close> show ?thesis by (intro exI [of _ "[]"]) simp
  next
    case True
    obtain ty n where rds: "rd32 raw pos = Inr ty" "rd32 raw (pos + 4) = Inr n"
      using True rd32_ok [of pos raw] rd32_ok [of "pos + 4" raw] by auto
    note turn = tlv_loop_turn [OF True assms(3) rds, of s]
    define e where "e = \<lparr>e_pos = pos, e_type = ty, e_len = n\<rparr>"
    have payload: "pos + 8 + unat n \<le> length raw" and "\<exists>s1. tlv_switch raw ty (pos + 8) n s = ok s1"
      using less.prems(1) unfolding turn
      by (auto simp: Let_def bindF_eq_Inr simp del: of_nat_diff split: if_splits option.splits)
    then obtain s1 where s1: "tlv_switch raw ty (pos + 8) n s = ok s1" by blast
    have "entry_end e \<le> length raw"
      using tlv_loop_unpadded [OF True assms(3) rds payload _ s1] less.prems(1)
      by (cases "entry_end e \<le> length raw") (auto simp: entry_end_def e_def)
    moreover from this have "(of_nat (length raw - (pos + 8)) :: u64) - of_nat (align4 (unat n)) = of_nat (length raw - entry_end e)"
      using of_nat_len_minus [of "align4 (unat n)" "length raw - (pos + 8)"] by (simp add: e_def entry_end_def)
    ultimately have "tlv_loop raw (of_nat (length raw - entry_end e)) (entry_end e) s1 = ok (0, s')"
      using less.prems(1) payload s1 unfolding turn
      by (simp add: Let_def e_def entry_end_def del: of_nat_diff)
    moreover have "length raw - entry_end e < length raw - pos"
      using True by (simp add: entry_end_def e_def)
    ultimately obtain es where "tiles raw (entry_end e) es" "run_dir raw es s1 = ok s'"
      using less.hyps [of "entry_end e" s1] \<open>entry_end e \<le> length raw\<close> by blast
    with s1 rds \<open>entry_end e \<le> length raw\<close> show ?thesis
      by (intro exI [of _ "e # es"]) (simp add: run_entry_def e_def)
  qed
qed

lemma tiles_pos: "tiles raw pos es \<Longrightarrow> pos \<le> length raw"
  by (cases es) (auto simp: entry_end_def)

lemma tlv_header_length: "tlv_header raw s = ok s' \<Longrightarrow> 88 \<le> length raw"
  by (simp add: tlv_header_def split: if_splits)

lemma tlv_finish_len: "tlv_finish (len, s) = ok s' \<Longrightarrow> len = 0"
  by (auto simp: tlv_finish_def bindF_eq_Inr split: if_splits)

lemma parse_eq_parse_dir:
  assumes "tiles raw 88 es" and "length raw < 2 ^ 64"
  shows "iwl_parse_tlv_firmware raw s0 = parse_dir raw es s0"
proof -
  have "(of_nat (length raw) :: u64) - 88 = of_nat (length raw - 88)"
    using of_nat_len_minus [of 88 "length raw"] tiles_pos [OF assms(1)] by simp
  then show ?thesis
    unfolding iwl_parse_tlv_firmware_def parse_dir_def
    by (simp only: tlv_loop_tiles [OF assms, where k = tlv_finish])
qed

section \<open>Properties of the TLV parser\<close>

text \<open>
  C3. The TLV parser accepts a file exactly when the file is its header followed by TLVs that
  tile the rest of it, each padded to a multiple of four bytes, and processing these TLVs in
  order, with the final checks, succeeds; the resulting state is the one of that processing.
  In particular a file whose last TLV is not padded is never accepted.
\<close>

theorem tlv_parse_accepts_iff:
  assumes "length raw < 2 ^ 64"
  shows "iwl_parse_tlv_firmware raw s0 = ok s \<longleftrightarrow>
           (\<exists>es. tiles raw 88 es \<and> parse_dir raw es s0 = ok s)"
proof
  assume acc: "iwl_parse_tlv_firmware raw s0 = ok s"
  then obtain s1 len s2 where hdr: "tlv_header raw (s0\<lparr>usniffer_req := False, has_gscan_capa := False\<rparr>) = ok s1"
    and loop: "tlv_loop raw (of_nat (length raw) - 88) 88 s1 = ok (len, s2)" and fin: "tlv_finish (len, s2) = ok s"
    by (auto simp: iwl_parse_tlv_firmware_def thenS_ok bindF_eq_Inr split: option.splits)
  have h: "88 \<le> length raw" using tlv_header_length [OF hdr] .
  then have "(of_nat (length raw) :: u64) - 88 = of_nat (length raw - 88)"
    using of_nat_len_minus [of 88 "length raw"] by simp
  with loop tlv_finish_len [OF fin]
  obtain es where "tiles raw 88 es" using tlv_loop_accepts [OF _ h assms] by metis
  with acc parse_eq_parse_dir [OF this assms]
  show "\<exists>es. tiles raw 88 es \<and> parse_dir raw es s0 = ok s" by auto
qed (use parse_eq_parse_dir [OF _ assms] in auto)

text \<open>Encoding a list of TLVs, and the directory of the encoding.\<close>

definition enc_tlv :: "u32 \<times> u8 list \<Rightarrow> u8 list" where
  "enc_tlv = (\<lambda>(ty, bs). enc32 ty @ enc32 (of_nat (length bs)) @ bs @
     replicate (align4 (length bs) - length bs) 0)"

fun dir_of :: "nat \<Rightarrow> (u32 \<times> u8 list) list \<Rightarrow> tlv_entry list" where
  "dir_of pos [] = []"
| "dir_of pos ((ty, bs) # ts) =
     \<lparr>e_pos = pos, e_type = ty, e_len = of_nat (length bs)\<rparr> # dir_of (pos + 8 + align4 (length bs)) ts"

lemma length_enc_tlv: "length (enc_tlv (ty, bs)) = 8 + align4 (length bs)"
  using align4_ge [of "length bs"] by (simp add: enc_tlv_def)

lemma tiles_encoded:
  assumes "\<forall>(ty, bs) \<in> set ts. length bs < 2 ^ 32"
  shows "tiles (hdr @ concat (map enc_tlv ts)) (length hdr) (dir_of (length hdr) ts)"
  using assms
proof (induction ts arbitrary: hdr)
  case Nil
  then show ?case by simp
next
  case (Cons t ts)
  obtain ty bs where t: "t = (ty, bs)" by (cases t)
  let ?rest = "bs @ replicate (align4 (length bs) - length bs) 0 @ concat (map enc_tlv ts)"
  let ?raw = "hdr @ concat (map enc_tlv (t # ts))"
  have raw: "?raw = hdr @ enc32 ty @ enc32 (of_nat (length bs)) @ ?rest"
    by (simp add: t enc_tlv_def)
  have u: "unat (of_nat (length bs) :: u32) = length bs"
    using Cons.prems t by (intro unat_of_nat_small) simp
  have l: "length (hdr @ enc_tlv t) = length hdr + 8 + align4 (length bs)"
    by (simp add: t length_enc_tlv)
  have "rd32 ?raw (length hdr) = Inr ty" unfolding raw by (rule rd32_append_at) simp
  moreover have "rd32 ?raw (length hdr + 4) = Inr (of_nat (length bs))"
    unfolding raw using rd32_append_at [of "length hdr + 4" "hdr @ enc32 ty" "of_nat (length bs)" ?rest] by simp
  moreover have "tiles ?raw (length hdr + 8 + align4 (length bs)) (dir_of (length hdr + 8 + align4 (length bs)) ts)"
    using Cons.IH [of "hdr @ enc_tlv t"] Cons.prems unfolding l by simp
  moreover have "length hdr + 8 + align4 (length bs) \<le> length ?raw" using l by simp
  ultimately show ?case by (simp add: t entry_end_def u)
qed

text \<open>
  C4. Round trip: whatever TLVs are written behind an 88-byte header, each padded to four
  bytes, the parser sees exactly these TLVs, with their payloads at the positions where they
  were written, in their order, and nothing else.
\<close>

theorem tlv_parse_encoded:
  assumes "length hdr = 88" and "\<forall>(ty, bs) \<in> set ts. length bs < 2 ^ 32"
    and "length (hdr @ concat (map enc_tlv ts)) < 2 ^ 64"
  shows "iwl_parse_tlv_firmware (hdr @ concat (map enc_tlv ts)) s0 =
         parse_dir (hdr @ concat (map enc_tlv ts)) (dir_of 88 ts) s0"
  using parse_eq_parse_dir [OF _ assms(3)] tiles_encoded [OF assms(2), of hdr] assms(1) by simp

definition demo_header :: "u8 list" where
  "demo_header = enc32 0 @ enc32 IWL_TLV_UCODE_MAGIC @ replicate 64 0 @ enc32 0x01020304 @ enc32 5 @ replicate 8 0"

definition demo_file :: "u8 list" where
  "demo_file = demo_header @ concat (map enc_tlv [(31, enc32 39), (19, enc32 0x400000 @ [1, 2, 3])])"

theorem tlv_parse_encoded_witness:
  "iwl_parse_tlv_firmware (demo_header @ concat (map enc_tlv [(31, enc32 39)])) init_state =
   parse_dir (demo_header @ concat (map enc_tlv [(31, enc32 39)])) [\<lparr>e_pos = 88, e_type = 31, e_len = 4\<rparr>] init_state"
  by (subst tlv_parse_encoded) (simp_all add: demo_header_def enc_tlv_def align4_def)

definition demo_dir :: "tlv_entry list" where
  "demo_dir = [\<lparr>e_pos = 88, e_type = 31, e_len = 4\<rparr>, \<lparr>e_pos = 100, e_type = 19, e_len = 7\<rparr>]"

lemma tiles_demo: "tiles demo_file 88 demo_dir"
  by code_simp

lemma length_demo: "length demo_file < 2 ^ 64"
  by (simp add: demo_file_def demo_header_def enc_tlv_def align4_def)

lemma demo_accepted: "\<exists>s. parse_dir demo_file demo_dir init_state = ok s"
proof -
  have "case parse_dir demo_file demo_dir init_state of Inr (None, _) \<Rightarrow> True | _ \<Rightarrow> False"
    by code_simp
  then show ?thesis by (auto split: sum.splits prod.splits option.splits)
qed

theorem tlv_parse_accepts_iff_witness:
  "\<exists>s. iwl_parse_tlv_firmware demo_file init_state = ok s"
proof -
  obtain s where "parse_dir demo_file demo_dir init_state = ok s" using demo_accepted by blast
  with tiles_demo have "iwl_parse_tlv_firmware demo_file init_state = ok s"
    unfolding tlv_parse_accepts_iff [OF length_demo] by blast
  then show ?thesis ..
qed

end
