(* ===== verification/Fw_Invariant.thy ===== *)
theory Fw_Invariant
  imports Fw_Directory
begin

section \<open>What every accepted firmware file guarantees\<close>

text \<open>
  The invariant of the TLV parser's state, kept by every case of its switch and therefore by
  the whole parse: array lengths, the bounds the switch checks before it stores a value, the
  length of the version string, and that every section descriptor points inside the file.
  \<open>valid_capa\<close>, \<open>valid_fw\<close> and \<open>valid_pieces\<close> are the invariants of the three structures.
\<close>

subsection \<open>The invariant\<close>

definition valid_capa :: "iwl_ucode_capabilities \<Rightarrow> bool" where
  "valid_capa c \<longleftrightarrow> length (api_bits c) = 1 \<and> length (capa_bits c) = 2"

definition valid_paging :: "u32 \<Rightarrow> bool" where
  "valid_paging n \<longleftrightarrow> n \<le> MAX_PAGING_IMAGE_SIZE \<and> n AND (FW_PAGING_SIZE - 1) = 0"

definition valid_fw :: "iwl_fw \<Rightarrow> bool" where
  "valid_fw w \<longleftrightarrow> valid_capa (ucode_capa w) \<and> length (cs w) = IWL_UCODE_MAX_CS \<and>
     valid_tx_ant w \<le> 15 \<and> valid_rx_ant w \<le> 15 \<and> length (fw_version w) < 32 \<and>
     dbg_dest_reg_num w \<le> 21 \<and> (\<forall>ty. valid_paging (paging_mem_size (img w ty)))"

definition in_file :: "nat \<Rightarrow> fw_sec \<Rightarrow> bool" where
  "in_file fsz sec = (case (sec_data sec, sec_size sec) of
     (Some d, Some n) \<Rightarrow> d + unat n \<le> fsz | _ \<Rightarrow> True)"

definition valid_img :: "nat \<Rightarrow> fw_img_parsing \<Rightarrow> bool" where
  "valid_img fsz i = (case img_sec i of None \<Rightarrow> sec_counter i = 0
     | Some xs \<Rightarrow> length xs = sec_counter i \<and> list_all (in_file fsz) xs)"

definition valid_slots :: "iwl_firmware_pieces \<Rightarrow> bool" where
  "valid_slots p \<longleftrightarrow>
     length (p_dbg_conf_tlv p) = FW_DBG_CONF_MAX \<and> length (p_dbg_conf_tlv_len p) = FW_DBG_CONF_MAX \<and>
     length (p_dbg_trigger_tlv p) = FW_DBG_TRIGGER_MAX \<and>
     length (p_dbg_trigger_tlv_len p) = FW_DBG_TRIGGER_MAX \<and>
     list_all (\<lambda>g. data_type g AND 0xff000000 \<in> {0, 0x01000000}) (p_dbg_mem_tlv p)"

definition valid_pieces :: "nat \<Rightarrow> iwl_firmware_pieces \<Rightarrow> bool" where
  "valid_pieces fsz p \<longleftrightarrow> valid_slots p \<and> (\<forall>ty. valid_img fsz (pimg p ty))"

definition valid_parse :: "nat \<Rightarrow> parse_state \<Rightarrow> bool" where
  "valid_parse fsz s \<longleftrightarrow> valid_fw (fw s) \<and> valid_pieces fsz (pieces s)"

named_theorems valid_defs \<open>definitions of the invariant\<close>
declare valid_fw_def [valid_defs] valid_pieces_def [valid_defs] valid_parse_def [valid_defs]
  valid_slots_def [valid_defs]

subsection \<open>Sections\<close>

lemma upd_img_valid:
  "\<forall>t. valid_img fsz (pimg p t) \<Longrightarrow> valid_img fsz i \<Longrightarrow> \<forall>t. valid_img fsz (pimg (upd_img ty i p) t)"
  by (simp add: upd_img_def)

lemma valid_slots_upd_img [simp]: "valid_slots (upd_img ty i p) = valid_slots p"
  by (simp add: upd_img_def valid_slots_def)

lemma in_file_uninit [simp]: "in_file fsz uninit_sec"
  by (simp add: in_file_def uninit_sec_def)

lemma alloc_sec_data_cases:
  assumes "alloc_sec_data ty sec (p, m) = Inr (p1, m1)"
  obtains (Same) "p1 = p"
  | (Grown) ys where "p1 = upd_img ty \<lparr>img_sec = Some ys, sec_counter = length ys\<rparr> p"
      and "length ys = sec + 1"
      and "set ys \<subseteq> insert uninit_sec (case img_sec (pimg p ty) of None \<Rightarrow> {} | Some xs \<Rightarrow> set xs)"
proof (cases "img_sec (pimg p ty)")
  case None
  with assms that(1) that(2) [of "replicate (sec + 1) uninit_sec"] show thesis
    by (auto simp: alloc_sec_data_def Let_def set_replicate_conv_if split: if_splits prod.splits)
next
  case (Some xs)
  with assms that(1) that(2) [of "replicate (sec + 1) uninit_sec"] that(2) [of "take sec xs @ [uninit_sec]"]
  show thesis
    by (auto simp: alloc_sec_data_def Let_def set_replicate_conv_if
        dest: in_set_takeD split: if_splits prod.splits)
qed

lemma alloc_sec_data_valid:
  assumes "\<forall>t. valid_img fsz (pimg p t)" and "alloc_sec_data ty sec (p, m) = Inr (p1, m1)"
  shows "(\<forall>t. valid_img fsz (pimg p1 t)) \<and> valid_slots p1 = valid_slots p"
  using assms(2)
proof (cases rule: alloc_sec_data_cases)
  case Same
  with assms(1) show ?thesis by simp
next
  case (Grown ys)
  have "list_all (in_file fsz) ys"
    using Grown(3) assms(1) [THEN spec [of _ ty]]
    by (auto simp: list_all_iff valid_img_def split: option.splits)
  then have "valid_img fsz \<lparr>img_sec = Some ys, sec_counter = length ys\<rparr>" by (simp add: valid_img_def)
  then show ?thesis using upd_img_valid [OF assms(1)] Grown(1) by simp
qed

lemma alloc_sec_data_idle:
  "img_sec (pimg p ty) = Some xs \<Longrightarrow> sec < sec_counter (pimg p ty) \<Longrightarrow>
   alloc_sec_data ty sec (p, m) = Inr (p, m)"
  by (simp add: alloc_sec_data_def Let_def)

lemma fw_sec_complete:
  "(x :: fw_sec)\<lparr>sec_data := a, sec_size := b, sec_offset := c\<rparr> =
   \<lparr>sec_data = a, sec_size = b, sec_offset = c\<rparr>"
  by (cases x) simp

text \<open>
  After the three setters the section is complete: the first one made room for it, so the
  other two find it in place.
\<close>

lemma tlv_set_sec_result:
  assumes "\<forall>t. valid_img fsz (pimg (pieces s) t)"
    and "tlv_set_sec ty sec off dat len s = Inr (r, s')"
  obtains p1 m1 xs where "alloc_sec_data ty sec (pieces s, mem s) = Inr (p1, m1)"
    and "img_sec (pimg p1 ty) = Some xs" and "sec < length xs" and "r = None"
    and "s' = s\<lparr>pieces := upd_img ty ((pimg p1 ty)\<lparr>img_sec :=
           Some (xs[sec := \<lparr>sec_data = Some dat, sec_size = Some (ucast len), sec_offset = Some off\<rparr>])\<rparr>) p1,
         mem := m1\<rparr>"
proof -
  from assms(2) obtain p1 m1 where al: "alloc_sec_data ty sec (pieces s, mem s) = Inr (p1, m1)"
    by (auto simp: tlv_set_sec_def on_pieces_def set_sec_data_def bindF_eq_Inr)
  from assms(2) al obtain xs where xs: "img_sec (pimg p1 ty) = Some xs" "sec < length xs"
    by (auto simp: tlv_set_sec_def on_pieces_def set_sec_data_def bindF_eq_Inr upd_sec_def Let_def
        split: option.splits if_splits)
  have "length xs = sec_counter (pimg p1 ty)"
    using alloc_sec_data_valid [OF assms(1) al] xs(1) by (auto simp: valid_img_def split: option.splits)
  with xs(2) have cnt: "sec < sec_counter (pimg p1 ty)" by simp
  show thesis
    using assms(2) xs cnt
    by (intro that [OF al xs])
      (auto simp: tlv_set_sec_def on_pieces_def set_sec_data_def set_sec_size_def set_sec_offset_def
        al upd_sec_def Let_def upd_img_def alloc_sec_data_idle fw_sec_complete split: option.splits)
qed

lemma tlv_set_sec_valid:
  assumes "valid_parse fsz s" and "tlv_set_sec ty sec off dat len s = Inr (r, s')"
    and "dat + unat len \<le> fsz"
  shows "valid_parse fsz s'"
proof -
  have imgs: "\<forall>t. valid_img fsz (pimg (pieces s) t)" using assms(1) by (simp add: valid_defs)
  obtain p1 m1 xs where
    al: "alloc_sec_data ty sec (pieces s, mem s) = Inr (p1, m1)"
    and xs: "img_sec (pimg p1 ty) = Some xs" "sec < length xs"
    and s': "s' = s\<lparr>pieces := upd_img ty ((pimg p1 ty)\<lparr>img_sec :=
           Some (xs[sec := \<lparr>sec_data = Some dat, sec_size = Some (ucast len), sec_offset = Some off\<rparr>])\<rparr>) p1,
         mem := m1\<rparr>" by (rule tlv_set_sec_result [OF imgs assms(2)])
  note p1 = alloc_sec_data_valid [OF imgs al]
  have "in_file fsz \<lparr>sec_data = Some dat, sec_size = Some (ucast len), sec_offset = Some off\<rparr>"
    using assms(3) by (simp add: in_file_def unat_ucast_32_64)
  with p1 xs have i: "valid_img fsz ((pimg p1 ty)\<lparr>img_sec :=
      Some (xs[sec := \<lparr>sec_data = Some dat, sec_size = Some (ucast len), sec_offset = Some off\<rparr>])\<rparr>)"
    by (auto simp: valid_img_def list_all_length nth_list_update split: option.splits)
  show ?thesis
    using upd_img_valid [OF conjunct1 [OF p1] i] p1 assms(1)
    by (simp add: s' valid_parse_def valid_pieces_def)
qed

text \<open>
  A section of \<open>iwl_store_ucode_sec\<close> loses the four bytes of its offset. Its size is computed
  from an \<open>int\<close>, so the file has to be below 2 GB for the size not to be sign-extended.
\<close>

lemma sec_size_signed:
  "4 \<le> len \<Longrightarrow> unat len < 2 ^ 31 \<Longrightarrow> unat (scast len - 4 :: u64) = unat len - 4" for len :: u32
proof -
  assume "4 \<le> len" and lt: "unat len < 2 ^ 31"
  then have four: "4 \<le> unat len" by (simp add: word_le_nat_alt)
  have "\<not> bit (unat len) 31" using lt by (simp add: bit_iff_odd)
  then have "\<not> bit len 31" by (simp add: bit_unsigned_iff)
  then have "scast len = (ucast len :: u64)"
    by (intro bit_word_eqI) (auto simp: bit_simps not_less le_eq_less_or_eq min_def dest: bit_imp_le_length)
  then show "unat (scast len - 4 :: u64) = unat len - 4"
    using four by (simp add: unat_sub word_le_nat_alt unat_ucast_32_64)
qed

definition img_secs :: "fw_img_parsing \<Rightarrow> fw_sec list" where
  "img_secs i = (case img_sec i of None \<Rightarrow> [] | Some xs \<Rightarrow> xs)"

lemma img_secs_Some [simp]: "img_secs \<lparr>img_sec = Some xs, sec_counter = n\<rparr> = xs"
  by (simp add: img_secs_def)

definition stored_sec :: "nat \<Rightarrow> u32 \<Rightarrow> u32 \<Rightarrow> fw_sec" where
  "stored_sec dat len off =
     \<lparr>sec_data = Some (dat + 4), sec_size = Some (scast len - 4), sec_offset = Some off\<rparr>"

lemma valid_img_iff:
  "valid_img fsz i \<longleftrightarrow> length (img_secs i) = sec_counter i \<and> list_all (in_file fsz) (img_secs i)"
  by (auto simp: valid_img_def img_secs_def split: option.splits)

lemma iwl_store_ucode_sec_cases:
  assumes "length (img_secs (pimg p ty)) = sec_counter (pimg p ty)"
    and "iwl_store_ucode_sec raw dat ty len (p, m) = Inr (r, p', m')"
  obtains (NoMem) "r = Some ENOMEM" and "p' = p" and "iwh_malloc m = (False, m')"
  | (Stored) off where "r = None" and "rd32 raw dat = Inr off" and "iwh_malloc m = (True, m')"
      and "p' = upd_img ty \<lparr>img_sec = Some (img_secs (pimg p ty) @ [stored_sec dat len off]),
             sec_counter = Suc (length (img_secs (pimg p ty)))\<rparr> p"
  using assms
  by (cases "img_sec (pimg p ty)")
    (auto simp: iwl_store_ucode_sec_def Let_def bindF_eq_Inr img_secs_def stored_sec_def
      split: if_splits prod.splits)

lemma stored_sec_in_file:
  assumes "dat + unat len \<le> fsz" and "4 \<le> len" and "fsz < 2 ^ 31"
  shows "in_file fsz (stored_sec dat len off)"
proof -
  have "unat (scast len - 4 :: u64) = unat len - 4"
    using assms by (intro sec_size_signed) simp_all
  moreover have "4 \<le> unat len" using assms(2) by (simp add: word_le_nat_alt)
  ultimately show ?thesis using assms(1) by (simp add: in_file_def stored_sec_def)
qed

lemma tlv_store_sec_valid:
  assumes "valid_parse fsz s" and "tlv_store_sec raw ty dat len s = Inr (r, s')"
    and "dat + unat len \<le> fsz" and "4 \<le> len" and "fsz < 2 ^ 31"
  shows "valid_parse fsz s'"
proof -
  have imgs: "\<forall>t. valid_img fsz (pimg (pieces s) t)" using assms(1) by (simp add: valid_defs)
  obtain r1 p' m' where st: "iwl_store_ucode_sec raw dat ty len (pieces s, mem s) = Inr (r1, p', m')"
    and s': "s' = s\<lparr>pieces := p', mem := m'\<rparr>"
    using assms(2) by (auto simp: tlv_store_sec_def bindF_eq_Inr)
  have "length (img_secs (pimg (pieces s) ty)) = sec_counter (pimg (pieces s) ty)"
    using imgs by (simp add: valid_img_iff)
  from this st have "valid_pieces fsz p'"
  proof (cases rule: iwl_store_ucode_sec_cases)
    case NoMem
    then show ?thesis using assms(1) by (simp add: valid_parse_def)
  next
    case (Stored off)
    have "valid_img fsz \<lparr>img_sec = Some (img_secs (pimg (pieces s) ty) @ [stored_sec dat len off]),
             sec_counter = Suc (length (img_secs (pimg (pieces s) ty)))\<rparr>"
      using spec [OF imgs, of ty] stored_sec_in_file [OF assms(3-5)]
      by (simp add: valid_img_iff)
    from upd_img_valid [OF imgs this] Stored assms(1) show ?thesis
      by (simp add: valid_parse_def valid_pieces_def)
  qed
  then show ?thesis using assms(1) by (simp add: s' valid_parse_def)
qed

lemma on_fw_valid: "valid_parse fsz s \<Longrightarrow> valid_fw (f (fw s)) \<Longrightarrow> valid_parse fsz (on_fw f s)"
  by (simp add: on_fw_def valid_parse_def)

lemma on_capa_valid:
  "valid_parse fsz s \<Longrightarrow> valid_capa (f (ucode_capa (fw s))) \<Longrightarrow> valid_parse fsz (on_capa f s)"
  by (simp add: on_capa_def on_fw_def valid_parse_def valid_fw_def)

lemma on_pc_valid:
  "valid_parse fsz s \<Longrightarrow> valid_pieces fsz (f (pieces s)) \<Longrightarrow> valid_parse fsz (on_pc f s)"
  by (simp add: on_pc_def valid_parse_def)

lemma tlv_word_valid:
  "tlv_word raw dat len f s = Inr (r, s') \<Longrightarrow> valid_parse fsz s \<Longrightarrow>
   (\<And>v. valid_parse fsz (f v s)) \<Longrightarrow> valid_parse fsz s'"
  by (auto simp: tlv_word_def bindF_eq_Inr split: if_splits)

text \<open>The four-bit antenna masks.\<close>

lemma nibble_le: "ucast (drop_bit k (v AND push_bit k 0xf)) \<le> (15 :: u8)" for v :: u32
proof -
  have f: "(0xf :: u32) = mask 4" by (simp add: mask_eq_exp_minus_1)
  have "ucast (drop_bit k (v AND push_bit k 0xf)) = take_bit 4 (ucast (drop_bit k (v AND push_bit k 0xf)) :: u8)"
    unfolding f by (rule bit_word_eqI) (auto simp: bit_simps)
  then have "unat (ucast (drop_bit k (v AND push_bit k 0xf)) :: u8) < 2 ^ 4"
    by (metis unat_take_bit mod_less_divisor zero_less_numeral zero_less_power)
  then show ?thesis by (simp add: word_le_nat_alt)
qed

lemma phy_sku_valid: "valid_fw w \<Longrightarrow> valid_fw (phy_sku v w)"
  using nibble_le [of 16 v] nibble_le [of 20 v] by (simp add: phy_sku_def valid_fw_def)

lemma set_dual_valid: "valid_fw w \<Longrightarrow> valid_fw (set_dual ty w)"
  by (simp add: set_dual_def valid_fw_def)

lemma set_paging_valid: "valid_fw w \<Longrightarrow> valid_paging n \<Longrightarrow> valid_fw (set_paging n ty w)"
  by (simp add: set_paging_def valid_fw_def)

lemma reg_num_le: "(n :: u8) div 12 \<le> 21"
proof -
  have "unat n < 2 ^ LENGTH(8)" by (rule unsigned_less)
  then have "unat n < 256" by simp
  then have "unat n div 12 \<le> 21" by linarith
  then show ?thesis by (simp add: word_le_nat_alt unat_div)
qed

lemma set_flagged_length:
  assumes "32 * idx < 64 * length b" and "set_flagged set_bit_c flags (32 * idx) [0..<32] b = Inr b'"
  shows "length b' = length b"
proof -
  have "\<forall>i \<in> set [0..<32]. i + 32 * idx < 64 * length b" using assms(1) by auto
  from words.set_flagged_ok [OF this, of flags] assms(2) show ?thesis by auto
qed

lemma iwl_set_ucode_api_flags_valid:
  "valid_capa c \<Longrightarrow> iwl_set_ucode_api_flags raw dat c = Inr c' \<Longrightarrow> valid_capa c'"
  by (auto simp: iwl_set_ucode_api_flags_def bindF_eq_Inr valid_capa_def DIV_ROUND_UP_def
      dest!: set_flagged_length [rotated] split: if_splits)

lemma iwl_set_ucode_capabilities_valid:
  "valid_capa c \<Longrightarrow> iwl_set_ucode_capabilities raw dat c = Inr c' \<Longrightarrow> valid_capa c'"
  by (auto simp: iwl_set_ucode_capabilities_def bindF_eq_Inr valid_capa_def DIV_ROUND_UP_def
      dest!: set_flagged_length [rotated] split: if_splits)

lemma cscheme_loop_length: "cscheme_loop raw dat j n css = Inr css' \<Longrightarrow> length css' = length css"
  by (induction raw dat j n css rule: cscheme_loop.induct)
    (auto simp: bindF_eq_Inr split: if_splits)

subsection \<open>The switch keeps the invariant\<close>

text \<open>The image a TLV of the new format adds a section to.\<close>

definition sec_image :: "u32 \<Rightarrow> iwl_ucode_type option" where
  "sec_image ty = (case tlv_type_of ty of
     TLV_SEC_RT \<Rightarrow> Some IWL_UCODE_REGULAR | TLV_SECURE_SEC_RT \<Rightarrow> Some IWL_UCODE_REGULAR
   | TLV_SEC_INIT \<Rightarrow> Some IWL_UCODE_INIT | TLV_SECURE_SEC_INIT \<Rightarrow> Some IWL_UCODE_INIT
   | TLV_SEC_WOWLAN \<Rightarrow> Some IWL_UCODE_WOWLAN | TLV_SECURE_SEC_WOWLAN \<Rightarrow> Some IWL_UCODE_WOWLAN
   | TLV_SEC_RT_USNIFFER \<Rightarrow> Some IWL_UCODE_REGULAR_USNIFFER
   | _ \<Rightarrow> None)"

lemma tlv_store_mvm_sec_valid:
  assumes "valid_parse fsz s" and "tlv_store_mvm_sec raw ty dat len s = Inr (r, s')"
    and "dat + unat len \<le> fsz" and "4 \<le> len" and "fsz < 2 ^ 31"
  shows "valid_parse fsz s'"
  using assms(2) unfolding tlv_store_mvm_sec_def
proof (cases rule: thenS_Inr_cases)
  case (Stop e)
  then show ?thesis using tlv_store_sec_valid [OF assms(1) _ assms(3-5)] by blast
next
  case (Go s1)
  then have "valid_parse fsz s1" using tlv_store_sec_valid [OF assms(1) _ assms(3-5)] by blast
  with Go show ?thesis by (auto simp: on_fw_def valid_parse_def valid_fw_def)
qed

lemma tlv_flags_valid: "valid_parse fsz s \<Longrightarrow> tlv_flags raw dat len s = Inr (r, s') \<Longrightarrow> valid_parse fsz s'"
  by (auto simp: tlv_flags_def bindF_eq_Inr valid_parse_def valid_fw_def valid_capa_def
      on_capa_def on_fw_def split: if_splits)

lemma tlv_api_changes_valid:
  "valid_parse fsz s \<Longrightarrow> tlv_api_changes raw dat len s = Inr (r, s') \<Longrightarrow> valid_parse fsz s'"
  by (auto simp: tlv_api_changes_def bindF_eq_Inr valid_parse_def valid_fw_def on_capa_def on_fw_def
      split: if_splits dest: iwl_set_ucode_api_flags_valid)

lemma tlv_capabilities_valid:
  "valid_parse fsz s \<Longrightarrow> tlv_capabilities raw dat len s = Inr (r, s') \<Longrightarrow> valid_parse fsz s'"
  by (auto simp: tlv_capabilities_def bindF_eq_Inr valid_parse_def valid_fw_def on_capa_def on_fw_def
      split: if_splits dest: iwl_set_ucode_capabilities_valid)

lemma tlv_def_calib_valid:
  "valid_parse fsz s \<Longrightarrow> tlv_def_calib raw dat len s = Inr (r, s') \<Longrightarrow> valid_parse fsz s'"
  by (auto simp: tlv_def_calib_def iwl_set_default_calib_def bindF_eq_Inr on_fw_def valid_parse_def
      valid_fw_def split: if_splits option.splits)

lemma tlv_num_of_cpu_valid:
  "valid_parse fsz s \<Longrightarrow> tlv_num_of_cpu raw dat len s = Inr (r, s') \<Longrightarrow> valid_parse fsz s'"
  by (auto simp: tlv_num_of_cpu_def bindF_eq_Inr Let_def valid_parse_def set_dual_valid on_fw_def
      split: if_splits)

lemma tlv_cscheme_valid:
  "valid_parse fsz s \<Longrightarrow> tlv_cscheme raw dat len s = Inr (r, s') \<Longrightarrow> valid_parse fsz s'"
  by (auto simp: tlv_cscheme_def iwl_store_cscheme_def bindF_eq_Inr on_fw_def valid_parse_def
      valid_fw_def dest!: cscheme_loop_length split: if_splits option.splits)

lemma tlv_fw_version_valid:
  "valid_parse fsz s \<Longrightarrow> tlv_fw_version raw dat len s = Inr (r, s') \<Longrightarrow> valid_parse fsz s'"
  by (auto simp: tlv_fw_version_def bindF_eq_Inr Let_def on_fw_def valid_parse_def valid_fw_def
      snprintf_def split: if_splits)

lemma tlv_dbg_dest_valid:
  "valid_parse fsz s \<Longrightarrow> tlv_dbg_dest raw dat len s = Inr (r, s') \<Longrightarrow> valid_parse fsz s'"
  by (auto simp: tlv_dbg_dest_def bindF_eq_Inr Let_def on_fw_def on_pc_def valid_defs reg_num_le
      split: if_splits)

lemma tlv_dbg_conf_valid:
  "valid_parse fsz s \<Longrightarrow> tlv_dbg_conf raw dat len s = Inr (r, s') \<Longrightarrow> valid_parse fsz s'"
  by (auto simp: tlv_dbg_conf_def bindF_eq_Inr Let_def on_pc_def valid_defs split: if_splits)

lemma tlv_dbg_trigger_valid:
  assumes "valid_parse fsz s" and "tlv_dbg_trigger raw dat len s = Inr (r, s')"
  shows "valid_parse fsz s'"
proof -
  have "valid_parse fsz (on_pc (\<lambda>p. p\<lparr>p_dbg_trigger_tlv := (p_dbg_trigger_tlv p)[i := Some dat],
      p_dbg_trigger_tlv_len := (p_dbg_trigger_tlv_len p)[i := ucast len]\<rparr>) s)" for i
    using assms(1) by (simp add: valid_defs on_pc_def)
  with assms show ?thesis by (auto simp: tlv_dbg_trigger_def bindF_eq_Inr Let_def split: if_splits)
qed

lemma tlv_paging_valid:
  "valid_parse fsz s \<Longrightarrow> tlv_paging raw dat len s = Inr (r, s') \<Longrightarrow> valid_parse fsz s'"
  by (auto simp: tlv_paging_def bindF_eq_Inr valid_parse_def on_fw_def valid_paging_def not_less
      intro!: set_paging_valid split: if_splits)

lemma tlv_gscan_valid:
  "valid_parse fsz s \<Longrightarrow> tlv_gscan raw dat len s = Inr (r, s') \<Longrightarrow> valid_parse fsz s'"
  by (auto simp: tlv_gscan_def iwl_store_gscan_capa_def bindF_eq_Inr valid_parse_def valid_fw_def
      split: if_splits)

lemma tlv_mem_seg_valid:
  "valid_parse fsz s \<Longrightarrow> tlv_mem_seg raw dat len s = Inr (r, s') \<Longrightarrow> valid_parse fsz s'"
  by (auto simp: tlv_mem_seg_def bindF_eq_Inr Let_def on_pc_def valid_defs
      split: if_splits prod.splits)

lemmas handler_valid = tlv_flags_valid tlv_api_changes_valid tlv_capabilities_valid
  tlv_def_calib_valid tlv_num_of_cpu_valid tlv_cscheme_valid tlv_fw_version_valid
  tlv_dbg_dest_valid tlv_dbg_conf_valid tlv_dbg_trigger_valid tlv_paging_valid tlv_gscan_valid
  tlv_mem_seg_valid

lemma tlv_word_capa_valid:
  "tlv_word raw dat len (\<lambda>v. on_capa (g v)) s = Inr (r, s') \<Longrightarrow> valid_parse fsz s \<Longrightarrow>
   (\<And>v c. api_bits (g v c) = api_bits c \<and> capa_bits (g v c) = capa_bits c) \<Longrightarrow> valid_parse fsz s'"
  by (erule tlv_word_valid) (simp_all add: on_capa_def on_fw_def valid_parse_def valid_fw_def valid_capa_def)

lemma tlv_word_pc_valid:
  "tlv_word raw dat len (\<lambda>v. on_pc (g v)) s = Inr (r, s') \<Longrightarrow> valid_parse fsz s \<Longrightarrow>
   (\<And>v p. valid_slots (g v p) = valid_slots p \<and> pimg (g v p) = pimg p) \<Longrightarrow> valid_parse fsz s'"
  by (erule tlv_word_valid) (simp_all add: on_pc_def valid_parse_def valid_pieces_def)

lemma tlv_word_fw_valid:
  "tlv_word raw dat len (\<lambda>v. on_fw (g v)) s = Inr (r, s') \<Longrightarrow> valid_parse fsz s \<Longrightarrow>
   (\<And>v w. valid_fw w \<Longrightarrow> valid_fw (g v w)) \<Longrightarrow> valid_parse fsz s'"
  by (erule tlv_word_valid) (simp_all add: on_fw_def valid_parse_def)

lemma tlv_switch_a_valid:
  assumes "valid_parse fsz s" and "tlv_switch_a raw ty dat len s = Some (Inr (r, s'))"
    and "dat + unat len \<le> fsz"
  shows "valid_parse fsz s'"
proof (cases "ty = TLV_PAN")
  case True
  with assms(1,2) show ?thesis
    by (auto simp: tlv_switch_a_def on_capa_def on_fw_def valid_parse_def valid_fw_def valid_capa_def
        split: if_splits)
next
  case False
  show ?thesis
    by (insert False assms(1) assms(2) [unfolded tlv_switch_a_def],
        cases ty; simp; (erule handler_valid [OF assms(1)] tlv_set_sec_valid [OF assms(1) _ assms(3)]
          | (erule tlv_word_capa_valid [OF _ assms(1)]; simp) | simp add: assms(1)))
qed

lemma tlv_switch_b_valid:
  assumes "valid_parse fsz s" and "tlv_switch_b raw ty dat len s = Some (Inr (r, s'))"
    and "dat + unat len \<le> fsz"
  shows "valid_parse fsz s'"
proof (cases "ty = TLV_ENHANCE_SENS_TBL")
  case True
  with assms(1,2) show ?thesis
    by (auto simp: tlv_switch_b_def on_fw_def valid_parse_def valid_fw_def split: if_splits)
next
  case False
  show ?thesis
    by (insert False assms(2) [unfolded tlv_switch_b_def],
        cases ty; simp; (erule tlv_set_sec_valid [OF assms(1) _ assms(3)]
          | (erule tlv_word_capa_valid [OF _ assms(1)]; simp)
          | (erule tlv_word_pc_valid [OF _ assms(1)]; simp add: valid_slots_def)))
qed

lemma tlv_switch_c_valid:
  assumes "valid_parse fsz s" and "tlv_switch_c raw (tlv_type_of ty) dat len s = Inr (r, s')"
    and "dat + unat len \<le> fsz" and "sec_image ty \<noteq> None \<longrightarrow> 4 \<le> len" and "fsz < 2 ^ 31"
  shows "valid_parse fsz s'"
proof (cases "sec_image ty")
  case None
  show ?thesis
    by (insert None assms(1) assms(2) [unfolded tlv_switch_c_def], cases "tlv_type_of ty"; simp add: sec_image_def; (erule handler_valid [OF assms(1)]
          | (erule tlv_word_capa_valid [OF _ assms(1)]; simp)
          | (erule tlv_word_fw_valid [OF _ assms(1)], erule phy_sku_valid)
          | (erule tlv_word_fw_valid [OF _ assms(1)]; simp add: valid_fw_def) | simp add: assms(1)))
next
  case (Some i)
  have sniff: "valid_parse fsz (s\<lparr>usniffer_images := True\<rparr>)" using assms(1) by (simp add: valid_parse_def)
  from Some assms(4) have len: "4 \<le> len" by simp
  show ?thesis
    by (insert Some assms(2) [unfolded tlv_switch_c_def],
        cases "tlv_type_of ty"; simp add: sec_image_def;
        (erule tlv_store_mvm_sec_valid [OF assms(1) _ assms(3) len assms(5)]
          tlv_store_sec_valid [OF sniff _ assms(3) len assms(5)]))
qed

lemma tlv_switch_valid:
  assumes "valid_parse fsz s" and "tlv_switch raw ty dat len s = Inr (r, s')"
    and "dat + unat len \<le> fsz" and "sec_image ty \<noteq> None \<longrightarrow> 4 \<le> len" and "fsz < 2 ^ 31"
  shows "valid_parse fsz s'"
  using assms(2) tlv_switch_a_valid [OF assms(1) _ assms(3)] tlv_switch_b_valid [OF assms(1) _ assms(3)]
    tlv_switch_c_valid [OF assms(1) _ assms(3-5)]
  by (auto simp: tlv_switch_def Let_def split: option.splits)

lemma tlv_header_valid: "valid_parse fsz s \<Longrightarrow> tlv_header raw s = ok s' \<Longrightarrow> valid_parse fsz s'"
  by (auto simp: tlv_header_def bindF_eq_Inr on_fw_def valid_parse_def valid_fw_def
      version_string_def snprintf_def split: if_splits)

lemma clear_bit_length: "clear_bit n a = Inr a' \<Longrightarrow> length a' = length a"
  by (auto simp: clear_bit_def Let_def split: if_splits)

lemma tlv_finish_valid: "valid_parse fsz s \<Longrightarrow> tlv_finish (len, s) = ok s' \<Longrightarrow> valid_parse fsz s'"
  by (auto simp: tlv_finish_def bindF_eq_Inr on_capa_def on_fw_def valid_parse_def valid_fw_def
      valid_capa_def dest!: clear_bit_length split: if_splits)

definition sections_framed :: "tlv_entry list \<Rightarrow> bool" where
  "sections_framed es = list_all (\<lambda>e. sec_image (e_type e) \<noteq> None \<longrightarrow> 4 \<le> e_len e) es"

lemma run_dir_valid:
  assumes "valid_parse (length raw) s" and "tiles raw pos es" and "run_dir raw es s = ok s'"
    and "sections_framed es" and "length raw < 2 ^ 31"
  shows "valid_parse (length raw) s'"
  using assms(1-4)
proof (induction es arbitrary: pos s)
  case Nil
  then show ?case by simp
next
  case (Cons e es)
  then obtain s1 where s1: "run_entry raw e s = ok s1" "run_dir raw es s1 = ok s'"
    by (auto simp: thenS_ok)
  have "e_pos e + 8 + unat (e_len e) \<le> length raw"
    using Cons.prems(2) align4_ge [of "unat (e_len e)"] by (simp add: entry_end_def)
  with s1(1) Cons.prems(1,4) assms(5) have "valid_parse (length raw) s1"
    unfolding run_entry_def sections_framed_def by (elim tlv_switch_valid) auto
  with Cons.IH [OF _ _ s1(2)] Cons.prems(2,4) show ?case by (auto simp: sections_framed_def)
qed


lemma init_state_valid: "valid_parse fsz init_state"
  by (simp add: valid_defs init_state_def zero_fw_def zero_pieces_def zero_capa_def valid_capa_def
      valid_paging_def valid_img_def)


subsection \<open>Which sections an image gets\<close>

text \<open>
  The legacy TLVs write fixed section slots; without them the section array of an image is
  the list of its section TLVs in file order. \<open>same_secs\<close> is the frame of the other handlers.
\<close>

definition same_secs :: "parse_state \<Rightarrow> parse_state \<Rightarrow> bool" where
  "same_secs s s' \<longleftrightarrow> pimg (pieces s') = pimg (pieces s) \<and> (mem s = [] \<longrightarrow> mem s' = [])"

definition legacy_tlv :: "u32 \<Rightarrow> bool" where
  "legacy_tlv ty = (tlv_type_of ty \<in> {TLV_INST, TLV_DATA, TLV_INIT, TLV_INIT_DATA,
     TLV_WOWLAN_INST, TLV_WOWLAN_DATA})"

lemma same_secs_updates [simp]:
  "same_secs s s" "same_secs s (on_fw f s)" "same_secs s (on_capa g s)"
  by (simp_all add: same_secs_def on_fw_def on_capa_def)

lemma same_secs_on_pc: "(\<And>p. pimg (f p) = pimg p) \<Longrightarrow> same_secs s (on_pc f s)"
  by (simp add: same_secs_def on_pc_def)

lemma tlv_word_frame:
  "tlv_word raw dat len f s = ok s' \<Longrightarrow> (\<And>v. same_secs s (f v s)) \<Longrightarrow> same_secs s s'"
  by (auto simp: tlv_word_def bindF_eq_Inr split: if_splits)

lemma tlv_word_pc_frame:
  "tlv_word raw dat len (\<lambda>v. on_pc (g v)) s = ok s' \<Longrightarrow> (\<And>v p. pimg (g v p) = pimg p) \<Longrightarrow> same_secs s s'"
  by (erule tlv_word_frame) (simp add: same_secs_on_pc)

lemma handler_frame:
  "tlv_flags raw dat len s = ok s' \<Longrightarrow> same_secs s s'"
  "tlv_api_changes raw dat len s = ok s' \<Longrightarrow> same_secs s s'"
  "tlv_capabilities raw dat len s = ok s' \<Longrightarrow> same_secs s s'"
  "tlv_def_calib raw dat len s = ok s' \<Longrightarrow> same_secs s s'"
  "tlv_num_of_cpu raw dat len s = ok s' \<Longrightarrow> same_secs s s'"
  "tlv_cscheme raw dat len s = ok s' \<Longrightarrow> same_secs s s'"
  "tlv_fw_version raw dat len s = ok s' \<Longrightarrow> same_secs s s'"
  "tlv_paging raw dat len s = ok s' \<Longrightarrow> same_secs s s'"
  by (auto simp: tlv_flags_def tlv_api_changes_def tlv_capabilities_def tlv_def_calib_def
      tlv_num_of_cpu_def tlv_cscheme_def tlv_fw_version_def tlv_paging_def bindF_eq_Inr Let_def
      split: if_splits option.splits)

lemma handler_frame_pieces:
  "tlv_dbg_dest raw dat len s = ok s' \<Longrightarrow> same_secs s s'"
  "tlv_dbg_conf raw dat len s = ok s' \<Longrightarrow> same_secs s s'"
  "tlv_dbg_trigger raw dat len s = ok s' \<Longrightarrow> same_secs s s'"
  "tlv_gscan raw dat len s = ok s' \<Longrightarrow> same_secs s s'"
  "tlv_mem_seg raw dat len s = ok s' \<Longrightarrow> same_secs s s'"
  by (auto simp: tlv_dbg_dest_def tlv_dbg_conf_def tlv_dbg_trigger_def tlv_gscan_def tlv_mem_seg_def
      bindF_eq_Inr Let_def same_secs_def on_pc_def on_fw_def
      split: if_splits option.splits prod.splits)

lemma tlv_switch_frame:
  assumes "tlv_switch raw ty dat len s = ok s'" and "\<not> legacy_tlv ty" and "sec_image ty = None"
  shows "same_secs s s'"
  by (insert assms(1) [unfolded tlv_switch_def tlv_switch_a_def tlv_switch_b_def tlv_switch_c_def Let_def]
        assms(2,3) [unfolded legacy_tlv_def sec_image_def],
      cases "tlv_type_of ty"; simp; (erule handler_frame handler_frame_pieces
        | (erule tlv_word_pc_frame; simp) | (erule tlv_word_frame; simp) | (force split: if_splits)))

definition entry_sec :: "u8 list \<Rightarrow> tlv_entry \<Rightarrow> fw_sec" where
  "entry_sec raw e = stored_sec (e_pos e + 8) (e_len e)
     (case rd32 raw (e_pos e + 8) of Inr off \<Rightarrow> off | Inl _ \<Rightarrow> 0)"

definition dir_secs :: "u8 list \<Rightarrow> iwl_ucode_type \<Rightarrow> tlv_entry list \<Rightarrow> fw_sec list" where
  "dir_secs raw i es = map (entry_sec raw) (filter (\<lambda>e. sec_image (e_type e) = Some i) es)"

definition sized :: "parse_state \<Rightarrow> bool" where
  "sized s \<longleftrightarrow> (\<forall>i. length (img_secs (pimg (pieces s) i)) = sec_counter (pimg (pieces s) i))"

lemma tlv_store_sec_secs:
  assumes "tlv_store_sec raw i dat len s = ok s'" and "sized s" and "mem s = []"
  shows "sized s' \<and> mem s' = [] \<and> (\<exists>off. rd32 raw dat = Inr off \<and>
     (\<forall>j. img_secs (pimg (pieces s') j) = img_secs (pimg (pieces s) j) @
        (if j = i then [stored_sec dat len off] else [])))"
proof -
  obtain r1 p' m' where st: "iwl_store_ucode_sec raw dat i len (pieces s, mem s) = Inr (r1, p', m')"
    and s': "s' = s\<lparr>pieces := p', mem := m'\<rparr>"
    using assms(1) by (auto simp: tlv_store_sec_def bindF_eq_Inr)
  have "length (img_secs (pimg (pieces s) i)) = sec_counter (pimg (pieces s) i)"
    using assms(2) by (simp add: sized_def)
  from this st show ?thesis
  proof (cases rule: iwl_store_ucode_sec_cases)
    case NoMem
    then show ?thesis using assms(3) by simp
  next
    case (Stored off)
    then show ?thesis
      using assms(2,3) by (auto simp: s' sized_def upd_img_def img_secs_Some)
  qed
qed

lemma same_secs_sized: "same_secs s s' \<Longrightarrow> sized s' = sized s"
  by (simp add: same_secs_def sized_def)

lemma tlv_switch_store:
  assumes "tlv_switch raw ty dat len s = ok s'" and "sec_image ty = Some i"
  shows "\<exists>s0 s1. sized s0 = sized s \<and> mem s0 = mem s \<and> pieces s0 = pieces s \<and>
     tlv_store_sec raw i dat len s0 = ok s1 \<and> pieces s' = pieces s1 \<and> mem s' = mem s1"
proof -
  have mvm: ?thesis if "tlv_store_mvm_sec raw i dat len s = ok s'"
    using that by (auto simp: tlv_store_mvm_sec_def thenS_ok on_fw_def)
  have sniff: ?thesis if "tlv_store_sec raw i dat len (s\<lparr>usniffer_images := True\<rparr>) = ok s'"
    using that by (intro exI [of _ "s\<lparr>usniffer_images := True\<rparr>"] exI [of _ s']) (simp add: sized_def)
  have "tlv_switch raw ty dat len s = tlv_store_mvm_sec raw i dat len s \<or>
        tlv_switch raw ty dat len s = tlv_store_sec raw i dat len (s\<lparr>usniffer_images := True\<rparr>)"
    using assms(2)
    by (cases "tlv_type_of ty"; simp add: sec_image_def)
      (simp_all add: tlv_switch_def tlv_switch_a_def tlv_switch_b_def tlv_switch_c_def)
  with assms(1) show ?thesis using mvm sniff by metis
qed

lemma run_entry_secs:
  assumes "run_entry raw e s = ok s'" and "\<not> legacy_tlv (e_type e)" and "sized s" and "mem s = []"
  shows "sized s' \<and> mem s' = [] \<and> (\<forall>i. img_secs (pimg (pieces s') i) =
           img_secs (pimg (pieces s) i) @ dir_secs raw i [e])"
proof (cases "sec_image (e_type e)")
  case None
  with assms(1,2) have "same_secs s s'" unfolding run_entry_def by (intro tlv_switch_frame)
  with assms(3,4) None show ?thesis
    using same_secs_sized [of s s'] by (auto simp: same_secs_def dir_secs_def)
next
  case (Some i)
  from tlv_switch_store [OF assms(1) [unfolded run_entry_def] this] obtain s0 s1 where
    "sized s0" "mem s0 = []" and eq: "pieces s0 = pieces s" "pieces s' = pieces s1" "mem s' = mem s1"
    and st: "tlv_store_sec raw i (e_pos e + 8) (e_len e) s0 = ok s1"
    using assms(3,4) by auto
  from tlv_store_sec_secs [OF st this(1,2)] Some show ?thesis
    by (auto simp: eq sized_def dir_secs_def entry_sec_def)
qed

lemma run_dir_secs:
  assumes "run_dir raw es s = ok s'" and "list_all (\<lambda>e. \<not> legacy_tlv (e_type e)) es"
    and "sized s" and "mem s = []"
  shows "\<forall>i. img_secs (pimg (pieces s') i) = img_secs (pimg (pieces s) i) @ dir_secs raw i es"
  using assms
proof (induction es arbitrary: s)
  case Nil
  then show ?case by (simp add: dir_secs_def)
next
  case (Cons e es)
  then obtain s1 where s1: "run_entry raw e s = ok s1" "run_dir raw es s1 = ok s'"
    by (auto simp: thenS_ok)
  have "\<not> legacy_tlv (e_type e)" using Cons.prems(2) by simp
  from run_entry_secs [OF s1(1) this Cons.prems(3,4)] Cons.IH [OF s1(2)] Cons.prems(2)
  show ?case by (simp add: dir_secs_def)
qed



end
