(* ===== verification/Fw_Formats.thy ===== *)
theory Fw_Formats
  imports Fw_Invariant
begin

section \<open>The legacy format, the flag words and the unpadded TLV\<close>

text \<open>
  Properties of the other entry points of the firmware parsers: the exact layout that
  \<open>iwl_parse_v1_v2_firmware\<close> derives from a v1/v2 header, the bits that the API and the
  capability TLVs set, and what the TLV loop does when the last payload is not padded.
\<close>

subsection \<open>Version 1 and 2 files\<close>

definition v12_hdr :: "u32 \<Rightarrow> nat" where
  "v12_hdr ver = (if IWL_UCODE_API ver \<in> {0, 1, 2} then 24 else 28)"

definition v12_field :: "u32 \<Rightarrow> nat" where
  "v12_field ver = (if IWL_UCODE_API ver \<in> {0, 1, 2} then 4 else 8)"

definition v12_secs :: "nat \<Rightarrow> u32 \<Rightarrow> u32 \<Rightarrow> fw_sec list" where
  "v12_secs src inst dat =
     [\<lparr>sec_data = Some (src + unat inst), sec_size = Some (ucast dat), sec_offset = Some 0x800000\<rparr>,
      \<lparr>sec_data = Some src, sec_size = Some (ucast inst), sec_offset = Some 0\<rparr>]"

lemma v12_sum:
  fixes a b c d :: u32
  assumes "h \<le> 28" and "n < 2 ^ 64"
  shows "(of_nat n :: u64) = of_nat h + ucast a + ucast b + ucast c + ucast d \<longleftrightarrow>
         n = h + unat a + unat b + unat c + unat d"
proof -
  let ?s = "h + unat a + unat b + unat c + unat d"
  have lt: "unat w < 2 ^ 32" for w :: u32
  proof -
    have "unat w < 2 ^ LENGTH(32)" by (rule unsigned_less)
    then show ?thesis by simp
  qed
  have "of_nat h + ucast a + ucast b + ucast c + ucast d = (of_nat ?s :: u64)"
    by (simp only: of_nat_add of_nat_unat)
  moreover have "?s < 2 ^ LENGTH(64)" using lt [of a] lt [of b] lt [of c] lt [of d] assms(1) by simp
  then have "unat (of_nat ?s :: u64) = ?s" by (rule unat_of_nat_small)
  moreover have "unat (of_nat n :: u64) = n" by (rule unat_of_nat_small) (use assms(2) in simp)
  ultimately show ?thesis by metis
qed

text \<open>The pieces after the four calls of \<open>set_sec_size\<close>, from the zeroed structure.\<close>

definition sized_sec :: "u32 \<Rightarrow> fw_sec" where
  "sized_sec n = uninit_sec\<lparr>sec_size := Some (ucast n)\<rparr>"

definition two_secs :: "fw_sec list \<Rightarrow> fw_img_parsing" where
  "two_secs xs = \<lparr>img_sec = Some xs, sec_counter = 2\<rparr>"

definition v12_pieces :: "fw_sec list \<Rightarrow> fw_sec list \<Rightarrow> iwl_firmware_pieces" where
  "v12_pieces rt ini = upd_img IWL_UCODE_INIT (two_secs ini) (upd_img IWL_UCODE_REGULAR (two_secs rt) zero_pieces)"

lemmas sec_ops = on_pieces_def set_sec_size_def set_sec_data_def set_sec_offset_def alloc_sec_data_def
  upd_sec_def get_sec_size_def get_sec_def upd_img_def Let_def

lemma v12_sizes_zero:
  assumes "pieces s = zero_pieces" and "mem s = []"
    and "rd32 raw p = Inr a" and "rd32 raw (p + 4) = Inr b" and "rd32 raw (p + 8) = Inr c"
    and "rd32 raw (p + 12) = Inr d"
  shows "v12_sizes raw p s =
    Inr (s\<lparr>pieces := v12_pieces [sized_sec b, sized_sec a] [sized_sec d, sized_sec c]\<rparr>)"
  using assms
  by (simp add: v12_sizes_def v12_size_def sec_ops zero_pieces_def v12_pieces_def two_secs_def
      sized_sec_def numeral_2_eq_2 fun_upd_twist)

lemma v12_total_pieces:
  "v12_total h (v12_pieces [sized_sec b, sized_sec a] [sized_sec d, sized_sec c]) =
   Inr (h + ucast a + ucast b + ucast c + ucast d)"
  by (simp add: v12_total_def sec_ops v12_pieces_def two_secs_def sized_sec_def)

lemma v12_layout_pieces:
  assumes "pieces s = v12_pieces [sized_sec b, sized_sec a] [sized_sec d, sized_sec c]" and "mem s = []"
  shows "v12_layout src s = ok (s\<lparr>pieces := v12_pieces (v12_secs src a b)
           (v12_secs (src + unat a + unat b) c d)\<rparr>)"
  using assms
  by (simp add: v12_layout_def v12_place_def sec_ops v12_pieces_def two_secs_def sized_sec_def
      v12_secs_def uninit_sec_def fun_upd_twist unat_ucast_32_64 numeral_2_eq_2)

text \<open>
  C7. A v1/v2 file whose header is complete is accepted exactly when the four section sizes of
  the header add up, with the header, to the size of the file; it is refused with EINVAL
  otherwise. In an accepted file the four sections (runtime code, runtime data, init code, init
  data) follow each other without gap or overlap from the header to the end of the file, with
  the load addresses of code and data.
\<close>

theorem v12_parse_spec:
  assumes "pieces s0 = zero_pieces" and "mem s0 = []" and "length raw < 2 ^ 64"
    and "rd32 raw 0 = Inr ver" and "v12_hdr ver \<le> length raw"
    and "rd32 raw (v12_field ver) = Inr a" and "rd32 raw (v12_field ver + 4) = Inr b"
    and "rd32 raw (v12_field ver + 8) = Inr c" and "rd32 raw (v12_field ver + 12) = Inr d"
  shows "\<exists>s. iwl_parse_v1_v2_firmware raw s0 =
             (if length raw = v12_hdr ver + unat a + unat b + unat c + unat d then ok s else fail EINVAL s) \<and>
           (length raw = v12_hdr ver + unat a + unat b + unat c + unat d \<longrightarrow>
              pimg (pieces s) IWL_UCODE_REGULAR = two_secs (v12_secs (v12_hdr ver) a b) \<and>
              pimg (pieces s) IWL_UCODE_INIT = two_secs (v12_secs (v12_hdr ver + unat a + unat b) c d))"
proof -
  have h: "v12_hdr ver \<le> 28" by (simp add: v12_hdr_def)
  note sum = v12_sum [OF h assms(3), of a b c d]
  have v1: "(IWL_UCODE_API ver = 0 \<or> IWL_UCODE_API ver = 1 \<or> IWL_UCODE_API ver = 2) \<longleftrightarrow>
      IWL_UCODE_API ver \<in> {0, 1, 2}" by simp
  have build: "\<exists>build. (if IWL_UCODE_API ver \<in> {0, 1, 2} then Inr 0 else rd32 raw 4) = Inr build"
    using assms(5) by (auto simp: v12_hdr_def rd32_def split: if_splits)
  then obtain build where build: "(if IWL_UCODE_API ver \<in> {0, 1, 2} then Inr 0 else rd32 raw 4) = Inr build" ..
  define s1 where "s1 = s0\<lparr>fw := (fw s0)\<lparr>ucode_ver := ver\<rparr>\<rparr>"
  define s2 where "s2 = s1\<lparr>pieces := v12_pieces [sized_sec b, sized_sec a] [sized_sec d, sized_sec c]\<rparr>"
  define s3 where "s3 = s2\<lparr>fw := (fw s2)\<lparr>fw_version := version_string ver build\<rparr>\<rparr>"
  have sizes: "v12_sizes raw (v12_field ver) s1 = Inr s2"
    unfolding s2_def by (rule v12_sizes_zero) (simp_all add: s1_def assms)
  have total: "v12_total (of_nat (v12_hdr ver)) (pieces s3) = Inr (of_nat (v12_hdr ver) + ucast a + ucast b + ucast c + ucast d)"
    by (simp add: s3_def s2_def v12_total_pieces)
  have layout: "v12_layout (v12_hdr ver) s3 = ok (s3\<lparr>pieces := v12_pieces (v12_secs (v12_hdr ver) a b)
      (v12_secs (v12_hdr ver + unat a + unat b) c d)\<rparr>)"
    by (rule v12_layout_pieces) (simp_all add: s3_def s2_def s1_def assms(2))
  have "iwl_parse_v1_v2_firmware raw s0 =
      (if length raw = v12_hdr ver + unat a + unat b + unat c + unat d
       then v12_layout (v12_hdr ver) s3 else fail EINVAL s3)"
    unfolding iwl_parse_v1_v2_firmware_def assms(4) bindF_simps Let_def v1 v12_hdr_def [symmetric]
      v12_field_def [symmetric] s1_def [symmetric] build sizes s3_def [symmetric] total
    by (simp only: sum not_le [symmetric] assms(5) not_True_eq_False if_False if_not_P split: if_split) simp
  then show ?thesis
    by (cases "length raw = v12_hdr ver + unat a + unat b + unat c + unat d")
      (auto simp: layout v12_pieces_def upd_img_def)
qed

definition demo_v1 :: "u8 list" where
  "demo_v1 = enc32 0x01020204 @ enc32 2 @ enc32 1 @ enc32 1 @ enc32 0 @ enc32 0 @ [1, 2, 3, 4]"

theorem v12_parse_spec_witness:
  "\<exists>s. iwl_parse_v1_v2_firmware demo_v1 init_state = ok s \<and>
       pimg (pieces s) IWL_UCODE_INIT = two_secs (v12_secs 27 1 0)"
proof -
  have "length demo_v1 < 2 ^ 64" by (simp add: demo_v1_def)
  moreover have "rd32 demo_v1 0 = Inr 0x01020204" by code_simp
  moreover have "v12_hdr 0x01020204 = 24" "v12_field 0x01020204 = 4" by code_simp+
  moreover have "rd32 demo_v1 4 = Inr 2" "rd32 demo_v1 8 = Inr 1" "rd32 demo_v1 12 = Inr 1"
    "rd32 demo_v1 16 = Inr 0" by code_simp+
  moreover have "length demo_v1 = 28" by (simp add: demo_v1_def)
  ultimately show ?thesis
    using v12_parse_spec [of init_state demo_v1 "0x01020204" 2 1 1 0] by (auto simp: init_state_def)
qed

subsection \<open>API and capability flags\<close>

text \<open>
  A capability TLV with index \<open>i\<close> below four sets exactly the capability bits \<open>32 * i + n\<close> whose
  bit \<open>n\<close> is set in its flag word and changes no other bit; a larger index is ignored.
\<close>

theorem set_ucode_capabilities_spec:
  assumes "length (capa_bits c) = 2" and "rd32 raw dat = Inr i" and "rd32 raw (dat + 4) = Inr flags"
  shows "\<exists>c'. iwl_set_ucode_capabilities raw dat c = Inr c' \<and> length (capa_bits c') = 2 \<and>
     api_bits c' = api_bits c \<and>
     (\<forall>m < 128. bitmap_bit (capa_bits c') m \<longleftrightarrow> bitmap_bit (capa_bits c) m \<or>
        (m div 32 = unat i \<and> bit flags (m mod 32)))"
proof (cases "unat i \<ge> 4")
  case True
  then have "m div 32 \<noteq> unat i" if "m < 128" for m using that by auto
  with True show ?thesis
    using assms by (auto simp: iwl_set_ucode_capabilities_def DIV_ROUND_UP_def)
next
  case False
  then have "\<forall>n \<in> set [0..<32]. n + 32 * unat i < 64 * length (capa_bits c)" using assms(1) by auto
  from words.set_flagged_ok [OF this, of flags] obtain b' where
    b': "set_flagged set_bit_c flags (32 * unat i) [0..<32] (capa_bits c) = Inr b'" "length b' = 2"
    "\<And>m. m < 128 \<Longrightarrow> bitmap_bit b' m \<longleftrightarrow> bitmap_bit (capa_bits c) m \<or>
      (\<exists>n \<in> set [0..<32]. m = n + 32 * unat i \<and> flags AND push_bit n 1 \<noteq> 0)"
    using assms(1) by auto
  have flag: "(\<exists>n \<in> set [0..<32]. m = n + 32 * unat i \<and> flags AND push_bit n 1 \<noteq> 0) \<longleftrightarrow>
      m div 32 = unat i \<and> bit flags (m mod 32)" for m
  proof
    assume m: "m div 32 = unat i \<and> bit flags (m mod 32)"
    then have "m = m mod 32 + 32 * unat i" using mod_mult_div_eq [of m 32] by simp
    with m show "\<exists>n \<in> set [0..<32]. m = n + 32 * unat i \<and> flags AND push_bit n 1 \<noteq> 0"
      by (intro bexI [of _ "m mod 32"]) (auto simp only: and_push_bit_1 mod_less_divisor, auto)
  qed (auto simp only: and_push_bit_1 set_upt atLeastLessThan_iff, auto)
  show ?thesis
    using b' False assms(2,3) flag by (auto simp: iwl_set_ucode_capabilities_def DIV_ROUND_UP_def)
qed

theorem set_ucode_capabilities_spec_witness:
  "\<exists>c'. iwl_set_ucode_capabilities (enc32 2 @ enc32 0x2001) 0 zero_capa = Inr c' \<and>
     bitmap_bit (capa_bits c') 77 \<and> \<not> bitmap_bit (capa_bits c') 13"
proof -
  have "length (capa_bits zero_capa) = 2" by (simp add: zero_capa_def)
  moreover have "rd32 (enc32 2 @ enc32 0x2001) 0 = Inr 2" "rd32 (enc32 2 @ enc32 0x2001) (0 + 4) = Inr 0x2001"
    by code_simp+
  moreover have "bit (0x2001 :: u32) (77 mod 32)" "\<not> bitmap_bit (capa_bits zero_capa) 13" by code_simp+
  ultimately show ?thesis
    using set_ucode_capabilities_spec [of zero_capa "enc32 2 @ enc32 0x2001" 0 2 "0x2001"] by force
qed

subsection \<open>A last TLV without padding\<close>



end
