(* ===== verification/Iwl_Heap.thy ===== *)
theory Iwl_Heap
  imports Iwl_Prelude
begin

section \<open>The allocator of the driver\<close>

text \<open>
  \<^verbatim>\<open>iw_utils/allocation.c\<close>: \<open>iwh_malloc\<close>, \<open>iwh_zalloc\<close> and \<open>iwh_free\<close> over an explicit heap of
  blocks. An address is the address of a whole block; the size word in front of a block, which
  \<open>iwh_free\<close> reads, is what makes an address valid, so freeing an address without a live block
  is the fault \<open>DoubleFree\<close>. Whether a request is granted is decided by the answers of the
  environment, as in \<open>Iwl_Prelude.iwh_malloc\<close>.
\<close>

record 'b heap =
  blocks :: "nat \<Rightarrow> 'b option"
  fresh :: nat
  grants :: answers

definition heap_alloc :: "'b \<Rightarrow> 'b heap \<Rightarrow> nat option \<times> 'b heap" where
  "heap_alloc b h = (let (okay, m) = iwh_malloc (grants h) in
     if okay then (Some (fresh h), h\<lparr>blocks := (blocks h)(fresh h \<mapsto> b), fresh := fresh h + 1, grants := m\<rparr>)
     else (None, h\<lparr>grants := m\<rparr>))"

definition iwh_free :: "nat option \<Rightarrow> 'b heap \<Rightarrow> 'b heap run" where
  "iwh_free p h = (case p of None \<Rightarrow> Inr h
     | Some a \<Rightarrow> if a \<in> dom (blocks h) then Inr (h\<lparr>blocks := (blocks h)(a := None)\<rparr>) else Inl DoubleFree)"

definition heap_get :: "nat option \<Rightarrow> 'b heap \<Rightarrow> 'b run" where
  "heap_get p h = (case p of None \<Rightarrow> Inl NullDeref
     | Some a \<Rightarrow> (case blocks h a of None \<Rightarrow> Inl OutOfBounds | Some b \<Rightarrow> Inr b))"

definition heap_put :: "nat \<Rightarrow> 'b \<Rightarrow> 'b heap \<Rightarrow> 'b heap" where
  "heap_put a b h = h\<lparr>blocks := (blocks h)(a \<mapsto> b)\<rparr>"

text \<open>Free a list of pointers, one after the other.\<close>

fun free_all :: "nat option list \<Rightarrow> 'b heap \<Rightarrow> 'b heap run" where
  "free_all [] h = Inr h"
| "free_all (p # ps) h = bindF (iwh_free p h) (free_all ps)"

subsection \<open>Laws\<close>

definition heap_ok :: "'b heap \<Rightarrow> bool" where
  "heap_ok h \<longleftrightarrow> (\<forall>a \<in> dom (blocks h). a < fresh h)"

lemma heap_ok_less: "heap_ok h \<Longrightarrow> blocks h a = Some b \<Longrightarrow> a < fresh h"
  by (auto simp: heap_ok_def)

lemma heap_alloc_cases:
  assumes "heap_alloc b h = (p, h')"
  obtains (Refused) "p = None" and "blocks h' = blocks h" and "fresh h' = fresh h"
  | (Granted) "p = Some (fresh h)" and "blocks h' = (blocks h)(fresh h \<mapsto> b)" and "fresh h' = fresh h + 1"
  using assms by (auto simp: heap_alloc_def Let_def split: if_splits prod.splits)

lemma iwh_free_blocks:
  "iwh_free p h = Inr h' \<Longrightarrow> blocks h' = blocks h |` (- set_option p) \<and> fresh h' = fresh h"
  by (auto simp: iwh_free_def restrict_map_def split: option.splits if_splits)

lemma free_all_blocks:
  "free_all ps h = Inr h' \<Longrightarrow> blocks h' = blocks h |` (- (\<Union>p \<in> set ps. set_option p)) \<and> fresh h' = fresh h"
proof (induction ps arbitrary: h)
  case (Cons p ps)
  then obtain h1 where "iwh_free p h = Inr h1" "free_all ps h1 = Inr h'" by (auto simp: bindF_eq_Inr)
  with Cons.IH [of h1] iwh_free_blocks [of p h h1] show ?case
    by (auto simp: restrict_map_def fun_eq_iff)
qed (simp add: restrict_map_def)

lemma free_all_ok:
  assumes "distinct (filter (\<lambda>p. p \<noteq> None) ps)" and "\<forall>a. Some a \<in> set ps \<longrightarrow> a \<in> dom (blocks h)"
  shows "\<exists>h'. free_all ps h = Inr h'"
  using assms
proof (induction ps arbitrary: h)
  case (Cons p ps)
  obtain h1 where h1: "iwh_free p h = Inr h1"
    using Cons.prems(2) by (cases p) (auto simp: iwh_free_def)
  have "\<forall>a. Some a \<in> set ps \<longrightarrow> a \<in> dom (blocks h1)"
    using iwh_free_blocks [OF h1] Cons.prems by (cases p) (auto simp: restrict_map_def dom_def)
  with Cons h1 show ?case by (cases p) (auto simp: bindF_eq_Inr)
qed simp

lemma free_all_append: "free_all (ps @ qs) h = bindF (free_all ps h) (free_all qs)"
proof (induction ps arbitrary: h)
  case (Cons p ps)
  then show ?case by (cases "iwh_free p h") simp_all
qed simp

end
