(* ===== verification/Iwl_Drv.thy ===== *)
theory Iwl_Drv
  imports Fw_Formats Iwl_Heap
begin

section \<open>Loading the firmware and its life time\<close>

text \<open>
  The second half of \<^verbatim>\<open>iwlwifi/iwl-drv.c\<close>: choosing the firmware file, copying the parsed
  sections into the buffers the device is loaded from, releasing them, starting and stopping
  the driver, and the table of op modes. The buffers live in the heap of \<open>Iwl_Heap\<close>; the parser's
  own scratch arrays (\<open>pieces\<close>, the debug memory segments) are values, as in \<open>Fw_File\<close>. The
  firmware resource, and the \<open>start\<close> function of an op mode, come from outside these sources
  and are parameters.
\<close>

subsection \<open>Section buffers\<close>

record fw_desc =
  desc_data :: "nat option"
  desc_len :: u64
  desc_offset :: u32

definition zero_desc :: fw_desc where
  "zero_desc = \<lparr>desc_data = None, desc_len = 0, desc_offset = 0\<rparr>"

datatype blk = Bytes "u8 list" | Descs "fw_desc list"

type_synonym dheap = "blk heap"

definition get_descs :: "nat option \<Rightarrow> dheap \<Rightarrow> fw_desc list run" where
  "get_descs p h = bindF (heap_get p h) (\<lambda>b. case b of Descs ds \<Rightarrow> Inr ds | Bytes _ \<Rightarrow> Inl OutOfBounds)"

text \<open>A write to \<open>img->sec[i]\<close>.\<close>

definition put_desc :: "nat option \<Rightarrow> nat \<Rightarrow> fw_desc \<Rightarrow> dheap \<Rightarrow> dheap run" where
  "put_desc p i d h = bindF (get_descs p h) (\<lambda>ds. case p of None \<Rightarrow> Inl NullDeref
     | Some a \<Rightarrow> if i < length ds then Inr (heap_put a (Descs (ds[i := d])) h) else Inl OutOfBounds)"

definition iwl_free_fw_desc :: "nat option \<Rightarrow> nat \<Rightarrow> dheap \<Rightarrow> dheap run" where
  "iwl_free_fw_desc p i h = bindF (get_descs p h) (\<lambda>ds.
     if i < length ds then
       bindF (iwh_free (desc_data (ds ! i)) h) (\<lambda>h.
         put_desc p i ((ds ! i)\<lparr>desc_data := None, desc_len := 0\<rparr>) h)
     else Inl OutOfBounds)"

fun free_descs :: "nat option \<Rightarrow> nat list \<Rightarrow> dheap \<Rightarrow> dheap run" where
  "free_descs p [] h = Inr h"
| "free_descs p (i # is) h = bindF (iwl_free_fw_desc p i h) (free_descs p is)"

definition iwl_free_fw_img :: "fw_img \<Rightarrow> dheap \<Rightarrow> dheap run" where
  "iwl_free_fw_img i h =
     bindF (free_descs (fw_img_sec i) [0..<num_sec i] h) (iwh_free (fw_img_sec i))"

fun free_imgs :: "iwl_fw \<Rightarrow> iwl_ucode_type list \<Rightarrow> dheap \<Rightarrow> dheap run" where
  "free_imgs w [] h = Inr h"
| "free_imgs w (ty # tys) h = bindF (iwl_free_fw_img (img w ty) h) (free_imgs w tys)"

definition iwl_dealloc_ucode :: "iwl_fw \<Rightarrow> dheap \<Rightarrow> dheap run" where
  "iwl_dealloc_ucode w h =
     bindF (free_all (dbg_dest_tlv w # dbg_conf_tlv w @ dbg_trigger_tlv w) h) (free_imgs w ucode_types)"

definition det :: "'a option \<Rightarrow> 'a run" where
  "det x = (case x of None \<Rightarrow> Inl Indeterminate | Some v \<Rightarrow> Inr v)"

text \<open>\<open>iwl_alloc_fw_desc\<close>: the descriptor it leaves, with the code it returns.\<close>

definition iwl_alloc_fw_desc :: "u8 list \<Rightarrow> fw_desc \<Rightarrow> fw_sec \<Rightarrow> dheap \<Rightarrow> (fw_desc \<times> dheap) outcome" where
  "iwl_alloc_fw_desc raw d0 sec h =
     (let d = d0\<lparr>desc_data := None\<rparr> in
      bindF (det (sec_size sec)) (\<lambda>n.
        if n = 0 then fail EINVAL (d, h)
        else let (p, h1) = heap_alloc (Bytes []) h in
          case p of None \<Rightarrow> fail ENOMEM (d, h1)
          | Some a \<Rightarrow>
              bindF (det (sec_offset sec)) (\<lambda>off. bindF (det (sec_data sec)) (\<lambda>src.
              bindF (rd_bytes raw src (unat n)) (\<lambda>bs.
                ok (\<lparr>desc_data = Some a, desc_len = n, desc_offset = off\<rparr>, heap_put a (Bytes bs) h1))))))"

fun alloc_descs :: "u8 list \<Rightarrow> iwl_firmware_pieces \<Rightarrow> iwl_ucode_type \<Rightarrow> nat option \<Rightarrow> nat list \<Rightarrow> dheap \<Rightarrow> dheap outcome" where
  "alloc_descs raw p ty a [] h = ok h"
| "alloc_descs raw p ty a (i # is) h =
     bindF (get_sec p ty i) (\<lambda>sec. bindF (get_descs a h) (\<lambda>ds.
     if i < length ds then
       bindF (iwl_alloc_fw_desc raw (ds ! i) sec h) (\<lambda>(r, d, h1).
       bindF (put_desc a i d h1) (\<lambda>h2.
         if r \<noteq> None then fail ENOMEM h2 else alloc_descs raw p ty a is h2))
     else Inl OutOfBounds))"

definition set_img :: "iwl_ucode_type \<Rightarrow> nat option \<Rightarrow> nat \<Rightarrow> iwl_fw \<Rightarrow> iwl_fw" where
  "set_img ty a n w = w\<lparr>img := (img w)(ty := (img w ty)\<lparr>fw_img_sec := a, num_sec := n\<rparr>)\<rparr>"

definition iwl_alloc_ucode ::
  "u8 list \<Rightarrow> iwl_firmware_pieces \<Rightarrow> iwl_ucode_type \<Rightarrow> iwl_fw \<times> dheap \<Rightarrow> (iwl_fw \<times> dheap) outcome" where
  "iwl_alloc_ucode raw p ty = (\<lambda>(w, h).
     let n = sec_counter (pimg p ty); (a, h1) = heap_alloc (Descs (replicate n zero_desc)) h in
     case a of None \<Rightarrow> fail ENOMEM (w, h1)
     | Some _ \<Rightarrow> bindF (alloc_descs raw p ty a [0..<n] h1) (\<lambda>(r, h2). Inr (r, set_img ty a n w, h2)))"

fun alloc_imgs :: "u8 list \<Rightarrow> iwl_firmware_pieces \<Rightarrow> iwl_ucode_type list \<Rightarrow> iwl_fw \<times> dheap \<Rightarrow> (iwl_fw \<times> dheap) outcome" where
  "alloc_imgs raw p [] s = ok s"
| "alloc_imgs raw p (ty # tys) s = thenS (iwl_alloc_ucode raw p ty s) (alloc_imgs raw p tys)"

subsection \<open>Configuration and the firmware name\<close>

datatype iwl_device_family =
    IWL_DEVICE_FAMILY_UNDEFINED | IWL_DEVICE_FAMILY_1000 | IWL_DEVICE_FAMILY_100
  | IWL_DEVICE_FAMILY_2000 | IWL_DEVICE_FAMILY_2030 | IWL_DEVICE_FAMILY_105
  | IWL_DEVICE_FAMILY_135 | IWL_DEVICE_FAMILY_5000 | IWL_DEVICE_FAMILY_5150
  | IWL_DEVICE_FAMILY_6000 | IWL_DEVICE_FAMILY_6000i | IWL_DEVICE_FAMILY_6005
  | IWL_DEVICE_FAMILY_6030 | IWL_DEVICE_FAMILY_6050 | IWL_DEVICE_FAMILY_6150
  | IWL_DEVICE_FAMILY_7000 | IWL_DEVICE_FAMILY_8000 | IWL_DEVICE_FAMILY_9000
  | IWL_DEVICE_FAMILY_A000 | IWL_DEVICE_FAMILY_22000 | IWL_DEVICE_FAMILY_22560

record fw_cfg =
  device_family :: iwl_device_family
  integrated :: bool
  fw_name_pre :: string
  fw_name_pre_b_or_c_step :: string
  fw_name_pre_rf_next_step :: "string option"
  ucode_api_max :: u8
  ucode_api_min :: u8
  max_inst_size :: u32
  max_data_size :: u32
  max_event_log_size :: u16
  hw_rev :: u32
  hw_rf_id :: u32

definition CSR_HW_REV_STEP :: "u32 \<Rightarrow> u32" where "CSR_HW_REV_STEP v = drop_bit 2 (v AND 0xC)"
definition CSR_HW_RFID_STEP :: "u32 \<Rightarrow> u32" where "CSR_HW_RFID_STEP v = drop_bit 8 (v AND 0xF00)"

abbreviation SILICON_B_STEP :: u32 where "SILICON_B_STEP \<equiv> 1"
abbreviation SILICON_C_STEP :: u32 where "SILICON_C_STEP \<equiv> 2"

definition fw_pre_name :: "fw_cfg \<Rightarrow> string" where
  "fw_pre_name c =
     (if device_family c = IWL_DEVICE_FAMILY_9000 \<and>
         (CSR_HW_REV_STEP (hw_rev c) = SILICON_B_STEP \<or> CSR_HW_REV_STEP (hw_rev c) = SILICON_C_STEP)
      then fw_name_pre_b_or_c_step c
      else if integrated c \<and> CSR_HW_RFID_STEP (hw_rf_id c) = SILICON_B_STEP \<and> fw_name_pre_rf_next_step c \<noteq> None
      then the (fw_name_pre_rf_next_step c)
      else fw_name_pre c)"

definition dec_int :: "int \<Rightarrow> string" where
  "dec_int n = (if n < 0 then CHR ''-'' # dec_nat (nat (- n)) else dec_nat (nat n))"

text \<open>
  The first part of \<open>iwl_request_firmware\<close>: the index and the name to load, or ENOENT when the
  index falls below the lowest supported version.
\<close>

definition fw_choose :: "fw_cfg \<Rightarrow> bool \<Rightarrow> int \<times> string \<Rightarrow> (int \<times> string) outcome" where
  "fw_choose c first = (\<lambda>(idx, name).
     let idx = (if first then uint (ucode_api_max c) else idx - 1);
         tag = snprintf 8 (dec_int idx) in
     if idx < uint (ucode_api_min c) then fail ENOENT (idx, name)
     else ok (idx, snprintf 64 (fw_pre_name c @ tag @ ''.ucode'')))"

subsection \<open>validate\_sec\_sizes\<close>

definition validate_sec_sizes :: "fw_cfg \<Rightarrow> iwl_firmware_pieces \<Rightarrow> bool run" where
  "validate_sec_sizes c p =
     bindF (get_sec_size p IWL_UCODE_REGULAR IWL_UCODE_SECTION_INST) (\<lambda>ri.
     bindF (get_sec_size p IWL_UCODE_REGULAR IWL_UCODE_SECTION_DATA) (\<lambda>rd.
     bindF (get_sec_size p IWL_UCODE_INIT IWL_UCODE_SECTION_INST) (\<lambda>ii.
     bindF (get_sec_size p IWL_UCODE_INIT IWL_UCODE_SECTION_DATA) (\<lambda>id.
       Inr (if ri > ucast (max_inst_size c) then False
            else if rd > ucast (max_data_size c) then False
            else if ii > ucast (max_inst_size c) then False
            else if id > ucast (max_data_size c) then False
            else True)))))"

subsection \<open>The op mode table\<close>

record 'm opm_device =
  op_mode :: "'m option"

record ('o, 'm) opmode_entry =
  opm_name :: string
  opm_ops :: "'o option"
  opm_drvs :: "'m opm_device list"

text \<open>\<open>ops->start\<close> is code of the op modes: a parameter that gives the new op mode or NULL.\<close>

definition op_mode_start :: "('o \<Rightarrow> 'm option) \<Rightarrow> 'o \<Rightarrow> 'm opm_device \<Rightarrow> 'm opm_device" where
  "op_mode_start start ops d = d\<lparr>op_mode := start ops\<rparr>"

definition op_mode_stop :: "'m opm_device \<Rightarrow> 'm opm_device" where
  "op_mode_stop d = (if op_mode d \<noteq> None then d\<lparr>op_mode := None\<rparr> else d)"

fun iwl_opmode_register ::
  "('o \<Rightarrow> 'm option) \<Rightarrow> string \<Rightarrow> 'o \<Rightarrow> ('o, 'm) opmode_entry list \<Rightarrow> ('o, 'm) opmode_entry list outcome" where
  "iwl_opmode_register start name ops [] = fail EIO []"
| "iwl_opmode_register start name ops (op # tab) =
     (if opm_name op \<noteq> name then
        bindF (iwl_opmode_register start name ops tab) (\<lambda>(r, tab'). Inr (r, op # tab'))
      else ok (op\<lparr>opm_ops := Some ops, opm_drvs := map (op_mode_start start ops) (opm_drvs op)\<rparr> # tab))"

fun iwl_opmode_deregister :: "string \<Rightarrow> ('o, 'm) opmode_entry list \<Rightarrow> ('o, 'm) opmode_entry list" where
  "iwl_opmode_deregister name [] = []"
| "iwl_opmode_deregister name (op # tab) =
     (if opm_name op \<noteq> name then op # iwl_opmode_deregister name tab
      else op\<lparr>opm_ops := None, opm_drvs := map op_mode_stop (opm_drvs op)\<rparr> # tab)"

definition iwlwifi_opmode_table :: "('o, 'm) opmode_entry list" where
  "iwlwifi_opmode_table =
     [\<lparr>opm_name = ''iwldvm'', opm_ops = None, opm_drvs = []\<rparr>,
      \<lparr>opm_name = ''iwlmvm'', opm_ops = None, opm_drvs = []\<rparr>]"

abbreviation DVM_OP_MODE :: nat where "DVM_OP_MODE \<equiv> 0"
abbreviation MVM_OP_MODE :: nat where "MVM_OP_MODE \<equiv> 1"

subsection \<open>The firmware callback\<close>

text \<open>
  The driver structure. \<open>request_lock\<close> says whether \<open>request_firmware_complete\<close> exists, \<open>woken\<close> whether
  the callback has woken the thread that sleeps on it.
\<close>

record 'm iwl_drv =
  drv_fw :: iwl_fw
  drv_op_mode :: "'m option"
  fw_index :: int
  firmware_name :: string
  request_lock :: bool
  woken :: bool
  drv_heap :: dheap

definition set_defaults :: "iwl_fw \<Rightarrow> iwl_fw" where
  "set_defaults w = w\<lparr>ucode_capa := (ucode_capa w)\<lparr>max_probe_length := 200,
     standard_phy_calibration_size := 18, n_scan_channels := 40\<rparr>\<rparr>"

text \<open>How far the callback gets: the label it jumps to.\<close>

datatype cb_label = Try_Again | Out_Free_Fw | Out_Unbind | Completed

text \<open>Reading the file: the version word decides the format.\<close>

definition cb_parse :: "u8 list option \<Rightarrow> parse_state \<Rightarrow> parse_state outcome" where
  "cb_parse ucode_raw s = (case ucode_raw of None \<Rightarrow> fail EINVAL s
     | Some raw \<Rightarrow> if length raw < 4 then fail EINVAL s
         else bindF (rd32 raw 0) (\<lambda>ver.
           if ver \<noteq> 0 then iwl_parse_v1_v2_firmware raw s else iwl_parse_tlv_firmware raw s))"

definition cb_api_ver :: "iwl_fw \<Rightarrow> u32 run" where
  "cb_api_ver w = bindF (fw_has_api (ucode_capa w) IWL_UCODE_TLV_API_NEW_VERSION) (\<lambda>b.
     Inr (if b then ucode_ver w else IWL_UCODE_API (ucode_ver w)))"

text \<open>The checks between parsing and allocating: \<open>False\<close> is \<open>goto try_again\<close>.\<close>

definition cb_checks :: "fw_cfg \<Rightarrow> parse_state \<Rightarrow> bool run" where
  "cb_checks c s = bindF (cb_api_ver (fw s)) (\<lambda>api_ver.
     if api_ver < ucast (ucode_api_min c) \<or> api_ver > ucast (ucode_api_max c) then Inr False
     else if fw_type (fw s) = IWL_FW_DVM then validate_sec_sizes c (pieces s)
     else Inr True)"

text \<open>\<open>memcpy\<close> from the file to a block of the heap.\<close>

definition memcpy_block :: "u8 list \<Rightarrow> nat option \<Rightarrow> nat \<Rightarrow> nat \<Rightarrow> dheap \<Rightarrow> dheap run" where
  "memcpy_block raw dst src n h = bindF (rd_bytes raw src n) (\<lambda>bs.
     bindF (heap_get dst h) (\<lambda>b. case (dst, b) of
       (Some a, Bytes old) \<Rightarrow> if n \<le> length old then Inr (heap_put a (Bytes (bs @ drop n old)) h) else Inl OutOfBounds
     | _ \<Rightarrow> Inl OutOfBounds))"

definition cb_dbg_dest :: "u8 list \<Rightarrow> iwl_firmware_pieces \<Rightarrow> iwl_fw \<times> dheap \<Rightarrow> (iwl_fw \<times> dheap) outcome" where
  "cb_dbg_dest raw p = (\<lambda>(w, h). case p_dbg_dest_tlv p of None \<Rightarrow> ok (w, h)
     | Some src \<Rightarrow> bindF (memcpy_block raw (dbg_dest_tlv w) src (22 + 12 * unat (dbg_dest_reg_num w)) h)
         (\<lambda>h. ok (w, h)))"

fun cb_dbg_conf :: "u8 list \<Rightarrow> iwl_firmware_pieces \<Rightarrow> nat list \<Rightarrow> iwl_fw \<times> dheap \<Rightarrow> (iwl_fw \<times> dheap) outcome" where
  "cb_dbg_conf raw p [] s = ok s"
| "cb_dbg_conf raw p (i # is) (w, h) = (case p_dbg_conf_tlv p ! i of None \<Rightarrow> cb_dbg_conf raw p is (w, h)
     | Some src \<Rightarrow> let n = p_dbg_conf_tlv_len p ! i;
           w = w\<lparr>dbg_conf_tlv_len := (dbg_conf_tlv_len w)[i := n]\<rparr> in
         bindF (memcpy_block raw (dbg_conf_tlv w ! i) src (unat n) h) (\<lambda>h. cb_dbg_conf raw p is (w, h)))"

text \<open>The minimal payload per trigger; \<open>memset\<close> with 0xff leaves \<open>SIZE_MAX\<close> for the types not listed.\<close>

definition trigger_tlv_sz :: "nat \<Rightarrow> u64" where
  "trigger_tlv_sz i = (case map_of [(3, 32), (4, 0), (5, 32), (6, 16), (7, 16), (8, 4), (9, 48),
     (10, 192), (11, 14), (13, 12)] i of Some n \<Rightarrow> n | None \<Rightarrow> - 1)"

fun cb_dbg_trigger :: "u8 list \<Rightarrow> iwl_firmware_pieces \<Rightarrow> nat list \<Rightarrow> iwl_fw \<times> dheap \<Rightarrow> (iwl_fw \<times> dheap) outcome" where
  "cb_dbg_trigger raw p [] s = ok s"
| "cb_dbg_trigger raw p (i # is) (w, h) = (case p_dbg_trigger_tlv p ! i of None \<Rightarrow> cb_dbg_trigger raw p is (w, h)
     | Some src \<Rightarrow> let n = p_dbg_trigger_tlv_len p ! i in
         if n < trigger_tlv_sz i + 28 then fail EINVAL (w, h)
         else let w = w\<lparr>dbg_trigger_tlv_len := (dbg_trigger_tlv_len w)[i := n]\<rparr> in
           bindF (memcpy_block raw (dbg_trigger_tlv w ! i) src (unat n) h) (\<lambda>h. cb_dbg_trigger raw p is (w, h)))"

text \<open>Everything between the checks and the point from which the callback cannot fail.\<close>

definition cb_buffers :: "u8 list \<Rightarrow> iwl_firmware_pieces \<Rightarrow> iwl_fw \<times> dheap \<Rightarrow> (iwl_fw \<times> dheap) outcome" where
  "cb_buffers raw p s = thenS (alloc_imgs raw p ucode_types s) (\<lambda>s.
     thenS (cb_dbg_dest raw p s) (\<lambda>s.
     thenS (cb_dbg_conf raw p [0..<FW_DBG_CONF_MAX] s) (cb_dbg_trigger raw p [0..<FW_DBG_TRIGGER_MAX])))"

text \<open>The copies made once nothing can fail any more.\<close>

definition evtlog_size :: "fw_cfg \<Rightarrow> u32 \<Rightarrow> u32" where
  "evtlog_size c n = (if n \<noteq> 0 then (n - 16) div 12 else ucast (max_event_log_size c))"

definition cb_copy :: "fw_cfg \<Rightarrow> iwl_firmware_pieces \<Rightarrow> iwl_fw \<Rightarrow> iwl_fw" where
  "cb_copy c p w = w\<lparr>dbg_mem_tlv := p_dbg_mem_tlv p,
     init_evtlog_ptr := p_init_evtlog_ptr p, init_evtlog_size := evtlog_size c (p_init_evtlog_size p),
     init_errlog_ptr := p_init_errlog_ptr p, inst_evtlog_ptr := p_inst_evtlog_ptr p,
     inst_evtlog_size := evtlog_size c (p_inst_evtlog_size p), inst_errlog_ptr := p_inst_errlog_ptr p,
     ucode_capa := (ucode_capa w)\<lparr>standard_phy_calibration_size :=
       (if standard_phy_calibration_size (ucode_capa w) > 253 then 19
        else standard_phy_calibration_size (ucode_capa w))\<rparr>\<rparr>"

text \<open>The op mode of the loaded firmware is started when it is registered.\<close>

definition cb_op_mode ::
  "('o \<Rightarrow> iwl_fw \<Rightarrow> 'm option) \<Rightarrow> ('o, 'm) opmode_entry list \<Rightarrow> iwl_fw \<Rightarrow> 'm option \<Rightarrow> bool \<times> 'm option" where
  "cb_op_mode start tab w m =
     (let op = tab ! (if fw_type w = IWL_FW_DVM then DVM_OP_MODE else MVM_OP_MODE) in
      case opm_ops op of None \<Rightarrow> (True, m)
      | Some ops \<Rightarrow> (start ops w \<noteq> None, start ops w))"

definition iwl_req_fw_callback ::
  "fw_cfg \<Rightarrow> ('o \<Rightarrow> iwl_fw \<Rightarrow> 'm option) \<Rightarrow> ('o, 'm) opmode_entry list \<Rightarrow> u8 list option \<Rightarrow>
   'm iwl_drv \<Rightarrow> (cb_label \<times> 'm iwl_drv) run" where
  "iwl_req_fw_callback c start tab ucode_raw d0 =
     (let d1 = d0\<lparr>drv_fw := set_defaults (drv_fw d0)\<rparr>;
          free_fw = (\<lambda>d. bindF (iwl_dealloc_ucode (drv_fw d) (drv_heap d))
             (\<lambda>h. Inr (Out_Free_Fw, d\<lparr>drv_heap := h\<rparr>)));
          (okay, m) = iwh_malloc (grants (drv_heap d1));
          d = d1\<lparr>drv_heap := (drv_heap d1)\<lparr>grants := m\<rparr>\<rparr> in
      if \<not> okay then free_fw d
      else bindF (cb_parse ucode_raw \<lparr>fw = drv_fw d, pieces = zero_pieces, usniffer_images = False,
             usniffer_req = False, has_gscan_capa = False, mem = m\<rparr>) (\<lambda>(err, s).
        let d = d\<lparr>drv_fw := fw s, drv_heap := (drv_heap d)\<lparr>grants := mem s\<rparr>\<rparr> in
        if err \<noteq> None then Inr (Try_Again, d)
        else bindF (cb_checks c s) (\<lambda>okay.
          if \<not> okay then Inr (Try_Again, d)
          else bindF (cb_buffers (the ucode_raw) (pieces s) (drv_fw d, drv_heap d)) (\<lambda>(r, w, h).
            let d = d\<lparr>drv_fw := w, drv_heap := h\<rparr> in
            if r \<noteq> None then free_fw d
            else let w' = cb_copy c (pieces s) w; (started, om) = cb_op_mode start tab w' (drv_op_mode d);
                     d = d\<lparr>drv_fw := w', drv_op_mode := om\<rparr> in
              if started then Inr (Completed, d\<lparr>woken := True\<rparr>) else Inr (Out_Unbind, d)))))"

subsection \<open>Requesting the firmware, starting and stopping\<close>

text \<open>
  The resource service of the system either refuses the request or calls \<open>firmwareLoadComplete\<close>
  with the bytes of the file, none if there is no such file. The thread that made the
  request sleeps until the callback wakes it: if the callback does not, it sleeps forever.
\<close>

datatype 'a waiting = Returned 'a | Sleeps

definition firmwareLoadComplete ::
  "fw_cfg \<Rightarrow> ('o \<Rightarrow> iwl_fw \<Rightarrow> 'm option) \<Rightarrow> ('o, 'm) opmode_entry list \<Rightarrow> u8 list \<Rightarrow>
   'm iwl_drv \<Rightarrow> (cb_label \<times> 'm iwl_drv) run" where
  "firmwareLoadComplete c start tab res d =
     (let (ok1, m1) = iwh_malloc (grants (drv_heap d)); (ok2, m2) = iwh_malloc m1 in
      if \<not> ok1 then Inl NullDeref
      else if \<not> ok2 \<and> res \<noteq> [] then Inl NullDeref
      else iwl_req_fw_callback c start tab (Some res) (d\<lparr>drv_heap := (drv_heap d)\<lparr>grants := m2\<rparr>\<rparr>))"

definition iwl_request_firmware ::
  "fw_cfg \<Rightarrow> ('o \<Rightarrow> iwl_fw \<Rightarrow> 'm option) \<Rightarrow> ('o, 'm) opmode_entry list \<Rightarrow> (string \<Rightarrow> u8 list option) \<Rightarrow>
   bool \<Rightarrow> 'm iwl_drv \<Rightarrow> (errno option waiting \<times> 'm iwl_drv) run" where
  "iwl_request_firmware c start tab resource first d =
     bindF (fw_choose c first (fw_index d, firmware_name d)) (\<lambda>(r, idx, name).
       let d = d\<lparr>fw_index := idx, firmware_name := name\<rparr> in
       case r of Some e \<Rightarrow> Inr (Returned (Some e), d)
       | None \<Rightarrow> (case resource name of None \<Rightarrow> Inr (Returned (Some EIO), d)
           | Some res \<Rightarrow> bindF (firmwareLoadComplete c start tab res d) (\<lambda>(_, d').
               Inr (if woken d' then Returned None else Sleeps, d'))))"

definition zero_drv :: "dheap \<Rightarrow> 'm iwl_drv" where
  "zero_drv h = \<lparr>drv_fw = zero_fw, drv_op_mode = None, fw_index = 0, firmware_name = [],
     request_lock = False, woken = False, drv_heap = h\<rparr>"

text \<open>\<open>iwl_drv_start\<close>: the driver, an error pointer, or a caller that sleeps.\<close>

definition iwl_drv_start ::
  "fw_cfg \<Rightarrow> ('o \<Rightarrow> iwl_fw \<Rightarrow> 'm option) \<Rightarrow> ('o, 'm) opmode_entry list \<Rightarrow> (string \<Rightarrow> u8 list option) \<Rightarrow>
   dheap \<Rightarrow> (errno + 'm iwl_drv) waiting run" where
  "iwl_drv_start c start tab resource h =
     (let (okay, m) = iwh_malloc (grants h); d = (zero_drv (h\<lparr>grants := m\<rparr>))\<lparr>request_lock := True\<rparr> in
      if \<not> okay then Inr (Returned (Inl ENOMEM))
      else bindF (iwl_request_firmware c start tab resource True d) (\<lambda>(r, d).
        case r of Sleeps \<Rightarrow> Inr Sleeps
        | Returned (Some e) \<Rightarrow> Inr (Returned (Inl e))
        | Returned None \<Rightarrow> Inr (Returned (Inr (d\<lparr>request_lock := False\<rparr>)))))"

text \<open>\<open>iwl_drv_stop\<close> waits for a request that is still in progress, which nobody would complete.\<close>

definition iwl_drv_stop :: "'m iwl_drv \<Rightarrow> dheap waiting run" where
  "iwl_drv_stop d = (if request_lock d then Inr Sleeps
     else bindF (iwl_dealloc_ucode (drv_fw d) (drv_heap d)) (\<lambda>h. Inr (Returned h)))"

end
