(* ===== verification/Drv_Lifetime.thy ===== *)
theory Drv_Lifetime
  imports Iwl_Drv
begin

section \<open>The section buffers over the life of the driver\<close>

text \<open>
  What the images of the driver own in the heap, that allocating adds exactly what is then
  owned, whatever the allocator refuses, that the buffers hold the bytes of the file, and that
  releasing gives back exactly what was added.
\<close>

subsection \<open>Ownership\<close>

definition desc_addrs :: "fw_desc list \<Rightarrow> nat set" where
  "desc_addrs ds = {x. Some x \<in> desc_data ` set ds}"

definition own_descs :: "dheap \<Rightarrow> nat \<Rightarrow> fw_desc list \<Rightarrow> bool" where
  "own_descs h a ds \<longleftrightarrow> blocks h a = Some (Descs ds) \<and> a \<notin> desc_addrs ds \<and> desc_addrs ds \<subseteq> dom (blocks h) \<and>
     (\<forall>i < length ds. \<forall>j < length ds. \<forall>x. desc_data (ds ! i) = Some x \<longrightarrow> desc_data (ds ! j) = Some x \<longrightarrow> i = j)"

definition img_addrs :: "dheap \<Rightarrow> fw_img \<Rightarrow> nat set" where
  "img_addrs h i = (case fw_img_sec i of None \<Rightarrow> {}
     | Some a \<Rightarrow> insert a (case blocks h a of Some (Descs ds) \<Rightarrow> desc_addrs ds | _ \<Rightarrow> {}))"

definition img_live :: "dheap \<Rightarrow> fw_img \<Rightarrow> bool" where
  "img_live h i \<longleftrightarrow> (case fw_img_sec i of None \<Rightarrow> num_sec i = 0
     | Some a \<Rightarrow> \<exists>ds. own_descs h a ds \<and> length ds = num_sec i)"

lemma desc_addrs_iff: "x \<in> desc_addrs ds \<longleftrightarrow> (\<exists>i < length ds. desc_data (ds ! i) = Some x)"
  unfolding desc_addrs_def set_conv_nth by (auto simp: image_iff)

subsection \<open>Releasing an image\<close>

abbreviation freed :: "fw_desc \<Rightarrow> fw_desc" where
  "freed d \<equiv> d\<lparr>desc_data := None, desc_len := 0\<rparr>"

lemma nth_freed_data:
  "i < length ds \<Longrightarrow> j < length ds \<Longrightarrow>
   desc_data (ds[i := freed (ds ! i)] ! j) = (if j = i then None else desc_data (ds ! j))"
  by simp

lemma iwl_free_fw_desc_step:
  assumes "own_descs h a ds" and "i < length ds"
  shows "\<exists>h'. iwl_free_fw_desc (Some a) i h = Inr h' \<and> fresh h' = fresh h \<and>
     own_descs h' a (ds[i := freed (ds ! i)]) \<and>
     blocks h' = (blocks h |` (- set_option (desc_data (ds ! i))))(a \<mapsto> Descs (ds[i := freed (ds ! i)]))"
proof -
  have a: "blocks h a = Some (Descs ds)" "a \<notin> desc_addrs ds" "desc_addrs ds \<subseteq> dom (blocks h)"
    and inj: "\<And>j x. j < length ds \<Longrightarrow> desc_data (ds ! i) = Some x \<Longrightarrow> desc_data (ds ! j) = Some x \<Longrightarrow> i = j"
    using assms by (auto simp: own_descs_def)
  have mem: "x \<in> desc_addrs ds" if "desc_data (ds ! i) = Some x" for x
    using that assms(2) by (auto simp: desc_addrs_iff)
  have "\<exists>h1. iwh_free (desc_data (ds ! i)) h = Inr h1"
    using mem a(3) by (cases "desc_data (ds ! i)") (auto simp: iwh_free_def)
  then obtain h1 where h1: "iwh_free (desc_data (ds ! i)) h = Inr h1" by blast
  note b1 = iwh_free_blocks [OF h1]
  have a1: "blocks h1 a = Some (Descs ds)"
    using b1 a(1,2) mem by (cases "desc_data (ds ! i)") (auto simp: restrict_map_def)
  let ?h' = "heap_put a (Descs (ds[i := freed (ds ! i)])) h1"
  have run: "iwl_free_fw_desc (Some a) i h = Inr ?h'"
    using assms(2) by (simp add: iwl_free_fw_desc_def get_descs_def heap_get_def a(1) h1 put_desc_def a1)
  have addrs: "x \<in> desc_addrs (ds[i := freed (ds ! i)]) \<longleftrightarrow> x \<in> desc_addrs ds \<and> desc_data (ds ! i) \<noteq> Some x" for x
    using assms(2) inj by (simp add: desc_addrs_iff nth_freed_data cong: conj_cong) metis
  have "own_descs ?h' a (ds[i := freed (ds ! i)])"
    using assms a b1
    by (cases "desc_data (ds ! i)")
      (auto simp: own_descs_def heap_put_def addrs restrict_map_def nth_freed_data)
  then show ?thesis using run b1 by (auto simp: heap_put_def)
qed

lemma free_descs_ok:
  assumes "own_descs h a ds" and "\<forall>i \<in> set is. i < length ds"
  shows "\<exists>h' ds'. free_descs (Some a) is h = Inr h' \<and> fresh h' = fresh h \<and>
     blocks h' = (blocks h |` (- {x. \<exists>i \<in> set is. desc_data (ds ! i) = Some x}))(a \<mapsto> Descs ds')"
  using assms
proof (induction "is" arbitrary: h ds)
  case Nil
  then have "blocks h a = Some (Descs ds)" by (simp add: own_descs_def)
  then show ?case by (intro exI [of _ h] exI [of _ ds]) (auto simp: restrict_map_def)
next
  case (Cons i "is")
  let ?ds1 = "ds[i := freed (ds ! i)]"
  obtain h1 where h1: "iwl_free_fw_desc (Some a) i h = Inr h1" "fresh h1 = fresh h" "own_descs h1 a ?ds1"
      "blocks h1 = (blocks h |` (- set_option (desc_data (ds ! i))))(a \<mapsto> Descs ?ds1)"
    using iwl_free_fw_desc_step [OF Cons.prems(1), of i] Cons.prems(2) by auto
  have "\<forall>j \<in> set is. j < length ?ds1" using Cons.prems(2) by simp
  with Cons.IH [OF h1(3)] obtain h' ds' where h': "free_descs (Some a) is h1 = Inr h'" "fresh h' = fresh h1"
      "blocks h' = (blocks h1 |` (- {x. \<exists>j \<in> set is. desc_data (?ds1 ! j) = Some x}))(a \<mapsto> Descs ds')"
    by blast
  have "(\<exists>j \<in> set is. desc_data (?ds1 ! j) = Some x) \<or> desc_data (ds ! i) = Some x \<longleftrightarrow>
      (\<exists>j \<in> set (i # is). desc_data (ds ! j) = Some x)" for x
    using Cons.prems(2) by (auto simp: nth_freed_data split: if_splits)
  then have bl: "blocks h' = (blocks h |` (- {x. \<exists>j \<in> set (i # is). desc_data (ds ! j) = Some x}))(a \<mapsto> Descs ds')"
    unfolding h'(3) h1(4) by (auto simp: restrict_map_def fun_eq_iff elem_set)
  have "free_descs (Some a) (i # is) h = Inr h'" using h1(1) h'(1) by simp
  moreover have "fresh h' = fresh h" using h1(2) h'(2) by simp
  ultimately show ?case using bl by (intro exI [of _ h'] exI [of _ ds'] conjI)
qed

lemma iwl_free_fw_img_ok:
  assumes "img_live h i"
  shows "\<exists>h'. iwl_free_fw_img i h = Inr h' \<and> fresh h' = fresh h \<and> blocks h' = blocks h |` (- img_addrs h i)"
proof (cases "fw_img_sec i")
  case None
  with assms show ?thesis
    by (auto simp: iwl_free_fw_img_def img_live_def img_addrs_def iwh_free_def)
next
  case (Some a)
  with assms obtain ds where ds: "own_descs h a ds" "length ds = num_sec i" by (auto simp: img_live_def)
  obtain h1 ds' where h1: "free_descs (Some a) [0..<num_sec i] h = Inr h1" "fresh h1 = fresh h"
     "blocks h1 = (blocks h |` (- {x. \<exists>i \<in> set [0..<num_sec i]. desc_data (ds ! i) = Some x}))(a \<mapsto> Descs ds')"
    using free_descs_ok [OF ds(1), of "[0..<num_sec i]"] ds(2) by auto
  then have "iwl_free_fw_img i h = Inr (h1\<lparr>blocks := (blocks h1)(a := None)\<rparr>)"
    by (simp add: iwl_free_fw_img_def Some iwh_free_def)
  moreover have "(blocks h1)(a := None) = blocks h |` (- img_addrs h i)"
    using ds by (auto simp: h1(3) img_addrs_def Some own_descs_def desc_addrs_iff restrict_map_def fun_eq_iff)
  ultimately show ?thesis using h1(2) by simp
qed

lemma img_live_frame:
  assumes "img_live h i" and "blocks h1 = blocks h |` (- A)" and "A \<inter> img_addrs h i = {}"
  shows "img_live h1 i \<and> img_addrs h1 i = img_addrs h i"
proof (cases "fw_img_sec i")
  case None
  with assms(1) show ?thesis by (simp add: img_live_def img_addrs_def)
next
  case (Some a)
  with assms(1) obtain ds where ds: "own_descs h a ds" "length ds = num_sec i" by (auto simp: img_live_def)
  have addrs: "img_addrs h i = insert a (desc_addrs ds)"
    using ds(1) by (simp add: img_addrs_def Some own_descs_def)
  then have "own_descs h1 a ds"
    using ds(1) assms(2,3) by (auto simp: own_descs_def restrict_map_def dom_def)
  then show ?thesis
    using Some ds(2) addrs by (auto simp: img_live_def img_addrs_def own_descs_def)
qed

definition imgs_live :: "iwl_fw \<Rightarrow> iwl_ucode_type set \<Rightarrow> dheap \<Rightarrow> bool" where
  "imgs_live w T h \<longleftrightarrow> (\<forall>t \<in> T. img_live h (img w t)) \<and>
     (\<forall>t \<in> T. \<forall>u \<in> T. t \<noteq> u \<longrightarrow> img_addrs h (img w t) \<inter> img_addrs h (img w u) = {})"

definition imgs_addrs :: "iwl_fw \<Rightarrow> iwl_ucode_type set \<Rightarrow> dheap \<Rightarrow> nat set" where
  "imgs_addrs w T h = (\<Union>t \<in> T. img_addrs h (img w t))"

lemma free_imgs_ok:
  assumes "imgs_live w (set tys) h" and "distinct tys"
  shows "\<exists>h'. free_imgs w tys h = Inr h' \<and> blocks h' = blocks h |` (- imgs_addrs w (set tys) h)"
  using assms
proof (induction tys arbitrary: h)
  case Nil
  then show ?case by (simp add: imgs_addrs_def)
next
  case (Cons t tys)
  obtain h1 where h1: "iwl_free_fw_img (img w t) h = Inr h1" "blocks h1 = blocks h |` (- img_addrs h (img w t))"
    using iwl_free_fw_img_ok [of h "img w t"] Cons.prems by (auto simp: imgs_live_def)
  have same: "img_live h1 (img w u) \<and> img_addrs h1 (img w u) = img_addrs h (img w u)" if "u \<in> set tys" for u
  proof (rule img_live_frame [OF _ h1(2)])
    show "img_live h (img w u)" using Cons.prems(1) that by (simp add: imgs_live_def)
    have "t \<noteq> u" using Cons.prems(2) that by auto
    then show "img_addrs h (img w t) \<inter> img_addrs h (img w u) = {}"
      using Cons.prems(1) that unfolding imgs_live_def by (meson list.set_intros)
  qed
  then have "imgs_live w (set tys) h1" using Cons.prems(1) by (simp add: imgs_live_def)
  with Cons.IH Cons.prems(2) obtain h' where
    h': "free_imgs w tys h1 = Inr h'" "blocks h' = blocks h1 |` (- imgs_addrs w (set tys) h1)" by auto
  have "imgs_addrs w (set tys) h1 = imgs_addrs w (set tys) h" using same by (simp add: imgs_addrs_def)
  moreover have "imgs_addrs w (set (t # tys)) h = img_addrs h (img w t) \<union> imgs_addrs w (set tys) h"
    by (simp add: imgs_addrs_def)
  ultimately have "blocks h' = blocks h |` (- imgs_addrs w (set (t # tys)) h)"
    using h'(2) h1(2) by simp
  with h1(1) h'(1) show ?case by simp
qed

subsection \<open>Filling an image\<close>

text \<open>
  While an image is filled: its array \<open>a\<close> is the first new block, the blocks its descriptors
  point to are the others, and without these blocks the heap is the one before.
\<close>

definition filling :: "dheap \<Rightarrow> nat \<Rightarrow> dheap \<Rightarrow> fw_desc list \<Rightarrow> bool" where
  "filling h0 a h ds \<longleftrightarrow> own_descs h a ds \<and> heap_ok h \<and> a = fresh h0 \<and> (\<forall>x \<in> desc_addrs ds. a < x) \<and>
     blocks h |` (- insert a (desc_addrs ds)) = blocks h0"

lemma fillingD:
  assumes "filling h0 a h ds"
  shows "own_descs h a ds" and "blocks h a = Some (Descs ds)" and "heap_ok h" and "a = fresh h0"
    and "blocks h |` (- insert a (desc_addrs ds)) = blocks h0"
  using assms unfolding filling_def own_descs_def by blast+

definition copied :: "u8 list \<Rightarrow> fw_sec \<Rightarrow> dheap \<Rightarrow> fw_desc \<Rightarrow> bool" where
  "copied raw sec h d \<longleftrightarrow> (\<exists>x src. desc_data d = Some x \<and> sec_data sec = Some src \<and>
     sec_size sec = Some (desc_len d) \<and> sec_offset sec = Some (desc_offset d) \<and> desc_len d \<noteq> 0 \<and>
     src + unat (desc_len d) \<le> length raw \<and>
     blocks h x = Some (Bytes (take (unat (desc_len d)) (drop src raw))))"

lemma iwl_alloc_fw_desc_cases:
  assumes "iwl_alloc_fw_desc raw d0 sec h = Inr (r, d, h1)"
  obtains (Failed) e where "r = Some e" and "d = d0\<lparr>desc_data := None\<rparr>" and "blocks h1 = blocks h"
      and "fresh h1 = fresh h"
  | (Filled) bs where "r = None" and "desc_data d = Some (fresh h)" and "copied raw sec h1 d"
      and "blocks h1 = (blocks h)(fresh h \<mapsto> Bytes bs)" and "fresh h1 = fresh h + 1"
proof -
  obtain n where n: "sec_size sec = Some n"
    using assms by (auto simp: iwl_alloc_fw_desc_def Let_def bindF_eq_Inr det_def split: option.splits)
  obtain q h2 where q: "heap_alloc (Bytes []) h = (q, h2)" by force
  have refused: "q = None \<Longrightarrow> blocks h2 = blocks h \<and> fresh h2 = fresh h"
    and granted: "q \<noteq> None \<Longrightarrow> q = Some (fresh h) \<and> blocks h2 = (blocks h)(fresh h \<mapsto> Bytes []) \<and> fresh h2 = fresh h + 1"
    by (cases rule: heap_alloc_cases [OF q], simp_all)+
  show thesis
  proof (cases "n = 0 \<or> q = None")
    case True
    then obtain e where "r = Some e" "d = d0\<lparr>desc_data := None\<rparr>" "h1 = h \<or> q = None \<and> h1 = h2"
      using assms by (auto simp: iwl_alloc_fw_desc_def Let_def det_def n q split: if_splits)
    then show thesis using refused by (intro Failed [of e]) auto
  next
    case False
    then have q': "q = Some (fresh h)" "blocks h2 = (blocks h)(fresh h \<mapsto> Bytes [])" "fresh h2 = fresh h + 1"
      using granted by simp_all
    obtain off src bs where "sec_offset sec = Some off" "sec_data sec = Some src"
      and bs: "rd_bytes raw src (unat n) = Inr bs"
      and res: "r = None" "d = \<lparr>desc_data = Some (fresh h), desc_len = n, desc_offset = off\<rparr>"
        "h1 = heap_put (fresh h) (Bytes bs) h2"
      using assms False n
      by (auto simp: iwl_alloc_fw_desc_def Let_def det_def q q'(1) bindF_eq_Inr split: option.splits)
    then have "copied raw sec h1 d"
      using n False by (simp add: copied_def rd_bytes_Inr_iff heap_put_def)
    with res q' show thesis by (intro Filled [of bs]) (simp_all add: heap_put_def)
  qed
qed

lemma desc_addrs_update_None:
  assumes "i < length ds" and "desc_data (ds ! i) = None"
  shows "desc_addrs (ds[i := d]) = desc_addrs ds \<union> set_option (desc_data d)"
proof -
  have "set ds = set (take i ds @ ds ! i # drop (Suc i) ds)"
    by (rule arg_cong [OF id_take_nth_drop [OF assms(1)]])
  then have "set ds = insert (ds ! i) (set (take i ds) \<union> set (drop (Suc i) ds))" by simp
  then have "desc_addrs ds = desc_addrs (take i ds) \<union> desc_addrs (drop (Suc i) ds)"
    using assms(2) by (auto simp: desc_addrs_def)
  moreover have "desc_addrs (ds[i := d]) = desc_addrs (take i ds) \<union> set_option (desc_data d) \<union> desc_addrs (drop (Suc i) ds)"
    using assms(1) by (auto simp: upd_conv_take_nth_drop desc_addrs_def elem_set)
  ultimately show ?thesis by auto
qed

lemma desc_inj_update:
  assumes inj: "\<And>j k x. j < length ds \<Longrightarrow> k < length ds \<Longrightarrow>
      desc_data (ds ! j) = Some x \<Longrightarrow> desc_data (ds ! k) = Some x \<Longrightarrow> j = k"
    and new: "\<And>x. desc_data d = Some x \<Longrightarrow> x \<notin> desc_addrs ds"
    and "j < length ds" and "k < length ds"
    and "desc_data (ds[i := d] ! j) = Some x" and "desc_data (ds[i := d] ! k) = Some x"
  shows "j = k"
proof (cases "j = i \<or> k = i")
  case True
  with assms(3-6) new [of x] show ?thesis by (auto simp: nth_list_update desc_addrs_iff split: if_splits)
next
  case False
  with assms(3-6) inj [of j k x] show ?thesis by simp
qed

lemma fill_one:
  assumes "filling h0 a h ds" and "heap_ok h0" and "i < length ds" and "desc_data (ds ! i) = None"
    and "iwl_alloc_fw_desc raw (ds ! i) sec h = Inr (r, d, h1)"
  shows "\<exists>h2. put_desc (Some a) i d h1 = Inr h2 \<and> filling h0 a h2 (ds[i := d]) \<and>
     (\<forall>x. x < fresh h \<and> x \<noteq> a \<longrightarrow> blocks h2 x = blocks h x) \<and>
     (r = None \<longrightarrow> copied raw sec h2 d)"
proof -
  have a: "blocks h a = Some (Descs ds)" "a \<notin> desc_addrs ds" "desc_addrs ds \<subseteq> dom (blocks h)" "heap_ok h"
    and gt: "\<And>x. x \<in> desc_addrs ds \<Longrightarrow> a < x" and inj: "\<And>j k x. j < length ds \<Longrightarrow> k < length ds \<Longrightarrow>
      desc_data (ds ! j) = Some x \<Longrightarrow> desc_data (ds ! k) = Some x \<Longrightarrow> j = k"
    using assms(1) by (auto simp: filling_def own_descs_def)
  have base: "blocks h |` (- insert a (desc_addrs ds)) = blocks h0" "a = fresh h0"
    using assms(1) unfolding filling_def by blast+
  have a_lt: "a < fresh h" using heap_ok_less [OF a(4,1)] .
  have below: "x < fresh h" if "x \<in> desc_addrs ds" for x using that a(3,4) by (auto simp: heap_ok_def)
  from assms(5) show ?thesis
  proof (cases rule: iwl_alloc_fw_desc_cases)
    case (Failed e)
    have addrs: "desc_addrs (ds[i := d]) = desc_addrs ds"
      using desc_addrs_update_None [OF assms(3,4)] Failed(2) by simp
    let ?h2 = "heap_put a (Descs (ds[i := d])) h1"
    have "put_desc (Some a) i d h1 = Inr ?h2"
      using assms(3) a(1) by (simp add: put_desc_def get_descs_def heap_get_def Failed(3))
    moreover have "own_descs ?h2 a (ds[i := d])"
    proof -
      have "\<forall>j < length ds. \<forall>k < length ds. \<forall>x. desc_data (ds[i := d] ! j) = Some x \<longrightarrow>
          desc_data (ds[i := d] ! k) = Some x \<longrightarrow> j = k"
        by (intro allI impI desc_inj_update [OF inj, where d = d]) (simp_all add: Failed(2))
      then show ?thesis using a addrs by (auto simp: own_descs_def heap_put_def Failed(3))
    qed
    moreover have "heap_ok ?h2" using a(4) a_lt by (auto simp: heap_ok_def heap_put_def Failed(3,4))
    moreover have "blocks ?h2 |` (- insert a (desc_addrs ds)) = blocks h0"
      using base(1) by (auto simp: heap_put_def Failed(3))
    ultimately show ?thesis
      using base(2) gt addrs Failed(1) by (auto simp: filling_def heap_put_def Failed(3))
  next
    case (Filled bs)
    have new: "fresh h \<notin> dom (blocks h)" using a(4) by (auto simp: heap_ok_def)
    have addrs: "desc_addrs (ds[i := d]) = insert (fresh h) (desc_addrs ds)"
      using desc_addrs_update_None [OF assms(3,4)] Filled(2) by simp
    let ?h2 = "heap_put a (Descs (ds[i := d])) h1"
    have a1: "blocks h1 a = Some (Descs ds)" using a(1) a_lt by (simp add: Filled(4))
    then have "put_desc (Some a) i d h1 = Inr ?h2"
      using assms(3) by (simp add: put_desc_def get_descs_def heap_get_def)
    moreover have "own_descs ?h2 a (ds[i := d])"
    proof -
      have "\<forall>j < length ds. \<forall>k < length ds. \<forall>x. desc_data (ds[i := d] ! j) = Some x \<longrightarrow>
          desc_data (ds[i := d] ! k) = Some x \<longrightarrow> j = k"
        by (intro allI impI desc_inj_update [OF inj, where d = d]) (use Filled(2) below in auto)
      then show ?thesis using a a_lt addrs by (auto simp: own_descs_def heap_put_def Filled(4))
    qed
    moreover have "heap_ok ?h2" using a(4) a_lt by (auto simp: heap_ok_def heap_put_def Filled(4,5) less_Suc_eq)
    moreover have "blocks ?h2 |` (- insert a (insert (fresh h) (desc_addrs ds))) = blocks h0"
    proof -
      have "blocks ?h2 |` (- insert a (insert (fresh h) (desc_addrs ds))) = blocks h |` (- insert a (desc_addrs ds))"
        using new by (auto simp: heap_put_def Filled(4) restrict_map_def fun_eq_iff domIff)
      then show ?thesis using base(1) by simp
    qed
    moreover have "copied raw sec ?h2 d"
      using Filled(2,3) a_lt by (auto simp: copied_def heap_put_def)
    ultimately show ?thesis
      using base(2) gt addrs a_lt by (auto simp: filling_def heap_put_def Filled(4))
  qed
qed

lemma copied_frame:
  "copied raw sec h d \<Longrightarrow> (\<And>x. desc_data d = Some x \<Longrightarrow> blocks h' x = blocks h x) \<Longrightarrow> copied raw sec h' d"
  by (auto simp: copied_def)

lemma alloc_descs_ok:
  assumes "alloc_descs raw p ty (Some a) is h = Inr (r, h')" and "filling h0 a h ds" and "heap_ok h0"
    and "distinct is" and "\<forall>i \<in> set is. i < length ds \<and> desc_data (ds ! i) = None"
  shows "\<exists>ds'. filling h0 a h' ds' \<and> length ds' = length ds \<and> (\<forall>j < length ds. j \<notin> set is \<longrightarrow> ds' ! j = ds ! j) \<and>
     (\<forall>x. x < fresh h \<and> x \<noteq> a \<longrightarrow> blocks h' x = blocks h x) \<and> fresh h \<le> fresh h' \<and>
     (r = None \<longrightarrow> (\<forall>i \<in> set is. \<exists>sec. get_sec p ty i = Inr sec \<and> copied raw sec h' (ds' ! i)))"
  using assms(1,2,4,5)
proof (induction "is" arbitrary: h ds)
  case Nil
  then show ?case by auto
next
  case (Cons i "is")
  have i: "i < length ds" "desc_data (ds ! i) = None" using Cons.prems(4) by simp_all
  have a: "blocks h a = Some (Descs ds)" using Cons.prems(2) by (rule fillingD)
  obtain sec r1 d h1 where sec: "get_sec p ty i = Inr sec"
    and al: "iwl_alloc_fw_desc raw (ds ! i) sec h = Inr (r1, d, h1)"
    using Cons.prems(1) i(1) by (auto simp: get_descs_def heap_get_def a bindF_eq_Inr)
  obtain h2 where h2: "put_desc (Some a) i d h1 = Inr h2" "filling h0 a h2 (ds[i := d])"
      "\<And>x. x < fresh h \<Longrightarrow> x \<noteq> a \<Longrightarrow> blocks h2 x = blocks h x" "r1 = None \<Longrightarrow> copied raw sec h2 d"
    using fill_one [OF Cons.prems(2) assms(3) i al] by auto
  have fr: "fresh h \<le> fresh h2"
    using al h2(1) by (cases rule: iwl_alloc_fw_desc_cases)
      (auto simp: put_desc_def get_descs_def bindF_eq_Inr heap_put_def split: if_splits)
  have run: "(if r1 \<noteq> None then fail ENOMEM h2 else alloc_descs raw p ty (Some a) is h2) = Inr (r, h')"
    using Cons.prems(1) i(1) by (simp add: sec al h2(1) get_descs_def heap_get_def a)
  show ?case
  proof (cases "r1 = None")
    case False
    with run have "h' = h2" "r \<noteq> None" by auto
    with h2 fr show ?thesis by (intro exI [of _ "ds[i := d]"]) auto
  next
    case True
    have rest: "\<forall>j \<in> set is. j < length (ds[i := d]) \<and> desc_data (ds[i := d] ! j) = None"
      using Cons.prems(3,4) by (auto simp: nth_list_update)
    obtain ds' where ds': "filling h0 a h' ds'" "length ds' = length ds"
        "\<And>j. j < length ds \<Longrightarrow> j \<notin> set is \<Longrightarrow> ds' ! j = ds[i := d] ! j"
        "\<And>x. x < fresh h2 \<Longrightarrow> x \<noteq> a \<Longrightarrow> blocks h' x = blocks h2 x" "fresh h2 \<le> fresh h'"
        "r = None \<Longrightarrow> \<forall>j \<in> set is. \<exists>sec. get_sec p ty j = Inr sec \<and> copied raw sec h' (ds' ! j)"
      using Cons.IH [OF _ h2(2) _ rest] run True Cons.prems(3) by auto
    have di: "ds' ! i = d" using ds'(3) [OF i(1)] Cons.prems(3) i(1) by simp
    have own: "own_descs h2 a (ds[i := d])" "heap_ok h2" using fillingD [OF h2(2)] by blast+
    have "copied raw sec h' (ds' ! i)"
    proof (rule copied_frame [where h = h2])
      show "copied raw sec h2 (ds' ! i)" using h2(4) [OF True] di by simp
      fix x assume "desc_data (ds' ! i) = Some x"
      then have "x \<in> desc_addrs (ds[i := d])" using i(1) di by (auto simp: desc_addrs_iff intro!: exI [of _ i])
      then have "x < fresh h2" "x \<noteq> a" using own by (auto simp: own_descs_def heap_ok_def)
      then show "blocks h' x = blocks h2 x" using ds'(4) by simp
    qed
    then have "r = None \<longrightarrow> (\<forall>j \<in> set (i # is). \<exists>sec. get_sec p ty j = Inr sec \<and> copied raw sec h' (ds' ! j))"
      using ds'(6) sec by auto
    moreover have "\<forall>j < length ds. j \<notin> set (i # is) \<longrightarrow> ds' ! j = ds ! j" using ds'(3) by auto
    moreover have "\<forall>x. x < fresh h \<and> x \<noteq> a \<longrightarrow> blocks h' x = blocks h x" using ds'(4) h2(3) fr by auto
    moreover have "fresh h \<le> fresh h'" using fr ds'(5) by simp
    ultimately show ?thesis using ds'(1,2) by blast
  qed
qed

subsection \<open>All images\<close>

text \<open>An image holds the sections: one filled descriptor per section, in order.\<close>

definition img_copied :: "u8 list \<Rightarrow> iwl_firmware_pieces \<Rightarrow> iwl_ucode_type \<Rightarrow> dheap \<Rightarrow> fw_img \<Rightarrow> bool" where
  "img_copied raw p ty h i \<longleftrightarrow> (\<exists>a ds. fw_img_sec i = Some a \<and> blocks h a = Some (Descs ds) \<and>
     length ds = sec_counter (pimg p ty) \<and> num_sec i = length ds \<and>
     (\<forall>k < length ds. \<exists>sec. get_sec p ty k = Inr sec \<and> copied raw sec h (ds ! k)))"

lemma img_live_extend:
  assumes "img_live h i" and "blocks h \<subseteq>\<^sub>m blocks h'"
  shows "img_live h' i \<and> img_addrs h' i = img_addrs h i \<and> img_addrs h i \<subseteq> dom (blocks h)"
proof (cases "fw_img_sec i")
  case None
  with assms(1) show ?thesis by (simp add: img_live_def img_addrs_def)
next
  case (Some a)
  with assms(1) obtain ds where ds: "own_descs h a ds" "length ds = num_sec i" by (auto simp: img_live_def)
  moreover have "blocks h' a = Some (Descs ds)" "dom (blocks h) \<subseteq> dom (blocks h')"
    using assms(2) ds(1) map_le_implies_dom_le by (auto simp: map_le_def own_descs_def dom_def)
  moreover from this ds(1) have "desc_addrs ds \<subseteq> dom (blocks h')" unfolding own_descs_def by blast
  ultimately show ?thesis
    using Some by (auto simp: img_live_def img_addrs_def own_descs_def)
qed

lemma img_copied_extend:
  "img_copied raw p ty h i \<Longrightarrow> blocks h \<subseteq>\<^sub>m blocks h' \<Longrightarrow> img_copied raw p ty h' i"
  unfolding img_copied_def copied_def map_le_def by (metis domI)

lemma map_le_restrict: "m |` A \<subseteq>\<^sub>m m"
  by (auto simp: map_le_def restrict_map_def)

lemma iwl_alloc_ucode_ok:
  assumes "iwl_alloc_ucode raw p ty (w, h) = Inr (r, w', h')" and "heap_ok h"
  shows "heap_ok h' \<and> (\<forall>u. u \<noteq> ty \<longrightarrow> img w' u = img w u) \<and> blocks h \<subseteq>\<^sub>m blocks h' \<and>
     (img w' ty = img w ty \<and> blocks h' = blocks h \<and> r \<noteq> None \<or>
      img_live h' (img w' ty) \<and> img_addrs h' (img w' ty) \<inter> dom (blocks h) = {} \<and>
      blocks h' |` (- img_addrs h' (img w' ty)) = blocks h \<and>
      (r = None \<longrightarrow> img_copied raw p ty h' (img w' ty)))"
proof -
  let ?n = "sec_counter (pimg p ty)" and ?zs = "replicate (sec_counter (pimg p ty)) zero_desc"
  obtain q h1 where q: "heap_alloc (Descs ?zs) h = (q, h1)" by force
  from q show ?thesis
  proof (cases rule: heap_alloc_cases)
    case Refused
    with assms q show ?thesis by (auto simp: iwl_alloc_ucode_def Let_def heap_ok_def map_le_def)
  next
    case Granted
    let ?a = "fresh h"
    have new: "?a \<notin> dom (blocks h)" using assms(2) by (auto simp: heap_ok_def)
    have none: "desc_addrs ?zs = {}" by (auto simp: desc_addrs_def zero_desc_def)
    have fill: "filling h ?a h1 ?zs"
      using assms(2) new none Granted
      by (auto simp: filling_def own_descs_def heap_ok_def less_Suc_eq zero_desc_def restrict_map_def fun_eq_iff domIff)
    obtain run: "alloc_descs raw p ty (Some ?a) [0..<?n] h1 = Inr (r, h')"
      and w': "w' = set_img ty (Some ?a) ?n w"
      using assms(1) by (auto simp: iwl_alloc_ucode_def Let_def q Granted(1) bindF_eq_Inr)
    have "\<forall>i \<in> set [0..<?n]. i < length ?zs \<and> desc_data (?zs ! i) = None" by (simp add: zero_desc_def)
    then obtain ds where ds: "filling h ?a h' ds" "length ds = ?n"
        "r = None \<Longrightarrow> \<forall>i \<in> set [0..<?n]. \<exists>sec. get_sec p ty i = Inr sec \<and> copied raw sec h' (ds ! i)"
      using alloc_descs_ok [OF run fill assms(2) distinct_upt] by auto
    note f = fillingD [OF ds(1)]
    have addrs: "img_addrs h' (img w' ty) = insert ?a (desc_addrs ds)"
      by (simp add: img_addrs_def w' set_img_def f(2))
    have "img_live h' (img w' ty)" using f(1) ds(2) by (simp add: img_live_def w' set_img_def) blast
    moreover have "insert ?a (desc_addrs ds) \<inter> dom (blocks h) = {}"
      using f(5) new by (metis Diff_disjoint Int_commute Compl_disjoint dom_restrict inf_bot_left inf_left_commute inf_sup_aci(1))
    moreover have "blocks h \<subseteq>\<^sub>m blocks h'" using f(5) map_le_restrict by metis
    moreover have "r = None \<longrightarrow> img_copied raw p ty h' (img w' ty)"
      using ds(2,3) f(2) by (auto simp: img_copied_def w' set_img_def)
    ultimately show ?thesis
      using f(3,5) addrs by (auto simp: w' set_img_def)
  qed
qed

definition fw_owns :: "(nat \<Rightarrow> blk option) \<Rightarrow> iwl_fw \<Rightarrow> dheap \<Rightarrow> bool" where
  "fw_owns base w h \<longleftrightarrow> heap_ok h \<and> imgs_live w UNIV h \<and> blocks h |` (- imgs_addrs w UNIV h) = base"

lemma fw_owns_step:
  assumes "fw_owns base w h" and "iwl_alloc_ucode raw p ty (w, h) = Inr (r, w', h')"
    and "fw_img_sec (img w ty) = None"
  shows "fw_owns base w' h'"
proof -
  have live: "\<And>u. img_live h (img w u)" and ok: "heap_ok h"
    and disj: "\<And>t u. t \<noteq> u \<Longrightarrow> img_addrs h (img w t) \<inter> img_addrs h (img w u) = {}"
    and base: "blocks h |` (- imgs_addrs w UNIV h) = base"
    using assms(1) by (simp_all add: fw_owns_def imgs_live_def)
  note st = iwl_alloc_ucode_ok [OF assms(2) ok]
  have le: "blocks h \<subseteq>\<^sub>m blocks h'" and ok': "heap_ok h'" and other: "\<And>u. u \<noteq> ty \<Longrightarrow> img w' u = img w u"
    using st by blast+
  note ext = img_live_extend [OF live le]
  have empty: "img_addrs h (img w ty) = {}" using assms(3) by (simp add: img_addrs_def)
  show ?thesis
  proof (cases "img w' ty = img w ty \<and> blocks h' = blocks h")
    case True
    have "img w' u = img w u" for u using True other by (cases "u = ty") simp_all
    then have "img w' = img w" by (rule HOL.ext)
    moreover have "img_live h' i = img_live h i" "img_addrs h' i = img_addrs h i" for i
      unfolding img_live_def img_addrs_def own_descs_def conjunct2 [OF True] by (rule refl)+
    ultimately show ?thesis using assms(1) ok' True by (simp add: fw_owns_def imgs_live_def imgs_addrs_def)
  next
    case False
    let ?A = "img_addrs h' (img w' ty)"
    have new: "img_live h' (img w' ty)" "?A \<inter> dom (blocks h) = {}" "blocks h' |` (- ?A) = blocks h"
      using st False by blast+
    have same: "img_addrs h' (img w' u) = img_addrs h (img w u)" "img_addrs h (img w u) \<subseteq> dom (blocks h)"
      if "u \<noteq> ty" for u using ext [of u] other [OF that] by simp_all
    have "imgs_live w' UNIV h'"
      unfolding imgs_live_def
    proof (intro conjI ballI impI)
      show "img_live h' (img w' t)" for t using ext [of t] other [of t] new(1) by (cases "t = ty") auto
      show "img_addrs h' (img w' t) \<inter> img_addrs h' (img w' u) = {}" if "t \<noteq> u" for t u
        using that disj [OF that] same [of t] same [of u] new(2) by (cases "t = ty"; cases "u = ty") auto
    qed
    moreover have "imgs_addrs w' UNIV h' = ?A \<union> imgs_addrs w UNIV h"
    proof -
      have "imgs_addrs w' UNIV h' = ?A \<union> (\<Union>u \<in> - {ty}. img_addrs h' (img w' u))"
        by (auto simp: imgs_addrs_def)
      also have "(\<Union>u \<in> - {ty}. img_addrs h' (img w' u)) = (\<Union>u \<in> - {ty}. img_addrs h (img w u))"
        using same(1) by (intro SUP_cong) auto
      also have "\<dots> = imgs_addrs w UNIV h" using empty by (auto simp: imgs_addrs_def)
      finally show ?thesis .
    qed
    moreover have "blocks h' |` (- (?A \<union> imgs_addrs w UNIV h)) = base"
      by (simp only: Compl_Un restrict_restrict [symmetric] new(3) base)
    ultimately show ?thesis using ok' by (simp add: fw_owns_def del: Compl_Un)
  qed
qed

lemma alloc_imgs_ok:
  assumes "alloc_imgs raw p tys (w, h) = Inr (r, w', h')" and "fw_owns base w h" and "distinct tys"
    and "\<forall>t \<in> set tys. fw_img_sec (img w t) = None"
  shows "fw_owns base w' h' \<and> blocks h \<subseteq>\<^sub>m blocks h' \<and> (\<forall>u. u \<notin> set tys \<longrightarrow> img w' u = img w u) \<and>
     (r = None \<longrightarrow> (\<forall>t \<in> set tys. img_copied raw p t h' (img w' t)))"
  using assms
proof (induction tys arbitrary: w h)
  case Nil
  then show ?case by simp
next
  case (Cons t tys)
  have ok: "heap_ok h" using Cons.prems(2) by (simp add: fw_owns_def)
  have t: "fw_img_sec (img w t) = None" using Cons.prems(4) by simp
  have run: "thenS (iwl_alloc_ucode raw p t (w, h)) (alloc_imgs raw p tys) = Inr (r, w', h')"
    using Cons.prems(1) by simp
  then show ?case
  proof (cases rule: thenS_Inr_cases)
    case (Stop e)
    then have st: "iwl_alloc_ucode raw p t (w, h) = Inr (Some e, w', h')" by simp
    with fw_owns_step [OF Cons.prems(2) st t] iwl_alloc_ucode_ok [OF st ok] Stop(2) show ?thesis by auto
  next
    case (Go s)
    obtain w1 h1 where s: "s = (w1, h1)" by (cases s)
    have st: "iwl_alloc_ucode raw p t (w, h) = Inr (None, w1, h1)" using Go(1) s by simp
    note f = iwl_alloc_ucode_ok [OF st ok]
    have "\<forall>u \<in> set tys. fw_img_sec (img w1 u) = None" using f Cons.prems(3,4) by auto
    with Cons.IH [OF _ fw_owns_step [OF Cons.prems(2) st t]] Go(2) s Cons.prems(3)
    have r: "fw_owns base w' h'" "blocks h1 \<subseteq>\<^sub>m blocks h'" "\<And>u. u \<notin> set tys \<Longrightarrow> img w' u = img w1 u"
      "r = None \<Longrightarrow> \<forall>u \<in> set tys. img_copied raw p u h' (img w' u)" by auto
    have "img_copied raw p t h1 (img w1 t)" using f by auto
    then have "img_copied raw p t h' (img w' t)"
      using img_copied_extend r(2) r(3) [of t] Cons.prems(3) by auto
    moreover have "blocks h \<subseteq>\<^sub>m blocks h'" using f r(2) map_le_trans by blast
    ultimately show ?thesis using r f by auto
  qed
qed

subsection \<open>Allocating and releasing\<close>

text \<open>The state of \<open>drv->fw\<close> before the images are filled: no image and no debug block.\<close>

definition no_debug :: "iwl_fw \<Rightarrow> bool" where
  "no_debug w \<longleftrightarrow> dbg_dest_tlv w = None \<and> dbg_conf_tlv w = replicate FW_DBG_CONF_MAX None \<and>
     dbg_trigger_tlv w = replicate FW_DBG_TRIGGER_MAX None"

definition no_images :: "iwl_fw \<Rightarrow> bool" where
  "no_images w \<longleftrightarrow> (\<forall>t. fw_img_sec (img w t) = None \<and> num_sec (img w t) = 0)"

lemma fw_owns_none: "no_images w \<Longrightarrow> heap_ok h \<Longrightarrow> fw_owns (blocks h) w h"
  by (simp add: no_images_def fw_owns_def imgs_live_def img_live_def img_addrs_def imgs_addrs_def
      restrict_map_def)

lemma free_all_None: "set ps \<subseteq> {None} \<Longrightarrow> free_all ps h = Inr h"
  by (induction ps) (auto simp: iwh_free_def)

lemma UNIV_ucode_types: "set ucode_types = UNIV" and distinct_ucode_types: "distinct ucode_types"
  unfolding ucode_types_def by (auto, metis (full_types) iwl_ucode_type.exhaust)

lemma iwl_dealloc_ucode_ok:
  assumes "fw_owns base w h" and "no_debug w"
  shows "\<exists>h'. iwl_dealloc_ucode w h = Inr h' \<and> blocks h' = base"
proof -
  have "set (dbg_dest_tlv w # dbg_conf_tlv w @ dbg_trigger_tlv w) \<subseteq> {None}"
    using assms(2) by (auto simp: no_debug_def)
  then have "iwl_dealloc_ucode w h = free_imgs w ucode_types h"
    unfolding iwl_dealloc_ucode_def by (simp only: free_all_None bindF_simps)
  moreover obtain h' where "free_imgs w ucode_types h = Inr h'"
      "blocks h' = blocks h |` (- imgs_addrs w UNIV h)"
    using free_imgs_ok [of w ucode_types h] assms(1) distinct_ucode_types
    by (auto simp: UNIV_ucode_types fw_owns_def)
  ultimately show ?thesis using assms(1) by (simp add: fw_owns_def)
qed

lemma iwl_alloc_ucode_debug:
  "iwl_alloc_ucode raw p ty (w, h) = Inr (r, w', h') \<Longrightarrow> no_debug w' = no_debug w"
  by (auto simp: iwl_alloc_ucode_def Let_def bindF_eq_Inr set_img_def no_debug_def split: prod.splits option.splits)

lemma alloc_imgs_debug:
  "alloc_imgs raw p tys (w, h) = Inr (r, w', h') \<Longrightarrow> no_debug w' = no_debug w"
proof (induction tys arbitrary: w h)
  case (Cons t tys)
  from Cons.prems have "thenS (iwl_alloc_ucode raw p t (w, h)) (alloc_imgs raw p tys) = Inr (r, w', h')" by simp
  then show ?case
  proof (cases rule: thenS_Inr_cases)
    case (Stop e)
    then show ?thesis using iwl_alloc_ucode_debug by blast
  next
    case (Go s)
    then show ?thesis using Cons.IH iwl_alloc_ucode_debug by (cases s) metis
  qed
qed simp

text \<open>
  C10. Copying the firmware into the driver's buffers: when it succeeds, every image has one
  descriptor per parsed section, in order, and each descriptor's block holds exactly the bytes
  of the file the section names, with its size and load offset.
\<close>

theorem images_hold_sections:
  assumes "alloc_imgs raw p ucode_types (w, h) = Inr (None, w', h')" and "heap_ok h" and "no_images w"
  shows "img_copied raw p ty h' (img w' ty)"
  using alloc_imgs_ok [OF assms(1) fw_owns_none [OF assms(3,2)] distinct_ucode_types] assms(3)
  by (simp add: UNIV_ucode_types no_images_def)

text \<open>
  C11. No leak and no double free: whether filling the images succeeds or is given up half way
  because the allocator refuses a request or a section is empty, \<open>iwl_dealloc_ucode\<close> releases exactly
  the blocks that were added and leaves the heap as it was before.
\<close>

theorem dealloc_restores_heap:
  assumes "alloc_imgs raw p ucode_types (w, h) = Inr (r, w', h')" and "heap_ok h"
    and "no_images w" and "no_debug w"
  shows "\<exists>h''. iwl_dealloc_ucode w' h' = Inr h'' \<and> blocks h'' = blocks h"
proof -
  have "fw_owns (blocks h) w' h'"
    using alloc_imgs_ok [OF assms(1) fw_owns_none [OF assms(3,2)] distinct_ucode_types] assms(3)
    by (simp add: no_images_def)
  moreover have "no_debug w'" using alloc_imgs_debug [OF assms(1)] assms(4) by simp
  ultimately show ?thesis by (rule iwl_dealloc_ucode_ok)
qed

lemma dealloc_again:
  assumes "fw_owns base w h" and "no_debug w" and "fw_img_sec (img w IWL_UCODE_REGULAR) = Some a"
    and "iwl_dealloc_ucode w h = Inr h'"
  shows "\<exists>f. iwl_dealloc_ucode w h' = Inl f"
proof -
  have "a \<in> img_addrs h (img w IWL_UCODE_REGULAR)" using assms(3) by (simp add: img_addrs_def)
  then have "a \<in> imgs_addrs w UNIV h" by (auto simp: imgs_addrs_def)
  moreover have "blocks h' = blocks h |` (- imgs_addrs w UNIV h)"
    using iwl_dealloc_ucode_ok [OF assms(1,2)] assms(1,4) by (simp add: fw_owns_def)
  ultimately have gone: "blocks h' a = None" by (simp add: restrict_map_def)
  have "set (dbg_dest_tlv w # dbg_conf_tlv w @ dbg_trigger_tlv w) \<subseteq> {None}"
    using assms(2) by (auto simp: no_debug_def)
  then have "iwl_dealloc_ucode w h' = free_imgs w ucode_types h'"
    unfolding iwl_dealloc_ucode_def by (simp only: free_all_None bindF_simps)
  moreover have "\<exists>f. iwl_free_fw_img (img w IWL_UCODE_REGULAR) h' = Inl f"
    using gone assms(3)
    by (cases "num_sec (img w IWL_UCODE_REGULAR)")
      (auto simp: iwl_free_fw_img_def iwh_free_def domIff upt_rec iwl_free_fw_desc_def get_descs_def heap_get_def)
  ultimately show ?thesis by (auto simp: ucode_types_def)
qed

text \<open>
  \<open>iwl_dealloc_ucode\<close> does not clear the pointers it frees: a second call, as \<open>iwl_drv_stop\<close> makes it
  after the callback has taken its \<open>out_free_fw\<close> exit, uses or frees blocks that are already gone.
\<close>

theorem dealloc_twice_faults:
  assumes "alloc_imgs raw p ucode_types (w, h) = Inr (r, w', h')" and "heap_ok h"
    and "no_images w" and "no_debug w" and "fw_img_sec (img w' IWL_UCODE_REGULAR) \<noteq> None"
    and "iwl_dealloc_ucode w' h' = Inr h''"
  shows "\<exists>f. iwl_dealloc_ucode w' h'' = Inl f"
proof -
  have "fw_owns (blocks h) w' h'"
    using alloc_imgs_ok [OF assms(1) fw_owns_none [OF assms(3,2)] distinct_ucode_types] assms(3)
    by (simp add: no_images_def)
  moreover have "no_debug w'" using alloc_imgs_debug [OF assms(1)] assms(4) by simp
  ultimately show ?thesis using dealloc_again assms(5,6) by blast
qed

definition demo_pieces :: iwl_firmware_pieces where
  "demo_pieces = upd_img IWL_UCODE_REGULAR
     \<lparr>img_sec = Some [\<lparr>sec_data = Some 1, sec_size = Some 2, sec_offset = Some 7\<rparr>], sec_counter = 1\<rparr> zero_pieces"

definition demo_heap :: dheap where
  "demo_heap = \<lparr>blocks = Map.empty, fresh = 1, grants = []\<rparr>"

definition fst_ok :: "(iwl_fw \<times> dheap) outcome \<Rightarrow> bool" where
  "fst_ok r = (case r of Inr (None, _) \<Rightarrow> True | _ \<Rightarrow> False)"

lemma demo_alloc: "\<exists>w' h'. alloc_imgs [9, 8, 7] demo_pieces ucode_types (zero_fw, demo_heap) = Inr (None, w', h')"
proof -
  have "fst_ok (alloc_imgs [9, 8, 7] demo_pieces ucode_types (zero_fw, demo_heap))" by code_simp
  then show ?thesis by (auto simp: fst_ok_def split: sum.splits prod.splits option.splits)
qed

lemma demo_start: "heap_ok demo_heap" "no_images zero_fw" "no_debug zero_fw"
  by (simp_all add: heap_ok_def demo_heap_def no_images_def no_debug_def zero_fw_def)

theorem images_hold_sections_witness:
  "\<exists>w' h'. alloc_imgs [9, 8, 7] demo_pieces ucode_types (zero_fw, demo_heap) = Inr (None, w', h') \<and>
     img_copied [9, 8, 7] demo_pieces IWL_UCODE_REGULAR h' (img w' IWL_UCODE_REGULAR)"
  using demo_alloc images_hold_sections demo_start by blast

theorem dealloc_restores_heap_witness:
  "\<exists>w' h' h''. alloc_imgs [9, 8, 7] demo_pieces ucode_types (zero_fw, demo_heap) = Inr (None, w', h') \<and>
     iwl_dealloc_ucode w' h' = Inr h'' \<and> blocks h'' = Map.empty"
proof -
  obtain w' h' where "alloc_imgs [9, 8, 7] demo_pieces ucode_types (zero_fw, demo_heap) = Inr (None, w', h')"
    using demo_alloc by blast
  with dealloc_restores_heap [OF this demo_start] show ?thesis by (auto simp: demo_heap_def)
qed

theorem dealloc_twice_faults_witness:
  "\<exists>w' h' h'' f. alloc_imgs [9, 8, 7] demo_pieces ucode_types (zero_fw, demo_heap) = Inr (None, w', h') \<and>
     iwl_dealloc_ucode w' h' = Inr h'' \<and> iwl_dealloc_ucode w' h'' = Inl f"
proof -
  obtain w' h' where run: "alloc_imgs [9, 8, 7] demo_pieces ucode_types (zero_fw, demo_heap) = Inr (None, w', h')"
    using demo_alloc by blast
  note owns = alloc_imgs_ok [OF run fw_owns_none [OF demo_start(2,1)] distinct_ucode_types]
  have none: "\<forall>t \<in> set ucode_types. fw_img_sec (img zero_fw t) = None" using demo_start(2) by (simp add: no_images_def)
  have "fw_img_sec (img w' IWL_UCODE_REGULAR) \<noteq> None"
    using owns [OF none] by (auto simp: UNIV_ucode_types img_copied_def)
  moreover have "no_debug w'" using alloc_imgs_debug [OF run] demo_start(3) by simp
  then obtain h'' where "iwl_dealloc_ucode w' h' = Inr h''"
    using owns [OF none] iwl_dealloc_ucode_ok by blast
  ultimately show ?thesis using run dealloc_twice_faults [OF run demo_start] by blast
qed

end
