(* ===== verification/Drv_Lifecycle.thy ===== *)
theory Drv_Lifecycle
  imports Drv_Lifetime
begin

section \<open>From \<open>iwl_drv_start\<close> to \<open>iwl_drv_stop\<close>\<close>

text \<open>
  The parsers do not touch the pointers of \<open>drv->fw\<close>, so the callback fills the images of a fresh
  structure; a completed start followed by a stop therefore releases everything. The theory
  also shows what happens when the callback does not complete, and what the op mode table and
  the choice of the firmware version do.
\<close>

subsection \<open>The parsers leave the buffers alone\<close>

definition buf_view where
  "buf_view w = (dbg_dest_tlv w, dbg_conf_tlv w, dbg_trigger_tlv w,
     \<lambda>t. fw_img_sec (img w t), \<lambda>t. num_sec (img w t))"

definition same_bufs :: "iwl_fw \<Rightarrow> iwl_fw \<Rightarrow> bool" where
  "same_bufs w w' \<longleftrightarrow> buf_view w' = buf_view w"

lemma same_bufs_state: "same_bufs w w' \<Longrightarrow> no_images w' = no_images w \<and> no_debug w' = no_debug w"
  by (auto simp: same_bufs_def buf_view_def no_images_def no_debug_def fun_eq_iff)

lemma same_bufs_refl [simp]: "same_bufs w w"
  by (simp add: same_bufs_def)

lemma same_bufs_trans: "same_bufs w w' \<Longrightarrow> same_bufs w' w'' \<Longrightarrow> same_bufs w w''"
  by (simp add: same_bufs_def)

lemma buf_view_img [simp]: "buf_view (set_dual ty w) = buf_view w" "buf_view (set_paging n ty w) = buf_view w"
  by (auto simp: buf_view_def set_dual_def set_paging_def)

lemmas bufs_defs = same_bufs_def buf_view_def

lemma same_bufs_on_fw: "(\<And>w. same_bufs w (f w)) \<Longrightarrow> same_bufs (fw s) (fw (on_fw f s))"
  by (simp add: on_fw_def)

lemma same_bufs_on_capa [simp]: "same_bufs (fw s) (fw (on_capa f s))"
  by (simp add: on_capa_def on_fw_def bufs_defs)

lemma same_bufs_on_pc [simp]: "same_bufs (fw s) (fw (on_pc f s))"
  by (simp add: on_pc_def)

lemma tlv_word_bufs:
  "tlv_word raw dat len f s = ok s' \<Longrightarrow> (\<And>v. same_bufs (fw s) (fw (f v s))) \<Longrightarrow> same_bufs (fw s) (fw s')"
  by (auto simp: tlv_word_def bindF_eq_Inr split: if_splits)

lemma section_bufs:
  "tlv_set_sec ty sec off dat len s = ok s' \<Longrightarrow> same_bufs (fw s) (fw s')"
  "tlv_store_sec raw ty dat len s = ok s' \<Longrightarrow> same_bufs (fw s) (fw s')"
  "tlv_store_mvm_sec raw ty dat len s = ok s' \<Longrightarrow> same_bufs (fw s) (fw s')"
  "tlv_store_sec raw ty dat len (s\<lparr>usniffer_images := True\<rparr>) = ok s' \<Longrightarrow> same_bufs (fw s) (fw s')"
  by (auto simp: tlv_set_sec_def tlv_store_sec_def tlv_store_mvm_sec_def on_pieces_def bindF_eq_Inr thenS_ok
      on_fw_def bufs_defs)

lemma handler_bufs:
  "tlv_flags raw dat len s = ok s' \<Longrightarrow> same_bufs (fw s) (fw s')"
  "tlv_api_changes raw dat len s = ok s' \<Longrightarrow> same_bufs (fw s) (fw s')"
  "tlv_capabilities raw dat len s = ok s' \<Longrightarrow> same_bufs (fw s) (fw s')"
  "tlv_dbg_conf raw dat len s = ok s' \<Longrightarrow> same_bufs (fw s) (fw s')"
  "tlv_dbg_trigger raw dat len s = ok s' \<Longrightarrow> same_bufs (fw s) (fw s')"
  "tlv_mem_seg raw dat len s = ok s' \<Longrightarrow> same_bufs (fw s) (fw s')"
  by (auto simp: tlv_flags_def tlv_api_changes_def tlv_capabilities_def tlv_dbg_conf_def tlv_dbg_trigger_def
      tlv_mem_seg_def on_pc_def bindF_eq_Inr Let_def split: if_splits option.splits prod.splits)

lemma tlv_def_calib_bufs: "tlv_def_calib raw dat len s = ok s' \<Longrightarrow> same_bufs (fw s) (fw s')"
  by (auto simp: tlv_def_calib_def on_fw_def bindF_eq_Inr Let_def iwl_set_default_calib_def bufs_defs split: if_splits option.splits)

lemma tlv_num_of_cpu_bufs: "tlv_num_of_cpu raw dat len s = ok s' \<Longrightarrow> same_bufs (fw s) (fw s')"
  by (auto simp: tlv_num_of_cpu_def on_fw_def bindF_eq_Inr Let_def same_bufs_def split: if_splits option.splits)

lemma tlv_cscheme_bufs: "tlv_cscheme raw dat len s = ok s' \<Longrightarrow> same_bufs (fw s) (fw s')"
  by (auto simp: tlv_cscheme_def on_fw_def bindF_eq_Inr Let_def iwl_store_cscheme_def bufs_defs split: if_splits option.splits)

lemma tlv_fw_version_bufs: "tlv_fw_version raw dat len s = ok s' \<Longrightarrow> same_bufs (fw s) (fw s')"
  by (auto simp: tlv_fw_version_def on_fw_def bindF_eq_Inr Let_def bufs_defs split: if_splits option.splits)

lemma tlv_paging_bufs: "tlv_paging raw dat len s = ok s' \<Longrightarrow> same_bufs (fw s) (fw s')"
  by (auto simp: tlv_paging_def on_fw_def bindF_eq_Inr Let_def same_bufs_def split: if_splits option.splits)

lemma tlv_dbg_dest_bufs: "tlv_dbg_dest raw dat len s = ok s' \<Longrightarrow> same_bufs (fw s) (fw s')"
  by (auto simp: tlv_dbg_dest_def on_fw_def bindF_eq_Inr Let_def on_pc_def bufs_defs split: if_splits option.splits)

lemma tlv_gscan_bufs: "tlv_gscan raw dat len s = ok s' \<Longrightarrow> same_bufs (fw s) (fw s')"
  by (auto simp: tlv_gscan_def on_fw_def bindF_eq_Inr Let_def iwl_store_gscan_capa_def bufs_defs split: if_splits option.splits)

lemmas handler_bufs_fw = tlv_def_calib_bufs tlv_num_of_cpu_bufs tlv_cscheme_bufs tlv_fw_version_bufs tlv_paging_bufs tlv_dbg_dest_bufs tlv_gscan_bufs

lemma tlv_switch_bufs:
  assumes "tlv_switch raw ty dat len s = ok s'"
  shows "same_bufs (fw s) (fw s')"
  by (insert assms [unfolded tlv_switch_def tlv_switch_a_def tlv_switch_b_def tlv_switch_c_def Let_def],
      cases "tlv_type_of ty"; simp; (erule section_bufs handler_bufs handler_bufs_fw
        | (erule tlv_word_bufs; simp add: on_capa_def on_fw_def on_pc_def phy_sku_def bufs_defs)
        | (force simp: on_capa_def on_fw_def bufs_defs split: if_splits)))

lemma run_dir_bufs: "run_dir raw es s = ok s' \<Longrightarrow> same_bufs (fw s) (fw s')"
proof (induction es arbitrary: s)
  case (Cons e es)
  then obtain s1 where s1: "run_entry raw e s = ok s1" "run_dir raw es s1 = ok s'" by (auto simp: thenS_ok)
  have "same_bufs (fw s) (fw s1)" using s1(1) tlv_switch_bufs unfolding run_entry_def by blast
  with Cons.IH [OF s1(2)] show ?case by (rule same_bufs_trans [rotated])
qed simp

lemma tlv_parse_bufs:
  assumes "iwl_parse_tlv_firmware raw s0 = ok s" and "length raw < 2 ^ 64"
  shows "same_bufs (fw s0) (fw s)"
proof -
  obtain s1 len s2 where hdr: "tlv_header raw (s0\<lparr>usniffer_req := False, has_gscan_capa := False\<rparr>) = ok s1"
    and loop: "tlv_loop raw (of_nat (length raw) - 88) 88 s1 = ok (len, s2)" and fin: "tlv_finish (len, s2) = ok s"
    using assms(1) by (auto simp: iwl_parse_tlv_firmware_def thenS_ok bindF_eq_Inr split: option.splits)
  have h: "88 \<le> length raw" using tlv_header_length [OF hdr] .
  then have "(of_nat (length raw) :: u64) - 88 = of_nat (length raw - 88)"
    using of_nat_len_minus [of 88 "length raw"] by simp
  then obtain es where "run_dir raw es s1 = ok s2"
    using tlv_loop_accepts [OF _ h assms(2)] loop tlv_finish_len [OF fin] by metis
  then have "same_bufs (fw s1) (fw s2)" by (rule run_dir_bufs)
  moreover have "same_bufs (fw s0) (fw s1)"
    using hdr by (auto simp: tlv_header_def bindF_eq_Inr on_fw_def bufs_defs split: if_splits)
  moreover have "same_bufs (fw s2) (fw s)"
    using fin by (auto simp: tlv_finish_def bindF_eq_Inr split: if_splits)
  ultimately show ?thesis using same_bufs_trans by blast
qed

lemma on_pieces_fw: "on_pieces f s = Inr s' \<Longrightarrow> fw s' = fw s"
  by (auto simp: on_pieces_def bindF_eq_Inr)

lemma v12_parse_bufs:
  assumes "iwl_parse_v1_v2_firmware raw s0 = ok s"
  shows "same_bufs (fw s0) (fw s)"
proof -
  have sz: "fw s' = fw s" if "v12_sizes raw p s = Inr s'" for p s s'
    using that by (auto simp: v12_sizes_def v12_size_def bindF_eq_Inr dest!: on_pieces_fw)
  have la: "fw s' = fw s" if "v12_layout src s = ok s'" for src s s'
    using that by (auto simp: v12_layout_def v12_place_def bindF_eq_Inr dest!: on_pieces_fw split: prod.splits)
  show ?thesis
    using assms
    by (auto simp: iwl_parse_v1_v2_firmware_def Let_def bindF_eq_Inr bufs_defs dest!: sz la split: if_splits)
qed


subsection \<open>The callback\<close>

lemma cb_parse_bufs:
  assumes "cb_parse (Some raw) s0 = ok s" and "length raw < 2 ^ 64"
  shows "same_bufs (fw s0) (fw s)"
  using assms tlv_parse_bufs v12_parse_bufs
  by (auto simp: cb_parse_def bindF_eq_Inr split: if_splits)

lemma memcpy_block_None: "memcpy_block raw None src n h = Inr h' \<Longrightarrow> False"
  by (auto simp: memcpy_block_def heap_get_def bindF_eq_Inr)

lemma cb_dbg_dest_none: "no_debug w \<Longrightarrow> cb_dbg_dest raw p (w, h) = ok (w', h') \<Longrightarrow> w' = w \<and> h' = h"
  by (auto simp: cb_dbg_dest_def no_debug_def bindF_eq_Inr dest: memcpy_block_None split: option.splits)

lemma cb_dbg_conf_none:
  "no_debug w \<Longrightarrow> \<forall>i \<in> set is. i < FW_DBG_CONF_MAX \<Longrightarrow> cb_dbg_conf raw p is (w, h) = ok (w', h') \<Longrightarrow> w' = w \<and> h' = h"
proof (induction "is")
  case (Cons i "is")
  have "dbg_conf_tlv w ! i = None" using Cons.prems by (simp add: no_debug_def)
  with Cons show ?case
    by (auto simp: Let_def bindF_eq_Inr dest: memcpy_block_None split: option.splits)
qed simp

lemma cb_dbg_trigger_none:
  "no_debug w \<Longrightarrow> \<forall>i \<in> set is. i < FW_DBG_TRIGGER_MAX \<Longrightarrow> cb_dbg_trigger raw p is (w, h) = ok (w', h') \<Longrightarrow> w' = w \<and> h' = h"
proof (induction "is")
  case (Cons i "is")
  have "dbg_trigger_tlv w ! i = None" using Cons.prems by (simp add: no_debug_def)
  with Cons show ?case
    by (auto simp: Let_def bindF_eq_Inr dest: memcpy_block_None split: option.splits if_splits)
qed simp

lemma cb_buffers_ok:
  assumes "cb_buffers raw p (w, h) = ok (w', h')" and "no_images w" and "no_debug w" and "heap_ok h"
  shows "fw_owns (blocks h) w' h' \<and> no_debug w' \<and> (\<forall>t. img_copied raw p t h' (img w' t))"
proof -
  obtain w1 h1 w2 h2 w3 h3 where al: "alloc_imgs raw p ucode_types (w, h) = Inr (None, w1, h1)"
    and de: "cb_dbg_dest raw p (w1, h1) = ok (w2, h2)"
    and co: "cb_dbg_conf raw p [0..<FW_DBG_CONF_MAX] (w2, h2) = ok (w3, h3)"
    and tr: "cb_dbg_trigger raw p [0..<FW_DBG_TRIGGER_MAX] (w3, h3) = ok (w', h')"
    using assms(1) by (auto simp: cb_buffers_def thenS_ok simp del: upt.simps)
  have "no_debug w1" using alloc_imgs_debug [OF al] assms(3) by simp
  moreover from this cb_dbg_dest_none [OF this de] have 2: "w2 = w1" "h2 = h1" by simp_all
  moreover from \<open>no_debug w1\<close> 2 cb_dbg_conf_none [OF _ _ co] have 3: "w3 = w1" "h3 = h1" by simp_all
  moreover from \<open>no_debug w1\<close> 3 cb_dbg_trigger_none [OF _ _ tr] have "w' = w1" "h' = h1" by simp_all
  ultimately show ?thesis
    using alloc_imgs_ok [OF al fw_owns_none [OF assms(2,4)] distinct_ucode_types] assms(2)
    by (simp add: no_images_def UNIV_ucode_types)
qed

lemma fw_owns_img: "img w' = img w \<Longrightarrow> fw_owns base w' h = fw_owns base w h"
  by (simp add: fw_owns_def imgs_live_def imgs_addrs_def)

lemma heap_ok_grants [simp]: "heap_ok (h\<lparr>grants := m\<rparr>) = heap_ok h"
  by (simp add: heap_ok_def)

lemma callback_woken:
  assumes "iwl_req_fw_callback c start tab (Some raw) d0 = Inr (l, d)" and "woken d" and "\<not> woken d0"
    and "no_images (drv_fw d0)" and "no_debug (drv_fw d0)" and "heap_ok (drv_heap d0)"
    and "length raw < 2 ^ 64"
  shows "fw_owns (blocks (drv_heap d0)) (drv_fw d) (drv_heap d) \<and> no_debug (drv_fw d)"
proof -
  define s0 where "s0 = (\<lambda>m. \<lparr>fw = set_defaults (drv_fw d0), pieces = zero_pieces, usniffer_images = False,
             usniffer_req = False, has_gscan_capa = False, mem = m\<rparr>)"
  obtain okay m where m: "iwh_malloc (grants (drv_heap d0)) = (okay, m)" by force
  have okay: "okay"
    using assms(1-3) by (auto simp: iwl_req_fw_callback_def m Let_def bindF_eq_Inr split: if_splits)
  obtain s w h where parse: "cb_parse (Some raw) (s0 m) = ok s"
    and buf: "cb_buffers raw (pieces s) (fw s, (drv_heap d0)\<lparr>grants := mem s\<rparr>) = ok (w, h)"
    and d: "drv_fw d = cb_copy c (pieces s) w" "drv_heap d = h"
    using assms(1-3) okay
    by (auto simp: iwl_req_fw_callback_def s0_def m Let_def bindF_eq_Inr split_beta split: if_splits)
  have "same_bufs (drv_fw d0) (fw s)"
    using cb_parse_bufs [OF parse assms(7)] by (simp add: s0_def set_defaults_def bufs_defs)
  then have "no_images (fw s)" "no_debug (fw s)" using same_bufs_state assms(4,5) by blast+
  from cb_buffers_ok [OF buf this] assms(6) have "fw_owns (blocks (drv_heap d0)) w h \<and> no_debug w" by simp
  moreover have "img (cb_copy c (pieces s) w) = img w" "no_debug (cb_copy c (pieces s) w) = no_debug w"
    by (simp_all add: cb_copy_def no_debug_def)
  ultimately show ?thesis using fw_owns_img d by metis
qed

subsection \<open>Starting and stopping\<close>


text \<open>A configuration, a resource and an op mode for concrete runs.\<close>

definition demo_cfg :: fw_cfg where
  "demo_cfg = \<lparr>device_family = IWL_DEVICE_FAMILY_7000, integrated = False, fw_name_pre = ''iwlwifi-7260-'',
     fw_name_pre_b_or_c_step = [], fw_name_pre_rf_next_step = None, ucode_api_max = 17, ucode_api_min = 1,
     max_inst_size = 0, max_data_size = 0, max_event_log_size = 0, hw_rev = 0, hw_rf_id = 0\<rparr>"

definition demo_cfg_dvm :: fw_cfg where
  "demo_cfg_dvm = demo_cfg\<lparr>max_inst_size := 16, max_data_size := 16\<rparr>"

definition demo_v1_full :: "u8 list" where
  "demo_v1_full = enc32 0x01020204 @ enc32 1 @ enc32 1 @ enc32 1 @ enc32 1 @ enc32 0 @ [1, 2, 3, 4]"

definition is_started :: "(errno + 'm iwl_drv) waiting run \<Rightarrow> bool" where
  "is_started r = (case r of Inr (Returned (Inr _)) \<Rightarrow> True | _ \<Rightarrow> False)"

lemma is_startedD: "is_started r \<Longrightarrow> \<exists>d. r = Inr (Returned (Inr d))"
proof (cases r)
  case (Inr x)
  moreover assume "is_started r"
  ultimately show ?thesis
  proof (cases x)
    case (Returned y)
    with Inr \<open>is_started r\<close> show ?thesis by (cases y) (simp_all add: is_started_def)
  qed (simp add: is_started_def)
qed (simp add: is_started_def)


text \<open>
  C14. A missing or too short firmware file is never reported: the callback gives up without
  waking the thread that waits for it, so \<open>iwl_drv_start\<close> sleeps instead of returning an error.
\<close>

theorem missing_firmware_sleeps:
  fixes start :: "'o \<Rightarrow> iwl_fw \<Rightarrow> 'm option"
  assumes "ucode_api_min c \<le> ucode_api_max c" and "grants h = []"
    and "\<forall>name. \<exists>res. resource name = Some res \<and> length res < 4"
  shows "iwl_drv_start c start tab resource h = Inr Sleeps"
proof -
  define name where "name = snprintf 64 (fw_pre_name c @ snprintf 8 (dec_int (uint (ucode_api_max c))) @ ''.ucode'')"
  obtain res where res: "resource name = Some res" "length res < 4" using assms(3) by blast
  have "\<not> uint (ucode_api_max c) < uint (ucode_api_min c)" using assms(1) by (simp add: word_le_def)
  then have ch: "fw_choose c True (i, s) = ok (uint (ucode_api_max c), name)" for i s
    by (simp add: fw_choose_def name_def Let_def)
  let ?d = "(zero_drv (h\<lparr>grants := []\<rparr>) :: 'm iwl_drv)\<lparr>request_lock := True, fw_index := uint (ucode_api_max c), firmware_name := name\<rparr>"
  have "\<exists>d'. firmwareLoadComplete c start tab res ?d = Inr (Try_Again, d') \<and> \<not> woken d'"
    using res(2) assms(2)
    by (auto simp: firmwareLoadComplete_def iwl_req_fw_callback_def cb_parse_def Let_def zero_drv_def)
  then obtain d' where d': "firmwareLoadComplete c start tab res ?d = Inr (Try_Again, d')" "\<not> woken d'" by blast
  then show ?thesis
    using ch res(1) d'
    by (simp add: iwl_drv_start_def iwl_request_firmware_def assms(2) Let_def)
qed

theorem missing_firmware_sleeps_witness:
  "iwl_drv_start demo_cfg (\<lambda>(_ :: unit) _. Some ()) iwlwifi_opmode_table (\<lambda>_. Some []) demo_heap = Inr Sleeps"
  by (rule missing_firmware_sleeps) (simp_all add: demo_cfg_def demo_heap_def)

subsection \<open>The op mode table\<close>

lemma register_names:
  "iwl_opmode_register start name ops tab = Inr (r, tab') \<Longrightarrow> map opm_name tab' = map opm_name tab"
  by (induction tab arbitrary: tab') (auto simp: bindF_eq_Inr split: if_splits)

text \<open>
  Registering an op mode under a name of the table succeeds, stores its operations in that
  entry, starts it on every device of the entry and changes no other entry; deregistering it
  clears the operations and leaves no running op mode on the devices of the entry. An unknown
  name is refused with EIO and changes nothing.
\<close>

theorem opmode_register_spec:
  assumes "distinct (map opm_name tab)" and "i < length tab"
  shows "iwl_opmode_register start (opm_name (tab ! i)) ops tab =
           ok (tab[i := (tab ! i)\<lparr>opm_ops := Some ops, opm_drvs := map (op_mode_start start ops) (opm_drvs (tab ! i))\<rparr>]) \<and>
         iwl_opmode_deregister (opm_name (tab ! i)) tab =
           tab[i := (tab ! i)\<lparr>opm_ops := None, opm_drvs := map op_mode_stop (opm_drvs (tab ! i))\<rparr>] \<and>
         (\<forall>d. op_mode (op_mode_stop d) = (None :: 'm option)) \<and>
         (\<forall>name. name \<notin> opm_name ` set tab \<longrightarrow>
            iwl_opmode_register start name ops tab = fail EIO tab \<and> iwl_opmode_deregister name tab = tab)"
proof -
  have reg: "iwl_opmode_register start (opm_name (tab ! i)) ops tab =
      ok (tab[i := (tab ! i)\<lparr>opm_ops := Some ops, opm_drvs := map (op_mode_start start ops) (opm_drvs (tab ! i))\<rparr>])"
    using assms
  proof (induction tab arbitrary: i)
    case (Cons op tab)
    then show ?case by (cases i) (auto simp: image_iff dest: nth_mem)
  qed simp
  have dereg: "iwl_opmode_deregister (opm_name (tab ! i)) tab =
      tab[i := (tab ! i)\<lparr>opm_ops := None, opm_drvs := map op_mode_stop (opm_drvs (tab ! i))\<rparr>]"
    using assms
  proof (induction tab arbitrary: i)
    case (Cons op tab)
    then show ?case by (cases i) (auto simp: image_iff dest: nth_mem)
  qed simp
  have "iwl_opmode_register start name ops tab = fail EIO tab \<and> iwl_opmode_deregister name tab = tab"
    if "name \<notin> opm_name ` set tab" for name
    using that by (induction tab) auto
  with reg dereg show ?thesis by (auto simp: op_mode_stop_def)
qed

theorem opmode_register_spec_witness:
  "iwl_opmode_register (\<lambda>(x :: nat). Some x) ''iwlmvm'' 7 iwlwifi_opmode_table =
     ok (iwlwifi_opmode_table[1 := \<lparr>opm_name = ''iwlmvm'', opm_ops = Some 7, opm_drvs = []\<rparr>])"
  using opmode_register_spec [of "iwlwifi_opmode_table :: (nat, nat) opmode_entry list" 1 Some 7]
  by (simp add: iwlwifi_opmode_table_def)

end
