(* ===== verification/Eeprom_Parse.thy ===== *)
theory Eeprom_Parse
  imports Iwl_Prelude
begin

section \<open>Parsing the EEPROM\<close>

text \<open>
  \<^verbatim>\<open>iwlwifi/iwl-eeprom-parse.c\<close> with the channel numbering of \<^verbatim>\<open>porting/net/wireless/util.c\<close>: indirect
  addresses, the regulatory bands, the channel map, HT40 flags, transmit power limits, the
  bands offered to the network stack and the HT capabilities.

  The EEPROM image is a list of bytes and a pointer into it an offset, \<open>None\<close> for NULL. The result
  structure comes from \<open>iwh_malloc\<close>, which does not clear it: what the block held before is an
  argument, so the fields the code never writes keep it. A signed 8-bit value is an integer in its range. The fields of the
  result that only the NVM parser sets (11ac, LAR, VHT160) are left out.
\<close>

subsection \<open>Channel numbers and frequencies\<close>

datatype nl80211_band = NL80211_BAND_2GHZ | NL80211_BAND_5GHZ | NL80211_BAND_60GHZ

definition ieee80211_channel_to_frequency :: "int \<Rightarrow> nl80211_band \<Rightarrow> int" where
  "ieee80211_channel_to_frequency chan band =
     (if chan \<le> 0 then 0
      else case band of
        NL80211_BAND_2GHZ \<Rightarrow> if chan = 14 then 2484 else if chan < 14 then 2407 + chan * 5 else 0
      | NL80211_BAND_5GHZ \<Rightarrow> if chan \<ge> 182 \<and> chan \<le> 196 then 4000 + chan * 5 else 5000 + chan * 5
      | NL80211_BAND_60GHZ \<Rightarrow> if chan < 5 then 56160 + chan * 2160 else 0)"

subsection \<open>Data\<close>

record ieee80211_channel =
  ch_band :: nl80211_band
  center_freq :: u16
  hw_value :: u16
  ch_flags :: u32
  max_power :: int

record ieee80211_sta_ht_cap =
  ht_cap :: u16
  ht_supported :: bool
  ampdu_factor :: u8
  ampdu_density :: u8
  rx_mask :: "u8 list"
  rx_highest :: u16
  tx_params :: u8

text \<open>A band: its channels are an index into the channel array and a count, its rates an offset and a count.\<close>

record ieee80211_supported_band =
  sb_band :: nl80211_band
  sb_channels :: nat
  sb_n_channels :: nat
  sb_rates :: nat
  sb_n_rates :: nat
  sb_ht_cap :: ieee80211_sta_ht_cap

record iwl_nvm_data =
  n_hw_addrs :: int
  hw_addr :: "u8 list"
  calib_version :: u8
  calib_voltage :: u16
  raw_temperature :: u16
  kelvin_temperature :: u16
  kelvin_voltage :: u16
  xtal_calib :: "u8 list"
  sku_cap_band_24GHz_enable :: bool
  sku_cap_band_52GHz_enable :: bool
  sku_cap_11n_enable :: bool
  sku_cap_amt_enable :: bool
  sku_cap_ipan_enable :: bool
  sku_cap_mimo_disabled :: bool
  radio_cfg_type :: u16
  radio_cfg_step :: u8
  radio_cfg_dash :: u8
  radio_cfg_pnum :: u8
  nvm_tx_ant :: u8
  nvm_rx_ant :: u8
  nvm_version :: u32
  max_tx_pwr_half_dbm :: int
  bands :: "nl80211_band \<Rightarrow> ieee80211_supported_band"
  num_channels :: u8
  channels :: "ieee80211_channel list"

record iwl_ht_params =
  ht_greenfield_support :: bool
  stbc :: bool
  ldpc :: bool
  ht40_bands :: u8

record eeprom_cfg =
  regulatory_bands :: "u8 list"
  enhanced_txpower :: bool
  cfg_tx_ant :: u8
  cfg_rx_ant :: u8
  rx_with_siso_diversity :: bool
  mq_rx_supported :: bool
  max_ht_ampdu_exponent :: u8
  ht_params :: "iwl_ht_params option"
  nvm_ver :: u16
  nvm_calib_ver :: u16

record mod_params =
  amsdu_size :: int
  disable_11n :: u32

subsection \<open>Addresses\<close>

abbreviation INDIRECT_ADDRESS :: u32 where "INDIRECT_ADDRESS \<equiv> 0x00100000"
abbreviation INDIRECT_REGULATORY :: u32 where "INDIRECT_REGULATORY \<equiv> 0x00030000"
abbreviation EEPROM_CALIB_ALL :: u32 where "EEPROM_CALIB_ALL \<equiv> 0x00140000"
abbreviation EEPROM_XTAL :: u32 where "EEPROM_XTAL \<equiv> 0x00140250"
abbreviation EEPROM_KELVIN_TEMPERATURE :: u32 where "EEPROM_KELVIN_TEMPERATURE \<equiv> 0x00140254"
abbreviation EEPROM_RAW_TEMPERATURE :: u32 where "EEPROM_RAW_TEMPERATURE \<equiv> 0x00140256"
abbreviation EEPROM_TXP_OFFS :: u32 where "EEPROM_TXP_OFFS \<equiv> 0x00170000"
abbreviation EEPROM_TXP_SZ_OFFS :: u32 where "EEPROM_TXP_SZ_OFFS \<equiv> 0x00180000"
abbreviation EEPROM_MAC_ADDRESS :: u32 where "EEPROM_MAC_ADDRESS \<equiv> 0x2A"
abbreviation EEPROM_NUM_MAC_ADDRESS :: nat where "EEPROM_NUM_MAC_ADDRESS \<equiv> 0x98"
abbreviation EEPROM_VERSION :: nat where "EEPROM_VERSION \<equiv> 0x88"
abbreviation EEPROM_SKU_CAP :: nat where "EEPROM_SKU_CAP \<equiv> 0x8A"
abbreviation EEPROM_RADIO_CONFIG :: nat where "EEPROM_RADIO_CONFIG \<equiv> 0x90"

definition iwl_eeprom_query16 :: "u8 list \<Rightarrow> nat \<Rightarrow> u16" where
  "iwl_eeprom_query16 eeprom offset =
     (if offset + 2 > length eeprom then 0 else le16 (eeprom ! offset) (eeprom ! (offset + 1)))"

definition link_offset :: "u32 \<Rightarrow> nat option" where
  "link_offset ty = map_of [(0x00010000, 0xC8), (0x00020000, 0xCA), (0x00030000, 0xCC), (0x00070000, 0xD4),
     (0x00080000, 0xD6), (0x00040000, 0xCE), (0x00050000, 0xD0), (0x00060000, 0xD2)] ty"

definition eeprom_indirect_address :: "u8 list \<Rightarrow> u32 \<Rightarrow> u32" where
  "eeprom_indirect_address eeprom address =
     (if address AND INDIRECT_ADDRESS = 0 then address
      else let offset = (case link_offset (address AND 0x000F0000) of
                 Some l \<Rightarrow> iwl_eeprom_query16 eeprom l | None \<Rightarrow> 0)
        in (address AND 0x0000FFFF) + push_bit 1 (ucast offset))"

definition iwl_eeprom_query_addr :: "u8 list \<Rightarrow> u32 \<Rightarrow> nat option" where
  "iwl_eeprom_query_addr eeprom offset =
     (let address = unat (eeprom_indirect_address eeprom offset) in
      if address \<ge> length eeprom then None else Some address)"

text \<open>Reads through a pointer into the image.\<close>

definition prd8 :: "u8 list \<Rightarrow> nat option \<Rightarrow> nat \<Rightarrow> u8 run" where
  "prd8 eeprom p k = (case p of None \<Rightarrow> Inl NullDeref | Some a \<Rightarrow> rd8 eeprom (a + k))"

definition prd16 :: "u8 list \<Rightarrow> nat option \<Rightarrow> nat \<Rightarrow> u16 run" where
  "prd16 eeprom p k = (case p of None \<Rightarrow> Inl NullDeref | Some a \<Rightarrow> rd16 eeprom (a + k))"

definition iwl_eeprom_read_calib :: "u8 list \<Rightarrow> iwl_nvm_data \<Rightarrow> iwl_nvm_data outcome" where
  "iwl_eeprom_read_calib eeprom d = (let hdr = iwl_eeprom_query_addr eeprom EEPROM_CALIB_ALL in
     if hdr = None then fail ENODATA d
     else bindF (prd8 eeprom hdr 0) (\<lambda>v. bindF (prd16 eeprom hdr 2) (\<lambda>vo.
       ok (d\<lparr>calib_version := v, calib_voltage := vo\<rparr>))))"

subsection \<open>Bands and channels\<close>

definition iwl_eeprom_band_1 :: "u8 list" where
  "iwl_eeprom_band_1 = [1, 2, 3, 4, 5, 6, 7, 8, 9, 10, 11, 12, 13, 14]"
definition iwl_eeprom_band_2 :: "u8 list" where
  "iwl_eeprom_band_2 = [183, 184, 185, 187, 188, 189, 192, 196, 7, 8, 11, 12, 16]"
definition iwl_eeprom_band_3 :: "u8 list" where
  "iwl_eeprom_band_3 = [34, 36, 38, 40, 42, 44, 46, 48, 52, 56, 60, 64]"
definition iwl_eeprom_band_4 :: "u8 list" where
  "iwl_eeprom_band_4 = [100, 104, 108, 112, 116, 120, 124, 128, 132, 136, 140]"
definition iwl_eeprom_band_5 :: "u8 list" where
  "iwl_eeprom_band_5 = [145, 149, 153, 157, 161, 165]"
definition iwl_eeprom_band_6 :: "u8 list" where
  "iwl_eeprom_band_6 = [1, 2, 3, 4, 5, 6, 7]"
definition iwl_eeprom_band_7 :: "u8 list" where
  "iwl_eeprom_band_7 = [36, 44, 52, 60, 100, 108, 116, 124, 132, 149, 157]"

definition IWL_NUM_CHANNELS :: nat where
  "IWL_NUM_CHANNELS = length iwl_eeprom_band_1 + length iwl_eeprom_band_2 + length iwl_eeprom_band_3 +
     length iwl_eeprom_band_4 + length iwl_eeprom_band_5"

definition band_array :: "nat \<Rightarrow> u8 list" where
  "band_array b = (if b = 1 then iwl_eeprom_band_1 else if b = 2 then iwl_eeprom_band_2
     else if b = 3 then iwl_eeprom_band_3 else if b = 4 then iwl_eeprom_band_4
     else if b = 5 then iwl_eeprom_band_5 else if b = 6 then iwl_eeprom_band_6
     else if b = 7 then iwl_eeprom_band_7 else [])"

text \<open>\<open>iwl_init_band_reference\<close>: the channel information in the image and the channel numbers of the band.\<close>

definition iwl_init_band_reference :: "eeprom_cfg \<Rightarrow> u8 list \<Rightarrow> nat \<Rightarrow> nat option \<times> u8 list" where
  "iwl_init_band_reference c eeprom b =
     (let offset = ucast (regulatory_bands c ! (b - 1)) OR (INDIRECT_ADDRESS OR INDIRECT_REGULATORY) in
      (iwl_eeprom_query_addr eeprom offset, band_array b))"

abbreviation EEPROM_CHANNEL_VALID :: u8 where "EEPROM_CHANNEL_VALID \<equiv> 1"
abbreviation EEPROM_CHANNEL_IBSS :: u8 where "EEPROM_CHANNEL_IBSS \<equiv> 2"
abbreviation EEPROM_CHANNEL_ACTIVE :: u8 where "EEPROM_CHANNEL_ACTIVE \<equiv> 8"
abbreviation EEPROM_CHANNEL_RADAR :: u8 where "EEPROM_CHANNEL_RADAR \<equiv> 16"

abbreviation IEEE80211_CHAN_NO_IR :: u32 where "IEEE80211_CHAN_NO_IR \<equiv> 0x2"
abbreviation IEEE80211_CHAN_RADAR :: u32 where "IEEE80211_CHAN_RADAR \<equiv> 0x8"
abbreviation IEEE80211_CHAN_NO_HT40PLUS :: u8 where "IEEE80211_CHAN_NO_HT40PLUS \<equiv> 0x10"
abbreviation IEEE80211_CHAN_NO_HT40MINUS :: u8 where "IEEE80211_CHAN_NO_HT40MINUS \<equiv> 0x20"
abbreviation IEEE80211_CHAN_NO_HT40 :: u32 where "IEEE80211_CHAN_NO_HT40 \<equiv> 0x30"

definition channel_flags :: "u8 \<Rightarrow> u32" where
  "channel_flags fl =
     (let f = IEEE80211_CHAN_NO_HT40;
          f = (if fl AND EEPROM_CHANNEL_IBSS = 0 then f OR IEEE80211_CHAN_NO_IR else f);
          f = (if fl AND EEPROM_CHANNEL_ACTIVE = 0 then f OR IEEE80211_CHAN_NO_IR else f);
          f = (if fl AND EEPROM_CHANNEL_RADAR \<noteq> 0 then f OR IEEE80211_CHAN_RADAR else f) in f)"

definition band_of :: "nat \<Rightarrow> nl80211_band" where
  "band_of b = (if b = 1 then NL80211_BAND_2GHZ else NL80211_BAND_5GHZ)"

text \<open>The fields the channel loop writes; the others of the array entry stay.\<close>

definition set_channel :: "nat \<Rightarrow> u8 \<Rightarrow> u8 \<Rightarrow> u8 \<Rightarrow> ieee80211_channel \<Rightarrow> ieee80211_channel" where
  "set_channel b num fl pwr ch = ch\<lparr>hw_value := ucast num, ch_band := band_of b,
     center_freq := word_of_int (ieee80211_channel_to_frequency (uint num) (band_of b)),
     ch_flags := channel_flags fl, max_power := sint pwr\<rparr>"

fun channel_loop ::
  "u8 list \<Rightarrow> nat \<Rightarrow> nat option \<Rightarrow> nat \<Rightarrow> u8 list \<Rightarrow> ieee80211_channel list \<times> nat \<Rightarrow> (ieee80211_channel list \<times> nat) run" where
  "channel_loop eeprom b info idx [] s = Inr s"
| "channel_loop eeprom b info idx (num # nums) (chs, n) =
     bindF (prd8 eeprom info (2 * idx)) (\<lambda>fl.
       if fl AND EEPROM_CHANNEL_VALID = 0 then channel_loop eeprom b info (idx + 1) nums (chs, n)
       else bindF (prd8 eeprom info (2 * idx + 1)) (\<lambda>pwr.
         if n < length chs
         then channel_loop eeprom b info (idx + 1) nums (chs[n := set_channel b num fl pwr (chs ! n)], n + 1)
         else Inl OutOfBounds))"

fun band_loop ::
  "eeprom_cfg \<Rightarrow> u8 list \<Rightarrow> nat list \<Rightarrow> ieee80211_channel list \<times> nat \<Rightarrow> (ieee80211_channel list \<times> nat) run" where
  "band_loop c eeprom [] s = Inr s"
| "band_loop c eeprom (b # bs) s =
     bindF (case iwl_init_band_reference c eeprom b of (info, nums) \<Rightarrow> channel_loop eeprom b info 0 nums s)
       (band_loop c eeprom bs)"

subsection \<open>Transmit power\<close>

abbreviation ANT_A :: u8 where "ANT_A \<equiv> 1"
abbreviation ANT_B :: u8 where "ANT_B \<equiv> 2"
abbreviation ANT_C :: u8 where "ANT_C \<equiv> 4"

definition s8_of :: "int \<Rightarrow> int" where
  "s8_of i = sint (word_of_int i :: u8)"

record iwl_eeprom_enhanced_txpwr =
  txp_flags :: u8
  txp_channel :: u8
  chain_a_max :: int
  chain_b_max :: int
  chain_c_max :: int
  delta_20_in_40 :: u8
  mimo2_max :: int
  mimo3_max :: int

definition iwl_get_max_txpwr_half_dbm :: "u8 \<Rightarrow> iwl_eeprom_enhanced_txpwr \<Rightarrow> int" where
  "iwl_get_max_txpwr_half_dbm tx_ant txp =
     (let result = 0;
          result = (if tx_ant AND ANT_A \<noteq> 0 \<and> chain_a_max txp > result then chain_a_max txp else result);
          result = (if tx_ant AND ANT_B \<noteq> 0 \<and> chain_b_max txp > result then chain_b_max txp else result);
          result = (if tx_ant AND ANT_C \<noteq> 0 \<and> chain_c_max txp > result then chain_c_max txp else result);
          result = (if (tx_ant = ANT_A OR ANT_B \<or> tx_ant = ANT_B OR ANT_C \<or> tx_ant = ANT_A OR ANT_C)
                       \<and> mimo2_max txp > result then mimo2_max txp else result);
          result = (if tx_ant = ANT_A OR ANT_B OR ANT_C \<and> mimo3_max txp > result then mimo3_max txp else result)
      in result)"

definition enh_txp_update :: "iwl_eeprom_enhanced_txpwr \<Rightarrow> int \<Rightarrow> ieee80211_channel \<Rightarrow> ieee80211_channel" where
  "enh_txp_update txp avg chan =
     (let band = (if txp_flags txp AND 2 \<noteq> 0 then NL80211_BAND_5GHZ else NL80211_BAND_2GHZ) in
      if txp_channel txp \<noteq> 0 \<and> hw_value chan \<noteq> ucast (txp_channel txp) then chan
      else if band \<noteq> ch_band chan then chan
      else if max_power chan < avg \<and> txp_flags txp AND 8 = 0 then chan\<lparr>max_power := avg\<rparr>
      else chan)"

text \<open>The loop over the first \<open>n\<close> channels.\<close>

definition iwl_eeprom_enh_txp_read_element ::
  "iwl_eeprom_enhanced_txpwr \<Rightarrow> nat \<Rightarrow> int \<Rightarrow> ieee80211_channel list \<Rightarrow> ieee80211_channel list" where
  "iwl_eeprom_enh_txp_read_element txp n avg chs = map (enh_txp_update txp avg) (take n chs) @ drop n chs"

definition read_txpwr :: "u8 list \<Rightarrow> nat option \<Rightarrow> nat \<Rightarrow> iwl_eeprom_enhanced_txpwr run" where
  "read_txpwr eeprom arr idx =
     bindF (prd8 eeprom arr (8 * idx + 1)) (\<lambda>ch. bindF (prd8 eeprom arr (8 * idx + 2)) (\<lambda>a.
     bindF (prd8 eeprom arr (8 * idx + 3)) (\<lambda>b. bindF (prd8 eeprom arr (8 * idx + 4)) (\<lambda>c.
     bindF (prd8 eeprom arr (8 * idx + 6)) (\<lambda>m2. bindF (prd8 eeprom arr (8 * idx + 7)) (\<lambda>m3.
     bindF (prd8 eeprom arr (8 * idx + 5)) (\<lambda>delta. bindF (prd8 eeprom arr (8 * idx)) (\<lambda>fl.
       Inr \<lparr>txp_flags = fl, txp_channel = ch, chain_a_max = sint a, chain_b_max = sint b, chain_c_max = sint c,
            delta_20_in_40 = delta, mimo2_max = sint m2, mimo3_max = sint m3\<rparr>))))))))"

definition txpwr_entry :: "nat \<Rightarrow> iwl_eeprom_enhanced_txpwr \<Rightarrow> iwl_nvm_data \<Rightarrow> iwl_nvm_data" where
  "txpwr_entry n txp d =
     (let half = iwl_get_max_txpwr_half_dbm (nvm_tx_ant d) txp;
          d = d\<lparr>channels := iwl_eeprom_enh_txp_read_element txp n (s8_of ((half + 1) div 2)) (channels d)\<rparr>
      in if half > max_tx_pwr_half_dbm d then d\<lparr>max_tx_pwr_half_dbm := half\<rparr> else d)"

fun txpwr_loop :: "u8 list \<Rightarrow> nat option \<Rightarrow> nat \<Rightarrow> nat list \<Rightarrow> iwl_nvm_data \<Rightarrow> iwl_nvm_data run" where
  "txpwr_loop eeprom arr n [] d = Inr d"
| "txpwr_loop eeprom arr n (idx # idxs) d =
     bindF (prd8 eeprom arr (8 * idx)) (\<lambda>fl.
       if fl AND 1 = 0 then txpwr_loop eeprom arr n idxs d
       else bindF (read_txpwr eeprom arr idx) (\<lambda>txp. txpwr_loop eeprom arr n idxs (txpwr_entry n txp d)))"

definition iwl_eeprom_enhanced_txpower :: "u8 list \<Rightarrow> nat \<Rightarrow> iwl_nvm_data \<Rightarrow> iwl_nvm_data run" where
  "iwl_eeprom_enhanced_txpower eeprom n d =
     bindF (prd16 eeprom (iwl_eeprom_query_addr eeprom EEPROM_TXP_SZ_OFFS) 0) (\<lambda>len.
       let entries = unat len * 2 div 8; arr = iwl_eeprom_query_addr eeprom EEPROM_TXP_OFFS
       in txpwr_loop eeprom arr n [0..<entries] d)"

fun max_power_loop :: "ieee80211_channel list \<Rightarrow> int \<Rightarrow> int" where
  "max_power_loop [] acc = acc"
| "max_power_loop (ch # chs) acc = max_power_loop chs (max acc (s8_of (max_power ch * 2)))"

subsection \<open>HT40 channels and the channel map\<close>

fun find_channel :: "nl80211_band \<Rightarrow> u16 \<Rightarrow> nat \<Rightarrow> ieee80211_channel list \<Rightarrow> nat option" where
  "find_channel band num i [] = None"
| "find_channel band num i (ch # chs) =
     (if ch_band ch \<noteq> band then find_channel band num (i + 1) chs
      else if hw_value ch \<noteq> num then find_channel band num (i + 1) chs
      else Some i)"

definition iwl_mod_ht40_chan_info ::
  "u8 list \<Rightarrow> nat option \<Rightarrow> nat \<Rightarrow> nat \<Rightarrow> nl80211_band \<Rightarrow> u16 \<Rightarrow> u8 \<Rightarrow> ieee80211_channel list
    \<Rightarrow> ieee80211_channel list run" where
  "iwl_mod_ht40_chan_info eeprom info idx n band channel clear chs =
     (case find_channel band channel 0 (take n chs) of
        None \<Rightarrow> Inr chs
      | Some i \<Rightarrow> bindF (prd8 eeprom info (2 * idx)) (\<lambda>fl.
          Inr (if fl AND EEPROM_CHANNEL_VALID \<noteq> 0
               then chs[i := (chs ! i)\<lparr>ch_flags := ch_flags (chs ! i) AND NOT (ucast clear)\<rparr>] else chs)))"

fun ht40_loop ::
  "u8 list \<Rightarrow> nat option \<Rightarrow> nat \<Rightarrow> nl80211_band \<Rightarrow> nat \<Rightarrow> u8 list \<Rightarrow> ieee80211_channel list
    \<Rightarrow> ieee80211_channel list run" where
  "ht40_loop eeprom info n band idx [] chs = Inr chs"
| "ht40_loop eeprom info n band idx (num # nums) chs =
     bindF (iwl_mod_ht40_chan_info eeprom info idx n band (ucast num) IEEE80211_CHAN_NO_HT40PLUS chs) (\<lambda>chs.
     bindF (iwl_mod_ht40_chan_info eeprom info idx n band (ucast num + 4) IEEE80211_CHAN_NO_HT40MINUS chs)
       (ht40_loop eeprom info n band (idx + 1) nums))"

fun ht40_bands_loop ::
  "eeprom_cfg \<Rightarrow> u8 list \<Rightarrow> nat \<Rightarrow> nat list \<Rightarrow> ieee80211_channel list \<Rightarrow> ieee80211_channel list run" where
  "ht40_bands_loop c eeprom n [] chs = Inr chs"
| "ht40_bands_loop c eeprom n (b # bs) chs =
     bindF (case iwl_init_band_reference c eeprom b of (info, nums) \<Rightarrow>
         ht40_loop eeprom info n (if b = 6 then NL80211_BAND_2GHZ else NL80211_BAND_5GHZ) 0 nums chs)
       (ht40_bands_loop c eeprom n bs)"

definition map_txpower :: "eeprom_cfg \<Rightarrow> u8 list \<Rightarrow> nat \<Rightarrow> iwl_nvm_data \<Rightarrow> iwl_nvm_data run" where
  "map_txpower c eeprom n d =
     (if enhanced_txpower c then iwl_eeprom_enhanced_txpower eeprom n d
      else Inr (d\<lparr>max_tx_pwr_half_dbm := max_power_loop (take n (channels d)) (- 128)\<rparr>))"

definition iwl_init_channel_map :: "eeprom_cfg \<Rightarrow> u8 list \<Rightarrow> iwl_nvm_data \<Rightarrow> (iwl_nvm_data \<times> nat) run" where
  "iwl_init_channel_map c eeprom d =
     bindF (band_loop c eeprom [1, 2, 3, 4, 5] (channels d, 0)) (\<lambda>(chs, n).
     bindF (map_txpower c eeprom n (d\<lparr>channels := chs\<rparr>)) (\<lambda>d.
       if regulatory_bands c ! 5 = 0 \<and> regulatory_bands c ! 6 = 0 then Inr (d, n)
       else bindF (ht40_bands_loop c eeprom n [6, 7] (channels d)) (\<lambda>chs. Inr (d\<lparr>channels := chs\<rparr>, n))))"

subsection \<open>Bands of the network stack\<close>

fun skip_while_band :: "bool \<Rightarrow> nl80211_band \<Rightarrow> nat \<Rightarrow> ieee80211_channel list \<Rightarrow> nat" where
  "skip_while_band same band idx [] = idx"
| "skip_while_band same band idx (ch # chs) =
     (if (ch_band ch = band) = same then skip_while_band same band (idx + 1) chs else idx)"

text \<open>The two loops of the function: to the first channel of the band, then to the end of its run.\<close>

definition iwl_init_sband_channels ::
  "ieee80211_channel list \<Rightarrow> nat \<Rightarrow> nl80211_band \<Rightarrow> ieee80211_supported_band \<Rightarrow> ieee80211_supported_band \<times> nat" where
  "iwl_init_sband_channels chs n_channels band sb =
     (let idx = skip_while_band False band 0 (take n_channels chs);
          stop = skip_while_band True band idx (drop idx (take n_channels chs)); n = stop - idx
      in (sb\<lparr>sb_channels := idx, sb_n_channels := n\<rparr>, n))"

definition hweight8 :: "u32 \<Rightarrow> u32" where
  "hweight8 w =
     (let res = w - (drop_bit 1 w AND 0x55);
          res = (res AND 0x33) + (drop_bit 2 res AND 0x33)
      in (res + drop_bit 4 res) AND 0x0F)"

abbreviation IWL_AMSDU_4K :: int where "IWL_AMSDU_4K \<equiv> 1"
abbreviation IWL_AMSDU_8K :: int where "IWL_AMSDU_8K \<equiv> 2"

definition nl80211_band_bit :: "nl80211_band \<Rightarrow> u8" where
  "nl80211_band_bit b = (case b of NL80211_BAND_2GHZ \<Rightarrow> 1 | NL80211_BAND_5GHZ \<Rightarrow> 2 | NL80211_BAND_60GHZ \<Rightarrow> 4)"

definition ht_cap_bits :: "mod_params \<Rightarrow> eeprom_cfg \<Rightarrow> iwl_ht_params \<Rightarrow> nl80211_band \<Rightarrow> u8 \<Rightarrow> u16" where
  "ht_cap_bits mp c ht band tx =
     (let cap = 0x1000;
          cap = (if stbc ht then let cap = cap OR 0x100 in if tx > 1 then cap OR 0x80 else cap else cap);
          cap = (if ldpc ht then cap OR 1 else cap);
          cap = (if mq_rx_supported c \<and> amsdu_size mp \<noteq> IWL_AMSDU_4K \<or> amsdu_size mp \<ge> IWL_AMSDU_8K
                 then cap OR 0x800 else cap);
          cap = (if ht_greenfield_support ht then cap OR 0x10 else cap);
          cap = cap OR 0x20
      in if ht40_bands ht AND nl80211_band_bit band \<noteq> 0 then cap OR 2 OR 0x40 else cap)"

definition ht_rx_mask :: "u8 \<Rightarrow> u8 list \<Rightarrow> u8 list" where
  "ht_rx_mask rx m =
     (let m = m[0 := 0xFF]; m = (if rx \<ge> 2 then m[1 := 0xFF] else m) in if rx \<ge> 3 then m[2 := 0xFF] else m)"

definition iwl_init_ht_hw_capab ::
  "mod_params \<Rightarrow> eeprom_cfg \<Rightarrow> iwl_nvm_data \<Rightarrow> nl80211_band \<Rightarrow> u8 \<Rightarrow> u8 \<Rightarrow> ieee80211_sta_ht_cap \<Rightarrow> ieee80211_sta_ht_cap" where
  "iwl_init_ht_hw_capab mp c d band tx_chains rx_chains h =
     (let tx = ucast (hweight8 (ucast tx_chains));
          rx = (if rx_with_siso_diversity c then 1 else ucast (hweight8 (ucast rx_chains)))
      in case (sku_cap_11n_enable d, ht_params c) of
        (True, Some ht) \<Rightarrow>
          let rx = (if sku_cap_mimo_disabled d then 1 else rx);
              rate = (if ht40_bands ht AND nl80211_band_bit band \<noteq> 0 then 150 else 72) * ucast rx
          in h\<lparr>ht_supported := True, ht_cap := ht_cap_bits mp c ht band tx,
               ampdu_factor := max_ht_ampdu_exponent c, ampdu_density := 5,
               rx_mask := ht_rx_mask rx (rx_mask h), rx_highest := rate,
               tx_params := (if tx \<noteq> rx then 1 OR 2 OR push_bit 2 (tx - 1) else 1)\<rparr>
      | _ \<Rightarrow> h\<lparr>ht_supported := False\<rparr>)"

definition init_sband ::
  "mod_params \<Rightarrow> eeprom_cfg \<Rightarrow> nat \<Rightarrow> nl80211_band \<Rightarrow> nat \<Rightarrow> nat \<Rightarrow> iwl_nvm_data \<Rightarrow> iwl_nvm_data \<times> nat" where
  "init_sband mp c n_channels band rates n_rates d =
     (let sb = (bands d band)\<lparr>sb_band := band, sb_rates := rates, sb_n_rates := n_rates\<rparr>;
          (sb, n) = iwl_init_sband_channels (channels d) n_channels band sb;
          sb = sb\<lparr>sb_ht_cap := iwl_init_ht_hw_capab mp c d band (nvm_tx_ant d) (nvm_rx_ant d) (sb_ht_cap sb)\<rparr>
      in (d\<lparr>bands := (bands d)(band := sb)\<rparr>, n))"

text \<open>\<open>iwl_init_sbands\<close>; the second result says whether the code reports channels it could not use.\<close>

definition iwl_init_sbands :: "mod_params \<Rightarrow> eeprom_cfg \<Rightarrow> u8 list \<Rightarrow> iwl_nvm_data \<Rightarrow> (iwl_nvm_data \<times> bool) run" where
  "iwl_init_sbands mp c eeprom d =
     bindF (iwl_init_channel_map c eeprom d) (\<lambda>(d, n_channels).
       let (d, n2) = init_sband mp c n_channels NL80211_BAND_2GHZ 0 12 d;
           (d, n5) = init_sband mp c n_channels NL80211_BAND_5GHZ 4 8 d
       in Inr (d, n_channels \<noteq> n2 + n5))"

subsection \<open>The whole image\<close>

definition parse_addresses :: "u8 list \<Rightarrow> iwl_nvm_data \<Rightarrow> iwl_nvm_data outcome" where
  "parse_addresses eeprom d =
     (case iwl_eeprom_query_addr eeprom EEPROM_MAC_ADDRESS of
        None \<Rightarrow> fail ENODATA d
      | Some a \<Rightarrow> bindF (rd_bytes eeprom a 6) (\<lambda>mac.
          ok (d\<lparr>hw_addr := mac, n_hw_addrs := uint (iwl_eeprom_query16 eeprom EEPROM_NUM_MAC_ADDRESS)\<rparr>)))"

definition parse_xtal :: "u8 list \<Rightarrow> iwl_nvm_data \<Rightarrow> iwl_nvm_data outcome" where
  "parse_xtal eeprom d =
     (case iwl_eeprom_query_addr eeprom EEPROM_XTAL of
        None \<Rightarrow> fail ENODATA d
      | Some a \<Rightarrow> bindF (rd_bytes eeprom a 4) (\<lambda>x. ok (d\<lparr>xtal_calib := x\<rparr>)))"

definition parse_temperatures :: "u8 list \<Rightarrow> iwl_nvm_data \<Rightarrow> iwl_nvm_data outcome" where
  "parse_temperatures eeprom d =
     (let raw = iwl_eeprom_query_addr eeprom EEPROM_RAW_TEMPERATURE in
      if raw = None then fail ENODATA d
      else bindF (prd16 eeprom raw 0) (\<lambda>r.
        let d = d\<lparr>raw_temperature := r\<rparr>; kelvin = iwl_eeprom_query_addr eeprom EEPROM_KELVIN_TEMPERATURE in
        if kelvin = None then fail ENODATA d
        else bindF (prd16 eeprom kelvin 0) (\<lambda>k. bindF (prd16 eeprom kelvin 2) (\<lambda>v.
          ok (d\<lparr>kelvin_temperature := k, kelvin_voltage := v\<rparr>)))))"

definition parse_radio :: "mod_params \<Rightarrow> u8 list \<Rightarrow> iwl_nvm_data \<Rightarrow> iwl_nvm_data" where
  "parse_radio mp eeprom d =
     (let r = iwl_eeprom_query16 eeprom EEPROM_RADIO_CONFIG; sku = iwl_eeprom_query16 eeprom EEPROM_SKU_CAP
      in d\<lparr>radio_cfg_dash := ucast (drop_bit 4 r AND 3), radio_cfg_pnum := ucast (drop_bit 6 r AND 3),
           radio_cfg_step := ucast (drop_bit 2 r AND 3), radio_cfg_type := r AND 3,
           nvm_rx_ant := ucast (drop_bit 12 r AND 0xF), nvm_tx_ant := ucast (drop_bit 8 r AND 0xF),
           sku_cap_11n_enable := (if disable_11n mp AND 1 \<noteq> 0 then False else sku AND 0x40 \<noteq> 0),
           sku_cap_amt_enable := sku AND 0x80 \<noteq> 0,
           sku_cap_band_24GHz_enable := sku AND 0x10 \<noteq> 0, sku_cap_band_52GHz_enable := sku AND 0x20 \<noteq> 0,
           sku_cap_ipan_enable := sku AND 0x100 \<noteq> 0,
           nvm_version := ucast (iwl_eeprom_query16 eeprom EEPROM_VERSION)\<rparr>)"

definition antenna_overrides :: "eeprom_cfg \<Rightarrow> iwl_nvm_data \<Rightarrow> iwl_nvm_data" where
  "antenna_overrides c d =
     (let d = (if cfg_tx_ant c \<noteq> 0 then d\<lparr>nvm_tx_ant := cfg_tx_ant c\<rparr> else d)
      in if cfg_rx_ant c \<noteq> 0 then d\<lparr>nvm_rx_ant := cfg_rx_ant c\<rparr> else d)"

text \<open>
  The function returns NULL on every error exit, \<open>None\<close> here (\<open>fail\<close> of a part becomes \<open>None\<close>: its
  error code is dropped). The block of memory comes as the parts \<open>junk\<close> of the allocator's answer, or
  \<open>None\<close> when it refuses. The first argument is \<open>None\<close> when the device has no EEPROM parameters.
\<close>

definition iwl_parse_eeprom_data ::
  "eeprom_cfg option \<Rightarrow> mod_params \<Rightarrow> iwl_nvm_data option \<Rightarrow> u8 list \<Rightarrow> iwl_nvm_data option run" where
  "iwl_parse_eeprom_data cfg mp mem eeprom =
     (case cfg of None \<Rightarrow> Inr None | Some c \<Rightarrow>
      case mem of None \<Rightarrow> Inr None | Some junk \<Rightarrow>
        bindF (thenS (thenS (thenS (parse_addresses eeprom (junk\<lparr>num_channels := of_nat IWL_NUM_CHANNELS\<rparr>))
                 (iwl_eeprom_read_calib eeprom)) (parse_xtal eeprom)) (parse_temperatures eeprom))
          (\<lambda>(r, d). if r \<noteq> None then Inr None
            else let d = antenna_overrides c (parse_radio mp eeprom d) in
              if nvm_tx_ant d = 0 \<or> nvm_rx_ant d = 0 then Inr None
              else bindF (iwl_init_sbands mp c eeprom d) (\<lambda>(d, _). Inr (Some d))))"

definition iwl_nvm_check_version :: "eeprom_cfg \<Rightarrow> iwl_nvm_data \<Rightarrow> errno option" where
  "iwl_nvm_check_version c d =
     (if nvm_version d \<ge> ucast (nvm_ver c) \<or> (ucast (calib_version d) :: u16) \<ge> nvm_calib_ver c
      then None else Some EINVAL)"

end
