(* ===== verification/Eeprom_Channels.thy ===== *)
theory Eeprom_Channels
  imports Eeprom_Parse
begin

section \<open>What the EEPROM parser computes\<close>

text \<open>
  The channel map against the bands of the image: which channels the two bands of the network
  stack offer, which of them allow HT40, that the channel array is large enough, the frequencies
  of the channel tables, the transmit power of an entry, and the fields of the result that keep
  what the allocated block held before.
\<close>

subsection \<open>Specification\<close>

text \<open>The flags of the entries of a band in the image, and the entries that are valid.\<close>

definition entry_flags :: "u8 list \<Rightarrow> nat \<Rightarrow> nat \<Rightarrow> u8" where
  "entry_flags eeprom a k = eeprom ! (a + 2 * k)"

fun valid_entries :: "u8 list \<Rightarrow> nat \<Rightarrow> nat \<Rightarrow> u8 list \<Rightarrow> (u8 \<times> u8 \<times> u8) list" where
  "valid_entries eeprom a k [] = []"
| "valid_entries eeprom a k (num # nums) =
     (if bit (entry_flags eeprom a k) 0 then [(num, entry_flags eeprom a k, eeprom ! (a + 2 * k + 1))] else [])
       @ valid_entries eeprom a (k + 1) nums"

definition band_entries :: "eeprom_cfg \<Rightarrow> u8 list \<Rightarrow> nat \<Rightarrow> (u8 \<times> u8 \<times> u8) list" where
  "band_entries c eeprom b =
     (case iwl_init_band_reference c eeprom b of (Some a, nums) \<Rightarrow> valid_entries eeprom a 0 nums | _ \<Rightarrow> [])"

definition new_channel :: "nat \<Rightarrow> u8 \<times> u8 \<times> u8 \<Rightarrow> ieee80211_channel" where
  "new_channel b e = (case e of (num, fl, pwr) \<Rightarrow>
     \<lparr>ch_band = band_of b, center_freq = word_of_int (ieee80211_channel_to_frequency (uint num) (band_of b)),
      hw_value = ucast num, ch_flags = channel_flags fl, max_power = sint pwr\<rparr>)"

definition spec_channels :: "eeprom_cfg \<Rightarrow> u8 list \<Rightarrow> nat list \<Rightarrow> ieee80211_channel list" where
  "spec_channels c eeprom bs = concat (map (\<lambda>b. map (new_channel b) (band_entries c eeprom b)) bs)"

subsection \<open>The channel loops\<close>

lemma and_1_bit0: "(w AND 1 = 0) \<longleftrightarrow> \<not> bit w 0" for w :: "'a::len word"
  by (simp add: and_one_eq mod_2_eq_odd bit_0 odd_iff_mod_2_eq_one[symmetric])

lemma set_channel_new: "set_channel b num fl pwr ch = new_channel b (num, fl, pwr)"
  by (simp add: set_channel_def new_channel_def)

lemma prd8_Some: "prd8 eeprom (Some a) k = rd8 eeprom (a + k)"
  by (simp add: prd8_def)

lemma prd8_Inr: "prd8 eeprom p k = Inr v \<longleftrightarrow> (\<exists>a. p = Some a \<and> a + k < length eeprom \<and> v = eeprom ! (a + k))"
  by (auto simp: prd8_def rd8_Inr_iff split: option.splits)

lemma channel_loop_result:
  assumes "channel_loop eeprom b (Some a) k nums (chs, n) = Inr (chs', n')" and "n \<le> length chs"
  shows "n' = n + length (valid_entries eeprom a k nums) \<and> n' \<le> length chs \<and> length chs' = length chs
     \<and> take n' chs' = take n chs @ map (new_channel b) (valid_entries eeprom a k nums)"
  using assms
proof (induction nums arbitrary: k chs n)
  case (Cons num nums)
  show ?case
  proof (cases "bit (eeprom ! (a + 2 * k)) 0")
    case True
    with Cons.prems have n: "n < length chs" and
      step: "channel_loop eeprom b (Some a) (k + 1) nums
        (chs[n := new_channel b (num, eeprom ! (a + 2 * k), eeprom ! (a + 2 * k + 1))], n + 1) = Inr (chs', n')"
      by (auto simp: run_simps prd8_Inr and_1_bit0 set_channel_new split: if_splits)
    from Cons.IH[OF step] n True show ?thesis
      by (auto simp: entry_flags_def take_Suc_conv_app_nth)
  next
    case False
    with Cons.prems have "channel_loop eeprom b (Some a) (k + 1) nums (chs, n) = Inr (chs', n')"
      by (auto simp: run_simps prd8_Inr and_1_bit0 split: if_splits)
    from Cons.IH[OF this Cons.prems(2)] False show ?thesis
      by (auto simp: entry_flags_def)
  qed
qed simp

lemma channel_loop_NULL: "nums \<noteq> [] \<Longrightarrow> channel_loop eeprom b None k nums s = Inl NullDeref"
  by (cases nums; cases s) (simp_all add: prd8_def)

lemma channel_loop_total:
  assumes "a + 2 * (k + length nums) \<le> length eeprom" and "n + length nums \<le> length chs"
  shows "\<exists>s'. channel_loop eeprom b (Some a) k nums (chs, n) = Inr s'"
  using assms
proof (induction nums arbitrary: k chs n)
  case (Cons num nums)
  then have b: "a + 2 * k + 1 < length eeprom" and n: "n < length chs" by auto
  show ?case
  proof (cases "bit (eeprom ! (a + 2 * k)) 0")
    case True
    have "\<exists>s'. channel_loop eeprom b (Some a) (k + 1) nums
      (chs[n := new_channel b (num, eeprom ! (a + 2 * k), eeprom ! Suc (a + 2 * k))], Suc n) = Inr s'"
      by (rule Cons.IH) (use Cons.prems in auto)
    then show ?thesis using True b n by (simp add: prd8_def rd8_def and_1_bit0 set_channel_new)
  next
    case False
    have "\<exists>s'. channel_loop eeprom b (Some a) (k + 1) nums (chs, n) = Inr s'"
      by (rule Cons.IH) (use Cons.prems in auto)
    then show ?thesis using False b by (simp add: prd8_def rd8_def and_1_bit0)
  qed
qed simp

lemma band_array_nonempty: "1 \<le> b \<Longrightarrow> b \<le> 7 \<Longrightarrow> band_array b \<noteq> []"
  by (auto simp: band_array_def iwl_eeprom_band_1_def iwl_eeprom_band_2_def iwl_eeprom_band_3_def
    iwl_eeprom_band_4_def iwl_eeprom_band_5_def iwl_eeprom_band_6_def iwl_eeprom_band_7_def)

lemma snd_band_reference [simp]: "snd (iwl_init_band_reference c eeprom b) = band_array b"
  by (simp add: iwl_init_band_reference_def Let_def)

lemma band_loop_result:
  assumes "band_loop c eeprom bs (chs, n) = Inr (chs', n')" and "n \<le> length chs"
    and "\<forall>b\<in>set bs. 1 \<le> b \<and> b \<le> 5"
  shows "n' = n + length (spec_channels c eeprom bs) \<and> n' \<le> length chs \<and> length chs' = length chs
     \<and> take n' chs' = take n chs @ spec_channels c eeprom bs"
  using assms
proof (induction bs arbitrary: chs n)
  case (Cons b bs)
  obtain info nums where r: "iwl_init_band_reference c eeprom b = (info, nums)" by fastforce
  with snd_band_reference[of c eeprom b] Cons.prems(3) band_array_nonempty[of b] have ne: "nums \<noteq> []" by auto
  from Cons.prems(1) r obtain chs1 n1 where
    l: "channel_loop eeprom b info 0 nums (chs, n) = Inr (chs1, n1)" and
    rest: "band_loop c eeprom bs (chs1, n1) = Inr (chs', n')" by (auto simp: run_simps)
  from l ne obtain a where a: "info = Some a" by (cases info) (simp_all add: channel_loop_NULL)
  have e: "band_entries c eeprom b = valid_entries eeprom a 0 nums" by (simp add: band_entries_def r a)
  from channel_loop_result[OF l[unfolded a] Cons.prems(2)]
  have 1: "n1 = n + length (band_entries c eeprom b)" "n1 \<le> length chs" "length chs1 = length chs"
    "take n1 chs1 = take n chs @ map (new_channel b) (band_entries c eeprom b)" unfolding e by auto
  from Cons.IH[OF rest] 1 Cons.prems(3) show ?case
    by (auto simp: spec_channels_def)
qed (simp add: spec_channels_def)

lemma band_loop_total:
  assumes "\<forall>b\<in>set bs. \<exists>a. fst (iwl_init_band_reference c eeprom b) = Some a
      \<and> a + 2 * length (band_array b) \<le> length eeprom"
    and "n + (\<Sum>b\<leftarrow>bs. length (band_array b)) \<le> length chs"
  shows "\<exists>s'. band_loop c eeprom bs (chs, n) = Inr s'"
  using assms
proof (induction bs arbitrary: chs n)
  case (Cons b bs)
  from Cons.prems(1) obtain a where r: "iwl_init_band_reference c eeprom b = (Some a, band_array b)"
    and a: "a + 2 * length (band_array b) \<le> length eeprom"
    by (metis list.set_intros(1) prod.collapse snd_band_reference)
  obtain chs1 n1 where l: "channel_loop eeprom b (Some a) 0 (band_array b) (chs, n) = Inr (chs1, n1)"
    using channel_loop_total[of a 0 "band_array b" eeprom n chs b] a Cons.prems(2) by auto
  from channel_loop_result[OF l] Cons.prems(2)
  have 1: "length chs1 = length chs" "n1 = n + length (valid_entries eeprom a 0 (band_array b))" by simp_all
  have "length (valid_entries eeprom a k nums) \<le> length nums" for k nums
    by (induction nums arbitrary: k) (simp_all add: le_SucI)
  from this[of 0 "band_array b"] 1 Cons.prems(2)
  have "n1 + (\<Sum>b\<leftarrow>bs. length (band_array b)) \<le> length chs1" by simp
  with Cons.IH Cons.prems(1) have "\<exists>s'. band_loop c eeprom bs (chs1, n1) = Inr s'" by simp
  with r l show ?case by simp
qed simp

subsection \<open>What later steps keep\<close>

text \<open>Everything about a channel but its power limit.\<close>

definition but_power :: "ieee80211_channel \<Rightarrow> nl80211_band \<times> u16 \<times> u16 \<times> u32" where
  "but_power ch = (ch_band ch, center_freq ch, hw_value ch, ch_flags ch)"

definition chan_id :: "ieee80211_channel \<Rightarrow> nl80211_band \<times> u16 \<times> u16" where
  "chan_id ch = (ch_band ch, center_freq ch, hw_value ch)"

lemma but_power_update [simp]: "but_power (enh_txp_update txp avg ch) = but_power ch"
  by (simp add: enh_txp_update_def but_power_def Let_def)

lemma but_power_read_element [simp]:
  "map but_power (iwl_eeprom_enh_txp_read_element txp n avg chs) = map but_power chs"
  by (simp add: iwl_eeprom_enh_txp_read_element_def comp_def) (metis append_take_drop_id map_append)

text \<open>Transmit power entries change the power limits and nothing else.\<close>

definition txp_frame :: "iwl_nvm_data \<Rightarrow> iwl_nvm_data \<Rightarrow> bool" where
  "txp_frame d d' \<longleftrightarrow> map but_power (channels d') = map but_power (channels d)
     \<and> d' = d\<lparr>channels := channels d', max_tx_pwr_half_dbm := max_tx_pwr_half_dbm d'\<rparr>"

lemma txp_frame_refl: "txp_frame d d"
  by (simp add: txp_frame_def)

lemma txp_frame_trans: "txp_frame a b \<Longrightarrow> txp_frame b c \<Longrightarrow> txp_frame a c"
  unfolding txp_frame_def by (cases a; cases b; cases c) simp

lemma txp_frame_entry: "txp_frame d (txpwr_entry n txp d)"
  by (simp add: txp_frame_def txpwr_entry_def Let_def)

lemma txpwr_entry_grows: "max_tx_pwr_half_dbm d \<le> max_tx_pwr_half_dbm (txpwr_entry n txp d)"
  by (simp add: txpwr_entry_def Let_def)

lemma txpwr_loop_frame:
  "txpwr_loop eeprom arr n idxs d = Inr d' \<Longrightarrow>
     txp_frame d d' \<and> max_tx_pwr_half_dbm d \<le> max_tx_pwr_half_dbm d'"
proof (induction idxs arbitrary: d)
  case (Cons idx idxs)
  from Cons.prems consider "txpwr_loop eeprom arr n idxs d = Inr d'"
    | txp where "txpwr_loop eeprom arr n idxs (txpwr_entry n txp d) = Inr d'"
    by (auto simp: run_simps split: if_splits)
  then show ?case
  proof cases
    case 1
    then show ?thesis by (rule Cons.IH)
  next
    case 2
    from Cons.IH[OF 2] show ?thesis
      using txp_frame_trans[OF txp_frame_entry] txpwr_entry_grows order_trans by blast
  qed
qed (simp add: txp_frame_refl)

lemma map_txpower_frame: "map_txpower c eeprom n d = Inr d' \<Longrightarrow> txp_frame d d'"
  unfolding map_txpower_def iwl_eeprom_enhanced_txpower_def
  by (auto simp: run_simps Let_def txp_frame_def dest!: txpwr_loop_frame split: if_splits)

lemma map_txpower_grows:
  "map_txpower c eeprom n d = Inr d' \<Longrightarrow> enhanced_txpower c \<Longrightarrow>
     max_tx_pwr_half_dbm d \<le> max_tx_pwr_half_dbm d'"
  unfolding map_txpower_def iwl_eeprom_enhanced_txpower_def
  by (auto simp: run_simps Let_def dest!: txpwr_loop_frame)

subsection \<open>HT40\<close>

definition key :: "ieee80211_channel \<Rightarrow> nl80211_band \<times> u16" where
  "key ch = (ch_band ch, hw_value ch)"

lemma find_channel_None:
  "find_channel band num i chs = None \<longleftrightarrow> (band, num) \<notin> key ` set chs"
  by (induction chs arbitrary: i) (auto simp: key_def)

lemma find_channel_Some:
  "find_channel band num i chs = Some j \<Longrightarrow> i \<le> j \<and> j < i + length chs \<and> key (chs ! (j - i)) = (band, num)"
proof (induction chs arbitrary: i)
  case (Cons ch chs)
  show ?case
  proof (cases "key ch = (band, num)")
    case True
    with Cons.prems show ?thesis by (auto simp: key_def)
  next
    case False
    with Cons.prems have "find_channel band num (i + 1) chs = Some j" by (auto simp: key_def split: if_splits)
    from Cons.IH[OF this] show ?thesis by (auto simp: nth_Cons' Suc_diff_le)
  qed
qed simp

text \<open>
  An entry of an HT40 band acts on the one channel with its band and number. The effect of a
  sequence of entries: on each of the first \<open>n\<close> channels bit 4 (no HT40+) is cleared where \<open>P\<close>
  holds, bit 5 (no HT40-) where \<open>M\<close> holds, and nothing else changes.
\<close>

definition ht40_effect ::
  "nat \<Rightarrow> (nl80211_band \<times> u16 \<Rightarrow> bool) \<Rightarrow> (nl80211_band \<times> u16 \<Rightarrow> bool)
     \<Rightarrow> ieee80211_channel list \<Rightarrow> ieee80211_channel list \<Rightarrow> bool" where
  "ht40_effect n P M chs chs' \<longleftrightarrow> length chs' = length chs \<and> drop n chs' = drop n chs \<and> (\<forall>i<n.
     chan_id (chs' ! i) = chan_id (chs ! i) \<and> max_power (chs' ! i) = max_power (chs ! i)
     \<and> (\<forall>m. bit (ch_flags (chs' ! i)) m = (bit (ch_flags (chs ! i)) m
          \<and> \<not> (m = 4 \<and> P (key (chs ! i))) \<and> \<not> (m = 5 \<and> M (key (chs ! i))))))"

lemma key_chan_id: "chan_id ch' = chan_id ch \<Longrightarrow> key ch' = key ch"
  by (simp add: key_def chan_id_def)

lemma ht40_effect_refl: "ht40_effect n (\<lambda>_. False) (\<lambda>_. False) chs chs"
  by (simp add: ht40_effect_def)

lemma ht40_effect_trans:
  assumes "ht40_effect n P M a b" and "ht40_effect n P' M' b c"
  shows "ht40_effect n (\<lambda>k. P k \<or> P' k) (\<lambda>k. M k \<or> M' k) a c"
proof -
  from assms(1) have "\<forall>i<n. key (b ! i) = key (a ! i)" by (auto simp: ht40_effect_def intro: key_chan_id)
  with assms show ?thesis by (auto simp: ht40_effect_def)
qed

lemma ht40_effect_keys:
  assumes "ht40_effect n P M chs chs'" and "n \<le> length chs"
  shows "map key (take n chs') = map key (take n chs)"
  using assms by (intro nth_equalityI) (auto simp: ht40_effect_def intro: key_chan_id)

definition valid_at :: "u8 list \<Rightarrow> nat option \<Rightarrow> nat \<Rightarrow> bool" where
  "valid_at eeprom info k \<longleftrightarrow> (\<exists>a. info = Some a \<and> bit (entry_flags eeprom a k) 0)"

lemma mod_ht40_result:
  assumes "iwl_mod_ht40_chan_info eeprom info k n band num clear chs = Inr chs'"
    and "n \<le> length chs" and "distinct (map key (take n chs))"
  shows "length chs' = length chs \<and> drop n chs' = drop n chs \<and> (\<forall>i<n. chs' ! i =
     (if key (chs ! i) = (band, num) \<and> valid_at eeprom info k
      then (chs ! i)\<lparr>ch_flags := ch_flags (chs ! i) AND NOT (ucast clear)\<rparr> else chs ! i))"
proof (cases "find_channel band num 0 (take n chs)")
  case None
  then have "\<forall>i<n. key (chs ! i) \<noteq> (band, num)"
    using assms(2) by (metis find_channel_None imageI length_take min.absorb2 nth_mem nth_take)
  with None assms(1) show ?thesis by (auto simp: iwl_mod_ht40_chan_info_def)
next
  case (Some j)
  from find_channel_Some[OF this] assms(2) have j: "j < n" "key (chs ! j) = (band, num)" by auto
  have u: "\<forall>i<n. key (chs ! i) = (band, num) \<longrightarrow> i = j"
    using assms(2,3) j by (simp add: distinct_conv_nth) metis
  from Some assms(1) obtain a where a: "info = Some a" and
    c': "chs' = (if bit (entry_flags eeprom a k) 0
       then chs[j := (chs ! j)\<lparr>ch_flags := ch_flags (chs ! j) AND NOT (ucast clear)\<rparr>] else chs)"
    by (auto simp: iwl_mod_ht40_chan_info_def run_simps prd8_Inr entry_flags_def and_1_bit0)
  show ?thesis
  proof (cases "bit (entry_flags eeprom a k) 0")
    case True
    define g where "g = (\<lambda>ch::ieee80211_channel. ch\<lparr>ch_flags := ch_flags ch AND NOT (ucast clear)\<rparr>)"
    from c' True have c'': "chs' = chs[j := g (chs ! j)]" by (simp only: g_def if_True)
    have "chs' ! i = (if key (chs ! i) = (band, num) then g (chs ! i) else chs ! i)" if "i < n" for i
    proof (cases "i = j")
      case True
      then show ?thesis using j assms(2) by (simp add: c'')
    next
      case False
      then have "key (chs ! i) \<noteq> (band, num)" using u that by blast
      with False show ?thesis by (simp add: c'')
    qed
    moreover have "length chs' = length chs" "drop n chs' = drop n chs" using j by (simp_all add: c'')
    moreover have "valid_at eeprom info k" using True a by (simp add: valid_at_def)
    ultimately show ?thesis unfolding g_def by metis
  next
    case False
    with a show ?thesis by (simp add: c' valid_at_def)
  qed
qed

lemma bit_clear: "bit (f AND NOT (2 ^ k)) m = (bit f m \<and> m \<noteq> k)" for f :: u32
  using bit_imp_le_length[of f m] by (auto simp: bit_simps)

lemma bit_clear_plus: "bit (f AND NOT (ucast IEEE80211_CHAN_NO_HT40PLUS)) m = (bit f m \<and> m \<noteq> 4)" for f :: u32
  using bit_clear[of f 4 m] by simp

lemma bit_clear_minus: "bit (f AND NOT (ucast IEEE80211_CHAN_NO_HT40MINUS)) m = (bit f m \<and> m \<noteq> 5)" for f :: u32
  using bit_clear[of f 5 m] by simp

lemma mod_ht40_plus:
  assumes "iwl_mod_ht40_chan_info eeprom info k n band num IEEE80211_CHAN_NO_HT40PLUS chs = Inr chs'"
    and "n \<le> length chs" and "distinct (map key (take n chs))"
  shows "ht40_effect n (\<lambda>q. q = (band, num) \<and> valid_at eeprom info k) (\<lambda>_. False) chs chs'"
  using mod_ht40_result[OF assms]
  by (simp add: ht40_effect_def chan_id_def bit_clear_plus[simplified])

lemma mod_ht40_minus:
  assumes "iwl_mod_ht40_chan_info eeprom info k n band num IEEE80211_CHAN_NO_HT40MINUS chs = Inr chs'"
    and "n \<le> length chs" and "distinct (map key (take n chs))"
  shows "ht40_effect n (\<lambda>_. False) (\<lambda>q. q = (band, num) \<and> valid_at eeprom info k) chs chs'"
  using mod_ht40_result[OF assms]
  by (simp add: ht40_effect_def chan_id_def bit_clear_minus[simplified])

text \<open>The HT40 channels a band of the image opens: \<open>off\<close> is 0 for HT40+ and 4 for HT40-.\<close>

definition opens :: "u8 list \<Rightarrow> nat option \<Rightarrow> nl80211_band \<Rightarrow> nat \<Rightarrow> u8 list \<Rightarrow> u16 \<Rightarrow> nl80211_band \<times> u16 \<Rightarrow> bool" where
  "opens eeprom info band k nums off q \<longleftrightarrow>
     (\<exists>j<length nums. q = (band, ucast (nums ! j) + off) \<and> valid_at eeprom info (k + j))"

lemma opens_Cons:
  "opens eeprom info band k (num # nums) off q \<longleftrightarrow>
     q = (band, ucast num + off) \<and> valid_at eeprom info k \<or> opens eeprom info band (k + 1) nums off q"
  by (simp add: opens_def Ex_less_Suc2)

lemma ht40_loop_effect:
  assumes "ht40_loop eeprom info n band k nums chs = Inr chs'"
    and "n \<le> length chs" and "distinct (map key (take n chs))"
  shows "ht40_effect n (opens eeprom info band k nums 0) (opens eeprom info band k nums 4) chs chs'"
  using assms
proof (induction nums arbitrary: k chs)
  case Nil
  then show ?case using ht40_effect_refl[of n chs] by (simp add: opens_def)
next
  case (Cons num nums)
  from Cons.prems(1) obtain c1 c2 where
    1: "iwl_mod_ht40_chan_info eeprom info k n band (ucast num) IEEE80211_CHAN_NO_HT40PLUS chs = Inr c1" and
    2: "iwl_mod_ht40_chan_info eeprom info k n band (ucast num + 4) IEEE80211_CHAN_NO_HT40MINUS c1 = Inr c2" and
    3: "ht40_loop eeprom info n band (k + 1) nums c2 = Inr chs'"
    by (auto simp: run_simps)
  note e1 = mod_ht40_plus[OF 1 Cons.prems(2,3)]
  have l1: "n \<le> length c1" "distinct (map key (take n c1))"
    using e1 ht40_effect_keys[OF e1] Cons.prems by (simp_all add: ht40_effect_def)
  note e2 = mod_ht40_minus[OF 2 l1]
  have l2: "n \<le> length c2" "distinct (map key (take n c2))"
    using e2 ht40_effect_keys[OF e2] l1 by (simp_all add: ht40_effect_def)
  from ht40_effect_trans[OF ht40_effect_trans[OF e1 e2] Cons.IH[OF 3 l2]]
  show ?case by (simp add: opens_Cons[abs_def])
qed

text \<open>\<open>ht40_of c eeprom off q\<close>: an entry of band 6 or 7 opens channel \<open>q\<close> for HT40+ (0) or HT40- (4).\<close>

definition ht40_of :: "eeprom_cfg \<Rightarrow> u8 list \<Rightarrow> u16 \<Rightarrow> nl80211_band \<times> u16 \<Rightarrow> bool" where
  "ht40_of c eeprom off q \<longleftrightarrow>
     (\<exists>b\<in>{6, 7}. opens eeprom (fst (iwl_init_band_reference c eeprom b))
        (if b = 6 then NL80211_BAND_2GHZ else NL80211_BAND_5GHZ) 0 (band_array b) off q)"

lemma ht40_bands_effect:
  assumes "ht40_bands_loop c eeprom n [6, 7] chs = Inr chs'"
    and "n \<le> length chs" and "distinct (map key (take n chs))"
  shows "ht40_effect n (ht40_of c eeprom 0) (ht40_of c eeprom 4) chs chs'"
proof -
  let ?info = "\<lambda>b. fst (iwl_init_band_reference c eeprom b)"
  from assms(1) obtain c1 where
    1: "ht40_loop eeprom (?info 6) n NL80211_BAND_2GHZ 0 (band_array 6) chs = Inr c1" and
    2: "ht40_loop eeprom (?info 7) n NL80211_BAND_5GHZ 0 (band_array 7) c1 = Inr chs'"
    by (auto simp: run_simps case_prod_beta)
  note e1 = ht40_loop_effect[OF 1 assms(2,3)]
  have "n \<le> length c1" "distinct (map key (take n c1))"
    using e1 ht40_effect_keys[OF e1] assms by (simp_all add: ht40_effect_def)
  from ht40_effect_trans[OF e1 ht40_loop_effect[OF 2 this]]
  show ?thesis by (simp add: ht40_of_def[abs_def])
qed

subsection \<open>No channel is there twice\<close>

lemma valid_entries_subset: "fst ` set (valid_entries eeprom a k nums) \<subseteq> set nums"
  by (induction nums arbitrary: k) auto

lemma valid_entries_distinct: "distinct nums \<Longrightarrow> distinct (map fst (valid_entries eeprom a k nums))"
  using valid_entries_subset by (induction nums arbitrary: k) fastforce+

lemma band_entries_subset: "fst ` set (band_entries c eeprom b) \<subseteq> set (band_array b)"
  by (cases "fst (iwl_init_band_reference c eeprom b)")
    (simp_all add: band_entries_def case_prod_beta valid_entries_subset)

lemma band_entries_distinct: "distinct (band_array b) \<Longrightarrow> distinct (map fst (band_entries c eeprom b))"
  by (cases "fst (iwl_init_band_reference c eeprom b)")
    (simp_all add: band_entries_def case_prod_beta valid_entries_distinct)

lemmas band_tables = iwl_eeprom_band_1_def iwl_eeprom_band_2_def iwl_eeprom_band_3_def
  iwl_eeprom_band_4_def iwl_eeprom_band_5_def

lemma key_new_channel: "key (new_channel b e) = (band_of b, ucast (fst e))"
  by (simp add: key_def new_channel_def split: prod.splits)

lemma distinct_concat_sub:
  assumes "distinct (concat (map g bs))" and "\<And>b. b \<in> set bs \<Longrightarrow> distinct (f b) \<and> set (f b) \<subseteq> set (g b)"
  shows "distinct (concat (map f bs))"
  using assms
proof (induction bs)
  case (Cons b bs)
  have "distinct (concat (map f bs))" using Cons by simp
  moreover have "set (f b) \<inter> set (concat (map f bs)) = {}"
    using Cons.prems(1) Cons.prems(2) by simp blast
  ultimately show ?case using Cons.prems by simp
qed simp

lemma spec_channels_distinct: "distinct (map key (spec_channels c eeprom [1, 2, 3, 4, 5]))"
proof -
  let ?g = "\<lambda>b. map (\<lambda>num. (band_of b, ucast num :: u16)) (band_array b)"
  let ?f = "\<lambda>b. map (\<lambda>e. (band_of b, ucast (fst e) :: u16)) (band_entries c eeprom b)"
  have u: "inj (ucast :: u8 \<Rightarrow> u16)" by (rule inj_on_inverseI[where g = ucast]) (simp add: ucast_up_ucast_id is_up)
  have g: "distinct (concat (map ?g [1, 2, 3, 4, 5]))" by code_simp
  have "distinct (concat (map ?f [1, 2, 3, 4, 5]))"
  proof (rule distinct_concat_sub[OF g])
    fix b assume "b \<in> set [1, 2, 3, 4, 5::nat]"
    then have "distinct (band_array b)" by (auto simp: band_array_def band_tables)
    from band_entries_distinct[OF this] band_entries_subset[of c eeprom b]
    show "distinct (?f b) \<and> set (?f b) \<subseteq> set (?g b)"
      using u by (auto simp: distinct_map inj_on_def)
  qed
  then show ?thesis by (simp add: spec_channels_def key_new_channel comp_def)
qed

subsection \<open>The channel map\<close>

definition ht40_on :: "eeprom_cfg \<Rightarrow> bool" where
  "ht40_on c \<longleftrightarrow> \<not> (regulatory_bands c ! 5 = 0 \<and> regulatory_bands c ! 6 = 0)"

lemma map_but_power_chan_id:
  "map but_power xs = map but_power ys \<Longrightarrow> map chan_id xs = map chan_id ys"
  by (auto simp: list_eq_iff_nth_eq but_power_def chan_id_def)

lemma map_but_power_key:
  "map but_power xs = map but_power ys \<Longrightarrow> map key xs = map key ys"
  by (auto simp: list_eq_iff_nth_eq but_power_def key_def)

lemma map_but_power_nth:
  "map but_power xs = map but_power ys \<Longrightarrow> i < length ys \<Longrightarrow> but_power (xs ! i) = but_power (ys ! i)"
  by (metis length_map nth_map)

text \<open>The three stages of \<open>iwl_init_channel_map\<close>.\<close>

lemma channel_map_stages:
  assumes "iwl_init_channel_map c eeprom d = Inr (d', n)"
  obtains chs d1 where "band_loop c eeprom [1, 2, 3, 4, 5] (channels d, 0) = Inr (chs, n)"
    and "map_txpower c eeprom n (d\<lparr>channels := chs\<rparr>) = Inr d1"
    and "if ht40_on c then ht40_bands_loop c eeprom n [6, 7] (channels d1) = Inr (channels d')
         else channels d' = channels d1"
    and "d' = d1\<lparr>channels := channels d'\<rparr>"
proof -
  let ?tail = "\<lambda>n d. if regulatory_bands c ! 5 = 0 \<and> regulatory_bands c ! 6 = 0 then Inr (d, n)
       else bindF (ht40_bands_loop c eeprom n [6, 7] (channels d)) (\<lambda>chs. Inr (d\<lparr>channels := chs\<rparr>, n))"
  from assms obtain chs n0 where 1: "band_loop c eeprom [1, 2, 3, 4, 5] (channels d, 0) = Inr (chs, n0)" and
    "bindF (map_txpower c eeprom n0 (d\<lparr>channels := chs\<rparr>)) (?tail n0) = Inr (d', n)"
    unfolding iwl_init_channel_map_def bindF_eq_Inr[of "band_loop c eeprom [1, 2, 3, 4, 5] (channels d, 0)"]
    by (auto simp only: case_prod_conv split_paired_Ex)
  then obtain d1 where 2: "map_txpower c eeprom n0 (d\<lparr>channels := chs\<rparr>) = Inr d1" and t: "?tail n0 d1 = Inr (d', n)"
    unfolding bindF_eq_Inr[of "map_txpower c eeprom n0 (d\<lparr>channels := chs\<rparr>)"] by blast
  show thesis
  proof (cases "ht40_on c")
    case True
    with t obtain chs' where
      3: "ht40_bands_loop c eeprom n0 [6, 7] (channels d1) = Inr chs'" "d' = d1\<lparr>channels := chs'\<rparr>" "n0 = n"
      unfolding ht40_on_def by (auto simp only: if_False bindF_eq_Inr prod.inject sum.inject)
    from 1 2 3 True that[of chs d1] show ?thesis by (simp del: band_loop.simps ht40_bands_loop.simps)
  next
    case False
    with t have "d' = d1" "n0 = n" by (simp_all add: ht40_on_def)
    with 1 2 False that[of chs d1] show ?thesis by (simp del: band_loop.simps)
  qed
qed

lemma frame_compose:
  assumes "d1 = d\<lparr>channels := x, max_tx_pwr_half_dbm := y\<rparr>" and "d' = d1\<lparr>channels := z\<rparr>"
  shows "d' = d\<lparr>channels := channels d', max_tx_pwr_half_dbm := max_tx_pwr_half_dbm d'\<rparr>"
  unfolding assms by simp

abbreviation map_spec :: "eeprom_cfg \<Rightarrow> u8 list \<Rightarrow> ieee80211_channel list" where
  "map_spec c eeprom \<equiv> spec_channels c eeprom [1, 2, 3, 4, 5]"

lemma channel_map_result:
  assumes "iwl_init_channel_map c eeprom d = Inr (d', n)"
  shows "n = length (map_spec c eeprom) \<and> n \<le> length (channels d) \<and> length (channels d') = length (channels d)
     \<and> map chan_id (take n (channels d')) = map chan_id (map_spec c eeprom)
     \<and> (\<forall>i<n. \<forall>m. bit (ch_flags (channels d' ! i)) m = (bit (ch_flags (map_spec c eeprom ! i)) m
          \<and> \<not> (m = 4 \<and> ht40_on c \<and> ht40_of c eeprom 0 (key (map_spec c eeprom ! i)))
          \<and> \<not> (m = 5 \<and> ht40_on c \<and> ht40_of c eeprom 4 (key (map_spec c eeprom ! i)))))
     \<and> d' = d\<lparr>channels := channels d', max_tx_pwr_half_dbm := max_tx_pwr_half_dbm d'\<rparr>"
proof -
  obtain chs d1 where
    1: "band_loop c eeprom [1, 2, 3, 4, 5] (channels d, 0) = Inr (chs, n)" and
    2: "map_txpower c eeprom n (d\<lparr>channels := chs\<rparr>) = Inr d1" and
    3: "if ht40_on c then ht40_bands_loop c eeprom n [6, 7] (channels d1) = Inr (channels d')
         else channels d' = channels d1" and 4: "d' = d1\<lparr>channels := channels d'\<rparr>"
    by (rule channel_map_stages[OF assms])
  from band_loop_result[OF 1] have n: "n = length (map_spec c eeprom)" "n \<le> length (channels d)"
    "length chs = length (channels d)" "take n chs = map_spec c eeprom" by auto
  from map_txpower_frame[OF 2] have f: "map but_power (channels d1) = map but_power chs"
    "d1 = d\<lparr>channels := channels d1, max_tx_pwr_half_dbm := max_tx_pwr_half_dbm d1\<rparr>"
    by (simp_all add: txp_frame_def)
  from f(1) have l1: "length (channels d1) = length chs" by (metis length_map)
  have t: "map but_power (take n (channels d1)) = map but_power (map_spec c eeprom)"
    using f(1) n(4) by (metis take_map)
  let ?P = "\<lambda>q. ht40_on c \<and> ht40_of c eeprom 0 q" and ?M = "\<lambda>q. ht40_on c \<and> ht40_of c eeprom 4 q"
  have "ht40_effect n ?P ?M (channels d1) (channels d')"
  proof (cases "ht40_on c")
    case True
    with 3 show ?thesis
      using ht40_bands_effect[of c eeprom n "channels d1" "channels d'"] l1 n
        map_but_power_key[OF t] spec_channels_distinct by (simp only: simp_thms if_True)
  next
    case False
    with 3 show ?thesis using ht40_effect_refl[of n "channels d1"] by simp
  qed
  note e = this[unfolded ht40_effect_def]
  have nth: "but_power (channels d1 ! i) = but_power (map_spec c eeprom ! i)" if "i < n" for i
    using map_but_power_nth[OF t, of i] that n(1) by simp
  have keys: "key (channels d1 ! i) = key (map_spec c eeprom ! i)"
    and flags: "ch_flags (channels d1 ! i) = ch_flags (map_spec c eeprom ! i)"
    and ids: "chan_id (channels d1 ! i) = chan_id (map_spec c eeprom ! i)" if "i < n" for i
    using nth[OF that] by (simp_all add: but_power_def key_def chan_id_def)
  have "map chan_id (take n (channels d')) = map chan_id (map_spec c eeprom)"
    using e ids n l1 by (intro nth_equalityI) auto
  moreover have "d' = d\<lparr>channels := channels d', max_tx_pwr_half_dbm := max_tx_pwr_half_dbm d'\<rparr>"
    by (rule frame_compose[OF f(2) 4])
  moreover have "\<forall>i<n. \<forall>m. bit (ch_flags (channels d' ! i)) m = (bit (ch_flags (map_spec c eeprom ! i)) m
          \<and> \<not> (m = 4 \<and> ?P (key (map_spec c eeprom ! i))) \<and> \<not> (m = 5 \<and> ?M (key (map_spec c eeprom ! i))))"
  proof (intro allI impI)
    fix i m assume i: "i < n"
    with e have "bit (ch_flags (channels d' ! i)) m = (bit (ch_flags (channels d1 ! i)) m
       \<and> \<not> (m = 4 \<and> ?P (key (channels d1 ! i))) \<and> \<not> (m = 5 \<and> ?M (key (channels d1 ! i))))" by blast
    then show "bit (ch_flags (channels d' ! i)) m = (bit (ch_flags (map_spec c eeprom ! i)) m
       \<and> \<not> (m = 4 \<and> ?P (key (map_spec c eeprom ! i))) \<and> \<not> (m = 5 \<and> ?M (key (map_spec c eeprom ! i))))"
      by (simp only: keys[OF i] flags[OF i])
  qed
  moreover have "length (channels d') = length (channels d)" using e l1 n(3) by simp
  ultimately show ?thesis using n(1,2) by blast
qed

end
