(* ===== verification/Eeprom_Bands.thy ===== *)
theory Eeprom_Bands
  imports Eeprom_Channels
begin

section \<open>The result of the EEPROM parser\<close>

text \<open>
  The properties of \<^verbatim>\<open>iwl_parse_eeprom_data\<close> over the lemmas on the channel map: an image whose
  sections lie inside it is parsed without a memory fault, the two bands hold exactly the valid
  channels, HT40 follows the entries of bands 6 and 7, and some fields stay as the allocator left them.
\<close>

subsection \<open>Bands as slices of the channel array\<close>

lemma skip_while_band_eq:
  "skip_while_band same band idx chs = idx + length (takeWhile (\<lambda>ch. (ch_band ch = band) = same) chs)"
  by (induction chs arbitrary: idx) auto

definition band_slice :: "iwl_nvm_data \<Rightarrow> nl80211_band \<Rightarrow> ieee80211_channel list" where
  "band_slice d band = take (sb_n_channels (bands d band)) (drop (sb_channels (bands d band)) (channels d))"

lemma sband_slice:
  assumes "iwl_init_sband_channels chs n band sb = (sb', m)"
  shows "take (sb_n_channels sb') (drop (sb_channels sb') chs) =
      takeWhile (\<lambda>ch. ch_band ch = band) (dropWhile (\<lambda>ch. ch_band ch \<noteq> band) (take n chs))
    \<and> m = length (takeWhile (\<lambda>ch. ch_band ch = band) (dropWhile (\<lambda>ch. ch_band ch \<noteq> band) (take n chs)))"
proof -
  let ?xs = "take n chs" and ?ne = "\<lambda>ch. ch_band ch \<noteq> band" and ?eq = "\<lambda>ch. ch_band ch = band"
  let ?idx = "length (takeWhile ?ne ?xs)"
  let ?run = "takeWhile ?eq (dropWhile ?ne ?xs)"
  have d: "drop ?idx ?xs = dropWhile ?ne ?xs" by (simp add: dropWhile_eq_drop)
  have sb: "sb_channels sb' = ?idx" "sb_n_channels sb' = length ?run" "m = length ?run"
    using assms by (auto simp: iwl_init_sband_channels_def skip_while_band_eq Let_def d)
  have "?run = take (length ?run) (drop ?idx ?xs)" unfolding d by (rule takeWhile_eq_take)
  also have "\<dots> = take (length ?run) (take (n - ?idx) (drop ?idx chs))" by (simp add: drop_take)
  also have "length ?run \<le> n - ?idx"
  proof -
    have "length ?run \<le> length (dropWhile ?ne ?xs)" by (rule length_takeWhile_le)
    also have "\<dots> \<le> n - ?idx" by (simp add: d[symmetric])
    finally show ?thesis .
  qed
  then have "take (length ?run) (take (n - ?idx) (drop ?idx chs)) = take (length ?run) (drop ?idx chs)"
    by (simp add: min_absorb1)
  finally show ?thesis using sb by simp
qed

lemma two_runs:
  assumes "\<forall>x\<in>set a. f x = p" and "\<forall>x\<in>set b. f x = q" and "p \<noteq> q"
  shows "takeWhile (\<lambda>x. f x = p) (dropWhile (\<lambda>x. f x \<noteq> p) (a @ b)) = a"
    and "takeWhile (\<lambda>x. f x = q) (dropWhile (\<lambda>x. f x \<noteq> q) (a @ b)) = b"
proof -
  have b: "takeWhile (\<lambda>x. f x = p) b = []" using assms(2,3) by (cases b) auto
  have db: "dropWhile (\<lambda>x. f x \<noteq> p) b = []" using assms(2,3) by simp
  with assms b show "takeWhile (\<lambda>x. f x = p) (dropWhile (\<lambda>x. f x \<noteq> p) (a @ b)) = a"
    by (cases a) (auto simp: takeWhile_append db)
  have "dropWhile (\<lambda>x. f x \<noteq> q) (a @ b) = dropWhile (\<lambda>x. f x \<noteq> q) b" using assms by (simp add: dropWhile_append2)
  also have "\<dots> = b" using assms(2) by (cases b) auto
  finally show "takeWhile (\<lambda>x. f x = q) (dropWhile (\<lambda>x. f x \<noteq> q) (a @ b)) = b" using assms(2) by simp
qed

subsection \<open>The parts of the parse\<close>

text \<open>The fields of the result before the bands are set up.\<close>

definition header_fields :: "iwl_nvm_data \<Rightarrow> iwl_nvm_data \<Rightarrow> bool" where
  "header_fields d d' \<longleftrightarrow> channels d' = channels d \<and> max_tx_pwr_half_dbm d' = max_tx_pwr_half_dbm d
     \<and> sku_cap_mimo_disabled d' = sku_cap_mimo_disabled d"

lemma header_parts:
  "parse_addresses eeprom d = Inr (r, d') \<Longrightarrow> header_fields d d'"
  "iwl_eeprom_read_calib eeprom d = Inr (r, d') \<Longrightarrow> header_fields d d'"
  "parse_xtal eeprom d = Inr (r, d') \<Longrightarrow> header_fields d d'"
  "parse_temperatures eeprom d = Inr (r, d') \<Longrightarrow> header_fields d d'"
  "header_fields d (parse_radio mp eeprom d)"
  "header_fields d (antenna_overrides c d)"
  by (auto simp: header_fields_def parse_addresses_def iwl_eeprom_read_calib_def parse_xtal_def
    parse_temperatures_def parse_radio_def antenna_overrides_def run_simps Let_def
    split: option.splits if_splits)

lemma header_fields_trans: "header_fields a b \<Longrightarrow> header_fields b c \<Longrightarrow> header_fields a c"
  by (simp add: header_fields_def)

lemma parse_stages:
  assumes "iwl_parse_eeprom_data (Some c) mp (Some junk) eeprom = Inr (Some d')"
  obtains d b where "header_fields junk d" and "nvm_tx_ant d \<noteq> 0" and "nvm_rx_ant d \<noteq> 0"
    and "iwl_init_sbands mp c eeprom d = Inr (d', b)"
proof -
  let ?j = "junk\<lparr>num_channels := of_nat IWL_NUM_CHANNELS\<rparr>"
  from assms obtain r d0 where
    0: "thenS (thenS (thenS (parse_addresses eeprom ?j) (iwl_eeprom_read_calib eeprom))
          (parse_xtal eeprom)) (parse_temperatures eeprom) = Inr (r, d0)"
    and 1: "r = None" and 2: "nvm_tx_ant (antenna_overrides c (parse_radio mp eeprom d0)) \<noteq> 0"
      "nvm_rx_ant (antenna_overrides c (parse_radio mp eeprom d0)) \<noteq> 0"
    and 3: "\<exists>b. iwl_init_sbands mp c eeprom (antenna_overrides c (parse_radio mp eeprom d0)) = Inr (d', b)"
    by (auto simp: iwl_parse_eeprom_data_def bindF_eq_Inr Let_def split: if_splits)
  from 0 1 obtain d1 d2 d3 where "parse_addresses eeprom ?j = ok d1" "iwl_eeprom_read_calib eeprom d1 = ok d2"
    "parse_xtal eeprom d2 = ok d3" "parse_temperatures eeprom d3 = ok d0" by (auto simp: thenS_ok)
  then have "header_fields ?j d0" using header_parts header_fields_trans by metis
  then have "header_fields junk d0" by (simp add: header_fields_def)
  with 2 3 that show thesis using header_parts(5,6) header_fields_trans by metis
qed

lemma init_sband_fields:
  assumes "init_sband mp c n band rates n_rates d = (d', m)"
  shows "channels d' = channels d" and "max_tx_pwr_half_dbm d' = max_tx_pwr_half_dbm d"
    and "sku_cap_mimo_disabled d' = sku_cap_mimo_disabled d"
    and "bands d' = (bands d)(band := bands d' band)"
    and "band_slice d' band = takeWhile (\<lambda>ch. ch_band ch = band)
      (dropWhile (\<lambda>ch. ch_band ch \<noteq> band) (take n (channels d)))"
    and "m = length (takeWhile (\<lambda>ch. ch_band ch = band)
      (dropWhile (\<lambda>ch. ch_band ch \<noteq> band) (take n (channels d))))"
  using assms by (auto simp: init_sband_def band_slice_def Let_def split: prod.splits dest!: sband_slice)

lemma sbands_stages:
  assumes "iwl_init_sbands mp c eeprom d = Inr (d', b)"
  obtains n d1 where "iwl_init_channel_map c eeprom d = Inr (d1, n)"
    and "channels d' = channels d1" and "max_tx_pwr_half_dbm d' = max_tx_pwr_half_dbm d1"
    and "sku_cap_mimo_disabled d' = sku_cap_mimo_disabled d1"
    and "\<And>band. band \<in> {NL80211_BAND_2GHZ, NL80211_BAND_5GHZ} \<Longrightarrow> band_slice d' band =
      takeWhile (\<lambda>ch. ch_band ch = band) (dropWhile (\<lambda>ch. ch_band ch \<noteq> band) (take n (channels d1)))"
    and "b \<longleftrightarrow> n \<noteq> length (band_slice d' NL80211_BAND_2GHZ) + length (band_slice d' NL80211_BAND_5GHZ)"
proof -
  from assms obtain d1 n where m: "iwl_init_channel_map c eeprom d = Inr (d1, n)" and
    r: "(let (d, n2) = init_sband mp c n NL80211_BAND_2GHZ 0 12 d1;
           (d, n5) = init_sband mp c n NL80211_BAND_5GHZ 4 8 d in Inr (d, n \<noteq> n2 + n5)) = (Inr (d', b) :: _ run)"
    by (auto simp: iwl_init_sbands_def bindF_eq_Inr)
  obtain d2 n2 where 2: "init_sband mp c n NL80211_BAND_2GHZ 0 12 d1 = (d2, n2)" by fastforce
  obtain d5 n5 where 5: "init_sband mp c n NL80211_BAND_5GHZ 4 8 d2 = (d5, n5)" by fastforce
  from r 2 5 have d: "d5 = d'" "b \<longleftrightarrow> n \<noteq> n2 + n5" by auto
  note i2 = init_sband_fields[OF 2] and i5 = init_sband_fields[OF 5, unfolded d(1)]
  have "bands d' NL80211_BAND_2GHZ = bands d2 NL80211_BAND_2GHZ" using i5(4) by (metis fun_upd_other nl80211_band.distinct(1))
  then have s2: "band_slice d' NL80211_BAND_2GHZ = band_slice d2 NL80211_BAND_2GHZ" by (simp add: band_slice_def i5(1))
  show thesis
    by (rule that[OF m]) (use i2 i5 s2 d(2) in auto)
qed

lemma map_spec_split:
  "map_spec c eeprom = spec_channels c eeprom [1] @ spec_channels c eeprom [2, 3, 4, 5]"
  by (simp add: spec_channels_def)

lemma band_spec_channels:
  "\<forall>ch\<in>set (spec_channels c eeprom [1]). ch_band ch = NL80211_BAND_2GHZ"
  "\<forall>ch\<in>set (spec_channels c eeprom [2, 3, 4, 5]). ch_band ch = NL80211_BAND_5GHZ"
  by (auto simp: spec_channels_def new_channel_def band_of_def)

text \<open>A run of one band is cut out the same way from the identities of the channels.\<close>

lemma run_chan_id:
  "map chan_id (takeWhile (\<lambda>ch. ch_band ch = band) (dropWhile (\<lambda>ch. ch_band ch \<noteq> band) xs)) =
     takeWhile (\<lambda>q. fst q = band) (dropWhile (\<lambda>q. fst q \<noteq> band) (map chan_id xs))"
  by (simp add: takeWhile_map dropWhile_map comp_def chan_id_def)

lemma slices_of_map:
  assumes "map chan_id (take n chs) = map chan_id (map_spec c eeprom)"
  shows "map chan_id (takeWhile (\<lambda>ch. ch_band ch = NL80211_BAND_2GHZ)
      (dropWhile (\<lambda>ch. ch_band ch \<noteq> NL80211_BAND_2GHZ) (take n chs))) = map chan_id (spec_channels c eeprom [1])"
    and "map chan_id (takeWhile (\<lambda>ch. ch_band ch = NL80211_BAND_5GHZ)
      (dropWhile (\<lambda>ch. ch_band ch \<noteq> NL80211_BAND_5GHZ) (take n chs))) = map chan_id (spec_channels c eeprom [2, 3, 4, 5])"
  unfolding run_chan_id assms map_spec_split map_append
  using two_runs[of "map chan_id (spec_channels c eeprom [1])" fst NL80211_BAND_2GHZ
      "map chan_id (spec_channels c eeprom [2, 3, 4, 5])" NL80211_BAND_5GHZ]
    band_spec_channels[of c eeprom] by (auto simp: chan_id_def)

subsection \<open>Images whose sections lie inside them\<close>

definition fits :: "u8 list \<Rightarrow> u32 \<Rightarrow> nat \<Rightarrow> bool" where
  "fits eeprom addr n \<longleftrightarrow> unat (eeprom_indirect_address eeprom addr) + n \<le> length eeprom"

definition band_addr :: "eeprom_cfg \<Rightarrow> nat \<Rightarrow> u32" where
  "band_addr c b = ucast (regulatory_bands c ! (b - 1)) OR (INDIRECT_ADDRESS OR INDIRECT_REGULATORY)"

definition txp_entries :: "u8 list \<Rightarrow> nat" where
  "txp_entries eeprom = (let a = unat (eeprom_indirect_address eeprom EEPROM_TXP_SZ_OFFS)
     in unat (le16 (eeprom ! a) (eeprom ! (a + 1))) * 2 div 8)"

text \<open>Every section the parser reads, with its size.\<close>

definition image_ok :: "eeprom_cfg \<Rightarrow> u8 list \<Rightarrow> bool" where
  "image_ok c eeprom \<longleftrightarrow>
     fits eeprom EEPROM_MAC_ADDRESS 6 \<and> fits eeprom EEPROM_CALIB_ALL 4 \<and> fits eeprom EEPROM_XTAL 4
     \<and> fits eeprom EEPROM_RAW_TEMPERATURE 2 \<and> fits eeprom EEPROM_KELVIN_TEMPERATURE 4
     \<and> list_all (\<lambda>b. fits eeprom (band_addr c b) (2 * length (band_array b))) [1, 2, 3, 4, 5]
     \<and> (ht40_on c \<longrightarrow> list_all (\<lambda>b. fits eeprom (band_addr c b) (2 * length (band_array b))) [6, 7])
     \<and> (enhanced_txpower c \<longrightarrow> fits eeprom EEPROM_TXP_SZ_OFFS 2
          \<and> fits eeprom EEPROM_TXP_OFFS (8 * txp_entries eeprom))"

lemma fits_query:
  "fits eeprom addr n \<Longrightarrow> 0 < n \<Longrightarrow>
     iwl_eeprom_query_addr eeprom addr = Some (unat (eeprom_indirect_address eeprom addr))"
  by (simp add: fits_def iwl_eeprom_query_addr_def)

lemma band_reference_fits:
  assumes "fits eeprom (band_addr c b) (2 * length (band_array b))" and "1 \<le> b" and "b \<le> 7"
  shows "\<exists>a. fst (iwl_init_band_reference c eeprom b) = Some a \<and> a + 2 * length (band_array b) \<le> length eeprom"
  using fits_query[OF assms(1)] assms band_array_nonempty[of b]
  by (simp add: iwl_init_band_reference_def band_addr_def fits_def)

lemma prd8_ok: "a + k < length eeprom \<Longrightarrow> prd8 eeprom (Some a) k = Inr (eeprom ! (a + k))"
  by (simp add: prd8_def rd8_def)

lemma txpwr_loop_total:
  assumes "\<forall>i\<in>set idxs. a + 8 * i + 8 \<le> length eeprom"
  shows "\<exists>d'. txpwr_loop eeprom (Some a) n idxs d = Inr d'"
  using assms by (induction idxs arbitrary: d) (auto simp: prd8_ok read_txpwr_def)

lemma map_txpower_total:
  assumes "image_ok c eeprom"
  shows "\<exists>d'. map_txpower c eeprom n d = Inr d'"
proof (cases "enhanced_txpower c")
  case True
  let ?sz = "unat (eeprom_indirect_address eeprom EEPROM_TXP_SZ_OFFS)"
  let ?tx = "unat (eeprom_indirect_address eeprom EEPROM_TXP_OFFS)"
  from True assms have f: "fits eeprom EEPROM_TXP_SZ_OFFS 2" "fits eeprom EEPROM_TXP_OFFS (8 * txp_entries eeprom)"
    by (simp_all add: image_ok_def)
  have q: "iwl_eeprom_query_addr eeprom EEPROM_TXP_SZ_OFFS = Some ?sz" using fits_query[OF f(1)] by simp
  have l: "prd16 eeprom (Some ?sz) 0 = Inr (le16 (eeprom ! ?sz) (eeprom ! (?sz + 1)))"
    using f(1) by (simp add: prd16_def rd16_def fits_def)
  have loop: "\<exists>d'. txpwr_loop eeprom (iwl_eeprom_query_addr eeprom EEPROM_TXP_OFFS) n [0..<txp_entries eeprom] d = Inr d'"
  proof (cases "txp_entries eeprom = 0")
    case False
    with fits_query[OF f(2)] have q2: "iwl_eeprom_query_addr eeprom EEPROM_TXP_OFFS = Some ?tx" by simp
    have "\<forall>i\<in>set [0..<txp_entries eeprom]. ?tx + 8 * i + 8 \<le> length eeprom"
      using f(2) by (auto simp: fits_def)
    then show ?thesis unfolding q2 by (rule txpwr_loop_total)
  qed simp
  have "map_txpower c eeprom n d =
      txpwr_loop eeprom (iwl_eeprom_query_addr eeprom EEPROM_TXP_OFFS) n [0..<txp_entries eeprom] d"
    unfolding map_txpower_def iwl_eeprom_enhanced_txpower_def q l txp_entries_def using True by (simp add: Let_def)
  with loop show ?thesis by (simp only:)
qed (simp add: map_txpower_def)

lemma ht40_loop_total:
  assumes "a + 2 * (k + length nums) \<le> length eeprom"
  shows "\<exists>chs'. ht40_loop eeprom (Some a) n band k nums chs = Inr chs'"
  using assms
proof (induction nums arbitrary: k chs)
  case (Cons num nums)
  have m: "\<exists>c'. iwl_mod_ht40_chan_info eeprom (Some a) k n band ch clear cs = Inr c'" for ch clear cs
    using Cons.prems by (auto simp: iwl_mod_ht40_chan_info_def prd8_ok split: option.splits)
  obtain c1 where 1: "iwl_mod_ht40_chan_info eeprom (Some a) k n band (ucast num) IEEE80211_CHAN_NO_HT40PLUS chs = Inr c1"
    using m by blast
  obtain c2 where 2: "iwl_mod_ht40_chan_info eeprom (Some a) k n band (ucast num + 4) IEEE80211_CHAN_NO_HT40MINUS c1 = Inr c2"
    using m by blast
  from Cons.IH[of "k + 1" c2] Cons.prems 1 2 show ?case by simp
qed simp

lemma ht40_bands_total:
  assumes "list_all (\<lambda>b. fits eeprom (band_addr c b) (2 * length (band_array b))) bs"
    and "list_all (\<lambda>b. 1 \<le> b \<and> b \<le> 7) bs"
  shows "\<exists>chs'. ht40_bands_loop c eeprom n bs chs = Inr chs'"
  using assms
proof (induction bs arbitrary: chs)
  case (Cons b bs)
  from band_reference_fits[of eeprom c b] Cons.prems obtain a where
    a: "fst (iwl_init_band_reference c eeprom b) = Some a" "a + 2 * length (band_array b) \<le> length eeprom" by auto
  with ht40_loop_total[of a 0 "band_array b" eeprom n] obtain c1 where
    "ht40_loop eeprom (Some a) n (if b = 6 then NL80211_BAND_2GHZ else NL80211_BAND_5GHZ) 0 (band_array b) chs = Inr c1"
    by fastforce
  with Cons.IH[of c1] Cons.prems a show ?case by (simp add: case_prod_beta)
qed simp

lemma channel_map_total:
  assumes "image_ok c eeprom" and "IWL_NUM_CHANNELS \<le> length (channels d)"
  shows "\<exists>r. iwl_init_channel_map c eeprom d = Inr r"
proof -
  have "(\<Sum>b\<leftarrow>[1, 2, 3, 4, 5]. length (band_array b)) = IWL_NUM_CHANNELS" by code_simp
  moreover have "\<forall>b\<in>set [1, 2, 3, 4, 5]. \<exists>a. fst (iwl_init_band_reference c eeprom b) = Some a
      \<and> a + 2 * length (band_array b) \<le> length eeprom"
    using assms(1) band_reference_fits[of eeprom c] by (simp add: image_ok_def)
  ultimately obtain chs n where 1: "band_loop c eeprom [1, 2, 3, 4, 5] (channels d, 0) = Inr (chs, n)"
    using band_loop_total[of "[1, 2, 3, 4, 5]" c eeprom 0 "channels d"] assms(2)
    by (metis (no_types, lifting) add_0 surj_pair)
  from map_txpower_total[OF assms(1)] obtain d1 where 2: "map_txpower c eeprom n (d\<lparr>channels := chs\<rparr>) = Inr d1" by blast
  have "ht40_on c \<Longrightarrow> \<exists>chs'. ht40_bands_loop c eeprom n [6, 7] (channels d1) = Inr chs'"
    using assms(1) by (intro ht40_bands_total) (simp_all add: image_ok_def)
  then show ?thesis
    unfolding iwl_init_channel_map_def 1 bindF_simps case_prod_conv 2
    by (auto simp: ht40_on_def simp del: ht40_bands_loop.simps)
qed

definition tx_of :: "eeprom_cfg \<Rightarrow> u8 list \<Rightarrow> u8" where
  "tx_of c eeprom = (if cfg_tx_ant c \<noteq> 0 then cfg_tx_ant c
     else ucast (drop_bit 8 (iwl_eeprom_query16 eeprom EEPROM_RADIO_CONFIG) AND 0xF))"

definition rx_of :: "eeprom_cfg \<Rightarrow> u8 list \<Rightarrow> u8" where
  "rx_of c eeprom = (if cfg_rx_ant c \<noteq> 0 then cfg_rx_ant c
     else ucast (drop_bit 12 (iwl_eeprom_query16 eeprom EEPROM_RADIO_CONFIG) AND 0xF))"

lemma antennas:
  "nvm_tx_ant (antenna_overrides c (parse_radio mp eeprom d)) = tx_of c eeprom"
  "nvm_rx_ant (antenna_overrides c (parse_radio mp eeprom d)) = rx_of c eeprom"
  by (simp_all add: antenna_overrides_def parse_radio_def tx_of_def rx_of_def Let_def)

lemma header_total:
  assumes "image_ok c eeprom"
  shows "\<exists>d'. parse_addresses eeprom d = ok d'" "\<exists>d'. iwl_eeprom_read_calib eeprom d = ok d'"
    "\<exists>d'. parse_xtal eeprom d = ok d'" "\<exists>d'. parse_temperatures eeprom d = ok d'"
proof -
  from assms have f: "fits eeprom EEPROM_MAC_ADDRESS 6" "fits eeprom EEPROM_CALIB_ALL 4" "fits eeprom EEPROM_XTAL 4"
    "fits eeprom EEPROM_RAW_TEMPERATURE 2" "fits eeprom EEPROM_KELVIN_TEMPERATURE 4" by (simp_all add: image_ok_def)
  note q = f[THEN fits_query]
  show "\<exists>d'. parse_addresses eeprom d = ok d'" "\<exists>d'. iwl_eeprom_read_calib eeprom d = ok d'"
    "\<exists>d'. parse_xtal eeprom d = ok d'" "\<exists>d'. parse_temperatures eeprom d = ok d'"
    using q f by (simp_all add: parse_addresses_def iwl_eeprom_read_calib_def parse_xtal_def parse_temperatures_def
      rd_bytes_def prd8_def prd16_def rd8_def rd16_def fits_def)
qed

lemma header_total_seq:
  assumes "image_ok c eeprom"
  shows "\<exists>d'. thenS (thenS (thenS (parse_addresses eeprom d) (iwl_eeprom_read_calib eeprom))
          (parse_xtal eeprom)) (parse_temperatures eeprom) = ok d' \<and> header_fields d d'"
proof -
  obtain d1 d2 d3 d4 where e: "parse_addresses eeprom d = ok d1" "iwl_eeprom_read_calib eeprom d1 = ok d2"
    "parse_xtal eeprom d2 = ok d3" "parse_temperatures eeprom d3 = ok d4" using header_total[OF assms] by meson
  then have "header_fields d d4" using header_parts header_fields_trans by metis
  with e show ?thesis by simp
qed

lemma parse_no_fault:
  assumes "image_ok c eeprom" and "IWL_NUM_CHANNELS \<le> length (channels junk)"
  shows "\<exists>r. iwl_parse_eeprom_data (Some c) mp (Some junk) eeprom = Inr r
     \<and> (r \<noteq> None \<longleftrightarrow> tx_of c eeprom \<noteq> 0 \<and> rx_of c eeprom \<noteq> 0)"
proof -
  let ?j = "junk\<lparr>num_channels := of_nat IWL_NUM_CHANNELS\<rparr>"
  obtain d where h: "thenS (thenS (thenS (parse_addresses eeprom ?j) (iwl_eeprom_read_calib eeprom))
          (parse_xtal eeprom)) (parse_temperatures eeprom) = ok d" and f: "header_fields ?j d"
    using header_total_seq[OF assms(1)] by blast
  let ?d = "antenna_overrides c (parse_radio mp eeprom d)"
  have "header_fields ?j ?d" using f header_parts(5,6) header_fields_trans by metis
  then have "IWL_NUM_CHANNELS \<le> length (channels ?d)" using assms(2) by (simp add: header_fields_def)
  then obtain m n where "iwl_init_channel_map c eeprom ?d = Inr (m, n)"
    using channel_map_total[OF assms(1)] by fastforce
  then have "\<exists>d' b. iwl_init_sbands mp c eeprom ?d = Inr (d', b)"
    by (simp add: iwl_init_sbands_def Let_def case_prod_beta)
  then show ?thesis
    unfolding iwl_parse_eeprom_data_def option.case h bindF_simps case_prod_conv
    by (auto simp: Let_def antennas)
qed

subsection \<open>Properties\<close>

text \<open>
  C16. After a successful parse the 2.4 GHz band of the network stack holds, in the order of the EEPROM
  and with the right centre frequency, exactly the channels whose entry in EEPROM band 1 is marked
  valid, and the 5 GHz band exactly those of the bands 2 to 5; so every channel of the map is used
  and the message about unused channels cannot appear.
\<close>

theorem eeprom_bands_exact:
  assumes "iwl_parse_eeprom_data (Some c) mp (Some junk) eeprom = Inr (Some d)"
  shows "map chan_id (band_slice d NL80211_BAND_2GHZ) = map chan_id (spec_channels c eeprom [1])
     \<and> map chan_id (band_slice d NL80211_BAND_5GHZ) = map chan_id (spec_channels c eeprom [2, 3, 4, 5])
     \<and> (\<exists>d0. iwl_init_sbands mp c eeprom d0 = Inr (d, False))"
proof -
  obtain d0 b where h: "header_fields junk d0" and s: "iwl_init_sbands mp c eeprom d0 = Inr (d, b)"
    by (rule parse_stages[OF assms])
  obtain n d1 where m: "iwl_init_channel_map c eeprom d0 = Inr (d1, n)" and
    sl: "\<And>band. band \<in> {NL80211_BAND_2GHZ, NL80211_BAND_5GHZ} \<Longrightarrow> band_slice d band =
      takeWhile (\<lambda>ch. ch_band ch = band) (dropWhile (\<lambda>ch. ch_band ch \<noteq> band) (take n (channels d1)))" and
    b: "b \<longleftrightarrow> n \<noteq> length (band_slice d NL80211_BAND_2GHZ) + length (band_slice d NL80211_BAND_5GHZ)"
    by (rule sbands_stages[OF s]) blast
  note r = channel_map_result[OF m]
  note e = slices_of_map[OF r[THEN conjunct2, THEN conjunct2, THEN conjunct2, THEN conjunct1]]
  have 2: "map chan_id (band_slice d NL80211_BAND_2GHZ) = map chan_id (spec_channels c eeprom [1])"
    and 5: "map chan_id (band_slice d NL80211_BAND_5GHZ) = map chan_id (spec_channels c eeprom [2, 3, 4, 5])"
    using e sl by simp_all
  have "n = length (map_spec c eeprom)" using r by blast
  also have "\<dots> = length (band_slice d NL80211_BAND_2GHZ) + length (band_slice d NL80211_BAND_5GHZ)"
    using arg_cong[OF 2, of length] arg_cong[OF 5, of length]
    unfolding map_spec_split length_append length_map by linarith
  finally have "\<not> b" using b by blast
  with 2 5 s show ?thesis by auto
qed

text \<open>
  C17. An image in which every section the parser refers to lies inside the image is parsed without a
  memory fault, whatever the allocated block held: the channel array never overflows, and the
  result is there exactly when the image or the device configuration names a transmit and a
  receive antenna.
\<close>

theorem eeprom_parse_no_fault:
  assumes "image_ok c eeprom" and "IWL_NUM_CHANNELS \<le> length (channels junk)"
  shows "\<exists>r. iwl_parse_eeprom_data (Some c) mp (Some junk) eeprom = Inr r
     \<and> (r \<noteq> None \<longleftrightarrow> tx_of c eeprom \<noteq> 0 \<and> rx_of c eeprom \<noteq> 0)"
  using assms by (rule parse_no_fault)

lemma bits_channel_flags: "bit (channel_flags fl) 4" "bit (channel_flags fl) 5"
  by (auto simp: channel_flags_def Let_def bit_simps bit_numeral_rec)

text \<open>
  C18. A channel of the map allows HT40+ (bit 4 of its flags is clear) exactly when the device has HT40
  bands and the entry of the channel in EEPROM band 6 or 7 is valid, and HT40- (bit 5) exactly
  when the entry of the channel four numbers below is.
\<close>

theorem eeprom_ht40_exact:
  assumes "iwl_init_channel_map c eeprom d = Inr (d', n)" and "i < n"
  shows "(\<not> bit (ch_flags (channels d' ! i)) 4 \<longleftrightarrow> ht40_on c \<and> ht40_of c eeprom 0 (key (channels d' ! i)))
     \<and> (\<not> bit (ch_flags (channels d' ! i)) 5 \<longleftrightarrow> ht40_on c \<and> ht40_of c eeprom 4 (key (channels d' ! i)))"
proof -
  note r = channel_map_result[OF assms(1)]
  have n: "n = length (map_spec c eeprom)" "n \<le> length (channels d')" using r by simp_all
  have "map chan_id (take n (channels d')) = map chan_id (map_spec c eeprom)" using r by blast
  from arg_cong[OF this, of "\<lambda>xs. xs ! i"] n assms(2)
  have "chan_id (channels d' ! i) = chan_id (map_spec c eeprom ! i)" by simp
  then have k: "key (channels d' ! i) = key (map_spec c eeprom ! i)" by (rule key_chan_id)
  have "map_spec c eeprom ! i \<in> set (map_spec c eeprom)" using n(1) assms(2) by simp
  then obtain b e where "map_spec c eeprom ! i = new_channel b e" by (auto simp: spec_channels_def)
  then have "bit (ch_flags (map_spec c eeprom ! i)) 4" "bit (ch_flags (map_spec c eeprom ! i)) 5"
    by (auto simp: new_channel_def bits_channel_flags split: prod.splits)
  moreover have "\<forall>m. bit (ch_flags (channels d' ! i)) m = (bit (ch_flags (map_spec c eeprom ! i)) m
          \<and> \<not> (m = 4 \<and> ht40_on c \<and> ht40_of c eeprom 0 (key (map_spec c eeprom ! i)))
          \<and> \<not> (m = 5 \<and> ht40_on c \<and> ht40_of c eeprom 4 (key (map_spec c eeprom ! i))))"
    using r assms(2) by blast
  ultimately show ?thesis unfolding k by simp
qed

text \<open>
  Two fields of the result depend on what the block from the allocator held before: whether MIMO
  is disabled is never set from the image, and with enhanced power tables the power limit only ever
  grows from the old content.
\<close>

theorem eeprom_uninitialised_fields:
  assumes "iwl_parse_eeprom_data (Some c) mp (Some junk) eeprom = Inr (Some d)"
  shows "sku_cap_mimo_disabled d = sku_cap_mimo_disabled junk
     \<and> (enhanced_txpower c \<longrightarrow> max_tx_pwr_half_dbm junk \<le> max_tx_pwr_half_dbm d)"
proof -
  obtain d0 b where h: "header_fields junk d0" and s: "iwl_init_sbands mp c eeprom d0 = Inr (d, b)"
    by (rule parse_stages[OF assms])
  obtain n d1 where m: "iwl_init_channel_map c eeprom d0 = Inr (d1, n)" and
    p: "max_tx_pwr_half_dbm d = max_tx_pwr_half_dbm d1" and q: "sku_cap_mimo_disabled d = sku_cap_mimo_disabled d1"
    by (rule sbands_stages[OF s]) blast
  obtain chs d2 where t: "map_txpower c eeprom n (d0\<lparr>channels := chs\<rparr>) = Inr d2" and
    d1: "d1 = d2\<lparr>channels := channels d1\<rparr>" by (rule channel_map_stages[OF m])
  have "max_tx_pwr_half_dbm d1 = max_tx_pwr_half_dbm d2" by (subst d1) simp
  moreover have "enhanced_txpower c \<Longrightarrow> max_tx_pwr_half_dbm d0 \<le> max_tx_pwr_half_dbm d2"
    using map_txpower_grows[OF t] by simp
  moreover have "sku_cap_mimo_disabled d1 = sku_cap_mimo_disabled d0"
  proof -
    have "d1 = d0\<lparr>channels := channels d1, max_tx_pwr_half_dbm := max_tx_pwr_half_dbm d1\<rparr>"
      using channel_map_result[OF m] by blast
    from arg_cong[OF this, of sku_cap_mimo_disabled] show ?thesis by simp
  qed
  ultimately show ?thesis using h p q by (simp add: header_fields_def)
qed

subsection \<open>A concrete image\<close>

text \<open>
  640 bytes, the regulatory section at 0x100: channels 1 and 36 are valid, and so is the HT40 entry of 36.
\<close>

definition demo_eeprom :: "u8 list" where
  "demo_eeprom = (replicate 640 0)[0xCC := 0x80, 0x100 := 0x0B, 0x101 := 20, 312 := 0x09, 313 := 17, 382 := 1]"

definition demo_cfg :: eeprom_cfg where
  "demo_cfg = \<lparr>regulatory_bands = [0, 28, 54, 78, 100, 112, 126], enhanced_txpower = False, cfg_tx_ant = 1,
     cfg_rx_ant = 3, rx_with_siso_diversity = False, mq_rx_supported = False, max_ht_ampdu_exponent = 3,
     ht_params = Some \<lparr>ht_greenfield_support = True, stbc = False, ldpc = False, ht40_bands = 2\<rparr>,
     nvm_ver = 0, nvm_calib_ver = 0\<rparr>"

definition demo_ht :: ieee80211_sta_ht_cap where
  "demo_ht = \<lparr>ht_cap = 0, ht_supported = False, ampdu_factor = 0, ampdu_density = 0, rx_mask = replicate 10 0,
     rx_highest = 0, tx_params = 0\<rparr>"

definition demo_block :: iwl_nvm_data where
  "demo_block = \<lparr>n_hw_addrs = 0, hw_addr = replicate 6 0, calib_version = 0, calib_voltage = 0, raw_temperature = 0,
     kelvin_temperature = 0, kelvin_voltage = 0, xtal_calib = replicate 4 0, sku_cap_band_24GHz_enable = False,
     sku_cap_band_52GHz_enable = False, sku_cap_11n_enable = False, sku_cap_amt_enable = False,
     sku_cap_ipan_enable = False, sku_cap_mimo_disabled = True, radio_cfg_type = 0, radio_cfg_step = 0,
     radio_cfg_dash = 0, radio_cfg_pnum = 0, nvm_tx_ant = 0, nvm_rx_ant = 0, nvm_version = 0,
     max_tx_pwr_half_dbm = 0,
     bands = (\<lambda>b. \<lparr>sb_band = b, sb_channels = 0, sb_n_channels = 0, sb_rates = 0, sb_n_rates = 0, sb_ht_cap = demo_ht\<rparr>),
     num_channels = 0,
     channels = replicate 56 \<lparr>ch_band = NL80211_BAND_2GHZ, center_freq = 0, hw_value = 0, ch_flags = 0, max_power = 0\<rparr>\<rparr>"

abbreviation demo_mp :: mod_params where
  "demo_mp \<equiv> \<lparr>amsdu_size = 0, disable_11n = 0\<rparr>"

lemma demo_length [simp]: "length demo_eeprom = 640"
  by (simp add: demo_eeprom_def)

lemma demo_nth:
  "k < 640 \<Longrightarrow> demo_eeprom ! k = (if k = 0xCC then 0x80 else if k = 0x100 then 0x0B else if k = 0x101 then 20
     else if k = 312 then 0x09 else if k = 313 then 17 else if k = 382 then 1 else 0)"
  by (simp add: demo_eeprom_def nth_list_update)

lemma demo_zero_links:
  "iwl_eeprom_query16 demo_eeprom 206 = 0" "iwl_eeprom_query16 demo_eeprom 204 = 0x80"
  by (simp_all add: iwl_eeprom_query16_def demo_nth le16_def)

lemma demo_addresses:
  "eeprom_indirect_address demo_eeprom EEPROM_MAC_ADDRESS = 0x2A"
  "eeprom_indirect_address demo_eeprom EEPROM_CALIB_ALL = 0"
  "eeprom_indirect_address demo_eeprom EEPROM_XTAL = 0x250"
  "eeprom_indirect_address demo_eeprom EEPROM_RAW_TEMPERATURE = 0x256"
  "eeprom_indirect_address demo_eeprom EEPROM_KELVIN_TEMPERATURE = 0x254"
  by (simp_all add: eeprom_indirect_address_def link_offset_def demo_zero_links)

lemma demo_band_addr:
  "b \<in> {1, 2, 3, 4, 5, 6, 7} \<Longrightarrow> eeprom_indirect_address demo_eeprom (band_addr demo_cfg b) =
     0x100 + ucast ([0, 28, 54, 78, 100, 112, 126 :: u8] ! (b - 1))"
  by (auto simp: eeprom_indirect_address_def link_offset_def demo_zero_links band_addr_def demo_cfg_def)

lemma demo_ok: "image_ok demo_cfg demo_eeprom"
  by (simp add: image_ok_def fits_def demo_addresses demo_band_addr band_array_def band_tables
    iwl_eeprom_band_6_def iwl_eeprom_band_7_def) (simp add: demo_cfg_def)

lemma demo_reference:
  "b \<in> {1, 2, 3, 4, 5, 6, 7} \<Longrightarrow> iwl_init_band_reference demo_cfg demo_eeprom b =
     (Some (0x100 + [0, 28, 54, 78, 100, 112, 126 :: nat] ! (b - 1)), band_array b)"
  unfolding iwl_init_band_reference_def Let_def band_addr_def[symmetric] iwl_eeprom_query_addr_def demo_band_addr
  by auto

lemma demo_parsed: "\<exists>d. iwl_parse_eeprom_data (Some demo_cfg) demo_mp (Some demo_block) demo_eeprom = Inr (Some d)"
proof -
  have "IWL_NUM_CHANNELS \<le> length (channels demo_block)" by (simp add: demo_block_def IWL_NUM_CHANNELS_def band_tables)
  moreover have "tx_of demo_cfg demo_eeprom \<noteq> 0" "rx_of demo_cfg demo_eeprom \<noteq> 0"
    by (simp_all add: tx_of_def rx_of_def demo_cfg_def)
  ultimately show ?thesis using parse_no_fault[OF demo_ok, of demo_block demo_mp] by auto
qed

lemma demo_spec:
  "map chan_id (spec_channels demo_cfg demo_eeprom [1]) = [(NL80211_BAND_2GHZ, 2412, 1)]"
  "map chan_id (spec_channels demo_cfg demo_eeprom [2, 3, 4, 5]) = [(NL80211_BAND_5GHZ, 5180, 36)]"
  by (simp_all add: spec_channels_def band_entries_def demo_reference band_array_def band_tables entry_flags_def
    demo_nth new_channel_def chan_id_def band_of_def ieee80211_channel_to_frequency_def bit_numeral_rec)

theorem eeprom_bands_exact_witness:
  "\<exists>d. iwl_parse_eeprom_data (Some demo_cfg) demo_mp (Some demo_block) demo_eeprom = Inr (Some d)
     \<and> map chan_id (band_slice d NL80211_BAND_2GHZ) = [(NL80211_BAND_2GHZ, 2412, 1)]
     \<and> map chan_id (band_slice d NL80211_BAND_5GHZ) = [(NL80211_BAND_5GHZ, 5180, 36)]"
  using demo_parsed eeprom_bands_exact demo_spec by metis

theorem eeprom_parse_no_fault_witness:
  "image_ok demo_cfg demo_eeprom \<and>
   (\<exists>r. iwl_parse_eeprom_data (Some demo_cfg) demo_mp (Some demo_block) demo_eeprom = Inr r \<and> r \<noteq> None)"
proof -
  have "IWL_NUM_CHANNELS \<le> length (channels demo_block)" by (simp add: demo_block_def IWL_NUM_CHANNELS_def band_tables)
  moreover have "tx_of demo_cfg demo_eeprom \<noteq> 0" "rx_of demo_cfg demo_eeprom \<noteq> 0"
    by (simp_all add: tx_of_def rx_of_def demo_cfg_def)
  ultimately show ?thesis using eeprom_parse_no_fault[OF demo_ok, of demo_block demo_mp] demo_ok by blast
qed

lemma demo_map_spec: "map_spec demo_cfg demo_eeprom = [new_channel 1 (1, 0x0B, 20), new_channel 3 (36, 0x09, 17)]"
  by (simp add: spec_channels_def band_entries_def demo_reference band_array_def band_tables entry_flags_def
    demo_nth bit_numeral_rec)

lemma opens_in: "opens eeprom info band k nums off q \<Longrightarrow> q \<in> set (map (\<lambda>num. (band, ucast num + off)) nums)"
  by (auto simp: opens_def)

theorem eeprom_ht40_exact_witness:
  "\<exists>d' n. iwl_init_channel_map demo_cfg demo_eeprom demo_block = Inr (d', n) \<and> n = 2
     \<and> \<not> bit (ch_flags (channels d' ! 1)) 4 \<and> bit (ch_flags (channels d' ! 1)) 5"
proof -
  obtain d' n where m: "iwl_init_channel_map demo_cfg demo_eeprom demo_block = Inr (d', n)"
    using channel_map_total[OF demo_ok, of demo_block] by (fastforce simp: demo_block_def IWL_NUM_CHANNELS_def band_tables)
  note r = channel_map_result[OF m]
  have "n = length (map_spec demo_cfg demo_eeprom)" using r by blast
  then have n: "n = 2" unfolding demo_map_spec by simp
  have "map chan_id (take n (channels d')) = map chan_id (map_spec demo_cfg demo_eeprom)" using r by blast
  then have "chan_id (channels d' ! 1) = (NL80211_BAND_5GHZ, 5180, 36)"
    unfolding demo_map_spec n by (cases "channels d'"; cases "tl (channels d')")
      (simp_all add: new_channel_def chan_id_def band_of_def ieee80211_channel_to_frequency_def)
  then have k: "key (channels d' ! 1) = (NL80211_BAND_5GHZ, 36)" by (simp add: chan_id_def key_def)
  have on: "ht40_on demo_cfg" by (simp add: ht40_on_def demo_cfg_def)
  have "ht40_of demo_cfg demo_eeprom 0 (NL80211_BAND_5GHZ, 36)"
    by (auto simp: ht40_of_def opens_def demo_reference band_array_def iwl_eeprom_band_7_def valid_at_def
      entry_flags_def demo_nth intro!: exI[of _ 0])
  moreover have "\<not> ht40_of demo_cfg demo_eeprom 4 (NL80211_BAND_5GHZ, 36)"
    by (auto simp: ht40_of_def band_array_def iwl_eeprom_band_7_def dest: opens_in)
  ultimately show ?thesis using eeprom_ht40_exact[OF m, of 1] m n on k by auto
qed

theorem eeprom_uninitialised_fields_witness:
  "\<exists>d. iwl_parse_eeprom_data (Some demo_cfg) demo_mp (Some demo_block) demo_eeprom = Inr (Some d)
     \<and> sku_cap_mimo_disabled d"
proof -
  obtain d where d: "iwl_parse_eeprom_data (Some demo_cfg) demo_mp (Some demo_block) demo_eeprom = Inr (Some d)"
    using demo_parsed by blast
  from eeprom_uninitialised_fields[OF d] d show ?thesis by (auto simp: demo_block_def)
qed

subsection \<open>Antennas and frequencies\<close>

lemma hweight8_table:
  "list_all (\<lambda>n. hweight8 (word_of_int n) = word_of_int (n mod 2 + n div 2 mod 2 + n div 4 mod 2 + n div 8 mod 2
     + n div 16 mod 2 + n div 32 mod 2 + n div 64 mod 2 + n div 128 mod 2)) [0..255]"
  by code_simp

lemma of_bool_bit: "int (of_bool (bit w i)) = uint w div 2 ^ i mod 2" for w :: "'a::len word"
  using bit_iff_odd[of "uint w" i] bit_uint_iff[of w i] bit_imp_le_length[of w i] by (auto simp: mod_2_eq_odd)

text \<open>
  The shift-and-mask population count of a chain mask is the number of its set bits.
\<close>

theorem hweight8_counts_bits: "hweight8 (ucast w) = of_nat (card {i. bit w i})" for w :: u8
proof -
  have e: "{..<8} \<inter> {i. bit w i} = {i. bit w i}" using bit_imp_le_length[of w] by auto
  have "(\<Sum>i<8. int (of_bool (bit w i))) = int (card ({..<8} \<inter> {i. bit w i}))" by simp
  then have "int (card {i. bit w i}) = (\<Sum>i<8. int (of_bool (bit w i)))" unfolding e by (rule sym)
  also have "\<dots> = (\<Sum>i<8. uint w div 2 ^ i mod 2)" by (simp only: of_bool_bit)
  finally have c: "int (card {i. bit w i}) = uint w mod 2 + uint w div 2 mod 2 + uint w div 4 mod 2 + uint w div 8 mod 2
      + uint w div 16 mod 2 + uint w div 32 mod 2 + uint w div 64 mod 2 + uint w div 128 mod 2"
    by (simp add: eval_nat_numeral)
  have "uint w \<in> set [0..255]" using uint_bounded[of w] by auto
  then have "hweight8 (word_of_int (uint w)) = word_of_int (int (card {i. bit w i}))"
    unfolding c by (rule hweight8_table[unfolded list_all_iff, rule_format])
  then show ?thesis by simp
qed

text \<open>
  The centre frequencies the code computes for the channel tables lie in the ranges the tables
  are annotated with (in MHz), fit 16 bits, and grow strictly through every 5 GHz table but the
  second, which wraps from 4.9 to 5.0 GHz numbering without losing the order of the frequencies.
\<close>

theorem table_frequencies:
  "let freqs = (\<lambda>b. map (\<lambda>num. ieee80211_channel_to_frequency (uint num) (band_of b)) (band_array b));
       within = (\<lambda>lo hi fs. list_all (\<lambda>f. lo \<le> f \<and> f \<le> hi) fs \<and> sorted_wrt (<) fs) in
   within 2412 2484 (freqs 1) \<and> within 4915 5080 (freqs 2) \<and> within 5170 5320 (freqs 3)
   \<and> within 5500 5700 (freqs 4) \<and> within 5725 5825 (freqs 5)"
  by code_simp

end
