(* ===== verification/Iwl_Io.thy ===== *)
theory Iwl_Io
  imports Iwl_Drv
begin

section \<open>Register access\<close>

text \<open>
  \<^verbatim>\<open>iwlwifi/pcie/trans.c\<close>, \<^verbatim>\<open>iwlwifi/iwl-io.c\<close>, \<^verbatim>\<open>iwlwifi/iwl-io.h\<close> and the register helpers of
  \<^verbatim>\<open>iwlwifi/pcie/internal.h\<close>: direct registers, the periphery window, device memory, waking the device
  under the register lock, and polling.

  The device itself is a parameter: a record of functions that say what a read or a write of a
  register and a delay do to its state. Taking the register lock, a spin lock with interrupts
  off, while it is held is the fault \<open>Deadlock\<close>; so is giving back a lock that is not held.
\<close>

subsection \<open>Device families in the order of the enumeration\<close>

primrec family_index :: "iwl_device_family \<Rightarrow> nat" where
  "family_index IWL_DEVICE_FAMILY_UNDEFINED = 0"
| "family_index IWL_DEVICE_FAMILY_1000 = 1"
| "family_index IWL_DEVICE_FAMILY_100 = 2"
| "family_index IWL_DEVICE_FAMILY_2000 = 3"
| "family_index IWL_DEVICE_FAMILY_2030 = 4"
| "family_index IWL_DEVICE_FAMILY_105 = 5"
| "family_index IWL_DEVICE_FAMILY_135 = 6"
| "family_index IWL_DEVICE_FAMILY_5000 = 7"
| "family_index IWL_DEVICE_FAMILY_5150 = 8"
| "family_index IWL_DEVICE_FAMILY_6000 = 9"
| "family_index IWL_DEVICE_FAMILY_6000i = 10"
| "family_index IWL_DEVICE_FAMILY_6005 = 11"
| "family_index IWL_DEVICE_FAMILY_6030 = 12"
| "family_index IWL_DEVICE_FAMILY_6050 = 13"
| "family_index IWL_DEVICE_FAMILY_6150 = 14"
| "family_index IWL_DEVICE_FAMILY_7000 = 15"
| "family_index IWL_DEVICE_FAMILY_8000 = 16"
| "family_index IWL_DEVICE_FAMILY_9000 = 17"
| "family_index IWL_DEVICE_FAMILY_A000 = 18"
| "family_index IWL_DEVICE_FAMILY_22000 = 19"
| "family_index IWL_DEVICE_FAMILY_22560 = 20"

lemma family_index_inj: "family_index a = family_index b \<Longrightarrow> a = b"
  by (cases a; cases b) simp_all

instantiation iwl_device_family :: linorder
begin

definition less_eq_iwl_device_family :: "iwl_device_family \<Rightarrow> iwl_device_family \<Rightarrow> bool" where
  "a \<le> b \<longleftrightarrow> family_index a \<le> family_index b"

definition less_iwl_device_family :: "iwl_device_family \<Rightarrow> iwl_device_family \<Rightarrow> bool" where
  "a < b \<longleftrightarrow> family_index a < family_index b"

instance
  by standard (auto simp: less_eq_iwl_device_family_def less_iwl_device_family_def intro: family_index_inj)

end

subsection \<open>State and sequencing\<close>

record 'd hw =
  hw_read32 :: "u32 \<Rightarrow> 'd \<Rightarrow> u32 \<times> 'd"
  hw_write32 :: "u32 \<Rightarrow> u32 \<Rightarrow> 'd \<Rightarrow> 'd"
  hw_write8 :: "u32 \<Rightarrow> u8 \<Rightarrow> 'd \<Rightarrow> 'd"
  hw_delay :: "nat \<Rightarrow> 'd \<Rightarrow> 'd"

record 'd trans =
  hw_base :: 'd
  reg_lock :: bool
  cmd_hold_nic_awake :: bool
  family :: iwl_device_family

type_synonym ('d, 'a) io = "'d trans \<Rightarrow> ('a \<times> 'd trans) run"

definition retIO :: "'a \<Rightarrow> ('d, 'a) io" where
  "retIO x s = Inr (x, s)"

definition bindIO :: "('d, 'a) io \<Rightarrow> ('a \<Rightarrow> ('d, 'b) io) \<Rightarrow> ('d, 'b) io" where
  "bindIO m k s = bindF (m s) (\<lambda>(x, s'). k x s')"

definition IOSimpleLockLockDisableInterrupt :: "('d, unit) io" where
  "IOSimpleLockLockDisableInterrupt s = (if reg_lock s then Inl Deadlock else Inr ((), s\<lparr>reg_lock := True\<rparr>))"

definition IOSimpleLockUnlockEnableInterrupt :: "('d, unit) io" where
  "IOSimpleLockUnlockEnableInterrupt s = (if reg_lock s then Inr ((), s\<lparr>reg_lock := False\<rparr>) else Inl Deadlock)"

definition IODelay :: "'d hw \<Rightarrow> nat \<Rightarrow> ('d, unit) io" where
  "IODelay hw us s = Inr ((), s\<lparr>hw_base := hw_delay hw us (hw_base s)\<rparr>)"

subsection \<open>pcie/trans.c: plain registers\<close>

definition iwl_trans_pcie_write8 :: "'d hw \<Rightarrow> u32 \<Rightarrow> u8 \<Rightarrow> ('d, unit) io" where
  "iwl_trans_pcie_write8 hw off val s = Inr ((), s\<lparr>hw_base := hw_write8 hw off val (hw_base s)\<rparr>)"

definition iwl_trans_pcie_write32 :: "'d hw \<Rightarrow> u32 \<Rightarrow> u32 \<Rightarrow> ('d, unit) io" where
  "iwl_trans_pcie_write32 hw off val s = Inr ((), s\<lparr>hw_base := hw_write32 hw off val (hw_base s)\<rparr>)"

definition iwl_trans_pcie_read32 :: "'d hw \<Rightarrow> u32 \<Rightarrow> ('d, u32) io" where
  "iwl_trans_pcie_read32 hw off s = (let (v, d) = hw_read32 hw off (hw_base s) in Inr (v, s\<lparr>hw_base := d\<rparr>))"

abbreviation HBUS_TARG_MEM_RADDR :: u32 where "HBUS_TARG_MEM_RADDR \<equiv> 0x40c"
abbreviation HBUS_TARG_MEM_WADDR :: u32 where "HBUS_TARG_MEM_WADDR \<equiv> 0x410"
abbreviation HBUS_TARG_MEM_WDAT :: u32 where "HBUS_TARG_MEM_WDAT \<equiv> 0x418"
abbreviation HBUS_TARG_MEM_RDAT :: u32 where "HBUS_TARG_MEM_RDAT \<equiv> 0x41c"
abbreviation HBUS_TARG_PRPH_WADDR :: u32 where "HBUS_TARG_PRPH_WADDR \<equiv> 0x444"
abbreviation HBUS_TARG_PRPH_RADDR :: u32 where "HBUS_TARG_PRPH_RADDR \<equiv> 0x448"
abbreviation HBUS_TARG_PRPH_WDAT :: u32 where "HBUS_TARG_PRPH_WDAT \<equiv> 0x44c"
abbreviation HBUS_TARG_PRPH_RDAT :: u32 where "HBUS_TARG_PRPH_RDAT \<equiv> 0x450"
abbreviation CSR_RESET :: u32 where "CSR_RESET \<equiv> 0x20"
abbreviation CSR_GP_CNTRL :: u32 where "CSR_GP_CNTRL \<equiv> 0x24"
abbreviation CSR_GP_CNTRL_REG_FLAG_MAC_CLOCK_READY :: u32 where "CSR_GP_CNTRL_REG_FLAG_MAC_CLOCK_READY \<equiv> 1"
abbreviation CSR_GP_CNTRL_REG_VAL_MAC_ACCESS_EN :: u32 where "CSR_GP_CNTRL_REG_VAL_MAC_ACCESS_EN \<equiv> 1"
abbreviation CSR_GP_CNTRL_REG_FLAG_MAC_ACCESS_REQ :: u32 where "CSR_GP_CNTRL_REG_FLAG_MAC_ACCESS_REQ \<equiv> 8"
abbreviation CSR_GP_CNTRL_REG_FLAG_GOING_TO_SLEEP :: u32 where "CSR_GP_CNTRL_REG_FLAG_GOING_TO_SLEEP \<equiv> 0x10"
abbreviation CSR_RESET_REG_FLAG_FORCE_NMI :: u32 where "CSR_RESET_REG_FLAG_FORCE_NMI \<equiv> 2"

definition prph_addr :: "u32 \<Rightarrow> u32" where
  "prph_addr reg = (reg AND 0x000FFFFF) OR push_bit 24 3"

definition iwl_trans_pcie_read_prph :: "'d hw \<Rightarrow> u32 \<Rightarrow> ('d, u32) io" where
  "iwl_trans_pcie_read_prph hw reg =
     bindIO (iwl_trans_pcie_write32 hw HBUS_TARG_PRPH_RADDR (prph_addr reg)) (\<lambda>_.
     iwl_trans_pcie_read32 hw HBUS_TARG_PRPH_RDAT)"

definition iwl_trans_pcie_write_prph :: "'d hw \<Rightarrow> u32 \<Rightarrow> u32 \<Rightarrow> ('d, unit) io" where
  "iwl_trans_pcie_write_prph hw addr val =
     bindIO (iwl_trans_pcie_write32 hw HBUS_TARG_PRPH_WADDR (prph_addr addr)) (\<lambda>_.
     iwl_trans_pcie_write32 hw HBUS_TARG_PRPH_WDAT val)"

subsection \<open>iwl-io.c: plain registers and polling\<close>

definition iwl_write8 :: "'d hw \<Rightarrow> u32 \<Rightarrow> u8 \<Rightarrow> ('d, unit) io" where
  "iwl_write8 hw off val = iwl_trans_pcie_write8 hw off val"

definition iwl_write32 :: "'d hw \<Rightarrow> u32 \<Rightarrow> u32 \<Rightarrow> ('d, unit) io" where
  "iwl_write32 hw off val = iwl_trans_pcie_write32 hw off val"

definition iwl_write64 :: "'d hw \<Rightarrow> u64 \<Rightarrow> u64 \<Rightarrow> ('d, unit) io" where
  "iwl_write64 hw off val =
     bindIO (iwl_trans_pcie_write32 hw (ucast off) (ucast val)) (\<lambda>_.
     iwl_trans_pcie_write32 hw (ucast off + 4) (ucast (drop_bit 32 val)))"

definition iwl_read32 :: "'d hw \<Rightarrow> u32 \<Rightarrow> ('d, u32) io" where
  "iwl_read32 hw off = iwl_trans_pcie_read32 hw off"

text \<open>
  The loop the three polling functions share: read, compare, delay, until \<open>t\<close> reaches the time limit.
  The result is the time or the error.
\<close>

abbreviation IWL_POLL_INTERVAL :: nat where "IWL_POLL_INTERVAL \<equiv> 10"

function poll_loop :: "'d hw \<Rightarrow> ('d, u32) io \<Rightarrow> (u32 \<Rightarrow> bool) \<Rightarrow> int \<Rightarrow> int \<Rightarrow> ('d, errno + int) io" where
  "poll_loop hw rd hit timeout t s =
     bindF (rd s) (\<lambda>(v, s).
       if hit v then Inr (Inr t, s)
       else bindF (IODelay hw IWL_POLL_INTERVAL s) (\<lambda>(_, s).
         if t + int IWL_POLL_INTERVAL < timeout then poll_loop hw rd hit timeout (t + int IWL_POLL_INTERVAL) s
         else Inr (Inl ETIMEDOUT, s)))"
  by pat_completeness auto
termination
  by (relation "measure (\<lambda>(_, _, _, timeout, t, _). nat (timeout - t))") auto

declare poll_loop.simps [simp del]

definition iwl_poll_bit :: "'d hw \<Rightarrow> u32 \<Rightarrow> u32 \<Rightarrow> u32 \<Rightarrow> int \<Rightarrow> ('d, errno + int) io" where
  "iwl_poll_bit hw addr bits msk timeout =
     poll_loop hw (iwl_read32 hw addr) (\<lambda>v. v AND msk = bits AND msk) timeout 0"

subsection \<open>pcie/internal.h and the register lock\<close>

definition pcie_set_bits_mask :: "'d hw \<Rightarrow> u32 \<Rightarrow> u32 \<Rightarrow> u32 \<Rightarrow> ('d, unit) io" where
  "pcie_set_bits_mask hw reg msk val =
     bindIO (iwl_read32 hw reg) (\<lambda>v. iwl_write32 hw reg ((v AND NOT msk) OR val))"

definition pcie_clear_bit :: "'d hw \<Rightarrow> u32 \<Rightarrow> u32 \<Rightarrow> ('d, unit) io" where
  "pcie_clear_bit hw reg msk = pcie_set_bits_mask hw reg msk 0"

definition pcie_set_bit :: "'d hw \<Rightarrow> u32 \<Rightarrow> u32 \<Rightarrow> ('d, unit) io" where
  "pcie_set_bit hw reg msk = pcie_set_bits_mask hw reg msk msk"

definition iwl_trans_pcie_grab_nic_access :: "'d hw \<Rightarrow> ('d, bool) io" where
  "iwl_trans_pcie_grab_nic_access hw =
     bindIO IOSimpleLockLockDisableInterrupt (\<lambda>_ s.
       if cmd_hold_nic_awake s then Inr (True, s)
       else
         bindIO (pcie_set_bit hw CSR_GP_CNTRL CSR_GP_CNTRL_REG_FLAG_MAC_ACCESS_REQ) (\<lambda>_.
         bindIO (if family s \<ge> IWL_DEVICE_FAMILY_8000 then IODelay hw 2 else retIO ()) (\<lambda>_.
         bindIO (iwl_poll_bit hw CSR_GP_CNTRL CSR_GP_CNTRL_REG_VAL_MAC_ACCESS_EN
            (CSR_GP_CNTRL_REG_FLAG_MAC_CLOCK_READY OR CSR_GP_CNTRL_REG_FLAG_GOING_TO_SLEEP) 15000) (\<lambda>ret.
         case ret of
           Inl _ \<Rightarrow>
             bindIO (iwl_write32 hw CSR_RESET CSR_RESET_REG_FLAG_FORCE_NMI) (\<lambda>_.
             bindIO (iwl_read32 hw CSR_GP_CNTRL) (\<lambda>_.
             bindIO IOSimpleLockUnlockEnableInterrupt (\<lambda>_. retIO False)))
         | Inr _ \<Rightarrow> retIO True))) s)"

definition iwl_trans_pcie_release_nic_access :: "'d hw \<Rightarrow> ('d, unit) io" where
  "iwl_trans_pcie_release_nic_access hw s =
     (if cmd_hold_nic_awake s then IOSimpleLockUnlockEnableInterrupt s
      else bindIO (pcie_clear_bit hw CSR_GP_CNTRL CSR_GP_CNTRL_REG_FLAG_MAC_ACCESS_REQ) (\<lambda>_.
        IOSimpleLockUnlockEnableInterrupt) s)"

definition iwl_trans_pcie_set_bits_mask :: "'d hw \<Rightarrow> u32 \<Rightarrow> u32 \<Rightarrow> u32 \<Rightarrow> ('d, unit) io" where
  "iwl_trans_pcie_set_bits_mask hw reg msk val =
     bindIO IOSimpleLockLockDisableInterrupt (\<lambda>_.
     bindIO (pcie_set_bits_mask hw reg msk val) (\<lambda>_.
     IOSimpleLockUnlockEnableInterrupt))"

definition iwl_set_bit :: "'d hw \<Rightarrow> u32 \<Rightarrow> u32 \<Rightarrow> ('d, unit) io" where
  "iwl_set_bit hw reg msk = iwl_trans_pcie_set_bits_mask hw reg msk msk"

definition iwl_clear_bit :: "'d hw \<Rightarrow> u32 \<Rightarrow> u32 \<Rightarrow> ('d, unit) io" where
  "iwl_clear_bit hw reg msk = iwl_trans_pcie_set_bits_mask hw reg msk 0"

subsection \<open>Access while the device is kept awake\<close>

text \<open>
  Every function of this group has the same shape: a body between taking and giving back access
  to the device, and a value for the case that the device did not wake up.
\<close>

definition with_nic_access :: "'d hw \<Rightarrow> 'a \<Rightarrow> ('d, 'a) io \<Rightarrow> ('d, 'a) io" where
  "with_nic_access hw dflt body =
     bindIO (iwl_trans_pcie_grab_nic_access hw) (\<lambda>got.
       if got then bindIO body (\<lambda>x. bindIO (iwl_trans_pcie_release_nic_access hw) (\<lambda>_. retIO x))
       else retIO dflt)"

definition iwl_read_direct32 :: "'d hw \<Rightarrow> u32 \<Rightarrow> ('d, u32) io" where
  "iwl_read_direct32 hw reg = with_nic_access hw 0x5a5a5a5a (iwl_read32 hw reg)"

definition iwl_write_direct32 :: "'d hw \<Rightarrow> u32 \<Rightarrow> u32 \<Rightarrow> ('d, unit) io" where
  "iwl_write_direct32 hw reg val = with_nic_access hw () (iwl_write32 hw reg val)"

definition iwl_write_direct64 :: "'d hw \<Rightarrow> u64 \<Rightarrow> u64 \<Rightarrow> ('d, unit) io" where
  "iwl_write_direct64 hw reg val = with_nic_access hw () (iwl_write64 hw reg val)"

definition iwl_poll_direct_bit :: "'d hw \<Rightarrow> u32 \<Rightarrow> u32 \<Rightarrow> int \<Rightarrow> ('d, errno + int) io" where
  "iwl_poll_direct_bit hw addr msk timeout =
     poll_loop hw (iwl_read_direct32 hw addr) (\<lambda>v. v AND msk = msk) timeout 0"

definition iwl_read_prph_no_grab :: "'d hw \<Rightarrow> u32 \<Rightarrow> ('d, u32) io" where
  "iwl_read_prph_no_grab hw off = iwl_trans_pcie_read_prph hw off"

definition iwl_write_prph_no_grab :: "'d hw \<Rightarrow> u32 \<Rightarrow> u32 \<Rightarrow> ('d, unit) io" where
  "iwl_write_prph_no_grab hw off val = iwl_trans_pcie_write_prph hw off val"

definition iwl_write_prph64_no_grab :: "'d hw \<Rightarrow> u64 \<Rightarrow> u64 \<Rightarrow> ('d, unit) io" where
  "iwl_write_prph64_no_grab hw off val =
     bindIO (iwl_write_prph_no_grab hw (ucast off) (ucast (val AND 0xffffffff))) (\<lambda>_.
     iwl_write_prph_no_grab hw (ucast off + 4) (ucast (drop_bit 32 val)))"

definition iwl_read_prph :: "'d hw \<Rightarrow> u32 \<Rightarrow> ('d, u32) io" where
  "iwl_read_prph hw off = with_nic_access hw 0x5a5a5a5a (iwl_read_prph_no_grab hw off)"

definition iwl_write_prph :: "'d hw \<Rightarrow> u32 \<Rightarrow> u32 \<Rightarrow> ('d, unit) io" where
  "iwl_write_prph hw off val = with_nic_access hw () (iwl_write_prph_no_grab hw off val)"

definition iwl_poll_prph_bit :: "'d hw \<Rightarrow> u32 \<Rightarrow> u32 \<Rightarrow> u32 \<Rightarrow> int \<Rightarrow> ('d, errno + int) io" where
  "iwl_poll_prph_bit hw addr bits msk timeout =
     poll_loop hw (iwl_read_prph hw addr) (\<lambda>v. v AND msk = bits AND msk) timeout 0"

definition iwl_set_bits_prph :: "'d hw \<Rightarrow> u32 \<Rightarrow> u32 \<Rightarrow> ('d, unit) io" where
  "iwl_set_bits_prph hw off msk = with_nic_access hw ()
     (bindIO (iwl_read_prph_no_grab hw off) (\<lambda>v. iwl_write_prph_no_grab hw off (v OR msk)))"

definition iwl_set_bits_mask_prph :: "'d hw \<Rightarrow> u32 \<Rightarrow> u32 \<Rightarrow> u32 \<Rightarrow> ('d, unit) io" where
  "iwl_set_bits_mask_prph hw off bits msk = with_nic_access hw ()
     (bindIO (iwl_read_prph_no_grab hw off) (\<lambda>v. iwl_write_prph_no_grab hw off ((v AND msk) OR bits)))"

definition iwl_clear_bits_prph :: "'d hw \<Rightarrow> u32 \<Rightarrow> u32 \<Rightarrow> ('d, unit) io" where
  "iwl_clear_bits_prph hw off msk = with_nic_access hw ()
     (bindIO (iwl_read_prph_no_grab hw off) (\<lambda>v. iwl_write_prph_no_grab hw off (v AND NOT msk)))"

definition iwl_force_nmi :: "'d hw \<Rightarrow> ('d, unit) io" where
  "iwl_force_nmi hw s =
     (if family s < IWL_DEVICE_FAMILY_9000 then iwl_write_prph hw 0x00a01c30 0x80 s
      else iwl_write_prph hw 0x00a05c10 0xff000000 s)"

subsection \<open>Device memory\<close>

fun read_mem_loop :: "'d hw \<Rightarrow> nat \<Rightarrow> ('d, u32 list) io" where
  "read_mem_loop hw 0 = retIO []"
| "read_mem_loop hw (Suc n) = bindIO (iwl_read32 hw HBUS_TARG_MEM_RDAT) (\<lambda>v.
     bindIO (read_mem_loop hw n) (\<lambda>vs. retIO (v # vs)))"

definition iwl_trans_pcie_read_mem :: "'d hw \<Rightarrow> u32 \<Rightarrow> nat \<Rightarrow> ('d, errno + u32 list) io" where
  "iwl_trans_pcie_read_mem hw addr dwords = with_nic_access hw (Inl EBUSY)
     (bindIO (iwl_write32 hw HBUS_TARG_MEM_RADDR addr) (\<lambda>_.
      bindIO (read_mem_loop hw dwords) (\<lambda>vs. retIO (Inr vs))))"

fun write_mem_loop :: "'d hw \<Rightarrow> u32 list \<Rightarrow> ('d, unit) io" where
  "write_mem_loop hw [] = retIO ()"
| "write_mem_loop hw (v # vs) = bindIO (iwl_write32 hw HBUS_TARG_MEM_WDAT v) (\<lambda>_. write_mem_loop hw vs)"

text \<open>The buffer is \<open>None\<close> for NULL, which writes zeros.\<close>

definition iwl_trans_pcie_write_mem :: "'d hw \<Rightarrow> u32 \<Rightarrow> u32 list option \<Rightarrow> nat \<Rightarrow> ('d, errno option) io" where
  "iwl_trans_pcie_write_mem hw addr vals dwords =
     (case vals of
        Some vs \<Rightarrow> if length vs < dwords then (\<lambda>s. Inl OutOfBounds) else
          with_nic_access hw (Some EBUSY) (bindIO (iwl_write32 hw HBUS_TARG_MEM_WADDR addr) (\<lambda>_.
            bindIO (write_mem_loop hw (take dwords vs)) (\<lambda>_. retIO None)))
      | None \<Rightarrow>
          with_nic_access hw (Some EBUSY) (bindIO (iwl_write32 hw HBUS_TARG_MEM_WADDR addr) (\<lambda>_.
            bindIO (write_mem_loop hw (replicate dwords 0)) (\<lambda>_. retIO None))))"

definition iwl_trans_read_mem32 :: "'d hw \<Rightarrow> u32 \<Rightarrow> ('d, u32) io" where
  "iwl_trans_read_mem32 hw addr = bindIO (iwl_trans_pcie_read_mem hw addr 1) (\<lambda>r.
     retIO (case r of Inr (v # _) \<Rightarrow> v | _ \<Rightarrow> 0xa5a5a5a5))"

definition iwl_trans_write_mem32 :: "'d hw \<Rightarrow> u32 \<Rightarrow> u32 \<Rightarrow> ('d, errno option) io" where
  "iwl_trans_write_mem32 hw addr val = iwl_trans_pcie_write_mem hw addr (Some [val]) 1"

subsection \<open>Dumping the receive registers\<close>

text \<open>The lines of the log are pairs of a name (with the queue, where the line has one) and a value.\<close>

definition rfh_regs :: "(u32 \<times> string) list" where
  "rfh_regs = [(0xA09820, ''RFH_RXF_DMA_CFG''), (0xA09800, ''RFH_GEN_CFG''), (0xA09808, ''RFH_GEN_STATUS''),
     (0x1EB0, ''FH_TSSR_TX_STATUS_REG''), (0x1EB8, ''FH_TSSR_TX_ERROR_REG'')]"

fun rfh_queue_string :: "u32 \<Rightarrow> nat list \<Rightarrow> string option" where
  "rfh_queue_string cmd [] = None"
| "rfh_queue_string cmd (i # is) =
     (if cmd = 0xA08000 + of_nat i * 8 then Some ''RFH_Q_FRBDCB_BA_LSB''
      else if cmd = 0xA08080 + of_nat i * 4 then Some ''RFH_Q_FRBDCB_WIDX''
      else if cmd = 0xA080C0 + of_nat i * 4 then Some ''RFH_Q_FRBDCB_RIDX''
      else if cmd = 0xA08200 + of_nat i * 8 then Some ''RFH_Q_URBD_STTS_WPTR_LSB''
      else rfh_queue_string cmd is)"

definition get_rfh_string :: "u32 \<Rightarrow> string" where
  "get_rfh_string cmd = (case rfh_queue_string cmd [0..<16] of Some n \<Rightarrow> n
     | None \<Rightarrow> (case map_of rfh_regs cmd of Some n \<Rightarrow> n | None \<Rightarrow> ''UNKNOWN''))"

definition rfh_tbl :: "u32 list" where
  "rfh_tbl = [0xA09820, 0xA09800, 0xA09808, 0x1EB0, 0x1EB8]"

definition rfh_mq_tbl :: "(u32 \<times> bool) list" where
  "rfh_mq_tbl = [(0xA08000, True), (0xA08080, False), (0xA080C0, False), (0xA08200, True)]"

type_synonym log_line = "string \<times> nat option \<times> u32"

fun dump_regs ::
  "(u32 \<Rightarrow> ('d, u32) io) \<Rightarrow> (u32 \<Rightarrow> string) \<Rightarrow> (u32 \<times> nat option) list \<Rightarrow> ('d, log_line list) io" where
  "dump_regs rd name [] = retIO []"
| "dump_regs rd name ((a, q) # as) =
     bindIO (rd a) (\<lambda>v. bindIO (dump_regs rd name as) (\<lambda>ls. retIO ((name a, q, v) # ls)))"

definition rfh_addrs :: "nat \<Rightarrow> (u32 \<times> nat option) list" where
  "rfh_addrs num_q = map (\<lambda>a. (a, None)) rfh_tbl @
     concat (map (\<lambda>(a, is64). map (\<lambda>q. (a + of_nat q * (if is64 then 8 else 4), Some q)) [0..<num_q]) rfh_mq_tbl)"

definition iwl_dump_rfh :: "'d hw \<Rightarrow> nat \<Rightarrow> ('d, log_line list) io" where
  "iwl_dump_rfh hw num_q = dump_regs (iwl_read_prph hw) get_rfh_string (rfh_addrs num_q)"

definition fh_regs :: "(u32 \<times> string) list" where
  "fh_regs = [(0x1BC0, ''FH_RSCSR_CHNL0_STTS_WPTR_REG''), (0x1BC4, ''FH_RSCSR_CHNL0_RBDCB_BASE_REG''),
     (0x1BC8, ''FH_RSCSR_CHNL0_WPTR''), (0x1C00, ''FH_MEM_RCSR_CHNL0_CONFIG_REG''),
     (0x1C40, ''FH_MEM_RSSR_SHARED_CTRL_REG''), (0x1C44, ''FH_MEM_RSSR_RX_STATUS_REG''),
     (0x1C48, ''FH_MEM_RSSR_RX_ENABLE_ERR_IRQ2DRV''), (0x1EB0, ''FH_TSSR_TX_STATUS_REG''),
     (0x1EB8, ''FH_TSSR_TX_ERROR_REG'')]"

definition get_fh_string :: "u32 \<Rightarrow> string" where
  "get_fh_string cmd = (case map_of fh_regs cmd of Some n \<Rightarrow> n | None \<Rightarrow> ''UNKNOWN'')"

definition fh_tbl :: "u32 list" where
  "fh_tbl = [0x1BC0, 0x1BC4, 0x1BC8, 0x1C00, 0x1C40, 0x1C44, 0x1C48, 0x1EB0, 0x1EB8]"

definition iwl_dump_fh :: "'d hw \<Rightarrow> bool \<Rightarrow> nat \<Rightarrow> ('d, log_line list) io" where
  "iwl_dump_fh hw mq_rx_supported num_q =
     (if mq_rx_supported then iwl_dump_rfh hw num_q
      else dump_regs (iwl_read_direct32 hw) get_fh_string (map (\<lambda>a. (a, None)) fh_tbl))"

end
