(* ===== verification/Io_Access.thy ===== *)
theory Io_Access
  imports Iwl_Io
begin

section \<open>Register access: polling, the register lock, the periphery window\<close>

text \<open>
  The polling loops equal a search through the reads they make (one locale for the three of them),
  every access function gives the register lock back whatever the device answers, and on a device
  whose periphery window works the bit functions change exactly the bits they are asked to.
\<close>

subsection \<open>Actions that touch the device only\<close>

definition quiet :: "('d, 'a) io \<Rightarrow> bool" where
  "quiet m \<longleftrightarrow> (\<forall>s. \<exists>x d. m s = Inr (x, s\<lparr>hw_base := d\<rparr>))"

text \<open>\<open>releases m s\<close>: from \<open>s\<close> the action returns, and everything but the device is as before.\<close>

definition releases :: "('d, 'a) io \<Rightarrow> 'd trans \<Rightarrow> bool" where
  "releases m s \<longleftrightarrow> (\<exists>x d. m s = Inr (x, s\<lparr>hw_base := d\<rparr>))"

named_theorems quiet_intros \<open>actions that touch the device only\<close>

lemma bindIO_eq_Inr: "bindIO m k s = Inr r \<longleftrightarrow> (\<exists>x s'. m s = Inr (x, s') \<and> k x s' = Inr r)"
  by (auto simp: bindIO_def bindF_eq_Inr)

lemma bindIO_Inr: "m s = Inr (x, s') \<Longrightarrow> bindIO m k s = k x s'"
  by (simp add: bindIO_def)

lemma bindIO_assoc: "bindIO (bindIO m k) h = bindIO m (\<lambda>x. bindIO (k x) h)"
  by (rule ext) (auto simp: bindIO_def bindF_def split: sum.splits prod.splits)

lemma quietI: "(\<And>s. \<exists>x d. m s = Inr (x, s\<lparr>hw_base := d\<rparr>)) \<Longrightarrow> quiet m"
  by (simp add: quiet_def)

lemma same_device: "s\<lparr>hw_base := hw_base s\<rparr> = s"
  by simp

lemma quiet_ret [quiet_intros]: "quiet (retIO x)"
  unfolding quiet_def retIO_def by (metis same_device)

lemma quiet_bind [quiet_intros]: "quiet m \<Longrightarrow> (\<And>x. quiet (k x)) \<Longrightarrow> quiet (bindIO m k)"
  unfolding quiet_def bindIO_def
proof
  fix s assume m: "\<forall>s. \<exists>x d. m s = Inr (x, s\<lparr>hw_base := d\<rparr>)" and k: "\<And>x. \<forall>s. \<exists>y d. k x s = Inr (y, s\<lparr>hw_base := d\<rparr>)"
  from m obtain x d where 1: "m s = Inr (x, s\<lparr>hw_base := d\<rparr>)" by blast
  from k obtain y e where 2: "k x (s\<lparr>hw_base := d\<rparr>) = Inr (y, (s\<lparr>hw_base := d\<rparr>)\<lparr>hw_base := e\<rparr>)" by blast
  then show "\<exists>x d. bindF (m s) (\<lambda>(x, s'). k x s') = Inr (x, s\<lparr>hw_base := d\<rparr>)" using 1 by auto
qed

lemma quiet_prims [quiet_intros]:
  "quiet (IODelay hw us)" "quiet (iwl_read32 hw reg)" "quiet (iwl_write32 hw reg v)"
  "quiet (iwl_trans_pcie_read32 hw reg)" "quiet (iwl_trans_pcie_write32 hw reg v)" "quiet (iwl_write8 hw reg b)"
  by (auto simp: quiet_def IODelay_def iwl_read32_def iwl_write32_def iwl_write8_def iwl_trans_pcie_write8_def
    iwl_trans_pcie_read32_def iwl_trans_pcie_write32_def split: prod.splits)

lemma quiet_composed [quiet_intros]:
  "quiet (iwl_write64 hw off v64)" "quiet (iwl_read_prph_no_grab hw reg)" "quiet (iwl_write_prph_no_grab hw reg v)"
  "quiet (pcie_set_bits_mask hw reg msk v)" "quiet (pcie_set_bit hw reg msk)" "quiet (pcie_clear_bit hw reg msk)"
  unfolding iwl_write64_def iwl_read_prph_no_grab_def iwl_trans_pcie_read_prph_def iwl_write_prph_no_grab_def
    iwl_trans_pcie_write_prph_def pcie_set_bit_def pcie_clear_bit_def pcie_set_bits_mask_def
  by (intro quiet_intros)+

lemma quiet_write_prph64 [quiet_intros]: "quiet (iwl_write_prph64_no_grab hw off64 v64)"
  unfolding iwl_write_prph64_no_grab_def by (intro quiet_intros)

lemma quiet_read_mem_loop [quiet_intros]: "quiet (read_mem_loop hw n)"
  by (induction n) (auto intro!: quiet_intros)

lemma quiet_write_mem_loop [quiet_intros]: "quiet (write_mem_loop hw vs)"
  by (induction vs) (auto intro!: quiet_intros)

lemma quiet_releases: "quiet m \<Longrightarrow> releases m s"
  by (simp add: quiet_def releases_def)

subsection \<open>Polling\<close>

text \<open>
  What one round of the loop reads and where it leaves the state, and how many rounds there are:
  at least one, and one for each interval that starts before the time limit.
\<close>

definition poll_val :: "('d, u32) io \<Rightarrow> 'd trans \<Rightarrow> u32" where
  "poll_val rd s = (case rd s of Inr (v, _) \<Rightarrow> v | Inl _ \<Rightarrow> 0)"

definition poll_read :: "('d, u32) io \<Rightarrow> 'd trans \<Rightarrow> 'd trans" where
  "poll_read rd s = (case rd s of Inr (_, s') \<Rightarrow> s' | Inl _ \<Rightarrow> s)"

definition poll_step :: "'d hw \<Rightarrow> ('d, u32) io \<Rightarrow> 'd trans \<Rightarrow> 'd trans" where
  "poll_step hw rd s = (poll_read rd s)\<lparr>hw_base := hw_delay hw IWL_POLL_INTERVAL (hw_base (poll_read rd s))\<rparr>"

definition poll_tries :: "int \<Rightarrow> nat" where
  "poll_tries timeout = nat (max 1 ((timeout + 9) div 10))"

text \<open>The loop as a search for the first of these reads that has the wanted bits.\<close>

definition poll_spec ::
  "'d hw \<Rightarrow> ('d, u32) io \<Rightarrow> (u32 \<Rightarrow> bool) \<Rightarrow> nat \<Rightarrow> 'd trans \<Rightarrow> (errno + int) \<times> 'd trans" where
  "poll_spec hw rd hit n s =
     (case find (\<lambda>k. hit (poll_val rd ((poll_step hw rd ^^ k) s))) [0..<n] of
        Some k \<Rightarrow> (Inr (10 * int k), poll_read rd ((poll_step hw rd ^^ k) s))
      | None \<Rightarrow> (Inl ETIMEDOUT, (poll_step hw rd ^^ n) s))"

locale device_read =
  fixes hw :: "'d hw" and rd :: "('d, u32) io" and ready :: "'d trans \<Rightarrow> bool"
  assumes rd_returns: "ready s \<Longrightarrow> \<exists>v s'. rd s = Inr (v, s') \<and> ready s'"
    and ready_device: "ready s \<Longrightarrow> ready (s\<lparr>hw_base := d\<rparr>)"
begin

lemma rd_eq: "ready s \<Longrightarrow> rd s = Inr (poll_val rd s, poll_read rd s) \<and> ready (poll_read rd s)"
  using rd_returns[of s] by (auto simp: poll_val_def poll_read_def)

lemma ready_step: "ready s \<Longrightarrow> ready (poll_step hw rd s)"
  unfolding poll_step_def using rd_eq ready_device by blast

lemma round:
  assumes "ready s"
  shows "poll_loop hw rd hit timeout t s =
    (if hit (poll_val rd s) then Inr (Inr t, poll_read rd s)
     else if t + 10 < timeout then poll_loop hw rd hit timeout (t + 10) (poll_step hw rd s)
     else Inr (Inl ETIMEDOUT, poll_step hw rd s))"
  using rd_eq[OF assms] by (subst poll_loop.simps) (simp add: IODelay_def poll_step_def)

definition shifted :: "int \<Rightarrow> (errno + int) \<times> 'd trans \<Rightarrow> (errno + int) \<times> 'd trans" where
  "shifted t r = (map_sum id ((+) t) (fst r), snd r)"

lemma shifted_0: "shifted 0 r = r"
  by (cases r; cases "fst r") (auto simp: shifted_def)

lemma shifted_simps:
  "shifted t (Inr k, s) = (Inr (t + k), s)" "shifted t (Inl e, s) = (Inl e, s)"
  "shifted a (shifted b r) = shifted (a + b) r" "poll_spec hw rd hit 0 s = (Inl ETIMEDOUT, s)"
  by (auto simp: shifted_def poll_spec_def) (cases "fst r"; simp)

lemma find_shift: "find P [0..<Suc n] = (if P 0 then Some 0 else map_option Suc (find (P \<circ> Suc) [0..<n]))"
proof -
  have "find Q (map Suc xs) = map_option Suc (find (Q \<circ> Suc) xs)" for Q xs by (induction xs) auto
  then show ?thesis by (simp add: upt_conv_Cons map_Suc_upt[symmetric] del: upt_Suc)
qed

lemma spec_Suc:
  "poll_spec hw rd hit (Suc n) s =
     (if hit (poll_val rd s) then (Inr 0, poll_read rd s) else shifted 10 (poll_spec hw rd hit n (poll_step hw rd s)))"
  by (auto simp: poll_spec_def find_shift comp_def funpow_swap1 shifted_def split: option.splits simp del: upt_Suc)

lemma loop_is_search:
  assumes "ready s"
  shows "poll_loop hw rd hit timeout t s = Inr (shifted t (poll_spec hw rd hit (poll_tries (timeout - t)) s))"
  using assms
proof (induction "nat (timeout - t)" arbitrary: t s rule: less_induct)
  case less
  obtain n where n: "poll_tries (timeout - t) = Suc n" by (cases "poll_tries (timeout - t)") (auto simp: poll_tries_def)
  have "n = (if t + 10 < timeout then poll_tries (timeout - (t + 10)) else 0)"
    using n by (auto simp: poll_tries_def)
  moreover have "t + 10 < timeout \<Longrightarrow> poll_loop hw rd hit timeout (t + 10) (poll_step hw rd s) =
      Inr (shifted (t + 10) (poll_spec hw rd hit (poll_tries (timeout - (t + 10))) (poll_step hw rd s)))"
    using less.hyps[of "t + 10" "poll_step hw rd s"] ready_step[OF less.prems] by simp
  ultimately show ?case
    using less.prems by (simp add: round spec_Suc n shifted_simps)
qed

lemma search: "ready s \<Longrightarrow> poll_loop hw rd hit timeout 0 s = Inr (poll_spec hw rd hit (poll_tries timeout) s)"
  using loop_is_search[of s hit timeout 0] by (simp add: shifted_0)

lemma ready_funpow: "ready s \<Longrightarrow> ready ((poll_step hw rd ^^ k) s)"
  by (induction k) (auto intro: ready_step)

lemma search_ready: "ready s \<Longrightarrow> ready (snd (poll_spec hw rd hit n s))"
  using ready_funpow rd_eq by (auto simp: poll_spec_def split: option.splits)

end

subsection \<open>The register lock\<close>

text \<open>\<open>beside s0 s\<close>: \<open>s\<close> differs from \<open>s0\<close> in the device at most.\<close>

definition beside :: "'d trans \<Rightarrow> 'd trans \<Rightarrow> bool" where
  "beside s0 s \<longleftrightarrow> (\<exists>d. s = s0\<lparr>hw_base := d\<rparr>)"

lemma beside_refl: "beside s s"
  unfolding beside_def by (metis same_device)

lemma beside_device: "beside s0 s \<Longrightarrow> beside s0 (s\<lparr>hw_base := d\<rparr>)"
  by (auto simp: beside_def)

lemma beside_trans: "beside a b \<Longrightarrow> beside b c \<Longrightarrow> beside a c"
  by (auto simp: beside_def)

lemma beside_fields: "beside s0 s \<Longrightarrow> reg_lock s = reg_lock s0 \<and> cmd_hold_nic_awake s = cmd_hold_nic_awake s0 \<and> family s = family s0"
  by (auto simp: beside_def)

lemma releases_beside: "releases m s \<longleftrightarrow> (\<exists>x s'. m s = Inr (x, s') \<and> beside s s')"
  by (auto simp: releases_def beside_def)

lemma quiet_returns: "quiet m \<Longrightarrow> \<exists>x s'. m s = Inr (x, s') \<and> beside s s'"
  using quiet_releases releases_beside by blast

interpretation poll_csr: device_read hw "iwl_read32 hw reg" "beside s0" for hw reg s0
  by unfold_locales (use quiet_returns[OF quiet_prims(2)] beside_trans in blast, rule beside_device)

lemma quiet_poll_bit [quiet_intros]: "quiet (iwl_poll_bit hw reg bits msk timeout)"
proof (rule quietI)
  fix s
  have "iwl_poll_bit hw reg bits msk timeout s = Inr (poll_spec hw (iwl_read32 hw reg)
      (\<lambda>v. v AND msk = bits AND msk) (poll_tries timeout) s)"
    unfolding iwl_poll_bit_def by (rule poll_csr.search[OF beside_refl])
  moreover have "beside s (snd (poll_spec hw (iwl_read32 hw reg) (\<lambda>v. v AND msk = bits AND msk) (poll_tries timeout) s))"
    by (rule poll_csr.search_ready[OF beside_refl])
  ultimately show "\<exists>x d. iwl_poll_bit hw reg bits msk timeout s = Inr (x, s\<lparr>hw_base := d\<rparr>)"
    unfolding beside_def by (metis prod.collapse)
qed

lemma grab_locked: "reg_lock s \<Longrightarrow> iwl_trans_pcie_grab_nic_access hw s = Inl Deadlock"
  by (simp add: iwl_trans_pcie_grab_nic_access_def bindIO_def IOSimpleLockLockDisableInterrupt_def)

text \<open>Taking access succeeds with the lock held or fails with the lock given back.\<close>

lemma grab_cases:
  assumes "\<not> reg_lock s"
  shows "\<exists>d. iwl_trans_pcie_grab_nic_access hw s = Inr (True, s\<lparr>hw_base := d, reg_lock := True\<rparr>)
     \<or> iwl_trans_pcie_grab_nic_access hw s = Inr (False, s\<lparr>hw_base := d\<rparr>)"
proof (cases "cmd_hold_nic_awake s")
  case True
  have "s\<lparr>reg_lock := True\<rparr> = s\<lparr>hw_base := hw_base s, reg_lock := True\<rparr>" by simp
  with True assms show ?thesis
    unfolding iwl_trans_pcie_grab_nic_access_def bindIO_def IOSimpleLockLockDisableInterrupt_def
    by (auto intro!: exI[of _ "hw_base s"])
next
  case False
  let ?s = "s\<lparr>reg_lock := True\<rparr>"
  define pre where "pre = bindIO (pcie_set_bit hw CSR_GP_CNTRL CSR_GP_CNTRL_REG_FLAG_MAC_ACCESS_REQ) (\<lambda>_.
      bindIO (if family ?s \<ge> IWL_DEVICE_FAMILY_8000 then IODelay hw 2 else retIO ()) (\<lambda>_.
      iwl_poll_bit hw CSR_GP_CNTRL CSR_GP_CNTRL_REG_VAL_MAC_ACCESS_EN
        (CSR_GP_CNTRL_REG_FLAG_MAC_CLOCK_READY OR CSR_GP_CNTRL_REG_FLAG_GOING_TO_SLEEP) 15000))"
  define post where "post = bindIO (iwl_write32 hw CSR_RESET CSR_RESET_REG_FLAG_FORCE_NMI) (\<lambda>_. iwl_read32 hw CSR_GP_CNTRL)"
  have qu: "quiet pre" "quiet post" unfolding pre_def post_def by (auto intro!: quiet_intros)
  from qu(1) obtain ret d where p: "pre ?s = Inr (ret, ?s\<lparr>hw_base := d\<rparr>)" unfolding quiet_def by blast
  from qu(2) obtain x d' where q: "post (?s\<lparr>hw_base := d\<rparr>) = Inr (x, ?s\<lparr>hw_base := d'\<rparr>)"
    unfolding quiet_def by (metis trans.surjective trans.update_convs(1))
  have "iwl_trans_pcie_grab_nic_access hw s = bindIO pre (\<lambda>ret. case ret of
      Inl _ \<Rightarrow> bindIO post (\<lambda>_. bindIO IOSimpleLockUnlockEnableInterrupt (\<lambda>_. retIO False)) | Inr _ \<Rightarrow> retIO True) ?s"
    using False assms unfolding pre_def post_def bindIO_assoc
    by (simp add: iwl_trans_pcie_grab_nic_access_def bindIO_def[of IOSimpleLockLockDisableInterrupt]
      IOSimpleLockLockDisableInterrupt_def)
  also have "\<dots> = (case ret of Inl _ \<Rightarrow> Inr (False, s\<lparr>hw_base := d'\<rparr>) | Inr _ \<Rightarrow> Inr (True, s\<lparr>hw_base := d, reg_lock := True\<rparr>))"
    unfolding bindIO_Inr[of pre, OF p] using assms
    by (cases ret) (simp_all add: bindIO_Inr[of post, OF q] bindIO_def[of IOSimpleLockUnlockEnableInterrupt]
      IOSimpleLockUnlockEnableInterrupt_def retIO_def)
  finally show ?thesis by (cases ret) auto
qed

lemma unlock_again: "\<not> reg_lock s \<Longrightarrow> s\<lparr>hw_base := d, reg_lock := False\<rparr> = s\<lparr>hw_base := d\<rparr>"
  by (cases s) simp

lemma release_unlocks:
  assumes "reg_lock s"
  shows "\<exists>d. iwl_trans_pcie_release_nic_access hw s = Inr ((), s\<lparr>hw_base := d, reg_lock := False\<rparr>)"
proof (cases "cmd_hold_nic_awake s")
  case True
  with assms show ?thesis
    by (auto simp: iwl_trans_pcie_release_nic_access_def IOSimpleLockUnlockEnableInterrupt_def intro!: exI[of _ "hw_base s"])
next
  case False
  obtain d where "pcie_clear_bit hw CSR_GP_CNTRL CSR_GP_CNTRL_REG_FLAG_MAC_ACCESS_REQ s = Inr ((), s\<lparr>hw_base := d\<rparr>)"
    using quiet_composed(6)[unfolded quiet_def] by (metis old.unit.exhaust)
  with False assms show ?thesis
    by (auto simp: iwl_trans_pcie_release_nic_access_def bindIO_def IOSimpleLockUnlockEnableInterrupt_def
      intro!: exI[of _ d])
qed

lemma with_access_releases:
  assumes "quiet body" and "\<not> reg_lock s"
  shows "releases (with_nic_access hw dflt body) s"
proof -
  from grab_cases[OF assms(2), of hw] obtain d where
    "iwl_trans_pcie_grab_nic_access hw s = Inr (True, s\<lparr>hw_base := d, reg_lock := True\<rparr>)
     \<or> iwl_trans_pcie_grab_nic_access hw s = Inr (False, s\<lparr>hw_base := d\<rparr>)" by blast
  then show ?thesis
  proof
    let ?s = "s\<lparr>hw_base := d, reg_lock := True\<rparr>"
    assume g: "iwl_trans_pcie_grab_nic_access hw s = Inr (True, ?s)"
    from assms(1) obtain x d1 where b: "body ?s = Inr (x, ?s\<lparr>hw_base := d1\<rparr>)" unfolding quiet_def by blast
    obtain d2 where "iwl_trans_pcie_release_nic_access hw (?s\<lparr>hw_base := d1\<rparr>) =
        Inr ((), (?s\<lparr>hw_base := d1\<rparr>)\<lparr>hw_base := d2, reg_lock := False\<rparr>)"
      using release_unlocks[of "?s\<lparr>hw_base := d1\<rparr>" hw] by auto
    with g b assms(2) show ?thesis by (auto simp: with_nic_access_def bindIO_def retIO_def releases_def unlock_again)
  next
    assume "iwl_trans_pcie_grab_nic_access hw s = Inr (False, s\<lparr>hw_base := d\<rparr>)"
    then show ?thesis by (auto simp: with_nic_access_def bindIO_def retIO_def releases_def)
  qed
qed

lemma with_access_locked: "reg_lock s \<Longrightarrow> with_nic_access hw dflt body s = Inl Deadlock"
  by (simp add: with_nic_access_def bindIO_def grab_locked)

lemma set_bits_mask_releases: "\<not> reg_lock s \<Longrightarrow> releases (iwl_trans_pcie_set_bits_mask hw reg msk v) s"
proof -
  assume "\<not> reg_lock s"
  moreover obtain d where "pcie_set_bits_mask hw reg msk v (s\<lparr>reg_lock := True\<rparr>) = Inr ((), (s\<lparr>reg_lock := True\<rparr>)\<lparr>hw_base := d\<rparr>)"
    using quiet_composed(4)[unfolded quiet_def] by (metis old.unit.exhaust)
  ultimately show ?thesis
    by (auto simp: iwl_trans_pcie_set_bits_mask_def bindIO_def IOSimpleLockLockDisableInterrupt_def
      IOSimpleLockUnlockEnableInterrupt_def releases_def unlock_again)
qed

lemma set_bits_mask_locked: "reg_lock s \<Longrightarrow> iwl_trans_pcie_set_bits_mask hw reg msk v s = Inl Deadlock"
  by (simp add: iwl_trans_pcie_set_bits_mask_def bindIO_def IOSimpleLockLockDisableInterrupt_def)

lemma with_access_returns:
  assumes "quiet body" and "\<not> reg_lock s0 \<and> beside s0 s"
  shows "\<exists>v s'. with_nic_access hw dflt body s = Inr (v, s') \<and> (\<not> reg_lock s0 \<and> beside s0 s')"
proof -
  from assms(2) have "\<not> reg_lock s" using beside_fields by blast
  from with_access_releases[OF assms(1) this] assms(2) show ?thesis
    unfolding releases_beside using beside_trans by blast
qed

text \<open>Reading through the periphery window or a direct register is a device read when the lock is free.\<close>

interpretation poll_direct: device_read hw "iwl_read_direct32 hw reg" "\<lambda>s. \<not> reg_lock s0 \<and> beside s0 s" for hw reg s0
  by unfold_locales (unfold iwl_read_direct32_def, rule with_access_returns, auto intro: quiet_intros beside_device)

interpretation poll_prph: device_read hw "iwl_read_prph hw reg" "\<lambda>s. \<not> reg_lock s0 \<and> beside s0 s" for hw reg s0
  by unfold_locales (unfold iwl_read_prph_def, rule with_access_returns, auto intro: quiet_intros beside_device)

lemma poll_direct_releases: "\<not> reg_lock s \<Longrightarrow> releases (iwl_poll_direct_bit hw reg msk timeout) s"
  unfolding iwl_poll_direct_bit_def releases_beside
  using poll_direct.search[of s s hw reg] poll_direct.search_ready[of s s hw reg] beside_refl by (metis prod.collapse)

lemma poll_prph_releases: "\<not> reg_lock s \<Longrightarrow> releases (iwl_poll_prph_bit hw reg bits msk timeout) s"
  unfolding iwl_poll_prph_bit_def releases_beside
  using poll_prph.search[of s s hw reg] poll_prph.search_ready[of s s hw reg] beside_refl by (metis prod.collapse)

subsection \<open>The periphery window\<close>

text \<open>
  What the driver relies on: an address register selects the periphery register that the data
  register then reads or writes, and nothing else touches the periphery registers, seen through
  \<open>view\<close>.
\<close>

definition prph_device :: "'d hw \<Rightarrow> ('d \<Rightarrow> u32 \<Rightarrow> u32) \<Rightarrow> bool" where
  "prph_device hw view \<longleftrightarrow>
     (\<forall>d r. fst (hw_read32 hw HBUS_TARG_PRPH_RDAT (hw_write32 hw HBUS_TARG_PRPH_RADDR (prph_addr r) d)) =
        view d (r AND 0x000FFFFF))
     \<and> (\<forall>d r v. view (hw_write32 hw HBUS_TARG_PRPH_WDAT v (hw_write32 hw HBUS_TARG_PRPH_WADDR (prph_addr r) d)) =
        (view d)(r AND 0x000FFFFF := v))
     \<and> (\<forall>d a. view (snd (hw_read32 hw a d)) = view d)
     \<and> (\<forall>d a v. a \<noteq> HBUS_TARG_PRPH_WDAT \<longrightarrow> view (hw_write32 hw a v d) = view d)
     \<and> (\<forall>d us. view (hw_delay hw us d) = view d)"

text \<open>Actions that leave the periphery registers alone.\<close>

definition still :: "('d \<Rightarrow> u32 \<Rightarrow> u32) \<Rightarrow> ('d, 'a) io \<Rightarrow> bool" where
  "still view m \<longleftrightarrow> (\<forall>s x s'. m s = Inr (x, s') \<longrightarrow> view (hw_base s') = view (hw_base s))"

lemma still_bind: "still view m \<Longrightarrow> (\<And>x. still view (k x)) \<Longrightarrow> still view (bindIO m k)"
  unfolding still_def bindIO_eq_Inr by metis

lemma still_bind_state: "still view m \<Longrightarrow> (\<And>x s s' y. k x s = Inr (y, s') \<Longrightarrow> view (hw_base s') = view (hw_base s)) \<Longrightarrow> still view (bindIO m k)"
  unfolding still_def bindIO_eq_Inr by metis

lemma still_prims:
  "still view (retIO x)" "still view IOSimpleLockLockDisableInterrupt" "still view IOSimpleLockUnlockEnableInterrupt"
  "prph_device hw view \<Longrightarrow> still view (IODelay hw us)"
  "prph_device hw view \<Longrightarrow> still view (iwl_read32 hw reg)"
  "prph_device hw view \<Longrightarrow> reg \<noteq> HBUS_TARG_PRPH_WDAT \<Longrightarrow> still view (iwl_write32 hw reg v)"
  by (auto simp: still_def retIO_def IOSimpleLockLockDisableInterrupt_def IOSimpleLockUnlockEnableInterrupt_def
    IODelay_def iwl_read32_def iwl_trans_pcie_read32_def iwl_write32_def iwl_trans_pcie_write32_def prph_device_def
    split: if_splits prod.splits dest: arg_cong[where f = snd])
    (metis snd_conv)

lemma still_poll_loop:
  "prph_device hw view \<Longrightarrow> still view rd \<Longrightarrow> poll_loop hw rd hit timeout t s = Inr (r, s') \<Longrightarrow> view (hw_base s') = view (hw_base s)"
proof (induction hw rd hit timeout t s rule: poll_loop.induct)
  case (1 hw rd hit timeout t s)
  note step = "1.prems"(3)[unfolded poll_loop.simps[of hw rd hit timeout t s]]
  from step obtain v s1 where rd: "rd s = Inr (v, s1)" by (auto simp: bindF_eq_Inr)
  with "1.prems"(2) have v: "view (hw_base s1) = view (hw_base s)" by (simp add: still_def)
  let ?s2 = "s1\<lparr>hw_base := hw_delay hw 10 (hw_base s1)\<rparr>"
  have d: "view (hw_base ?s2) = view (hw_base s1)" using "1.prems"(1) by (simp add: prph_device_def)
  from step rd consider "s' = s1" | "s' = ?s2" | "\<not> hit v" "t + 10 < timeout" "poll_loop hw rd hit timeout (t + 10) ?s2 = Inr (r, s')"
    by (auto simp: IODelay_def split: if_splits)
  then show ?case
  proof cases
    case 3
    from "1.IH"[OF rd] 3 "1.prems"(1,2) d v show ?thesis by (simp add: IODelay_def)
  qed (use v d in auto)
qed

lemma still_grab: 
  assumes "prph_device hw view"
  shows "still view (iwl_trans_pcie_grab_nic_access hw)"
proof -
  note p = still_prims(1-3) still_prims(4-6)[OF assms]
  have poll: "still view (iwl_poll_bit hw reg bits msk timeout)" for reg bits msk timeout
    unfolding still_def iwl_poll_bit_def using still_poll_loop[OF assms p(5)] by blast
  have set_bit: "still view (pcie_set_bit hw CSR_GP_CNTRL msk)" for msk
    unfolding pcie_set_bit_def pcie_set_bits_mask_def by (intro still_bind p) simp
  have body: "still view (bindIO (pcie_set_bit hw CSR_GP_CNTRL CSR_GP_CNTRL_REG_FLAG_MAC_ACCESS_REQ) (\<lambda>_.
         bindIO (if late then IODelay hw 2 else retIO ()) (\<lambda>_.
         bindIO (iwl_poll_bit hw CSR_GP_CNTRL bits msk 15000) (\<lambda>ret.
         case ret of
           Inl _ \<Rightarrow>
             bindIO (iwl_write32 hw CSR_RESET CSR_RESET_REG_FLAG_FORCE_NMI) (\<lambda>_.
             bindIO (iwl_read32 hw CSR_GP_CNTRL) (\<lambda>_.
             bindIO IOSimpleLockUnlockEnableInterrupt (\<lambda>_. retIO False)))
         | Inr _ \<Rightarrow> retIO True))))" for late bits msk
    by (auto intro!: still_bind p poll set_bit split: sum.splits)
  show ?thesis
    unfolding iwl_trans_pcie_grab_nic_access_def
    by (rule still_bind_state[OF p(2)]) (use body[unfolded still_def] in \<open>auto split: if_splits\<close>)
qed

lemma still_release:
  assumes "prph_device hw view"
  shows "still view (iwl_trans_pcie_release_nic_access hw)"
proof -
  have "still view (bindIO (pcie_clear_bit hw CSR_GP_CNTRL CSR_GP_CNTRL_REG_FLAG_MAC_ACCESS_REQ) (\<lambda>_. IOSimpleLockUnlockEnableInterrupt))"
    unfolding pcie_clear_bit_def pcie_set_bits_mask_def by (intro still_bind still_prims assms) simp
  then show ?thesis using still_prims(3)[of view] by (auto simp: still_def iwl_trans_pcie_release_nic_access_def split: if_splits)
qed

text \<open>With access granted, the function does to the periphery what its body does; without, nothing.\<close>

lemma with_access_view:
  assumes hw: "prph_device hw view" and l: "\<not> reg_lock s" and q: "quiet body"
    and g: "iwl_trans_pcie_grab_nic_access hw s = Inr (got, s1)"
    and body: "\<And>s x s'. body s = Inr (x, s') \<Longrightarrow> x = f (view (hw_base s)) \<and> view (hw_base s') = upd (view (hw_base s))"
  shows "\<exists>s'. with_nic_access hw dflt body s = Inr (if got then f (view (hw_base s)) else dflt, s')
     \<and> view (hw_base s') = (if got then upd (view (hw_base s)) else view (hw_base s))"
proof -
  have v1: "view (hw_base s1) = view (hw_base s)" using still_grab[OF hw] g by (auto simp: still_def)
  show ?thesis
  proof (cases got)
    case True
    obtain x s2 where b: "body s1 = Inr (x, s2)" using q quiet_returns by blast
    have "reg_lock s1" using grab_cases[OF l, of hw] g True by auto
    moreover have "beside s1 s2" using b q quiet_returns[OF q, of s1] by auto
    ultimately have "reg_lock s2" using beside_fields by blast
    then obtain d where r: "iwl_trans_pcie_release_nic_access hw s2 = Inr ((), s2\<lparr>hw_base := d, reg_lock := False\<rparr>)"
      using release_unlocks by blast
    with still_release[OF hw] have "view d = view (hw_base s2)" by (fastforce simp: still_def)
    with body[OF b] v1 g True b r show ?thesis
      by (auto simp: with_nic_access_def bindIO_def retIO_def)
  next
    case False
    with g v1 show ?thesis by (auto simp: with_nic_access_def bindIO_def retIO_def)
  qed
qed

lemma read_prph_view:
  assumes "prph_device hw view" and "iwl_read_prph_no_grab hw reg s = Inr (x, s')"
  shows "x = view (hw_base s) (reg AND 0x000FFFFF) \<and> view (hw_base s') = view (hw_base s)"
proof -
  let ?d = "hw_write32 hw HBUS_TARG_PRPH_RADDR (prph_addr reg) (hw_base s)"
  from assms(2) have "x = fst (hw_read32 hw HBUS_TARG_PRPH_RDAT ?d)" "hw_base s' = snd (hw_read32 hw HBUS_TARG_PRPH_RDAT ?d)"
    by (auto simp: iwl_read_prph_no_grab_def iwl_trans_pcie_read_prph_def bindIO_def iwl_trans_pcie_write32_def
      iwl_trans_pcie_read32_def split: prod.splits)
  with assms(1) show ?thesis by (simp add: prph_device_def)
qed

lemma write_prph_view:
  assumes "prph_device hw view" and "iwl_write_prph_no_grab hw reg v s = Inr (x, s')"
  shows "view (hw_base s') = (view (hw_base s))(reg AND 0x000FFFFF := v)"
  using assms by (auto simp: iwl_write_prph_no_grab_def iwl_trans_pcie_write_prph_def bindIO_def
    iwl_trans_pcie_write32_def prph_device_def)

lemma modify_prph_view:
  assumes "prph_device hw view"
    and "bindIO (iwl_read_prph_no_grab hw reg) (\<lambda>v. iwl_write_prph_no_grab hw reg (g v)) s = Inr (x, s')"
  shows "view (hw_base s') = (view (hw_base s))(reg AND 0x000FFFFF := g (view (hw_base s) (reg AND 0x000FFFFF)))"
  using assms(2) read_prph_view[OF assms(1)] write_prph_view[OF assms(1)] unfolding bindIO_eq_Inr by metis

subsection \<open>Properties\<close>

text \<open>
  C22. Polling a control register always ends, after at most one read per started interval of ten
  microseconds (and at least one). It returns ten times the number of the first read whose masked
  bits are the wanted ones, with the device as that read left it, and the timeout error when no
  read had them.
\<close>

theorem poll_bit_first_match:
  "iwl_poll_bit hw reg bits msk timeout s =
     Inr (poll_spec hw (iwl_read32 hw reg) (\<lambda>v. v AND msk = bits AND msk) (poll_tries timeout) s)"
  unfolding iwl_poll_bit_def by (rule poll_csr.search[OF beside_refl])

text \<open>
  The same holds for polling through the device access lock, directly and through the periphery
  window, when the lock is free at the call: each round takes and gives back the lock.
\<close>

theorem poll_under_lock_first_match:
  assumes "\<not> reg_lock s"
  shows "iwl_poll_direct_bit hw reg msk timeout s =
       Inr (poll_spec hw (iwl_read_direct32 hw reg) (\<lambda>v. v AND msk = msk) (poll_tries timeout) s)
     \<and> iwl_poll_prph_bit hw reg bits msk timeout s =
       Inr (poll_spec hw (iwl_read_prph hw reg) (\<lambda>v. v AND msk = bits AND msk) (poll_tries timeout) s)"
  unfolding iwl_poll_direct_bit_def iwl_poll_prph_bit_def
  using poll_direct.search[of s s hw reg] poll_prph.search[of s s hw reg] assms beside_refl by blast


text \<open>
  On a device whose periphery window works, the read-modify-write functions change exactly the
  one periphery register, and in it exactly the bits asked for, when the device woke up; when
  it did not they change no periphery register, and the read returns the marker 0x5a5a5a5a.
\<close>

theorem prph_bits_exact:
  assumes "prph_device hw view" and "\<not> reg_lock s"
    and "iwl_trans_pcie_grab_nic_access hw s = Inr (got, s1)"
  shows "(\<exists>s'. iwl_read_prph hw reg s = Inr (if got then view (hw_base s) (reg AND 0x000FFFFF) else 0x5a5a5a5a, s')
        \<and> view (hw_base s') = view (hw_base s))
     \<and> (\<exists>s'. iwl_set_bits_prph hw reg msk s = Inr ((), s') \<and> view (hw_base s') = (if got
          then (view (hw_base s))(reg AND 0x000FFFFF := view (hw_base s) (reg AND 0x000FFFFF) OR msk) else view (hw_base s)))
     \<and> (\<exists>s'. iwl_clear_bits_prph hw reg msk s = Inr ((), s') \<and> view (hw_base s') = (if got
          then (view (hw_base s))(reg AND 0x000FFFFF := view (hw_base s) (reg AND 0x000FFFFF) AND NOT msk) else view (hw_base s)))
     \<and> (\<exists>s'. iwl_write_prph hw reg v s = Inr ((), s') \<and> view (hw_base s') = (if got
          then (view (hw_base s))(reg AND 0x000FFFFF := v) else view (hw_base s)))"
proof -
  note w = with_access_view[OF assms(1,2) _ assms(3)]
  have 1: "\<exists>s'. iwl_read_prph hw reg s = Inr (if got then view (hw_base s) (reg AND 0x000FFFFF) else 0x5a5a5a5a, s')
        \<and> view (hw_base s') = (if got then view (hw_base s) else view (hw_base s))"
    unfolding iwl_read_prph_def by (rule w[OF quiet_composed(2)]) (rule read_prph_view[OF assms(1)])
  have m: "\<exists>s'. with_nic_access hw () (bindIO (iwl_read_prph_no_grab hw reg) (\<lambda>v. iwl_write_prph_no_grab hw reg (g v))) s =
        Inr (if got then () else (), s') \<and> view (hw_base s') = (if got
          then (view (hw_base s))(reg AND 0x000FFFFF := g (view (hw_base s) (reg AND 0x000FFFFF))) else view (hw_base s))" for g
    by (rule w[where f = "\<lambda>_. ()" and upd = "\<lambda>V. V(reg AND 0x000FFFFF := g (V (reg AND 0x000FFFFF)))"],
        intro quiet_intros, rule conjI, simp, erule modify_prph_view[OF assms(1)])
  have 4: "\<exists>s'. with_nic_access hw () (iwl_write_prph_no_grab hw reg v) s = Inr (if got then () else (), s')
      \<and> view (hw_base s') = (if got then (view (hw_base s))(reg AND 0x000FFFFF := v) else view (hw_base s))"
    by (rule w[OF quiet_composed(3), where f = "\<lambda>_. ()" and upd = "\<lambda>V. V(reg AND 0x000FFFFF := v)"],
        rule conjI, simp, erule write_prph_view[OF assms(1)])
  from 1 m[of "\<lambda>v. v OR msk"] m[of "\<lambda>v. v AND NOT msk"] 4 show ?thesis
    unfolding iwl_set_bits_prph_def iwl_clear_bits_prph_def iwl_write_prph_def by simp
qed

subsection \<open>A concrete device\<close>

text \<open>A device that is awake at once and keeps its periphery registers and the two address registers.\<close>

definition demo_hw :: "((u32 \<Rightarrow> u32) \<times> u32 \<times> u32) hw" where
  "demo_hw = \<lparr>hw_read32 = (\<lambda>r (p, ra, wa). (if r = HBUS_TARG_PRPH_RDAT then p (ra AND 0x000FFFFF) else 1, (p, ra, wa))),
     hw_write32 = (\<lambda>r v (p, ra, wa). if r = HBUS_TARG_PRPH_RADDR then (p, v, wa)
        else if r = HBUS_TARG_PRPH_WADDR then (p, ra, v)
        else if r = HBUS_TARG_PRPH_WDAT then (p(wa AND 0x000FFFFF := v), ra, wa) else (p, ra, wa)),
     hw_write8 = (\<lambda>_ _ d. d), hw_delay = (\<lambda>_ d. d)\<rparr>"

definition demo_trans :: "((u32 \<Rightarrow> u32) \<times> u32 \<times> u32) trans" where
  "demo_trans = \<lparr>hw_base = ((\<lambda>_. 0xF0), 0, 0), reg_lock = False, cmd_hold_nic_awake = False,
     family = IWL_DEVICE_FAMILY_6000\<rparr>"

lemma prph_addr_and: "prph_addr r AND 0x000FFFFF = r AND 0x000FFFFF"
  by (rule bit_eqI) (auto simp: prph_addr_def bit_simps bit_numeral_rec split: nat.splits)

lemma demo_device: "prph_device demo_hw fst"
  by (auto simp: prph_device_def demo_hw_def prph_addr_and)

lemma demo_grab: "\<exists>s1. iwl_trans_pcie_grab_nic_access demo_hw demo_trans = Inr (True, s1)"
  by (simp add: iwl_trans_pcie_grab_nic_access_def bindIO_def IOSimpleLockLockDisableInterrupt_def pcie_set_bit_def
    pcie_set_bits_mask_def iwl_poll_bit_def iwl_read32_def iwl_write32_def iwl_trans_pcie_read32_def
    iwl_trans_pcie_write32_def poll_loop.simps retIO_def demo_hw_def demo_trans_def less_eq_iwl_device_family_def)

theorem poll_under_lock_first_match_witness:
  "\<not> reg_lock demo_trans \<and> iwl_poll_direct_bit demo_hw 0x100 1 50 demo_trans =
     Inr (poll_spec demo_hw (iwl_read_direct32 demo_hw 0x100) (\<lambda>v. v AND 1 = 1) (poll_tries 50) demo_trans)"
proof -
  have "\<not> reg_lock demo_trans" by (simp add: demo_trans_def)
  then show ?thesis using poll_under_lock_first_match[of demo_trans] by blast
qed

theorem prph_bits_exact_witness:
  "\<exists>s'. iwl_set_bits_prph demo_hw 0x300C 1 demo_trans = Inr ((), s') \<and> fst (hw_base s') 0x300C = 0xF1"
proof -
  obtain s1 where g: "iwl_trans_pcie_grab_nic_access demo_hw demo_trans = Inr (True, s1)" using demo_grab by blast
  have l: "\<not> reg_lock demo_trans" by (simp add: demo_trans_def)
  from prph_bits_exact[OF demo_device l g, of "0x300C" 1] obtain s' where
    "iwl_set_bits_prph demo_hw 0x300C 1 demo_trans = Inr ((), s')"
    "fst (hw_base s') = (fst (hw_base demo_trans))(0x300C AND 0x000FFFFF := fst (hw_base demo_trans) (0x300C AND 0x000FFFFF) OR 1)"
    by auto
  then show ?thesis by (simp add: demo_trans_def)
qed

end
