(* ===== verification/Eeprom_Read.thy ===== *)
theory Eeprom_Read
  imports Io_Access
begin

section \<open>Reading the EEPROM or OTP image\<close>

text \<open>
  \<^verbatim>\<open>iwlwifi/iwl-eeprom-read.c\<close>: the semaphore the driver shares with the firmware, the signature, the words
  of an EEPROM, and the blocks of a one-time programmable memory with its list of links.

  The buffer is a list of 16-bit words, half the configured size in bytes, with the content the
  allocator gave it as an argument. A write behind its end is the fault \<open>OutOfBounds\<close>; since both
  copy loops advance in the buffer by one word per round, they end after at most as many rounds as
  it has words. The cache address cannot wrap, because the configured size has 16 bits.
\<close>

record iwl_base_params =
  eeprom_size :: u16
  shadow_ram_support :: bool
  max_ll_items :: u8

abbreviation CSR_HW_IF_CONFIG_REG :: u32 where "CSR_HW_IF_CONFIG_REG \<equiv> 0x0"
abbreviation CSR_EEPROM_REG :: u32 where "CSR_EEPROM_REG \<equiv> 0x2c"
abbreviation CSR_EEPROM_GP :: u32 where "CSR_EEPROM_GP \<equiv> 0x30"
abbreviation CSR_OTP_GP_REG :: u32 where "CSR_OTP_GP_REG \<equiv> 0x34"
abbreviation CSR_DBG_LINK_PWR_MGMT_REG :: u32 where "CSR_DBG_LINK_PWR_MGMT_REG \<equiv> 0x250"
abbreviation EEPROM_OWN_SEM :: u32 where "EEPROM_OWN_SEM \<equiv> 0x00200000"
abbreviation CSR_EEPROM_REG_READ_VALID_MSK :: u32 where "CSR_EEPROM_REG_READ_VALID_MSK \<equiv> 1"
abbreviation CSR_EEPROM_REG_MSK_ADDR :: u32 where "CSR_EEPROM_REG_MSK_ADDR \<equiv> 0xFFFC"
abbreviation CSR_OTP_GP_REG_DEVICE_SELECT :: u32 where "CSR_OTP_GP_REG_DEVICE_SELECT \<equiv> 0x00010000"
abbreviation CSR_OTP_GP_REG_OTP_ACCESS_MODE :: u32 where "CSR_OTP_GP_REG_OTP_ACCESS_MODE \<equiv> 0x00020000"
abbreviation ECC_CORR_STATUS_MSK :: u32 where "ECC_CORR_STATUS_MSK \<equiv> 0x00100000"
abbreviation ECC_UNCORR_STATUS_MSK :: u32 where "ECC_UNCORR_STATUS_MSK \<equiv> 0x00200000"
abbreviation APMG_PS_CTRL_REG :: u32 where "APMG_PS_CTRL_REG \<equiv> 0x300c"
abbreviation APMG_PS_CTRL_VAL_RESET_REQ :: u32 where "APMG_PS_CTRL_VAL_RESET_REQ \<equiv> 0x04000000"

subsection \<open>Semaphore and signature\<close>

fun acquire_loop :: "'d hw \<Rightarrow> nat \<Rightarrow> errno + int \<Rightarrow> ('d, errno + int) io" where
  "acquire_loop hw 0 ret = retIO ret"
| "acquire_loop hw (Suc n) _ =
     bindIO (iwl_set_bit hw CSR_HW_IF_CONFIG_REG EEPROM_OWN_SEM) (\<lambda>_.
     bindIO (iwl_poll_bit hw CSR_HW_IF_CONFIG_REG EEPROM_OWN_SEM EEPROM_OWN_SEM 10) (\<lambda>ret.
       if isl ret then acquire_loop hw n ret else retIO ret))"

definition iwl_eeprom_acquire_semaphore :: "'d hw \<Rightarrow> ('d, errno + int) io" where
  "iwl_eeprom_acquire_semaphore hw = acquire_loop hw 1000 (Inr 0)"

definition iwl_eeprom_release_semaphore :: "'d hw \<Rightarrow> ('d, unit) io" where
  "iwl_eeprom_release_semaphore hw = iwl_clear_bit hw CSR_HW_IF_CONFIG_REG EEPROM_OWN_SEM"

definition iwl_eeprom_verify_signature :: "'d hw \<Rightarrow> bool \<Rightarrow> ('d, errno option) io" where
  "iwl_eeprom_verify_signature hw nvm_is_otp = bindIO (iwl_read32 hw CSR_EEPROM_GP) (\<lambda>v.
     let gp = v AND 7 in
     retIO (if gp = 1 then (if \<not> nvm_is_otp then Some ENOENT else None)
            else if gp = 2 \<or> gp = 4 then (if nvm_is_otp then Some ENOENT else None)
            else Some ENOENT))"

subsection \<open>One-time programmable memory\<close>

definition iwl_set_otp_access_absolute :: "'d hw \<Rightarrow> ('d, unit) io" where
  "iwl_set_otp_access_absolute hw = bindIO (iwl_read32 hw CSR_OTP_GP_REG) (\<lambda>_.
     iwl_clear_bit hw CSR_OTP_GP_REG CSR_OTP_GP_REG_OTP_ACCESS_MODE)"

definition iwl_nvm_is_otp :: "'d hw \<Rightarrow> u32 \<Rightarrow> ('d, errno + bool) io" where
  "iwl_nvm_is_otp hw hwrev =
     (let ty = hwrev AND 0x000FFF0 in
      if ty = 0x1F0 then retIO (Inl EIO)
      else if ty \<in> {0x20, 0x30, 0x50, 0x40} then retIO (Inr False)
      else bindIO (iwl_read32 hw CSR_OTP_GP_REG) (\<lambda>otpgp.
        retIO (Inr (otpgp AND CSR_OTP_GP_REG_DEVICE_SELECT \<noteq> 0))))"

definition iwl_init_otp_access :: "'d hw \<Rightarrow> iwl_base_params \<Rightarrow> ('d, errno + int) io" where
  "iwl_init_otp_access hw bp =
     bindIO (iwl_read32 hw CSR_GP_CNTRL) (\<lambda>v.
     bindIO (iwl_write32 hw CSR_GP_CNTRL (v OR 4)) (\<lambda>_.
     bindIO (iwl_poll_bit hw CSR_GP_CNTRL CSR_GP_CNTRL_REG_FLAG_MAC_CLOCK_READY
       CSR_GP_CNTRL_REG_FLAG_MAC_CLOCK_READY 25000) (\<lambda>ret.
       if isl ret then retIO ret
       else bindIO (iwl_set_bits_prph hw APMG_PS_CTRL_REG APMG_PS_CTRL_VAL_RESET_REQ) (\<lambda>_.
         bindIO (IODelay hw 5) (\<lambda>_.
         bindIO (iwl_clear_bits_prph hw APMG_PS_CTRL_REG APMG_PS_CTRL_VAL_RESET_REQ) (\<lambda>_.
         bindIO (if shadow_ram_support bp then iwl_set_bit hw CSR_DBG_LINK_PWR_MGMT_REG 0x80000000 else retIO ()) (\<lambda>_.
         retIO ret)))))))"

text \<open>The value written to the address register: \<open>addr << 1\<close> is computed as an \<open>int\<close>.\<close>

definition eeprom_reg_addr :: "u16 \<Rightarrow> u32" where
  "eeprom_reg_addr addr = CSR_EEPROM_REG_MSK_ADDR AND push_bit 1 (ucast addr)"

definition iwl_read_otp_word :: "'d hw \<Rightarrow> u16 \<Rightarrow> ('d, errno + u16) io" where
  "iwl_read_otp_word hw addr =
     bindIO (iwl_write32 hw CSR_EEPROM_REG (eeprom_reg_addr addr)) (\<lambda>_.
     bindIO (iwl_poll_bit hw CSR_EEPROM_REG CSR_EEPROM_REG_READ_VALID_MSK CSR_EEPROM_REG_READ_VALID_MSK 5000) (\<lambda>ret.
     case ret of Inl e \<Rightarrow> retIO (Inl e) | Inr _ \<Rightarrow>
       bindIO (iwl_read32 hw CSR_EEPROM_REG) (\<lambda>r.
       bindIO (iwl_read32 hw CSR_OTP_GP_REG) (\<lambda>otpgp.
         if otpgp AND ECC_UNCORR_STATUS_MSK \<noteq> 0
         then bindIO (iwl_set_bit hw CSR_OTP_GP_REG ECC_UNCORR_STATUS_MSK) (\<lambda>_. retIO (Inl EINVAL))
         else bindIO (if otpgp AND ECC_CORR_STATUS_MSK \<noteq> 0 then iwl_set_bit hw CSR_OTP_GP_REG ECC_CORR_STATUS_MSK
                      else retIO ()) (\<lambda>_.
           retIO (Inr (ucast (drop_bit 16 r))))))))"

definition iwl_is_otp_empty :: "'d hw \<Rightarrow> ('d, bool) io" where
  "iwl_is_otp_empty hw = bindIO (iwl_read_otp_word hw 0) (\<lambda>r.
     retIO (case r of Inr link_value \<Rightarrow> link_value = 0 | Inl _ \<Rightarrow> True))"

text \<open>
  The walk over the links: \<open>n\<close> rounds are left, \<open>next_addr\<close> and \<open>link\<close> are the variables of the loop. The
  link times two is stored in 16 bits.
\<close>

fun otp_links :: "'d hw \<Rightarrow> nat \<Rightarrow> u16 \<Rightarrow> u16 \<Rightarrow> ('d, errno + u16) io" where
  "otp_links hw 0 next_addr link = retIO (Inl EINVAL)"
| "otp_links hw (Suc n) next_addr link =
     (let valid_addr = next_addr; next_addr = link * 2 in
      bindIO (iwl_read_otp_word hw next_addr) (\<lambda>r.
        case r of Inl _ \<Rightarrow> retIO (Inl EINVAL)
        | Inr link \<Rightarrow> if link = 0 then retIO (Inr (valid_addr + 2)) else otp_links hw n next_addr link))"

definition iwl_find_otp_image :: "'d hw \<Rightarrow> iwl_base_params \<Rightarrow> ('d, errno + u16) io" where
  "iwl_find_otp_image hw bp =
     bindIO (iwl_set_otp_access_absolute hw) (\<lambda>_.
     bindIO (iwl_is_otp_empty hw) (\<lambda>is_empty.
       if is_empty then retIO (Inl EINVAL) else otp_links hw (Suc (unat (max_ll_items bp))) 0 0))"

subsection \<open>The copy loops\<close>

type_synonym ret = "errno + int"

function otp_loop :: "'d hw \<Rightarrow> u16 \<Rightarrow> nat \<Rightarrow> u16 \<Rightarrow> nat \<Rightarrow> u16 list \<Rightarrow> ('d, ret + u16 list) io" where
  "otp_loop hw vba sz addr cache e s =
     (if unat addr < unat vba + sz
      then bindF (iwl_read_otp_word hw addr s) (\<lambda>(r, s).
        case r of Inl err \<Rightarrow> Inr (Inl (Inl err), s)
        | Inr w \<Rightarrow> if cache div 2 < length e
            then otp_loop hw vba sz (addr + 2) (cache + 2) (e[cache div 2 := w]) s
            else Inl OutOfBounds)
      else Inr (Inr e, s))"
  by pat_completeness auto
termination
  by (relation "measure (\<lambda>(_, _, _, _, cache, e, _). length e - cache div 2)") auto

declare otp_loop.simps [simp del]

function eeprom_loop :: "'d hw \<Rightarrow> nat \<Rightarrow> nat \<Rightarrow> u16 list \<Rightarrow> ('d, ret + u16 list) io" where
  "eeprom_loop hw sz addr e s =
     (if addr < sz
      then bindF (iwl_write32 hw CSR_EEPROM_REG (eeprom_reg_addr (of_nat addr)) s) (\<lambda>(_, s).
        bindF (iwl_poll_bit hw CSR_EEPROM_REG CSR_EEPROM_REG_READ_VALID_MSK CSR_EEPROM_REG_READ_VALID_MSK 5000 s) (\<lambda>(ret, s).
        case ret of Inl err \<Rightarrow> Inr (Inl (Inl err), s)
        | Inr _ \<Rightarrow> bindF (iwl_read32 hw CSR_EEPROM_REG s) (\<lambda>(r, s).
            if addr div 2 < length e then eeprom_loop hw sz (addr + 2) (e[addr div 2 := ucast (drop_bit 16 r)]) s
            else Inl OutOfBounds)))
      else Inr (Inr e, s))"
  by pat_completeness auto
termination
  by (relation "measure (\<lambda>(_, sz, addr, _, _). sz - addr)") auto

declare eeprom_loop.simps [simp del]

subsection \<open>iwl\_read\_eeprom\<close>

definition read_otp_image :: "'d hw \<Rightarrow> iwl_base_params \<Rightarrow> u16 list \<Rightarrow> ('d, ret + u16 list) io" where
  "read_otp_image hw bp e =
     bindIO (iwl_init_otp_access hw bp) (\<lambda>ret.
       if ret \<noteq> Inr 0 then retIO (Inl ret)
       else bindIO (iwl_read32 hw CSR_EEPROM_GP) (\<lambda>v.
         bindIO (iwl_write32 hw CSR_EEPROM_GP (v AND NOT 0x180)) (\<lambda>_.
         bindIO (iwl_set_bit hw CSR_OTP_GP_REG (ECC_CORR_STATUS_MSK OR ECC_UNCORR_STATUS_MSK)) (\<lambda>_.
         bindIO (if shadow_ram_support bp then retIO (Inr 0) else iwl_find_otp_image hw bp) (\<lambda>r.
           case r of Inl err \<Rightarrow> retIO (Inl (Inl err))
           | Inr vba \<Rightarrow> otp_loop hw vba (unat (eeprom_size bp)) vba 0 e)))))"

text \<open>
  The result is the image, or what the function returns instead of 0: an error, or the positive time that
  \<open>iwl_init_otp_access\<close> returned. \<open>blk0\<close> is the allocator's answer, \<open>ptrs\<close> whether both result pointers are set.
\<close>

definition iwl_read_eeprom ::
  "'d hw \<Rightarrow> iwl_base_params \<Rightarrow> u32 \<Rightarrow> bool \<Rightarrow> u16 list option \<Rightarrow> ('d, ret + u16 list) io" where
  "iwl_read_eeprom hw bp hwrev ptrs blk0 =
     bindIO (iwl_read32 hw CSR_EEPROM_GP) (\<lambda>_.
       if \<not> ptrs then retIO (Inl (Inl EINVAL))
       else bindIO (iwl_nvm_is_otp hw hwrev) (\<lambda>nvm.
         case nvm of Inl err \<Rightarrow> retIO (Inl (Inl err))
         | Inr is_otp \<Rightarrow> (case blk0 of None \<Rightarrow> retIO (Inl (Inl ENOMEM))
           | Some e \<Rightarrow> bindIO (iwl_eeprom_verify_signature hw is_otp) (\<lambda>sig.
               case sig of Some err \<Rightarrow> retIO (Inl (Inl err))
               | None \<Rightarrow> bindIO (iwl_eeprom_acquire_semaphore hw) (\<lambda>sem.
                   case sem of Inl err \<Rightarrow> retIO (Inl (Inl err))
                   | Inr _ \<Rightarrow>
                     bindIO (if is_otp then read_otp_image hw bp e
                             else eeprom_loop hw (unat (eeprom_size bp)) 0 e) (\<lambda>r.
                     bindIO (iwl_eeprom_release_semaphore hw) (\<lambda>_. retIO r)))))))"

end
