(* ===== verification/Eeprom_Image.thy ===== *)
theory Eeprom_Image
  imports Eeprom_Read
begin

section \<open>What reading the EEPROM gives\<close>

text \<open>
  Reading an EEPROM never faults and leaves the driver's state alone; a successful read returns the words
  of the device; the semaphore is given back; and an OTP image that would reach the end of the 16-bit
  address space makes the copy loop run over its buffer.
\<close>

subsection \<open>Reads give the lock back\<close>

lemma releasesI: "m s = Inr (x, s') \<Longrightarrow> beside s s' \<Longrightarrow> releases m s"
  by (auto simp: releases_beside)

text \<open>\<open>gentle m\<close>: with the lock free the action returns and touches the device only.\<close>

definition gentle :: "('d, 'a) io \<Rightarrow> bool" where
  "gentle m \<longleftrightarrow> (\<forall>s. \<not> reg_lock s \<longrightarrow> releases m s)"

named_theorems gentle_intros \<open>actions that need the lock free and give it back\<close>

lemma gentle_bind [gentle_intros]: "gentle m \<Longrightarrow> (\<And>x. gentle (k x)) \<Longrightarrow> gentle (bindIO m k)"
  unfolding gentle_def
proof (intro allI impI)
  fix s assume m: "\<forall>s. \<not> reg_lock s \<longrightarrow> releases m s" and k: "\<And>x. \<forall>s. \<not> reg_lock s \<longrightarrow> releases (k x) s"
    and l: "\<not> reg_lock (s :: 'a trans)"
  from m l obtain x s1 where 1: "m s = Inr (x, s1)" "beside s s1" by (auto simp: releases_beside)
  then have "\<not> reg_lock s1" using l beside_fields by blast
  with k obtain y s2 where "k x s1 = Inr (y, s2)" "beside s1 s2" unfolding releases_beside by meson
  with 1 show "releases (bindIO m k) s" by (auto simp: releases_beside bindIO_def intro: beside_trans)
qed

lemma gentle_quiet: "quiet m \<Longrightarrow> gentle m"
  by (simp add: gentle_def quiet_releases)

lemmas gentle_quiets [gentle_intros] = quiet_ret[THEN gentle_quiet] quiet_prims[THEN gentle_quiet]
  quiet_poll_bit[THEN gentle_quiet]

lemma gentle_prims [gentle_intros]:
  "gentle (iwl_set_bit hw reg msk)" "gentle (iwl_clear_bit hw reg msk)"
  "gentle (iwl_set_bits_prph hw reg msk)" "gentle (iwl_clear_bits_prph hw reg msk)"
  unfolding gentle_def iwl_set_bit_def iwl_clear_bit_def iwl_set_bits_prph_def iwl_clear_bits_prph_def
  by (auto intro!: set_bits_mask_releases with_access_releases quiet_intros)

lemma gentle_acquire_loop [gentle_intros]: "gentle (acquire_loop hw n r)"
  by (induction n arbitrary: r) (auto intro!: gentle_intros)

lemma gentle_otp_word [gentle_intros]: "gentle (iwl_read_otp_word hw addr)"
  unfolding iwl_read_otp_word_def by (auto intro!: gentle_intros split: sum.splits)

lemma gentle_otp_links [gentle_intros]: "gentle (otp_links hw n a l)"
  by (induction n arbitrary: a l) (auto intro!: gentle_intros simp: Let_def split: sum.splits)

lemma gentle_parts [gentle_intros]:
  "gentle (iwl_eeprom_acquire_semaphore hw)" "gentle (iwl_eeprom_release_semaphore hw)"
  "gentle (iwl_eeprom_verify_signature hw b)" "gentle (iwl_nvm_is_otp hw r)"
  "gentle (iwl_init_otp_access hw bp)" "gentle (iwl_find_otp_image hw bp)"
  unfolding iwl_eeprom_acquire_semaphore_def iwl_eeprom_release_semaphore_def iwl_eeprom_verify_signature_def
    iwl_nvm_is_otp_def iwl_init_otp_access_def iwl_find_otp_image_def iwl_set_otp_access_absolute_def
    iwl_is_otp_empty_def Let_def
  by (auto intro!: gentle_intros split: sum.splits)

subsection \<open>The copy loops\<close>

lemma beside_unlocked: "beside s s' \<Longrightarrow> \<not> reg_lock s \<Longrightarrow> \<not> reg_lock s'"
  using beside_fields by blast

lemma eeprom_loop_returns:
  assumes "\<not> reg_lock s" and "sz \<le> 2 * length e" and "even sz" and "even addr"
  shows "\<exists>r s'. eeprom_loop hw sz addr e s = Inr (r, s') \<and> beside s s'"
  using assms
proof (induction hw sz addr e s rule: eeprom_loop.induct)
  case (1 hw sz addr e s)
  show ?case
  proof (cases "addr < sz")
    case False
    then show ?thesis by (subst eeprom_loop.simps) (auto simp: beside_refl)
  next
    case True
    obtain s1 where w: "iwl_write32 hw CSR_EEPROM_REG (eeprom_reg_addr (of_nat addr)) s = Inr ((), s1)" "beside s s1"
      using quiet_returns[OF quiet_prims(3)] by (metis old.unit.exhaust)
    obtain ret s2 where p: "iwl_poll_bit hw CSR_EEPROM_REG CSR_EEPROM_REG_READ_VALID_MSK CSR_EEPROM_REG_READ_VALID_MSK 5000 s1 = Inr (ret, s2)"
      "beside s1 s2" using quiet_returns[OF quiet_poll_bit] by blast
    obtain v s3 where r: "iwl_read32 hw CSR_EEPROM_REG s2 = Inr (v, s3)" "beside s2 s3"
      using quiet_returns[OF quiet_prims(2)] by blast
    have b: "beside s s2" "beside s s3" using w p r beside_trans by blast+
    have "addr div 2 < length e" using True "1.prems"(2) by linarith
    note step = eeprom_loop.simps[of hw sz addr e s] and idx = this
    have l3: "\<not> reg_lock s3" using b(2) "1.prems"(1) by (rule beside_unlocked)
    show ?thesis
    proof (cases ret)
      case (Inl err)
      then show ?thesis using True w(1) p(1) b(1) by (auto simp: step)
    next
      case (Inr t)
      let ?e = "e[addr div 2 := ucast (drop_bit 16 v)]"
      have "eeprom_loop hw sz addr e s = eeprom_loop hw sz (addr + 2) ?e s3"
        unfolding step using True w(1) p(1) r(1) Inr idx by simp
      moreover have "\<exists>r s'. eeprom_loop hw sz (addr + 2) ?e s3 = Inr (r, s') \<and> beside s3 s'"
        by (rule "1.IH"[OF True w(1) refl p(1) refl Inr r(1) refl idx l3]) (use "1.prems" in auto)
      ultimately show ?thesis using b(2) beside_trans by metis
    qed
  qed
qed

text \<open>An OTP word, seen from the loop.\<close>

lemma otp_word_returns:
  assumes "\<not> reg_lock s"
  shows "\<exists>r s'. iwl_read_otp_word hw addr s = Inr (r, s') \<and> beside s s'"
  using gentle_otp_word[of hw addr] assms by (simp add: gentle_def releases_beside)

lemma otp_loop_returns:
  assumes "\<not> reg_lock s" and "unat addr + (2 * length e - cache) = unat vba + sz" and "cache \<le> 2 * length e"
    and "even cache" and "unat vba + sz \<le> 65534" and "even (unat addr)"
  shows "\<exists>r s'. otp_loop hw vba sz addr cache e s = Inr (r, s') \<and> beside s s'"
  using assms
proof (induction hw vba sz addr cache e s rule: otp_loop.induct)
  case (1 hw vba sz addr cache e s)
  note step = otp_loop.simps[of hw vba sz addr cache e s]
  show ?case
  proof (cases "unat addr < unat vba + sz")
    case False
    then show ?thesis by (auto simp: step beside_refl)
  next
    case True
    obtain r s1 where w: "iwl_read_otp_word hw addr s = Inr (r, s1)" "beside s s1"
      using otp_word_returns[OF "1.prems"(1)] by blast
    have l1: "\<not> reg_lock s1" using w(2) "1.prems"(1) by (rule beside_unlocked)
    show ?thesis
    proof (cases r)
      case (Inl err)
      then show ?thesis using True w by (auto simp: step)
    next
      case (Inr v)
      have idx: "cache div 2 < length e" using "1.prems"(2-4) True by presburger
      let ?e = "e[cache div 2 := v]"
      have c: "cache + 2 \<le> 2 * length e" using idx "1.prems"(4) by presburger
      have "unat addr + 2 \<le> unat vba + sz" using "1.prems"(2) c by linarith
      then have a: "unat (addr + 2) = unat addr + 2" using "1.prems"(5) by (simp add: unat_word_ariths)
      have "otp_loop hw vba sz addr cache e s = otp_loop hw vba sz (addr + 2) (cache + 2) ?e s1"
        unfolding step using True w(1) Inr idx by simp
      moreover have "\<exists>r s'. otp_loop hw vba sz (addr + 2) (cache + 2) ?e s1 = Inr (r, s') \<and> beside s1 s'"
        by (rule "1.IH"[OF True w(1) refl Inr idx l1]) (use "1.prems" a c in auto)
      ultimately show ?thesis using w(2) beside_trans by metis
    qed
  qed
qed

text \<open>An image that reaches the end of the address space: the loop condition never becomes false.\<close>

lemma otp_loop_overruns:
  assumes "65535 < unat vba + sz" and "otp_loop hw vba sz addr cache e s = Inr (r, s')"
  shows "isl r"
  using assms
proof (induction hw vba sz addr cache e s rule: otp_loop.induct)
  case (1 hw vba sz addr cache e s)
  note step = otp_loop.simps[of hw vba sz addr cache e s]
  have "unat addr < 2 ^ 16" using unsigned_less [where w = addr] by simp
  with "1.prems"(1) have True: "unat addr < unat vba + sz" by simp
  from "1.prems"(2) True obtain w s1 where w: "iwl_read_otp_word hw addr s = Inr (w, s1)"
    by (auto simp: step bindF_eq_Inr)
  show ?case
  proof (cases w)
    case (Inl err)
    with "1.prems"(2) True w show ?thesis by (auto simp: step)
  next
    case (Inr v)
    with "1.prems"(2) True w have idx: "cache div 2 < length e" and
      rest: "otp_loop hw vba sz (addr + 2) (cache + 2) (e[cache div 2 := v]) s1 = Inr (r, s')"
      by (auto simp: step split: if_splits)
    from "1.IH"[OF True w refl Inr idx "1.prems"(1) rest] show ?thesis .
  qed
qed

subsection \<open>What the device holds\<close>

text \<open>
  What the driver relies on: the address register selects a word; once a read of the register has the valid
  bit, this and the following reads have it and carry the word in the upper half; reading and
  waiting do not change the selection.
\<close>

definition eeprom_device :: "'d hw \<Rightarrow> ('d \<Rightarrow> u32) \<Rightarrow> (u32 \<Rightarrow> u16) \<Rightarrow> bool" where
  "eeprom_device hw sel rom \<longleftrightarrow>
     (\<forall>d v. sel (hw_write32 hw CSR_EEPROM_REG v d) = v AND CSR_EEPROM_REG_MSK_ADDR)
     \<and> (\<forall>d. sel (snd (hw_read32 hw CSR_EEPROM_REG d)) = sel d)
     \<and> (\<forall>d us. sel (hw_delay hw us d) = sel d)
     \<and> (\<forall>d. bit (fst (hw_read32 hw CSR_EEPROM_REG d)) 0 \<longrightarrow>
          bit (fst (hw_read32 hw CSR_EEPROM_REG (snd (hw_read32 hw CSR_EEPROM_REG d)))) 0)
     \<and> (\<forall>d. bit (fst (hw_read32 hw CSR_EEPROM_REG d)) 0 \<longrightarrow>
          ucast (drop_bit 16 (fst (hw_read32 hw CSR_EEPROM_REG d))) = rom (sel d))"

lemma eeprom_reg_masked: "eeprom_reg_addr a AND CSR_EEPROM_REG_MSK_ADDR = eeprom_reg_addr a"
  by (simp add: eeprom_reg_addr_def ac_simps)

text \<open>Polling the register ends with the selection unchanged, and when it succeeds the next read is the word.\<close>

lemma poll_eeprom:
  assumes "eeprom_device hw sel rom"
  shows "poll_loop hw (iwl_read32 hw CSR_EEPROM_REG) (\<lambda>v. v AND 1 = 1 AND 1) timeout t s = Inr (Inr k, s') \<Longrightarrow>
    sel (hw_base s') = sel (hw_base s) \<and> bit (fst (hw_read32 hw CSR_EEPROM_REG (hw_base s'))) 0"
proof (induction "nat (timeout - t)" arbitrary: t s rule: less_induct)
  case less
  let ?v = "fst (hw_read32 hw CSR_EEPROM_REG (hw_base s))" and ?d = "snd (hw_read32 hw CSR_EEPROM_REG (hw_base s))"
  let ?s2 = "s\<lparr>hw_base := hw_delay hw 10 ?d\<rparr>"
  note step = less.prems[unfolded poll_loop.simps[of hw "iwl_read32 hw CSR_EEPROM_REG" _ timeout t s]]
  have sel: "sel ?d = sel (hw_base s)" "sel (hw_delay hw 10 ?d) = sel (hw_base s)"
    using assms by (simp_all add: eeprom_device_def)
  have hit: "(?v AND 1 = 1) = bit ?v 0" by (simp add: and_one_eq mod_2_eq_odd bit_0)
  from step consider "bit ?v 0" "s' = s\<lparr>hw_base := ?d\<rparr>"
    | "t + 10 < timeout" "poll_loop hw (iwl_read32 hw CSR_EEPROM_REG) (\<lambda>v. v AND 1 = 1 AND 1) timeout (t + 10) ?s2 = Inr (Inr k, s')"
    by (auto simp: iwl_read32_def iwl_trans_pcie_read32_def IODelay_def case_prod_beta hit split: if_splits)
  then show ?case
  proof cases
    case 1
    then show ?thesis using assms sel by (simp add: eeprom_device_def)
  next
    case 2
    from less.hyps[OF _ 2(2)] 2(1) sel show ?thesis by simp
  qed
qed

lemma eeprom_loop_content:
  assumes hw: "eeprom_device hw sel rom" and run: "eeprom_loop hw sz addr e s = Inr (Inr e', s')"
    and "even sz" and "even addr" and "sz \<le> 2 * length e" and "sz < 65536" and "addr \<le> sz"
  shows "length e' = length e \<and> (\<forall>i < length e. e' ! i =
     (if addr div 2 \<le> i \<and> i < sz div 2 then rom (eeprom_reg_addr (of_nat (2 * i))) else e ! i))"
  using run assms(3-7)
proof (induction "sz - addr" arbitrary: addr e s rule: less_induct)
  case less
  note step = eeprom_loop.simps[of hw sz addr e s]
  show ?case
  proof (cases "addr < sz")
    case False
    with less.prems have "addr = sz" "e' = e" by (auto simp: step)
    then show ?thesis by auto
  next
    case True
    from less.prems(1) True obtain s1 ret s2 where
      w: "iwl_write32 hw CSR_EEPROM_REG (eeprom_reg_addr (of_nat addr)) s = Inr ((), s1)" and
      p0: "iwl_poll_bit hw CSR_EEPROM_REG CSR_EEPROM_REG_READ_VALID_MSK CSR_EEPROM_REG_READ_VALID_MSK 5000 s1 = Inr (ret, s2)" and
      c: "(case ret of Inl err \<Rightarrow> Inr (Inl (Inl err), s2)
        | Inr _ \<Rightarrow> bindF (iwl_read32 hw CSR_EEPROM_REG s2) (\<lambda>(r, s).
            if addr div 2 < length e then eeprom_loop hw sz (addr + 2) (e[addr div 2 := ucast (drop_bit 16 r)]) s
            else Inl OutOfBounds)) = Inr (Inr e', s')"
      by (auto simp: step bindF_eq_Inr)
    from c obtain t where t: "ret = Inr t" by (cases ret) auto
    note p = p0[unfolded t]
    from c t obtain v s3 where r: "iwl_read32 hw CSR_EEPROM_REG s2 = Inr (v, s3)" and idx: "addr div 2 < length e" and
      rest: "eeprom_loop hw sz (addr + 2) (e[addr div 2 := ucast (drop_bit 16 v)]) s3 = Inr (Inr e', s')"
      by (auto simp: bindF_eq_Inr split: if_splits)
    have "sel (hw_base s1) = eeprom_reg_addr (of_nat addr)"
      using w hw by (auto simp: iwl_write32_def iwl_trans_pcie_write32_def eeprom_device_def eeprom_reg_masked)
    moreover have "sel (hw_base s2) = sel (hw_base s1) \<and> bit (fst (hw_read32 hw CSR_EEPROM_REG (hw_base s2))) 0"
      using poll_eeprom[OF hw] p unfolding iwl_poll_bit_def by blast
    ultimately have v: "ucast (drop_bit 16 v) = rom (eeprom_reg_addr (of_nat addr))"
      using hw r by (auto simp: eeprom_device_def iwl_read32_def iwl_trans_pcie_read32_def split: prod.splits)
        (metis fst_conv)
    have "addr + 2 \<le> sz" using True less.prems(2,3) by presburger
    with less.hyps[OF _ rest] True less.prems
    have ih: "length e' = length e" "\<forall>i < length e. e' ! i = (if addr div 2 + 1 \<le> i \<and> i < sz div 2
       then rom (eeprom_reg_addr (of_nat (2 * i))) else (e[addr div 2 := ucast (drop_bit 16 v)]) ! i)" by auto
    have "2 * (addr div 2) = addr" "addr div 2 < sz div 2" using True less.prems(2,3) by presburger+
    then have "e' ! i = (if addr div 2 \<le> i \<and> i < sz div 2 then rom (eeprom_reg_addr (of_nat (2 * i))) else e ! i)"
      if "i < length e" for i
      using ih(2) that v idx by (cases "i = addr div 2") auto
    with ih(1) show ?thesis by simp
  qed
qed

text \<open>
  The semaphore: the device says that the driver owns it only if the owner bit was set in the last value written
  to the configuration register.
\<close>

definition sem_device :: "'d hw \<Rightarrow> ('d \<Rightarrow> bool) \<Rightarrow> bool" where
  "sem_device hw owned \<longleftrightarrow>
     (\<forall>d v. owned (hw_write32 hw CSR_HW_IF_CONFIG_REG v d) \<longrightarrow> v AND EEPROM_OWN_SEM \<noteq> 0)"

lemma release_semaphore_frees:
  assumes "sem_device hw owned" and "iwl_eeprom_release_semaphore hw s = Inr (x, s')"
  shows "\<not> owned (hw_base s')"
proof -
  from assms(2) obtain v d where "hw_base s' = hw_write32 hw CSR_HW_IF_CONFIG_REG (v AND NOT EEPROM_OWN_SEM) d"
    by (auto simp: iwl_eeprom_release_semaphore_def iwl_clear_bit_def iwl_trans_pcie_set_bits_mask_def bindIO_eq_Inr
      pcie_set_bits_mask_def iwl_write32_def iwl_trans_pcie_write32_def IOSimpleLockUnlockEnableInterrupt_def
      split: if_splits)
  moreover have "(v AND NOT EEPROM_OWN_SEM) AND EEPROM_OWN_SEM = 0" by (simp add: and.assoc)
  ultimately show ?thesis using assms(1) by (metis sem_device_def)
qed

lemma acquire_loop_error: "acquire_loop hw n (Inr k) s = Inr (Inl e, s') \<Longrightarrow> e = ETIMEDOUT"
proof -
  have poll: "iwl_poll_bit hw reg bits msk timeout s = Inr (Inl e, s') \<Longrightarrow> e = ETIMEDOUT" for reg bits msk timeout s s' e
    unfolding iwl_poll_bit_def poll_csr.search[OF beside_refl] by (auto simp: poll_spec_def split: option.splits)
  have "acquire_loop hw n r s = Inr (Inl e, s') \<Longrightarrow> r \<in> {Inr k, Inl ETIMEDOUT} \<Longrightarrow> e = ETIMEDOUT" for r s
  proof (induction n arbitrary: r s)
    case (Suc n)
    from Suc.prems(1) obtain ret s1 s2 where p: "iwl_poll_bit hw CSR_HW_IF_CONFIG_REG EEPROM_OWN_SEM EEPROM_OWN_SEM 10 s1 = Inr (ret, s2)"
      and c: "(if isl ret then acquire_loop hw n ret else retIO ret) s2 = Inr (Inl e, s')"
      by (auto simp: bindIO_eq_Inr)
    show ?case
    proof (cases ret)
      case (Inl e1)
      with poll p have "e1 = ETIMEDOUT" by blast
      with c Inl Suc.IH show ?thesis by auto
    qed (use c in \<open>auto simp: retIO_def\<close>)
  qed (auto simp: retIO_def)
  then show "acquire_loop hw n (Inr k) s = Inr (Inl e, s') \<Longrightarrow> e = ETIMEDOUT" by blast
qed

lemma nvm_is_otp_error: "iwl_nvm_is_otp hw r s = Inr (Inl e, s') \<Longrightarrow> e = EIO"
  by (auto simp: iwl_nvm_is_otp_def Let_def retIO_def bindIO_eq_Inr split: if_splits)

lemma verify_error: "iwl_eeprom_verify_signature hw b s = Inr (Some e, s') \<Longrightarrow> e = ENOENT"
  by (auto simp: iwl_eeprom_verify_signature_def Let_def retIO_def bindIO_eq_Inr split: if_splits)

text \<open>
  A call either fails before it owns the semaphore, with one of three errors, or ends with the release
  of the semaphore after one of the two copies.
\<close>

lemma read_eeprom_cases:
  assumes "iwl_read_eeprom hw bp hwrev True (Some e) s = Inr (r, s')"
  obtains (Early) err where "r = Inl (Inl err)" and "err \<in> {EIO, ENOENT, ETIMEDOUT}"
  | (Copied) is_otp s0 s1 s2 s3 where "iwl_nvm_is_otp hw hwrev s0 = Inr (Inr is_otp, s1)"
      and "(if is_otp then read_otp_image hw bp e else eeprom_loop hw (unat (eeprom_size bp)) 0 e) s2 = Inr (r, s3)"
      and "iwl_eeprom_release_semaphore hw s3 = Inr ((), s')"
proof -
  let ?copy = "\<lambda>is_otp. if is_otp then read_otp_image hw bp e else eeprom_loop hw (unat (eeprom_size bp)) 0 e"
  let ?own = "\<lambda>is_otp sem. case sem of Inl err \<Rightarrow> retIO (Inl (Inl err))
    | Inr _ \<Rightarrow> bindIO (?copy is_otp) (\<lambda>r. bindIO (iwl_eeprom_release_semaphore hw) (\<lambda>_. retIO r))"
  let ?sig = "\<lambda>is_otp sig. case sig of Some err \<Rightarrow> retIO (Inl (Inl err))
    | None \<Rightarrow> bindIO (iwl_eeprom_acquire_semaphore hw) (?own is_otp)"
  from assms obtain s0 nvm s1 where n: "iwl_nvm_is_otp hw hwrev s0 = Inr (nvm, s1)" and
    c1: "(case nvm of Inl err \<Rightarrow> retIO (Inl (Inl err))
         | Inr is_otp \<Rightarrow> bindIO (iwl_eeprom_verify_signature hw is_otp) (?sig is_otp)) s1 = Inr (r, s')"
    unfolding iwl_read_eeprom_def bindIO_eq_Inr by (auto simp: bindIO_eq_Inr)
  consider err where "nvm = Inl err" | is_otp where "nvm = Inr is_otp" by (cases nvm)
  then show thesis
  proof cases
    case 1
    with c1 Early[of err] nvm_is_otp_error[of hw hwrev s0 err s1] n show ?thesis by (auto simp: retIO_def)
  next
    case nvm: 2
    with c1 obtain sig s2 where g: "iwl_eeprom_verify_signature hw is_otp s1 = Inr (sig, s2)" and
      c2: "?sig is_otp sig s2 = Inr (r, s')" by (auto simp: bindIO_eq_Inr)
    show ?thesis
    proof (cases sig)
      case (Some err)
      with c2 Early[of err] verify_error[of hw is_otp s1 err s2] g show ?thesis by (auto simp: retIO_def)
    next
      case None
      with c2 obtain sem s3 where a: "iwl_eeprom_acquire_semaphore hw s2 = Inr (sem, s3)" and
        c3: "?own is_otp sem s3 = Inr (r, s')" by (auto simp: bindIO_eq_Inr)
      show ?thesis
      proof (cases sem)
        case (Inl err)
        with c3 Early[of err] acquire_loop_error[of hw 1000 0 s2 err s3] a show ?thesis
          by (auto simp: retIO_def iwl_eeprom_acquire_semaphore_def)
      next
        case (Inr k)
        with c3 obtain s4 where "?copy is_otp s3 = Inr (r, s4)" "iwl_eeprom_release_semaphore hw s4 = Inr ((), s')"
          by (auto simp: bindIO_eq_Inr retIO_def)
        with n nvm show ?thesis using Copied by blast
      qed
    qed
  qed
qed

lemma bindIO_retIO: "bindIO (retIO x) k = k x"
  by (rule ext) (simp add: bindIO_def retIO_def)

lemma read_otp_image_returns:
  assumes "shadow_ram_support bp" and "length e = unat (eeprom_size bp) div 2" and "even (unat (eeprom_size bp))"
  shows "gentle (read_otp_image hw bp e)"
proof -
  have loop: "gentle (otp_loop hw 0 (unat (eeprom_size bp)) 0 0 e)"
  proof -
    have "unat (eeprom_size bp) < 65536" using unsigned_less [where w = "eeprom_size bp"] by simp
    then have "unat (eeprom_size bp) \<le> 65534" using assms(3) by presburger
    then show ?thesis
      unfolding gentle_def releases_beside by (intro allI impI otp_loop_returns) (use assms in auto)
  qed
  show ?thesis unfolding read_otp_image_def
    using assms(1) by (auto simp: bindIO_retIO intro!: gentle_intros loop)
qed

lemma eeprom_loop_gentle:
  assumes "length e = sz div 2" and "even sz"
  shows "gentle (eeprom_loop hw sz 0 e)"
  unfolding gentle_def releases_beside using eeprom_loop_returns[of _ sz e 0] assms by auto

text \<open>A device on which every OTP word can be read.\<close>

lemma otp_loop_faults:
  assumes "65535 < unat vba + sz" and "\<And>a s. \<exists>w s'. iwl_read_otp_word hw a s = Inr (Inr w, s')"
  shows "otp_loop hw vba sz addr cache e s = Inl OutOfBounds"
  using assms(1)
proof (induction "length e - cache div 2" arbitrary: addr cache e s rule: less_induct)
  case less
  have "unat addr < 2 ^ 16" using unsigned_less [where w = addr] by simp
  with less.prems have a: "unat addr < unat vba + sz" by simp
  obtain w s1 where "iwl_read_otp_word hw addr s = Inr (Inr w, s1)" using assms(2) by blast
  with a less show ?case by (subst otp_loop.simps) auto
qed

subsection \<open>Properties\<close>


text \<open>
  C27. Without shadow RAM the start of the image comes from the links in the OTP memory. When the image would
  reach the end of the 16-bit address space, the loop counter wraps around and the copy runs over the
  end of its buffer, as soon as every word can be read.
\<close>

theorem otp_image_overruns_buffer:
  assumes "65535 < unat vba + unat (eeprom_size bp)"
    and "\<And>a s. \<exists>w s'. iwl_read_otp_word hw a s = Inr (Inr w, s')"
  shows "otp_loop hw vba (unat (eeprom_size bp)) vba 0 e s = Inl OutOfBounds"
  using otp_loop_faults[OF assms] .

text \<open>
  C28. On a 5000 series device, whose EEPROM answers as documented, an image that the function returns
  is exactly the content of the EEPROM, word for word.
\<close>

theorem read_eeprom_content:
  assumes "eeprom_device hw sel rom" and "hwrev AND 0x000FFF0 \<in> {0x20, 0x30, 0x40, 0x50}"
    and "even (unat (eeprom_size bp))" and "length e = unat (eeprom_size bp) div 2"
    and "iwl_read_eeprom hw bp hwrev True (Some e) s = Inr (Inr words, s')"
  shows "words = map (\<lambda>i. rom (eeprom_reg_addr (of_nat (2 * i)))) [0..<unat (eeprom_size bp) div 2]"
proof -
  have otp: "iwl_nvm_is_otp hw hwrev s0 = Inr (Inr is_otp, s1) \<Longrightarrow> \<not> is_otp" for s0 is_otp s1
    using assms(2) by (auto simp: iwl_nvm_is_otp_def Let_def retIO_def)
  have sz: "unat (eeprom_size bp) < 65536" using unsigned_less [where w = "eeprom_size bp"] by simp
  from assms(5) show ?thesis
  proof (cases rule: read_eeprom_cases)
    case (Copied is_otp s0 s1 s2 s3)
    with otp[OF Copied(1)] have "eeprom_loop hw (unat (eeprom_size bp)) 0 e s2 = Inr (Inr words, s3)" by simp
    moreover have "unat (eeprom_size bp) \<le> 2 * length e" using assms(3,4) by simp
    ultimately show ?thesis
      using eeprom_loop_content[OF assms(1) _ assms(3), of 0 e s2 words s3] assms(4) sz
      by (intro nth_equalityI) auto
  qed simp
qed

text \<open>
  Whenever the function ends after it got the semaphore, with the image or with an error of the copy, it has
  given the semaphore back: a device that follows the owner bit no longer sees the driver as owner.
\<close>

theorem read_eeprom_frees_semaphore:
  assumes "sem_device hw owned" and "iwl_read_eeprom hw bp hwrev True (Some e) s = Inr (r, s')"
    and "r \<notin> {Inl (Inl EIO), Inl (Inl ENOENT), Inl (Inl ETIMEDOUT)}"
  shows "\<not> owned (hw_base s')"
  using assms(2)
proof (cases rule: read_eeprom_cases)
  case (Early err)
  with assms(3) show ?thesis by auto
next
  case (Copied is_otp s0 s1 s2 s3)
  then show ?thesis using release_semaphore_frees[OF assms(1)] by blast
qed

subsection \<open>A concrete EEPROM\<close>

text \<open>The device state is the selected address and the semaphore; every read is valid at once.\<close>

definition demo_rom :: "u32 \<Rightarrow> u16" where
  "demo_rom a = 0x1200 + ucast (drop_bit 2 a)"

definition demo_eeprom_hw :: "(u32 \<times> bool) hw" where
  "demo_eeprom_hw = \<lparr>hw_read32 = (\<lambda>r (a, o'). (if r = CSR_EEPROM_REG then push_bit 16 (ucast (demo_rom a)) OR 1
       else if r = CSR_HW_IF_CONFIG_REG then (if o' then EEPROM_OWN_SEM else 0) else 2, (a, o'))),
     hw_write32 = (\<lambda>r v (a, o'). (if r = CSR_EEPROM_REG then v AND CSR_EEPROM_REG_MSK_ADDR else a,
       if r = CSR_HW_IF_CONFIG_REG then v AND EEPROM_OWN_SEM \<noteq> 0 else o')),
     hw_write8 = (\<lambda>_ _ d. d), hw_delay = (\<lambda>_ d. d)\<rparr>"

definition demo_bp :: iwl_base_params where
  "demo_bp = \<lparr>eeprom_size = 4, shadow_ram_support = True, max_ll_items = 0\<rparr>"

definition demo_io :: "(u32 \<times> bool) trans" where
  "demo_io = \<lparr>hw_base = (0, False), reg_lock = False, cmd_hold_nic_awake = False, family = IWL_DEVICE_FAMILY_5000\<rparr>"

lemma demo_rom_read: "ucast (drop_bit 16 (push_bit 16 (ucast w) :: u32)) = (w :: u16)"
  by (rule bit_eqI) (auto simp: bit_simps)

lemma demo_hw_simps:
  "hw_read32 demo_eeprom_hw r (a, b) = (if r = CSR_EEPROM_REG then push_bit 16 (ucast (demo_rom a)) OR 1
       else if r = CSR_HW_IF_CONFIG_REG then (if b then EEPROM_OWN_SEM else 0) else 2, (a, b))"
  "hw_write32 demo_eeprom_hw r v (a, b) = (if r = CSR_EEPROM_REG then v AND CSR_EEPROM_REG_MSK_ADDR else a,
       if r = CSR_HW_IF_CONFIG_REG then v AND EEPROM_OWN_SEM \<noteq> 0 else b)"
  "hw_delay demo_eeprom_hw us d = d"
  by (simp_all add: demo_eeprom_hw_def)

lemma demo_valid: "(push_bit 16 (ucast w) OR 1 :: u32) AND 1 = 1" for w :: u16
  by (rule bit_eqI) (auto simp: bit_simps)

lemma demo_eeprom_device: "eeprom_device demo_eeprom_hw fst demo_rom"
  by (auto simp: eeprom_device_def demo_eeprom_hw_def demo_rom_read bit_simps)

lemma demo_sem_device: "sem_device demo_eeprom_hw snd"
  by (auto simp: sem_device_def demo_eeprom_hw_def)

lemmas demo_eval = bindIO_def retIO_def IODelay_def iwl_read32_def iwl_write32_def iwl_trans_pcie_read32_def
  iwl_trans_pcie_write32_def iwl_poll_bit_def poll_loop.simps iwl_set_bit_def iwl_clear_bit_def
  iwl_trans_pcie_set_bits_mask_def pcie_set_bits_mask_def IOSimpleLockLockDisableInterrupt_def
  IOSimpleLockUnlockEnableInterrupt_def

lemma demo_acquire:
  "iwl_eeprom_acquire_semaphore demo_eeprom_hw \<lparr>hw_base = (a, b), reg_lock = False, cmd_hold_nic_awake = c, family = f\<rparr> =
     Inr (Inr 0, \<lparr>hw_base = (a, True), reg_lock = False, cmd_hold_nic_awake = c, family = f\<rparr>)"
  using acquire_loop.simps(2)[of demo_eeprom_hw 999 "Inr 0"]
  by (simp add: iwl_eeprom_acquire_semaphore_def demo_eval demo_hw_simps)

lemma demo_read:
  "\<exists>s'. iwl_read_eeprom demo_eeprom_hw demo_bp 0x20 True (Some [0, 0]) demo_io = Inr (Inr [0x1200, 0x1201], s')"
  by (simp add: iwl_read_eeprom_def iwl_nvm_is_otp_def iwl_eeprom_verify_signature_def demo_acquire
    iwl_eeprom_release_semaphore_def eeprom_loop.simps eeprom_reg_addr_def demo_rom_read
    demo_eval demo_hw_simps demo_valid demo_io_def demo_bp_def demo_rom_def)


theorem read_eeprom_content_witness:
  "\<exists>words s'. iwl_read_eeprom demo_eeprom_hw demo_bp 0x20 True (Some [0, 0]) demo_io = Inr (Inr words, s')
     \<and> words = map (\<lambda>i. demo_rom (eeprom_reg_addr (of_nat (2 * i)))) [0..<2]"
proof -
  obtain s' where r: "iwl_read_eeprom demo_eeprom_hw demo_bp 0x20 True (Some [0, 0]) demo_io = Inr (Inr [0x1200, 0x1201], s')"
    using demo_read by blast
  have "unat (eeprom_size demo_bp) = 4" by (simp add: demo_bp_def)
  with read_eeprom_content[OF demo_eeprom_device _ _ _ r] r show ?thesis by auto
qed

theorem read_eeprom_frees_semaphore_witness:
  "\<exists>words s'. iwl_read_eeprom demo_eeprom_hw demo_bp 0x20 True (Some [0, 0]) demo_io = Inr (Inr words, s')
     \<and> \<not> snd (hw_base s')"
  using demo_read read_eeprom_frees_semaphore[OF demo_sem_device] by blast

text \<open>A device whose every OTP word is 1.\<close>

definition demo_otp_hw :: "unit hw" where
  "demo_otp_hw = \<lparr>hw_read32 = (\<lambda>r d. (0x00010001, d)), hw_write32 = (\<lambda>r v d. d), hw_write8 = (\<lambda>_ _ d. d),
     hw_delay = (\<lambda>_ d. d)\<rparr>"

theorem otp_image_overruns_buffer_witness:
  "otp_loop demo_otp_hw 0xFC00 (unat (eeprom_size (demo_bp\<lparr>eeprom_size := 0x800\<rparr>))) 0xFC00 0 (replicate 0x400 0)
       \<lparr>hw_base = (), reg_lock = False, cmd_hold_nic_awake = False, family = IWL_DEVICE_FAMILY_6000\<rparr>
     = Inl OutOfBounds"
proof (rule otp_image_overruns_buffer)
  show "65535 < unat (0xFC00 :: u16) + unat (eeprom_size (demo_bp\<lparr>eeprom_size := 0x800\<rparr>))" by simp
  show "\<exists>w s'. iwl_read_otp_word demo_otp_hw a s = Inr (Inr w, s')" for a s
    by (simp add: iwl_read_otp_word_def demo_eval demo_otp_hw_def)
qed

end
