(* ===== verification/Notif_Wait.thy ===== *)
theory Notif_Wait
  imports Iwl_Prelude
begin

section \<open>Waiting for notifications of the firmware\<close>

text \<open>
  \<^verbatim>\<open>iwlwifi/fw/notif-wait.c\<close> and the inline functions of \<^verbatim>\<open>iwlwifi/fw/notif-wait.h\<close>: threads that put
  an entry with the commands they wait for on a list and go to sleep, and the receive path that marks
  the entries a packet satisfies and wakes the sleepers.

  An entry is named by its address, a number; the entries themselves are memory indexed by address,
  so an entry can still be on the list after the function that owned it has returned. The callback of an
  entry is a parameter. Sleeping on the condition with a deadline is two steps of the thread
  (falling asleep and returning) with the wake-up or the deadline between them.
\<close>

subsection \<open>Data\<close>

record iwl_rx_packet =
  group_id :: u8
  cmd :: u8

record notif_entry =
  has_fn :: bool
  cmds :: "u16 list"
  n_cmds :: u8
  triggered :: bool
  aborted :: bool

datatype wait_result = THREAD_AWAKENED | THREAD_TIMED_OUT | THREAD_INTERRUPTED

datatype phase = Idle | Armed | Sleeping | Woken wait_result | Done "errno option"

record iwl_notif_wait_data =
  notif_waits :: "nat list"
  wait_entry :: "nat \<Rightarrow> notif_entry"
  phase_of :: "nat \<Rightarrow> phase"

abbreviation MAX_NOTIF_CMDS :: nat where "MAX_NOTIF_CMDS \<equiv> 5"

definition iwl_cmd_groupid :: "u32 \<Rightarrow> u8" where
  "iwl_cmd_groupid cmdid = ucast (drop_bit 8 (cmdid AND 0xFF00))"

definition WIDE_ID :: "u8 \<Rightarrow> u8 \<Rightarrow> u16" where
  "WIDE_ID grp opcode = push_bit 8 (ucast grp) OR ucast opcode"

definition DEF_ID :: "u16 \<Rightarrow> u32" where
  "DEF_ID opcode = push_bit 8 1 OR ucast opcode"

subsection \<open>The list of waits\<close>

definition iwl_notification_wait_init :: "iwl_notif_wait_data \<Rightarrow> iwl_notif_wait_data" where
  "iwl_notification_wait_init s = s\<lparr>notif_waits := []\<rparr>"

definition cmd_matches :: "iwl_rx_packet \<Rightarrow> u16 \<Rightarrow> bool" where
  "cmd_matches pkt c =
     (let rec_id = WIDE_ID (group_id pkt) (cmd pkt)
      in c = rec_id \<or> (iwl_cmd_groupid (ucast c) = 0 \<and> DEF_ID c = ucast rec_id))"

text \<open>One entry: \<open>answer\<close> is what its callback says about the packet.\<close>

definition wait_matches :: "iwl_rx_packet \<Rightarrow> notif_entry \<Rightarrow> bool" where
  "wait_matches pkt w = list_ex (cmd_matches pkt) (take (unat (n_cmds w)) (cmds w))"

definition wait_step :: "bool \<Rightarrow> iwl_rx_packet \<Rightarrow> notif_entry \<Rightarrow> bool \<times> notif_entry" where
  "wait_step answer pkt w =
     (if triggered w \<or> aborted w then (False, w)
      else if \<not> wait_matches pkt w then (False, w)
      else if \<not> has_fn w \<or> answer then (True, w\<lparr>triggered := True\<rparr>) else (False, w))"

fun wait_loop ::
  "(nat \<Rightarrow> iwl_rx_packet \<Rightarrow> bool) \<Rightarrow> iwl_rx_packet \<Rightarrow> nat list \<Rightarrow> bool \<times> iwl_notif_wait_data \<Rightarrow> bool \<times> iwl_notif_wait_data" where
  "wait_loop fn pkt [] (trig, s) = (trig, s)"
| "wait_loop fn pkt (w # ws) (trig, s) =
     (case wait_step (fn w pkt) pkt (wait_entry s w) of (hit, e) \<Rightarrow>
        wait_loop fn pkt ws (trig \<or> hit, s\<lparr>wait_entry := (wait_entry s)(w := e)\<rparr>))"

definition iwl_notification_wait ::
  "(nat \<Rightarrow> iwl_rx_packet \<Rightarrow> bool) \<Rightarrow> iwl_rx_packet \<Rightarrow> iwl_notif_wait_data \<Rightarrow> bool \<times> iwl_notif_wait_data" where
  "iwl_notification_wait fn pkt s = wait_loop fn pkt (notif_waits s) (False, s)"

text \<open>Waking the thread that sleeps on an entry, if there is one.\<close>

definition IOLockWakeup :: "nat \<Rightarrow> iwl_notif_wait_data \<Rightarrow> iwl_notif_wait_data" where
  "IOLockWakeup w s = (if phase_of s w = Sleeping
     then s\<lparr>phase_of := (phase_of s)(w := Woken THREAD_AWAKENED)\<rparr> else s)"

definition iwl_notification_notify :: "iwl_notif_wait_data \<Rightarrow> iwl_notif_wait_data" where
  "iwl_notification_notify s = fold IOLockWakeup (notif_waits s) s"

definition iwl_notification_wait_notify ::
  "(nat \<Rightarrow> iwl_rx_packet \<Rightarrow> bool) \<Rightarrow> iwl_rx_packet \<Rightarrow> iwl_notif_wait_data \<Rightarrow> iwl_notif_wait_data" where
  "iwl_notification_wait_notify fn pkt s =
     (case iwl_notification_wait fn pkt s of (trig, s) \<Rightarrow> if trig then iwl_notification_notify s else s)"

fun abort_loop :: "nat list \<Rightarrow> iwl_notif_wait_data \<Rightarrow> iwl_notif_wait_data" where
  "abort_loop [] s = s"
| "abort_loop (w # ws) s = abort_loop ws (s\<lparr>wait_entry := (wait_entry s)(w := (wait_entry s w)\<lparr>aborted := True\<rparr>)\<rparr>)"

definition iwl_abort_notification_waits :: "iwl_notif_wait_data \<Rightarrow> iwl_notif_wait_data" where
  "iwl_abort_notification_waits s = (let s = abort_loop (notif_waits s) s in fold IOLockWakeup (notif_waits s) s)"

subsection \<open>A waiting thread\<close>

text \<open>The entry is put on the list; the copy of the commands keeps what is behind them in the array.\<close>

definition iwl_init_notification_wait ::
  "nat \<Rightarrow> u16 list \<Rightarrow> nat \<Rightarrow> bool \<Rightarrow> iwl_notif_wait_data \<Rightarrow> iwl_notif_wait_data run" where
  "iwl_init_notification_wait w cs n fn s =
     (let n = (if n > MAX_NOTIF_CMDS then MAX_NOTIF_CMDS else n); old = wait_entry s w in
      if length cs < n then Inl OutOfBounds
      else Inr (s\<lparr>wait_entry := (wait_entry s)(w :=
             old\<lparr>has_fn := fn, n_cmds := of_nat n, cmds := take n cs @ drop n (cmds old),
                 triggered := False, aborted := False\<rparr>),
           notif_waits := w # notif_waits s, phase_of := (phase_of s)(w := Armed)\<rparr>))"

text \<open>\<open>STAILQ_REMOVE_HEAD\<close>: the entry it is called for plays no part.\<close>

definition iwl_remove_notification :: "nat \<Rightarrow> iwl_notif_wait_data \<Rightarrow> iwl_notif_wait_data run" where
  "iwl_remove_notification w s =
     (case notif_waits s of [] \<Rightarrow> Inl NullDeref | _ # ws \<Rightarrow> Inr (s\<lparr>notif_waits := ws\<rparr>))"

text \<open>\<open>iwl_wait_notification\<close> up to the sleep, and from the end of the sleep.\<close>

definition wait_sleep :: "nat \<Rightarrow> iwl_notif_wait_data \<Rightarrow> iwl_notif_wait_data" where
  "wait_sleep w s = s\<lparr>phase_of := (phase_of s)(w := Sleeping)\<rparr>"

definition wait_return :: "nat \<Rightarrow> wait_result \<Rightarrow> iwl_notif_wait_data \<Rightarrow> iwl_notif_wait_data run" where
  "wait_return w ret s =
     bindF (iwl_remove_notification w s) (\<lambda>s.
       let r = (if aborted (wait_entry s w) then Some EIO
                else if ret \<noteq> THREAD_AWAKENED then Some ETIMEDOUT else None)
       in Inr (s\<lparr>phase_of := (phase_of s)(w := Done r)\<rparr>))"

subsection \<open>Runs\<close>

datatype event = Init nat | Packet iwl_rx_packet | Abort | Sleep nat | Expire nat | Return nat

text \<open>
  The runs of the system, newest event first. With \<open>solo\<close> a thread starts waiting only when no other
  does; otherwise any number of threads may wait at the same time.
\<close>

inductive nrun ::
  "bool \<Rightarrow> (nat \<Rightarrow> iwl_rx_packet \<Rightarrow> bool) \<Rightarrow> (nat \<Rightarrow> notif_entry) \<Rightarrow> event list \<Rightarrow> iwl_notif_wait_data \<Rightarrow> bool"
  for solo fn e0 where
  start: "nrun solo fn e0 [] \<lparr>notif_waits = [], wait_entry = e0, phase_of = (\<lambda>_. Idle)\<rparr>"
| init: "nrun solo fn e0 evs s \<Longrightarrow> phase_of s w \<in> {Idle} \<union> range Done \<Longrightarrow> w \<notin> set (notif_waits s) \<Longrightarrow>
    (solo \<Longrightarrow> notif_waits s = []) \<Longrightarrow> iwl_init_notification_wait w cs n f s = Inr s' \<Longrightarrow>
    nrun solo fn e0 (Init w # evs) s'"
| packet: "nrun solo fn e0 evs s \<Longrightarrow> nrun solo fn e0 (Packet pkt # evs) (iwl_notification_wait_notify fn pkt s)"
| abort: "nrun solo fn e0 evs s \<Longrightarrow> nrun solo fn e0 (Abort # evs) (iwl_abort_notification_waits s)"
| sleep: "nrun solo fn e0 evs s \<Longrightarrow> phase_of s w = Armed \<Longrightarrow> nrun solo fn e0 (Sleep w # evs) (wait_sleep w s)"
| expire: "nrun solo fn e0 evs s \<Longrightarrow> phase_of s w = Sleeping \<Longrightarrow> ret \<noteq> THREAD_AWAKENED \<Longrightarrow>
    nrun solo fn e0 (Expire w # evs) (s\<lparr>phase_of := (phase_of s)(w := Woken ret)\<rparr>)"
| return: "nrun solo fn e0 evs s \<Longrightarrow> phase_of s w = Woken ret \<Longrightarrow> wait_return w ret s = Inr s' \<Longrightarrow>
    nrun solo fn e0 (Return w # evs) s'"

inductive_cases nrun_ConsE: "nrun solo fn e0 (ev # evs) s"

subsection \<open>The loops as one update\<close>

definition accepts :: "(nat \<Rightarrow> iwl_rx_packet \<Rightarrow> bool) \<Rightarrow> iwl_rx_packet \<Rightarrow> nat \<Rightarrow> notif_entry \<Rightarrow> bool" where
  "accepts fn pkt w e \<longleftrightarrow> \<not> triggered e \<and> \<not> aborted e \<and> wait_matches pkt e \<and> (has_fn e \<longrightarrow> fn w pkt)"

lemma wait_step_eq: "wait_step (fn w pkt) pkt e = (accepts fn pkt w e, if accepts fn pkt w e then e\<lparr>triggered := True\<rparr> else e)"
  by (simp add: wait_step_def accepts_def)

lemma accepts_once: "\<not> accepts fn pkt w (e\<lparr>triggered := True\<rparr>)"
  by (simp add: accepts_def)

lemma wait_loop_eq:
  "wait_loop fn pkt ws (trig, s) = (trig \<or> (\<exists>w\<in>set ws. accepts fn pkt w (wait_entry s w)),
     s\<lparr>wait_entry := (\<lambda>w. if w \<in> set ws \<and> accepts fn pkt w (wait_entry s w)
        then (wait_entry s w)\<lparr>triggered := True\<rparr> else wait_entry s w)\<rparr>)"
proof (induction ws arbitrary: trig s)
  case (Cons w ws)
  show ?case
    by (auto simp: wait_step_eq Cons.IH accepts_once fun_eq_iff intro!: iwl_notif_wait_data.equality)
qed simp

lemma wakeup_eq:
  "fold IOLockWakeup ws s = s\<lparr>phase_of := (\<lambda>w. if w \<in> set ws \<and> phase_of s w = Sleeping
     then Woken THREAD_AWAKENED else phase_of s w)\<rparr>"
  by (induction ws arbitrary: s) (auto simp: IOLockWakeup_def fun_eq_iff intro!: iwl_notif_wait_data.equality)

lemma abort_loop_eq:
  "abort_loop ws s = s\<lparr>wait_entry := (\<lambda>w. if w \<in> set ws then (wait_entry s w)\<lparr>aborted := True\<rparr> else wait_entry s w)\<rparr>"
  by (induction ws arbitrary: s) (auto simp: fun_eq_iff intro!: iwl_notif_wait_data.equality)

lemma notify_fields:
  "notif_waits (iwl_notification_wait_notify fn pkt s) = notif_waits s"
  "wait_entry (iwl_notification_wait_notify fn pkt s) = (\<lambda>w. if w \<in> set (notif_waits s) \<and> accepts fn pkt w (wait_entry s w)
        then (wait_entry s w)\<lparr>triggered := True\<rparr> else wait_entry s w)"
  "phase_of (iwl_notification_wait_notify fn pkt s) =
     (if \<exists>w\<in>set (notif_waits s). accepts fn pkt w (wait_entry s w)
      then (\<lambda>w. if w \<in> set (notif_waits s) \<and> phase_of s w = Sleeping then Woken THREAD_AWAKENED else phase_of s w)
      else phase_of s)"
  by (auto simp: iwl_notification_wait_notify_def iwl_notification_wait_def iwl_notification_notify_def
    wait_loop_eq wakeup_eq fun_eq_iff split: if_splits)

lemma abort_fields:
  "notif_waits (iwl_abort_notification_waits s) = notif_waits s"
  "wait_entry (iwl_abort_notification_waits s) = (\<lambda>w. if w \<in> set (notif_waits s)
     then (wait_entry s w)\<lparr>aborted := True\<rparr> else wait_entry s w)"
  "phase_of (iwl_abort_notification_waits s) =
     (\<lambda>w. if w \<in> set (notif_waits s) \<and> phase_of s w = Sleeping then Woken THREAD_AWAKENED else phase_of s w)"
  by (simp_all add: iwl_abort_notification_waits_def abort_loop_eq wakeup_eq Let_def fun_eq_iff)

subsection \<open>One waiter at a time\<close>

definition resting :: "phase \<Rightarrow> bool" where
  "resting p \<longleftrightarrow> p \<in> {Idle} \<union> range Done"

text \<open>The list holds exactly the entry of the waiting thread.\<close>

definition solo_list :: "iwl_notif_wait_data \<Rightarrow> bool" where
  "solo_list s \<longleftrightarrow>
     (case notif_waits s of [] \<Rightarrow> (\<forall>w. resting (phase_of s w))
      | [w] \<Rightarrow> \<not> resting (phase_of s w) \<and> (\<forall>v. v \<noteq> w \<longrightarrow> resting (phase_of s v))
      | _ \<Rightarrow> False)"

definition solo_wakes :: "iwl_notif_wait_data \<Rightarrow> bool" where
  "solo_wakes s \<longleftrightarrow> (\<forall>w. phase_of s w = Woken THREAD_AWAKENED \<longrightarrow> triggered (wait_entry s w) \<or> aborted (wait_entry s w))
     \<and> (\<forall>w. phase_of s w = Done None \<longrightarrow> triggered (wait_entry s w))"

lemma resting_simps [simp]:
  "resting Idle" "resting (Done r)" "\<not> resting Armed" "\<not> resting Sleeping" "\<not> resting (Woken ret)"
  by (auto simp: resting_def)

lemma solo_list_cases:
  assumes "solo_list s"
  obtains (None) "notif_waits s = []" and "\<And>w. resting (phase_of s w)"
    | (One) w where "notif_waits s = [w]" and "\<not> resting (phase_of s w)" and "\<And>v. v \<noteq> w \<Longrightarrow> resting (phase_of s v)"
  using assms by (auto simp: solo_list_def split: list.splits)

lemma solo_waiter: "solo_list s \<Longrightarrow> \<not> resting (phase_of s w) \<Longrightarrow> notif_waits s = [w]"
  by (metis solo_list_cases)

lemma solo_runs: "nrun True fn e0 evs s \<Longrightarrow> solo_list s \<and> solo_wakes s"
proof (induction rule: nrun.induct)
  case start
  show ?case by (simp add: solo_list_def solo_wakes_def)
next
  case (init evs s w cs n f s')
  then have "notif_waits s = []" by simp
  with init show ?case
    by (auto simp: iwl_init_notification_wait_def Let_def solo_list_def solo_wakes_def split: if_splits)
next
  case (packet evs s pkt)
  then have l: "solo_list s" and k: "solo_wakes s" by blast+
  from l show ?case
  proof (cases rule: solo_list_cases)
    case None
    then show ?thesis using l k by (simp add: solo_list_def solo_wakes_def notify_fields)
  next
    case (One w)
    then show ?thesis using k
      by (auto simp: solo_list_def solo_wakes_def notify_fields accepts_def)
  qed
next
  case (abort evs s)
  then have l: "solo_list s" and k: "solo_wakes s" by blast+
  from l show ?case
  proof (cases rule: solo_list_cases)
    case None
    then show ?thesis using l k by (simp add: solo_list_def solo_wakes_def abort_fields)
  next
    case (One w)
    then show ?thesis using k by (auto simp: solo_list_def solo_wakes_def abort_fields)
  qed
next
  case (sleep evs s w)
  then have "notif_waits s = [w]" using solo_waiter by fastforce
  with sleep show ?case by (auto simp: solo_list_def solo_wakes_def wait_sleep_def)
next
  case (expire evs s w ret)
  then have "notif_waits s = [w]" using solo_waiter by fastforce
  with expire show ?case by (auto simp: solo_list_def solo_wakes_def)
next
  case (return evs s w ret s')
  then have "notif_waits s = [w]" using solo_waiter by fastforce
  with return show ?case
    by (auto simp: solo_list_def solo_wakes_def wait_return_def iwl_remove_notification_def Let_def split: if_splits)
qed

subsection \<open>Every trigger has its packet\<close>

definition delivered :: "(nat \<Rightarrow> iwl_rx_packet \<Rightarrow> bool) \<Rightarrow> event list \<Rightarrow> nat \<Rightarrow> notif_entry \<Rightarrow> bool" where
  "delivered fn evs w e \<longleftrightarrow> (\<exists>pkt. Packet pkt \<in> set (takeWhile (\<lambda>ev. ev \<noteq> Init w) evs)
     \<and> wait_matches pkt e \<and> (has_fn e \<longrightarrow> fn w pkt))"

definition owed :: "(nat \<Rightarrow> iwl_rx_packet \<Rightarrow> bool) \<Rightarrow> event list \<Rightarrow> iwl_notif_wait_data \<Rightarrow> bool" where
  "owed fn evs s \<longleftrightarrow> (\<forall>w\<in>set (notif_waits s). phase_of s w \<noteq> Idle)
     \<and> (\<forall>w. phase_of s w \<noteq> Idle \<longrightarrow> triggered (wait_entry s w) \<longrightarrow> delivered fn evs w (wait_entry s w))"

lemma wait_matches_fields [simp]:
  "wait_matches pkt (e\<lparr>triggered := b\<rparr>) = wait_matches pkt e" "wait_matches pkt (e\<lparr>aborted := b\<rparr>) = wait_matches pkt e"
  by (simp_all add: wait_matches_def)

lemma delivered_later: "delivered fn evs w e \<Longrightarrow> ev \<noteq> Init w \<Longrightarrow> delivered fn (ev # evs) w e"
  by (auto simp: delivered_def)

lemma delivered_fields [simp]:
  "delivered fn evs w (e\<lparr>triggered := b\<rparr>) = delivered fn evs w e" "delivered fn evs w (e\<lparr>aborted := b\<rparr>) = delivered fn evs w e"
  by (simp_all add: delivered_def)

lemma delivered_now: "accepts fn pkt w e \<Longrightarrow> delivered fn (Packet pkt # evs) w e"
  by (auto simp: delivered_def accepts_def)

lemma runs_owe: "nrun solo fn e0 evs s \<Longrightarrow> owed fn evs s"
proof (induction rule: nrun.induct)
  case (packet evs s pkt)
  then show ?case
    by (auto simp: owed_def notify_fields intro: delivered_now delivered_later split: if_splits)
next
  case (abort evs s)
  then show ?case by (auto simp: owed_def abort_fields intro: delivered_later split: if_splits)
next
  case (init evs s w cs n f s')
  then show ?case
    by (auto simp: owed_def iwl_init_notification_wait_def Let_def intro: delivered_later split: if_splits)
next
  case (return evs s w ret s')
  then show ?case
    by (auto simp: owed_def wait_return_def iwl_remove_notification_def Let_def intro: delivered_later
      split: if_splits list.splits)
qed (auto simp: owed_def wait_sleep_def intro: delivered_later)

subsection \<open>Properties\<close>


text \<open>
  C31. As long as threads wait one at a time, a wait that returns success was answered: since the entry was put on
  the list, a packet with one of its commands came in that its callback accepted; and the list holds
  exactly the entry of the waiting thread, so taking the first entry off removes the right one.
\<close>

theorem single_wait_sound:
  assumes "nrun True fn e0 evs s"
  shows "(phase_of s w = Done None \<longrightarrow> delivered fn evs w (wait_entry s w))
     \<and> (\<not> resting (phase_of s w) \<longrightarrow> notif_waits s = [w])"
  using solo_runs[OF assms] runs_owe[OF assms] solo_waiter by (auto simp: solo_wakes_def owed_def)

subsection \<open>Two waiters, and a packet that comes too early\<close>

definition pkt_of :: "u8 \<Rightarrow> iwl_rx_packet" where
  "pkt_of c = \<lparr>group_id = 0, cmd = c\<rparr>"

definition blank :: notif_entry where
  "blank = \<lparr>has_fn = False, cmds = [0, 0, 0, 0, 0], n_cmds = 0, triggered = False, aborted = False\<rparr>"

lemma match_eval [simp]:
  "cmd_matches (pkt_of 1) 1" "\<not> cmd_matches (pkt_of 1) 2"
  by (simp_all add: cmd_matches_def pkt_of_def WIDE_ID_def DEF_ID_def iwl_cmd_groupid_def)

abbreviation yes :: "nat \<Rightarrow> iwl_rx_packet \<Rightarrow> bool" where
  "yes \<equiv> \<lambda>_ _. True"

abbreviation entry_for :: "u16 \<Rightarrow> notif_entry" where
  "entry_for c \<equiv> \<lparr>has_fn = False, cmds = [c, 0, 0, 0, 0], n_cmds = 1, triggered = False, aborted = False\<rparr>"

lemma wait_matches_eval: "wait_matches pkt (entry_for c) = cmd_matches pkt c"
  by (simp add: wait_matches_def)

lemma init_eval:
  assumes "wait_entry s w = blank"
  shows "iwl_init_notification_wait w [c] 1 False s = Inr (s\<lparr>wait_entry := (wait_entry s)(w := entry_for c),
     notif_waits := w # notif_waits s, phase_of := (phase_of s)(w := Armed)\<rparr>)"
  using assms by (simp add: iwl_init_notification_wait_def blank_def)

text \<open>Two threads wait for commands 1 and 2; then a packet with command 1 arrives.\<close>

definition both_asleep :: iwl_notif_wait_data where
  "both_asleep = \<lparr>notif_waits = [1, 0], wait_entry = (\<lambda>_. blank)(0 := entry_for 1, 1 := entry_for 2),
     phase_of = (\<lambda>_. Idle)(0 := Sleeping, 1 := Sleeping)\<rparr>"

definition both_awake :: iwl_notif_wait_data where
  "both_awake = iwl_notification_wait_notify yes (pkt_of 1) both_asleep"

lemma both_asleep_run: "nrun False yes (\<lambda>_. blank) [Sleep 1, Sleep 0, Init 1, Init 0] both_asleep"
proof -
  let ?s0 = "\<lparr>notif_waits = [], wait_entry = (\<lambda>_. blank), phase_of = (\<lambda>_. Idle)\<rparr>"
  let ?e1 = "(\<lambda>_. blank)(0 := entry_for 1)" and ?e2 = "(\<lambda>_. blank)(0 := entry_for 1, 1 := entry_for 2)"
  let ?s1 = "\<lparr>notif_waits = [0], wait_entry = ?e1, phase_of = (\<lambda>_. Idle)(0 := Armed)\<rparr>"
  let ?s2 = "\<lparr>notif_waits = [1, 0], wait_entry = ?e2, phase_of = (\<lambda>_. Idle)(0 := Armed, 1 := Armed)\<rparr>"
  have 0: "nrun False yes (\<lambda>_. blank) [] ?s0" by (rule nrun.start)
  have 1: "nrun False yes (\<lambda>_. blank) [Init 0] ?s1"
    by (rule nrun.init[OF 0, of 0 "[1]" 1 False]) (simp_all add: init_eval[simplified])
  have 2: "nrun False yes (\<lambda>_. blank) [Init 1, Init 0] ?s2"
    by (rule nrun.init[OF 1, of 1 "[2]" 1 False]) (simp_all add: init_eval[simplified])
  from nrun.sleep[OF nrun.sleep[OF 2, of 0], of 1] show ?thesis
    by (simp add: wait_sleep_def both_asleep_def fun_upd_twist)
qed

lemma both_awake_eval:
  "notif_waits both_awake = [1, 0]" "triggered (wait_entry both_awake 0)" "\<not> triggered (wait_entry both_awake 1)"
  "\<not> aborted (wait_entry both_awake 0)" "\<not> aborted (wait_entry both_awake 1)"
  "phase_of both_awake 0 = Woken THREAD_AWAKENED" "phase_of both_awake 1 = Woken THREAD_AWAKENED"
  by (simp_all add: both_awake_def notify_fields both_asleep_def accepts_def wait_matches_eval)

text \<open>
  C32. With two waiters a wait can succeed although nothing it waited for came in, and the entry of a function
  that has returned can stay on the list: waking does not look at who was marked, the woken thread does not
  look at its mark, and the thread that returns takes off whichever entry is first.
\<close>

theorem two_waits_confused:
  "(\<exists>evs s. nrun False yes (\<lambda>_. blank) evs s \<and> phase_of s 1 = Done None \<and> \<not> delivered yes evs 1 (wait_entry s 1))
   \<and> (\<exists>evs s. nrun False yes (\<lambda>_. blank) evs s \<and> phase_of s 0 = Done None \<and> 0 \<in> set (notif_waits s)
        \<and> \<not> resting (phase_of s 1) \<and> 1 \<notin> set (notif_waits s))"
proof
  let ?evs = "[Packet (pkt_of 1), Sleep 1, Sleep 0, Init 1, Init 0]"
  have run: "nrun False yes (\<lambda>_. blank) ?evs both_awake"
    unfolding both_awake_def by (rule nrun.packet[OF both_asleep_run])
  let ?r = "\<lambda>w. both_awake\<lparr>notif_waits := [0], phase_of := (phase_of both_awake)(w := Done None)\<rparr>"
  have ret: "nrun False yes (\<lambda>_. blank) (Return w # ?evs) (?r w)" if "w \<in> {0, 1}" for w
    by (rule nrun.return[OF run, of w THREAD_AWAKENED])
      (use that in \<open>auto simp: wait_return_def iwl_remove_notification_def both_awake_eval both_awake_eval[simplified]\<close>)
  have e1: "wait_entry both_awake 1 = entry_for 2"
    by (simp add: both_awake_def notify_fields both_asleep_def accepts_def wait_matches_eval)
  have "\<not> delivered yes (Return 1 # ?evs) 1 (wait_entry (?r 1) 1)"
    by (simp add: delivered_def e1[simplified] wait_matches_eval)
  then show "\<exists>evs s. nrun False yes (\<lambda>_. blank) evs s \<and> phase_of s 1 = Done None \<and> \<not> delivered yes evs 1 (wait_entry s 1)"
    using ret[of 1] by (intro exI[of _ "Return 1 # ?evs"] exI[of _ "?r 1"]) simp
  show "\<exists>evs s. nrun False yes (\<lambda>_. blank) evs s \<and> phase_of s 0 = Done None \<and> 0 \<in> set (notif_waits s)
        \<and> \<not> resting (phase_of s 1) \<and> 1 \<notin> set (notif_waits s)"
    using ret[of 0] by (intro exI[of _ "Return 0 # ?evs"] exI[of _ "?r 0"]) (simp add: both_awake_eval both_awake_eval[simplified])
qed

text \<open>
  Even a single waiter can time out although its packet came in: when the packet arrives between putting
  the entry on the list and going to sleep, the mark is set but nobody is woken, and the wait sleeps until
  the deadline without looking at the mark.
\<close>

theorem early_packet_times_out:
  "\<exists>evs s. nrun True yes (\<lambda>_. blank) evs s \<and> triggered (wait_entry s 0) \<and> delivered yes evs 0 (wait_entry s 0)
     \<and> phase_of s 0 = Done (Some ETIMEDOUT)"
proof -
  let ?s0 = "\<lparr>notif_waits = [], wait_entry = (\<lambda>_. blank), phase_of = (\<lambda>_. Idle)\<rparr>"
  let ?s1 = "\<lparr>notif_waits = [0], wait_entry = (\<lambda>_. blank)(0 := entry_for 1), phase_of = (\<lambda>_. Idle)(0 := Armed)\<rparr>"
  have "nrun True yes (\<lambda>_. blank) [] ?s0" by (rule nrun.start)
  then have 1: "nrun True yes (\<lambda>_. blank) [Init 0] ?s1"
    by (rule nrun.init[where w = 0 and cs = "[1]" and n = 1 and f = False]) (simp_all add: init_eval[simplified])
  define s2 where "s2 = iwl_notification_wait_notify yes (pkt_of 1) ?s1"
  have f: "notif_waits s2 = [0]" "phase_of s2 0 = Armed" "triggered (wait_entry s2 0)" "\<not> aborted (wait_entry s2 0)"
    by (simp_all add: s2_def notify_fields accepts_def wait_matches_eval)
  have 2: "nrun True yes (\<lambda>_. blank) [Packet (pkt_of 1), Init 0] s2"
    unfolding s2_def by (rule nrun.packet[OF 1])
  let ?s4 = "(wait_sleep 0 s2)\<lparr>phase_of := (phase_of (wait_sleep 0 s2))(0 := Woken THREAD_TIMED_OUT)\<rparr>"
  have 4: "nrun True yes (\<lambda>_. blank) [Expire 0, Sleep 0, Packet (pkt_of 1), Init 0] ?s4"
    by (rule nrun.expire[OF nrun.sleep[OF 2]]) (simp_all add: f wait_sleep_def)
  let ?s5 = "?s4\<lparr>notif_waits := [], phase_of := (phase_of ?s4)(0 := Done (Some ETIMEDOUT))\<rparr>"
  have 5: "nrun True yes (\<lambda>_. blank) [Return 0, Expire 0, Sleep 0, Packet (pkt_of 1), Init 0] ?s5"
    by (rule nrun.return[OF 4, of 0 THREAD_TIMED_OUT])
      (simp_all add: f wait_return_def iwl_remove_notification_def wait_sleep_def)
  from runs_owe[OF 5] have "delivered yes [Return 0, Expire 0, Sleep 0, Packet (pkt_of 1), Init 0] 0 (wait_entry ?s5 0)"
    using f by (simp add: owed_def wait_sleep_def)
  with 5 f show ?thesis by (intro exI conjI) (assumption, simp_all add: wait_sleep_def)
qed

text \<open>A wait that is answered: the thread sleeps, its packet comes, it returns.\<close>

theorem single_wait_sound_witness:
  "\<exists>evs s. nrun True yes (\<lambda>_. blank) evs s \<and> phase_of s 0 = Done None \<and> delivered yes evs 0 (wait_entry s 0)"
proof -
  let ?s0 = "\<lparr>notif_waits = [], wait_entry = (\<lambda>_. blank), phase_of = (\<lambda>_. Idle)\<rparr>"
  let ?s1 = "\<lparr>notif_waits = [0], wait_entry = (\<lambda>_. blank)(0 := entry_for 1), phase_of = (\<lambda>_. Idle)(0 := Armed)\<rparr>"
  have "nrun True yes (\<lambda>_. blank) [] ?s0" by (rule nrun.start)
  then have "nrun True yes (\<lambda>_. blank) [Init 0] ?s1"
    by (rule nrun.init[where w = 0 and cs = "[1]" and n = 1 and f = False]) (simp_all add: init_eval[simplified])
  from nrun.sleep[OF this, of 0] have 2: "nrun True yes (\<lambda>_. blank) [Sleep 0, Init 0] (wait_sleep 0 ?s1)" by simp
  define s3 where "s3 = iwl_notification_wait_notify yes (pkt_of 1) (wait_sleep 0 ?s1)"
  have f: "notif_waits s3 = [0]" "phase_of s3 0 = Woken THREAD_AWAKENED" "\<not> aborted (wait_entry s3 0)"
    by (simp_all add: s3_def notify_fields accepts_def wait_matches_eval wait_sleep_def)
  have 3: "nrun True yes (\<lambda>_. blank) [Packet (pkt_of 1), Sleep 0, Init 0] s3"
    unfolding s3_def by (rule nrun.packet[OF 2])
  let ?s4 = "s3\<lparr>notif_waits := [], phase_of := (phase_of s3)(0 := Done None)\<rparr>"
  have 4: "nrun True yes (\<lambda>_. blank) [Return 0, Packet (pkt_of 1), Sleep 0, Init 0] ?s4"
    by (rule nrun.return[OF 3 f(2)]) (simp add: f wait_return_def iwl_remove_notification_def)
  with single_wait_sound[OF 4, of 0] show ?thesis by (intro exI conjI) (assumption, simp_all)
qed

end
