(* ===== verification/Cmd_Search.thy ===== *)
theory Cmd_Search
  imports Notif_Wait
begin

section \<open>Names of host commands\<close>

text \<open>
  The part of \<^verbatim>\<open>iwlwifi/iwl-trans.c\<close> that finds the name of a host command: the binary search, its comparison,
  the lookup in the group of the command, and the check that the tables are sorted which
  \<open>iwl_trans_configure\<close> makes. A table is the list of its entries; the size field is kept beside it,
  because the code trusts the field.
\<close>

subsection \<open>Data\<close>

record iwl_hcmd_names =
  cmd_id :: u8
  cmd_name :: string

record iwl_hcmd_arr =
  hcmd_arr :: "iwl_hcmd_names list option"
  hcmd_size :: int

record hcmd_groups =
  command_groups :: "iwl_hcmd_arr list option"
  command_groups_size :: int

definition HCMD_ARR :: "iwl_hcmd_names list \<Rightarrow> iwl_hcmd_arr" where
  "HCMD_ARR x = \<lparr>hcmd_arr = Some x, hcmd_size = int (length x)\<rparr>"

definition iwl_cmd_opcode :: "u32 \<Rightarrow> u8" where
  "iwl_cmd_opcode cmdid = ucast (cmdid AND 0xFF)"

definition iwl_cmd_version :: "u32 \<Rightarrow> u8" where
  "iwl_cmd_version cmdid = ucast (drop_bit 16 (cmdid AND 0xFF0000))"

definition iwl_cmd_id :: "u8 \<Rightarrow> u8 \<Rightarrow> u8 \<Rightarrow> u32" where
  "iwl_cmd_id opcode groupid version = ucast opcode + push_bit 8 (ucast groupid) + push_bit 16 (ucast version)"

subsection \<open>Operations\<close>

definition elem_at :: "'a list \<Rightarrow> nat \<Rightarrow> 'a run" where
  "elem_at xs i = (if i < length xs then Inr (xs ! i) else Inl OutOfBounds)"

text \<open>
  The loop of \<open>bsearch\<close>. The bounds are array indices: the first middle element is half of \<open>nmemb\<close>, so either
  it lies outside of the array or \<open>l + u\<close> is far from the end of \<open>size_t\<close> from then on.
\<close>

function bsearch_loop :: "('k \<Rightarrow> 'e \<Rightarrow> int) \<Rightarrow> 'k \<Rightarrow> 'e list \<Rightarrow> nat \<Rightarrow> nat \<Rightarrow> nat option run" where
  "bsearch_loop compar key base l u =
     (if l < u then
        let idx = (l + u) div 2 in
        if idx < length base then
          let comparison = compar key (base ! idx) in
          if comparison < 0 then bsearch_loop compar key base l idx
          else if comparison > 0 then bsearch_loop compar key base (idx + 1) u
          else Inr (Some idx)
        else Inl OutOfBounds
      else Inr None)"
  by pat_completeness auto
termination
  by (relation "measure (\<lambda>(compar, key, base, l, u). u - l)") auto

declare bsearch_loop.simps [simp del]

definition bsearch :: "('k \<Rightarrow> 'e \<Rightarrow> int) \<Rightarrow> 'k \<Rightarrow> 'e list \<Rightarrow> nat \<Rightarrow> nat option run" where
  "bsearch compar key base nmemb = bsearch_loop compar key base 0 nmemb"

definition iwl_hcmd_names_cmp :: "u8 \<Rightarrow> iwl_hcmd_names \<Rightarrow> int" where
  "iwl_hcmd_names_cmp key elt = uint key - uint (cmd_id elt)"

text \<open>The \<open>int\<close> size of a table becomes the \<open>size_t\<close> argument of the search.\<close>

definition size_t_of_int :: "int \<Rightarrow> nat" where
  "size_t_of_int n = nat (n mod 2 ^ 64)"

definition iwl_get_cmd_string :: "hcmd_groups \<Rightarrow> u32 \<Rightarrow> string run" where
  "iwl_get_cmd_string t cid =
     (let grp = iwl_cmd_groupid cid; cmd = iwl_cmd_opcode cid in
      case command_groups t of None \<Rightarrow> Inr ''UNKNOWN''
      | Some gs \<Rightarrow>
          if uint grp \<ge> command_groups_size t then Inr ''UNKNOWN''
          else bindF (elem_at gs (unat grp)) (\<lambda>g.
            case hcmd_arr g of None \<Rightarrow> Inr ''UNKNOWN''
            | Some a \<Rightarrow> bindF (bsearch iwl_hcmd_names_cmp cmd a (size_t_of_int (hcmd_size g))) (\<lambda>ret.
                case ret of None \<Rightarrow> Inr ''UNKNOWN'' | Some i \<Rightarrow> Inr (cmd_name (a ! i)))))"

fun verify_arr :: "iwl_hcmd_names list \<Rightarrow> nat list \<Rightarrow> bool run" where
  "verify_arr a [] = Inr True"
| "verify_arr a (j # js) =
     bindF (elem_at a j) (\<lambda>x. bindF (elem_at a (j + 1)) (\<lambda>y.
       if cmd_id x > cmd_id y then Inr False else verify_arr a js))"

fun verify_groups :: "iwl_hcmd_arr list \<Rightarrow> nat list \<Rightarrow> int run" where
  "verify_groups gs [] = Inr 0"
| "verify_groups gs (i # is) =
     bindF (elem_at gs i) (\<lambda>g. case hcmd_arr g of None \<Rightarrow> verify_groups gs is
       | Some a \<Rightarrow> bindF (verify_arr a [0..<nat (hcmd_size g - 1)]) (\<lambda>sorted.
           if sorted then verify_groups gs is else Inr (- 1)))"

definition iwl_cmd_groups_verify_sorted :: "hcmd_groups \<Rightarrow> int run" where
  "iwl_cmd_groups_verify_sorted t =
     (case command_groups t of None \<Rightarrow> (if 0 < command_groups_size t then Inl NullDeref else Inr 0)
      | Some gs \<Rightarrow> verify_groups gs [0..<nat (command_groups_size t)])"

section \<open>Properties\<close>

lemma elem_at_ok [simp]: "i < length xs \<Longrightarrow> elem_at xs i = Inr (xs ! i)"
  by (simp add: elem_at_def)

text \<open>
  What a comparison function promises: it compares the place of the key with the place of the element. The
  search finds the key in every array that is in this order.
\<close>

locale search_order =
  fixes compar :: "'k \<Rightarrow> 'e \<Rightarrow> int" and place :: "'e \<Rightarrow> 'o::linorder" and place_key :: "'k \<Rightarrow> 'o"
  assumes compar_less: "compar k e < 0 \<longleftrightarrow> place_key k < place e"
    and compar_greater: "0 < compar k e \<longleftrightarrow> place e < place_key k"
begin

lemma loop_finds:
  assumes "sorted (map place base)" and "u \<le> length base"
    and "\<forall>i < l. place (base ! i) < place_key key"
    and "\<forall>i. u \<le> i \<and> i < length base \<longrightarrow> place_key key < place (base ! i)"
  shows "\<exists>r. bsearch_loop compar key base l u = Inr r
    \<and> (case r of None \<Rightarrow> \<forall>e \<in> set base. place e \<noteq> place_key key
        | Some i \<Rightarrow> i < length base \<and> place (base ! i) = place_key key)"
  using assms(2-)
proof (induction "u - l" arbitrary: l u rule: less_induct)
  case less
  show ?case
  proof (cases "l < u")
    case False
    with less.prems have "place (base ! i) \<noteq> place_key key" if "i < length base" for i
      using that less.prems(2)[rule_format, of i] less.prems(3)[rule_format, of i] False by (cases "i < l") force+
    with False show ?thesis by (auto simp: bsearch_loop.simps[of _ _ _ l u] in_set_conv_nth)
  next
    case True
    define idx where "idx = (l + u) div 2"
    have idx: "idx < u" "l \<le> idx" "idx < length base" using True less.prems(1) by (auto simp: idx_def)
    have mono: "place (base ! i) \<le> place (base ! j)" if "i \<le> j" "j < length base" for i j
      using sorted_nth_mono[OF assms(1), of i j] that by simp
    note step = bsearch_loop.simps[of compar key base l u, folded idx_def]
    consider (Below) "compar key (base ! idx) < 0" | (Above) "compar key (base ! idx) > 0"
      | (Here) "compar key (base ! idx) = 0" by linarith
    then show ?thesis
    proof cases
      case Below
      then have "place_key key < place (base ! i)" if "idx \<le> i" "i < length base" for i
        using mono[OF that] by (auto simp: compar_less intro: less_le_trans)
      with less.hyps[of idx l] less.prems idx Below True show ?thesis by (simp add: step Let_def)
    next
      case Above
      then have "place (base ! i) < place_key key" if "i < idx + 1" for i
        using mono[of i idx] that idx by (auto simp: compar_greater intro: le_less_trans)
      with less.hyps[of u "idx + 1"] less.prems idx Above True show ?thesis by (simp add: step Let_def)
    next
      case Here
      then have "place (base ! idx) = place_key key"
        using compar_less[of key "base ! idx"] compar_greater[of key "base ! idx"] by auto
      with Here idx True show ?thesis by (simp add: step Let_def)
    qed
  qed
qed

lemma bsearch_finds:
  assumes "sorted (map place base)"
  shows "\<exists>r. bsearch compar key base (length base) = Inr r
    \<and> (case r of None \<Rightarrow> \<forall>e \<in> set base. place e \<noteq> place_key key
        | Some i \<Rightarrow> i < length base \<and> place (base ! i) = place_key key)"
  unfolding bsearch_def using assms by (intro loop_finds) auto

end

interpretation names: search_order iwl_hcmd_names_cmp "\<lambda>e. cmd_id e" "\<lambda>k. k"
  by unfold_locales (auto simp: iwl_hcmd_names_cmp_def word_less_def)

text \<open>The tables a configuration names, and what the check says about them.\<close>

definition table_ok :: "iwl_hcmd_arr \<Rightarrow> bool" where
  "table_ok g \<longleftrightarrow> (case hcmd_arr g of None \<Rightarrow> True | Some a \<Rightarrow> hcmd_size g = int (length a) \<and> length a < 2 ^ 31)"

definition tables_ok :: "hcmd_groups \<Rightarrow> bool" where
  "tables_ok t \<longleftrightarrow> (case command_groups t of None \<Rightarrow> command_groups_size t = 0
     | Some gs \<Rightarrow> command_groups_size t = int (length gs) \<and> list_all table_ok gs)"

definition group_entries :: "hcmd_groups \<Rightarrow> nat \<Rightarrow> iwl_hcmd_names list" where
  "group_entries t g = (case command_groups t of None \<Rightarrow> []
     | Some gs \<Rightarrow> if g < length gs then (case hcmd_arr (gs ! g) of None \<Rightarrow> [] | Some a \<Rightarrow> a) else [])"

lemma verify_arr_spec:
  assumes "\<forall>j \<in> set js. j + 1 < length a"
  shows "verify_arr a js = Inr (\<forall>j \<in> set js. cmd_id (a ! j) \<le> cmd_id (a ! (j + 1)))"
  using assms by (induction js) (auto simp: not_less)

lemma verify_arr_sorted:
  "verify_arr a [0..<nat (int (length a) - 1)] = Inr (sorted (map cmd_id a))"
  by (subst verify_arr_spec) (auto simp: sorted_iff_nth_Suc nat_diff_distrib' less_diff_conv)

lemma verify_groups_spec:
  assumes "list_all table_ok gs" and "\<forall>i \<in> set is. i < length gs"
  shows "verify_groups gs is = Inr (if \<forall>i \<in> set is. \<forall>a. hcmd_arr (gs ! i) = Some a \<longrightarrow> sorted (map cmd_id a) then 0 else - 1)"
  using assms(2)
proof (induction "is")
  case (Cons i "is")
  then have i: "i < length gs" by simp
  with assms(1) have "table_ok (gs ! i)" by (simp add: list_all_length)
  with Cons i show ?case
    by (auto simp: table_ok_def verify_arr_sorted split: option.splits)
qed simp

lemma verify_sorted_spec:
  assumes "tables_ok t"
  shows "iwl_cmd_groups_verify_sorted t = Inr (if \<forall>g. sorted (map cmd_id (group_entries t g)) then 0 else - 1)"
proof (cases "command_groups t")
  case None
  with assms show ?thesis by (simp add: iwl_cmd_groups_verify_sorted_def tables_ok_def group_entries_def)
next
  case (Some gs)
  with assms have ok: "list_all table_ok gs" "command_groups_size t = int (length gs)" by (auto simp: tables_ok_def)
  have "(\<forall>i \<in> set [0..<length gs]. \<forall>a. hcmd_arr (gs ! i) = Some a \<longrightarrow> sorted (map cmd_id a))
    \<longleftrightarrow> (\<forall>g. sorted (map cmd_id (group_entries t g)))"
    using Some by (auto simp: group_entries_def split: option.splits)
  with Some ok verify_groups_spec[OF ok(1), of "[0..<length gs]"] show ?thesis
    by (simp add: iwl_cmd_groups_verify_sorted_def)
qed

lemma get_cmd_string_spec:
  assumes "tables_ok t" and "\<forall>g. sorted (map cmd_id (group_entries t g))"
  shows "\<exists>s. iwl_get_cmd_string t cid = Inr s
    \<and> (let es = group_entries t (unat (iwl_cmd_groupid cid)); op = iwl_cmd_opcode cid in
        (\<exists>e \<in> set es. cmd_id e = op \<and> s = cmd_name e) \<or> ((\<forall>e \<in> set es. cmd_id e \<noteq> op) \<and> s = ''UNKNOWN''))"
proof (cases "command_groups t")
  case None
  then show ?thesis by (simp add: iwl_get_cmd_string_def group_entries_def)
next
  case (Some gs)
  let ?g = "unat (iwl_cmd_groupid cid)" and ?op = "iwl_cmd_opcode cid"
  from Some assms(1) have ok: "list_all table_ok gs" and sz: "command_groups_size t = int (length gs)"
    by (auto simp: tables_ok_def)
  have out: "command_groups_size t \<le> uint (iwl_cmd_groupid cid) \<longleftrightarrow> \<not> ?g < length gs"
    unfolding sz using uint_nat[of "iwl_cmd_groupid cid"] by linarith
  show ?thesis
  proof (cases "?g < length gs")
    case False
    with Some show ?thesis by (simp add: iwl_get_cmd_string_def group_entries_def out)
  next
    case True
    with ok have t: "table_ok (gs ! ?g)" by (simp add: list_all_length)
    show ?thesis
    proof (cases "hcmd_arr (gs ! ?g)")
      case None
      with True Some show ?thesis by (simp add: iwl_get_cmd_string_def group_entries_def Let_def out)
    next
      case a: (Some a)
      then have es: "group_entries t ?g = a" using Some True by (simp add: group_entries_def)
      have n: "size_t_of_int (hcmd_size (gs ! ?g)) = length a"
        using t a by (simp add: table_ok_def size_t_of_int_def)
      obtain r where r: "bsearch iwl_hcmd_names_cmp ?op a (length a) = Inr r"
        "case r of None \<Rightarrow> \<forall>e \<in> set a. cmd_id e \<noteq> ?op | Some i \<Rightarrow> i < length a \<and> cmd_id (a ! i) = ?op"
        using names.bsearch_finds[OF assms(2)[rule_format, of ?g], of ?op] unfolding es by blast
      with True Some a n es show ?thesis
        by (cases r) (auto simp: iwl_get_cmd_string_def Let_def out)
    qed
  qed
qed

end
