(* ===== verification/Cmd_Names.thy ===== *)
theory Cmd_Names
  imports Cmd_Search
begin

section \<open>The command tables of the operation modes\<close>

text \<open>
  The tables of \<^verbatim>\<open>Mvm/IwlMvmOpMode_ops.cpp\<close> and \<^verbatim>\<open>IwlDvmOpMode_main.cpp\<close>, with the command numbers of
  \<^verbatim>\<open>iwlwifi/fw/api\<close> and \<^verbatim>\<open>iwlwifi/dvm/commands.h\<close>, and the lookup of \<open>Cmd_Search\<close> on them.
\<close>

definition HCMD_NAME :: "u8 \<Rightarrow> string \<Rightarrow> iwl_hcmd_names" where
  "HCMD_NAME x n = \<lparr>cmd_id = x, cmd_name = n\<rparr>"

definition iwl_mvm_legacy_names :: "iwl_hcmd_names list" where
  "iwl_mvm_legacy_names = [
    HCMD_NAME 0x01 ''MVM_ALIVE'', HCMD_NAME 0x02 ''REPLY_ERROR'', HCMD_NAME 0x03 ''ECHO_CMD'',
    HCMD_NAME 0x04 ''INIT_COMPLETE_NOTIF'', HCMD_NAME 0x08 ''PHY_CONTEXT_CMD'', HCMD_NAME 0x09 ''DBG_CFG'',
    HCMD_NAME 0x0C ''SCAN_CFG_CMD'', HCMD_NAME 0x0D ''SCAN_REQ_UMAC'', HCMD_NAME 0x0E ''SCAN_ABORT_UMAC'',
    HCMD_NAME 0x0F ''SCAN_COMPLETE_UMAC'', HCMD_NAME 0x10 ''TOF_CMD'', HCMD_NAME 0x11 ''TOF_NOTIFICATION'',
    HCMD_NAME 0x13 ''BA_WINDOW_STATUS_NOTIFICATION_ID'', HCMD_NAME 0x17 ''ADD_STA_KEY'',
    HCMD_NAME 0x18 ''ADD_STA'', HCMD_NAME 0x19 ''REMOVE_STA'', HCMD_NAME 0x1A ''FW_GET_ITEM_CMD'',
    HCMD_NAME 0x1C ''TX_CMD'', HCMD_NAME 0x1D ''SCD_QUEUE_CFG'', HCMD_NAME 0x1E ''TXPATH_FLUSH'',
    HCMD_NAME 0x1F ''MGMT_MCAST_KEY'', HCMD_NAME 0x20 ''WEP_KEY'', HCMD_NAME 0x25 ''SHARED_MEM_CFG'',
    HCMD_NAME 0x27 ''TDLS_CHANNEL_SWITCH_CMD'', HCMD_NAME 0x28 ''MAC_CONTEXT_CMD'',
    HCMD_NAME 0x29 ''TIME_EVENT_CMD'', HCMD_NAME 0x2A ''TIME_EVENT_NOTIFICATION'',
    HCMD_NAME 0x2B ''BINDING_CONTEXT_CMD'', HCMD_NAME 0x2C ''TIME_QUOTA_CMD'',
    HCMD_NAME 0x2D ''NON_QOS_TX_COUNTER_CMD'', HCMD_NAME 0x48 ''LEDS_CMD'', HCMD_NAME 0x4E ''LQ_CMD'',
    HCMD_NAME 0x4F ''FW_PAGING_BLOCK_CMD'', HCMD_NAME 0x51 ''SCAN_OFFLOAD_REQUEST_CMD'',
    HCMD_NAME 0x52 ''SCAN_OFFLOAD_ABORT_CMD'', HCMD_NAME 0x53 ''HOT_SPOT_CMD'',
    HCMD_NAME 0x56 ''SCAN_OFFLOAD_PROFILES_QUERY_CMD'', HCMD_NAME 0x5C ''BT_COEX_UPDATE_REDUCED_TXP'',
    HCMD_NAME 0x5D ''BT_COEX_CI'', HCMD_NAME 0x6A ''PHY_CONFIGURATION_CMD'',
    HCMD_NAME 0x6B ''CALIB_RES_NOTIF_PHY_DB'', HCMD_NAME 0x6C ''PHY_DB_CMD'',
    HCMD_NAME 0x6D ''SCAN_OFFLOAD_COMPLETE'', HCMD_NAME 0x6E ''SCAN_OFFLOAD_UPDATE_PROFILES_CMD'',
    HCMD_NAME 0x77 ''POWER_TABLE_CMD'', HCMD_NAME 0x78 ''PSM_UAPSD_AP_MISBEHAVING_NOTIFICATION'',
    HCMD_NAME 0x7E ''REPLY_THERMAL_MNG_BACKOFF'', HCMD_NAME 0x83 ''DC2DC_CONFIG_CMD'',
    HCMD_NAME 0x88 ''NVM_ACCESS_CMD'', HCMD_NAME 0x90 ''BEACON_NOTIFICATION'',
    HCMD_NAME 0x91 ''BEACON_TEMPLATE_CMD'', HCMD_NAME 0x98 ''TX_ANT_CONFIGURATION_CMD'',
    HCMD_NAME 0x9B ''BT_CONFIG'', HCMD_NAME 0x9C ''STATISTICS_CMD'',
    HCMD_NAME 0x9D ''STATISTICS_NOTIFICATION'', HCMD_NAME 0x9E ''EOSP_NOTIFICATION'',
    HCMD_NAME 0x9F ''REDUCE_TX_POWER_CMD'', HCMD_NAME 0xA1 ''CARD_STATE_NOTIFICATION'',
    HCMD_NAME 0xA2 ''MISSED_BEACONS_NOTIFICATION'', HCMD_NAME 0xA7 ''TDLS_CONFIG_CMD'',
    HCMD_NAME 0xA9 ''MAC_PM_POWER_TABLE'', HCMD_NAME 0xAA ''TDLS_CHANNEL_SWITCH_NOTIFICATION'',
    HCMD_NAME 0xB1 ''MFUART_LOAD_NOTIFICATION'', HCMD_NAME 0xB3 ''RSS_CONFIG_CMD'',
    HCMD_NAME 0xB5 ''SCAN_ITERATION_COMPLETE_UMAC'', HCMD_NAME 0xC0 ''REPLY_RX_PHY_CMD'',
    HCMD_NAME 0xC1 ''REPLY_RX_MPDU_CMD'', HCMD_NAME 0xC3 ''FRAME_RELEASE'', HCMD_NAME 0xC5 ''BA_NOTIF'',
    HCMD_NAME 0xC8 ''MCC_UPDATE_CMD'', HCMD_NAME 0xC9 ''MCC_CHUB_UPDATE_CMD'',
    HCMD_NAME 0xCB ''MARKER_CMD'', HCMD_NAME 0xCE ''BT_PROFILE_NOTIFICATION'',
    HCMD_NAME 0xCF ''BCAST_FILTER_CMD'', HCMD_NAME 0xD0 ''MCAST_FILTER_CMD'',
    HCMD_NAME 0xD1 ''REPLY_SF_CFG_CMD'', HCMD_NAME 0xD2 ''REPLY_BEACON_FILTERING_CMD'',
    HCMD_NAME 0xD3 ''D3_CONFIG_CMD'', HCMD_NAME 0xD4 ''PROT_OFFLOAD_CONFIG_CMD'',
    HCMD_NAME 0xD5 ''OFFLOADS_QUERY_CMD'', HCMD_NAME 0xD6 ''REMOTE_WAKE_CONFIG_CMD'',
    HCMD_NAME 0xD9 ''MATCH_FOUND_NOTIFICATION'', HCMD_NAME 0xDD ''DTS_MEASUREMENT_NOTIFICATION'',
    HCMD_NAME 0xE0 ''WOWLAN_PATTERNS'', HCMD_NAME 0xE1 ''WOWLAN_CONFIGURATION'',
    HCMD_NAME 0xE2 ''WOWLAN_TSC_RSC_PARAM'', HCMD_NAME 0xE3 ''WOWLAN_TKIP_PARAM'',
    HCMD_NAME 0xE4 ''WOWLAN_KEK_KCK_MATERIAL'', HCMD_NAME 0xE5 ''WOWLAN_GET_STATUSES'',
    HCMD_NAME 0xE7 ''SCAN_ITERATION_COMPLETE'', HCMD_NAME 0xED ''D0I3_END_CMD'',
    HCMD_NAME 0xEE ''LTR_CONFIG'']"

definition iwl_mvm_system_names :: "iwl_hcmd_names list" where
  "iwl_mvm_system_names = [
    HCMD_NAME 0x00 ''SHARED_MEM_CFG_CMD'', HCMD_NAME 0x03 ''INIT_EXTENDED_CFG_CMD'']"

definition iwl_mvm_mac_conf_names :: "iwl_hcmd_names list" where
  "iwl_mvm_mac_conf_names = [
    HCMD_NAME 0xFF ''CHANNEL_SWITCH_NOA_NOTIF'']"

definition iwl_mvm_phy_names :: "iwl_hcmd_names list" where
  "iwl_mvm_phy_names = [
    HCMD_NAME 0x00 ''CMD_DTS_MEASUREMENT_TRIGGER_WIDE'', HCMD_NAME 0x03 ''CTDP_CONFIG_CMD'',
    HCMD_NAME 0x04 ''TEMP_REPORTING_THRESHOLDS_CMD'', HCMD_NAME 0x05 ''GEO_TX_POWER_LIMIT'',
    HCMD_NAME 0xFE ''CT_KILL_NOTIFICATION'', HCMD_NAME 0xFF ''DTS_MEASUREMENT_NOTIF_WIDE'']"

definition iwl_mvm_data_path_names :: "iwl_hcmd_names list" where
  "iwl_mvm_data_path_names = [
    HCMD_NAME 0x00 ''DQA_ENABLE_CMD'', HCMD_NAME 0x01 ''UPDATE_MU_GROUPS_CMD'',
    HCMD_NAME 0x02 ''TRIGGER_RX_QUEUES_NOTIF_CMD'', HCMD_NAME 0x07 ''STA_HE_CTXT_CMD'',
    HCMD_NAME 0x0D ''RFH_QUEUE_CONFIG_CMD'', HCMD_NAME 0xFD ''STA_PM_NOTIF'',
    HCMD_NAME 0xFE ''MU_GROUP_MGMT_NOTIF'', HCMD_NAME 0xFF ''RX_QUEUES_NOTIFICATION'']"

definition iwl_mvm_debug_names :: "iwl_hcmd_names list" where
  "iwl_mvm_debug_names = [
    HCMD_NAME 0xFE ''MFU_ASSERT_DUMP_NTF'']"

definition iwl_mvm_prot_offload_names :: "iwl_hcmd_names list" where
  "iwl_mvm_prot_offload_names = [
    HCMD_NAME 0xFF ''STORED_BEACON_NTF'']"

definition iwl_mvm_regulatory_and_nvm_names :: "iwl_hcmd_names list" where
  "iwl_mvm_regulatory_and_nvm_names = [
    HCMD_NAME 0x00 ''NVM_ACCESS_COMPLETE'', HCMD_NAME 0x02 ''NVM_GET_INFO'']"

definition iwl_dvm_cmd_names :: "iwl_hcmd_names list" where
  "iwl_dvm_cmd_names = [
    HCMD_NAME 0x01 ''REPLY_ALIVE'', HCMD_NAME 0x02 ''REPLY_ERROR'', HCMD_NAME 0x03 ''REPLY_ECHO'',
    HCMD_NAME 0x10 ''REPLY_RXON'', HCMD_NAME 0x11 ''REPLY_RXON_ASSOC'', HCMD_NAME 0x13 ''REPLY_QOS_PARAM'',
    HCMD_NAME 0x14 ''REPLY_RXON_TIMING'', HCMD_NAME 0x18 ''REPLY_ADD_STA'',
    HCMD_NAME 0x19 ''REPLY_REMOVE_STA'', HCMD_NAME 0x1A ''REPLY_REMOVE_ALL_STA'',
    HCMD_NAME 0x1C ''REPLY_TX'', HCMD_NAME 0x1E ''REPLY_TXFIFO_FLUSH'', HCMD_NAME 0x20 ''REPLY_WEPKEY'',
    HCMD_NAME 0x48 ''REPLY_LEDS_CMD'', HCMD_NAME 0x4E ''REPLY_TX_LINK_QUALITY_CMD'',
    HCMD_NAME 0x5A ''COEX_PRIORITY_TABLE_CMD'', HCMD_NAME 0x5B ''COEX_MEDIUM_NOTIFICATION'',
    HCMD_NAME 0x5C ''COEX_EVENT_CMD'', HCMD_NAME 0x62 ''TEMPERATURE_NOTIFICATION'',
    HCMD_NAME 0x65 ''CALIBRATION_CFG_CMD'', HCMD_NAME 0x66 ''CALIBRATION_RES_NOTIFICATION'',
    HCMD_NAME 0x67 ''CALIBRATION_COMPLETE_NOTIFICATION'', HCMD_NAME 0x71 ''REPLY_QUIET_CMD'',
    HCMD_NAME 0x72 ''REPLY_CHANNEL_SWITCH'', HCMD_NAME 0x73 ''CHANNEL_SWITCH_NOTIFICATION'',
    HCMD_NAME 0x74 ''REPLY_SPECTRUM_MEASUREMENT_CMD'', HCMD_NAME 0x75 ''SPECTRUM_MEASURE_NOTIFICATION'',
    HCMD_NAME 0x77 ''POWER_TABLE_CMD'', HCMD_NAME 0x7A ''PM_SLEEP_NOTIFICATION'',
    HCMD_NAME 0x7B ''PM_DEBUG_STATISTIC_NOTIFIC'', HCMD_NAME 0x80 ''REPLY_SCAN_CMD'',
    HCMD_NAME 0x81 ''REPLY_SCAN_ABORT_CMD'', HCMD_NAME 0x82 ''SCAN_START_NOTIFICATION'',
    HCMD_NAME 0x83 ''SCAN_RESULTS_NOTIFICATION'', HCMD_NAME 0x84 ''SCAN_COMPLETE_NOTIFICATION'',
    HCMD_NAME 0x90 ''BEACON_NOTIFICATION'', HCMD_NAME 0x91 ''REPLY_TX_BEACON'',
    HCMD_NAME 0x94 ''WHO_IS_AWAKE_NOTIFICATION'', HCMD_NAME 0x95 ''REPLY_TX_POWER_DBM_CMD'',
    HCMD_NAME 0x96 ''QUIET_NOTIFICATION'', HCMD_NAME 0x97 ''REPLY_TX_PWR_TABLE_CMD'',
    HCMD_NAME 0x98 ''REPLY_TX_POWER_DBM_CMD_V1'', HCMD_NAME 0x98 ''TX_ANT_CONFIGURATION_CMD'',
    HCMD_NAME 0x99 ''MEASURE_ABORT_NOTIFICATION'', HCMD_NAME 0x9B ''REPLY_BT_CONFIG'',
    HCMD_NAME 0x9C ''REPLY_STATISTICS_CMD'', HCMD_NAME 0x9D ''STATISTICS_NOTIFICATION'',
    HCMD_NAME 0xA0 ''REPLY_CARD_STATE_CMD'', HCMD_NAME 0xA1 ''CARD_STATE_NOTIFICATION'',
    HCMD_NAME 0xA2 ''MISSED_BEACONS_NOTIFICATION'', HCMD_NAME 0xA4 ''REPLY_CT_KILL_CONFIG_CMD'',
    HCMD_NAME 0xA8 ''SENSITIVITY_CMD'', HCMD_NAME 0xB0 ''REPLY_PHY_CALIBRATION_CMD'',
    HCMD_NAME 0xB2 ''REPLY_WIPAN_PARAMS'', HCMD_NAME 0xB3 ''REPLY_WIPAN_RXON'',
    HCMD_NAME 0xB4 ''REPLY_WIPAN_RXON_TIMING'', HCMD_NAME 0xB6 ''REPLY_WIPAN_RXON_ASSOC'',
    HCMD_NAME 0xB7 ''REPLY_WIPAN_QOS_PARAM'', HCMD_NAME 0xB8 ''REPLY_WIPAN_WEPKEY'',
    HCMD_NAME 0xB9 ''REPLY_WIPAN_P2P_CHANNEL_SWITCH'', HCMD_NAME 0xBC ''REPLY_WIPAN_NOA_NOTIFICATION'',
    HCMD_NAME 0xBD ''REPLY_WIPAN_DEACTIVATION_COMPLETE'', HCMD_NAME 0xC0 ''REPLY_RX_PHY_CMD'',
    HCMD_NAME 0xC1 ''REPLY_RX_MPDU_CMD'', HCMD_NAME 0xC3 ''REPLY_RX'',
    HCMD_NAME 0xC5 ''REPLY_COMPRESSED_BA'', HCMD_NAME 0xCC ''REPLY_BT_COEX_PRIO_TABLE'',
    HCMD_NAME 0xCD ''REPLY_BT_COEX_PROT_ENV'', HCMD_NAME 0xCE ''REPLY_BT_COEX_PROFILE_NOTIF'',
    HCMD_NAME 0xD3 ''REPLY_D3_CONFIG'', HCMD_NAME 0xE0 ''REPLY_WOWLAN_PATTERNS'',
    HCMD_NAME 0xE1 ''REPLY_WOWLAN_WAKEUP_FILTER'', HCMD_NAME 0xE2 ''REPLY_WOWLAN_TSC_RSC_PARAMS'',
    HCMD_NAME 0xE3 ''REPLY_WOWLAN_TKIP_PARAMS'', HCMD_NAME 0xE4 ''REPLY_WOWLAN_KEK_KCK_MATERIAL'',
    HCMD_NAME 0xE5 ''REPLY_WOWLAN_GET_STATUS'']"

text \<open>The array of groups: an index without an initialiser is zero, that is a NULL table of size 0.\<close>

definition no_table :: iwl_hcmd_arr where
  "no_table = \<lparr>hcmd_arr = None, hcmd_size = 0\<rparr>"

definition iwl_mvm_groups :: "iwl_hcmd_arr list" where
  "iwl_mvm_groups = [HCMD_ARR iwl_mvm_legacy_names, HCMD_ARR iwl_mvm_legacy_names, HCMD_ARR iwl_mvm_system_names,
     HCMD_ARR iwl_mvm_mac_conf_names, HCMD_ARR iwl_mvm_phy_names, HCMD_ARR iwl_mvm_data_path_names,
     no_table, no_table, no_table, no_table, no_table,
     HCMD_ARR iwl_mvm_prot_offload_names, HCMD_ARR iwl_mvm_regulatory_and_nvm_names]"

definition iwl_dvm_groups :: "iwl_hcmd_arr list" where
  "iwl_dvm_groups = [HCMD_ARR iwl_dvm_cmd_names]"

definition configure_groups :: "iwl_hcmd_arr list \<Rightarrow> hcmd_groups" where
  "configure_groups gs = \<lparr>command_groups = Some gs, command_groups_size = int (length gs)\<rparr>"

section \<open>Properties\<close>

lemmas table_defs = iwl_mvm_legacy_names_def iwl_mvm_system_names_def iwl_mvm_mac_conf_names_def iwl_mvm_phy_names_def
  iwl_mvm_data_path_names_def iwl_mvm_prot_offload_names_def iwl_mvm_regulatory_and_nvm_names_def iwl_dvm_cmd_names_def

lemma tables_ok_configure: "list_all table_ok gs \<Longrightarrow> tables_ok (configure_groups gs)"
  by (simp add: tables_ok_def configure_groups_def)

lemma table_ok_simps [simp]: "table_ok (HCMD_ARR a) \<longleftrightarrow> length a < 2 ^ 31" "table_ok no_table"
  by (simp_all add: table_ok_def HCMD_ARR_def no_table_def)

lemma mvm_tables_ok: "tables_ok (configure_groups iwl_mvm_groups)"
  by (rule tables_ok_configure) (simp add: iwl_mvm_groups_def table_defs)

lemma dvm_tables_ok: "tables_ok (configure_groups iwl_dvm_groups)"
  by (rule tables_ok_configure) (simp add: iwl_dvm_groups_def table_defs)

lemma group_entries_configure:
  "group_entries (configure_groups gs) g = (if g < length gs then (case hcmd_arr (gs ! g) of None \<Rightarrow> [] | Some a \<Rightarrow> a) else [])"
  by (simp add: group_entries_def configure_groups_def)

lemma group_entries_all:
  assumes "list_all (\<lambda>g. case hcmd_arr g of None \<Rightarrow> True | Some a \<Rightarrow> P a) gs" and "P []"
  shows "P (group_entries (configure_groups gs) g)"
  using assms by (auto simp: group_entries_configure list_all_length split: option.splits)

lemma mvm_strict:
  "list_all (\<lambda>g. case hcmd_arr g of None \<Rightarrow> True | Some a \<Rightarrow> successively (<) (map (\<lambda>e. uint (cmd_id e)) a)) iwl_mvm_groups"
  by code_simp

lemma dvm_weak: "successively (\<le>) (map (\<lambda>e. uint (cmd_id e)) iwl_dvm_cmd_names)"
  by code_simp

lemma successively_uint:
  "successively (<) (map (\<lambda>e. uint (cmd_id e)) a) \<Longrightarrow> sorted_wrt (<) (map cmd_id a)"
  "successively (\<le>) (map (\<lambda>e. uint (cmd_id e)) a) \<Longrightarrow> sorted (map cmd_id a)"
  by (subst (asm) successively_conv_sorted_wrt, simp add: transp_def,
      simp add: sorted_wrt_map word_less_def word_le_def)+

lemma mvm_sorted: "sorted_wrt (<) (map cmd_id (group_entries (configure_groups iwl_mvm_groups) g))"
  by (rule successively_uint(1), rule group_entries_all[OF mvm_strict]) simp

lemma dvm_sorted: "sorted (map cmd_id (group_entries (configure_groups iwl_dvm_groups) g))"
  using successively_uint(2)[OF dvm_weak]
  by (simp add: group_entries_configure iwl_dvm_groups_def HCMD_ARR_def)

lemma find_by_id:
  assumes "distinct (map cmd_id es)" and "e \<in> set es" and "cmd_id e = k"
  shows "find (\<lambda>e. cmd_id e = k) es = Some e"
  using assms by (induction es) (auto simp: image_iff)

lemma find_no_id: "\<forall>e \<in> set es. cmd_id e \<noteq> k \<Longrightarrow> find (\<lambda>e. cmd_id e = k) es = None"
  by (induction es) auto

text \<open>
  C34. When the check made at configuration time finds the tables sorted, the binary search has no fault and
  agrees with a search through the whole group: the result is the name of an entry with the number of the
  command, and \<open>UNKNOWN\<close> exactly when there is none. When it finds them unsorted it says so.
\<close>

theorem name_lookup_exact:
  assumes "tables_ok t"
  shows "iwl_cmd_groups_verify_sorted t = Inr (if \<forall>g. sorted (map cmd_id (group_entries t g)) then 0 else - 1)
    \<and> (iwl_cmd_groups_verify_sorted t = Inr 0 \<longrightarrow>
        (\<exists>s. iwl_get_cmd_string t cid = Inr s
          \<and> (let es = group_entries t (unat (iwl_cmd_groupid cid)); op = iwl_cmd_opcode cid in
              (\<exists>e \<in> set es. cmd_id e = op \<and> s = cmd_name e) \<or> ((\<forall>e \<in> set es. cmd_id e \<noteq> op) \<and> s = ''UNKNOWN''))))"
proof -
  have "iwl_cmd_groups_verify_sorted t = Inr 0 \<Longrightarrow> \<forall>g. sorted (map cmd_id (group_entries t g))"
    by (simp add: verify_sorted_spec[OF assms] split: if_splits)
  then show ?thesis using verify_sorted_spec[OF assms] get_cmd_string_spec[OF assms, of cid] by blast
qed

theorem name_lookup_exact_witness:
  "iwl_cmd_groups_verify_sorted (configure_groups iwl_mvm_groups) = Inr 0
   \<and> iwl_get_cmd_string (configure_groups iwl_mvm_groups) 0x6C = Inr ''PHY_DB_CMD''
   \<and> iwl_get_cmd_string (configure_groups iwl_mvm_groups) 0x05 = Inr ''UNKNOWN''"
proof -
  have s: "\<forall>g. sorted (map cmd_id (group_entries (configure_groups iwl_mvm_groups) g))"
    using mvm_sorted strict_sorted_imp_sorted by blast
  have v: "iwl_cmd_groups_verify_sorted (configure_groups iwl_mvm_groups) = Inr 0"
    using name_lookup_exact[OF mvm_tables_ok, of 0] s by simp
  have e: "group_entries (configure_groups iwl_mvm_groups) 0 = iwl_mvm_legacy_names"
    by (simp add: group_entries_configure iwl_mvm_groups_def HCMD_ARR_def)
  have f: "find (\<lambda>e. cmd_id e = 0x6C) iwl_mvm_legacy_names = Some (HCMD_NAME 0x6C ''PHY_DB_CMD'')"
    "find (\<lambda>e. cmd_id e = 0x05) iwl_mvm_legacy_names = None" by code_simp+
  have d: "distinct (map cmd_id iwl_mvm_legacy_names)" using mvm_sorted[of 0] e strict_sorted_iff by metis
  note look = name_lookup_exact[OF mvm_tables_ok, THEN conjunct2, rule_format, OF v]
  have u: "cmd_name x = ''PHY_DB_CMD''" if "x \<in> set iwl_mvm_legacy_names" "cmd_id x = 0x6C" for x
    using find_by_id[OF d that] unfolding f(1) HCMD_NAME_def by auto
  have "iwl_get_cmd_string (configure_groups iwl_mvm_groups) 0x6C = Inr ''PHY_DB_CMD''"
    using look[of "0x6C"] u find_no_id[of iwl_mvm_legacy_names "0x6C"] f(1)
    by (auto simp: iwl_cmd_groupid_def iwl_cmd_opcode_def e Let_def)
  moreover have "iwl_get_cmd_string (configure_groups iwl_mvm_groups) 0x05 = Inr ''UNKNOWN''"
    using look[of "0x05"] find_by_id[OF d, of _ "0x05"] f(2)
    by (auto simp: iwl_cmd_groupid_def iwl_cmd_opcode_def e Let_def)
  ultimately show ?thesis using v by blast
qed

text \<open>
  The tables of the two operation modes pass the check. In the tables of the MVM mode the lookup of every
  command number in every group is exact. In the table of the DVM mode the number 0x98 stands twice, and the
  search answers with the first name, also for \<open>TX_ANT_CONFIGURATION_CMD\<close>.
\<close>

theorem command_tables_found:
  "iwl_cmd_groups_verify_sorted (configure_groups iwl_mvm_groups) = Inr 0
   \<and> iwl_cmd_groups_verify_sorted (configure_groups iwl_dvm_groups) = Inr 0
   \<and> iwl_get_cmd_string (configure_groups iwl_mvm_groups) cid =
       Inr (case find (\<lambda>e. cmd_id e = iwl_cmd_opcode cid) (group_entries (configure_groups iwl_mvm_groups) (unat (iwl_cmd_groupid cid)))
            of None \<Rightarrow> ''UNKNOWN'' | Some e \<Rightarrow> cmd_name e)
   \<and> iwl_get_cmd_string (configure_groups iwl_dvm_groups) 0x98 = Inr ''REPLY_TX_POWER_DBM_CMD_V1''"
proof -
  let ?m = "configure_groups iwl_mvm_groups" and ?d = "configure_groups iwl_dvm_groups"
  have sm: "\<forall>g. sorted (map cmd_id (group_entries ?m g))" using mvm_sorted strict_sorted_imp_sorted by blast
  have "distinct (map cmd_id (group_entries ?m g))" for g using mvm_sorted strict_sorted_iff by blast
  then have "iwl_get_cmd_string ?m cid =
       Inr (case find (\<lambda>e. cmd_id e = iwl_cmd_opcode cid) (group_entries ?m (unat (iwl_cmd_groupid cid)))
            of None \<Rightarrow> ''UNKNOWN'' | Some e \<Rightarrow> cmd_name e)"
    using get_cmd_string_spec[OF mvm_tables_ok sm, of cid] by (auto simp: Let_def find_by_id find_no_id)
  moreover have "iwl_get_cmd_string ?d 0x98 = Inr ''REPLY_TX_POWER_DBM_CMD_V1''" by code_simp
  ultimately show ?thesis
    using sm dvm_sorted by (simp add: verify_sorted_spec mvm_tables_ok dvm_tables_ok)
qed

end
