(* ===== verification/Iwl_Trans.thy ===== *)
theory Iwl_Trans
  imports Bitmap Iwl_Heap Cmd_Search
begin

section \<open>The transport interface\<close>

text \<open>
  \<^verbatim>\<open>iwlwifi/iwl-trans.c\<close> and the wrappers of \<^verbatim>\<open>iwlwifi/iwl-trans.h\<close> through which the operation modes use a
  transport, and the four methods of the class in \<^verbatim>\<open>IwlTransOps.cpp\<close>. The transport itself is a table of
  function pointers, some of which may be NULL; it is a parameter: what a call of the table does to the
  transport structure and what it answers. A wrapper returns the \<open>int\<close> of the C function (0 for \<open>void\<close>) and
  the structure as it was left.
\<close>

subsection \<open>Data\<close>

datatype iwl_trans_state = IWL_TRANS_NO_FW | IWL_TRANS_FW_ALIVE

record 'p iwl_trans =
  trans_state :: iwl_trans_state
  trans_status :: u64
  trans_op_mode :: "nat option"
  wide_cmd_header :: bool
  num_rx_queues :: u8
  trans_groups :: hcmd_groups
  trans_specific :: 'p

definition STATUS_RFKILL_OPMODE :: nat where "STATUS_RFKILL_OPMODE = 5"
definition STATUS_FW_ERROR :: nat where "STATUS_FW_ERROR = 6"

definition CMD_ASYNC :: u32 where "CMD_ASYNC = 0x01"
definition CMD_WANT_SKB :: u32 where "CMD_WANT_SKB = 0x02"
definition CMD_SEND_IN_RFKILL :: u32 where "CMD_SEND_IN_RFKILL = 0x04"
definition CMD_WANT_ASYNC_CALLBACK :: u32 where "CMD_WANT_ASYNC_CALLBACK = 0x80"

text \<open>A host command; \<open>host_data\<close> stands for the buffers it points to, which the interface only passes on.\<close>

record 'x iwl_host_cmd =
  host_data :: 'x
  resp_pkt :: "nat option"
  host_flags :: u32
  host_id :: u32

record iwl_trans_config =
  cfg_op_mode :: "nat option"
  cfg_groups :: hcmd_groups

record iwl_trans_txq_scd_cfg =
  scd_fifo :: u8
  scd_sta_id :: u8
  scd_tid :: u8
  scd_aggregate :: bool
  scd_frame_limit :: int

datatype trans_call =
    Start_hw bool | Op_mode_leave | Start_fw nat bool | Update_sf nat | Fw_alive u32 | Stop_device bool
  | D3_suspend bool bool | D3_resume bool bool | Tx nat nat int | Reclaim int int
  | Txq_enable int u16 iwl_trans_txq_scd_cfg u32 | Txq_disable int bool | Txq_alloc nat int u32 | Txq_free int
  | Txq_set_shared_mode int bool | Wait_tx_queues_empty u32 | Wait_txq_empty int | Freeze_txq_timer u64 bool
  | Block_txq_ptrs bool | Configure iwl_trans_config | Set_pmi bool | Ref | Unref | Suspend | Resume | Dump_data nat

record ('p, 'x) iwl_trans_ops =
  op_send_cmd :: "'p iwl_trans \<Rightarrow> 'x iwl_host_cmd \<Rightarrow> int \<times> 'p iwl_trans \<times> 'x iwl_host_cmd"
  op_call :: "trans_call \<Rightarrow> ('p iwl_trans \<Rightarrow> int \<times> 'p iwl_trans) option"

text \<open>Calling an entry of the table, and calling it only when it is not NULL.\<close>

definition call :: "('p, 'x) iwl_trans_ops \<Rightarrow> trans_call \<Rightarrow> 'p iwl_trans \<Rightarrow> (int \<times> 'p iwl_trans) run" where
  "call ops c t = (case op_call ops c of None \<Rightarrow> Inl NullDeref | Some f \<Rightarrow> Inr (f t))"

definition call_if :: "('p, 'x) iwl_trans_ops \<Rightarrow> trans_call \<Rightarrow> 'p iwl_trans \<Rightarrow> (int \<times> 'p iwl_trans) run" where
  "call_if ops c t = (case op_call ops c of None \<Rightarrow> Inr (0, t) | Some f \<Rightarrow> Inr (f t))"

text \<open>The guard of the wrappers that need a running firmware.\<close>

definition if_alive :: "int \<Rightarrow> ('p iwl_trans \<Rightarrow> (int \<times> 'p iwl_trans) run) \<Rightarrow> 'p iwl_trans \<Rightarrow> (int \<times> 'p iwl_trans) run" where
  "if_alive e k t = (if trans_state t \<noteq> IWL_TRANS_FW_ALIVE then Inr (e, t) else k t)"

definition test_status :: "nat \<Rightarrow> 'p iwl_trans \<Rightarrow> bool run" where
  "test_status n t = test_bit n [trans_status t]"

abbreviation EIO_code :: int where "EIO_code \<equiv> - 5"
abbreviation EINVAL_code :: int where "EINVAL_code \<equiv> - 22"
abbreviation ERFKILL_code :: int where "ERFKILL_code \<equiv> - 132"
abbreviation ENOTSUPP_code :: int where "ENOTSUPP_code \<equiv> - 524"

subsection \<open>Host commands\<close>

definition iwl_trans_alloc :: "'p \<Rightarrow> answers \<Rightarrow> 'p iwl_trans option \<times> answers" where
  "iwl_trans_alloc zero m = (let (okay, m) = iwh_malloc m in
     (if okay then Some \<lparr>trans_state = IWL_TRANS_NO_FW, trans_status = 0, trans_op_mode = None, wide_cmd_header = False,
        num_rx_queues = 1, trans_groups = \<lparr>command_groups = None, command_groups_size = 0\<rparr>, trans_specific = zero\<rparr>
      else None, m))"

text \<open>The structure and the device commands are blocks of the allocator.\<close>

definition iwl_trans_free :: "nat option \<Rightarrow> 'b heap \<Rightarrow> 'b heap run" where
  "iwl_trans_free p h = iwh_free p h"

definition iwl_trans_alloc_tx_cmd :: "'b \<Rightarrow> 'b heap \<Rightarrow> nat option \<times> 'b heap" where
  "iwl_trans_alloc_tx_cmd uninit h = heap_alloc uninit h"

definition iwl_trans_free_tx_cmd :: "nat option \<Rightarrow> 'b heap \<Rightarrow> 'b heap run" where
  "iwl_trans_free_tx_cmd dev_cmd h = iwh_free dev_cmd h"

definition iwl_trans_send_cmd ::
  "('p, 'x) iwl_trans_ops \<Rightarrow> 'x iwl_host_cmd \<Rightarrow> 'p iwl_trans \<Rightarrow> (int \<times> 'p iwl_trans \<times> 'x iwl_host_cmd) run" where
  "iwl_trans_send_cmd ops hc t =
     bindF (if host_flags hc AND CMD_SEND_IN_RFKILL = 0 then test_status STATUS_RFKILL_OPMODE t else Inr False) (\<lambda>rfkill.
     if rfkill then Inr (ERFKILL_code, t, hc)
     else bindF (test_status STATUS_FW_ERROR t) (\<lambda>fw_error.
     if fw_error then Inr (EIO_code, t, hc)
     else if trans_state t \<noteq> IWL_TRANS_FW_ALIVE then Inr (EIO_code, t, hc)
     else if host_flags hc AND CMD_WANT_ASYNC_CALLBACK \<noteq> 0 \<and> host_flags hc AND CMD_ASYNC = 0
     then Inr (EINVAL_code, t, hc)
     else
       let hc = (if wide_cmd_header t \<and> iwl_cmd_groupid (host_id hc) = 0
                  then hc\<lparr>host_id := push_bit 8 1 OR host_id hc\<rparr> else hc);
           (ret, t, hc) = op_send_cmd ops t hc
       in if host_flags hc AND CMD_WANT_SKB \<noteq> 0 \<and> ret = 0 \<and> resp_pkt hc = None
          then Inr (EIO_code, t, hc) else Inr (ret, t, hc)))"

subsection \<open>The wrappers\<close>

definition iwl_trans_configure where
  "iwl_trans_configure ops cfg t =
     bindF (call ops (Configure cfg) (t\<lparr>trans_op_mode := cfg_op_mode cfg\<rparr>)) (\<lambda>(_, t).
     bindF (iwl_cmd_groups_verify_sorted (cfg_groups cfg)) (\<lambda>_. Inr (0, t)))"

definition iwl_trans_start_hw where
  "iwl_trans_start_hw ops low_power t = call ops (Start_hw low_power) t"

definition iwl_trans_op_mode_leave where
  "iwl_trans_op_mode_leave ops t =
     bindF (call_if ops Op_mode_leave t) (\<lambda>(_, t).
       Inr (0, t\<lparr>trans_op_mode := None, trans_state := IWL_TRANS_NO_FW\<rparr>))"

definition iwl_trans_fw_alive where
  "iwl_trans_fw_alive ops scd_addr t =
     bindF (call ops (Fw_alive scd_addr) (t\<lparr>trans_state := IWL_TRANS_FW_ALIVE\<rparr>)) (\<lambda>(_, t). Inr (0, t))"

definition iwl_trans_start_fw where
  "iwl_trans_start_fw ops fw run_in_rfkill t =
     bindF (clear_bit STATUS_FW_ERROR [trans_status t]) (\<lambda>a.
       call ops (Start_fw fw run_in_rfkill) (t\<lparr>trans_status := a ! 0\<rparr>))"

definition iwl_trans_update_sf where
  "iwl_trans_update_sf ops space t = call_if ops (Update_sf space) t"

definition iwl_trans_stop_device where
  "iwl_trans_stop_device ops low_power t =
     bindF (call ops (Stop_device low_power) t) (\<lambda>(_, t). Inr (0, t\<lparr>trans_state := IWL_TRANS_NO_FW\<rparr>))"

definition iwl_trans_d3_suspend where
  "iwl_trans_d3_suspend ops test reset t = bindF (call_if ops (D3_suspend test reset) t) (\<lambda>(_, t). Inr (0, t))"

definition iwl_trans_d3_resume where
  "iwl_trans_d3_resume ops test reset t = call_if ops (D3_resume test reset) t"

definition iwl_trans_ref where
  "iwl_trans_ref ops t = bindF (call_if ops Ref t) (\<lambda>(_, t). Inr (0, t))"

definition iwl_trans_unref where
  "iwl_trans_unref ops t = bindF (call_if ops Unref t) (\<lambda>(_, t). Inr (0, t))"

definition iwl_trans_suspend where
  "iwl_trans_suspend ops t = call_if ops Suspend t"

definition iwl_trans_resume where
  "iwl_trans_resume ops t = bindF (call_if ops Resume t) (\<lambda>(_, t). Inr (0, t))"

definition iwl_trans_dump_data where
  "iwl_trans_dump_data ops trigger t = call_if ops (Dump_data trigger) t"

definition iwl_trans_tx where
  "iwl_trans_tx ops skb dev_cmd queue t =
     bindF (test_status STATUS_FW_ERROR t) (\<lambda>fw_error.
       if fw_error then Inr (EIO_code, t) else if_alive EIO_code (call ops (Tx skb dev_cmd queue)) t)"

definition iwl_trans_reclaim where
  "iwl_trans_reclaim ops queue ssn t =
     if_alive 0 (\<lambda>t. bindF (call ops (Reclaim queue ssn) t) (\<lambda>(_, t). Inr (0, t))) t"

definition iwl_trans_txq_disable where
  "iwl_trans_txq_disable ops queue configure_scd t =
     bindF (call ops (Txq_disable queue configure_scd) t) (\<lambda>(_, t). Inr (0, t))"

definition iwl_trans_txq_enable_cfg where
  "iwl_trans_txq_enable_cfg ops queue ssn cfg timeout t = if_alive 0 (call ops (Txq_enable queue ssn cfg timeout)) t"

definition iwl_trans_txq_free where
  "iwl_trans_txq_free ops queue t = bindF (call_if ops (Txq_free queue) t) (\<lambda>(_, t). Inr (0, t))"

definition or_notsupp where
  "or_notsupp ops c k t = (case op_call ops c of None \<Rightarrow> Inr (ENOTSUPP_code, t) | Some _ \<Rightarrow> k t)"

definition iwl_trans_txq_alloc where
  "iwl_trans_txq_alloc ops qcmd cid timeout t =
     or_notsupp ops (Txq_alloc qcmd cid timeout) (if_alive EIO_code (call ops (Txq_alloc qcmd cid timeout))) t"

definition iwl_trans_txq_set_shared_mode where
  "iwl_trans_txq_set_shared_mode ops queue shared t =
     bindF (call_if ops (Txq_set_shared_mode queue shared) t) (\<lambda>(_, t). Inr (0, t))"

definition iwl_trans_txq_enable where
  "iwl_trans_txq_enable ops queue fifo sta_id tid frame_limit ssn timeout t =
     bindF (iwl_trans_txq_enable_cfg ops queue ssn
       \<lparr>scd_fifo = word_of_int fifo, scd_sta_id = word_of_int sta_id, scd_tid = word_of_int tid,
        scd_aggregate = (sta_id \<ge> 0), scd_frame_limit = frame_limit\<rparr> timeout t) (\<lambda>(_, t). Inr (0, t))"

definition iwl_trans_ac_txq_enable where
  "iwl_trans_ac_txq_enable ops queue fifo timeout t =
     bindF (iwl_trans_txq_enable_cfg ops queue 0
       \<lparr>scd_fifo = word_of_int fifo, scd_sta_id = - 1, scd_tid = 8, scd_aggregate = False, scd_frame_limit = 64\<rparr>
       timeout t) (\<lambda>(_, t). Inr (0, t))"

definition iwl_trans_freeze_txq_timer where
  "iwl_trans_freeze_txq_timer ops txqs freeze t =
     if_alive 0 (\<lambda>t. bindF (call_if ops (Freeze_txq_timer txqs freeze) t) (\<lambda>(_, t). Inr (0, t))) t"

definition iwl_trans_block_txq_ptrs where
  "iwl_trans_block_txq_ptrs ops block t =
     if_alive 0 (\<lambda>t. bindF (call_if ops (Block_txq_ptrs block) t) (\<lambda>(_, t). Inr (0, t))) t"

definition iwl_trans_wait_tx_queues_empty where
  "iwl_trans_wait_tx_queues_empty ops txqs t =
     or_notsupp ops (Wait_tx_queues_empty txqs) (if_alive EIO_code (call ops (Wait_tx_queues_empty txqs))) t"

definition iwl_trans_wait_txq_empty where
  "iwl_trans_wait_txq_empty ops queue t =
     or_notsupp ops (Wait_txq_empty queue) (if_alive EIO_code (call ops (Wait_txq_empty queue))) t"

definition iwl_trans_set_pmi where
  "iwl_trans_set_pmi ops state t = bindF (call_if ops (Set_pmi state) t) (\<lambda>(_, t). Inr (0, t))"

text \<open>\<open>iwl_trans_fw_error\<close>: the result says whether the operation mode was told.\<close>

definition iwl_trans_fw_error :: "'p iwl_trans \<Rightarrow> (bool \<times> 'p iwl_trans) run" where
  "iwl_trans_fw_error t =
     (if trans_op_mode t = None then Inr (False, t)
      else bindF (test_and_set_bit STATUS_FW_ERROR [trans_status t]) (\<lambda>(old, a).
        Inr (\<not> old, t\<lparr>trans_status := a ! 0\<rparr>)))"

subsection \<open>The methods of the class\<close>

definition IwlTransOps_start_hw where
  "IwlTransOps_start_hw ops low_power t = call ops (Start_hw low_power) t"

definition IwlTransOps_start_fw where
  "IwlTransOps_start_fw ops fw run_in_rfkill t =
     bindF (clear_bit STATUS_FW_ERROR [trans_status t]) (\<lambda>a.
       call ops (Start_fw fw run_in_rfkill) (t\<lparr>trans_status := a ! 0\<rparr>))"

definition IwlTransOps_op_mode_leave where
  "IwlTransOps_op_mode_leave ops t = bindF (call ops Op_mode_leave t) (\<lambda>(_, t). Inr (0, t))"

definition IwlTransOps_stop_device where
  "IwlTransOps_stop_device ops low_power t =
     bindF (call ops (Stop_device low_power) t) (\<lambda>(_, t). Inr (0, t\<lparr>trans_state := IWL_TRANS_NO_FW\<rparr>))"

end
