(* ===== verification/Trans_Gate.thy ===== *)
theory Trans_Gate
  imports Iwl_Trans
begin

section \<open>Runs of the transport interface\<close>

text \<open>
  An operation mode uses a transport by any sequence of the calls of \<open>Iwl_Trans\<close>. A run starts with the structure
  \<open>iwl_trans_alloc\<close> gives out; its history is the list of the calls with their results, the last one first.
\<close>

datatype 'x api_call =
    Api_configure iwl_trans_config | Api_start_hw bool | Api_leave | Api_alive u32 | Api_start_fw nat bool
  | Api_update_sf nat | Api_stop bool | Api_d3_suspend bool bool | Api_d3_resume bool bool | Api_ref | Api_unref
  | Api_suspend | Api_resume | Api_dump nat | Api_send "'x iwl_host_cmd" | Api_tx nat nat int | Api_reclaim int int
  | Api_txq_disable int bool | Api_txq_enable_cfg int u16 iwl_trans_txq_scd_cfg u32 | Api_txq_free int
  | Api_txq_alloc nat int u32 | Api_shared int bool | Api_txq_enable int int int int int u16 u32
  | Api_ac_txq_enable int int u32 | Api_freeze u64 bool | Api_block bool | Api_wait_queues u32 | Api_wait_queue int
  | Api_set_pmi bool | Api_fw_error | Class_start_hw bool | Class_start_fw nat bool | Class_leave | Class_stop bool

fun api :: "('p, 'x) iwl_trans_ops \<Rightarrow> 'x api_call \<Rightarrow> 'p iwl_trans \<Rightarrow> (int \<times> 'p iwl_trans) run" where
  "api ops (Api_configure c) t = iwl_trans_configure ops c t"
| "api ops (Api_start_hw b) t = iwl_trans_start_hw ops b t"
| "api ops Api_leave t = iwl_trans_op_mode_leave ops t"
| "api ops (Api_alive a) t = iwl_trans_fw_alive ops a t"
| "api ops (Api_start_fw w b) t = iwl_trans_start_fw ops w b t"
| "api ops (Api_update_sf p) t = iwl_trans_update_sf ops p t"
| "api ops (Api_stop b) t = iwl_trans_stop_device ops b t"
| "api ops (Api_d3_suspend b c) t = iwl_trans_d3_suspend ops b c t"
| "api ops (Api_d3_resume b c) t = iwl_trans_d3_resume ops b c t"
| "api ops Api_ref t = iwl_trans_ref ops t"
| "api ops Api_unref t = iwl_trans_unref ops t"
| "api ops Api_suspend t = iwl_trans_suspend ops t"
| "api ops Api_resume t = iwl_trans_resume ops t"
| "api ops (Api_dump g) t = iwl_trans_dump_data ops g t"
| "api ops (Api_send c) t = bindF (iwl_trans_send_cmd ops c t) (\<lambda>(r, t, _). Inr (r, t))"
| "api ops (Api_tx s d q) t = iwl_trans_tx ops s d q t"
| "api ops (Api_reclaim q s) t = iwl_trans_reclaim ops q s t"
| "api ops (Api_txq_disable q b) t = iwl_trans_txq_disable ops q b t"
| "api ops (Api_txq_enable_cfg q s c w) t = iwl_trans_txq_enable_cfg ops q s c w t"
| "api ops (Api_txq_free q) t = iwl_trans_txq_free ops q t"
| "api ops (Api_txq_alloc c i w) t = iwl_trans_txq_alloc ops c i w t"
| "api ops (Api_shared q b) t = iwl_trans_txq_set_shared_mode ops q b t"
| "api ops (Api_txq_enable q fi st ti fl s w) t = iwl_trans_txq_enable ops q fi st ti fl s w t"
| "api ops (Api_ac_txq_enable q fi w) t = iwl_trans_ac_txq_enable ops q fi w t"
| "api ops (Api_freeze m b) t = iwl_trans_freeze_txq_timer ops m b t"
| "api ops (Api_block b) t = iwl_trans_block_txq_ptrs ops b t"
| "api ops (Api_wait_queues m) t = iwl_trans_wait_tx_queues_empty ops m t"
| "api ops (Api_wait_queue q) t = iwl_trans_wait_txq_empty ops q t"
| "api ops (Api_set_pmi b) t = iwl_trans_set_pmi ops b t"
| "api ops Api_fw_error t = bindF (iwl_trans_fw_error t) (\<lambda>(told, t). Inr (if told then 1 else 0, t))"
| "api ops (Class_start_hw b) t = IwlTransOps_start_hw ops b t"
| "api ops (Class_start_fw w b) t = IwlTransOps_start_fw ops w b t"
| "api ops Class_leave t = IwlTransOps_op_mode_leave ops t"
| "api ops (Class_stop b) t = IwlTransOps_stop_device ops b t"

inductive trun :: "('p, 'x) iwl_trans_ops \<Rightarrow> ('x api_call \<times> int) list \<Rightarrow> 'p iwl_trans \<Rightarrow> bool" for ops where
  start: "iwl_trans_alloc zero m = (Some t, m') \<Longrightarrow> trun ops [] t"
| step: "trun ops evs t \<Longrightarrow> api ops a t = Inr (r, t') \<Longrightarrow> trun ops ((a, r) # evs) t'"

subsection \<open>History\<close>

text \<open>The firmware counts as alive from \<open>fw_alive\<close> until the device is stopped or the operation mode leaves.\<close>

fun alive :: "('x api_call \<times> int) list \<Rightarrow> bool" where
  "alive [] = False"
| "alive ((a, r) # evs) = (case a of Api_alive _ \<Rightarrow> True | Api_leave \<Rightarrow> False | Api_stop _ \<Rightarrow> False
     | Class_stop _ \<Rightarrow> False | _ \<Rightarrow> alive evs)"

text \<open>How often the operation mode was told of a firmware error since the firmware was last started.\<close>

fun told :: "('x api_call \<times> int) list \<Rightarrow> nat" where
  "told [] = 0"
| "told ((a, r) # evs) = (case a of Api_start_fw _ _ \<Rightarrow> 0 | Class_start_fw _ _ \<Rightarrow> 0
     | Api_fw_error \<Rightarrow> (if r = 1 then 1 else 0) + told evs | _ \<Rightarrow> told evs)"

text \<open>The calls that need a running firmware, and those of them that report an error code.\<close>

fun gated :: "'x api_call \<Rightarrow> bool" where
  "gated (Api_send _) = True" | "gated (Api_tx _ _ _) = True" | "gated (Api_reclaim _ _) = True"
| "gated (Api_txq_enable_cfg _ _ _ _) = True" | "gated (Api_txq_alloc _ _ _) = True"
| "gated (Api_txq_enable _ _ _ _ _ _ _) = True" | "gated (Api_ac_txq_enable _ _ _) = True"
| "gated (Api_freeze _ _) = True" | "gated (Api_block _) = True" | "gated (Api_wait_queues _) = True"
| "gated (Api_wait_queue _) = True" | "gated _ = False"

fun reports :: "'x api_call \<Rightarrow> bool" where
  "reports (Api_send _) = True" | "reports (Api_tx _ _ _) = True" | "reports (Api_txq_alloc _ _ _) = True"
| "reports (Api_wait_queues _) = True" | "reports (Api_wait_queue _) = True" | "reports _ = False"

text \<open>What is asked of a transport: it leaves the state field to the interface, and it never clears the error bit.\<close>

definition state_kept :: "('p, 'x) iwl_trans_ops \<Rightarrow> bool" where
  "state_kept ops \<longleftrightarrow> (\<forall>t c. trans_state (fst (snd (op_send_cmd ops t c))) = trans_state t)
     \<and> (\<forall>c f t. op_call ops c = Some f \<longrightarrow> trans_state (snd (f t)) = trans_state t)"

abbreviation fw_error_bit :: "'p iwl_trans \<Rightarrow> bool" where
  "fw_error_bit t \<equiv> bit (trans_status t) STATUS_FW_ERROR"

definition error_kept :: "('p, 'x) iwl_trans_ops \<Rightarrow> bool" where
  "error_kept ops \<longleftrightarrow> (\<forall>t c. fw_error_bit t \<longrightarrow> fw_error_bit (fst (snd (op_send_cmd ops t c))))
     \<and> (\<forall>c f t. op_call ops c = Some f \<longrightarrow> fw_error_bit t \<longrightarrow> fw_error_bit (snd (f t)))"

section \<open>Properties\<close>

lemmas api_defs = iwl_trans_configure_def iwl_trans_start_hw_def iwl_trans_op_mode_leave_def iwl_trans_fw_alive_def
  iwl_trans_start_fw_def iwl_trans_update_sf_def iwl_trans_stop_device_def iwl_trans_d3_suspend_def iwl_trans_d3_resume_def
  iwl_trans_ref_def iwl_trans_unref_def iwl_trans_suspend_def iwl_trans_resume_def iwl_trans_dump_data_def iwl_trans_tx_def
  iwl_trans_reclaim_def iwl_trans_txq_disable_def iwl_trans_txq_enable_cfg_def iwl_trans_txq_free_def iwl_trans_txq_alloc_def
  iwl_trans_txq_set_shared_mode_def iwl_trans_txq_enable_def iwl_trans_ac_txq_enable_def iwl_trans_freeze_txq_timer_def
  iwl_trans_block_txq_ptrs_def iwl_trans_wait_tx_queues_empty_def iwl_trans_wait_txq_empty_def iwl_trans_set_pmi_def
  iwl_trans_fw_error_def IwlTransOps_start_hw_def IwlTransOps_start_fw_def IwlTransOps_op_mode_leave_def
  IwlTransOps_stop_device_def

lemma test_status_eq: "n < 32 \<Longrightarrow> test_status n t = Inr (bit (trans_status t) n)"
  by (simp add: test_status_def test_bit_eq bitmap_bit_def)

lemma status_bits [simp]: "test_status STATUS_FW_ERROR t = Inr (fw_error_bit t)"
  "test_status STATUS_RFKILL_OPMODE t = Inr (bit (trans_status t) STATUS_RFKILL_OPMODE)"
  by (simp_all add: test_status_eq STATUS_FW_ERROR_def STATUS_RFKILL_OPMODE_def)

lemma state_kept_calls:
  assumes "state_kept ops"
  shows "call ops c t = Inr (r, t') \<Longrightarrow> trans_state t' = trans_state t"
    and "call_if ops c t = Inr (r, t') \<Longrightarrow> trans_state t' = trans_state t"
    and "iwl_trans_send_cmd ops hc t = Inr (r, t', hc') \<Longrightarrow> trans_state t' = trans_state t"
  using assms
  by (auto simp: call_def call_if_def iwl_trans_send_cmd_def state_kept_def Let_def split: option.splits if_splits prod.splits)
    (metis fst_conv snd_conv)+

lemma error_kept_calls:
  assumes "error_kept ops"
  shows "call ops c t = Inr (r, t') \<Longrightarrow> fw_error_bit t \<Longrightarrow> fw_error_bit t'"
    and "call_if ops c t = Inr (r, t') \<Longrightarrow> fw_error_bit t \<Longrightarrow> fw_error_bit t'"
    and "iwl_trans_send_cmd ops hc t = Inr (r, t', hc') \<Longrightarrow> fw_error_bit t \<Longrightarrow> fw_error_bit t'"
  using assms
  by (auto simp: call_def call_if_def iwl_trans_send_cmd_def error_kept_def Let_def split: option.splits if_splits prod.splits)
    (metis fst_conv snd_conv)+

lemmas api_unfold = api_defs bindF_eq_Inr if_alive_def or_notsupp_def

lemma api_state:
  assumes "state_kept ops" and "api ops a t = Inr (r, t')"
  shows "trans_state t' = (case a of Api_alive _ \<Rightarrow> IWL_TRANS_FW_ALIVE | Api_leave \<Rightarrow> IWL_TRANS_NO_FW
    | Api_stop _ \<Rightarrow> IWL_TRANS_NO_FW | Class_stop _ \<Rightarrow> IWL_TRANS_NO_FW | _ \<Rightarrow> trans_state t)"
  using assms(2)
  by (cases a) (auto simp: api_unfold split: if_splits option.splits dest!: state_kept_calls[OF assms(1)])

lemma test_and_set_error:
  "test_and_set_bit STATUS_FW_ERROR [w] = Inr (bit w STATUS_FW_ERROR, [w OR BIT_MASK STATUS_FW_ERROR])"
  using and_BIT_MASK[of w STATUS_FW_ERROR] by (simp add: test_and_set_bit_def BIT_WORD_def Let_def STATUS_FW_ERROR_def)

lemma bit_set_error [simp]: "bit (w OR BIT_MASK STATUS_FW_ERROR) STATUS_FW_ERROR"
  by (simp add: bit_or_iff bit_BIT_MASK STATUS_FW_ERROR_def)

lemma api_error_bit:
  assumes "error_kept ops" and "api ops a t = Inr (r, t')" and "fw_error_bit t"
    and "\<forall>w b. a \<noteq> Api_start_fw w b \<and> a \<noteq> Class_start_fw w b"
  shows "fw_error_bit t'"
  using assms(2-)
  by (cases a) (auto simp: api_unfold test_and_set_error split: if_splits option.splits dest: error_kept_calls[OF assms(1)])

lemma api_fw_error:
  assumes "api ops Api_fw_error t = Inr (r, t')"
  shows "r = 1 \<longleftrightarrow> trans_op_mode t \<noteq> None \<and> \<not> fw_error_bit t" and "r = 1 \<Longrightarrow> fw_error_bit t'"
  using assms by (auto simp: api_unfold test_and_set_error split: if_splits)

lemma run_error:
  assumes "trun ops evs t" and "error_kept ops"
  shows "told evs \<le> 1 \<and> (told evs = 1 \<longrightarrow> fw_error_bit t)"
  using assms(1)
proof induction
  case (step evs t a r t')
  note keep = api_error_bit[OF assms(2) step.hyps(2)]
  show ?case
  proof (cases "a = Api_fw_error")
    case True
    with step api_fw_error[of ops t r t'] keep show ?thesis by auto
  next
    case False
    with step.IH keep show ?thesis by (cases a) auto
  qed
qed simp

lemma run_state:
  assumes "trun ops evs t" and "state_kept ops"
  shows "trans_state t = IWL_TRANS_FW_ALIVE \<longleftrightarrow> alive evs"
  using assms(1)
proof induction
  case (start zero m t m')
  then show ?case by (auto simp: iwl_trans_alloc_def Let_def split: prod.splits if_splits)
next
  case (step evs t a r t')
  then show ?case using api_state[OF assms(2) step.hyps(2)] by (cases a) auto
qed

lemma gated_refused:
  assumes "gated a" and "trans_state t \<noteq> IWL_TRANS_FW_ALIVE"
  shows "\<exists>r. api ops a t = Inr (r, t) \<and> (reports a \<longrightarrow> r < 0) \<and> (\<not> reports a \<longrightarrow> r = 0)"
  using assms by (cases a) (auto simp: api_defs if_alive_def or_notsupp_def iwl_trans_send_cmd_def split: option.splits)



subsection \<open>A transport\<close>

text \<open>A transport that counts the calls it gets in its private part and answers 0.\<close>

definition demo_ops :: "(nat, unit) iwl_trans_ops" where
  "demo_ops = \<lparr>op_send_cmd = (\<lambda>t c. (0, t\<lparr>trans_specific := trans_specific t + 1\<rparr>, c)),
     op_call = (\<lambda>_. Some (\<lambda>t. (0, t\<lparr>trans_specific := trans_specific t + 1\<rparr>)))\<rparr>"

definition demo_cfg_trans :: iwl_trans_config where
  "demo_cfg_trans = \<lparr>cfg_op_mode = Some 0, cfg_groups = \<lparr>command_groups = None, command_groups_size = 0\<rparr>\<rparr>"

definition demo_hcmd :: "unit iwl_host_cmd" where
  "demo_hcmd = \<lparr>host_data = (), resp_pkt = None, host_flags = 0, host_id = 3\<rparr>"

definition demo_transport :: "nat iwl_trans" where
  "demo_transport = \<lparr>trans_state = IWL_TRANS_NO_FW, trans_status = 0, trans_op_mode = None, wide_cmd_header = False,
     num_rx_queues = 1, trans_groups = \<lparr>command_groups = None, command_groups_size = 0\<rparr>, trans_specific = 0\<rparr>"

lemma demo_ops_ok: "state_kept demo_ops" "error_kept demo_ops"
  by (simp_all add: state_kept_def error_kept_def demo_ops_def)

lemma demo_transport_start: "trun demo_ops [] demo_transport"
  by (rule trun.start[of 0 "[]"]) (simp add: iwl_trans_alloc_def demo_transport_def)

lemmas demo_transport_eval = api_defs call_def call_if_def demo_ops_def demo_transport_def demo_cfg_trans_def demo_hcmd_def
  iwl_cmd_groups_verify_sorted_def test_and_set_error clear_bit_def BIT_WORD_def OSBitAndAtomic64_def OSBitwiseAtomic64_def

lemma demo_alive: "\<exists>t. trun demo_ops [(Api_alive 0, 0), (Api_start_fw 0 False, 0), (Api_configure demo_cfg_trans, 0)] t
     \<and> trans_op_mode t = Some 0 \<and> trans_status t = 0 \<and> trans_specific t = 3"
proof -
  let ?t1 = "demo_transport\<lparr>trans_op_mode := Some 0, trans_specific := 1\<rparr>"
  let ?t2 = "?t1\<lparr>trans_specific := 2\<rparr>"
  let ?t3 = "?t2\<lparr>trans_state := IWL_TRANS_FW_ALIVE, trans_specific := 3\<rparr>"
  have 1: "trun demo_ops [(Api_configure demo_cfg_trans, 0)] ?t1"
    by (rule trun.step[OF demo_transport_start]) (simp add: demo_transport_eval)
  have 2: "trun demo_ops [(Api_start_fw 0 False, 0), (Api_configure demo_cfg_trans, 0)] ?t2"
    by (rule trun.step[OF 1]) (simp add: demo_transport_eval STATUS_FW_ERROR_def)
  have "trun demo_ops [(Api_alive 0, 0), (Api_start_fw 0 False, 0), (Api_configure demo_cfg_trans, 0)] ?t3"
    by (rule trun.step[OF 2]) (simp add: demo_transport_eval)
  then show ?thesis by (rule exI[of _ ?t3, OF conjI]) (simp add: demo_transport_def)
qed



end
