(* ===== verification/Phy_Db.thy ===== *)
theory Phy_Db
  imports Iwl_Heap Iwl_Trans
begin

section \<open>The PHY data base\<close>

text \<open>
  \<^verbatim>\<open>iwlwifi/iwl-phy-db.c\<close>: the calibration results the firmware sends are stored by section and sent back to the
  runtime image. The structure is a record, the two arrays of group entries are blocks of the heap. A field
  of an entry is indeterminate (\<open>None\<close>) until it is written, because the arrays come from \<open>iwh_malloc\<close>, which does not
  clear them. The \<open>int\<close> results are the ones of the C functions.
\<close>

subsection \<open>Data\<close>

record iwl_phy_db_entry =
  entry_size :: "u16 option"
  entry_data :: "nat option option"

datatype phy_block = Bytes "u8 list" | Entries "iwl_phy_db_entry list"

type_synonym pheap = "phy_block heap"

record iwl_phy_db =
  phy_cfg :: iwl_phy_db_entry
  calib_nch :: iwl_phy_db_entry
  n_group_papd :: int
  calib_ch_group_papd :: "nat option"
  n_group_txp :: int
  calib_ch_group_txp :: "nat option"

definition IWL_PHY_DB_CFG :: nat where "IWL_PHY_DB_CFG = 1"
definition IWL_PHY_DB_CALIB_NCH :: nat where "IWL_PHY_DB_CALIB_NCH = 2"
definition IWL_PHY_DB_CALIB_CHG_PAPD :: nat where "IWL_PHY_DB_CALIB_CHG_PAPD = 4"
definition IWL_PHY_DB_CALIB_CHG_TXP :: nat where "IWL_PHY_DB_CALIB_CHG_TXP = 5"
definition IWL_PHY_DB_MAX :: nat where "IWL_PHY_DB_MAX = 6"

lemmas section_types = IWL_PHY_DB_CFG_def IWL_PHY_DB_CALIB_NCH_def IWL_PHY_DB_CALIB_CHG_PAPD_def
  IWL_PHY_DB_CALIB_CHG_TXP_def IWL_PHY_DB_MAX_def

text \<open>A pointer to an entry, by where it points.\<close>

datatype entry_ref = At_cfg | At_nch | At_papd nat | At_txp nat

definition zero_entry :: iwl_phy_db_entry where
  "zero_entry = \<lparr>entry_size = Some 0, entry_data = Some None\<rparr>"

definition uninit_entry :: iwl_phy_db_entry where
  "uninit_entry = \<lparr>entry_size = None, entry_data = None\<rparr>"

definition det_value :: "'a option \<Rightarrow> 'a run" where
  "det_value v = (case v of None \<Rightarrow> Inl Indeterminate | Some x \<Rightarrow> Inr x)"

definition group_entries_of :: "nat option \<Rightarrow> pheap \<Rightarrow> iwl_phy_db_entry list run" where
  "group_entries_of p h = bindF (heap_get p h) (\<lambda>b. case b of Entries xs \<Rightarrow> Inr xs | Bytes _ \<Rightarrow> Inl OutOfBounds)"

definition read_group :: "nat option \<Rightarrow> nat \<Rightarrow> pheap \<Rightarrow> iwl_phy_db_entry run" where
  "read_group p i h = bindF (group_entries_of p h) (\<lambda>xs. elem_at xs i)"

definition write_group :: "nat option \<Rightarrow> nat \<Rightarrow> iwl_phy_db_entry \<Rightarrow> pheap \<Rightarrow> pheap run" where
  "write_group p i e h = bindF (group_entries_of p h) (\<lambda>xs.
     if i < length xs then Inr (heap_put (the p) (Entries (xs[i := e])) h) else Inl OutOfBounds)"

definition read_entry :: "entry_ref \<Rightarrow> iwl_phy_db \<Rightarrow> pheap \<Rightarrow> iwl_phy_db_entry run" where
  "read_entry r db h = (case r of At_cfg \<Rightarrow> Inr (phy_cfg db) | At_nch \<Rightarrow> Inr (calib_nch db)
     | At_papd i \<Rightarrow> read_group (calib_ch_group_papd db) i h | At_txp i \<Rightarrow> read_group (calib_ch_group_txp db) i h)"

definition write_entry :: "entry_ref \<Rightarrow> iwl_phy_db_entry \<Rightarrow> iwl_phy_db \<Rightarrow> pheap \<Rightarrow> (iwl_phy_db \<times> pheap) run" where
  "write_entry r e db h = (case r of At_cfg \<Rightarrow> Inr (db\<lparr>phy_cfg := e\<rparr>, h) | At_nch \<Rightarrow> Inr (db\<lparr>calib_nch := e\<rparr>, h)
     | At_papd i \<Rightarrow> bindF (write_group (calib_ch_group_papd db) i e h) (\<lambda>h. Inr (db, h))
     | At_txp i \<Rightarrow> bindF (write_group (calib_ch_group_txp db) i e h) (\<lambda>h. Inr (db, h)))"

subsection \<open>Storing sections\<close>

definition iwl_phy_db_init :: "pheap \<Rightarrow> iwl_phy_db option \<times> pheap" where
  "iwl_phy_db_init h = (let (okay, m) = iwh_malloc (grants h); h = h\<lparr>grants := m\<rparr> in
     (if okay then Some \<lparr>phy_cfg = zero_entry, calib_nch = zero_entry, n_group_papd = - 1, calib_ch_group_papd = None,
        n_group_txp = - 1, calib_ch_group_txp = None\<rparr> else None, h))"

definition iwl_phy_db_get_section :: "iwl_phy_db option \<Rightarrow> nat \<Rightarrow> u16 \<Rightarrow> entry_ref option" where
  "iwl_phy_db_get_section pdb ty chg_id = (case pdb of None \<Rightarrow> None | Some db \<Rightarrow>
     if ty \<ge> IWL_PHY_DB_MAX then None
     else if ty = IWL_PHY_DB_CFG then Some At_cfg
     else if ty = IWL_PHY_DB_CALIB_NCH then Some At_nch
     else if ty = IWL_PHY_DB_CALIB_CHG_PAPD then
       (if uint chg_id \<ge> n_group_papd db then None else Some (At_papd (unat chg_id)))
     else if ty = IWL_PHY_DB_CALIB_CHG_TXP then
       (if uint chg_id \<ge> n_group_txp db then None else Some (At_txp (unat chg_id)))
     else None)"

definition iwl_phy_db_free_section :: "nat \<Rightarrow> u16 \<Rightarrow> iwl_phy_db \<times> pheap \<Rightarrow> (iwl_phy_db \<times> pheap) run" where
  "iwl_phy_db_free_section ty chg_id = (\<lambda>(db, h). case iwl_phy_db_get_section (Some db) ty chg_id of
     None \<Rightarrow> Inr (db, h)
   | Some r \<Rightarrow> bindF (read_entry r db h) (\<lambda>e. bindF (det_value (entry_data e)) (\<lambda>p.
       bindF (iwh_free p h) (write_entry r zero_entry db))))"

fun free_sections :: "nat \<Rightarrow> nat list \<Rightarrow> iwl_phy_db \<times> pheap \<Rightarrow> (iwl_phy_db \<times> pheap) run" where
  "free_sections ty [] s = Inr s"
| "free_sections ty (i # is) s = bindF (iwl_phy_db_free_section ty (of_nat i) s) (free_sections ty is)"

text \<open>\<open>iwl_phy_db_free\<close> ends with \<open>mbuf_free\<close> on the structure, a function of the network stack and a parameter.\<close>

definition iwl_phy_db_free :: "(pheap \<Rightarrow> pheap run) \<Rightarrow> iwl_phy_db option \<Rightarrow> pheap \<Rightarrow> pheap run" where
  "iwl_phy_db_free mbuf_free pdb h = (case pdb of None \<Rightarrow> Inr h | Some db \<Rightarrow>
     bindF (iwl_phy_db_free_section IWL_PHY_DB_CFG 0 (db, h)) (\<lambda>s.
     bindF (iwl_phy_db_free_section IWL_PHY_DB_CALIB_NCH 0 s) (\<lambda>(db, h).
     bindF (free_sections IWL_PHY_DB_CALIB_CHG_PAPD [0..<nat (n_group_papd db)] (db, h)) (\<lambda>(db, h).
     bindF (iwh_free (calib_ch_group_papd db) h) (\<lambda>h.
     bindF (free_sections IWL_PHY_DB_CALIB_CHG_TXP [0..<nat (n_group_txp db)] (db, h)) (\<lambda>(db, h).
     bindF (iwh_free (calib_ch_group_txp db) h) mbuf_free))))))"

text \<open>The array of a kind of group is allocated when its first section comes in.\<close>

definition alloc_group :: "u16 \<Rightarrow> pheap \<Rightarrow> nat option \<times> pheap" where
  "alloc_group chg_id h = heap_alloc (Entries (replicate (unat chg_id + 1) uninit_entry)) h"

definition prepare_group :: "nat \<Rightarrow> u16 \<Rightarrow> iwl_phy_db \<times> pheap \<Rightarrow> bool \<times> iwl_phy_db \<times> pheap" where
  "prepare_group ty chg_id = (\<lambda>(db, h).
     if ty = IWL_PHY_DB_CALIB_CHG_PAPD \<and> calib_ch_group_papd db = None then
       (case alloc_group chg_id h of (None, h) \<Rightarrow> (False, db, h)
        | (Some p, h) \<Rightarrow> (True, db\<lparr>calib_ch_group_papd := Some p, n_group_papd := uint chg_id + 1\<rparr>, h))
     else if ty = IWL_PHY_DB_CALIB_CHG_TXP \<and> calib_ch_group_txp db = None then
       (case alloc_group chg_id h of (None, h) \<Rightarrow> (False, db, h)
        | (Some p, h) \<Rightarrow> (True, db\<lparr>calib_ch_group_txp := Some p, n_group_txp := uint chg_id + 1\<rparr>, h))
     else (True, db, h))"

definition is_group :: "nat \<Rightarrow> bool" where
  "is_group ty \<longleftrightarrow> ty = IWL_PHY_DB_CALIB_CHG_PAPD \<or> ty = IWL_PHY_DB_CALIB_CHG_TXP"

abbreviation ENOMEM_code :: int where "ENOMEM_code \<equiv> - 12"

text \<open>
  \<open>iwl_phy_db_set_section\<close> on the payload of a packet. The copy of the data is commented out in the source: the old
  buffer is released and only the size is stored.
\<close>

definition iwl_phy_db_set_section ::
  "u8 list \<Rightarrow> iwl_phy_db option \<Rightarrow> pheap \<Rightarrow> (int \<times> iwl_phy_db option \<times> pheap) run" where
  "iwl_phy_db_set_section pkt pdb h =
     bindF (rd16 pkt 0) (\<lambda>w. bindF (rd16 pkt 2) (\<lambda>sz. let ty = unat w in
     case pdb of None \<Rightarrow> Inr (EINVAL_code, None, h) | Some db \<Rightarrow>
       bindF (if is_group ty then rd16 pkt 4 else Inr 0) (\<lambda>chg_id.
       case prepare_group ty chg_id (db, h) of (okay, db, h) \<Rightarrow>
       if \<not> okay then Inr (ENOMEM_code, Some db, h)
       else case iwl_phy_db_get_section (Some db) ty chg_id of
         None \<Rightarrow> Inr (EINVAL_code, Some db, h)
       | Some r \<Rightarrow> bindF (read_entry r db h) (\<lambda>e. bindF (det_value (entry_data e)) (\<lambda>p.
           bindF (iwh_free p h) (\<lambda>h. bindF (write_entry r (e\<lparr>entry_size := Some sz\<rparr>) db h) (\<lambda>(db, h).
             Inr (0, Some db, h))))))))"

subsection \<open>Channels\<close>

definition is_valid_channel :: "u16 \<Rightarrow> bool" where
  "is_valid_channel ch_id \<longleftrightarrow> ch_id \<le> 14 \<or> (36 \<le> ch_id \<and> ch_id \<le> 64 \<and> ch_id mod 4 = 0)
     \<or> (100 \<le> ch_id \<and> ch_id \<le> 140 \<and> ch_id mod 4 = 0) \<or> (145 \<le> ch_id \<and> ch_id \<le> 165 \<and> ch_id mod 4 = 1)"

definition ch_id_to_ch_index :: "u16 \<Rightarrow> u8" where
  "ch_id_to_ch_index ch_id =
     (if \<not> is_valid_channel ch_id then 0xff
      else word_of_int (let n = uint ch_id in if n \<le> 14 then n - 1 else if n \<le> 64 then (n + 20) div 4
        else if n \<le> 140 then (n - 12) div 4 else (n - 13) div 4))"

definition channel_id_to_papd :: "u16 \<Rightarrow> u16" where
  "channel_id_to_papd ch_id =
     (if \<not> is_valid_channel ch_id then 0xff
      else if 1 \<le> ch_id \<and> ch_id \<le> 14 then 0 else if 36 \<le> ch_id \<and> ch_id \<le> 64 then 1
      else if 100 \<le> ch_id \<and> ch_id \<le> 140 then 2 else 3)"

fun txp_loop :: "iwl_phy_db \<Rightarrow> pheap \<Rightarrow> u8 \<Rightarrow> nat list \<Rightarrow> u16 run" where
  "txp_loop db h ch_index [] = Inr 0xff"
| "txp_loop db h ch_index (i # is) =
     bindF (read_group (calib_ch_group_txp db) i h) (\<lambda>e. bindF (det_value (entry_data e)) (\<lambda>p.
       case p of None \<Rightarrow> Inr 0xff
       | Some _ \<Rightarrow> bindF (heap_get p h) (\<lambda>b. case b of Entries _ \<Rightarrow> Inl OutOfBounds
         | Bytes bs \<Rightarrow> bindF (rd16 bs 4) (\<lambda>max_channel_idx.
             if max_channel_idx \<ge> ucast ch_index then Inr (of_nat i) else txp_loop db h ch_index is))))"

definition channel_id_to_txp :: "iwl_phy_db \<Rightarrow> pheap \<Rightarrow> u16 \<Rightarrow> u16 run" where
  "channel_id_to_txp db h ch_id = (let ch_index = ch_id_to_ch_index ch_id in
     if ch_index = 0xff then Inr 0xff else txp_loop db h ch_index [0..<nat (n_group_txp db)])"

subsection \<open>Sending sections\<close>

definition iwl_phy_db_get_section_data ::
  "iwl_phy_db option \<Rightarrow> pheap \<Rightarrow> nat \<Rightarrow> u16 \<Rightarrow> (int \<times> (nat option option \<times> u16 option) option) run" where
  "iwl_phy_db_get_section_data pdb h ty ch_id = (case pdb of None \<Rightarrow> Inr (EINVAL_code, None) | Some db \<Rightarrow>
     bindF (if ty = IWL_PHY_DB_CALIB_CHG_PAPD then Inr (channel_id_to_papd ch_id)
            else if ty = IWL_PHY_DB_CALIB_CHG_TXP then channel_id_to_txp db h ch_id else Inr 0) (\<lambda>ch_group_id.
     case iwl_phy_db_get_section pdb ty ch_group_id of None \<Rightarrow> Inr (EINVAL_code, None)
     | Some r \<Rightarrow> bindF (read_entry r db h) (\<lambda>e. Inr (0, Some (entry_data e, entry_size e)))))"

text \<open>The two buffers of the command: its own header, and the stored data by address and length.\<close>

record phy_payload =
  pp_type :: u16
  pp_length :: u16
  pp_data :: "nat option"
  pp_len1 :: u16

definition iwl_send_phy_db_cmd ::
  "('p, phy_payload) iwl_trans_ops \<Rightarrow> nat \<Rightarrow> u16 \<Rightarrow> nat option \<Rightarrow> 'p iwl_trans \<Rightarrow> (int \<times> 'p iwl_trans) run" where
  "iwl_send_phy_db_cmd ops ty len data t =
     bindF (iwl_trans_send_cmd ops \<lparr>host_data = \<lparr>pp_type = of_nat ty, pp_length = len, pp_data = data, pp_len1 = len\<rparr>,
        resp_pkt = None, host_flags = 0, host_id = 0x6c\<rparr> t) (\<lambda>(r, t, _). Inr (r, t))"

fun send_groups ::
  "('p, phy_payload) iwl_trans_ops \<Rightarrow> iwl_phy_db \<Rightarrow> pheap \<Rightarrow> nat \<Rightarrow> nat list \<Rightarrow> 'p iwl_trans \<Rightarrow> (int \<times> 'p iwl_trans) run" where
  "send_groups ops db h ty [] t = Inr (0, t)"
| "send_groups ops db h ty (i # is) t = (case iwl_phy_db_get_section (Some db) ty (of_nat i) of
     None \<Rightarrow> Inr (EINVAL_code, t)
   | Some r \<Rightarrow> bindF (read_entry r db h) (\<lambda>e. bindF (det_value (entry_size e)) (\<lambda>sz.
       if sz = 0 then send_groups ops db h ty is t
       else bindF (det_value (entry_data e)) (\<lambda>p. bindF (iwl_send_phy_db_cmd ops ty sz p t) (\<lambda>(err, t).
         if err \<noteq> 0 then Inr (err, t) else send_groups ops db h ty is t)))))"

definition iwl_phy_db_send_all_channel_groups where
  "iwl_phy_db_send_all_channel_groups ops db h ty (max_ch_groups :: u8) t = send_groups ops db h ty [0..<unat max_ch_groups] t"

text \<open>Fetching one section and sending it, the first half of \<open>iwl_send_phy_db_data\<close> twice.\<close>

definition send_section where
  "send_section ops db h ty t =
     bindF (iwl_phy_db_get_section_data (Some db) h ty 0) (\<lambda>(err, out).
       case out of None \<Rightarrow> Inr (err, t)
       | Some (p, sz) \<Rightarrow> bindF (det_value p) (\<lambda>p. bindF (det_value sz) (\<lambda>sz. iwl_send_phy_db_cmd ops ty sz p t)))"

text \<open>The debug output at the start of \<open>iwl_send_phy_db_data\<close> follows the pointer, so it must not be NULL.\<close>

definition iwl_send_phy_db_data ::
  "('p, phy_payload) iwl_trans_ops \<Rightarrow> iwl_phy_db \<Rightarrow> pheap \<Rightarrow> 'p iwl_trans \<Rightarrow> (int \<times> 'p iwl_trans) run" where
  "iwl_send_phy_db_data ops db h t =
     bindF (send_section ops db h IWL_PHY_DB_CFG t) (\<lambda>(err, t). if err \<noteq> 0 then Inr (err, t) else
     bindF (send_section ops db h IWL_PHY_DB_CALIB_NCH t) (\<lambda>(err, t). if err \<noteq> 0 then Inr (err, t) else
     bindF (iwl_phy_db_send_all_channel_groups ops db h IWL_PHY_DB_CALIB_CHG_PAPD (word_of_int (n_group_papd db)) t)
       (\<lambda>(err, t). if err \<noteq> 0 then Inr (err, t) else
     iwl_phy_db_send_all_channel_groups ops db h IWL_PHY_DB_CALIB_CHG_TXP (word_of_int (n_group_txp db)) t)))"

end
