(* ===== verification/Phy_Sections.thy ===== *)
theory Phy_Sections
  imports Phy_Db
begin

section \<open>Properties of the PHY data base\<close>

text \<open>
  What the functions of \<open>Phy_Db\<close> do with channels and with sections: the index of a channel is its position among
  the supported channels, and the life of a data base from its allocation over the sections that come in to the
  commands that are sent.
\<close>

subsection \<open>Channels\<close>

definition phy_channels :: "int list" where
  "phy_channels = [1..14] @ map (\<lambda>i. 36 + 4 * i) [0..7] @ map (\<lambda>i. 100 + 4 * i) [0..10] @ map (\<lambda>i. 145 + 4 * i) [0..5]"

definition papd_group :: "int \<Rightarrow> int" where
  "papd_group idx = (if idx < 14 then 0 else if idx < 22 then 1 else if idx < 33 then 2 else 3)"

text \<open>The claim for one channel number.\<close>

definition channel_row :: "int \<Rightarrow> bool" where
  "channel_row n \<longleftrightarrow> (let idx = uint (ch_id_to_ch_index (word_of_int n)); papd = uint (channel_id_to_papd (word_of_int n)) in
     if List.member phy_channels n then map_of (zip [0..38] phy_channels) idx = Some n \<and> papd = papd_group idx
     else idx = 255 \<and> papd = (if n = 0 then 3 else 255))"

lemma channel_rows: "list_all channel_row [0..165]"
  by code_simp

lemma beyond_channels:
  assumes "165 < uint ch"
  shows "\<not> is_valid_channel ch"
  using assms by (auto simp: is_valid_channel_def word_le_def)

lemma channel_position:
  assumes "map_of (zip [0..38] phy_channels) idx = Some n"
  shows "0 \<le> idx \<and> idx < int (length phy_channels) \<and> phy_channels ! nat idx = n"
proof -
  from map_of_SomeD[OF assms] obtain i where i: "i < length phy_channels" "i < 39" "[0..38] ! i = idx" "phy_channels ! i = n"
    by (auto simp: in_set_zip)
  have "idx = int i" using i(2,3) by (simp add: nth_upto)
  with i show ?thesis by simp
qed

text \<open>
  The index of a channel is its position in the ascending list of the supported channels, and the group for
  the power amplifier is the band this position lies in; every other number gets the index 255. Channel 0 passes
  for valid in the check, and gets the group of the highest channels.
\<close>

theorem channel_index_position:
  "let n = uint ch; idx = uint (ch_id_to_ch_index ch); papd = uint (channel_id_to_papd ch) in
   if n \<in> set phy_channels
   then idx < int (length phy_channels) \<and> phy_channels ! nat idx = n \<and> papd = papd_group idx
   else idx = 255 \<and> papd = (if n = 0 then 3 else 255)"
proof (cases "uint ch \<le> 165")
  case True
  then have "uint ch \<in> set [0..165]" by simp
  with channel_rows have "channel_row (uint ch)" by (simp only: list_all_iff)
  then show ?thesis
    using channel_position[of "uint (ch_id_to_ch_index ch)" "uint ch"] by (auto simp: channel_row_def Let_def)
next
  case False
  then have "uint ch \<notin> set phy_channels" by (auto simp: phy_channels_def)
  with False beyond_channels[of ch] show ?thesis
    by (auto simp: ch_id_to_ch_index_def channel_id_to_papd_def)
qed

subsection \<open>Sections\<close>

text \<open>The states a data base goes through: allocated, then fed with packets.\<close>

inductive phy_run :: "u8 list list \<Rightarrow> iwl_phy_db \<Rightarrow> pheap \<Rightarrow> bool" where
  init: "iwl_phy_db_init h0 = (Some db, h) \<Longrightarrow> phy_run [] db h"
| packet: "phy_run pkts db h \<Longrightarrow> iwl_phy_db_set_section pkt (Some db) h = Inr (r, Some db', h') \<Longrightarrow> phy_run (pkt # pkts) db' h'"

text \<open>The size of the last packet for a section, 0 before the first.\<close>

fun last_size :: "nat \<Rightarrow> u8 list list \<Rightarrow> u16" where
  "last_size ty [] = 0"
| "last_size ty (pkt # pkts) = (case (rd16 pkt 0, rd16 pkt 2) of
     (Inr w, Inr sz) \<Rightarrow> if unat w = ty then sz else last_size ty pkts | _ \<Rightarrow> last_size ty pkts)"

definition phy_idle :: "u8 list list \<Rightarrow> iwl_phy_db \<Rightarrow> bool" where
  "phy_idle pkts db \<longleftrightarrow> phy_cfg db = \<lparr>entry_size = Some (last_size IWL_PHY_DB_CFG pkts), entry_data = Some None\<rparr>
     \<and> calib_nch db = \<lparr>entry_size = Some (last_size IWL_PHY_DB_CALIB_NCH pkts), entry_data = Some None\<rparr>
     \<and> n_group_papd db = - 1 \<and> n_group_txp db = - 1 \<and> calib_ch_group_papd db = None \<and> calib_ch_group_txp db = None"

lemma prepare_plain: "\<not> is_group ty \<Longrightarrow> prepare_group ty c (db, h) = (True, db, h)"
  by (simp add: prepare_group_def is_group_def)

lemma group_packet:
  assumes idle: "phy_idle pkts db" and g: "is_group (unat w)" and pkt: "rd16 pkt 0 = Inr w" "rd16 pkt 2 = Inr sz" "rd16 pkt 4 = Inr c"
  shows "iwl_phy_db_set_section pkt (Some db) h = Inl Indeterminate
    \<or> (\<exists>h'. iwl_phy_db_set_section pkt (Some db) h = Inr (ENOMEM_code, Some db, h'))"
proof -
  obtain p h' where a: "alloc_group c h = (p, h')" by fastforce
  show ?thesis
  proof (cases p)
    case None
    with a idle g pkt show ?thesis
      by (auto simp: iwl_phy_db_set_section_def prepare_group_def is_group_def phy_idle_def)
  next
    case (Some q)
    with a have "blocks h' q = Some (Entries (replicate (unat c + 1) uninit_entry))"
      by (auto simp: alloc_group_def elim: heap_alloc_cases)
    then have "read_group (Some q) (unat c) h' = Inr uninit_entry"
      by (simp add: read_group_def group_entries_of_def heap_get_def elem_at_def nth_replicate[of _ "unat c + 1", simplified]
        del: replicate_Suc)
    with Some a idle g pkt show ?thesis
      by (auto simp: iwl_phy_db_set_section_def prepare_group_def is_group_def phy_idle_def section_types
        iwl_phy_db_get_section_def read_entry_def det_value_def uninit_entry_def)
  qed
qed

lemma packet_idle:
  assumes "phy_idle pkts db" and "iwl_phy_db_set_section pkt (Some db) h = Inr (r, Some db', h')"
  shows "phy_idle (pkt # pkts) db'"
proof -
  from assms(2) obtain w sz where h: "rd16 pkt 0 = Inr w" "rd16 pkt 2 = Inr sz"
    by (auto simp: iwl_phy_db_set_section_def bindF_eq_Inr)
  show ?thesis
  proof (cases "is_group (unat w)")
    case True
    with assms(2) h obtain c where "rd16 pkt 4 = Inr c"
      by (auto simp: iwl_phy_db_set_section_def Let_def bindF_eq_Inr)
    with group_packet[OF assms(1) True h this, of h] assms h True show ?thesis
      by (auto simp: phy_idle_def is_group_def section_types)
  next
    case False
    with assms h show ?thesis
      by (auto simp: iwl_phy_db_set_section_def prepare_plain iwl_phy_db_get_section_def phy_idle_def is_group_def
        section_types read_entry_def write_entry_def det_value_def iwh_free_def Let_def split: if_splits)
  qed
qed

lemma run_idle: "phy_run pkts db h \<Longrightarrow> phy_idle pkts db"
proof (induction rule: phy_run.induct)
  case (init h0 db h)
  then show ?case
    by (auto simp: iwl_phy_db_init_def phy_idle_def zero_entry_def Let_def split: if_splits prod.splits)
next
  case (packet pkts db h pkt r db' h')
  then show ?case using packet_idle by blast
qed

lemma channel_groups_refused:
  assumes "phy_idle pkts db" and "is_group ty"
  shows "iwl_phy_db_send_all_channel_groups ops db h ty (- 1) t = Inr (EINVAL_code, t)"
proof -
  have "unat (- 1 :: u8) = 255" by code_simp
  then have "[0..<unat (- 1 :: u8)] = 0 # [1..<255]" by (simp add: upt_conv_Cons)
  with assms show ?thesis
    by (auto simp: iwl_phy_db_send_all_channel_groups_def phy_idle_def is_group_def iwl_phy_db_get_section_def section_types)
qed

lemma send_section_idle:
  assumes "phy_idle pkts db" and "ty = IWL_PHY_DB_CFG \<or> ty = IWL_PHY_DB_CALIB_NCH"
  shows "send_section ops db h ty t = iwl_send_phy_db_cmd ops ty (last_size ty pkts) None t"
  using assms by (auto simp: send_section_def iwl_phy_db_get_section_data_def iwl_phy_db_get_section_def phy_idle_def
    section_types read_entry_def det_value_def)

lemma send_cmd_total: "\<exists>r t'. iwl_send_phy_db_cmd ops ty len data t = Inr (r, t')"
  by (auto simp: iwl_send_phy_db_cmd_def iwl_trans_send_cmd_def test_status_def test_bit_def Let_def split: prod.splits)

text \<open>
  C39. The data base keeps the sizes of the sections but none of their data, and its content can never be sent.
  After any packets: the two plain sections have the size of the last packet and a NULL data pointer; a packet for
  a channel group either finds no memory or releases a pointer that was never written; and sending the data base
  first sends the plain sections with NULL data and then ends with an error code, whatever the transport answers.
\<close>

theorem phy_db_never_sent:
  assumes "phy_run pkts db h"
  shows "iwl_phy_db_get_section_data (Some db) h IWL_PHY_DB_CFG 0 = Inr (0, Some (Some None, Some (last_size IWL_PHY_DB_CFG pkts)))
    \<and> iwl_phy_db_get_section_data (Some db) h IWL_PHY_DB_CALIB_NCH 0 = Inr (0, Some (Some None, Some (last_size IWL_PHY_DB_CALIB_NCH pkts)))
    \<and> (rd16 pkt 0 = Inr w \<and> rd16 pkt 2 = Inr sz \<and> rd16 pkt 4 = Inr c \<and> is_group (unat w) \<longrightarrow>
        iwl_phy_db_set_section pkt (Some db) h = Inl Indeterminate
        \<or> (\<exists>h'. iwl_phy_db_set_section pkt (Some db) h = Inr (ENOMEM_code, Some db, h')))
    \<and> (\<exists>r t'. iwl_send_phy_db_data ops db h t = Inr (r, t') \<and> r \<noteq> 0)"
proof -
  note idle = run_idle[OF assms]
  let ?cfg = "iwl_send_phy_db_cmd ops IWL_PHY_DB_CFG (last_size IWL_PHY_DB_CFG pkts) None"
  let ?nch = "iwl_send_phy_db_cmd ops IWL_PHY_DB_CALIB_NCH (last_size IWL_PHY_DB_CALIB_NCH pkts) None"
  have n: "(word_of_int (n_group_papd db) :: u8) = - 1" using idle by (simp add: phy_idle_def)
  obtain r1 t1 where 1: "?cfg t = Inr (r1, t1)" using send_cmd_total by blast
  obtain r2 t2 where 2: "?nch t1 = Inr (r2, t2)" using send_cmd_total by blast
  have g: "is_group IWL_PHY_DB_CALIB_CHG_PAPD" by (simp add: is_group_def)
  have "\<exists>r t'. iwl_send_phy_db_data ops db h t = Inr (r, t') \<and> r \<noteq> 0"
    by (auto simp: iwl_send_phy_db_data_def send_section_idle[OF idle] 1 2 n channel_groups_refused[OF idle g])
  moreover have "rd16 pkt 0 = Inr w \<and> rd16 pkt 2 = Inr sz \<and> rd16 pkt 4 = Inr c \<and> is_group (unat w) \<longrightarrow>
        iwl_phy_db_set_section pkt (Some db) h = Inl Indeterminate
        \<or> (\<exists>h'. iwl_phy_db_set_section pkt (Some db) h = Inr (ENOMEM_code, Some db, h'))"
    using group_packet[OF idle] by blast
  moreover have "iwl_phy_db_get_section_data (Some db) h ty 0 = Inr (0, Some (Some None, Some (last_size ty pkts)))"
    if "ty = IWL_PHY_DB_CFG \<or> ty = IWL_PHY_DB_CALIB_NCH" for ty
    using that idle by (auto simp: iwl_phy_db_get_section_data_def iwl_phy_db_get_section_def phy_idle_def
      section_types read_entry_def)
  ultimately show ?thesis by blast
qed

text \<open>A packet with four bytes for the first section, and one for the first channel group.\<close>

definition cfg_packet :: "u8 list" where "cfg_packet = [1, 0, 4, 0, 9, 8, 7, 6]"
definition papd_packet :: "u8 list" where "papd_packet = [4, 0, 4, 0, 0, 0, 7, 6]"

definition demo_pheap :: pheap where
  "demo_pheap = \<lparr>blocks = (\<lambda>_. None), fresh = 0, grants = []\<rparr>"

definition quiet_ops :: "(unit, phy_payload) iwl_trans_ops" where
  "quiet_ops = \<lparr>op_send_cmd = (\<lambda>t c. (0, t, c)), op_call = (\<lambda>_. Some (\<lambda>t. (0, t)))\<rparr>"

lemma packet_words: "rd16 papd_packet 0 = Inr 4" "rd16 papd_packet 2 = Inr 4" "rd16 papd_packet 4 = Inr 0"
  "rd16 cfg_packet 0 = Inr 1" "rd16 cfg_packet 2 = Inr 4"
  by code_simp+

theorem phy_db_never_sent_witness:
  "\<exists>db h. phy_run [cfg_packet] db h
    \<and> iwl_phy_db_get_section_data (Some db) h IWL_PHY_DB_CFG 0 = Inr (0, Some (Some None, Some 4))
    \<and> iwl_phy_db_set_section papd_packet (Some db) h = Inl Indeterminate"
proof -
  let ?db = "\<lparr>phy_cfg = zero_entry, calib_nch = zero_entry, n_group_papd = - 1, calib_ch_group_papd = None,
    n_group_txp = - 1, calib_ch_group_txp = None\<rparr>"
  let ?db' = "?db\<lparr>phy_cfg := \<lparr>entry_size = Some 4, entry_data = Some None\<rparr>\<rparr>"
  have "phy_run [] ?db demo_pheap"
    by (rule phy_run.init[of demo_pheap]) (simp add: iwl_phy_db_init_def demo_pheap_def)
  then have run: "phy_run [cfg_packet] ?db' demo_pheap"
    by (rule phy_run.packet) (simp add: iwl_phy_db_set_section_def packet_words is_group_def section_types prepare_group_def
      iwl_phy_db_get_section_def read_entry_def write_entry_def det_value_def iwh_free_def zero_entry_def)
  note all = phy_db_never_sent[OF run, of papd_packet 4 4 0 quiet_ops]
  have "iwl_phy_db_set_section papd_packet (Some ?db') demo_pheap \<noteq> Inr (ENOMEM_code, Some ?db', h')" for h'
    by (auto simp: iwl_phy_db_set_section_def packet_words is_group_def section_types prepare_group_def alloc_group_def
      heap_alloc_def demo_pheap_def Let_def bindF_eq_Inr iwl_phy_db_get_section_def)
  then have "iwl_phy_db_set_section papd_packet (Some ?db') demo_pheap = Inl Indeterminate"
    using all by (auto simp: packet_words is_group_def section_types)
  then show ?thesis using run all by (intro exI conjI) (auto simp: packet_words section_types)
qed

end
