(* ===== verification/Dvm_Devices.thy ===== *)
theory Dvm_Devices
  imports Io_Access "HOL-Library.Signed_Division"
begin

section \<open>Device-specific parts of the DVM operation mode\<close>

text \<open>
  \<^verbatim>\<open>iwlwifi/dvm/devices.c\<close> and \<^verbatim>\<open>iwlwifi/dvm/lib.c\<close>: thresholds and sensitivity tables of the series, their first
  register writes, the temperature, the beacon-time arithmetic of a channel switch, and the tables that put them
  together. The thermal handler (\<open>iwl_tt_handler\<close>) and the sending of a command (\<open>iwl_dvm_send_cmd\<close>) belong to other
  files and are arguments. Debug output is left out.
\<close>

subsection \<open>Data\<close>

record iwl_sensitivity_ranges =
  min_nrg_cck :: u16
  nrg_th_cck :: u16
  nrg_th_ofdm :: u16
  auto_corr_min_ofdm :: u16
  auto_corr_min_ofdm_mrc :: u16
  auto_corr_min_ofdm_x1 :: u16
  auto_corr_min_ofdm_mrc_x1 :: u16
  auto_corr_max_ofdm :: u16
  auto_corr_max_ofdm_mrc :: u16
  auto_corr_max_ofdm_x1 :: u16
  auto_corr_max_ofdm_mrc_x1 :: u16
  auto_corr_max_cck :: u16
  auto_corr_max_cck_mrc :: u16
  auto_corr_min_cck :: u16
  auto_corr_min_cck_mrc :: u16
  barker_corr_th_min :: u16
  barker_corr_th_min_mrc :: u16
  nrg_th_cca :: u16

record iwl_hw_params =
  ct_kill_threshold :: u32
  ct_kill_exit_threshold :: u32
  sens :: "iwl_sensitivity_ranges option"

record iwl_dvm_bt_params =
  advanced_bt_coexist :: bool
  bt_init_traffic_load :: u8
  bt_prio_boost :: u32
  agg_time_limit :: u16
  bt_sco_disable :: bool
  bt_session_2 :: bool

text \<open>The part of \<open>iwl_priv\<close> these functions read and write.\<close>

record dvm_priv =
  hw_params :: iwl_hw_params
  nvm_kelvin_temperature :: u16
  nvm_kelvin_voltage :: u16
  nvm_calib_version :: u8
  statistics_temperature :: u32
  temperature :: int
  ucode_beacon_time :: u32
  timing_beacon_interval :: u16
  staging_flags :: u32
  staging_filter_flags :: u32
  priv_band_2ghz :: bool
  vif_beacon_int :: u16

datatype set_hw_params_fn = Hw_1000 | Hw_2000 | Hw_5000 | Hw_5150 | Hw_6000
datatype channel_switch_fn = Switch_5000 | Switch_6000
datatype nic_config_fn = Nic_1000 | Nic_2000 | Nic_6000
datatype temperature_fn = Temp_agn | Temp_5150

record iwl_dvm_cfg =
  set_hw_params :: set_hw_params_fn
  set_channel_switch :: "channel_switch_fn option"
  nic_config :: "nic_config_fn option"
  temperature_fn :: temperature_fn
  bt_params :: "iwl_dvm_bt_params option"
  chain_noise_scale :: int
  plcp_delta_threshold :: u8
  adv_thermal_throttle :: bool
  support_ct_kill_exit :: bool
  hd_v2 :: bool
  no_idle_support :: bool
  need_temp_offset_calib :: bool
  no_xtal_calib :: bool
  temp_offset_v2 :: bool
  adv_pm :: bool

record ieee80211_channel_switch =
  sw_timestamp :: u64
  sw_hw_value :: u16
  sw_flags :: u32
  sw_count :: u8

text \<open>\<open>cs_reserved\<close> is \<open>None\<close> when the reserved words of the command are whatever the stack held.\<close>

record channel_switch_cmd =
  cs_band :: u8
  cs_expect_beacon :: u8
  cs_channel :: u16
  cs_rxon_flags :: u32
  cs_rxon_filter_flags :: u32
  cs_switch_time :: u32
  cs_reserved :: "u32 list option"

subsection \<open>Tables\<close>

definition iwl1000_sensitivity :: iwl_sensitivity_ranges where
  "iwl1000_sensitivity = \<lparr>
     min_nrg_cck = 95, nrg_th_cck = 95, nrg_th_ofdm = 95, auto_corr_min_ofdm = 90,
     auto_corr_min_ofdm_mrc = 170, auto_corr_min_ofdm_x1 = 120, auto_corr_min_ofdm_mrc_x1 = 240,
     auto_corr_max_ofdm = 120, auto_corr_max_ofdm_mrc = 210, auto_corr_max_ofdm_x1 = 155,
     auto_corr_max_ofdm_mrc_x1 = 290, auto_corr_max_cck = 200, auto_corr_max_cck_mrc = 400,
     auto_corr_min_cck = 125, auto_corr_min_cck_mrc = 170, barker_corr_th_min = 190,
     barker_corr_th_min_mrc = 390, nrg_th_cca = 62\<rparr>"

definition iwl2000_sensitivity :: iwl_sensitivity_ranges where
  "iwl2000_sensitivity = \<lparr>
     min_nrg_cck = 97, nrg_th_cck = 97, nrg_th_ofdm = 100, auto_corr_min_ofdm = 80,
     auto_corr_min_ofdm_mrc = 128, auto_corr_min_ofdm_x1 = 105, auto_corr_min_ofdm_mrc_x1 = 192,
     auto_corr_max_ofdm = 145, auto_corr_max_ofdm_mrc = 232, auto_corr_max_ofdm_x1 = 110,
     auto_corr_max_ofdm_mrc_x1 = 232, auto_corr_max_cck = 175, auto_corr_max_cck_mrc = 310,
     auto_corr_min_cck = 125, auto_corr_min_cck_mrc = 160, barker_corr_th_min = 190,
     barker_corr_th_min_mrc = 390, nrg_th_cca = 62\<rparr>"

definition iwl5000_sensitivity :: iwl_sensitivity_ranges where
  "iwl5000_sensitivity = \<lparr>
     min_nrg_cck = 100, nrg_th_cck = 100, nrg_th_ofdm = 100, auto_corr_min_ofdm = 90,
     auto_corr_min_ofdm_mrc = 170, auto_corr_min_ofdm_x1 = 105, auto_corr_min_ofdm_mrc_x1 = 220,
     auto_corr_max_ofdm = 120, auto_corr_max_ofdm_mrc = 210, auto_corr_max_ofdm_x1 = 120,
     auto_corr_max_ofdm_mrc_x1 = 240, auto_corr_max_cck = 200, auto_corr_max_cck_mrc = 400,
     auto_corr_min_cck = 125, auto_corr_min_cck_mrc = 200, barker_corr_th_min = 190,
     barker_corr_th_min_mrc = 390, nrg_th_cca = 62\<rparr>"

definition iwl5150_sensitivity :: iwl_sensitivity_ranges where
  "iwl5150_sensitivity = \<lparr>
     min_nrg_cck = 95, nrg_th_cck = 95, nrg_th_ofdm = 95, auto_corr_min_ofdm = 90,
     auto_corr_min_ofdm_mrc = 170, auto_corr_min_ofdm_x1 = 105, auto_corr_min_ofdm_mrc_x1 = 220,
     auto_corr_max_ofdm = 120, auto_corr_max_ofdm_mrc = 210, auto_corr_max_ofdm_x1 = 105,
     auto_corr_max_ofdm_mrc_x1 = 220, auto_corr_max_cck = 200, auto_corr_max_cck_mrc = 400,
     auto_corr_min_cck = 125, auto_corr_min_cck_mrc = 170, barker_corr_th_min = 190,
     barker_corr_th_min_mrc = 390, nrg_th_cca = 62\<rparr>"

definition iwl6000_sensitivity :: iwl_sensitivity_ranges where
  "iwl6000_sensitivity = \<lparr>
     min_nrg_cck = 110, nrg_th_cck = 110, nrg_th_ofdm = 110, auto_corr_min_ofdm = 80,
     auto_corr_min_ofdm_mrc = 128, auto_corr_min_ofdm_x1 = 105, auto_corr_min_ofdm_mrc_x1 = 192,
     auto_corr_max_ofdm = 145, auto_corr_max_ofdm_mrc = 232, auto_corr_max_ofdm_x1 = 110,
     auto_corr_max_ofdm_mrc_x1 = 232, auto_corr_max_cck = 175, auto_corr_max_cck_mrc = 310,
     auto_corr_min_cck = 125, auto_corr_min_cck_mrc = 160, barker_corr_th_min = 190,
     barker_corr_th_min_mrc = 336, nrg_th_cca = 62\<rparr>"

definition iwl2030_bt_params :: iwl_dvm_bt_params where
  "iwl2030_bt_params = \<lparr>advanced_bt_coexist = True, bt_init_traffic_load = 0, bt_prio_boost = 0xF0F0F0F0,
     agg_time_limit = 1200, bt_sco_disable = True, bt_session_2 = True\<rparr>"

definition iwl6000_bt_params :: iwl_dvm_bt_params where
  "iwl6000_bt_params = \<lparr>advanced_bt_coexist = True, bt_init_traffic_load = 0, bt_prio_boost = 0xF0,
     agg_time_limit = 1200, bt_sco_disable = True, bt_session_2 = False\<rparr>"

definition iwl_dvm_1000_cfg :: iwl_dvm_cfg where
  "iwl_dvm_1000_cfg = \<lparr>
     set_hw_params = Hw_1000, set_channel_switch = None, nic_config = Some Nic_1000, temperature_fn = Temp_agn,
     bt_params = None, chain_noise_scale = 1000, plcp_delta_threshold = 200, adv_thermal_throttle = False,
     support_ct_kill_exit = True, hd_v2 = False, no_idle_support = False, need_temp_offset_calib = False,
     no_xtal_calib = False, temp_offset_v2 = False, adv_pm = False\<rparr>"

definition iwl_dvm_2000_cfg :: iwl_dvm_cfg where
  "iwl_dvm_2000_cfg = \<lparr>
     set_hw_params = Hw_2000, set_channel_switch = None, nic_config = Some Nic_2000, temperature_fn = Temp_agn,
     bt_params = None, chain_noise_scale = 1000, plcp_delta_threshold = 50, adv_thermal_throttle = True,
     support_ct_kill_exit = True, hd_v2 = True, no_idle_support = False, need_temp_offset_calib = True,
     no_xtal_calib = False, temp_offset_v2 = True, adv_pm = False\<rparr>"

definition iwl_dvm_105_cfg :: iwl_dvm_cfg where
  "iwl_dvm_105_cfg = \<lparr>
     set_hw_params = Hw_2000, set_channel_switch = None, nic_config = Some Nic_2000, temperature_fn = Temp_agn,
     bt_params = None, chain_noise_scale = 1000, plcp_delta_threshold = 50, adv_thermal_throttle = True,
     support_ct_kill_exit = True, hd_v2 = True, no_idle_support = False, need_temp_offset_calib = True,
     no_xtal_calib = False, temp_offset_v2 = True, adv_pm = True\<rparr>"

definition iwl_dvm_2030_cfg :: iwl_dvm_cfg where
  "iwl_dvm_2030_cfg = \<lparr>
     set_hw_params = Hw_2000, set_channel_switch = None, nic_config = Some Nic_2000, temperature_fn = Temp_agn,
     bt_params = Some iwl2030_bt_params, chain_noise_scale = 1000, plcp_delta_threshold = 50,
     adv_thermal_throttle = True, support_ct_kill_exit = True, hd_v2 = True, no_idle_support = False,
     need_temp_offset_calib = True, no_xtal_calib = False, temp_offset_v2 = True, adv_pm = True\<rparr>"

definition iwl_dvm_5000_cfg :: iwl_dvm_cfg where
  "iwl_dvm_5000_cfg = \<lparr>
     set_hw_params = Hw_5000, set_channel_switch = Some Switch_5000, nic_config = None,
     temperature_fn = Temp_agn, bt_params = None, chain_noise_scale = 1000, plcp_delta_threshold = 100,
     adv_thermal_throttle = False, support_ct_kill_exit = False, hd_v2 = False, no_idle_support = True,
     need_temp_offset_calib = False, no_xtal_calib = False, temp_offset_v2 = False, adv_pm = False\<rparr>"

definition iwl_dvm_5150_cfg :: iwl_dvm_cfg where
  "iwl_dvm_5150_cfg = \<lparr>
     set_hw_params = Hw_5150, set_channel_switch = Some Switch_5000, nic_config = None,
     temperature_fn = Temp_5150, bt_params = None, chain_noise_scale = 1000, plcp_delta_threshold = 100,
     adv_thermal_throttle = False, support_ct_kill_exit = False, hd_v2 = False, no_idle_support = True,
     need_temp_offset_calib = False, no_xtal_calib = True, temp_offset_v2 = False, adv_pm = False\<rparr>"

definition iwl_dvm_6000_cfg :: iwl_dvm_cfg where
  "iwl_dvm_6000_cfg = \<lparr>
     set_hw_params = Hw_6000, set_channel_switch = Some Switch_6000, nic_config = Some Nic_6000,
     temperature_fn = Temp_agn, bt_params = None, chain_noise_scale = 1000, plcp_delta_threshold = 50,
     adv_thermal_throttle = True, support_ct_kill_exit = True, hd_v2 = False, no_idle_support = False,
     need_temp_offset_calib = False, no_xtal_calib = False, temp_offset_v2 = False, adv_pm = False\<rparr>"

definition iwl_dvm_6005_cfg :: iwl_dvm_cfg where
  "iwl_dvm_6005_cfg = \<lparr>
     set_hw_params = Hw_6000, set_channel_switch = Some Switch_6000, nic_config = Some Nic_6000,
     temperature_fn = Temp_agn, bt_params = None, chain_noise_scale = 1000, plcp_delta_threshold = 50,
     adv_thermal_throttle = True, support_ct_kill_exit = True, hd_v2 = False, no_idle_support = False,
     need_temp_offset_calib = True, no_xtal_calib = False, temp_offset_v2 = False, adv_pm = False\<rparr>"

definition iwl_dvm_6050_cfg :: iwl_dvm_cfg where
  "iwl_dvm_6050_cfg = \<lparr>
     set_hw_params = Hw_6000, set_channel_switch = Some Switch_6000, nic_config = Some Nic_6000,
     temperature_fn = Temp_agn, bt_params = None, chain_noise_scale = 1500, plcp_delta_threshold = 50,
     adv_thermal_throttle = True, support_ct_kill_exit = True, hd_v2 = False, no_idle_support = False,
     need_temp_offset_calib = False, no_xtal_calib = False, temp_offset_v2 = False, adv_pm = False\<rparr>"

definition iwl_dvm_6030_cfg :: iwl_dvm_cfg where
  "iwl_dvm_6030_cfg = \<lparr>
     set_hw_params = Hw_6000, set_channel_switch = Some Switch_6000, nic_config = Some Nic_6000,
     temperature_fn = Temp_agn, bt_params = Some iwl6000_bt_params, chain_noise_scale = 1000,
     plcp_delta_threshold = 50, adv_thermal_throttle = True, support_ct_kill_exit = True, hd_v2 = False,
     no_idle_support = False, need_temp_offset_calib = True, no_xtal_calib = False, temp_offset_v2 = False,
     adv_pm = True\<rparr>"

subsection \<open>Thresholds\<close>

abbreviation CT_KILL_THRESHOLD_LEGACY :: u32 where "CT_KILL_THRESHOLD_LEGACY \<equiv> 110"
abbreviation CT_KILL_THRESHOLD :: u32 where "CT_KILL_THRESHOLD \<equiv> 114"
abbreviation CT_KILL_EXIT_THRESHOLD :: u32 where "CT_KILL_EXIT_THRESHOLD \<equiv> 95"

definition on_params :: "(iwl_hw_params \<Rightarrow> iwl_hw_params) \<Rightarrow> dvm_priv \<Rightarrow> dvm_priv" where
  "on_params f priv = priv\<lparr>hw_params := f (hw_params priv)\<rparr>"

definition iwl1000_set_ct_threshold :: "dvm_priv \<Rightarrow> dvm_priv" where
  "iwl1000_set_ct_threshold = on_params (\<lambda>p. p\<lparr>ct_kill_threshold := CT_KILL_THRESHOLD_LEGACY,
     ct_kill_exit_threshold := CT_KILL_EXIT_THRESHOLD\<rparr>)"

definition iwl2000_set_ct_threshold :: "dvm_priv \<Rightarrow> dvm_priv" where
  "iwl2000_set_ct_threshold = on_params (\<lambda>p. p\<lparr>ct_kill_threshold := CT_KILL_THRESHOLD,
     ct_kill_exit_threshold := CT_KILL_EXIT_THRESHOLD\<rparr>)"

definition iwl5000_set_ct_threshold :: "dvm_priv \<Rightarrow> dvm_priv" where
  "iwl5000_set_ct_threshold = on_params (\<lambda>p. p\<lparr>ct_kill_threshold := CT_KILL_THRESHOLD_LEGACY\<rparr>)"

definition iwl6000_set_ct_threshold :: "dvm_priv \<Rightarrow> dvm_priv" where
  "iwl6000_set_ct_threshold = on_params (\<lambda>p. p\<lparr>ct_kill_threshold := CT_KILL_THRESHOLD,
     ct_kill_exit_threshold := CT_KILL_EXIT_THRESHOLD\<rparr>)"

text \<open>The arithmetic of \<open>iwl_temp_calib_to_offset\<close> is on \<open>int\<close>, whose division truncates.\<close>

definition iwl_temp_calib_to_offset :: "dvm_priv \<Rightarrow> int" where
  "iwl_temp_calib_to_offset priv = uint (nvm_kelvin_temperature priv) - uint (nvm_kelvin_voltage priv) sdiv (- 5)"

definition iwl5150_set_ct_threshold :: "dvm_priv \<Rightarrow> dvm_priv" where
  "iwl5150_set_ct_threshold priv = on_params (\<lambda>p. p\<lparr>ct_kill_threshold :=
     word_of_int ((110 + 273 - iwl_temp_calib_to_offset priv) * (- 5))\<rparr>) priv"

definition set_sens :: "iwl_sensitivity_ranges \<Rightarrow> dvm_priv \<Rightarrow> dvm_priv" where
  "set_sens r = on_params (\<lambda>p. p\<lparr>sens := Some r\<rparr>)"

fun hw_set_hw_params :: "set_hw_params_fn \<Rightarrow> dvm_priv \<Rightarrow> dvm_priv" where
  "hw_set_hw_params Hw_1000 priv = set_sens iwl1000_sensitivity (iwl1000_set_ct_threshold priv)"
| "hw_set_hw_params Hw_2000 priv = set_sens iwl2000_sensitivity (iwl2000_set_ct_threshold priv)"
| "hw_set_hw_params Hw_5000 priv = set_sens iwl5000_sensitivity (iwl5000_set_ct_threshold priv)"
| "hw_set_hw_params Hw_5150 priv = set_sens iwl5150_sensitivity (iwl5150_set_ct_threshold priv)"
| "hw_set_hw_params Hw_6000 priv = set_sens iwl6000_sensitivity (iwl6000_set_ct_threshold priv)"

subsection \<open>First register writes\<close>

abbreviation CSR_GP_DRIVER_REG :: u32 where "CSR_GP_DRIVER_REG \<equiv> 0x50"
abbreviation APMG_DIGITAL_SVR_REG :: u32 where "APMG_DIGITAL_SVR_REG \<equiv> 0x3058"

definition iwl1000_nic_config :: "'d hw \<Rightarrow> ('d, unit) io" where
  "iwl1000_nic_config hw = iwl_set_bits_mask_prph hw APMG_DIGITAL_SVR_REG 0x60 (NOT 0x1E0)"

definition iwl2000_nic_config :: "'d hw \<Rightarrow> ('d, unit) io" where
  "iwl2000_nic_config hw = iwl_set_bit hw CSR_GP_DRIVER_REG 0x80"

definition calib_version6 :: "'d hw \<Rightarrow> dvm_priv \<Rightarrow> ('d, unit) io" where
  "calib_version6 hw priv = (if nvm_calib_version priv \<ge> 6 then iwl_set_bit hw CSR_GP_DRIVER_REG 0x4 else retIO ())"

definition iwl6000_nic_config :: "'d hw \<Rightarrow> iwl_device_family \<Rightarrow> dvm_priv \<Rightarrow> ('d, unit) io" where
  "iwl6000_nic_config hw fam priv = (case fam of
     IWL_DEVICE_FAMILY_6000i \<Rightarrow> iwl_write32 hw CSR_GP_DRIVER_REG 0x2
   | IWL_DEVICE_FAMILY_6050 \<Rightarrow> calib_version6 hw priv
   | IWL_DEVICE_FAMILY_6150 \<Rightarrow> bindIO (calib_version6 hw priv) (\<lambda>_. iwl_set_bit hw CSR_GP_DRIVER_REG 0x8)
   | _ \<Rightarrow> retIO ())"

fun nic_config_of :: "nic_config_fn \<Rightarrow> 'd hw \<Rightarrow> iwl_device_family \<Rightarrow> dvm_priv \<Rightarrow> ('d, unit) io" where
  "nic_config_of Nic_1000 hw fam priv = iwl1000_nic_config hw"
| "nic_config_of Nic_2000 hw fam priv = iwl2000_nic_config hw"
| "nic_config_of Nic_6000 hw fam priv = iwl6000_nic_config hw fam priv"

subsection \<open>Temperature\<close>

definition iwlagn_temperature :: "(dvm_priv \<Rightarrow> dvm_priv) \<Rightarrow> dvm_priv \<Rightarrow> dvm_priv" where
  "iwlagn_temperature iwl_tt_handler priv = iwl_tt_handler (priv\<lparr>temperature := sint (statistics_temperature priv)\<rparr>)"

text \<open>\<open>vt\<close> is unsigned, so its division by -5 is the unsigned division by the 32-bit pattern of -5.\<close>

definition iwl5150_temperature :: "(dvm_priv \<Rightarrow> dvm_priv) \<Rightarrow> dvm_priv \<Rightarrow> dvm_priv" where
  "iwl5150_temperature iwl_tt_handler priv =
     (let offset = iwl_temp_calib_to_offset priv; vt = statistics_temperature priv;
          vt = vt div (- 5) + word_of_int offset
      in iwl_tt_handler (priv\<lparr>temperature := sint (vt - 273)\<rparr>))"

subsection \<open>Beacon time\<close>

abbreviation IWLAGN_EXT_BEACON_TIME_POS :: nat where "IWLAGN_EXT_BEACON_TIME_POS \<equiv> 22"

definition iwl_beacon_time_mask_low :: "nat \<Rightarrow> u32" where
  "iwl_beacon_time_mask_low tsf_bits = push_bit tsf_bits 1 - 1"

definition iwl_beacon_time_mask_high :: "nat \<Rightarrow> u32" where
  "iwl_beacon_time_mask_high tsf_bits = push_bit tsf_bits (push_bit (32 - tsf_bits) 1 - 1)"

definition iwl_usecs_to_beacons :: "u32 \<Rightarrow> u32 \<Rightarrow> u32" where
  "iwl_usecs_to_beacons usec beacon_interval =
     (let interval = beacon_interval * 1024 in
      if interval = 0 \<or> usec = 0 then 0
      else let quot = (usec div interval) AND
                 drop_bit IWLAGN_EXT_BEACON_TIME_POS (iwl_beacon_time_mask_high IWLAGN_EXT_BEACON_TIME_POS);
               rem = (usec mod interval) AND iwl_beacon_time_mask_low IWLAGN_EXT_BEACON_TIME_POS
           in push_bit IWLAGN_EXT_BEACON_TIME_POS quot + rem)"

definition iwl_add_beacon_time :: "u32 \<Rightarrow> u32 \<Rightarrow> u32 \<Rightarrow> u32" where
  "iwl_add_beacon_time base addon beacon_interval =
     (let base_low = base AND iwl_beacon_time_mask_low IWLAGN_EXT_BEACON_TIME_POS;
          addon_low = addon AND iwl_beacon_time_mask_low IWLAGN_EXT_BEACON_TIME_POS;
          interval = beacon_interval * 1024;
          res = (base AND iwl_beacon_time_mask_high IWLAGN_EXT_BEACON_TIME_POS)
                + (addon AND iwl_beacon_time_mask_high IWLAGN_EXT_BEACON_TIME_POS)
      in if base_low > addon_low then res + (base_low - addon_low)
         else if base_low < addon_low then
           res + (interval + base_low - addon_low) + push_bit IWLAGN_EXT_BEACON_TIME_POS 1
         else res + push_bit IWLAGN_EXT_BEACON_TIME_POS 1)"

subsection \<open>Channel switch\<close>

text \<open>The number of beacons until the switch, less those that have passed since the announcement.\<close>

definition switch_count_left :: "dvm_priv \<Rightarrow> ieee80211_channel_switch \<Rightarrow> u8" where
  "switch_count_left priv sw =
     (let tsf_low = ucast (sw_timestamp sw AND 0xffffffff) :: u32; bi = ucast (timing_beacon_interval priv) :: u32;
          switch_count = sw_count sw
      in if ucode_beacon_time priv > tsf_low \<and> bi \<noteq> 0 then
           (let passed = (ucode_beacon_time priv - tsf_low) div bi in
            if ucast switch_count > passed then switch_count - ucast passed else 0)
         else switch_count)"

definition switch_time :: "dvm_priv \<Rightarrow> u8 \<Rightarrow> u32" where
  "switch_time priv switch_count =
     (if switch_count \<le> 1 then ucode_beacon_time priv
      else let switch_time_in_usec = ucast (vif_beacon_int priv) * ucast switch_count * 1024;
               bi = ucast (timing_beacon_interval priv)
           in iwl_add_beacon_time (ucode_beacon_time priv) (iwl_usecs_to_beacons switch_time_in_usec bi) bi)"

definition switch_cmd :: "u32 list option \<Rightarrow> dvm_priv \<Rightarrow> ieee80211_channel_switch \<Rightarrow> channel_switch_cmd" where
  "switch_cmd resv priv sw = \<lparr>cs_band = (if priv_band_2ghz priv then 1 else 0),
     cs_expect_beacon = ucast (sw_flags sw AND 8), cs_channel = sw_hw_value sw,
     cs_rxon_flags = staging_flags priv, cs_rxon_filter_flags = staging_filter_flags priv,
     cs_switch_time = switch_time priv (switch_count_left priv sw), cs_reserved = resv\<rparr>"

definition iwl5000_hw_channel_switch ::
  "(channel_switch_cmd \<Rightarrow> int) \<Rightarrow> dvm_priv \<Rightarrow> ieee80211_channel_switch \<Rightarrow> int" where
  "iwl5000_hw_channel_switch iwl_dvm_send_cmd priv sw = iwl_dvm_send_cmd (switch_cmd None priv sw)"

text \<open>The command of the 6000 series is a block of its own, released after the call.\<close>

definition iwl6000_hw_channel_switch ::
  "(channel_switch_cmd \<Rightarrow> int) \<Rightarrow> dvm_priv \<Rightarrow> ieee80211_channel_switch \<Rightarrow> channel_switch_cmd heap
    \<Rightarrow> (int \<times> channel_switch_cmd heap) run" where
  "iwl6000_hw_channel_switch iwl_dvm_send_cmd priv sw h =
     (case heap_alloc (switch_cmd (Some (replicate 78 0)) priv sw) h of
        (None, h) \<Rightarrow> Inr (- 12, h)
      | (Some a, h) \<Rightarrow> bindF (heap_get (Some a) h) (\<lambda>cmd.
          let err = iwl_dvm_send_cmd cmd in bindF (iwh_free (Some a) h) (\<lambda>h. Inr (err, h))))"

end
