(* ===== verification/Dvm_Time.thy ===== *)
theory Dvm_Time
  imports Dvm_Devices
begin

section \<open>Properties of the device-specific parts\<close>

text \<open>
  The beacon-time arithmetic of \<open>Dvm_Devices\<close> against time in microseconds, the temperature of the 5150, and the
  order of the limits in the sensitivity tables.
\<close>

subsection \<open>Beacon time\<close>

text \<open>A time in the extended format has a beacon count in the upper ten bits and microseconds in the lower 22.\<close>

definition beacons :: "u32 \<Rightarrow> nat" where "beacons w = unat w div 2 ^ 22"
definition usecs :: "u32 \<Rightarrow> nat" where "usecs w = unat w mod 2 ^ 22"

lemma low_mask: "iwl_beacon_time_mask_low 22 = mask 22" and high_mask: "iwl_beacon_time_mask_high 22 = NOT (mask 22)"
  by (simp_all add: iwl_beacon_time_mask_low_def iwl_beacon_time_mask_high_def mask_eq_exp_minus_1)

lemma of_nat_unat_id [simp]: "of_nat (unat w) = w" for w :: u32
  by (simp add: of_nat_unat)

lemma and_low: "w AND iwl_beacon_time_mask_low 22 = of_nat (usecs w)"
proof -
  have "of_nat (unat w mod 2 ^ 22) = take_bit 22 w" using of_nat_unat_id[of "take_bit 22 w"] by (simp only: unat_take_bit)
  then show ?thesis by (simp only: low_mask usecs_def take_bit_eq_mask)
qed

lemma and_high: "w AND iwl_beacon_time_mask_high 22 = of_nat (beacons w * 2 ^ 22)"
proof -
  have "of_nat (unat (w AND NOT (mask 22))) = w AND NOT (mask 22)" by (rule of_nat_unat_id)
  then show ?thesis by (simp only: high_mask beacons_def unat_and_not_mask)
qed

lemma packed:
  assumes "h < 1024" and "l < 2 ^ 22" and "w = of_nat (h * 2 ^ 22 + l)"
  shows "beacons w = h" and "usecs w = l"
proof -
  have "h * 2 ^ 22 + l < 2 ^ 32" using assms(1,2) by simp
  then have "unat w = h * 2 ^ 22 + l" unfolding assms(3) by (simp only: unat_of_nat) simp
  then show "beacons w = h" "usecs w = l" using assms(2) by (simp_all add: beacons_def usecs_def)
qed

lemma interval_unat: "unat bi \<le> 4096 \<Longrightarrow> unat (bi * 1024) = unat bi * 1024" for bi :: u32
  by (simp add: unat_mult_lem[THEN iffD1])

lemma usecs_to_beacons_exact:
  assumes bi: "0 < unat bi" "unat bi \<le> 4096" and q: "unat usec div (unat bi * 1024) < 1024"
  defines "a \<equiv> iwl_usecs_to_beacons usec bi"
  shows "beacons a = unat usec div (unat bi * 1024)" and "usecs a = unat usec mod (unat bi * 1024)"
proof -
  let ?I = "unat bi * 1024"
  have I: "unat (bi * 1024) = ?I" using bi(2) by (rule interval_unat)
  have r: "unat usec mod ?I < 2 ^ 22" using bi less_le_trans[OF mod_less_divisor[of ?I "unat usec"], of "2 ^ 22"] by simp
  have "a = of_nat (unat usec div ?I * 2 ^ 22 + unat usec mod ?I)"
  proof (cases "usec = 0")
    case False
    have "bi * 1024 \<noteq> 0" using I bi by (metis mult_eq_0_iff neq0_conv unat_0 zero_neq_numeral)
    moreover have "drop_bit 22 (iwl_beacon_time_mask_high 22) = mask 10" by code_simp
    moreover have "(usec div (bi * 1024)) AND mask 10 = of_nat (unat usec div ?I)"
    proof -
      have "unat (usec div (bi * 1024)) < 2 ^ 10" using q by (simp add: unat_div_distrib I)
      then have "take_bit 10 (usec div (bi * 1024)) = usec div (bi * 1024)"
        by (metis of_nat_unat_id mod_less unat_take_bit)
      then show ?thesis using of_nat_unat_id[of "usec div (bi * 1024)"]
        by (simp add: unat_div_distrib I take_bit_eq_mask)
    qed
    moreover have "(usec mod (bi * 1024)) AND iwl_beacon_time_mask_low 22 = of_nat (unat usec mod ?I)"
      using r by (simp add: and_low usecs_def unat_mod_distrib I)
    ultimately show ?thesis using False
      by (simp add: a_def iwl_usecs_to_beacons_def push_bit_eq_mult)
  qed (simp add: a_def iwl_usecs_to_beacons_def)
  then show "beacons a = unat usec div ?I" "usecs a = unat usec mod ?I" using packed[OF q r] by blast+
qed

lemma add_beacon_time_fields:
  assumes bi: "unat bi \<le> 4096" and l: "usecs addon < unat bi * 1024" and h: "beacons base + beacons addon + 1 < 1024"
  defines "r \<equiv> iwl_add_beacon_time base addon bi"
  shows "beacons r = beacons base + beacons addon + (if usecs addon < usecs base then 0 else 1)"
    and "usecs r = (if usecs addon < usecs base then usecs base - usecs addon
      else if usecs base < usecs addon then unat bi * 1024 + usecs base - usecs addon else 0)"
proof -
  let ?I = "unat bi * 1024" and ?H = "beacons base + beacons addon"
  have lt: "usecs w < 2 ^ 22" for w by (simp add: usecs_def)
  then have m: "usecs w mod 2 ^ 32 = usecs w" for w using less_trans[OF lt[of w], of "2 ^ 32"] by simp
  then have less: "of_nat (usecs v) < (of_nat (usecs w) :: u32) \<longleftrightarrow> usecs v < usecs w" for v w
    by (simp add: word_less_nat_alt unat_of_nat)
  have I: "bi * 1024 = of_nat ?I" using of_nat_unat_id[of "bi * 1024"] by (simp add: interval_unat[OF bi])
  note r = r_def[unfolded iwl_add_beacon_time_def and_low and_high Let_def less I]
  let ?h = "?H + (if usecs addon < usecs base then 0 else 1)"
  let ?l = "if usecs addon < usecs base then usecs base - usecs addon
     else if usecs base < usecs addon then ?I + usecs base - usecs addon else 0"
  have "r = of_nat (?h * 2 ^ 22 + ?l)" using l by (auto simp: r of_nat_diff algebra_simps)
  moreover have "?h < 1024" using h by simp
  moreover have "?l < 2 ^ 22" using bi l lt[of base] by auto
  ultimately show "beacons r = ?h" "usecs r = ?l" using packed[of ?h ?l r] by blast+
qed

text \<open>The time an extended value stands for when its lower part counts down to the next beacon.\<close>

definition countdown :: "u32 \<Rightarrow> u32 \<Rightarrow> int" where
  "countdown bi w = int (beacons w) * (int (unat bi) * 1024) - int (usecs w)"

text \<open>
  Adding a number of microseconds to a beacon time is exact: for a beacon interval of at most 4096 time units and as
  long as the beacon counts stay within their ten bits, the time the sum stands for is the time of the base plus
  the microseconds, and one whole interval more when the time left in the two intervals is the same.
\<close>

theorem beacon_time_sum:
  assumes "0 < unat bi" and "unat bi \<le> 4096"
    and "beacons base + unat usec div (unat bi * 1024) + 1 < 1024"
  shows "countdown bi (iwl_add_beacon_time base (iwl_usecs_to_beacons usec bi) bi) =
     countdown bi base + int (unat usec) + (if usecs base = unat usec mod (unat bi * 1024) then int (unat bi) * 1024 else 0)"
proof -
  let ?a = "iwl_usecs_to_beacons usec bi" and ?I = "unat bi * 1024"
  have q: "unat usec div ?I < 1024" using assms(3) by simp
  note a = usecs_to_beacons_exact[OF assms(1,2) q]
  have l: "usecs ?a < ?I" using assms(1) by (simp add: a)
  note r = add_beacon_time_fields[OF assms(2) l, of base]
  have u: "int (unat usec) = int (unat usec div ?I) * int ?I + int (unat usec mod ?I)"
    by (metis div_mult_mod_eq of_nat_add of_nat_mult)
  show ?thesis
    using assms(3) l unfolding countdown_def r[unfolded a, OF assms(3)] u
    by (auto simp: a of_nat_diff algebra_simps)
qed

theorem beacon_time_sum_witness:
  "0 < unat (100 :: u32) \<and> unat (100 :: u32) \<le> 4096 \<and> iwl_usecs_to_beacons 250000 100 = 0x80B090
   \<and> countdown 100 (iwl_add_beacon_time 0x400100 (iwl_usecs_to_beacons 250000 100) 100) = countdown 100 0x400100 + 250000"
proof -
  have "usecs 0x400100 = 256" "beacons 0x400100 = 1" by (simp_all add: usecs_def beacons_def)
  moreover have "iwl_usecs_to_beacons 250000 100 = 0x80B090" by code_simp
  ultimately show ?thesis using beacon_time_sum[of 100 "0x400100" 250000] by simp
qed

subsection \<open>Temperature\<close>

lemma sdiv_5: "0 \<le> a \<Longrightarrow> a sdiv 5 = a div 5" for a :: int
  by (simp add: signed_divide_int_def sgn_if)

text \<open>
  The temperature of the 5150 does not depend on what the device measured: for every reading below 4294967291 it is
  the offset of the calibration in Celsius, because the reading is divided as an unsigned number. The division
  by -5 the constant stands for gives a different temperature for every reading of 5 and more.
\<close>

theorem temperature_5150_constant:
  assumes "statistics_temperature priv < 4294967291"
  shows "temperature (iwl5150_temperature (\<lambda>p. p) priv) = iwl_temp_calib_to_offset priv - 273
    \<and> (5 \<le> statistics_temperature priv \<longrightarrow> temperature (iwl5150_temperature (\<lambda>p. p) priv)
         \<noteq> uint (statistics_temperature priv) sdiv (- 5) + iwl_temp_calib_to_offset priv - 273)"
proof -
  let ?vt = "statistics_temperature priv" and ?off = "iwl_temp_calib_to_offset priv"
  have off: "?off = uint (nvm_kelvin_temperature priv) + uint (nvm_kelvin_voltage priv) div 5"
    by (simp add: iwl_temp_calib_to_offset_def sdiv_5)
  have b: "uint (nvm_kelvin_temperature priv) < 2 ^ 16" "uint (nvm_kelvin_voltage priv) < 2 ^ 16"
    using uint_lt2p[of "nvm_kelvin_temperature priv"] uint_lt2p[of "nvm_kelvin_voltage priv"] by simp_all
  have nn: "0 \<le> uint (nvm_kelvin_temperature priv)" "0 \<le> uint (nvm_kelvin_voltage priv)" by simp_all
  have o: "0 \<le> ?off" "?off < 131072" using b[simplified] nn unfolding off by linarith+
  have "(- 5 :: u32) = 4294967291" by code_simp
  with assms have "?vt div (- 5) = 0" by (simp only: div_word_less)
  then have "temperature (iwl5150_temperature (\<lambda>p. p) priv) = sint (word_of_int (?off - 273) :: u32)"
    by (simp add: iwl5150_temperature_def Let_def)
  also have "\<dots> = ?off - 273" using o by (simp only: int_word_sint) simp
  finally have t: "temperature (iwl5150_temperature (\<lambda>p. p) priv) = ?off - 273" .
  moreover have "uint ?vt sdiv (- 5) < 0" if "5 \<le> ?vt"
    using that by (simp add: sdiv_5 word_le_def)
  ultimately show ?thesis by fastforce
qed

definition demo_priv :: dvm_priv where
  "demo_priv = \<lparr>hw_params = \<lparr>ct_kill_threshold = 0, ct_kill_exit_threshold = 0, sens = None\<rparr>,
     nvm_kelvin_temperature = 300, nvm_kelvin_voltage = 100, nvm_calib_version = 6, statistics_temperature = 60,
     temperature = 0, ucode_beacon_time = 0x400100, timing_beacon_interval = 100, staging_flags = 0, staging_filter_flags = 0,
     priv_band_2ghz = True, vif_beacon_int = 100\<rparr>"

theorem temperature_5150_constant_witness:
  "statistics_temperature demo_priv < 4294967291 \<and> temperature (iwl5150_temperature (\<lambda>p. p) demo_priv) = 47
   \<and> uint (statistics_temperature demo_priv) sdiv (- 5) + iwl_temp_calib_to_offset demo_priv - 273 = 35"
  using temperature_5150_constant[of demo_priv] by (simp add: demo_priv_def iwl_temp_calib_to_offset_def sdiv_5)

subsection \<open>Thresholds\<close>

lemma thresholds_5150:
  "ct_kill_threshold (hw_params (hw_set_hw_params Hw_5150 priv)) =
     word_of_int (5 * (uint (nvm_kelvin_temperature priv) + uint (nvm_kelvin_voltage priv) div 5 - 383))"
  by (simp add: set_sens_def on_params_def iwl5150_set_ct_threshold_def iwl_temp_calib_to_offset_def sdiv_5 algebra_simps)

text \<open>In every table the lower limit of a correlation is not above its upper limit.\<close>

definition ranges_ordered :: "iwl_sensitivity_ranges \<Rightarrow> bool" where
  "ranges_ordered r \<longleftrightarrow> auto_corr_min_ofdm r \<le> auto_corr_max_ofdm r \<and> auto_corr_min_ofdm_mrc r \<le> auto_corr_max_ofdm_mrc r
     \<and> auto_corr_min_ofdm_x1 r \<le> auto_corr_max_ofdm_x1 r \<and> auto_corr_min_ofdm_mrc_x1 r \<le> auto_corr_max_ofdm_mrc_x1 r
     \<and> auto_corr_min_cck r \<le> auto_corr_max_cck r \<and> auto_corr_min_cck_mrc r \<le> auto_corr_max_cck_mrc r
     \<and> barker_corr_th_min r \<le> barker_corr_th_min_mrc r"

lemma sensitivity_set: "\<exists>r. sens (hw_params (hw_set_hw_params f priv)) = Some r \<and> ranges_ordered r"
  by (cases f) (simp_all add: set_sens_def on_params_def ranges_ordered_def iwl1000_sensitivity_def iwl2000_sensitivity_def
    iwl5000_sensitivity_def iwl5150_sensitivity_def iwl6000_sensitivity_def)

subsection \<open>Channel switch\<close>

text \<open>Both variants send the same command but for the reserved words, and the second one gives its block back.\<close>

lemma channel_switch_6000:
  assumes "heap_ok h" and "iwl6000_hw_channel_switch send priv sw h = Inr (r, h')"
  shows "blocks h' = blocks h \<and> (r = - 12 \<or> r = send (switch_cmd (Some (replicate 78 0)) priv sw))"
proof -
  have "blocks h (fresh h) = None" using assms(1) by (auto simp: heap_ok_def)
  with assms(2) show ?thesis
    by (auto simp: iwl6000_hw_channel_switch_def heap_alloc_def heap_get_def iwh_free_def Let_def fun_eq_iff
      split: prod.splits if_splits)
qed

end
