(* ===== verification/Tx_Queue.thy ===== *)
theory Tx_Queue
  imports Iwl_Io
begin

section \<open>Transmit queues\<close>

text \<open>
  The ring arithmetic, the transmit frame descriptors and the two ends of the command queue in
  \<^verbatim>\<open>IntelWifi_tx.cpp\<close> and \<^verbatim>\<open>iwlwifi/pcie/internal.h\<close>. The descriptors are in the format of the devices without
  the newer host interface (\<open>use_tfh\<close> is false), the only one \<open>iwl_pcie_tfd_set_tb\<close> writes. Loops that run around
  the ring until an index is met are partial functions: \<open>None\<close> is a loop that never ends.
\<close>

subsection \<open>Data\<close>

definition TFD_QUEUE_SIZE_MAX :: int where "TFD_QUEUE_SIZE_MAX = 256"
definition IWL_NUM_OF_TBS :: nat where "IWL_NUM_OF_TBS = 20"

record iwl_tfd_tb =
  tb_lo :: u32
  tb_hi_n_len :: u16

record iwl_tfd =
  num_tbs :: u8
  tbs :: "iwl_tfd_tb list"

definition zero_tfd :: iwl_tfd where
  "zero_tfd = \<lparr>num_tbs = 0, tbs = replicate IWL_NUM_OF_TBS \<lparr>tb_lo = 0, tb_hi_n_len = 0\<rparr>\<rparr>"

text \<open>An entry: the bytes of its device command, its bookkeeping, and whether it holds a frame.\<close>

record txq_entry =
  ent_cmd :: "u8 list"
  ent_flags :: u32
  ent_source :: bool
  ent_dma :: "u64 option list"
  ent_free_buf :: bool
  ent_skb :: bool

record iwl_txq =
  write_ptr :: int
  read_ptr :: int
  n_window :: int
  low_mark :: int
  high_mark :: int
  need_update :: bool
  txq_block :: int
  txq_id :: u32
  tfds :: "iwl_tfd list"
  txq_entries :: "txq_entry list"
  first_tb_dma :: u64

text \<open>
  The fields of the configuration and of the transport the queues read, and the ones they write. \<open>dma_mem\<close> is the
  memory shared with the device: the content of each live buffer at its bus address. \<open>pcie_answers\<close> are the answers
  of the allocator.
\<close>

record pcie_cfg =
  shadow_reg_enable :: bool
  apmg_wake_up_wa :: bool
  cmd_queue :: u32
  tpower_pmi :: bool

record 'd pcie =
  pcie_trans :: "'d trans"
  ref_cmd_in_flight :: bool
  trans_refs :: int
  dma_mem :: "u64 \<Rightarrow> u8 list option"
  pcie_answers :: answers

subsection \<open>Ring arithmetic\<close>

definition iwl_queue_inc_wrap :: "int \<Rightarrow> int" where
  "iwl_queue_inc_wrap index = (index + 1) AND (TFD_QUEUE_SIZE_MAX - 1)"

definition iwl_queue_dec_wrap :: "int \<Rightarrow> int" where
  "iwl_queue_dec_wrap index = (index - 1) AND (TFD_QUEUE_SIZE_MAX - 1)"

definition iwl_queue_space :: "iwl_txq \<Rightarrow> int" where
  "iwl_queue_space q =
     (let mx = (if n_window q < TFD_QUEUE_SIZE_MAX then word_of_int (n_window q) else word_of_int (TFD_QUEUE_SIZE_MAX - 1)) :: u32;
          used = (word_of_int (write_ptr q - read_ptr q) :: u32) AND word_of_int (TFD_QUEUE_SIZE_MAX - 1)
      in if used > mx then 0 else sint (mx - used))"

definition iwl_queue_used :: "iwl_txq \<Rightarrow> int \<Rightarrow> bool" where
  "iwl_queue_used q i =
     (if write_ptr q \<ge> read_ptr q then i \<ge> read_ptr q \<and> i < write_ptr q
      else \<not> (i < read_ptr q \<and> i \<ge> write_ptr q))"

text \<open>The index of the entry of a position, a \<open>u8\<close>.\<close>

definition iwl_pcie_get_cmd_index :: "iwl_txq \<Rightarrow> int \<Rightarrow> nat" where
  "iwl_pcie_get_cmd_index q index = unat (word_of_int (index AND (n_window q - 1)) :: u8)"

definition is_power_of_2 :: "int \<Rightarrow> bool" where
  "is_power_of_2 n \<longleftrightarrow> n \<noteq> 0 \<and> n AND (n - 1) = 0"

definition iwl_queue_init :: "int \<Rightarrow> iwl_txq \<Rightarrow> iwl_txq outcome" where
  "iwl_queue_init slots_num q =
     (let q = q\<lparr>n_window := slots_num\<rparr> in
      if \<not> is_power_of_2 slots_num then fail EINVAL q
      else ok (q\<lparr>low_mark := max 4 (slots_num div 4), high_mark := max 2 (slots_num div 8),
                 write_ptr := 0, read_ptr := 0\<rparr>))"

definition iwl_pcie_txq_init :: "int \<Rightarrow> iwl_txq \<Rightarrow> iwl_txq outcome" where
  "iwl_pcie_txq_init slots_num q = iwl_queue_init slots_num (q\<lparr>need_update := False\<rparr>)"

subsection \<open>Frame descriptors\<close>

definition iwl_pcie_tfd_set_tb :: "iwl_tfd \<Rightarrow> nat \<Rightarrow> u64 \<Rightarrow> u16 \<Rightarrow> iwl_tfd run" where
  "iwl_pcie_tfd_set_tb tfd idx addr len =
     (let hi_n_len = push_bit 4 len OR ucast (drop_bit 32 addr AND 0xF) in
      if idx < length (tbs tfd)
      then Inr (tfd\<lparr>tbs := (tbs tfd)[idx := \<lparr>tb_lo = ucast addr, tb_hi_n_len = hi_n_len\<rparr>], num_tbs := of_nat (idx + 1)\<rparr>)
      else Inl OutOfBounds)"

definition iwl_pcie_tfd_tb_get_addr :: "iwl_tfd \<Rightarrow> nat \<Rightarrow> u64 run" where
  "iwl_pcie_tfd_tb_get_addr tfd idx =
     (if idx < length (tbs tfd)
      then let tb = tbs tfd ! idx in Inr (ucast (tb_lo tb) OR push_bit 32 (ucast (tb_hi_n_len tb AND 0xF)))
      else Inl OutOfBounds)"

definition iwl_pcie_tfd_tb_get_len :: "iwl_tfd \<Rightarrow> nat \<Rightarrow> u16 run" where
  "iwl_pcie_tfd_tb_get_len tfd idx =
     (if idx < length (tbs tfd) then Inr (drop_bit 4 (tb_hi_n_len (tbs tfd ! idx))) else Inl OutOfBounds)"

definition iwl_pcie_tfd_get_num_tbs :: "iwl_tfd \<Rightarrow> nat" where
  "iwl_pcie_tfd_get_num_tbs tfd = unat (num_tbs tfd AND 0x1f)"

text \<open>The descriptor at an index of the ring; the byte offset of the pointer is a multiple of the descriptor size.\<close>

definition tfd_at :: "iwl_txq \<Rightarrow> int \<Rightarrow> iwl_tfd run" where
  "tfd_at q i = (if 0 \<le> i \<and> nat i < length (tfds q) then Inr (tfds q ! nat i) else Inl OutOfBounds)"

definition put_tfd :: "int \<Rightarrow> iwl_tfd \<Rightarrow> iwl_txq \<Rightarrow> iwl_txq" where
  "put_tfd i t q = q\<lparr>tfds := (tfds q)[nat i := t]\<rparr>"

definition iwl_pcie_txq_build_tfd :: "u64 \<Rightarrow> u16 \<Rightarrow> bool \<Rightarrow> iwl_txq \<Rightarrow> ((errno + nat) \<times> iwl_txq) run" where
  "iwl_pcie_txq_build_tfd addr len reset q =
     bindF (tfd_at q (write_ptr q)) (\<lambda>tfd.
       let tfd = (if reset then zero_tfd else tfd); q = put_tfd (write_ptr q) tfd q; n = iwl_pcie_tfd_get_num_tbs tfd in
       if n \<ge> IWL_NUM_OF_TBS then Inr (Inl EINVAL, q)
       else if addr AND NOT (mask 36) \<noteq> 0 then Inr (Inl EINVAL, q)
       else bindF (iwl_pcie_tfd_set_tb tfd n addr len) (\<lambda>tfd. Inr (Inr n, put_tfd (write_ptr q) tfd q)))"

text \<open>\<open>iwl_pcie_get_tfd\<close> finds the descriptor by the index of the entry.\<close>

definition iwl_pcie_get_tfd :: "iwl_txq \<Rightarrow> int \<Rightarrow> int" where
  "iwl_pcie_get_tfd q idx = int (iwl_pcie_get_cmd_index q idx)"

definition upd_entry :: "nat \<Rightarrow> (txq_entry \<Rightarrow> txq_entry) \<Rightarrow> iwl_txq \<Rightarrow> iwl_txq run" where
  "upd_entry i f q = (if i < length (txq_entries q) then Inr (q\<lparr>txq_entries := (txq_entries q)[i := f (txq_entries q ! i)]\<rparr>)
     else Inl OutOfBounds)"

definition entry_at :: "nat \<Rightarrow> iwl_txq \<Rightarrow> txq_entry run" where
  "entry_at i q = (if i < length (txq_entries q) then Inr (txq_entries q ! i) else Inl OutOfBounds)"

text \<open>
  \<open>dma-utils.cpp\<close>: where IOKit maps a buffer of a size, if it does, is a function of the live buffers; the
  structure that describes the buffer comes from the driver's allocator, whose answer is not looked at.
\<close>

type_synonym dma_env = "(u64 \<Rightarrow> u8 list option) \<Rightarrow> nat \<Rightarrow> u64 option"

definition allocate_dma_buf :: "dma_env \<Rightarrow> nat \<Rightarrow> 'd pcie \<Rightarrow> (u64 option \<times> 'd pcie) run" where
  "allocate_dma_buf env n s = (case env (dma_mem s) n of
     None \<Rightarrow> Inr (None, s)
   | Some a \<Rightarrow> let (okay, m) = iwh_malloc (pcie_answers s) in
       if okay then Inr (Some a, s\<lparr>dma_mem := (dma_mem s)(a \<mapsto> replicate n 0), pcie_answers := m\<rparr>)
       else Inl NullDeref)"

definition free_dma_buf :: "u64 \<Rightarrow> 'd pcie \<Rightarrow> 'd pcie run" where
  "free_dma_buf a s = (if dma_mem s a = None then Inl DoubleFree else Inr (s\<lparr>dma_mem := (dma_mem s)(a := None)\<rparr>))"

fun free_dmas :: "u64 option list \<Rightarrow> 'd pcie \<Rightarrow> 'd pcie run" where
  "free_dmas [] s = Inr s"
| "free_dmas (d # ds) s = bindF (case d of None \<Rightarrow> Inr s | Some a \<Rightarrow> free_dma_buf a s) (free_dmas ds)"

definition iwl_pcie_tfd_unmap :: "nat \<Rightarrow> int \<Rightarrow> iwl_txq \<times> 'd pcie \<Rightarrow> (iwl_txq \<times> 'd pcie) run" where
  "iwl_pcie_tfd_unmap ent index = (\<lambda>(q, s).
     let i = iwl_pcie_get_tfd q index in
     bindF (tfd_at q i) (\<lambda>tfd.
       if iwl_pcie_tfd_get_num_tbs tfd \<ge> IWL_NUM_OF_TBS then Inr (q, s)
       else bindF (entry_at ent q) (\<lambda>e.
         bindF (free_dmas (ent_dma e) s) (\<lambda>s.
         bindF (upd_entry ent (\<lambda>e. e\<lparr>ent_dma := replicate (length (ent_dma e)) None\<rparr>) q) (\<lambda>q.
           Inr (put_tfd i (tfd\<lparr>num_tbs := 0\<rparr>) q, s))))))"

definition iwl_pcie_txq_free_tfd :: "iwl_txq \<times> 'd pcie \<Rightarrow> (iwl_txq \<times> 'd pcie) run" where
  "iwl_pcie_txq_free_tfd = (\<lambda>(q, s).
     let rd_ptr = read_ptr q; idx = iwl_pcie_get_cmd_index q rd_ptr in
     bindF (iwl_pcie_tfd_unmap idx rd_ptr (q, s)) (\<lambda>(q, s).
     bindF (upd_entry idx (\<lambda>e. e\<lparr>ent_skb := False\<rparr>) q) (\<lambda>q. Inr (q, s))))"

subsection \<open>Keeping the device awake for commands\<close>

text \<open>A step on the device inside a step on the transport.\<close>

definition on_dev :: "('d, 'a) io \<Rightarrow> 'd pcie \<Rightarrow> ('a \<times> 'd pcie) run" where
  "on_dev m s = bindF (m (pcie_trans s)) (\<lambda>(x, d). Inr (x, s\<lparr>pcie_trans := d\<rparr>))"

definition set_hold :: "bool \<Rightarrow> 'd pcie \<Rightarrow> 'd pcie" where
  "set_hold b s = s\<lparr>pcie_trans := (pcie_trans s)\<lparr>cmd_hold_nic_awake := b\<rparr>\<rparr>"

definition iwl_pcie_set_cmd_in_flight :: "'d hw \<Rightarrow> pcie_cfg \<Rightarrow> u32 \<Rightarrow> 'd pcie \<Rightarrow> 'd pcie outcome" where
  "iwl_pcie_set_cmd_in_flight hw c flags s =
     (let s = (if flags AND 0x10 = 0 \<and> \<not> ref_cmd_in_flight s
               then s\<lparr>ref_cmd_in_flight := True, trans_refs := trans_refs s + 1\<rparr> else s) in
      if apmg_wake_up_wa c \<and> \<not> cmd_hold_nic_awake (pcie_trans s) then
        bindF (on_dev (pcie_set_bit hw CSR_GP_CNTRL CSR_GP_CNTRL_REG_FLAG_MAC_ACCESS_REQ) s) (\<lambda>(_, s).
        bindF (on_dev (iwl_poll_bit hw CSR_GP_CNTRL CSR_GP_CNTRL_REG_VAL_MAC_ACCESS_EN
            (CSR_GP_CNTRL_REG_FLAG_MAC_CLOCK_READY OR CSR_GP_CNTRL_REG_FLAG_GOING_TO_SLEEP) 15000) s) (\<lambda>(ret, s).
        case ret of
          Inl _ \<Rightarrow> bindF (on_dev (pcie_clear_bit hw CSR_GP_CNTRL CSR_GP_CNTRL_REG_FLAG_MAC_ACCESS_REQ) s) (\<lambda>(_, s). fail EIO s)
        | Inr _ \<Rightarrow> ok (set_hold True s)))
      else ok s)"

definition iwl_pcie_clear_cmd_in_flight :: "'d hw \<Rightarrow> pcie_cfg \<Rightarrow> 'd pcie \<Rightarrow> 'd pcie run" where
  "iwl_pcie_clear_cmd_in_flight hw c s =
     (let s = (if ref_cmd_in_flight s then s\<lparr>ref_cmd_in_flight := False, trans_refs := trans_refs s - 1\<rparr> else s) in
      if \<not> apmg_wake_up_wa c then Inr s
      else if \<not> cmd_hold_nic_awake (pcie_trans s) then Inr s
      else bindF (on_dev (pcie_clear_bit hw CSR_GP_CNTRL CSR_GP_CNTRL_REG_FLAG_MAC_ACCESS_REQ) (set_hold False s))
        (\<lambda>(_, s). Inr s))"

abbreviation CSR_UCODE_DRV_GP1 :: u32 where "CSR_UCODE_DRV_GP1 \<equiv> 0x54"
abbreviation HBUS_TARG_WRPTR :: u32 where "HBUS_TARG_WRPTR \<equiv> 0x460"

definition iwl_pcie_txq_inc_wr_ptr :: "'d hw \<Rightarrow> pcie_cfg \<Rightarrow> iwl_txq \<times> 'd pcie \<Rightarrow> (iwl_txq \<times> 'd pcie) run" where
  "iwl_pcie_txq_inc_wr_ptr hw c = (\<lambda>(q, s).
     bindF (if \<not> shadow_reg_enable c \<and> txq_id q \<noteq> cmd_queue c \<and> tpower_pmi c
            then bindF (on_dev (iwl_read32 hw CSR_UCODE_DRV_GP1) s) (\<lambda>(reg, s).
              if reg AND 1 \<noteq> 0
              then bindF (on_dev (iwl_set_bit hw CSR_GP_CNTRL CSR_GP_CNTRL_REG_FLAG_MAC_ACCESS_REQ) s) (\<lambda>(_, s). Inr (True, s))
              else Inr (False, s))
            else Inr (False, s)) (\<lambda>(asleep, s).
     if asleep then Inr (q\<lparr>need_update := True\<rparr>, s)
     else if txq_block q = 0
     then bindF (on_dev (iwl_write32 hw HBUS_TARG_WRPTR (word_of_int (write_ptr q) OR push_bit 8 (txq_id q))) s) (\<lambda>(_, s). Inr (q, s))
     else Inr (q, s)))"

subsection \<open>Taking commands off the queue\<close>

text \<open>The loop of \<open>iwl_pcie_cmdq_reclaim\<close>: every entry after the first is a skipped command and resets the firmware.\<close>

partial_function (option) reclaim_loop ::
  "'d hw \<Rightarrow> int \<Rightarrow> nat \<Rightarrow> iwl_txq \<times> 'd pcie \<Rightarrow> (iwl_txq \<times> 'd pcie) run option" where
  "reclaim_loop hw idx nfreed qs = (case qs of (q, s) \<Rightarrow>
     if read_ptr q = idx then Some (Inr (q, s))
     else case (if nfreed > 0 then on_dev (iwl_force_nmi hw) s else Inr ((), s)) of
       Inl f \<Rightarrow> Some (Inl f)
     | Inr (_, s) \<Rightarrow> reclaim_loop hw idx (nfreed + 1) (q\<lparr>read_ptr := iwl_queue_inc_wrap (read_ptr q)\<rparr>, s))"

definition with_reg_lock :: "('d pcie \<Rightarrow> 'd pcie run) \<Rightarrow> 'd pcie \<Rightarrow> 'd pcie run" where
  "with_reg_lock f s = bindF (on_dev IOSimpleLockLockDisableInterrupt s) (\<lambda>(_, s). bindF (f s) (\<lambda>s.
     bindF (on_dev IOSimpleLockUnlockEnableInterrupt s) (\<lambda>(_, s). Inr s)))"

definition iwl_pcie_cmdq_reclaim ::
  "'d hw \<Rightarrow> pcie_cfg \<Rightarrow> int \<Rightarrow> iwl_txq \<times> 'd pcie \<Rightarrow> (iwl_txq \<times> 'd pcie) run option" where
  "iwl_pcie_cmdq_reclaim hw c idx = (\<lambda>(q, s).
     if idx \<ge> TFD_QUEUE_SIZE_MAX \<or> \<not> iwl_queue_used q idx then Some (Inr (q, s))
     else case reclaim_loop hw (iwl_queue_inc_wrap idx) 0 (q, s) of
       None \<Rightarrow> None
     | Some (Inl f) \<Rightarrow> Some (Inl f)
     | Some (Inr (q, s)) \<Rightarrow>
         Some (if read_ptr q = write_ptr q
               then bindF (with_reg_lock (iwl_pcie_clear_cmd_in_flight hw c) s) (\<lambda>s. Inr (q, s))
               else Inr (q, s)))"

text \<open>
  \<open>iwl_pcie_txq_unmap\<close>: in a queue of frames an entry without a frame is skipped by \<open>continue\<close>, which leaves the read
  index where it is.
\<close>

partial_function (option) iwl_pcie_txq_unmap ::
  "'d hw \<Rightarrow> pcie_cfg \<Rightarrow> iwl_txq \<times> 'd pcie \<Rightarrow> (iwl_txq \<times> 'd pcie) run option" where
  "iwl_pcie_txq_unmap hw c qs = (case qs of (q, s) \<Rightarrow>
     if write_ptr q = read_ptr q then Some (Inr (q, s))
     else if txq_id q \<noteq> cmd_queue c \<and> \<not> nat (read_ptr q) < length (txq_entries q) then Some (Inl OutOfBounds)
     else if txq_id q \<noteq> cmd_queue c \<and> \<not> ent_skb (txq_entries q ! nat (read_ptr q)) then iwl_pcie_txq_unmap hw c (q, s)
     else case iwl_pcie_txq_free_tfd (q, s) of
       Inl f \<Rightarrow> Some (Inl f)
     | Inr (q, s) \<Rightarrow>
         let q = q\<lparr>read_ptr := iwl_queue_inc_wrap (read_ptr q)\<rparr> in
         (case (if read_ptr q = write_ptr q
                then (if txq_id q \<noteq> cmd_queue c then Inr (s\<lparr>trans_refs := trans_refs s - 1\<rparr>)
                      else iwl_pcie_clear_cmd_in_flight hw c s)
                else Inr s) of
            Inl f \<Rightarrow> Some (Inl f) | Inr s \<Rightarrow> iwl_pcie_txq_unmap hw c (q, s)))"

declare reclaim_loop.simps [code] iwl_pcie_txq_unmap.simps [code]

end
