(* ===== verification/Tx_Command.thy ===== *)
theory Tx_Command
  imports Tx_Queue Iwl_Trans
begin

section \<open>Enqueueing a host command\<close>

text \<open>
  \<open>iwl_pcie_enqueue_hcmd\<close> of \<^verbatim>\<open>IntelWifi_tx.cpp\<close>. A command has up to two chunks of data, each with its length as a
  \<open>u16\<close> and its flags. The sizes are computed in \<open>u16\<close> as the code computes them. The buffers that the device
  reads are in \<open>dma_mem\<close>; the first fragment of the command at an index is the buffer at
  \<open>iwl_pcie_get_first_tb_dma\<close>.
\<close>

definition IWL_FIRST_TB_SIZE :: nat where "IWL_FIRST_TB_SIZE = 20"
definition TFD_MAX_PAYLOAD_SIZE :: nat where "TFD_MAX_PAYLOAD_SIZE = 324"

abbreviation IWL_HCMD_DFL_NOCOPY :: u8 where "IWL_HCMD_DFL_NOCOPY \<equiv> 1"
abbreviation IWL_HCMD_DFL_DUP :: u8 where "IWL_HCMD_DFL_DUP \<equiv> 2"
abbreviation IWL_ALWAYS_LONG_GROUP :: u8 where "IWL_ALWAYS_LONG_GROUP \<equiv> 1"

type_synonym chunk = "u8 list \<times> u16 \<times> u8"

subsection \<open>Sizing the command\<close>

text \<open>What the first loop computes: the bytes copied, the bytes in all, and for each chunk what is left to map.\<close>

record prep =
  p_copy :: u16
  p_cmd :: u16
  p_nocopy :: bool
  p_dup :: "u8 list option"
  p_rest :: "(u8 list \<times> u16 \<times> u8) list"

text \<open>How much of a chunk goes into the first fragment, which wants twenty bytes.\<close>

definition copy_part :: "u16 \<Rightarrow> u16 \<Rightarrow> nat" where
  "copy_part copy_size len =
     (if unat copy_size < IWL_FIRST_TB_SIZE then min (IWL_FIRST_TB_SIZE - unat copy_size) (unat len) else 0)"

definition prep_chunk :: "chunk \<Rightarrow> prep \<times> answers \<Rightarrow> (prep \<times> answers) outcome" where
  "prep_chunk = (\<lambda>(data, len, fl) (p, m).
     if len = 0 then ok (p\<lparr>p_rest := p_rest p @ [(data, len, fl)]\<rparr>, m)
     else
       let copy = copy_part (p_copy p) len;
           cmdlen = len - of_nat copy; cmddata = drop copy data;
           p = p\<lparr>p_copy := p_copy p + of_nat copy, p_rest := p_rest p @ [(cmddata, cmdlen, fl)]\<rparr>
       in if fl AND IWL_HCMD_DFL_NOCOPY \<noteq> 0 then
            (if fl AND IWL_HCMD_DFL_DUP \<noteq> 0 then fail EINVAL (p\<lparr>p_nocopy := True\<rparr>, m)
             else ok (p\<lparr>p_nocopy := True, p_cmd := p_cmd p + len\<rparr>, m))
          else if fl AND IWL_HCMD_DFL_DUP \<noteq> 0 then
            (if p_dup p \<noteq> None then fail EINVAL (p\<lparr>p_nocopy := True\<rparr>, m)
             else let (okay, m) = iwh_malloc m in
               if \<not> okay then fail ENOMEM (p\<lparr>p_nocopy := True\<rparr>, m)
               else bindF (rd_bytes cmddata 0 (unat cmdlen)) (\<lambda>bs.
                 ok (p\<lparr>p_nocopy := True, p_dup := Some bs, p_cmd := p_cmd p + len\<rparr>, m)))
          else if p_nocopy p then fail EINVAL (p, m)
          else ok (p\<lparr>p_copy := p_copy p + cmdlen, p_cmd := p_cmd p + len\<rparr>, m))"

fun prep_loop :: "chunk list \<Rightarrow> prep \<times> answers \<Rightarrow> (prep \<times> answers) outcome" where
  "prep_loop [] r = ok r"
| "prep_loop (ch # rest) r = thenS (prep_chunk ch r) (prep_loop rest)"

subsection \<open>Filling the entry\<close>

definition wr_bytes :: "u8 list \<Rightarrow> nat \<Rightarrow> u8 list \<Rightarrow> u8 list run" where
  "wr_bytes buf p bs = (if p + length bs \<le> length buf then Inr (take p buf @ bs @ drop (p + length bs) buf) else Inl OutOfBounds)"

definition header_size :: "u32 \<Rightarrow> nat" where
  "header_size cid = (if iwl_cmd_groupid cid \<noteq> 0 then 8 else 4)"

definition cmd_sequence :: "u32 \<Rightarrow> int \<Rightarrow> u16" where
  "cmd_sequence cmdq wp = ucast (push_bit 8 (cmdq AND 0x1f) OR (word_of_int wp AND 0xff))"

definition cmd_header :: "u32 \<Rightarrow> u32 \<Rightarrow> int \<Rightarrow> u16 \<Rightarrow> u8 list" where
  "cmd_header cid cmdq wp cmd_size =
     (if iwl_cmd_groupid cid \<noteq> 0
      then [iwl_cmd_opcode cid, iwl_cmd_groupid cid] @ enc16 (cmd_sequence cmdq wp) @ enc16 (cmd_size - 8) @ [0, iwl_cmd_version cid]
      else [iwl_cmd_opcode cid, 0] @ enc16 (cmd_sequence cmdq wp))"

text \<open>The second loop: the bytes of the command, how far they are filled, and the bytes that count as copied.\<close>

fun copy_loop :: "chunk list \<Rightarrow> u8 list \<times> nat \<times> u16 \<Rightarrow> (u8 list \<times> nat \<times> u16) run" where
  "copy_loop [] r = Inr r"
| "copy_loop ((data, len, fl) # rest) (buf, pos, copied) =
     (if len = 0 then copy_loop rest (buf, pos, copied)
      else if fl AND (IWL_HCMD_DFL_NOCOPY OR IWL_HCMD_DFL_DUP) = 0 then
        bindF (rd_bytes data 0 (unat len)) (\<lambda>bs.
        bindF (wr_bytes buf pos bs) (\<lambda>buf. copy_loop rest (buf, pos + unat len, copied + len)))
      else
        let copy = min (int TFD_MAX_PAYLOAD_SIZE - int pos) (int (unat len)) in
        if copy < 0 then Inl OutOfBounds
        else bindF (rd_bytes data 0 (nat copy)) (\<lambda>bs.
          bindF (wr_bytes buf pos bs) (\<lambda>buf.
            copy_loop rest (buf, pos + nat copy, copied + of_nat (copy_part copied len)))))"

subsection \<open>Mapping the fragments\<close>

definition iwl_pcie_get_first_tb_dma :: "iwl_txq \<Rightarrow> nat \<Rightarrow> u64" where
  "iwl_pcie_get_first_tb_dma q idx = first_tb_dma q + 64 * of_nat idx"

definition dma_write :: "u64 \<Rightarrow> u8 list \<Rightarrow> 'd pcie \<Rightarrow> 'd pcie run" where
  "dma_write a bs s = (case dma_mem s a of
     None \<Rightarrow> Inl OutOfBounds
   | Some buf \<Rightarrow> bindF (wr_bytes buf 0 bs) (\<lambda>buf. Inr (s\<lparr>dma_mem := (dma_mem s)(a \<mapsto> buf)\<rparr>)))"

text \<open>One fragment in a buffer of its own, kept in the entry; the result of \<open>iwl_pcie_txq_build_tfd\<close> is not looked at.\<close>

definition map_fragment ::
  "dma_env \<Rightarrow> nat \<Rightarrow> nat \<Rightarrow> u8 list \<Rightarrow> iwl_txq \<times> 'd pcie \<Rightarrow> (iwl_txq \<times> 'd pcie) outcome" where
  "map_fragment env idx i bs = (\<lambda>(q, s).
     bindF (allocate_dma_buf env (length bs) s) (\<lambda>(dma, s). case dma of
       None \<Rightarrow> bindF (iwl_pcie_tfd_unmap idx (write_ptr q) (q, s)) (fail ENOMEM)
     | Some a \<Rightarrow>
         bindF (upd_entry idx (\<lambda>e. e\<lparr>ent_dma := (ent_dma e)[i := Some a]\<rparr>) q) (\<lambda>q.
         bindF (dma_write a bs s) (\<lambda>s.
         bindF (iwl_pcie_txq_build_tfd a (of_nat (length bs)) False q) (\<lambda>(_, q). ok (q, s))))))"

fun map_rest ::
  "dma_env \<Rightarrow> nat \<Rightarrow> u8 list option \<Rightarrow> nat \<Rightarrow> (u8 list \<times> u16 \<times> u8) list \<Rightarrow> iwl_txq \<times> 'd pcie \<Rightarrow> (iwl_txq \<times> 'd pcie) outcome" where
  "map_rest env idx dup i [] qs = ok qs"
| "map_rest env idx dup i ((data, len, fl) # rest) qs =
     (if len = 0 \<or> fl AND (IWL_HCMD_DFL_NOCOPY OR IWL_HCMD_DFL_DUP) = 0 then map_rest env idx dup (i + 1) rest qs
      else bindF (if fl AND IWL_HCMD_DFL_DUP \<noteq> 0 then (case dup of None \<Rightarrow> Inl NullDeref | Some bs \<Rightarrow> Inr bs) else Inr data) (\<lambda>data.
        bindF (rd_bytes data 0 (unat len)) (\<lambda>bs.
          thenS (map_fragment env idx (i + 1) bs qs) (map_rest env idx dup (i + 1) rest))))"

subsection \<open>The function\<close>

text \<open>Its three parts: the entry and the first fragment, the other fragments, and handing the command to the device.\<close>

definition enqueue_entry ::
  "pcie_cfg \<Rightarrow> chunk list iwl_host_cmd \<Rightarrow> prep \<Rightarrow> nat \<Rightarrow> iwl_txq \<times> 'd pcie \<Rightarrow> (u8 list \<times> u16 \<times> iwl_txq \<times> 'd pcie) run" where
  "enqueue_entry c hc p idx = (\<lambda>(q, s).
     bindF (entry_at idx q) (\<lambda>ent.
     bindF (wr_bytes (ent_cmd ent) 0 (cmd_header (host_id hc) (cmd_queue c) (write_ptr q) (p_cmd p))) (\<lambda>buf.
     bindF (copy_loop (host_data hc) (buf, header_size (host_id hc), of_nat (header_size (host_id hc)))) (\<lambda>(buf, _, copied).
     bindF (upd_entry idx (\<lambda>e. e\<lparr>ent_cmd := buf, ent_flags := 0, ent_source := host_flags hc AND CMD_WANT_SKB \<noteq> 0,
         ent_dma := replicate (length (ent_dma e)) None\<rparr>) q) (\<lambda>q.
     bindF (rd_bytes buf 0 (min (unat copied) IWL_FIRST_TB_SIZE)) (\<lambda>first.
     bindF (dma_write (iwl_pcie_get_first_tb_dma q idx) first s) (\<lambda>s.
     bindF (iwl_pcie_txq_build_tfd (iwl_pcie_get_first_tb_dma q idx) (of_nat (length first)) True q) (\<lambda>(_, q).
       Inr (buf, copied, q, s)))))))))"

definition enqueue_fragments ::
  "dma_env \<Rightarrow> prep \<Rightarrow> nat \<Rightarrow> u8 list \<Rightarrow> u16 \<Rightarrow> iwl_txq \<times> 'd pcie \<Rightarrow> (iwl_txq \<times> 'd pcie) outcome" where
  "enqueue_fragments env p idx buf copied qs =
     (let tb0_size = min (unat copied) IWL_FIRST_TB_SIZE in
      thenS (if unat copied > tb0_size
             then bindF (rd_bytes buf tb0_size (unat copied - tb0_size)) (\<lambda>bs. map_fragment env idx 0 bs qs)
             else ok qs)
        (map_rest env idx (p_dup p) 0 (p_rest p)))"

definition enqueue_handover ::
  "'d hw \<Rightarrow> pcie_cfg \<Rightarrow> u32 \<Rightarrow> bool \<Rightarrow> nat \<Rightarrow> iwl_txq \<times> 'd pcie \<Rightarrow> ((errno + nat) \<times> iwl_txq \<times> 'd pcie) run" where
  "enqueue_handover hw c flags dup idx = (\<lambda>(q, s).
     bindF (upd_entry idx (\<lambda>e. e\<lparr>ent_flags := flags, ent_free_buf := dup\<rparr>) q) (\<lambda>q.
     bindF (on_dev IOSimpleLockLockDisableInterrupt s) (\<lambda>(_, s).
     bindF (iwl_pcie_set_cmd_in_flight hw c flags s) (\<lambda>(ret, s). case ret of
       Some e \<Rightarrow> bindF (on_dev IOSimpleLockUnlockEnableInterrupt s) (\<lambda>(_, s). Inr (Inl e, q, s))
     | None \<Rightarrow>
         bindF (iwl_pcie_txq_inc_wr_ptr hw c (q\<lparr>write_ptr := iwl_queue_inc_wrap (write_ptr q)\<rparr>, s)) (\<lambda>(q, s).
         bindF (on_dev IOSimpleLockUnlockEnableInterrupt s) (\<lambda>(_, s). Inr (Inr idx, q, s)))))))"

definition iwl_pcie_enqueue_hcmd ::
  "dma_env \<Rightarrow> 'd hw \<Rightarrow> pcie_cfg \<Rightarrow> bool \<Rightarrow> chunk list iwl_host_cmd \<Rightarrow> iwl_txq \<times> 'd pcie
    \<Rightarrow> ((errno + nat) \<times> iwl_txq \<times> 'd pcie) run" where
  "iwl_pcie_enqueue_hcmd env hw c wide hc = (\<lambda>(q, s).
     if \<not> wide \<and> iwl_cmd_groupid (host_id hc) > IWL_ALWAYS_LONG_GROUP then Inr (Inl EINVAL, q, s)
     else bindF (prep_loop (host_data hc)
         (\<lparr>p_copy = of_nat (header_size (host_id hc)), p_cmd = of_nat (header_size (host_id hc)), p_nocopy = False,
           p_dup = None, p_rest = []\<rparr>, pcie_answers s)) (\<lambda>(ret, p, m).
       let s = s\<lparr>pcie_answers := m\<rparr> in
       case ret of
         Some e \<Rightarrow> Inr (Inl e, q, s)
       | None \<Rightarrow>
           if unat (p_copy p) > TFD_MAX_PAYLOAD_SIZE then Inr (Inl EINVAL, q, s)
           else if iwl_queue_space q < (if host_flags hc AND CMD_ASYNC \<noteq> 0 then 2 else 1) then Inr (Inl ENOSPC, q, s)
           else
             let idx = iwl_pcie_get_cmd_index q (write_ptr q) in
             bindF (enqueue_entry c hc p idx (q, s)) (\<lambda>(buf, copied, qs).
             bindF (enqueue_fragments env p idx buf copied qs) (\<lambda>(ret, qs). case ret of
               Some e \<Rightarrow> Inr (Inl e, qs)
             | None \<Rightarrow> enqueue_handover hw c (host_flags hc) (p_dup p \<noteq> None) idx qs))))"

end
