(* ===== verification/Tx_Ring.thy ===== *)
theory Tx_Ring
  imports Tx_Queue Io_Access
begin

section \<open>The command queue is a queue\<close>

text \<open>
  The ring of \<open>Tx_Queue\<close> as a queue of positions: a sent command takes the position at the write index, reclaiming a
  position takes it and everything before it. The locale states this contract for any ring and proves that
  positions come back in the order in which they were taken; it is interpreted on the index arithmetic of the code.
  The descriptors give back the addresses and lengths written to them.
\<close>

subsection \<open>Any ring\<close>

datatype 'i ring_op = Send bool | Reclaim 'i

text \<open>
  What is sent and what comes back when a list of operations runs on a ring, given by its room, its next position,
  the step that takes it, the step that reclaims, and the positions in it. Without room nothing is sent;
  an asynchronous command asks for more room.
\<close>

fun ring_exec :: "(bool \<Rightarrow> 'q \<Rightarrow> bool) \<Rightarrow> ('q \<Rightarrow> 'i) \<Rightarrow> ('q \<Rightarrow> 'q) \<Rightarrow> ('i \<Rightarrow> 'q \<Rightarrow> 'q) \<Rightarrow> ('q \<Rightarrow> 'i list)
    \<Rightarrow> 'i ring_op list \<Rightarrow> 'q \<times> 'i list \<times> 'i list \<Rightarrow> 'q \<times> 'i list \<times> 'i list" where
  "ring_exec room slot push pull items [] r = r"
| "ring_exec room slot push pull items (Send async # ops) (q, sent, freed) =
     ring_exec room slot push pull items ops (if room async q then (push q, sent @ [slot q], freed) else (q, sent, freed))"
| "ring_exec room slot push pull items (Reclaim i # ops) (q, sent, freed) =
     ring_exec room slot push pull items ops
       (pull i q, sent, freed @ take (length (items q) - length (items (pull i q))) (items q))"

locale fifo_ring =
  fixes valid :: "'q \<Rightarrow> bool" and room :: "bool \<Rightarrow> 'q \<Rightarrow> bool" and slot :: "'q \<Rightarrow> 'i" and push :: "'q \<Rightarrow> 'q"
    and pull :: "'i \<Rightarrow> 'q \<Rightarrow> 'q" and items :: "'q \<Rightarrow> 'i list"
  assumes push_law: "valid q \<Longrightarrow> room async q \<Longrightarrow> valid (push q) \<and> items (push q) = items q @ [slot q]"
    and pull_law: "valid q \<Longrightarrow> valid (pull i q) \<and> (\<exists>xs. items q = xs @ items (pull i q))"
begin

lemma fifo_order:
  assumes "valid q" and "sent = freed @ items q"
    and "ring_exec room slot push pull items ops (q, sent, freed) = (q', sent', freed')"
  shows "valid q' \<and> sent' = freed' @ items q'"
  using assms
proof (induction ops arbitrary: q sent freed)
  case (Cons a ops)
  show ?case
  proof (cases a)
    case (Send async)
    with Cons.prems push_law[of q async] Cons.IH[of "push q" "sent @ [slot q]" freed] Cons.IH[of q sent freed]
    show ?thesis by (auto split: if_splits)
  next
    case (Reclaim i)
    obtain xs where xs: "items q = xs @ items (pull i q)" and v: "valid (pull i q)"
      using pull_law[OF Cons.prems(1), of i] by blast
    then have "take (length (items q) - length (items (pull i q))) (items q) = xs"
      by (metis add_diff_cancel_right' append_eq_conv_conj length_append)
    with Reclaim Cons.prems v xs Cons.IH[of "pull i q" sent "freed @ xs"] show ?thesis by simp
  qed
qed simp

end

subsection \<open>The index arithmetic\<close>

definition in_use :: "iwl_txq \<Rightarrow> int" where
  "in_use q = (write_ptr q - read_ptr q) mod 256"

definition inflight :: "iwl_txq \<Rightarrow> nat list" where
  "inflight q = map (\<lambda>k. nat ((read_ptr q + int k) mod 256)) [0..<nat (in_use q)]"

definition ring_ok :: "iwl_txq \<Rightarrow> bool" where
  "ring_ok q \<longleftrightarrow> 0 \<le> write_ptr q \<and> write_ptr q < 256 \<and> 0 \<le> read_ptr q \<and> read_ptr q < 256
     \<and> (\<exists>k \<le> 8. n_window q = 2 ^ k) \<and> in_use q \<le> min (n_window q) 255"

definition advance :: "iwl_txq \<Rightarrow> iwl_txq" where
  "advance q = q\<lparr>write_ptr := iwl_queue_inc_wrap (write_ptr q)\<rparr>"

definition reclaimed :: "nat \<Rightarrow> iwl_txq \<Rightarrow> iwl_txq" where
  "reclaimed i q = (if i \<in> set (inflight q) then q\<lparr>read_ptr := iwl_queue_inc_wrap (int i)\<rparr> else q)"

lemma and_255: "x AND 255 = x mod 256" for x :: int
  using take_bit_eq_mask[of 8 x] by (simp add: take_bit_eq_mod mask_eq_exp_minus_1)

lemma inc_wrap: "iwl_queue_inc_wrap i = (i + 1) mod 256"
  by (simp add: iwl_queue_inc_wrap_def TFD_QUEUE_SIZE_MAX_def and_255)

lemma in_use_bounds: "0 \<le> in_use q" "in_use q < 256"
  by (simp_all add: in_use_def)

lemma length_inflight: "int (length (inflight q)) = in_use q"
  by (simp add: inflight_def in_use_def)

lemma inflight_nth: "k < length (inflight q) \<Longrightarrow> inflight q ! k = nat ((read_ptr q + int k) mod 256)"
  by (simp add: inflight_def)

lemma word_and_255: "(word_of_int x :: u32) AND 255 = word_of_int (x mod 256)"
proof -
  have m: "255 = (mask 8 :: u32)" "x mod 256 = take_bit 8 x" by (simp_all add: mask_eq_exp_minus_1 take_bit_eq_mod)
  show ?thesis unfolding m by (rule bit_word_eqI) (auto simp: bit_simps)
qed

lemma small_difference: "0 \<le> b \<Longrightarrow> b \<le> a \<Longrightarrow> a < 256 \<Longrightarrow> sint (word_of_int a - word_of_int b :: u32) = a - b" for a b :: int
  unfolding wi_hom_sub int_word_sint by simp

lemma queue_space:
  assumes "ring_ok q"
  shows "iwl_queue_space q = min (n_window q) 255 - int (length (inflight q))"
proof -
  have n: "0 < n_window q" "n_window q \<le> 256" using assms power_increasing[of _ 8 "2::int"] by (auto simp: ring_ok_def)
  let ?m = "min (n_window q) 255"
  have m: "(if n_window q < 256 then word_of_int (n_window q) else 255) = (word_of_int ?m :: u32)" using n by auto
  have le: "in_use q \<le> ?m" using assms by (simp add: ring_ok_def)
  have u: "uint (word_of_int (in_use q) :: u32) = in_use q" "uint (word_of_int ?m :: u32) = ?m"
    using in_use_bounds[of q] n by (simp_all add: uint_word_of_int)
  have "sint (word_of_int ?m - word_of_int (in_use q) :: u32) = ?m - in_use q"
    using in_use_bounds[of q] le n by (intro small_difference) auto
  then have d: "(if word_of_int (in_use q) > (word_of_int ?m :: u32) then 0 else sint (word_of_int ?m - word_of_int (in_use q) :: u32))
      = ?m - in_use q"
    using le u by (auto simp: word_less_def)
  have c: "word_of_int (256 - 1) = (255 :: u32)" by simp
  show ?thesis
    unfolding length_inflight iwl_queue_space_def TFD_QUEUE_SIZE_MAX_def c m word_and_255 Let_def in_use_def[symmetric] d ..
qed

lemma in_inflight: "i \<in> set (inflight q) \<longleftrightarrow> i < 256 \<and> (int i - read_ptr q) mod 256 < in_use q"
proof
  assume "i \<in> set (inflight q)"
  then obtain k where k: "k < nat (in_use q)" and i: "i = nat ((read_ptr q + int k) mod 256)" by (auto simp: inflight_def)
  have "(int i - read_ptr q) mod 256 = int k"
    using k i in_use_bounds[of q] by (simp add: mod_diff_left_eq)
  then show "i < 256 \<and> (int i - read_ptr q) mod 256 < in_use q" using k i by auto
next
  assume a: "i < 256 \<and> (int i - read_ptr q) mod 256 < in_use q"
  let ?k = "nat ((int i - read_ptr q) mod 256)"
  have "nat ((read_ptr q + int ?k) mod 256) = i" using a by (simp add: mod_add_right_eq)
  then show "i \<in> set (inflight q)" using a by (auto simp: inflight_def intro!: image_eqI[of _ _ ?k])
qed

lemma wrap_mod: "-256 \<le> x \<Longrightarrow> x < 256 \<Longrightarrow> x mod 256 = (if x < 0 then x + 256 else x)" for x :: int
  using mod_add_self2[of x 256] by (auto simp del: mod_add_self2)

lemma used_inflight:
  assumes "ring_ok q"
  shows "i \<in> set (inflight q) \<longleftrightarrow> i < 256 \<and> iwl_queue_used q (int i)"
  using assms unfolding in_inflight by (auto simp: ring_ok_def in_use_def iwl_queue_used_def wrap_mod split: if_splits)

lemma push_advance:
  assumes "ring_ok q" and "in_use q < min (n_window q) 255"
  shows "ring_ok (advance q) \<and> inflight (advance q) = inflight q @ [nat (write_ptr q)]"
proof -
  have u: "in_use (advance q) = in_use q + 1"
  proof -
    have "((write_ptr q + 1) mod 256 - read_ptr q) mod 256 = (write_ptr q + 1 - read_ptr q) mod 256" by (rule mod_diff_left_eq)
    also have "\<dots> = (write_ptr q - read_ptr q + 1) mod 256" by (simp add: algebra_simps)
    also have "\<dots> = (in_use q + 1) mod 256" unfolding in_use_def by (rule mod_add_left_eq[symmetric])
    finally have "((write_ptr q + 1) mod 256 - read_ptr q) mod 256 = (in_use q + 1) mod 256" .
    then show ?thesis using in_use_bounds[of q] assms(2) unfolding in_use_def[of "advance q"] by (simp add: advance_def inc_wrap)
  qed
  have w: "(read_ptr q + in_use q) mod 256 = write_ptr q"
    using assms(1) by (simp add: in_use_def mod_add_right_eq ring_ok_def)
  have "nat (in_use q + 1) = Suc (nat (in_use q))" using in_use_bounds[of q] by simp
  then have "inflight (advance q) = inflight q @ [nat (write_ptr q)]"
    unfolding inflight_def u using in_use_bounds[of q] w by (simp add: advance_def)
  moreover have "ring_ok (advance q)"
    using assms u by (auto simp: ring_ok_def) (auto simp: advance_def inc_wrap)
  ultimately show ?thesis by simp
qed

lemma pull_reclaimed:
  assumes "ring_ok q"
  shows "ring_ok (reclaimed i q) \<and> (\<exists>xs. inflight q = xs @ inflight (reclaimed i q))"
proof (cases "i \<in> set (inflight q)")
  case True
  define k where "k = (int i - read_ptr q) mod 256"
  have k: "0 \<le> k" "k < in_use q" "i < 256" using True by (auto simp: in_inflight k_def)
  have r: "read_ptr (reclaimed i q) = (read_ptr q + (k + 1)) mod 256"
  proof -
    have "(read_ptr q + 1 + k) mod 256 = (read_ptr q + 1 + (int i - read_ptr q)) mod 256"
      unfolding k_def by (rule mod_add_right_eq)
    then show ?thesis using True by (simp add: reclaimed_def inc_wrap algebra_simps)
  qed
  have u: "in_use (reclaimed i q) = in_use q - (k + 1)"
  proof -
    have "in_use (reclaimed i q) = (write_ptr q - (read_ptr q + (k + 1))) mod 256"
      unfolding in_use_def r mod_diff_right_eq by (simp add: reclaimed_def)
    also have "\<dots> = (write_ptr q - read_ptr q - (k + 1)) mod 256" by (simp add: algebra_simps)
    also have "\<dots> = (in_use q - (k + 1)) mod 256" unfolding in_use_def by (rule mod_diff_left_eq[symmetric])
    finally show ?thesis using k in_use_bounds[of q] by simp
  qed
  have "inflight (reclaimed i q) = drop (nat (k + 1)) (inflight q)"
  proof (rule nth_equalityI)
    show len: "length (inflight (reclaimed i q)) = length (drop (nat (k + 1)) (inflight q))"
      using k u by (simp add: inflight_def)
    fix j assume j: "j < length (inflight (reclaimed i q))"
    have "inflight (reclaimed i q) ! j = nat ((read_ptr q + (k + 1) + int j) mod 256)"
      unfolding inflight_nth[OF j] r mod_add_left_eq ..
    also have "\<dots> = nat ((read_ptr q + int (nat (k + 1) + j)) mod 256)" using k by (simp add: algebra_simps)
    also have "\<dots> = inflight q ! (nat (k + 1) + j)" using j len by (intro inflight_nth[symmetric]) simp
    also have "\<dots> = drop (nat (k + 1)) (inflight q) ! j" using j len by (intro nth_drop[symmetric]) simp
    finally show "inflight (reclaimed i q) ! j = drop (nat (k + 1)) (inflight q) ! j" .
  qed
  then have "\<exists>xs. inflight q = xs @ inflight (reclaimed i q)" by (metis append_take_drop_id)
  moreover have "ring_ok (reclaimed i q)"
    using assms k u True by (auto simp: ring_ok_def r) (auto simp: reclaimed_def)
  ultimately show ?thesis by simp
qed (use assms in \<open>auto simp: reclaimed_def\<close>)

subsection \<open>The two ends of the queue\<close>

lemma small_powers:
  assumes "0 < n" and "n \<le> 256" and "is_power_of_2 n"
  shows "\<exists>k \<le> 8. n = 2 ^ k"
proof -
  have "list_all (\<lambda>n. is_power_of_2 n \<longrightarrow> n \<in> set (map (\<lambda>k. 2 ^ k) [0..<9])) [1..256]" by code_simp
  then have "n \<in> set (map (\<lambda>k. 2 ^ k) [0..<9])" using assms by (auto simp: list_all_iff)
  then obtain k where "k \<in> set [0..<9]" and "n = 2 ^ k" unfolding set_map by blast
  then show ?thesis by (intro exI[of _ k]) auto
qed

lemma init_ring:
  assumes "0 < n" and "n \<le> 256" and "iwl_pcie_txq_init n q = ok q'"
  shows "ring_ok q' \<and> inflight q' = [] \<and> n_window q' = n"
  using assms small_powers[of n]
  by (auto simp: iwl_pcie_txq_init_def iwl_queue_init_def Let_def ring_ok_def in_use_def inflight_def split: if_splits)

lemma entry_index:
  assumes "ring_ok q"
  shows "distinct (map (\<lambda>p. iwl_pcie_get_cmd_index q (int p)) (inflight q))"
proof -
  obtain k where k: "k \<le> 8" and n: "n_window q = 2 ^ k" using assms by (auto simp: ring_ok_def)
  have le: "2 ^ k \<le> (256 :: int)" using k power_increasing[of k 8 "2::int"] by simp
  have dvd: "(2 ^ k :: int) dvd 256" using k le_imp_power_dvd[of k 8 "2::int"] by simp
  have idx: "int (iwl_pcie_get_cmd_index q x) = x mod 2 ^ k" for x
  proof -
    have "x AND (2 ^ k - 1) = x mod 2 ^ k" using take_bit_eq_mask[of k x] by (simp add: take_bit_eq_mod mask_eq_exp_minus_1)
    moreover have "0 \<le> x mod 2 ^ k" "x mod 2 ^ k < 256"
      using order_less_le_trans[OF pos_mod_bound[of "2 ^ k" x] le] by simp_all
    ultimately show ?thesis by (simp add: iwl_pcie_get_cmd_index_def n unsigned_of_int take_bit_eq_mod)
  qed
  have "inj_on (\<lambda>j. iwl_pcie_get_cmd_index q (int (nat ((read_ptr q + int j) mod 256)))) {0..<nat (in_use q)}"
  proof (rule inj_onI)
    fix a b assume a: "a \<in> {0..<nat (in_use q)}" "b \<in> {0..<nat (in_use q)}"
      and e: "iwl_pcie_get_cmd_index q (int (nat ((read_ptr q + int a) mod 256)))
        = iwl_pcie_get_cmd_index q (int (nat ((read_ptr q + int b) mod 256)))"
    have "in_use q \<le> 2 ^ k" using assms n by (simp add: ring_ok_def)
    moreover have "int a < in_use q" "int b < in_use q" using a by auto
    ultimately have l: "int a < 2 ^ k" "int b < 2 ^ k" by linarith+
    have "(read_ptr q + int a) mod 2 ^ k = (read_ptr q + int b) mod 2 ^ k"
      using arg_cong[OF e, of int] dvd by (simp add: idx mod_mod_cancel)
    then have "(read_ptr q + int a - read_ptr q) mod 2 ^ k = (read_ptr q + int b - read_ptr q) mod 2 ^ k" by (rule mod_diff_cong) simp
    then show "a = b" using l by simp
  qed
  then show ?thesis by (simp add: inflight_def distinct_map comp_def)
qed

lemma nmi_returns: "\<not> reg_lock s \<Longrightarrow> \<exists>d. iwl_force_nmi hw s = Inr ((), s\<lparr>hw_base := d\<rparr>)"
proof -
  assume l: "\<not> reg_lock s"
  have "releases (iwl_write_prph hw r w) s" for r w
    unfolding iwl_write_prph_def by (intro with_access_releases quiet_intros l)
  from this[of "0x00a01c30" "0x80"] this[of "0x00a05c10" "0xff000000"] show ?thesis
    by (auto simp: releases_def iwl_force_nmi_def)
qed

abbreviation unlocked :: "'d pcie \<Rightarrow> bool" where
  "unlocked s \<equiv> \<not> reg_lock (pcie_trans s)"

lemma nmi_on_dev: "unlocked s \<Longrightarrow> \<exists>s'. on_dev (iwl_force_nmi hw) s = Inr ((), s') \<and> unlocked s'"
  using nmi_returns[of "pcie_trans s" hw] by (auto simp: on_dev_def)

lemma reclaim_loop_ends:
  assumes "(idx - read_ptr q) mod 256 = int k" and "0 \<le> idx" "idx < 256" and "0 \<le> read_ptr q" "read_ptr q < 256" and "unlocked s"
  shows "\<exists>s'. reclaim_loop hw idx n (q, s) = Some (Inr (q\<lparr>read_ptr := idx\<rparr>, s')) \<and> unlocked s'"
  using assms
proof (induction k arbitrary: q s n)
  case 0
  then have "read_ptr q = idx" using wrap_mod[of "idx - read_ptr q"] by (auto split: if_splits)
  then have "q\<lparr>read_ptr := idx\<rparr> = q" by auto
  with \<open>read_ptr q = idx\<close> 0 show ?case by (subst reclaim_loop.simps) auto
next
  case (Suc k)
  let ?q = "q\<lparr>read_ptr := iwl_queue_inc_wrap (read_ptr q)\<rparr>"
  have ne: "read_ptr q \<noteq> idx" using Suc.prems(1) by auto
  have "(idx - read_ptr ?q) mod 256 = (idx - (read_ptr q + 1)) mod 256" by (simp add: inc_wrap mod_diff_right_eq)
  also have "\<dots> = (idx - read_ptr q - 1) mod 256" by (simp add: algebra_simps)
  also have "\<dots> = (int (Suc k) - 1) mod 256" using Suc.prems(1) mod_diff_left_eq[of "idx - read_ptr q" 256 1] by simp
  also have "\<dots> = int k" using Suc.prems(1) pos_mod_bound[of 256 "idx - read_ptr q"] by simp
  finally have k: "(idx - read_ptr ?q) mod 256 = int k" .
  obtain s1 where s1: "(if n > 0 then on_dev (iwl_force_nmi hw) s else Inr ((), s)) = Inr ((), s1)" and l: "unlocked s1"
    using nmi_on_dev[OF Suc.prems(6), of hw] Suc.prems(6) by (cases "n > 0") auto
  have "\<exists>s'. reclaim_loop hw idx (n + 1) (?q, s1) = Some (Inr (?q\<lparr>read_ptr := idx\<rparr>, s')) \<and> unlocked s'"
    by (rule Suc.IH[OF k Suc.prems(2,3) _ _ l]) (simp_all add: inc_wrap)
  with ne s1 show ?case by (subst reclaim_loop.simps) simp
qed

lemma clear_in_flight_returns:
  "\<exists>s'. iwl_pcie_clear_cmd_in_flight hw c s = Inr s' \<and> reg_lock (pcie_trans s') = reg_lock (pcie_trans s)"
proof -
  have "\<exists>s'. on_dev (pcie_clear_bit hw CSR_GP_CNTRL CSR_GP_CNTRL_REG_FLAG_MAC_ACCESS_REQ) t = Inr ((), s')
      \<and> reg_lock (pcie_trans s') = reg_lock (pcie_trans t)" for t
  proof -
    obtain d where "pcie_clear_bit hw CSR_GP_CNTRL CSR_GP_CNTRL_REG_FLAG_MAC_ACCESS_REQ (pcie_trans t)
        = Inr ((), (pcie_trans t)\<lparr>hw_base := d\<rparr>)"
      using quiet_composed(6)[unfolded quiet_def] by (metis old.unit.exhaust)
    then show ?thesis by (simp add: on_dev_def)
  qed
  from this[of "set_hold False s"] this[of "set_hold False (s\<lparr>ref_cmd_in_flight := False, trans_refs := trans_refs s - 1\<rparr>)"]
  show ?thesis by (auto simp: iwl_pcie_clear_cmd_in_flight_def Let_def set_hold_def)
qed

lemma clear_locked_returns:
  assumes "unlocked s"
  shows "\<exists>s'. with_reg_lock (iwl_pcie_clear_cmd_in_flight hw c) s = Inr s' \<and> unlocked s'"
proof -
  let ?s = "s\<lparr>pcie_trans := (pcie_trans s)\<lparr>reg_lock := True\<rparr>\<rparr>"
  obtain s1 where "iwl_pcie_clear_cmd_in_flight hw c ?s = Inr s1" and "reg_lock (pcie_trans s1)"
    using clear_in_flight_returns[of hw c ?s] by auto
  with assms show ?thesis
    by (simp add: with_reg_lock_def on_dev_def IOSimpleLockLockDisableInterrupt_def IOSimpleLockUnlockEnableInterrupt_def)
qed

lemma reclaim_returns:
  assumes "ring_ok q" and "unlocked s"
  shows "\<exists>s'. iwl_pcie_cmdq_reclaim hw c (int i) (q, s) = Some (Inr (reclaimed i q, s')) \<and> unlocked s'"
proof (cases "i \<in> set (inflight q)")
  case False
  then show ?thesis
    using assms used_inflight[OF assms(1), of i] by (auto simp: iwl_pcie_cmdq_reclaim_def TFD_QUEUE_SIZE_MAX_def reclaimed_def)
next
  case True
  let ?e = "iwl_queue_inc_wrap (int i)"
  have i: "i < 256" "iwl_queue_used q (int i)" using True used_inflight[OF assms(1)] by blast+
  obtain s1 where s1: "reclaim_loop hw ?e 0 (q, s) = Some (Inr (reclaimed i q, s1))" and l: "unlocked s1"
    using reclaim_loop_ends[of ?e q "nat ((?e - read_ptr q) mod 256)" s hw 0] assms True
    by (auto simp: inc_wrap reclaimed_def ring_ok_def)
  then show ?thesis
    using i clear_locked_returns[OF l, of hw c]
    by (auto simp: iwl_pcie_cmdq_reclaim_def TFD_QUEUE_SIZE_MAX_def)
qed

subsection \<open>The model as a queue\<close>

text \<open>The queue with the state of the transport: room, slot and push as \<open>iwl_pcie_enqueue_hcmd\<close> has them.\<close>

definition cmdq_valid :: "int \<Rightarrow> iwl_txq \<times> 'd pcie \<Rightarrow> bool" where
  "cmdq_valid n = (\<lambda>(q, s). ring_ok q \<and> n_window q = n \<and> unlocked s)"

definition cmdq_room :: "bool \<Rightarrow> iwl_txq \<times> 'd pcie \<Rightarrow> bool" where
  "cmdq_room async = (\<lambda>(q, s). \<not> iwl_queue_space q < (if async then 2 else 1))"

definition cmdq_slot :: "iwl_txq \<times> 'd pcie \<Rightarrow> nat" where
  "cmdq_slot = (\<lambda>(q, s). nat (write_ptr q))"

definition cmdq_push :: "iwl_txq \<times> 'd pcie \<Rightarrow> iwl_txq \<times> 'd pcie" where
  "cmdq_push = (\<lambda>(q, s). (advance q, s))"

definition cmdq_pull :: "'d hw \<Rightarrow> pcie_cfg \<Rightarrow> nat \<Rightarrow> iwl_txq \<times> 'd pcie \<Rightarrow> iwl_txq \<times> 'd pcie" where
  "cmdq_pull hw c i r = (case iwl_pcie_cmdq_reclaim hw c (int i) r of Some (Inr r') \<Rightarrow> r' | _ \<Rightarrow> r)"

definition cmdq_items :: "iwl_txq \<times> 'd pcie \<Rightarrow> nat list" where
  "cmdq_items = (\<lambda>(q, s). inflight q)"

lemma room_in_use: "ring_ok q \<Longrightarrow> cmdq_room async (q, s) \<Longrightarrow> in_use q < min (n_window q) 255"
  by (auto simp: cmdq_room_def queue_space length_inflight split: if_splits)

interpretation cmdq: fifo_ring "cmdq_valid n" cmdq_room cmdq_slot cmdq_push "cmdq_pull hw c" cmdq_items for n hw c
proof unfold_locales
  fix r :: "iwl_txq \<times> 'a pcie" and async
  assume "cmdq_valid n r" and "cmdq_room async r"
  then show "cmdq_valid n (cmdq_push r) \<and> cmdq_items (cmdq_push r) = cmdq_items r @ [cmdq_slot r]"
    using push_advance[of "fst r"] room_in_use[of "fst r" async "snd r"]
    by (cases r) (auto simp: cmdq_valid_def cmdq_push_def cmdq_items_def cmdq_slot_def advance_def)
next
  fix r :: "iwl_txq \<times> 'a pcie" and i
  assume v: "cmdq_valid n r"
  obtain q s where r: "r = (q, s)" by (cases r)
  obtain s' where s': "iwl_pcie_cmdq_reclaim hw c (int i) (q, s) = Some (Inr (reclaimed i q, s'))" and l: "unlocked s'"
    using reclaim_returns[of q s hw c i] v by (auto simp: r cmdq_valid_def)
  have p: "cmdq_pull hw c i (q, s) = (reclaimed i q, s')" by (simp add: cmdq_pull_def s')
  have n: "n_window (reclaimed i q) = n_window q" by (simp add: reclaimed_def)
  show "cmdq_valid n (cmdq_pull hw c i r) \<and> (\<exists>xs. cmdq_items r = xs @ cmdq_items (cmdq_pull hw c i r))"
    using v l pull_reclaimed[of q i] by (simp add: p r n cmdq_valid_def cmdq_items_def)
qed

lemma entry_fresh:
  assumes "ring_ok q" and "cmdq_room async (q, s)"
  shows "iwl_pcie_get_cmd_index q (write_ptr q) \<notin> set (map (\<lambda>p. iwl_pcie_get_cmd_index q (int p)) (inflight q))"
proof -
  have a: "ring_ok (advance q)" "inflight (advance q) = inflight q @ [nat (write_ptr q)]"
    using push_advance[OF assms(1) room_in_use[OF assms]] by auto
  have "iwl_pcie_get_cmd_index (advance q) = iwl_pcie_get_cmd_index q"
    by (rule ext) (simp add: iwl_pcie_get_cmd_index_def advance_def)
  then show ?thesis using entry_index[OF a(1)] assms(1) by (auto simp: a(2) ring_ok_def)
qed

text \<open>C12. The command queue in the order of \<open>iwl_pcie_txq_init\<close>, enqueues (asynchronous ones keep a place free) and
  \<open>iwl_pcie_cmdq_reclaim\<close>, in any sequence: the positions handed out come back first in first out and the rest are
  the ones in the ring; there are at most as many as the window, each with an entry of its own; the space reported is
  what is left; a new command gets an entry nobody holds; and the next reclaim always returns.\<close>

theorem command_queue_fifo:
  assumes "0 < n" and "n \<le> 256" and "iwl_pcie_txq_init n q0 = ok q" and "unlocked s"
    and "ring_exec cmdq_room cmdq_slot cmdq_push (cmdq_pull hw c) cmdq_items ops ((q, s), [], []) = ((q', s'), sent, freed)"
  shows "sent = freed @ inflight q' \<and> int (length (inflight q')) \<le> min n 255
    \<and> distinct (map (\<lambda>p. iwl_pcie_get_cmd_index q' (int p)) (inflight q'))
    \<and> iwl_queue_space q' = min n 255 - int (length (inflight q'))
    \<and> (\<forall>async. cmdq_room async (q', s') \<longrightarrow>
        iwl_pcie_get_cmd_index q' (write_ptr q') \<notin> set (map (\<lambda>p. iwl_pcie_get_cmd_index q' (int p)) (inflight q')))
    \<and> (\<forall>i. \<exists>s''. iwl_pcie_cmdq_reclaim hw c (int i) (q', s') = Some (Inr (reclaimed i q', s'')))"
proof -
  have "cmdq_valid n (q, s)" and "[] = [] @ cmdq_items (q, s)"
    using init_ring[OF assms(1-3)] assms(4) by (auto simp: cmdq_valid_def cmdq_items_def)
  from cmdq.fifo_order[OF this assms(5)] have v: "ring_ok q'" "n_window q' = n" "unlocked s'" and s: "sent = freed @ inflight q'"
    by (auto simp: cmdq_valid_def cmdq_items_def)
  have "int (length (inflight q')) \<le> min n 255" using v by (simp add: length_inflight ring_ok_def)
  then show ?thesis
    using s entry_index[OF v(1)] queue_space[OF v(1)] entry_fresh[OF v(1)] reclaim_returns[OF v(1,3)] v(2) by blast
qed

text \<open>A run on a window of four: the sixth command finds no room, and the reclaimed position was the first.\<close>

definition ring_demo_hw :: "unit hw" where
  "ring_demo_hw = \<lparr>hw_read32 = \<lambda>_ d. (0, d), hw_write32 = \<lambda>_ _ d. d, hw_write8 = \<lambda>_ _ d. d, hw_delay = \<lambda>_ d. d\<rparr>"

definition ring_demo_q :: "int \<Rightarrow> iwl_txq" where
  "ring_demo_q n = \<lparr>write_ptr = 0, read_ptr = 0, n_window = n, low_mark = max 4 (n div 4), high_mark = max 2 (n div 8), need_update = False,
     txq_block = 0, txq_id = 0, tfds = [], txq_entries = [], first_tb_dma = 0\<rparr>"

definition ring_demo_s :: "unit pcie" where
  "ring_demo_s = \<lparr>pcie_trans = \<lparr>hw_base = (), reg_lock = False, cmd_hold_nic_awake = False, family = IWL_DEVICE_FAMILY_6000\<rparr>,
     ref_cmd_in_flight = True, trans_refs = 1, dma_mem = \<lambda>_. None, pcie_answers = []\<rparr>"

definition ring_demo_cfg :: pcie_cfg where
  "ring_demo_cfg = \<lparr>shadow_reg_enable = True, apmg_wake_up_wa = False, cmd_queue = 0, tpower_pmi = False\<rparr>"

lemma ring_demo: "ring_exec cmdq_room cmdq_slot cmdq_push (cmdq_pull ring_demo_hw ring_demo_cfg) cmdq_items
    [Send False, Send True, Reclaim 0, Send True, Send True, Send False, Send False] ((ring_demo_q 4, ring_demo_s), [], [])
  = (((ring_demo_q 4)\<lparr>write_ptr := 5, read_ptr := 1\<rparr>, ring_demo_s), [0, 1, 2, 3, 4], [0])"
  by code_simp

theorem command_queue_fifo_witness:
  "[0, 1, 2, 3, 4] = [0] @ inflight ((ring_demo_q 4)\<lparr>write_ptr := 5, read_ptr := 1\<rparr>)
    \<and> (\<exists>s''. iwl_pcie_cmdq_reclaim ring_demo_hw ring_demo_cfg 3 ((ring_demo_q 4)\<lparr>write_ptr := 5, read_ptr := 1\<rparr>, ring_demo_s)
         = Some (Inr (reclaimed 3 ((ring_demo_q 4)\<lparr>write_ptr := 5, read_ptr := 1\<rparr>), s'')))"
proof -
  have p: "0 < (4::int)" "(4::int) \<le> 256" "iwl_pcie_txq_init 4 (ring_demo_q 16) = ok (ring_demo_q 4)" "unlocked ring_demo_s"
    by (simp, simp, code_simp, simp add: ring_demo_s_def)
  note run = command_queue_fifo[OF p ring_demo]
  have "iwl_pcie_cmdq_reclaim ring_demo_hw ring_demo_cfg 3 = iwl_pcie_cmdq_reclaim ring_demo_hw ring_demo_cfg (int 3)" by simp
  with run[THEN conjunct1] run[THEN conjunct2, THEN conjunct2, THEN conjunct2, THEN conjunct2, THEN conjunct2, THEN spec, of 3]
  show ?thesis by metis
qed

subsection \<open>Frame descriptors\<close>

lemma tb_get_set:
  assumes "idx < length (tbs tfd)" and "addr AND NOT (mask 36) = 0"
  shows "\<exists>tfd'. iwl_pcie_tfd_set_tb tfd idx addr len = Inr tfd' \<and> num_tbs tfd' = of_nat (idx + 1)
    \<and> length (tbs tfd') = length (tbs tfd) \<and> (\<forall>j. j \<noteq> idx \<longrightarrow> tbs tfd' ! j = tbs tfd ! j)
    \<and> iwl_pcie_tfd_tb_get_addr tfd' idx = Inr addr \<and> iwl_pcie_tfd_tb_get_len tfd' idx = Inr (take_bit 12 len)"
proof -
  have small: "\<not> bit addr n" if "36 \<le> n" for n
    using assms(2) that bit_imp_le_length[of addr n] by (auto simp: bit_eq_iff bit_simps)
  have "ucast (ucast addr :: u32) OR push_bit 32 (ucast ((push_bit 4 len OR ucast (drop_bit 32 addr AND 0xF)) AND 0xF)) = addr"
  proof (rule bit_word_eqI)
    fix n assume n: "n < LENGTH(64)"
    have m: "(15 :: u64) = mask 4" "(15 :: u16) = mask 4" by (simp_all add: mask_eq_exp_minus_1)
    show "bit (ucast (ucast addr :: u32) OR push_bit 32 (ucast ((push_bit 4 len OR ucast (drop_bit 32 addr AND 0xF)) AND 0xF)) :: u64) n
        = bit addr n"
      using n small[of n] by (cases "n < 32"; cases "n < 36") (auto simp: m bit_simps)
  qed
  moreover have "drop_bit 4 (push_bit 4 len OR ucast (drop_bit 32 addr AND 0xF) :: u16) = take_bit 12 len"
  proof (rule bit_word_eqI)
    fix n assume "n < LENGTH(16)"
    have m: "(15 :: u64) = mask 4" by (simp add: mask_eq_exp_minus_1)
    show "bit (drop_bit 4 (push_bit 4 len OR ucast (drop_bit 32 addr AND 0xF))) n = bit (take_bit 12 len) n"
      by (auto simp: m bit_simps)
  qed
  ultimately show ?thesis
    using assms(1) by (simp add: iwl_pcie_tfd_set_tb_def iwl_pcie_tfd_tb_get_addr_def iwl_pcie_tfd_tb_get_len_def Let_def)
qed

lemma num_tbs_of_nat:
  assumes "n < 20" and "num_tbs t = of_nat (n + 1)"
  shows "iwl_pcie_tfd_get_num_tbs t = n + 1"
proof -
  have m: "(0x1f :: u8) = mask 5" by (simp add: mask_eq_exp_minus_1)
  have "iwl_pcie_tfd_get_num_tbs t = unat (num_tbs t) mod 32"
    unfolding iwl_pcie_tfd_get_num_tbs_def m take_bit_eq_mask[symmetric] unsigned_take_bit_eq by (simp add: take_bit_eq_mod)
  moreover have "unat (num_tbs t) = n + 1" using assms(1) unfolding assms(2) unat_of_nat by simp
  ultimately show ?thesis using assms(1) by simp
qed

lemma dma_address: "uint addr < 2 ^ 36 \<longleftrightarrow> addr AND NOT (mask 36) = 0" for addr :: u64
proof -
  have "addr AND NOT (mask 36) = 0 \<longleftrightarrow> take_bit 36 addr = addr"
    by (auto simp: bit_eq_iff bit_simps)
  also have "\<dots> \<longleftrightarrow> uint (take_bit 36 addr) = uint addr" by (rule word_uint_eq_iff)
  also have "\<dots> \<longleftrightarrow> take_bit 36 (uint addr) = uint addr" by (simp add: unsigned_take_bit_eq)
  also have "\<dots> \<longleftrightarrow> uint addr < 2 ^ 36" by (simp add: take_bit_int_eq_self_iff)
  finally show ?thesis ..
qed

lemma build_tfd_ok:
  assumes "tfd_at q (write_ptr q) = Inr t" and "length (tbs t) = IWL_NUM_OF_TBS"
    and "n = (if reset then 0 else iwl_pcie_tfd_get_num_tbs t)" and "n < IWL_NUM_OF_TBS" and "addr AND NOT (mask 36) = 0"
  shows "\<exists>t'. iwl_pcie_txq_build_tfd addr len reset q = Inr (Inr n, put_tfd (write_ptr q) t' q)
    \<and> tfd_at (put_tfd (write_ptr q) t' q) (write_ptr q) = Inr t' \<and> iwl_pcie_tfd_get_num_tbs t' = n + 1
    \<and> length (tbs t') = IWL_NUM_OF_TBS \<and> (\<forall>j < n. tbs t' ! j = tbs t ! j)
    \<and> iwl_pcie_tfd_tb_get_addr t' n = Inr addr \<and> iwl_pcie_tfd_tb_get_len t' n = Inr (take_bit 12 len)"
proof -
  define t0 where "t0 = (if reset then zero_tfd else t)"
  have z: "iwl_pcie_tfd_get_num_tbs zero_tfd = 0" "length (tbs zero_tfd) = IWL_NUM_OF_TBS"
    by (simp_all add: iwl_pcie_tfd_get_num_tbs_def zero_tfd_def)
  have n: "n = iwl_pcie_tfd_get_num_tbs t0" "length (tbs t0) = IWL_NUM_OF_TBS" using z assms(2,3) by (auto simp: t0_def)
  have w: "0 \<le> write_ptr q" "nat (write_ptr q) < length (tfds q)" using assms(1) by (auto simp: tfd_at_def split: if_splits)
  obtain t' where t': "iwl_pcie_tfd_set_tb t0 n addr len = Inr t'" "num_tbs t' = of_nat (n + 1)" "length (tbs t') = IWL_NUM_OF_TBS"
    "\<forall>j. j \<noteq> n \<longrightarrow> tbs t' ! j = tbs t0 ! j" "iwl_pcie_tfd_tb_get_addr t' n = Inr addr"
    "iwl_pcie_tfd_tb_get_len t' n = Inr (take_bit 12 len)"
    using tb_get_set[of n t0 addr len] assms(4,5) n by auto
  have "iwl_pcie_txq_build_tfd addr len reset q = Inr (Inr n, put_tfd (write_ptr q) t' q)"
    using assms(1,4,5) t'(1) n by (simp add: iwl_pcie_txq_build_tfd_def Let_def t0_def put_tfd_def)
  moreover have "tfd_at (put_tfd (write_ptr q) t' q) (write_ptr q) = Inr t'" using w by (simp add: tfd_at_def put_tfd_def)
  moreover have "iwl_pcie_tfd_get_num_tbs t' = n + 1" using assms(4) t'(2) num_tbs_of_nat by (simp add: IWL_NUM_OF_TBS_def)
  moreover have "\<forall>j < n. tbs t' ! j = tbs t ! j" using assms(3) t'(4) by (auto simp: t0_def split: if_splits)
  ultimately show ?thesis using t' by blast
qed

text \<open>C21. A fragment put in the descriptor at the write index reads back with its address and its length modulo 4096,
  at the number returned, which is the number of fragments before it; the fragments before it are untouched, and the
  descriptor then has one fragment more. It is refused exactly when twenty are there or the address has more than 36 bits.\<close>

theorem tfd_round_trip:
  assumes "tfd_at q (write_ptr q) = Inr t" and "length (tbs t) = IWL_NUM_OF_TBS"
  shows "\<exists>r q'. iwl_pcie_txq_build_tfd addr len reset q = Inr (r, q') \<and>
    (case r of
       Inl e \<Rightarrow> e = EINVAL \<and> (\<not> reset \<and> iwl_pcie_tfd_get_num_tbs t \<ge> IWL_NUM_OF_TBS \<or> uint addr \<ge> 2 ^ 36)
     | Inr n \<Rightarrow> n = (if reset then 0 else iwl_pcie_tfd_get_num_tbs t) \<and> n < IWL_NUM_OF_TBS \<and> uint addr < 2 ^ 36
        \<and> (\<exists>t'. tfd_at q' (write_ptr q') = Inr t' \<and> iwl_pcie_tfd_get_num_tbs t' = n + 1 \<and> length (tbs t') = IWL_NUM_OF_TBS
            \<and> iwl_pcie_tfd_tb_get_addr t' n = Inr addr \<and> iwl_pcie_tfd_tb_get_len t' n = Inr (take_bit 12 len)
            \<and> (\<forall>j < n. tbs t' ! j = tbs t ! j)))"
proof -
  define n where "n = (if reset then 0 else iwl_pcie_tfd_get_num_tbs t)"
  show ?thesis
  proof (cases "n < IWL_NUM_OF_TBS \<and> addr AND NOT (mask 36) = 0")
    case False
    have "iwl_pcie_tfd_get_num_tbs zero_tfd = 0" by (simp add: iwl_pcie_tfd_get_num_tbs_def zero_tfd_def)
    with False have "iwl_pcie_txq_build_tfd addr len reset q = Inr (Inl EINVAL, put_tfd (write_ptr q) (if reset then zero_tfd else t) q)"
      using assms(1) by (auto simp: iwl_pcie_txq_build_tfd_def Let_def n_def)
    moreover have "\<not> reset \<and> iwl_pcie_tfd_get_num_tbs t \<ge> IWL_NUM_OF_TBS \<or> uint addr \<ge> 2 ^ 36"
      using False dma_address[of addr] by (cases reset) (auto simp: IWL_NUM_OF_TBS_def n_def)
    ultimately show ?thesis by simp
  next
    case True
    obtain t' where b: "iwl_pcie_txq_build_tfd addr len reset q = Inr (Inr n, put_tfd (write_ptr q) t' q)"
      and t': "tfd_at (put_tfd (write_ptr q) t' q) (write_ptr q) = Inr t'" "iwl_pcie_tfd_get_num_tbs t' = n + 1"
        "length (tbs t') = IWL_NUM_OF_TBS" "\<forall>j < n. tbs t' ! j = tbs t ! j"
        "iwl_pcie_tfd_tb_get_addr t' n = Inr addr" "iwl_pcie_tfd_tb_get_len t' n = Inr (take_bit 12 len)"
      using build_tfd_ok[OF assms n_def] True by blast
    have "write_ptr (put_tfd (write_ptr q) t' q) = write_ptr q" by (simp add: put_tfd_def)
    with b t' True dma_address[of addr] show ?thesis by (simp add: n_def[symmetric])
  qed
qed

theorem tfd_round_trip_witness:
  "\<exists>q'. iwl_pcie_txq_build_tfd 0x812345678 300 True ((ring_demo_q 4)\<lparr>tfds := [zero_tfd]\<rparr>) = Inr (Inr 0, q')
    \<and> (\<exists>t'. tfd_at q' (write_ptr q') = Inr t' \<and> iwl_pcie_tfd_tb_get_addr t' 0 = Inr 0x812345678)"
proof -
  let ?q = "(ring_demo_q 4)\<lparr>tfds := [zero_tfd]\<rparr>"
  have "tfd_at ?q (write_ptr ?q) = Inr zero_tfd" by (simp add: tfd_at_def ring_demo_q_def)
  moreover have "length (tbs zero_tfd) = IWL_NUM_OF_TBS" by (simp add: zero_tfd_def)
  ultimately obtain r q' where b: "iwl_pcie_txq_build_tfd 0x812345678 300 True ?q = Inr (r, q')"
    and r: "case r of Inl e \<Rightarrow> e = EINVAL \<and> (\<not> True \<and> iwl_pcie_tfd_get_num_tbs zero_tfd \<ge> IWL_NUM_OF_TBS \<or> uint (0x812345678 :: u64) \<ge> 2 ^ 36)
      | Inr n \<Rightarrow> n = 0 \<and> (\<exists>t'. tfd_at q' (write_ptr q') = Inr t' \<and> iwl_pcie_tfd_tb_get_addr t' n = Inr 0x812345678)"
    using tfd_round_trip[of ?q zero_tfd "0x812345678" 300 True] by (fastforce split: sum.splits)
  from r b show ?thesis by (cases r) auto
qed

end
