(* ===== verification/Tx_Enqueue.thy ===== *)
theory Tx_Enqueue
  imports Tx_Command Tx_Ring
begin

section \<open>What the device reads\<close>

text \<open>
  A command that is enqueued arrives: the fragments of its descriptor, read in order from the memory shared with the
  device, are its header followed by its data, whichever way the data was split, copied, duplicated or mapped.
\<close>

definition payload :: "chunk list \<Rightarrow> u8 list" where
  "payload chs = concat (map (\<lambda>(data, _, _). data) chs)"

definition chunk_ok :: "chunk \<Rightarrow> bool" where
  "chunk_ok = (\<lambda>(data, len, _). length data = unat len \<and> unat len < 4096)"

subsection \<open>Sizing\<close>

definition mapped :: "u8 \<Rightarrow> bool" where
  "mapped fl \<longleftrightarrow> fl AND IWL_HCMD_DFL_NOCOPY \<noteq> 0 \<or> fl AND IWL_HCMD_DFL_DUP \<noteq> 0"

lemma mapped_or: "fl AND (IWL_HCMD_DFL_NOCOPY OR IWL_HCMD_DFL_DUP) = 0 \<longleftrightarrow> \<not> mapped fl"
  unfolding mapped_def bit.conj_disj_distrib or_eq_0_iff by blast

definition rest_bytes :: "(u8 list \<times> u16 \<times> u8) list \<Rightarrow> u8 list" where
  "rest_bytes rs = concat (map (\<lambda>(d, _, fl). if mapped fl then d else []) rs)"

lemma rest_bytes_append: "rest_bytes (rs @ [(d, l, fl)]) = rest_bytes rs @ (if mapped fl then d else [])"
  by (simp add: rest_bytes_def)

text \<open>
  After some chunks with bytes \<open>pay\<close> behind a header of \<open>h\<close> bytes: the copied part is a prefix, the rest is what is
  left to map, and something is left to map only when the first fragment is full.
\<close>

definition sized :: "nat \<Rightarrow> u8 list \<Rightarrow> prep \<Rightarrow> bool" where
  "sized h pay p \<longleftrightarrow>
     unat (p_cmd p) = h + length pay
     \<and> h \<le> unat (p_copy p) \<and> unat (p_copy p) \<le> h + length pay
     \<and> pay = take (unat (p_copy p) - h) pay @ rest_bytes (p_rest p)
     \<and> (rest_bytes (p_rest p) \<noteq> [] \<longrightarrow> IWL_FIRST_TB_SIZE \<le> unat (p_copy p))
     \<and> (\<not> p_nocopy p \<longrightarrow> rest_bytes (p_rest p) = [])
     \<and> (\<forall>(d, l, fl) \<in> set (p_rest p). mapped fl \<longrightarrow> length d = unat l \<and> unat l < 4096
          \<and> (l \<noteq> 0 \<and> fl AND IWL_HCMD_DFL_DUP \<noteq> 0 \<longrightarrow> p_dup p = Some d))"

definition copy_next :: "u16 \<Rightarrow> u16 \<Rightarrow> u8 \<Rightarrow> u16" where
  "copy_next c len fl = (if mapped fl then c + of_nat (copy_part c len) else c + len)"

lemma copy_part_le: "copy_part c len \<le> unat len"
  by (simp add: copy_part_def)

lemma unat_add_nat: "unat c + k < 65536 \<Longrightarrow> unat (c + of_nat k) = unat c + k" for c :: u16
  using unat_add_lem[of c "of_nat k"] by (simp add: unat_of_nat)

lemma unat_add_chunk: "unat c + unat d < 65536 \<Longrightarrow> unat (c + d) = unat c + unat d" for c d :: u16
  using unat_add_lem[of c d] by simp

lemma unat_sub_nat: "k \<le> unat l \<Longrightarrow> unat (l - of_nat k) = unat l - k" for l :: u16
proof -
  assume k: "k \<le> unat l"
  moreover have "unat l < 2 ^ LENGTH(16)" by (rule unsigned_less)
  ultimately have "k < 65536" by simp
  then have "unat (of_nat k :: u16) = k" by (simp add: unat_of_nat)
  with k show ?thesis by (simp add: unat_sub word_le_nat_alt)
qed

lemma sized_start: "h < 65536 \<Longrightarrow> sized h [] \<lparr>p_copy = of_nat h, p_cmd = of_nat h, p_nocopy = False, p_dup = None, p_rest = []\<rparr>"
  by (simp add: sized_def unat_of_nat rest_bytes_def)

text \<open>One chunk: what is refused, and how the sizes go on.\<close>

lemma sized_mapped:
  assumes "sized h pay p" and "h + length pay + unat len < 65536" and "length data = unat len" and "unat len < 4096" and "mapped fl"
    and "p_rest p' = p_rest p @ [(drop (copy_part (p_copy p) len) data, len - of_nat (copy_part (p_copy p) len), fl)]"
    and "p_copy p' = p_copy p + of_nat (copy_part (p_copy p) len)" and "p_cmd p' = p_cmd p + len" and "p_nocopy p'"
    and "p_dup p = None \<or> p_dup p' = p_dup p"
    and "fl AND IWL_HCMD_DFL_DUP \<noteq> 0 \<longrightarrow> p_dup p' = Some (drop (copy_part (p_copy p) len) data)"
  shows "sized h (pay @ data) p'"
proof -
  let ?k = "copy_part (p_copy p) len"
  have k: "?k \<le> unat len" by (rule copy_part_le)
  have c: "h \<le> unat (p_copy p)" "unat (p_copy p) \<le> h + length pay" "unat (p_cmd p) = h + length pay"
    and pay: "pay = take (unat (p_copy p) - h) pay @ rest_bytes (p_rest p)"
    and full: "rest_bytes (p_rest p) \<noteq> [] \<longrightarrow> IWL_FIRST_TB_SIZE \<le> unat (p_copy p)" using assms(1) by (auto simp: sized_def)
  have c': "unat (p_copy p') = unat (p_copy p) + ?k" unfolding assms(7) using k c(2) assms(2) by (intro unat_add_nat) linarith
  have m': "unat (p_cmd p') = unat (p_cmd p) + unat len" unfolding assms(8) using c(3) assms(2) by (intro unat_add_chunk) linarith
  have l': "unat (len - of_nat ?k) = unat len - ?k" by (rule unat_sub_nat[OF k])
  have rest: "rest_bytes (p_rest p') = rest_bytes (p_rest p) @ drop ?k data" using assms(5) by (simp add: assms(6) rest_bytes_append)
  have eq: "pay @ data = take (unat (p_copy p') - h) (pay @ data) @ rest_bytes (p_rest p')"
  proof (cases "unat (p_copy p) < IWL_FIRST_TB_SIZE")
    case True
    with full have "rest_bytes (p_rest p) = []" by auto
    moreover from this pay c have "unat (p_copy p) - h = length pay" by (metis append_Nil2 length_take min.absorb_iff2 min_def le_diff_conv add.commute)
    moreover from calculation(2) c have "unat (p_copy p) + ?k - (h + length pay) = ?k" by linarith
    ultimately show ?thesis unfolding rest c' using c k assms(3) by simp
  next
    case False
    then have "?k = 0" by (simp add: copy_part_def)
    then show ?thesis unfolding rest c' using pay c by simp
  qed
  have full': "rest_bytes (p_rest p') \<noteq> [] \<longrightarrow> IWL_FIRST_TB_SIZE \<le> unat (p_copy p')"
    unfolding rest c' using full assms(3) by (auto simp: copy_part_def split: if_splits)
  have each: "length d = unat l \<and> unat l < 4096 \<and> (l \<noteq> 0 \<and> f AND IWL_HCMD_DFL_DUP \<noteq> 0 \<longrightarrow> p_dup p' = Some d)"
    if "(d, l, f) \<in> set (p_rest p')" and "mapped f" for d l f
  proof (cases "(d, l, f) \<in> set (p_rest p)")
    case True
    then have "length d = unat l" "unat l < 4096" "l \<noteq> 0 \<and> f AND IWL_HCMD_DFL_DUP \<noteq> 0 \<longrightarrow> p_dup p = Some d"
      using assms(1) that(2) by (auto simp: sized_def)
    then show ?thesis using assms(10) by auto
  next
    case False
    then have "d = drop ?k data" "l = len - of_nat ?k" "f = fl" using that(1) by (auto simp: assms(6))
    then show ?thesis using l' assms(3,4,11) by simp
  qed
  have "unat (p_cmd p') = h + length (pay @ data)" "h \<le> unat (p_copy p')" "unat (p_copy p') \<le> h + length (pay @ data)"
    using c c' m' k assms(3) by simp_all
  with eq full' each assms(9) show ?thesis unfolding sized_def by blast
qed

lemma sized_normal:
  assumes "sized h pay p" and "h + length pay + unat len < 65536" and "length data = unat len" and "\<not> mapped fl" and "\<not> p_nocopy p"
    and "p' = p\<lparr>p_copy := p_copy p + len, p_cmd := p_cmd p + len, p_rest := p_rest p @ [(d, l, fl)]\<rparr>"
  shows "sized h (pay @ data) p'"
proof -
  have c: "h \<le> unat (p_copy p)" "unat (p_copy p) \<le> h + length pay" "unat (p_cmd p) = h + length pay"
    and pay: "pay = take (unat (p_copy p) - h) pay @ rest_bytes (p_rest p)" and e: "rest_bytes (p_rest p) = []"
    using assms(1,5) by (auto simp: sized_def)
  from pay e c have "unat (p_copy p) = h + length pay" by (metis add_diff_inverse_nat append_Nil2 diff_le_self le_antisym le_diff_conv length_take min.cobounded2 nat_le_iff_add not_less add.commute)
  moreover have "unat (p_copy p + len) = unat (p_copy p) + unat len" using c assms(2) by (intro unat_add_chunk) linarith
  moreover have "unat (p_cmd p + len) = unat (p_cmd p) + unat len" using c assms(2) by (intro unat_add_chunk) linarith
  ultimately show ?thesis
    using assms c e by (auto simp: sized_def rest_bytes_append)
qed

lemma prep_chunk_sized:
  assumes "sized h pay p" and "h + length pay + unat len < 65536" and "length data = unat len" and "unat len < 4096"
  shows "\<exists>r p' m'. prep_chunk (data, len, fl) (p, m) = Inr (r, p', m') \<and> (False \<notin> set m \<longrightarrow> False \<notin> set m') \<and>
    (case r of Some e \<Rightarrow> e = EINVAL \<or> e = ENOMEM
     | None \<Rightarrow> sized h (pay @ data) p' \<and> (len \<noteq> 0 \<longrightarrow> p_copy p' = copy_next (p_copy p) len fl \<and> (\<not> mapped fl \<longrightarrow> \<not> p_nocopy p))
         \<and> (len = 0 \<longrightarrow> p_copy p' = p_copy p) \<and> unat (p_copy p) \<le> unat (p_copy p') \<and> length (p_rest p') = Suc (length (p_rest p)))"
proof (cases "len = 0")
  case True
  with assms show ?thesis
    by (auto simp: prep_chunk_def sized_def rest_bytes_append)
next
  case False
  let ?k = "copy_part (p_copy p) len"
  let ?d = "drop ?k data" and ?l = "len - of_nat ?k"
  have k: "?k \<le> unat len" by (rule copy_part_le)
  have c: "unat (p_copy p) \<le> h + length pay" using assms(1) by (simp add: sized_def)
  have up: "unat (p_copy p) \<le> unat (copy_next (p_copy p) len fl)"
    using unat_add_nat[of "p_copy p" ?k] unat_add_chunk[of "p_copy p" len] c k assms(2) by (simp add: copy_next_def)
  have "\<exists>bs. rd_bytes ?d 0 (unat ?l) = Inr bs \<and> bs = ?d"
    using assms(3) k by (simp add: rd_bytes_def unat_sub_nat)
  then have dup: "rd_bytes ?d 0 (unat ?l) = Inr ?d" by blast
  have alloc: "False \<notin> set m \<longrightarrow> fst (iwh_malloc m) \<and> False \<notin> set (snd (iwh_malloc m))" by (cases m) auto
  consider (no) "fl AND IWL_HCMD_DFL_NOCOPY \<noteq> 0" "fl AND IWL_HCMD_DFL_DUP \<noteq> 0"
    | (nocopy) "fl AND IWL_HCMD_DFL_NOCOPY \<noteq> 0" "fl AND IWL_HCMD_DFL_DUP = 0"
    | (dup) "fl AND IWL_HCMD_DFL_NOCOPY = 0" "fl AND IWL_HCMD_DFL_DUP \<noteq> 0"
    | (normal) "\<not> mapped fl" by (auto simp: mapped_def)
  then show ?thesis
  proof cases
    case no
    with False show ?thesis by (simp add: prep_chunk_def Let_def)
  next
    case nocopy
    let ?p = "p\<lparr>p_copy := p_copy p + of_nat ?k, p_rest := p_rest p @ [(?d, ?l, fl)], p_nocopy := True, p_cmd := p_cmd p + len\<rparr>"
    have m: "mapped fl" using nocopy by (simp add: mapped_def)
    have "sized h (pay @ data) ?p" using nocopy by (intro sized_mapped[OF assms m]) auto
    moreover have "prep_chunk (data, len, fl) (p, m) = ok (?p, m)" using False nocopy by (simp add: prep_chunk_def Let_def)
    ultimately show ?thesis using up m False by (simp add: copy_next_def)
  next
    case dup
    let ?p = "p\<lparr>p_copy := p_copy p + of_nat ?k, p_rest := p_rest p @ [(?d, ?l, fl)], p_nocopy := True, p_dup := Some ?d, p_cmd := p_cmd p + len\<rparr>"
    have m: "mapped fl" using dup by (simp add: mapped_def)
    show ?thesis
    proof (cases "p_dup p = None \<and> fst (iwh_malloc m)")
      case True
      have "sized h (pay @ data) ?p" using True by (intro sized_mapped[OF assms m]) auto
      moreover have "prep_chunk (data, len, fl) (p, m) = ok (?p, snd (iwh_malloc m))"
        using False dup True \<open>rd_bytes ?d 0 (unat ?l) = Inr ?d\<close> by (cases "iwh_malloc m") (simp add: prep_chunk_def Let_def)
      ultimately show ?thesis using up m False alloc by (simp add: copy_next_def)
    next
      case False
      with \<open>len \<noteq> 0\<close> dup alloc show ?thesis by (auto simp: prep_chunk_def Let_def split: prod.splits)
    qed
  next
    case normal
    then have f: "fl AND IWL_HCMD_DFL_NOCOPY = 0" "fl AND IWL_HCMD_DFL_DUP = 0" by (auto simp: mapped_def)
    show ?thesis
    proof (cases "p_nocopy p")
      case True
      with False f show ?thesis by (simp add: prep_chunk_def Let_def)
    next
      case nn: False
      let ?p = "p\<lparr>p_copy := p_copy p + len, p_cmd := p_cmd p + len, p_rest := p_rest p @ [(?d, ?l, fl)]\<rparr>"
      have "sized h (pay @ data) ?p" by (rule sized_normal[OF assms(1-3) normal nn refl])
      moreover have "prep_chunk (data, len, fl) (p, m) = ok (?p, m)"
        using False f nn by (simp add: prep_chunk_def Let_def algebra_simps)
      ultimately show ?thesis using up normal nn False by (simp add: copy_next_def)
    qed
  qed
qed

subsection \<open>Filling\<close>

text \<open>The entry is filled as far as there is room with the header and the bytes so far.\<close>

definition filled :: "u8 list \<Rightarrow> u8 list \<Rightarrow> u8 list \<Rightarrow> nat \<Rightarrow> bool" where
  "filled H pay buf pos \<longleftrightarrow> length buf = TFD_MAX_PAYLOAD_SIZE \<and> pos = min TFD_MAX_PAYLOAD_SIZE (length H + length pay)
     \<and> take pos buf = take pos (H @ pay)"

lemma wr_bytes_filled:
  assumes "filled H pay buf pos" and "n \<le> length data" and "n = length data \<or> pos + n = TFD_MAX_PAYLOAD_SIZE"
    and "pos + n \<le> TFD_MAX_PAYLOAD_SIZE"
  shows "\<exists>buf'. wr_bytes buf pos (take n data) = Inr buf' \<and> filled H (pay @ data) buf' (pos + n)"
proof -
  let ?b = "take pos buf @ take n data @ drop (pos + n) buf"
  have b: "length buf = TFD_MAX_PAYLOAD_SIZE" "pos = min TFD_MAX_PAYLOAD_SIZE (length H + length pay)" "take pos buf = take pos (H @ pay)"
    using assms(1) by (auto simp: filled_def)
  have w: "wr_bytes buf pos (take n data) = Inr ?b" using assms(2,4) b(1) by (simp add: wr_bytes_def)
  have len: "length ?b = TFD_MAX_PAYLOAD_SIZE" using b(1) assms(2,4) by simp
  have pos': "pos + n = min TFD_MAX_PAYLOAD_SIZE (length H + length (pay @ data))" using b(2) assms(2-4) by auto
  have "pos \<le> length buf" using b(1,2) by simp
  then have "take (pos + n) ?b = take pos buf @ take n data" using assms(2) by simp
  also have "\<dots> = take pos (H @ pay) @ take n data" unfolding b(3) ..
  also have "\<dots> = take (pos + n) (H @ pay @ data)"
  proof (cases "n = 0")
    case False
    then have "pos = length H + length pay" using assms(4) b(2) by auto
    then show ?thesis by simp
  next
    case True
    then have "pos \<le> length (H @ pay)" using b(2) by simp
    with True show ?thesis by (simp flip: append_assoc)
  qed
  finally show ?thesis using w len pos' by (auto simp: filled_def)
qed

lemma copy_loop_step:
  assumes "filled H pay buf pos" and "length data = unat len" and "len \<noteq> 0"
    and "\<not> mapped fl \<longrightarrow> length H + length pay + unat len \<le> TFD_MAX_PAYLOAD_SIZE"
  shows "\<exists>buf' pos'. copy_loop ((data, len, fl) # rest) (buf, pos, c) = copy_loop rest (buf', pos', copy_next c len fl)
    \<and> filled H (pay @ data) buf' pos'"
proof -
  have b: "pos = min TFD_MAX_PAYLOAD_SIZE (length H + length pay)" using assms(1) by (simp add: filled_def)
  show ?thesis
  proof (cases "mapped fl")
    case False
    with assms b obtain buf' where w: "wr_bytes buf pos data = Inr buf'" "filled H (pay @ data) buf' (pos + unat len)"
      using wr_bytes_filled[OF assms(1), of "unat len" data] by auto
    have "rd_bytes data 0 (unat len) = Inr data" using assms(2) by (simp add: rd_bytes_def)
    with w False assms(3) mapped_or[of fl] show ?thesis by (auto simp: copy_next_def)
  next
    case True
    define n where "n = min (TFD_MAX_PAYLOAD_SIZE - pos) (unat len)"
    have c: "min (int TFD_MAX_PAYLOAD_SIZE - int pos) (int (unat len)) = int n"
      unfolding n_def using b by (simp only: of_nat_min of_nat_diff min.cobounded1)
    have n: "n \<le> length data" "n = length data \<or> pos + n = TFD_MAX_PAYLOAD_SIZE" "pos + n \<le> TFD_MAX_PAYLOAD_SIZE"
      using b assms(2) by (auto simp: n_def)
    obtain buf' where w: "wr_bytes buf pos (take n data) = Inr buf'" "filled H (pay @ data) buf' (pos + n)"
      using wr_bytes_filled[OF assms(1) n] by blast
    have "rd_bytes data 0 n = Inr (take n data)" using n(1) by (simp add: rd_bytes_def)
    with w True assms(3) mapped_or[of fl] c show ?thesis by (auto simp: copy_next_def Let_def)
  qed
qed

lemma prep_and_copy:
  assumes "sized (length H) pay p" and "\<forall>ch \<in> set chs. chunk_ok ch" and "length H + length pay + 4096 * length chs < 65536"
  shows "\<exists>r p' m'. prep_loop chs (p, m) = Inr (r, p', m') \<and> (False \<notin> set m \<longrightarrow> False \<notin> set m') \<and>
    (case r of Some e \<Rightarrow> e = EINVAL \<or> e = ENOMEM
     | None \<Rightarrow> sized (length H) (pay @ payload chs) p' \<and> unat (p_copy p) \<le> unat (p_copy p')
         \<and> length (p_rest p') = length (p_rest p) + length chs
         \<and> (\<forall>buf pos. unat (p_copy p') \<le> TFD_MAX_PAYLOAD_SIZE \<longrightarrow> filled H pay buf pos \<longrightarrow>
              (\<exists>buf' pos'. copy_loop chs (buf, pos, p_copy p) = Inr (buf', pos', p_copy p') \<and> filled H (pay @ payload chs) buf' pos')))"
  using assms
proof (induction chs arbitrary: p m pay)
  case Nil
  then show ?case by (auto simp: payload_def)
next
  case (Cons ch chs)
  obtain data len fl where ch: "ch = (data, len, fl)" by (cases ch)
  have ok: "length data = unat len" "unat len < 4096" using Cons.prems(2) by (auto simp: ch chunk_ok_def)
  have lt: "length H + length pay + unat len < 65536" using ok Cons.prems(3) by simp
  obtain r p1 m1 where 1: "prep_chunk (data, len, fl) (p, m) = Inr (r, p1, m1)" "False \<notin> set m \<longrightarrow> False \<notin> set m1"
    and r: "case r of Some e \<Rightarrow> e = EINVAL \<or> e = ENOMEM
     | None \<Rightarrow> sized (length H) (pay @ data) p1 \<and> (len \<noteq> 0 \<longrightarrow> p_copy p1 = copy_next (p_copy p) len fl \<and> (\<not> mapped fl \<longrightarrow> \<not> p_nocopy p))
         \<and> (len = 0 \<longrightarrow> p_copy p1 = p_copy p) \<and> unat (p_copy p) \<le> unat (p_copy p1) \<and> length (p_rest p1) = Suc (length (p_rest p))"
    using prep_chunk_sized[OF Cons.prems(1) lt ok, of fl m] by blast
  show ?case
  proof (cases r)
    case (Some e)
    with 1 r show ?thesis by (auto simp: ch)
  next
    case None
    with r have s1: "sized (length H) (pay @ data) p1" and c1: "len \<noteq> 0 \<Longrightarrow> p_copy p1 = copy_next (p_copy p) len fl"
      "len \<noteq> 0 \<Longrightarrow> \<not> mapped fl \<Longrightarrow> \<not> p_nocopy p" "len = 0 \<Longrightarrow> p_copy p1 = p_copy p" "unat (p_copy p) \<le> unat (p_copy p1)"
      and l1: "length (p_rest p1) = Suc (length (p_rest p))" by auto
    have "length H + length (pay @ data) + 4096 * length chs < 65536" using ok Cons.prems(3) by simp
    from Cons.IH[OF s1 _ this, of m1] Cons.prems(2) obtain r' p' m' where
      2: "prep_loop chs (p1, m1) = Inr (r', p', m')" "False \<notin> set m1 \<longrightarrow> False \<notin> set m'" and
      r': "case r' of Some e \<Rightarrow> e = EINVAL \<or> e = ENOMEM
       | None \<Rightarrow> sized (length H) ((pay @ data) @ payload chs) p' \<and> unat (p_copy p1) \<le> unat (p_copy p')
         \<and> length (p_rest p') = length (p_rest p1) + length chs
         \<and> (\<forall>buf pos. unat (p_copy p') \<le> TFD_MAX_PAYLOAD_SIZE \<longrightarrow> filled H (pay @ data) buf pos \<longrightarrow>
              (\<exists>buf' pos'. copy_loop chs (buf, pos, p_copy p1) = Inr (buf', pos', p_copy p') \<and> filled H ((pay @ data) @ payload chs) buf' pos'))"
      by auto
    have run: "prep_loop (ch # chs) (p, m) = Inr (r', p', m')" using 1 2 None by (simp add: ch)
    show ?thesis
    proof (cases r')
      case (Some e)
      with run r' 1 2 show ?thesis by auto
    next
      case none: None
      have step: "\<exists>buf' pos'. copy_loop (ch # chs) (buf, pos, p_copy p) = Inr (buf', pos', p_copy p') \<and> filled H (pay @ payload (ch # chs)) buf' pos'"
        if small: "unat (p_copy p') \<le> TFD_MAX_PAYLOAD_SIZE" and f: "filled H pay buf pos" for buf pos
      proof -
        have le: "unat (p_copy p1) \<le> TFD_MAX_PAYLOAD_SIZE" using r' none small by simp
        have "\<exists>buf1 pos1. copy_loop (ch # chs) (buf, pos, p_copy p) = copy_loop chs (buf1, pos1, p_copy p1) \<and> filled H (pay @ data) buf1 pos1"
        proof (cases "len = 0")
          case True
          with c1(3) ok f show ?thesis by (auto simp: ch)
        next
          case False
          have "length H + length pay + unat len \<le> TFD_MAX_PAYLOAD_SIZE" if "\<not> mapped fl"
          proof -
            have c: "length H \<le> unat (p_copy p)" "unat (p_copy p) \<le> length H + length pay" "pay = take (unat (p_copy p) - length H) pay"
              using Cons.prems(1) c1(2)[OF False that] by (auto simp: sized_def)
            from c have "unat (p_copy p) = length H + length pay" by (metis add_diff_inverse_nat le_antisym le_diff_conv length_take min.cobounded2 not_less nat_add_left_cancel_le)
            moreover have "unat (p_copy p + len) = unat (p_copy p) + unat len" using c lt by (intro unat_add_chunk) linarith
            ultimately show ?thesis using le c1(1)[OF False] that by (simp add: copy_next_def)
          qed
          with copy_loop_step[OF f ok(1) False, of fl chs "p_copy p"] c1(1)[OF False] show ?thesis by (auto simp: ch)
        qed
        then obtain buf1 pos1 where b1: "copy_loop (ch # chs) (buf, pos, p_copy p) = copy_loop chs (buf1, pos1, p_copy p1)" "filled H (pay @ data) buf1 pos1"
          by blast
        from r' none small b1(2) obtain buf' pos' where "copy_loop chs (buf1, pos1, p_copy p1) = Inr (buf', pos', p_copy p')"
          "filled H ((pay @ data) @ payload chs) buf' pos'" by fastforce
        with b1(1) show ?thesis by (auto simp: ch payload_def)
      qed
      show ?thesis using run r' none 1 2 l1 c1(4) step by (auto simp: ch payload_def)
    qed
  qed
qed

end
