(* ===== verification/Tx_Delivery.thy ===== *)
theory Tx_Delivery
  imports Tx_Enqueue
begin

section \<open>Enqueued commands arrive\<close>

text \<open>
  The fragments of a descriptor as the device reads them, the invariants of an entry that is being filled, and the
  functional correctness of \<open>iwl_pcie_enqueue_hcmd\<close> for every outcome.
\<close>

subsection \<open>Reading a descriptor\<close>

definition frag_bytes :: "iwl_tfd \<Rightarrow> (u64 \<Rightarrow> u8 list option) \<Rightarrow> nat \<Rightarrow> u8 list" where
  "frag_bytes t m i = (case (iwl_pcie_tfd_tb_get_addr t i, iwl_pcie_tfd_tb_get_len t i) of
     (Inr a, Inr l) \<Rightarrow> (case m a of Some bs \<Rightarrow> take (unat l) bs | None \<Rightarrow> []) | _ \<Rightarrow> [])"

definition device_sees :: "iwl_tfd \<Rightarrow> (u64 \<Rightarrow> u8 list option) \<Rightarrow> u8 list" where
  "device_sees t m = concat (map (frag_bytes t m) [0..<iwl_pcie_tfd_get_num_tbs t])"

text \<open>The descriptor at the write index has \<open>k\<close> fragments in live buffers, which read as \<open>bs\<close>.\<close>

definition built :: "iwl_txq \<Rightarrow> (u64 \<Rightarrow> u8 list option) \<Rightarrow> u8 list \<Rightarrow> nat \<Rightarrow> bool" where
  "built q m bs k \<longleftrightarrow> (\<exists>t. tfd_at q (write_ptr q) = Inr t \<and> length (tbs t) = IWL_NUM_OF_TBS \<and> iwl_pcie_tfd_get_num_tbs t = k
     \<and> device_sees t m = bs \<and> (\<forall>i < k. \<exists>a. iwl_pcie_tfd_tb_get_addr t i = Inr a \<and> m a \<noteq> None))"

lemma same_tb: "tbs t' ! i = tbs t ! i \<Longrightarrow> length (tbs t') = length (tbs t) \<Longrightarrow>
    iwl_pcie_tfd_tb_get_addr t' i = iwl_pcie_tfd_tb_get_addr t i \<and> iwl_pcie_tfd_tb_get_len t' i = iwl_pcie_tfd_tb_get_len t i"
  by (simp add: iwl_pcie_tfd_tb_get_addr_def iwl_pcie_tfd_tb_get_len_def)

lemma frag_len: "n < 4096 \<Longrightarrow> unat (take_bit 12 (of_nat n :: u16)) = n"
proof -
  assume n: "n < 4096"
  then have "unat (of_nat n :: u16) = n" by (simp only: unat_of_nat) simp
  with n show ?thesis by (simp only: unsigned_take_bit_eq) (simp add: take_bit_eq_mod)
qed

lemma built_cong: "tfds q' = tfds q \<Longrightarrow> write_ptr q' = write_ptr q \<Longrightarrow> built q' m bs k = built q m bs k"
proof -
  assume "tfds q' = tfds q" and w: "write_ptr q' = write_ptr q"
  then have "tfd_at q' (write_ptr q') = tfd_at q (write_ptr q)" by (simp add: tfd_at_def)
  then show ?thesis by (simp add: built_def)
qed

lemma built_first:
  assumes "tfd_at q (write_ptr q) = Inr t" and "length (tbs t) = IWL_NUM_OF_TBS" and "uint a < 2 ^ 36"
    and "m a = Some buf" and "n \<le> length buf" and "n < 4096"
  shows "\<exists>r t'. iwl_pcie_txq_build_tfd a (of_nat n) True q = Inr (r, put_tfd (write_ptr q) t' q)
    \<and> built (put_tfd (write_ptr q) t' q) m (take n buf) 1"
proof -
  obtain t' where b: "iwl_pcie_txq_build_tfd a (of_nat n) True q = Inr (Inr 0, put_tfd (write_ptr q) t' q)"
    "tfd_at (put_tfd (write_ptr q) t' q) (write_ptr q) = Inr t'" "iwl_pcie_tfd_get_num_tbs t' = 1" "length (tbs t') = IWL_NUM_OF_TBS"
    "iwl_pcie_tfd_tb_get_addr t' 0 = Inr a" "iwl_pcie_tfd_tb_get_len t' 0 = Inr (take_bit 12 (of_nat n))"
    using build_tfd_ok[OF assms(1,2), of 0 True a "of_nat n"] dma_address[of a] assms(3) by (auto simp: IWL_NUM_OF_TBS_def)
  then have "device_sees t' m = take n buf"
    using assms(4) frag_len[OF assms(6)] by (simp add: device_sees_def frag_bytes_def)
  with b assms(4) show ?thesis by (auto simp: built_def put_tfd_def)
qed

lemma built_add:
  assumes "built q m bs k" and "k < IWL_NUM_OF_TBS" and "m a = None" and "uint a < 2 ^ 36" and "length data < 4096"
  shows "\<exists>t'. iwl_pcie_txq_build_tfd a (of_nat (length data)) False q = Inr (Inr k, put_tfd (write_ptr q) t' q)
    \<and> built (put_tfd (write_ptr q) t' q) (m(a \<mapsto> data)) (bs @ data) (k + 1)"
proof -
  obtain t where t: "tfd_at q (write_ptr q) = Inr t" "length (tbs t) = IWL_NUM_OF_TBS" "iwl_pcie_tfd_get_num_tbs t = k"
    "device_sees t m = bs" "\<And>i. i < k \<Longrightarrow> \<exists>a. iwl_pcie_tfd_tb_get_addr t i = Inr a \<and> m a \<noteq> None"
    using assms(1) by (auto simp: built_def)
  obtain t' where b: "iwl_pcie_txq_build_tfd a (of_nat (length data)) False q = Inr (Inr k, put_tfd (write_ptr q) t' q)"
    "tfd_at (put_tfd (write_ptr q) t' q) (write_ptr q) = Inr t'" "iwl_pcie_tfd_get_num_tbs t' = k + 1" "length (tbs t') = IWL_NUM_OF_TBS"
    "\<forall>j < k. tbs t' ! j = tbs t ! j"
    "iwl_pcie_tfd_tb_get_addr t' k = Inr a" "iwl_pcie_tfd_tb_get_len t' k = Inr (take_bit 12 (of_nat (length data)))"
    using build_tfd_ok[OF t(1,2), of k False a "of_nat (length data)"] t(3) dma_address[of a] assms(2,4) by auto
  have same: "iwl_pcie_tfd_tb_get_addr t' i = iwl_pcie_tfd_tb_get_addr t i" "iwl_pcie_tfd_tb_get_len t' i = iwl_pcie_tfd_tb_get_len t i"
    if "i < k" for i using same_tb[of t' i t] b(4,5) t(2) that by auto
  have old: "frag_bytes t' (m(a \<mapsto> data)) i = frag_bytes t m i" if "i < k" for i
    using same[OF that] t(5)[OF that] assms(3) by (auto simp: frag_bytes_def split: sum.splits option.splits)
  have "frag_bytes t' (m(a \<mapsto> data)) k = data" using b(6,7) frag_len[OF assms(5)] by (simp add: frag_bytes_def)
  moreover have "map (frag_bytes t' (m(a \<mapsto> data))) [0..<k] = map (frag_bytes t m) [0..<k]" using old by simp
  ultimately have "device_sees t' (m(a \<mapsto> data)) = bs @ data"
    using t(3,4) by (simp add: device_sees_def b(3) del: map_eq_conv)
  moreover have "\<exists>a'. iwl_pcie_tfd_tb_get_addr t' i = Inr a' \<and> (m(a \<mapsto> data)) a' \<noteq> None" if "i < k + 1" for i
  proof (cases "i = k")
    case False
    then show ?thesis using that same(1)[of i] t(5)[of i] by auto
  qed (use b(6) in auto)
  moreover have "write_ptr (put_tfd (write_ptr q) t' q) = write_ptr q" by (simp add: put_tfd_def)
  ultimately show ?thesis using b(1-4) unfolding built_def by metis
qed

subsection \<open>What stays as it is\<close>

definition same_ring :: "iwl_txq \<Rightarrow> iwl_txq \<Rightarrow> bool" where
  "same_ring q q' \<longleftrightarrow> write_ptr q' = write_ptr q \<and> read_ptr q' = read_ptr q \<and> n_window q' = n_window q \<and> txq_id q' = txq_id q
     \<and> txq_block q' = txq_block q \<and> first_tb_dma q' = first_tb_dma q \<and> length (tfds q') = length (tfds q)
     \<and> length (txq_entries q') = length (txq_entries q)"

definition same_trans :: "'d pcie \<Rightarrow> 'd pcie \<Rightarrow> bool" where
  "same_trans s s' \<longleftrightarrow> pcie_trans s' = pcie_trans s \<and> ref_cmd_in_flight s' = ref_cmd_in_flight s \<and> trans_refs s' = trans_refs s"

lemma same_ring_trans: "same_ring a b \<Longrightarrow> same_ring b c \<Longrightarrow> same_ring a c"
  by (simp add: same_ring_def)

lemma same_trans_trans: "same_trans a b \<Longrightarrow> same_trans b c \<Longrightarrow> same_trans a c"
  by (simp add: same_trans_def)

lemma same_refl [simp]: "same_ring q q" "same_trans s s"
  by (simp_all add: same_ring_def same_trans_def)

lemma same_put: "same_ring q (put_tfd i t q)"
  by (simp add: same_ring_def put_tfd_def)

lemma same_upd: "upd_entry i f q = Inr q' \<Longrightarrow> same_ring q q' \<and> tfds q' = tfds q"
  by (auto simp: upd_entry_def same_ring_def split: if_splits)

subsection \<open>The buffers of an entry\<close>

definition dmas_ok :: "u64 option list \<Rightarrow> (u64 \<Rightarrow> u8 list option) \<Rightarrow> bool" where
  "dmas_ok ds m \<longleftrightarrow> distinct (filter (\<lambda>d. d \<noteq> None) ds) \<and> (\<forall>a. Some a \<in> set ds \<longrightarrow> m a \<noteq> None)"

lemma free_dmas_ok: "dmas_ok ds (dma_mem s) \<Longrightarrow> \<exists>s'. free_dmas ds s = Inr s' \<and> same_trans s s'"
proof (induction ds arbitrary: s)
  case (Cons d ds)
  show ?case
  proof (cases d)
    case None
    with Cons show ?thesis by (auto simp: dmas_ok_def)
  next
    case (Some a)
    let ?s = "s\<lparr>dma_mem := (dma_mem s)(a := None)\<rparr>"
    have "dmas_ok ds (dma_mem ?s)" using Cons.prems Some by (auto simp: dmas_ok_def)
    with Cons.IH[of ?s] obtain s' where "free_dmas ds ?s = Inr s'" "same_trans ?s s'" by blast
    with Some Cons.prems show ?thesis by (auto simp: free_dma_buf_def dmas_ok_def same_trans_def)
  qed
qed simp

lemma dmas_ok_update:
  assumes "dmas_ok ds m" and "i < length ds" and "ds ! i = None" and "m a = None"
  shows "dmas_ok (ds[i := Some a]) (m(a \<mapsto> bs))"
proof -
  have ds: "ds = take i ds @ None # drop (Suc i) ds" using assms(2,3) id_take_nth_drop[of i ds] by simp
  have new: "ds[i := Some a] = take i ds @ Some a # drop (Suc i) ds" using assms(2) by (simp add: upd_conv_take_nth_drop)
  have "distinct (filter (\<lambda>d. d \<noteq> None) (take i ds @ None # drop (Suc i) ds))" using assms(1) ds by (simp add: dmas_ok_def)
  moreover have "Some a \<notin> set (take i ds @ None # drop (Suc i) ds)" using assms(1,4) unfolding ds[symmetric] by (auto simp: dmas_ok_def)
  ultimately have "distinct (filter (\<lambda>d. d \<noteq> None) (ds[i := Some a]))" unfolding new by auto
  moreover have "set (ds[i := Some a]) \<subseteq> insert (Some a) (set ds)" by (rule set_update_subset_insert)
  ultimately show ?thesis using assms(1) by (auto simp: dmas_ok_def)
qed

text \<open>The entry that is being filled: whether it points to its command, and \<open>i\<close> is the next free place in its list of buffers.\<close>

definition held :: "iwl_txq \<Rightarrow> (u64 \<Rightarrow> u8 list option) \<Rightarrow> nat \<Rightarrow> bool \<Rightarrow> nat \<Rightarrow> bool" where
  "held q m idx src i \<longleftrightarrow> idx < length (txq_entries q) \<and> (let ds = ent_dma (txq_entries q ! idx) in
     ent_source (txq_entries q ! idx) = src \<and> length ds = 3 \<and> dmas_ok ds m \<and> (\<forall>j < 3. i \<le> j \<longrightarrow> ds ! j = None))"

lemma held_mono: "held q m idx src i \<Longrightarrow> i \<le> j \<Longrightarrow> held q m idx src j"
  by (auto simp: held_def Let_def)

definition env_ok :: "dma_env \<Rightarrow> bool" where
  "env_ok env \<longleftrightarrow> (\<forall>m n a. env m n = Some a \<longrightarrow> m a = None \<and> uint a < 2 ^ 36)"

lemma unmap_returns:
  assumes "held q (dma_mem s) idx src i" and "iwl_pcie_get_cmd_index q index < length (tfds q)"
  shows "\<exists>q' s'. iwl_pcie_tfd_unmap idx index (q, s) = Inr (q', s') \<and> same_ring q q' \<and> same_trans s s'"
proof -
  let ?i = "iwl_pcie_get_tfd q index"
  obtain t where t: "tfd_at q ?i = Inr t" using assms(2) by (auto simp: tfd_at_def iwl_pcie_get_tfd_def)
  have h: "idx < length (txq_entries q)" "dmas_ok (ent_dma (txq_entries q ! idx)) (dma_mem s)"
    using assms(1) by (auto simp: held_def Let_def)
  obtain s' where s': "free_dmas (ent_dma (txq_entries q ! idx)) s = Inr s'" "same_trans s s'" using free_dmas_ok[OF h(2)] by blast
  show ?thesis
  proof (cases "iwl_pcie_tfd_get_num_tbs t \<ge> IWL_NUM_OF_TBS")
    case False
    obtain q1 where q1: "upd_entry idx (\<lambda>e. e\<lparr>ent_dma := replicate (length (ent_dma e)) None\<rparr>) q = Inr q1"
      using h(1) by (auto simp: upd_entry_def)
    have "iwl_pcie_tfd_unmap idx index (q, s) = Inr (put_tfd ?i (t\<lparr>num_tbs := 0\<rparr>) q1, s')"
      using t False s'(1) h(1) q1 by (simp add: iwl_pcie_tfd_unmap_def entry_at_def)
    then show ?thesis using s'(2) same_ring_trans same_put same_upd[OF q1] by blast
  qed (use t in \<open>auto simp: iwl_pcie_tfd_unmap_def\<close>)
qed

subsection \<open>Mapping\<close>

lemma map_fragment_adds:
  assumes "env_ok env" and "False \<notin> set (pcie_answers s)" and "built q (dma_mem s) bs k" and "k < IWL_NUM_OF_TBS"
    and "held q (dma_mem s) idx src i" and "i < 3" and "length data < 4096" and "iwl_pcie_get_cmd_index q (write_ptr q) < length (tfds q)"
  shows "\<exists>r q' s'. map_fragment env idx i data (q, s) = Inr (r, q', s') \<and> same_ring q q' \<and> same_trans s s' \<and>
    (case r of Some e \<Rightarrow> e = ENOMEM
     | None \<Rightarrow> False \<notin> set (pcie_answers s') \<and> built q' (dma_mem s') (bs @ data) (k + 1) \<and> held q' (dma_mem s') idx src (i + 1))"
proof (cases "env (dma_mem s) (length data)")
  case None
  obtain q' s' where "iwl_pcie_tfd_unmap idx (write_ptr q) (q, s) = Inr (q', s')" "same_ring q q'" "same_trans s s'"
    using unmap_returns[OF assms(5,8)] by blast
  with None show ?thesis by (simp add: map_fragment_def allocate_dma_buf_def)
next
  case (Some a)
  have a: "dma_mem s a = None" "uint a < 2 ^ 36" using assms(1) Some by (auto simp: env_ok_def)
  obtain m where m: "iwh_malloc (pcie_answers s) = (True, m)" "False \<notin> set m" using assms(2) by (cases "pcie_answers s") auto
  let ?s = "s\<lparr>dma_mem := (dma_mem s)(a \<mapsto> data), pcie_answers := m\<rparr>"
  have h: "idx < length (txq_entries q)" "length (ent_dma (txq_entries q ! idx)) = 3" "dmas_ok (ent_dma (txq_entries q ! idx)) (dma_mem s)"
    "\<forall>j < 3. i \<le> j \<longrightarrow> ent_dma (txq_entries q ! idx) ! j = None" using assms(5) by (auto simp: held_def Let_def)
  define q1 where "q1 = q\<lparr>txq_entries := (txq_entries q)[idx := (txq_entries q ! idx)\<lparr>ent_dma := (ent_dma (txq_entries q ! idx))[i := Some a]\<rparr>]\<rparr>"
  have q1: "upd_entry idx (\<lambda>e. e\<lparr>ent_dma := (ent_dma e)[i := Some a]\<rparr>) q = Inr q1" using h(1) by (simp add: upd_entry_def q1_def)
  have "built q1 (dma_mem s) bs k" using assms(3) built_cong[of q1 q] by (simp add: q1_def)
  from built_add[OF this assms(4) a assms(7)] obtain t' where
    b: "iwl_pcie_txq_build_tfd a (of_nat (length data)) False q1 = Inr (Inr k, put_tfd (write_ptr q1) t' q1)"
      "built (put_tfd (write_ptr q1) t' q1) ((dma_mem s)(a \<mapsto> data)) (bs @ data) (k + 1)" by blast
  have "dmas_ok ((ent_dma (txq_entries q ! idx))[i := Some a]) ((dma_mem s)(a \<mapsto> data))"
    using dmas_ok_update[OF h(3)] h(2,4) assms(6) a(1) by simp
  then have hd: "held (put_tfd (write_ptr q1) t' q1) (dma_mem ?s) idx src (i + 1)"
    using h(1,2,4) assms(5) by (simp add: held_def Let_def q1_def put_tfd_def nth_list_update)
  have "map_fragment env idx i data (q, s) = ok (put_tfd (write_ptr q1) t' q1, ?s)"
    using Some m(1) q1 b(1) by (simp add: map_fragment_def allocate_dma_buf_def dma_write_def wr_bytes_def)
  moreover have "same_ring q (put_tfd (write_ptr q1) t' q1)" using same_ring_trans same_put same_upd[OF q1] by blast
  moreover have "same_trans s ?s" by (simp add: same_trans_def)
  ultimately show ?thesis using m(2) b(2) hd by auto
qed

lemma map_rest_adds:
  assumes "env_ok env" and "False \<notin> set (pcie_answers s)" and "built q (dma_mem s) bs k" and "k + length rs < IWL_NUM_OF_TBS"
    and "held q (dma_mem s) idx src (i + 1)" and "i + length rs < 3" and "iwl_pcie_get_cmd_index q (write_ptr q) < length (tfds q)"
    and "\<forall>(d, l, fl) \<in> set rs. mapped fl \<longrightarrow> length d = unat l \<and> unat l < 4096
          \<and> (l \<noteq> 0 \<and> fl AND IWL_HCMD_DFL_DUP \<noteq> 0 \<longrightarrow> dup = Some d)"
  shows "\<exists>r q' s'. map_rest env idx dup i rs (q, s) = Inr (r, q', s') \<and> same_ring q q' \<and> same_trans s s' \<and>
    (case r of Some e \<Rightarrow> e = ENOMEM | None \<Rightarrow> (\<exists>k'. built q' (dma_mem s') (bs @ rest_bytes rs) k') \<and> (\<exists>j. held q' (dma_mem s') idx src j))"
  using assms(2-)
proof (induction rs arbitrary: q s bs k i)
  case Nil
  then show ?case by (auto simp: rest_bytes_def)
next
  case (Cons c rs)
  obtain d l fl where c: "c = (d, l, fl)" by (cases c)
  show ?case
  proof (cases "l = 0 \<or> \<not> mapped fl")
    case True
    then have bytes: "rest_bytes (c # rs) = rest_bytes rs" using Cons.prems(7) by (auto simp: c rest_bytes_def)
    have run: "map_rest env idx dup i (c # rs) (q, s) = map_rest env idx dup (i + 1) rs (q, s)"
      using True mapped_or[of fl] by (auto simp: c)
    have hd: "held q (dma_mem s) idx src (i + 1 + 1)" by (rule held_mono[OF Cons.prems(4)]) simp
    show ?thesis
      unfolding bytes run by (rule Cons.IH[OF Cons.prems(1,2) _ hd _ Cons.prems(6)]) (use Cons.prems(3,5,7) in auto)
  next
    case False
    then have f: "l \<noteq> 0" "mapped fl" "length d = unat l" "unat l < 4096" "fl AND IWL_HCMD_DFL_DUP \<noteq> 0 \<longrightarrow> dup = Some d"
      using Cons.prems(7) by (auto simp: c)
    have "rd_bytes d 0 (unat l) = Inr d" using f(3) by (simp add: rd_bytes_def)
    then have run: "map_rest env idx dup i (c # rs) (q, s) = thenS (map_fragment env idx (i + 1) d (q, s)) (map_rest env idx dup (i + 1) rs)"
      using f mapped_or[of fl] by (auto simp: c)
    obtain r q1 s1 where 1: "map_fragment env idx (i + 1) d (q, s) = Inr (r, q1, s1)" "same_ring q q1" "same_trans s s1" and
      r: "case r of Some e \<Rightarrow> e = ENOMEM
       | None \<Rightarrow> False \<notin> set (pcie_answers s1) \<and> built q1 (dma_mem s1) (bs @ d) (k + 1) \<and> held q1 (dma_mem s1) idx src (i + 1 + 1)"
      using map_fragment_adds[OF assms(1) Cons.prems(1,2) _ Cons.prems(4), of d] Cons.prems(3,5,6) f(3,4) by auto
    show ?thesis
    proof (cases r)
      case (Some e)
      with run 1 r show ?thesis by auto
    next
      case None
      have "iwl_pcie_get_cmd_index q1 (write_ptr q1) < length (tfds q1)"
        using 1(2) Cons.prems(6) by (simp add: same_ring_def iwl_pcie_get_cmd_index_def)
      from Cons.IH[OF _ _ _ _ _ this, of s1 "bs @ d" "k + 1" "i + 1"] r None Cons.prems(3,5,7)
      obtain r' q' s' where 2: "map_rest env idx dup (i + 1) rs (q1, s1) = Inr (r', q', s')" "same_ring q1 q'" "same_trans s1 s'"
        and r': "case r' of Some e \<Rightarrow> e = ENOMEM | None \<Rightarrow> (\<exists>k'. built q' (dma_mem s') ((bs @ d) @ rest_bytes rs) k')
            \<and> (\<exists>j. held q' (dma_mem s') idx src j)" by auto
      have bytes: "(bs @ d) @ rest_bytes rs = bs @ rest_bytes (c # rs)" using f(2) by (simp add: c rest_bytes_def)
      have "map_rest env idx dup i (c # rs) (q, s) = Inr (r', q', s')" using run 1 2 None by simp
      with r'[unfolded bytes] same_ring_trans[OF 1(2) 2(2)] same_trans_trans[OF 1(3) 2(3)] show ?thesis by blast
    qed
  qed
qed

subsection \<open>The entry and the first fragment\<close>

text \<open>A command queue in working order: its descriptors, its entries, and the buffers of the first fragments.\<close>

definition txq_wf :: "iwl_txq \<Rightarrow> 'd pcie \<Rightarrow> bool" where
  "txq_wf q s \<longleftrightarrow> ring_ok q \<and> length (tfds q) = 256 \<and> (\<forall>t \<in> set (tfds q). length (tbs t) = IWL_NUM_OF_TBS)
     \<and> n_window q \<le> int (length (txq_entries q))
     \<and> (\<forall>e \<in> set (txq_entries q). length (ent_cmd e) = TFD_MAX_PAYLOAD_SIZE \<and> length (ent_dma e) = 3)
     \<and> (\<forall>i. int i < n_window q \<longrightarrow> uint (iwl_pcie_get_first_tb_dma q i) < 2 ^ 36
          \<and> (\<exists>b. dma_mem s (iwl_pcie_get_first_tb_dma q i) = Some b \<and> IWL_FIRST_TB_SIZE \<le> length b))"

lemma index_in_window:
  assumes "ring_ok q"
  shows "int (iwl_pcie_get_cmd_index q x) < n_window q" and "iwl_pcie_get_cmd_index q x < 256"
proof -
  obtain k where k: "n_window q = 2 ^ k" using assms by (auto simp: ring_ok_def)
  have "int (iwl_pcie_get_cmd_index q x) = take_bit 8 (take_bit k x)"
    by (simp add: iwl_pcie_get_cmd_index_def k unsigned_of_int take_bit_eq_mask[of k x] mask_eq_exp_minus_1)
  also have "\<dots> \<le> take_bit k x" by (simp add: take_bit_eq_mod zmod_le_nonneg_dividend)
  also have "\<dots> < 2 ^ k" by (rule take_bit_int_less_exp)
  finally show "int (iwl_pcie_get_cmd_index q x) < n_window q" by (simp add: k)
  show "iwl_pcie_get_cmd_index q x < 256"
    using unsigned_less[where w = "word_of_int (x AND (n_window q - 1)) :: u8"] by (simp add: iwl_pcie_get_cmd_index_def)
qed

lemma header_length: "length (cmd_header cid cmdq wp n) = header_size cid"
  by (simp add: cmd_header_def header_size_def enc16_def)

lemma entry_filled:
  assumes "txq_wf q s" and "idx = iwl_pcie_get_cmd_index q (write_ptr q)"
    and "\<And>buf pos. filled (cmd_header (host_id hc) (cmd_queue c) (write_ptr q) (p_cmd p)) [] buf pos \<Longrightarrow>
      \<exists>buf' pos'. copy_loop (host_data hc) (buf, pos, of_nat (header_size (host_id hc))) = Inr (buf', pos', copied)
        \<and> filled (cmd_header (host_id hc) (cmd_queue c) (write_ptr q) (p_cmd p)) pay buf' pos'"
    and "unat copied \<le> TFD_MAX_PAYLOAD_SIZE" and "unat copied \<le> header_size (host_id hc) + length pay"
  shows "\<exists>buf q' s' k. enqueue_entry c hc p idx (q, s) = Inr (buf, copied, q', s') \<and> same_ring q q' \<and> same_trans s s'
    \<and> pcie_answers s' = pcie_answers s \<and> k = 1
    \<and> built q' (dma_mem s') (take (min (unat copied) IWL_FIRST_TB_SIZE) (cmd_header (host_id hc) (cmd_queue c) (write_ptr q) (p_cmd p) @ pay)) k
    \<and> held q' (dma_mem s') idx (host_flags hc AND CMD_WANT_SKB \<noteq> 0) 0
    \<and> length buf = TFD_MAX_PAYLOAD_SIZE
    \<and> take (unat copied) buf = take (unat copied) (cmd_header (host_id hc) (cmd_queue c) (write_ptr q) (p_cmd p) @ pay)"
proof -
  define H where "H = cmd_header (host_id hc) (cmd_queue c) (write_ptr q) (p_cmd p)"
  have H: "length H = header_size (host_id hc)" unfolding H_def by (rule header_length)
  have rk: "ring_ok q" using assms(1) by (simp add: txq_wf_def)
  have i: "idx < length (txq_entries q)" "int idx < n_window q"
    using index_in_window[OF rk, of "write_ptr q"] assms(1,2) by (auto simp: txq_wf_def)
  let ?e = "txq_entries q ! idx"
  have e: "length (ent_cmd ?e) = TFD_MAX_PAYLOAD_SIZE" "length (ent_dma ?e) = 3" using assms(1) i(1) by (auto simp: txq_wf_def)
  have h8: "header_size (host_id hc) \<le> 8" by (simp add: header_size_def)
  define buf0 where "buf0 = H @ drop (length H) (ent_cmd ?e)"
  have w: "wr_bytes (ent_cmd ?e) 0 H = Inr buf0" using e(1) h8 H by (simp add: wr_bytes_def buf0_def TFD_MAX_PAYLOAD_SIZE_def)
  have "filled H [] buf0 (header_size (host_id hc))" using e(1) h8 H by (simp add: filled_def buf0_def TFD_MAX_PAYLOAD_SIZE_def)
  then obtain buf pos where cl: "copy_loop (host_data hc) (buf0, header_size (host_id hc), of_nat (header_size (host_id hc))) = Inr (buf, pos, copied)"
    and f: "filled H pay buf pos" using assms(3)[folded H_def] by blast
  have pos: "unat copied \<le> pos" using f assms(4,5) H by (simp add: filled_def)
  have lb: "length buf = TFD_MAX_PAYLOAD_SIZE" and tb: "take pos buf = take pos (H @ pay)" using f by (auto simp: filled_def)
  have tk: "take n buf = take n (H @ pay)" if "n \<le> pos" for n
    using arg_cong[OF tb, of "take n"] that by (simp add: min.absorb1 del: take_append)
  let ?tb0 = "min (unat copied) IWL_FIRST_TB_SIZE"
  let ?first = "take ?tb0 buf"
  have lf: "length ?first = ?tb0" using lb by (simp add: TFD_MAX_PAYLOAD_SIZE_def IWL_FIRST_TB_SIZE_def)
  have rd: "rd_bytes buf 0 ?tb0 = Inr ?first" using lb by (simp add: rd_bytes_def TFD_MAX_PAYLOAD_SIZE_def IWL_FIRST_TB_SIZE_def)
  let ?a = "iwl_pcie_get_first_tb_dma q idx"
  obtain b where b: "dma_mem s ?a = Some b" "IWL_FIRST_TB_SIZE \<le> length b" and a36: "uint ?a < 2 ^ 36"
    using assms(1) i(2) by (auto simp: txq_wf_def)
  define q1 where "q1 = q\<lparr>txq_entries := (txq_entries q)[idx := ?e\<lparr>ent_cmd := buf, ent_flags := 0,
      ent_source := host_flags hc AND CMD_WANT_SKB \<noteq> 0, ent_dma := replicate (length (ent_dma ?e)) None\<rparr>]\<rparr>"
  have q1: "upd_entry idx (\<lambda>e. e\<lparr>ent_cmd := buf, ent_flags := 0, ent_source := host_flags hc AND CMD_WANT_SKB \<noteq> 0,
      ent_dma := replicate (length (ent_dma e)) None\<rparr>) q = Inr q1" using i(1) by (simp add: upd_entry_def q1_def)
  let ?b = "?first @ drop ?tb0 b"
  let ?s = "s\<lparr>dma_mem := (dma_mem s)(?a \<mapsto> ?b)\<rparr>"
  have first_dma: "iwl_pcie_get_first_tb_dma q1 idx = ?a" by (simp add: q1_def iwl_pcie_get_first_tb_dma_def)
  have dw: "dma_write ?a ?first s = Inr ?s" using b lf by (simp add: dma_write_def wr_bytes_def)
  have "0 \<le> write_ptr q" "nat (write_ptr q) < length (tfds q)" using assms(1) by (auto simp: txq_wf_def ring_ok_def)
  then obtain t where t: "tfd_at q1 (write_ptr q1) = Inr t" "length (tbs t) = IWL_NUM_OF_TBS"
    using assms(1) by (auto simp: tfd_at_def q1_def txq_wf_def)
  have le: "?tb0 \<le> length ?b" "?tb0 < 4096" using lf by (simp_all add: IWL_FIRST_TB_SIZE_def)
  obtain r t' where bt: "iwl_pcie_txq_build_tfd ?a (of_nat ?tb0) True q1 = Inr (r, put_tfd (write_ptr q1) t' q1)"
    "built (put_tfd (write_ptr q1) t' q1) (dma_mem ?s) (take ?tb0 ?b) 1"
    using built_first[OF t a36 _ le, of "dma_mem ?s"] by auto
  have "take ?tb0 ?b = ?first" using lf by (metis append_eq_conv_conj)
  moreover have "?tb0 \<le> pos" using pos by simp
  ultimately have bytes: "take ?tb0 ?b = take ?tb0 (H @ pay)" using tk by simp
  have "enqueue_entry c hc p idx (q, s) = Inr (buf, copied, put_tfd (write_ptr q1) t' q1, ?s)"
    using i(1) w cl q1 rd dw bt(1) lf unfolding H_def
    by (simp add: enqueue_entry_def entry_at_def first_dma del: length_take)
  moreover have "held (put_tfd (write_ptr q1) t' q1) (dma_mem ?s) idx (host_flags hc AND CMD_WANT_SKB \<noteq> 0) 0"
    using i(1) e(2) by (simp add: held_def put_tfd_def q1_def dmas_ok_def)
  moreover have "same_ring q (put_tfd (write_ptr q1) t' q1)" using same_ring_trans same_put same_upd[OF q1] by blast
  moreover have "same_trans s ?s" by (simp add: same_trans_def)
  ultimately show ?thesis using bt(2) bytes tk[OF pos] lb unfolding H_def by auto
qed

lemma fragments_mapped:
  assumes "env_ok env" and "False \<notin> set (pcie_answers s)" and "held q (dma_mem s) idx src 0"
    and "iwl_pcie_get_cmd_index q (write_ptr q) < length (tfds q)"
    and "built q (dma_mem s) (take (min (unat copied) IWL_FIRST_TB_SIZE) B) 1"
    and "length buf = TFD_MAX_PAYLOAD_SIZE" and "unat copied \<le> TFD_MAX_PAYLOAD_SIZE" and "take (unat copied) buf = take (unat copied) B"
    and "unat copied \<le> length B" and "B = take (unat copied) B @ rest_bytes (p_rest p)" and "length (p_rest p) \<le> 2"
    and "\<forall>(d, l, fl) \<in> set (p_rest p). mapped fl \<longrightarrow> length d = unat l \<and> unat l < 4096
          \<and> (l \<noteq> 0 \<and> fl AND IWL_HCMD_DFL_DUP \<noteq> 0 \<longrightarrow> p_dup p = Some d)"
  shows "\<exists>r q' s'. enqueue_fragments env p idx buf copied (q, s) = Inr (r, q', s') \<and> same_ring q q' \<and> same_trans s s' \<and>
    (case r of Some e \<Rightarrow> e = ENOMEM | None \<Rightarrow> (\<exists>k. built q' (dma_mem s') B k) \<and> (\<exists>j. held q' (dma_mem s') idx src j))"
proof -
  let ?tb0 = "min (unat copied) IWL_FIRST_TB_SIZE"
  define bs where "bs = take (unat copied - ?tb0) (drop ?tb0 buf)"
  have "bs = drop ?tb0 (take (unat copied) buf)" by (simp add: bs_def drop_take)
  then have bs: "bs = drop ?tb0 (take (unat copied) B)" using assms(8) by simp
  have split: "take ?tb0 B @ bs = take (unat copied) B"
    unfolding bs using append_take_drop_id[of ?tb0 "take (unat copied) B"] by (simp add: min.absorb1)
  have rd: "rd_bytes buf ?tb0 (unat copied - ?tb0) = Inr bs" using assms(6,7) by (simp add: rd_bytes_def bs_def)
  have lb: "length bs < 4096" using assms(6,7) by (simp add: bs_def TFD_MAX_PAYLOAD_SIZE_def)
  have "\<exists>r q1 s1. (if unat copied > ?tb0 then map_fragment env idx 0 bs (q, s) else ok (q, s)) = Inr (r, q1, s1)
      \<and> same_ring q q1 \<and> same_trans s s1 \<and> (case r of Some e \<Rightarrow> e = ENOMEM | None \<Rightarrow>
        False \<notin> set (pcie_answers s1) \<and> (\<exists>k \<le> 2. built q1 (dma_mem s1) (take (unat copied) B) k) \<and> held q1 (dma_mem s1) idx src 1)"
  proof (cases "unat copied > ?tb0")
    case True
    obtain r q1 s1 where 1: "map_fragment env idx 0 bs (q, s) = Inr (r, q1, s1)" "same_ring q q1" "same_trans s s1"
      and r: "case r of Some e \<Rightarrow> e = ENOMEM
        | None \<Rightarrow> False \<notin> set (pcie_answers s1) \<and> built q1 (dma_mem s1) (take ?tb0 B @ bs) (1 + 1) \<and> held q1 (dma_mem s1) idx src (0 + 1)"
      using map_fragment_adds[OF assms(1,2,5) _ assms(3) _ lb assms(4)] by (auto simp: IWL_NUM_OF_TBS_def)
    from r have "case r of Some e \<Rightarrow> e = ENOMEM | None \<Rightarrow> False \<notin> set (pcie_answers s1)
        \<and> (\<exists>k \<le> 2. built q1 (dma_mem s1) (take (unat copied) B) k) \<and> held q1 (dma_mem s1) idx src 1"
      unfolding split by (cases r) (auto simp: numeral_2_eq_2)
    with 1 show ?thesis unfolding if_P[OF True] by blast
  next
    case False
    then have "min (unat copied) IWL_FIRST_TB_SIZE = unat copied" by simp
    then show ?thesis using assms(2,5) held_mono[OF assms(3), of 1] False by (auto intro!: exI[of _ "1::nat"])
  qed
  then obtain r q1 s1 where 1: "(if unat copied > ?tb0 then map_fragment env idx 0 bs (q, s) else ok (q, s)) = Inr (r, q1, s1)"
    "same_ring q q1" "same_trans s s1" and r: "case r of Some e \<Rightarrow> e = ENOMEM | None \<Rightarrow>
        False \<notin> set (pcie_answers s1) \<and> (\<exists>k \<le> 2. built q1 (dma_mem s1) (take (unat copied) B) k) \<and> held q1 (dma_mem s1) idx src 1" by blast
  have step: "enqueue_fragments env p idx buf copied (q, s) = thenS (Inr (r, q1, s1)) (map_rest env idx (p_dup p) 0 (p_rest p))"
    unfolding enqueue_fragments_def Let_def rd bindF_simps 1(1) ..
  show ?thesis
  proof (cases r)
    case (Some e)
    with step 1 r show ?thesis by simp
  next
    case None
    with r obtain k where k: "k \<le> 2" "built q1 (dma_mem s1) (take (unat copied) B) k" and a: "False \<notin> set (pcie_answers s1)" 
      and hd: "held q1 (dma_mem s1) idx src (0 + 1)" by auto
    have ix: "iwl_pcie_get_cmd_index q1 (write_ptr q1) < length (tfds q1)"
      using 1(2) assms(4) by (simp add: same_ring_def iwl_pcie_get_cmd_index_def)
    have lt: "k + length (p_rest p) < IWL_NUM_OF_TBS" "0 + length (p_rest p) < 3" using k(1) assms(11) by (simp_all add: IWL_NUM_OF_TBS_def)
    obtain r' q' s' where 2: "map_rest env idx (p_dup p) 0 (p_rest p) (q1, s1) = Inr (r', q', s')" "same_ring q1 q'" "same_trans s1 s'"
      and r': "case r' of Some e \<Rightarrow> e = ENOMEM | None \<Rightarrow> (\<exists>k'. built q' (dma_mem s') (take (unat copied) B @ rest_bytes (p_rest p)) k')
        \<and> (\<exists>j. held q' (dma_mem s') idx src j)"
      using map_rest_adds[OF assms(1) a k(2) lt(1) hd lt(2) ix assms(12)] by blast
    have "enqueue_fragments env p idx buf copied (q, s) = Inr (r', q', s')" using step None 2(1) by simp
    with r'[folded assms(10)] same_ring_trans[OF 1(2) 2(2)] same_trans_trans[OF 1(3) 2(3)] show ?thesis by blast
  qed
qed

subsection \<open>Handing over\<close>

lemma on_dev_quiet:
  assumes "quiet m"
  shows "\<exists>x s'. on_dev m s = Inr (x, s') \<and> reg_lock (pcie_trans s') = reg_lock (pcie_trans s) \<and> dma_mem s' = dma_mem s"
proof -
  obtain x d where "m (pcie_trans s) = Inr (x, (pcie_trans s)\<lparr>hw_base := d\<rparr>)" using assms unfolding quiet_def by blast
  then show ?thesis by (simp add: on_dev_def)
qed

lemma in_flight_returns:
  "\<exists>r s'. iwl_pcie_set_cmd_in_flight hw c flags s = Inr (r, s') \<and> (r = None \<or> r = Some EIO)
    \<and> reg_lock (pcie_trans s') = reg_lock (pcie_trans s) \<and> dma_mem s' = dma_mem s"
proof -
  define s0 where "s0 = (if flags AND 0x10 = 0 \<and> \<not> ref_cmd_in_flight s then s\<lparr>ref_cmd_in_flight := True, trans_refs := trans_refs s + 1\<rparr> else s)"
  have s0: "reg_lock (pcie_trans s0) = reg_lock (pcie_trans s)" "dma_mem s0 = dma_mem s" by (simp_all add: s0_def)
  obtain x1 s1 where 1: "on_dev (pcie_set_bit hw CSR_GP_CNTRL CSR_GP_CNTRL_REG_FLAG_MAC_ACCESS_REQ) s0 = Inr (x1, s1)"
    "reg_lock (pcie_trans s1) = reg_lock (pcie_trans s0)" "dma_mem s1 = dma_mem s0" using on_dev_quiet[OF quiet_composed(5)] by blast
  obtain ret s2 where 2: "on_dev (iwl_poll_bit hw CSR_GP_CNTRL CSR_GP_CNTRL_REG_VAL_MAC_ACCESS_EN
      (CSR_GP_CNTRL_REG_FLAG_MAC_CLOCK_READY OR CSR_GP_CNTRL_REG_FLAG_GOING_TO_SLEEP) 15000) s1 = Inr (ret, s2)"
    "reg_lock (pcie_trans s2) = reg_lock (pcie_trans s1)" "dma_mem s2 = dma_mem s1" using on_dev_quiet[OF quiet_poll_bit] by blast
  obtain x3 s3 where 3: "on_dev (pcie_clear_bit hw CSR_GP_CNTRL CSR_GP_CNTRL_REG_FLAG_MAC_ACCESS_REQ) s2 = Inr (x3, s3)"
    "reg_lock (pcie_trans s3) = reg_lock (pcie_trans s2)" "dma_mem s3 = dma_mem s2" using on_dev_quiet[OF quiet_composed(6)] by blast
  show ?thesis
    unfolding iwl_pcie_set_cmd_in_flight_def s0_def[symmetric] Let_def
    using 1 2 3 s0 by (cases ret) (auto simp: set_hold_def)
qed

text \<open>What is true once a command is queued at the write index \<open>wp\<close> of \<open>q\<close>.\<close>

definition queued :: "iwl_txq \<Rightarrow> u32 \<Rightarrow> nat \<Rightarrow> iwl_txq \<Rightarrow> 'd pcie \<Rightarrow> bool" where
  "queued q flags idx q' s' \<longleftrightarrow> same_ring (q\<lparr>write_ptr := iwl_queue_inc_wrap (write_ptr q)\<rparr>) q'
     \<and> (\<exists>j. held q' (dma_mem s') idx (flags AND CMD_WANT_SKB \<noteq> 0) j) \<and> ent_flags (txq_entries q' ! idx) = flags"

lemma handover_returns:
  assumes "held q (dma_mem s) idx (flags AND CMD_WANT_SKB \<noteq> 0) j" and "unlocked s" and "txq_id q = cmd_queue c"
  shows "\<exists>r q' s'. enqueue_handover hw c flags dup idx (q, s) = Inr (r, q', s') \<and> unlocked s' \<and> dma_mem s' = dma_mem s \<and> tfds q' = tfds q
    \<and> (case r of Inl e \<Rightarrow> e = EIO \<and> write_ptr q' = write_ptr q | Inr i \<Rightarrow> i = idx \<and> queued q flags idx q' s')"
proof -
  have il: "idx < length (txq_entries q)" using assms(1) by (simp add: held_def)
  define q1 where "q1 = q\<lparr>txq_entries := (txq_entries q)[idx := (txq_entries q ! idx)\<lparr>ent_flags := flags, ent_free_buf := dup\<rparr>]\<rparr>"
  have q1: "upd_entry idx (\<lambda>e. e\<lparr>ent_flags := flags, ent_free_buf := dup\<rparr>) q = Inr q1"
    "write_ptr q1 = write_ptr q" "txq_id q1 = txq_id q" "tfds q1 = tfds q" using il by (auto simp: upd_entry_def q1_def)
  let ?s = "s\<lparr>pcie_trans := (pcie_trans s)\<lparr>reg_lock := True\<rparr>\<rparr>"
  have lock: "on_dev IOSimpleLockLockDisableInterrupt s = Inr ((), ?s)"
    using assms(2) by (simp add: on_dev_def IOSimpleLockLockDisableInterrupt_def)
  have unlock: "\<exists>s'. on_dev IOSimpleLockUnlockEnableInterrupt t = Inr ((), s') \<and> unlocked s' \<and> dma_mem s' = dma_mem t"
    if "reg_lock (pcie_trans t)" for t :: "'a pcie" using that by (simp add: on_dev_def IOSimpleLockUnlockEnableInterrupt_def)
  obtain r s1 where f: "iwl_pcie_set_cmd_in_flight hw c flags ?s = Inr (r, s1)" "r = None \<or> r = Some EIO"
    "reg_lock (pcie_trans s1)" "dma_mem s1 = dma_mem s" using in_flight_returns[of hw c flags ?s] by auto
  let ?q = "q1\<lparr>write_ptr := iwl_queue_inc_wrap (write_ptr q1)\<rparr>"
  obtain s2 where w: "iwl_pcie_txq_inc_wr_ptr hw c (?q, s1) = Inr (?q, s2)" "reg_lock (pcie_trans s2)" "dma_mem s2 = dma_mem s1"
  proof -
    obtain x s2 where o: "on_dev (iwl_write32 hw HBUS_TARG_WRPTR (word_of_int (write_ptr ?q) OR push_bit 8 (txq_id ?q))) s1 = Inr (x, s2)"
      "reg_lock (pcie_trans s2) = reg_lock (pcie_trans s1)" "dma_mem s2 = dma_mem s1" using on_dev_quiet[OF quiet_prims(3)] by blast
    have "iwl_pcie_txq_inc_wr_ptr hw c (?q, s1) = Inr (?q, if txq_block q1 = 0 then s2 else s1)"
      using o(1) assms(3) q1(3) by (simp add: iwl_pcie_txq_inc_wr_ptr_def)
    then show ?thesis using that o(2,3) f(3) by (cases "txq_block q1 = 0") auto
  qed
  obtain s3 where u: "on_dev IOSimpleLockUnlockEnableInterrupt s2 = Inr ((), s3)" "unlocked s3" "dma_mem s3 = dma_mem s2" using unlock[OF w(2)] by blast
  obtain s4 where v: "on_dev IOSimpleLockUnlockEnableInterrupt s1 = Inr ((), s4)" "unlocked s4" "dma_mem s4 = dma_mem s1" using unlock[OF f(3)] by blast
  have "queued q flags idx ?q s3"
    using assms(1) il u(3) w(3) f(4) by (auto simp: queued_def held_def Let_def q1_def same_ring_def)
  then show ?thesis
    using f(2,4) q1 w(1,3) u v by (auto simp: enqueue_handover_def lock f(1))
qed

subsection \<open>The whole function\<close>

text \<open>The part after the sizes are known and there is room.\<close>

definition enqueue_sized ::
  "dma_env \<Rightarrow> 'd hw \<Rightarrow> pcie_cfg \<Rightarrow> chunk list iwl_host_cmd \<Rightarrow> prep \<Rightarrow> nat \<Rightarrow> iwl_txq \<times> 'd pcie \<Rightarrow> ((errno + nat) \<times> iwl_txq \<times> 'd pcie) run" where
  "enqueue_sized env hw c hc p idx qs =
     bindF (enqueue_entry c hc p idx qs) (\<lambda>(buf, copied, qs).
     bindF (enqueue_fragments env p idx buf copied qs) (\<lambda>(ret, qs). case ret of
       Some e \<Rightarrow> Inr (Inl e, qs) | None \<Rightarrow> enqueue_handover hw c (host_flags hc) (p_dup p \<noteq> None) idx qs))"

lemma enqueue_sized_delivers:
  fixes pay :: "u8 list" and hc :: "chunk list iwl_host_cmd" and c :: pcie_cfg and q :: iwl_txq
  defines "h \<equiv> header_size (host_id hc)"
  defines "H \<equiv> cmd_header (host_id hc) (cmd_queue c) (write_ptr q) (of_nat (h + length pay))"
  assumes wf: "txq_wf q s" and u: "unlocked s" and id: "txq_id q = cmd_queue c" and env: "env_ok env" and m: "False \<notin> set (pcie_answers s)"
    and sz: "sized h pay p" and small: "unat (p_copy p) \<le> TFD_MAX_PAYLOAD_SIZE" and lr: "length (p_rest p) \<le> 2"
    and cp: "\<And>buf pos. filled H [] buf pos \<Longrightarrow> \<exists>buf' pos'. copy_loop (host_data hc) (buf, pos, of_nat h) = Inr (buf', pos', p_copy p) \<and> filled H pay buf' pos'"
    and idx: "idx = iwl_pcie_get_cmd_index q (write_ptr q)"
  shows "\<exists>r q' s'. enqueue_sized env hw c hc p idx (q, s) = Inr (r, q', s') \<and> unlocked s' \<and>
    (case r of Inl e \<Rightarrow> e \<in> {ENOMEM, EIO} \<and> write_ptr q' = write_ptr q
     | Inr i \<Rightarrow> i = idx \<and> queued q (host_flags hc) idx q' s'
         \<and> (\<exists>t. tfd_at q' (write_ptr q) = Inr t \<and> device_sees t (dma_mem s') = H @ pay))"
proof -
  have h: "length H = h" by (simp add: H_def h_def header_length)
  have "unat (p_cmd p) = h + length pay" using sz by (simp add: sized_def)
  from arg_cong[OF this, of "of_nat :: nat \<Rightarrow> u16"] have "p_cmd p = of_nat (h + length pay)" by (simp add: of_nat_unat)
  then have H': "H = cmd_header (host_id hc) (cmd_queue c) (write_ptr q) (p_cmd p)" by (simp add: H_def)
  have c: "unat (p_copy p) \<le> h + length pay" "h \<le> unat (p_copy p)" "pay = take (unat (p_copy p) - h) pay @ rest_bytes (p_rest p)"
    and rest: "\<forall>(d, l, fl) \<in> set (p_rest p). mapped fl \<longrightarrow> length d = unat l \<and> unat l < 4096
          \<and> (l \<noteq> 0 \<and> fl AND IWL_HCMD_DFL_DUP \<noteq> 0 \<longrightarrow> p_dup p = Some d)" using sz by (simp_all add: sized_def)
  obtain buf q1 s1 where e: "enqueue_entry c hc p idx (q, s) = Inr (buf, p_copy p, q1, s1)" "same_ring q q1" "same_trans s s1"
    "pcie_answers s1 = pcie_answers s" "built q1 (dma_mem s1) (take (min (unat (p_copy p)) IWL_FIRST_TB_SIZE) (H @ pay)) 1"
    "held q1 (dma_mem s1) idx (host_flags hc AND CMD_WANT_SKB \<noteq> 0) 0" "length buf = TFD_MAX_PAYLOAD_SIZE" "take (unat (p_copy p)) buf = take (unat (p_copy p)) (H @ pay)"
    using entry_filled[OF wf idx, where hc = hc and c = c and p = p and pay = pay and copied = "p_copy p"] cp small c(1) unfolding H'[symmetric] h_def[symmetric] by auto
  have ix: "iwl_pcie_get_cmd_index q1 (write_ptr q1) < length (tfds q1)" 
    using e(2,6) index_in_window(2)[of q "write_ptr q"] wf by (auto simp: same_ring_def iwl_pcie_get_cmd_index_def txq_wf_def held_def Let_def)
  have B: "H @ pay = take (unat (p_copy p)) (H @ pay) @ rest_bytes (p_rest p)" using c(2,3) h by simp
  obtain r2 q2 s2 where f: "enqueue_fragments env p idx buf (p_copy p) (q1, s1) = Inr (r2, q2, s2)" "same_ring q1 q2" "same_trans s1 s2"
    and r2: "case r2 of Some e \<Rightarrow> e = ENOMEM | None \<Rightarrow> (\<exists>k. built q2 (dma_mem s2) (H @ pay) k)
      \<and> (\<exists>j. held q2 (dma_mem s2) idx (host_flags hc AND CMD_WANT_SKB \<noteq> 0) j)"
    using fragments_mapped[OF env _ e(6) ix e(5,7) small e(8) _ B lr rest] e(4) m c(1) h by auto
  have q2: "same_ring q q2" "unlocked s2" using same_ring_trans[OF e(2) f(2)] e(3) f(3) u by (simp_all add: same_trans_def)
  have step: "enqueue_sized env hw c hc p idx (q, s) = (case r2 of Some e \<Rightarrow> Inr (Inl e, q2, s2)
      | None \<Rightarrow> enqueue_handover hw c (host_flags hc) (p_dup p \<noteq> None) idx (q2, s2))"
    unfolding enqueue_sized_def e(1) bindF_simps prod.case f(1) ..
  show ?thesis
  proof (cases r2)
    case (Some e)
    with step r2 q2 show ?thesis by (simp add: same_ring_def)
  next
    case None
    then obtain k j where k: "built q2 (dma_mem s2) (H @ pay) k" and j: "held q2 (dma_mem s2) idx (host_flags hc AND CMD_WANT_SKB \<noteq> 0) j"
      using r2 by auto
    have w: "write_ptr q2 = write_ptr q" and tid: "txq_id q2 = cmd_queue c" using q2(1) id by (auto simp: same_ring_def)
    from handover_returns[OF j q2(2) tid] obtain r3 q3 s3 where
      3: "enqueue_handover hw c (host_flags hc) (p_dup p \<noteq> None) idx (q2, s2) = Inr (r3, q3, s3)" "unlocked s3"
        "dma_mem s3 = dma_mem s2" "tfds q3 = tfds q2" and
      r3: "case r3 of Inl e \<Rightarrow> e = EIO \<and> write_ptr q3 = write_ptr q2 | Inr i \<Rightarrow> i = idx \<and> queued q2 (host_flags hc) idx q3 s3" by blast
    obtain t where t: "tfd_at q2 (write_ptr q2) = Inr t" "device_sees t (dma_mem s2) = H @ pay" using k by (auto simp: built_def)
    have "tfd_at q3 (write_ptr q) = tfd_at q2 (write_ptr q2)" using 3(4) w by (simp add: tfd_at_def)
    moreover have "queued q2 (host_flags hc) idx q3 s3 \<Longrightarrow> queued q (host_flags hc) idx q3 s3"
      using q2(1) by (auto simp: queued_def same_ring_def)
    ultimately show ?thesis using step None 3 r3 t w by (cases r3) auto
  qed
qed

lemma enqueue_result:
  assumes "txq_wf q s" and "unlocked s" and "txq_id q = cmd_queue c" and "env_ok env" and "False \<notin> set (pcie_answers s)"
    and "length (host_data hc) \<le> 2" and "\<forall>ch \<in> set (host_data hc). chunk_ok ch"
  shows "\<exists>r q' s'. iwl_pcie_enqueue_hcmd env hw c wide hc (q, s) = Inr (r, q', s') \<and> unlocked s' \<and>
    (case r of
       Inl e \<Rightarrow> e \<in> {EINVAL, ENOMEM, ENOSPC, EIO} \<and> write_ptr q' = write_ptr q
     | Inr i \<Rightarrow> i = iwl_pcie_get_cmd_index q (write_ptr q) \<and> queued q (host_flags hc) i q' s' \<and> cmdq_room (host_flags hc AND CMD_ASYNC \<noteq> 0) (q, s)
         \<and> (\<exists>t. tfd_at q' (write_ptr q) = Inr t \<and> device_sees t (dma_mem s') =
              cmd_header (host_id hc) (cmd_queue c) (write_ptr q)
                (of_nat (header_size (host_id hc) + length (payload (host_data hc)))) @ payload (host_data hc)))"
proof (cases "\<not> wide \<and> iwl_cmd_groupid (host_id hc) > IWL_ALWAYS_LONG_GROUP")
  case True
  with assms(2) show ?thesis by (simp add: iwl_pcie_enqueue_hcmd_def)
next
  case wide: False
  define h where "h = header_size (host_id hc)"
  define pay where "pay = payload (host_data hc)"
  define H where "H = cmd_header (host_id hc) (cmd_queue c) (write_ptr q) (of_nat (h + length pay))"
  define p0 where "p0 = \<lparr>p_copy = of_nat h, p_cmd = of_nat h, p_nocopy = False, p_dup = None, p_rest = []\<rparr>"
  have h: "h \<le> 8" "length H = h" by (simp_all add: h_def header_size_def H_def header_length[unfolded header_size_def])
  have "sized (length H) [] p0" using h sized_start[of h] by (simp add: p0_def)
  moreover have "length H + length ([] :: u8 list) + 4096 * length (host_data hc) < 65536" using h assms(6) by simp
  ultimately obtain r p m where prep: "prep_loop (host_data hc) (p0, pcie_answers s) = Inr (r, p, m)" "False \<notin> set m"
    and r: "case r of Some e \<Rightarrow> e = EINVAL \<or> e = ENOMEM
     | None \<Rightarrow> sized (length H) ([] @ payload (host_data hc)) p \<and> unat (p_copy p0) \<le> unat (p_copy p)
         \<and> length (p_rest p) = length (p_rest p0) + length (host_data hc)
         \<and> (\<forall>buf pos. unat (p_copy p) \<le> TFD_MAX_PAYLOAD_SIZE \<longrightarrow> filled H [] buf pos \<longrightarrow>
              (\<exists>buf' pos'. copy_loop (host_data hc) (buf, pos, p_copy p0) = Inr (buf', pos', p_copy p) \<and> filled H ([] @ payload (host_data hc)) buf' pos'))"
    using prep_and_copy[OF _ assms(7), of H "[]" p0 "pcie_answers s"] assms(5) by blast
  let ?s = "s\<lparr>pcie_answers := m\<rparr>" and ?room = "iwl_queue_space q < (if host_flags hc AND CMD_ASYNC \<noteq> 0 then 2 else 1)"
  have start: "iwl_pcie_enqueue_hcmd env hw c wide hc (q, s) = (case r of Some e \<Rightarrow> Inr (Inl e, q, ?s) | None \<Rightarrow>
      if unat (p_copy p) > TFD_MAX_PAYLOAD_SIZE then Inr (Inl EINVAL, q, ?s)
      else if ?room then Inr (Inl ENOSPC, q, ?s)
      else enqueue_sized env hw c hc p (iwl_pcie_get_cmd_index q (write_ptr q)) (q, ?s))"
    unfolding iwl_pcie_enqueue_hcmd_def prod.case if_not_P[OF wide] h_def[symmetric] p0_def[symmetric] prep(1) bindF_simps Let_def
      enqueue_sized_def ..
  show ?thesis
  proof (cases "r = None \<and> unat (p_copy p) \<le> TFD_MAX_PAYLOAD_SIZE \<and> \<not> ?room")
    case False
    with start r assms(2) show ?thesis by (cases r) auto
  next
    case True
    have wf: "txq_wf q ?s" using assms(1) by (simp add: txq_wf_def)
    have "sized h pay p" "length (p_rest p) \<le> 2" "\<And>buf pos. filled H [] buf pos \<Longrightarrow>
        \<exists>buf' pos'. copy_loop (host_data hc) (buf, pos, of_nat h) = Inr (buf', pos', p_copy p) \<and> filled H pay buf' pos'"
      using r True assms(6) h(2) by (auto simp: pay_def p0_def)
    from enqueue_sized_delivers[OF wf _ assms(3,4) _ this(1)[unfolded h_def] _ this(2) this(3)[unfolded H_def h_def] refl, of hw]
    show ?thesis using start True assms(2) prep(2) by (fastforce simp: pay_def cmdq_room_def split: sum.splits)
  qed
qed


text \<open>A queue with four entries and memory for one more buffer.\<close>

definition tx_demo_q :: iwl_txq where
  "tx_demo_q = (ring_demo_q 4)\<lparr>tfds := replicate 256 zero_tfd, first_tb_dma := 0x100, txq_entries := replicate 4
     \<lparr>ent_cmd = replicate 324 0, ent_flags = 0, ent_source = False, ent_dma = [None, None, None], ent_free_buf = False, ent_skb = False\<rparr>\<rparr>"

definition tx_demo_s :: "unit pcie" where
  "tx_demo_s = ring_demo_s\<lparr>dma_mem := \<lambda>a. if a < 0x1000 then Some (replicate 64 0) else None\<rparr>"

definition tx_demo_env :: dma_env where
  "tx_demo_env m n = (if m 0x1000 = None then Some 0x1000 else None)"

lemma tx_demo_wf: "txq_wf tx_demo_q tx_demo_s"
proof -
  have a: "uint (256 + 64 * of_nat i :: u64) < 68719476736 \<and> (256 + 64 * of_nat i :: u64) < 4096" if "i < 4" for i
  proof -
    have "i = 0 \<or> i = 1 \<or> i = 2 \<or> i = 3" using that by auto
    then show ?thesis by auto
  qed
  then show ?thesis
    by (auto simp: txq_wf_def tx_demo_q_def tx_demo_s_def ring_demo_q_def ring_ok_def in_use_def zero_tfd_def IWL_NUM_OF_TBS_def
      TFD_MAX_PAYLOAD_SIZE_def iwl_pcie_get_first_tb_dma_def IWL_FIRST_TB_SIZE_def intro!: exI[of _ "2::nat"])
qed


end
