(* ===== verification/Tx_Complete.thy ===== *)
theory Tx_Complete
  imports Tx_Delivery
begin

section \<open>Sending a command and its answer\<close>

text \<open>
  \<open>iwl_trans_pcie_send_hcmd\<close> and \<open>iwl_pcie_hcmd_complete\<close> of \<^verbatim>\<open>IntelWifi_tx.cpp\<close>. A synchronous command is cut at its
  sleep: what happens up to it, and what happens from its return, which is given the result of the sleep. The
  answer comes on the receive path between the two, or before the first part has gone to sleep.
\<close>

subsection \<open>Data\<close>

definition STATUS_SYNC_HCMD_ACTIVE :: nat where "STATUS_SYNC_HCMD_ACTIVE = 0"
definition STATUS_TRANS_IDLE :: nat where "STATUS_TRANS_IDLE = 8"
abbreviation CMD_MAKE_TRANS_IDLE :: u32 where "CMD_MAKE_TRANS_IDLE \<equiv> 0x20"
abbreviation CMD_WAKE_UP_TRANS :: u32 where "CMD_WAKE_UP_TRANS \<equiv> 0x40"

text \<open>The thread that sends synchronously: its place, and the packet its command was given as an answer.\<close>

datatype waiter = Not_waiting | Before_sleep nat | Asleep nat | Awake nat

record 'd cmdq =
  cq_queue :: iwl_txq
  cq_pcie :: "'d pcie"
  cq_status :: u64
  cq_waiter :: waiter
  cq_resp :: "nat option"
  cq_callbacks :: "nat list"

definition status_op :: "(bitmap \<Rightarrow> bitmap run) \<Rightarrow> 'd cmdq \<Rightarrow> 'd cmdq run" where
  "status_op f st = bindF (f [cq_status st]) (\<lambda>a. Inr (st\<lparr>cq_status := a ! 0\<rparr>))"

definition status_bit :: "nat \<Rightarrow> 'd cmdq \<Rightarrow> bool run" where
  "status_bit n st = test_bit n [cq_status st]"

subsection \<open>Sending\<close>

definition enqueue_on ::
  "dma_env \<Rightarrow> 'd hw \<Rightarrow> pcie_cfg \<Rightarrow> bool \<Rightarrow> chunk list iwl_host_cmd \<Rightarrow> 'd cmdq \<Rightarrow> ((errno + nat) \<times> 'd cmdq) run" where
  "enqueue_on env hw c wide hc st =
     bindF (iwl_pcie_enqueue_hcmd env hw c wide hc (cq_queue st, cq_pcie st)) (\<lambda>(r, q, s).
       Inr (r, st\<lparr>cq_queue := q, cq_pcie := s\<rparr>))"

definition iwl_pcie_send_hcmd_async ::
  "dma_env \<Rightarrow> 'd hw \<Rightarrow> pcie_cfg \<Rightarrow> bool \<Rightarrow> chunk list iwl_host_cmd \<Rightarrow> 'd cmdq \<Rightarrow> 'd cmdq outcome" where
  "iwl_pcie_send_hcmd_async env hw c wide hc st =
     (if host_flags hc AND CMD_WANT_SKB \<noteq> 0 then fail EINVAL st
      else bindF (enqueue_on env hw c wide hc st) (\<lambda>(r, st). case r of Inl e \<Rightarrow> fail e st | Inr _ \<Rightarrow> ok st))"

text \<open>Up to the sleep; when it succeeds the thread is about to go to sleep.\<close>

definition sync_start ::
  "dma_env \<Rightarrow> 'd hw \<Rightarrow> pcie_cfg \<Rightarrow> bool \<Rightarrow> chunk list iwl_host_cmd \<Rightarrow> 'd cmdq \<Rightarrow> 'd cmdq outcome" where
  "sync_start env hw c wide hc st =
     bindF (test_and_set_bit STATUS_SYNC_HCMD_ACTIVE [cq_status st]) (\<lambda>(active, a).
       let st = st\<lparr>cq_status := a ! 0\<rparr> in
       if active then fail EIO st
       else bindF (enqueue_on env hw c wide hc (st\<lparr>cq_resp := resp_pkt hc\<rparr>)) (\<lambda>(r, st). case r of
         Inl e \<Rightarrow> bindF (status_op (clear_bit STATUS_SYNC_HCMD_ACTIVE) st) (fail e)
       | Inr idx \<Rightarrow> ok (st\<lparr>cq_waiter := Before_sleep idx\<rparr>)))"

definition sync_sleep :: "'d cmdq \<Rightarrow> 'd cmdq" where
  "sync_sleep st = (case cq_waiter st of Before_sleep i \<Rightarrow> st\<lparr>cq_waiter := Asleep i\<rparr> | _ \<Rightarrow> st)"

definition sync_cancel :: "chunk list iwl_host_cmd \<Rightarrow> nat \<Rightarrow> errno \<Rightarrow> 'd cmdq \<Rightarrow> 'd cmdq outcome" where
  "sync_cancel hc idx e st =
     bindF (if host_flags hc AND CMD_WANT_SKB \<noteq> 0
            then upd_entry idx (\<lambda>ent. ent\<lparr>ent_flags := ent_flags ent AND NOT CMD_WANT_SKB\<rparr>) (cq_queue st)
            else Inr (cq_queue st)) (\<lambda>q. fail e (st\<lparr>cq_queue := q, cq_resp := None\<rparr>))"

text \<open>From the return of the sleep.\<close>

definition sync_finish :: "'d hw \<Rightarrow> chunk list iwl_host_cmd \<Rightarrow> nat \<Rightarrow> wait_result \<Rightarrow> 'd cmdq \<Rightarrow> 'd cmdq outcome" where
  "sync_finish hw hc idx ret st =
     (let st = st\<lparr>cq_waiter := Not_waiting\<rparr> in
      if ret \<noteq> THREAD_AWAKENED then
        bindF (status_op (clear_bit STATUS_SYNC_HCMD_ACTIVE) st) (\<lambda>st.
        bindF (on_dev (iwl_force_nmi hw) (cq_pcie st)) (\<lambda>(_, s). sync_cancel hc idx ETIMEDOUT (st\<lparr>cq_pcie := s\<rparr>)))
      else bindF (status_bit STATUS_FW_ERROR st) (\<lambda>fw_error.
        if fw_error then sync_cancel hc idx EIO st
        else bindF (if host_flags hc AND CMD_SEND_IN_RFKILL = 0 then status_bit STATUS_RFKILL_OPMODE st else Inr False) (\<lambda>rfkill.
          if rfkill then sync_cancel hc idx ERFKILL st
          else if host_flags hc AND CMD_WANT_SKB \<noteq> 0 \<and> cq_resp st = None then sync_cancel hc idx EIO st
          else ok st)))"

text \<open>\<open>iwl_trans_pcie_send_hcmd\<close> up to the sleep of a synchronous command.\<close>

definition iwl_trans_pcie_send_hcmd ::
  "dma_env \<Rightarrow> 'd hw \<Rightarrow> pcie_cfg \<Rightarrow> bool \<Rightarrow> chunk list iwl_host_cmd \<Rightarrow> 'd cmdq \<Rightarrow> 'd cmdq outcome" where
  "iwl_trans_pcie_send_hcmd env hw c wide hc st =
     bindF (if host_flags hc AND CMD_SEND_IN_RFKILL = 0 then status_bit STATUS_RFKILL_OPMODE st else Inr False) (\<lambda>rfkill.
       if rfkill then fail ERFKILL st
       else if host_flags hc AND CMD_ASYNC \<noteq> 0 then iwl_pcie_send_hcmd_async env hw c wide hc st
       else sync_start env hw c wide hc st)"

subsection \<open>The answer\<close>

definition SEQ_TO_QUEUE :: "u16 \<Rightarrow> u16" where "SEQ_TO_QUEUE s = drop_bit 8 s AND 0x1f"
definition SEQ_TO_INDEX :: "u16 \<Rightarrow> u16" where "SEQ_TO_INDEX s = s AND 0xff"

definition wake_waiter :: "'d cmdq \<Rightarrow> 'd cmdq" where
  "wake_waiter st = (case cq_waiter st of Asleep i \<Rightarrow> st\<lparr>cq_waiter := Awake i\<rparr> | _ \<Rightarrow> st)"

text \<open>What is done once the position is reclaimed, by the flags of the entry.\<close>

definition complete_flags :: "u32 \<Rightarrow> nat \<Rightarrow> 'd cmdq \<Rightarrow> 'd cmdq run" where
  "complete_flags flags ci st =
     bindF (if flags AND CMD_ASYNC = 0
            then bindF (status_op (clear_bit STATUS_SYNC_HCMD_ACTIVE) st) (\<lambda>st. Inr (wake_waiter st)) else Inr st) (\<lambda>st.
     bindF (if flags AND CMD_MAKE_TRANS_IDLE \<noteq> 0 then status_op (set_bit_c STATUS_TRANS_IDLE) st else Inr st) (\<lambda>st.
     bindF (if flags AND CMD_WAKE_UP_TRANS \<noteq> 0 then status_op (clear_bit STATUS_TRANS_IDLE) st else Inr st) (\<lambda>st.
     bindF (upd_entry ci (\<lambda>ent. ent\<lparr>ent_flags := 0\<rparr>) (cq_queue st)) (\<lambda>q. Inr (st\<lparr>cq_queue := q\<rparr>)))))"

definition iwl_pcie_hcmd_complete :: "'d hw \<Rightarrow> pcie_cfg \<Rightarrow> u16 \<Rightarrow> nat \<Rightarrow> 'd cmdq \<Rightarrow> 'd cmdq run option" where
  "iwl_pcie_hcmd_complete hw c sq pkt st =
     (let index = int (unat (SEQ_TO_INDEX sq)); q = cq_queue st; ci = iwl_pcie_get_cmd_index q index in
      if ucast (SEQ_TO_QUEUE sq) \<noteq> cmd_queue c then Some (Inr st)
      else case bindF (entry_at ci q) (\<lambda>ent. bindF (iwl_pcie_tfd_unmap ci index (q, cq_pcie st)) (\<lambda>(q, s). Inr (ent_flags ent, ent_source ent, q, s))) of
        Inl f \<Rightarrow> Some (Inl f)
      | Inr (flags, source, q, s) \<Rightarrow>
          if flags AND CMD_WANT_SKB \<noteq> 0 \<and> \<not> source then Some (Inl NullDeref)
          else
            let st = (if flags AND CMD_WANT_SKB \<noteq> 0 then st\<lparr>cq_resp := Some pkt\<rparr> else st);
                st = (if flags AND CMD_WANT_ASYNC_CALLBACK \<noteq> 0 then st\<lparr>cq_callbacks := cq_callbacks st @ [ci]\<rparr> else st)
            in case iwl_pcie_cmdq_reclaim hw c index (q, s) of
              None \<Rightarrow> None
            | Some (Inl f) \<Rightarrow> Some (Inl f)
            | Some (Inr (q, s)) \<Rightarrow> Some (complete_flags flags ci (st\<lparr>cq_queue := q, cq_pcie := s\<rparr>)))"

section \<open>Answers meet their commands\<close>

subsection \<open>Status bits\<close>

lemma status_clear:
  assumes "n < 64"
  shows "\<exists>w. status_op (clear_bit n) st = Inr (st\<lparr>cq_status := w\<rparr>) \<and> (\<forall>m. bit w m \<longleftrightarrow> m \<noteq> n \<and> bit (cq_status st) m)"
proof (intro exI conjI allI)
  show "status_op (clear_bit n) st = Inr (st\<lparr>cq_status := cq_status st AND NOT (push_bit n 1)\<rparr>)"
    using assms by (simp add: status_op_def clear_bit_def BIT_WORD_def BIT_MASK_def OSBitAndAtomic64_def OSBitwiseAtomic64_def Let_def)
  show "bit (cq_status st AND NOT (push_bit n 1)) m \<longleftrightarrow> m \<noteq> n \<and> bit (cq_status st) m" for m
    by (auto simp: bit_simps dest: bit_imp_le_length)
qed

lemma status_set:
  assumes "n < 64"
  shows "\<exists>w. status_op (set_bit_c n) st = Inr (st\<lparr>cq_status := w\<rparr>) \<and> (\<forall>m. bit w m \<longleftrightarrow> m = n \<or> bit (cq_status st) m)"
proof (intro exI conjI allI)
  show "status_op (set_bit_c n) st = Inr (st\<lparr>cq_status := cq_status st OR push_bit n 1\<rparr>)"
    using assms by (simp add: status_op_def set_bit_c_def BIT_WORD_def BIT_MASK_def OSBitOrAtomic64_def OSBitwiseAtomic64_def Let_def)
  show "bit (cq_status st OR push_bit n 1) m \<longleftrightarrow> m = n \<or> bit (cq_status st) m" for m
    using assms by (auto simp: bit_simps)
qed

lemma status_read: "n < 32 \<Longrightarrow> status_bit n st = Inr (bit (cq_status st) n)"
  by (simp add: status_bit_def test_bit_eq bitmap_bit_def)

lemma status_test_set:
  "test_and_set_bit STATUS_SYNC_HCMD_ACTIVE [w] = Inr (bit w 0, [w OR 1])"
proof -
  have "w AND 1 \<noteq> 0 \<longleftrightarrow> bit w 0" by (simp add: and_one_eq bit_0 odd_iff_mod_2_eq_one)
  then show ?thesis by (simp add: test_and_set_bit_def BIT_WORD_def BIT_MASK_def STATUS_SYNC_HCMD_ACTIVE_def Let_def)
qed

subsection \<open>Sequence numbers\<close>

lemma sequence_fields:
  assumes "cmdq < 32" and "0 \<le> wp" and "wp < 256"
  shows "ucast (SEQ_TO_QUEUE (cmd_sequence cmdq wp)) = cmdq" and "int (unat (SEQ_TO_INDEX (cmd_sequence cmdq wp))) = wp"
proof -
  have m: "(0x1f :: u32) = mask 5" "(0x1f :: u16) = mask 5" "(0xff :: u32) = mask 8" "(0xff :: u16) = mask 8" by (simp_all add: mask_eq_exp_minus_1)
  have q: "take_bit 5 cmdq = cmdq"
    using assms(1) by (simp only: word_uint_eq_iff unsigned_take_bit_eq) (simp add: take_bit_eq_mod word_less_def)
  have "ucast (SEQ_TO_QUEUE (cmd_sequence cmdq wp)) = take_bit 5 cmdq"
    by (rule bit_word_eqI) (auto simp: SEQ_TO_QUEUE_def cmd_sequence_def m bit_simps)
  then show "ucast (SEQ_TO_QUEUE (cmd_sequence cmdq wp)) = cmdq" using q by simp
  have "SEQ_TO_INDEX (cmd_sequence cmdq wp) = take_bit 8 (word_of_int wp)"
    by (rule bit_word_eqI) (auto simp: SEQ_TO_INDEX_def cmd_sequence_def m bit_simps)
  then have "uint (SEQ_TO_INDEX (cmd_sequence cmdq wp)) = wp" using assms(2,3) by (simp only: unsigned_take_bit_eq uint_word_of_int) (simp add: take_bit_eq_mod)
  then show "int (unat (SEQ_TO_INDEX (cmd_sequence cmdq wp))) = wp" by simp
qed

subsection \<open>Completing\<close>

lemma complete_flags_sync:
  assumes "flags AND CMD_ASYNC = 0" and "ci < length (txq_entries (cq_queue st))"
  shows "\<exists>st'. complete_flags flags ci st = Inr st' \<and> cq_waiter st' = cq_waiter (wake_waiter st) \<and> cq_resp st' = cq_resp st
    \<and> (\<forall>m. bit (cq_status st') m \<longrightarrow> m = STATUS_TRANS_IDLE \<or> m \<noteq> STATUS_SYNC_HCMD_ACTIVE \<and> bit (cq_status st) m)
    \<and> cq_pcie st' = cq_pcie st \<and> read_ptr (cq_queue st') = read_ptr (cq_queue st) \<and> write_ptr (cq_queue st') = write_ptr (cq_queue st)
    \<and> length (txq_entries (cq_queue st')) = length (txq_entries (cq_queue st))"
proof -
  obtain w1 where 1: "status_op (clear_bit STATUS_SYNC_HCMD_ACTIVE) st = Inr (st\<lparr>cq_status := w1\<rparr>)"
    "\<And>m. bit w1 m \<longleftrightarrow> m \<noteq> STATUS_SYNC_HCMD_ACTIVE \<and> bit (cq_status st) m" using status_clear[of STATUS_SYNC_HCMD_ACTIVE st] by (auto simp: STATUS_SYNC_HCMD_ACTIVE_def)
  let ?st1 = "wake_waiter (st\<lparr>cq_status := w1\<rparr>)"
  have s1: "cq_status ?st1 = w1" "cq_queue ?st1 = cq_queue st" "cq_resp ?st1 = cq_resp st" "cq_pcie ?st1 = cq_pcie st"
    "cq_waiter ?st1 = cq_waiter (wake_waiter st)" by (simp_all add: wake_waiter_def split: waiter.splits)
  obtain st2 where 2: "(if flags AND CMD_MAKE_TRANS_IDLE \<noteq> 0 then status_op (set_bit_c STATUS_TRANS_IDLE) ?st1 else Inr ?st1) = Inr st2"
    and b2: "\<And>m. bit (cq_status st2) m \<Longrightarrow> m = STATUS_TRANS_IDLE \<or> bit w1 m" and e2: "st2 = ?st1\<lparr>cq_status := cq_status st2\<rparr>"
  proof (cases "flags AND CMD_MAKE_TRANS_IDLE = 0")
    case True
    then show ?thesis using that[of ?st1] s1(1) by simp
  next
    case False
    obtain w where "status_op (set_bit_c STATUS_TRANS_IDLE) ?st1 = Inr (?st1\<lparr>cq_status := w\<rparr>)"
      "\<And>m. bit w m \<longleftrightarrow> m = STATUS_TRANS_IDLE \<or> bit (cq_status ?st1) m"
      using status_set[of STATUS_TRANS_IDLE ?st1] by (auto simp: STATUS_TRANS_IDLE_def)
    then show ?thesis using that[of "?st1\<lparr>cq_status := w\<rparr>"] s1(1) False by simp
  qed
  obtain st3 where 3: "(if flags AND CMD_WAKE_UP_TRANS \<noteq> 0 then status_op (clear_bit STATUS_TRANS_IDLE) st2 else Inr st2) = Inr st3"
    and b3: "\<And>m. bit (cq_status st3) m \<Longrightarrow> bit (cq_status st2) m" and e3: "st3 = st2\<lparr>cq_status := cq_status st3\<rparr>"
  proof (cases "flags AND CMD_WAKE_UP_TRANS = 0")
    case True
    then show ?thesis using that[of st2] by simp
  next
    case False
    obtain w where "status_op (clear_bit STATUS_TRANS_IDLE) st2 = Inr (st2\<lparr>cq_status := w\<rparr>)"
      "\<And>m. bit w m \<longleftrightarrow> m \<noteq> STATUS_TRANS_IDLE \<and> bit (cq_status st2) m"
      using status_clear[of STATUS_TRANS_IDLE st2] by (auto simp: STATUS_TRANS_IDLE_def)
    then show ?thesis using that[of "st2\<lparr>cq_status := w\<rparr>"] False by simp
  qed
  have e: "st3 = ?st1\<lparr>cq_status := cq_status st3\<rparr>" using e2 e3 by (metis cmdq.update_convs(3) cmdq.select_convs(3) cmdq.surjective)
  then have f3: "cq_queue st3 = cq_queue st" "cq_resp st3 = cq_resp st" "cq_pcie st3 = cq_pcie st" "cq_waiter st3 = cq_waiter (wake_waiter st)"
    using s1 by (metis cmdq.ext_inject cmdq.surjective cmdq.update_convs(3))+
  define q where "q = (cq_queue st)\<lparr>txq_entries := (txq_entries (cq_queue st))[ci := (txq_entries (cq_queue st) ! ci)\<lparr>ent_flags := 0\<rparr>]\<rparr>"
  have "upd_entry ci (\<lambda>ent. ent\<lparr>ent_flags := 0\<rparr>) (cq_queue st3) = Inr q" using assms(2) by (simp add: upd_entry_def f3 q_def)
  then have "complete_flags flags ci st = Inr (st3\<lparr>cq_queue := q\<rparr>)"
    unfolding complete_flags_def using assms(1) 1(1) 2 3 by simp
  then show ?thesis using f3 b2 b3 1(2) by (fastforce simp: q_def)
qed

lemma ring_cong:
  assumes "write_ptr q' = write_ptr q" "read_ptr q' = read_ptr q" "n_window q' = n_window q"
  shows "ring_ok q' = ring_ok q" and "inflight q' = inflight q" and "iwl_pcie_get_cmd_index q' i = iwl_pcie_get_cmd_index q i"
proof -
  have "in_use q' = in_use q" using assms by (simp add: in_use_def)
  then show "ring_ok q' = ring_ok q" "inflight q' = inflight q" using assms by (simp_all add: ring_ok_def inflight_def)
  show "iwl_pcie_get_cmd_index q' i = iwl_pcie_get_cmd_index q i" using assms by (simp add: iwl_pcie_get_cmd_index_def)
qed

text \<open>The answer with the sequence number of the last command: the entry is found, its position reclaimed with all before it.\<close>

lemma last_command_completes:
  assumes "ring_ok q" and "cmdq_room async (q, s)" and "length (tfds q) = 256" and "idx = iwl_pcie_get_cmd_index q (write_ptr q)"
    and "queued q flags idx (cq_queue st) (cq_pcie st)" and "unlocked (cq_pcie st)" and "cmd_queue c < 32" and "flags AND CMD_ASYNC = 0"
  shows "\<exists>st'. iwl_pcie_hcmd_complete hw c (cmd_sequence (cmd_queue c) (write_ptr q)) pkt st = Some (Inr st')
    \<and> cq_waiter st' = cq_waiter (wake_waiter st) \<and> cq_resp st' = (if flags AND CMD_WANT_SKB \<noteq> 0 then Some pkt else cq_resp st)
    \<and> (\<forall>m. bit (cq_status st') m \<longrightarrow> m = STATUS_TRANS_IDLE \<or> m \<noteq> STATUS_SYNC_HCMD_ACTIVE \<and> bit (cq_status st) m)
    \<and> inflight (cq_queue st') = [] \<and> unlocked (cq_pcie st') \<and> idx < length (txq_entries (cq_queue st'))"
proof -
  let ?sq = "cmd_sequence (cmd_queue c) (write_ptr q)" and ?q1 = "cq_queue st" and ?s1 = "cq_pcie st" and ?wp = "write_ptr q"
  have wp: "0 \<le> ?wp" "?wp < 256" using assms(1) by (auto simp: ring_ok_def)
  note fields = sequence_fields[OF assms(7) wp]
  obtain j where h: "held ?q1 (dma_mem ?s1) idx (flags AND CMD_WANT_SKB \<noteq> 0) j" and fl: "ent_flags (txq_entries ?q1 ! idx) = flags"
    and r: "write_ptr ?q1 = write_ptr (advance q)" "read_ptr ?q1 = read_ptr (advance q)" "n_window ?q1 = n_window (advance q)" "length (tfds ?q1) = 256"
    using assms(3,5) by (auto simp: queued_def same_ring_def advance_def)
  have ring: "ring_ok (advance q)" "inflight (advance q) = inflight q @ [nat ?wp]"
    using push_advance[OF assms(1) room_in_use[OF assms(1,2)]] by auto
  have ci: "iwl_pcie_get_cmd_index ?q1 ?wp = idx" using ring_cong(3)[OF r(1-3)] assms(4) by (simp add: iwl_pcie_get_cmd_index_def advance_def)
  have il: "idx < length (txq_entries ?q1)" and src: "ent_source (txq_entries ?q1 ! idx) = (flags AND CMD_WANT_SKB \<noteq> 0)"
    using h by (auto simp: held_def Let_def)
  have "iwl_pcie_get_cmd_index ?q1 ?wp < length (tfds ?q1)" unfolding ci using index_in_window(2)[OF assms(1)] assms(4) r(4) by simp
  from unmap_returns[OF h this] obtain q2 s2 where 2: "iwl_pcie_tfd_unmap idx ?wp (?q1, ?s1) = Inr (q2, s2)" "same_ring ?q1 q2" "same_trans ?s1 s2" by auto
  have r2: "write_ptr q2 = write_ptr (advance q)" "read_ptr q2 = read_ptr (advance q)" "n_window q2 = n_window (advance q)"
    "idx < length (txq_entries q2)" using r 2(2) il by (auto simp: same_ring_def)
  have ring2: "ring_ok q2" "nat ?wp \<in> set (inflight q2)" using ring_cong(1,2)[OF r2(1-3)] ring by auto
  have u2: "unlocked s2" using assms(6) 2(3) by (simp add: same_trans_def)
  obtain s3 where 3: "iwl_pcie_cmdq_reclaim hw c ?wp (q2, s2) = Some (Inr (reclaimed (nat ?wp) q2, s3))" "unlocked s3"
    using reclaim_returns[OF ring2(1) u2, of hw c "nat ?wp"] wp by auto
  have empty: "inflight (reclaimed (nat ?wp) q2) = []"
    using ring2(2) r2(1) wp by (simp add: reclaimed_def inflight_def in_use_def advance_def)
  let ?st = "(let st = (if flags AND CMD_WANT_SKB \<noteq> 0 then st\<lparr>cq_resp := Some pkt\<rparr> else st);
                st = (if flags AND CMD_WANT_ASYNC_CALLBACK \<noteq> 0 then st\<lparr>cq_callbacks := cq_callbacks st @ [idx]\<rparr> else st)
            in st\<lparr>cq_queue := reclaimed (nat ?wp) q2, cq_pcie := s3\<rparr>)"
  have st: "cq_queue ?st = reclaimed (nat ?wp) q2" "cq_pcie ?st = s3" "cq_waiter (wake_waiter ?st) = cq_waiter (wake_waiter st)"
    "cq_resp ?st = (if flags AND CMD_WANT_SKB \<noteq> 0 then Some pkt else cq_resp st)" "cq_status ?st = cq_status st"
    by (simp_all add: Let_def wake_waiter_def split: waiter.splits)
  have run: "iwl_pcie_hcmd_complete hw c ?sq pkt st = Some (complete_flags flags idx ?st)"
    unfolding iwl_pcie_hcmd_complete_def fields ci Let_def using 2(1) 3(1) il fl src by (simp add: entry_at_def)
  have "idx < length (txq_entries (cq_queue ?st))" unfolding st(1) using r2(4) by (simp add: reclaimed_def)
  from complete_flags_sync[OF assms(8) this] obtain st' where st': "complete_flags flags idx ?st = Inr st'" "cq_waiter st' = cq_waiter (wake_waiter st)"
    "cq_resp st' = (if flags AND CMD_WANT_SKB \<noteq> 0 then Some pkt else cq_resp st)"
    "\<forall>m. bit (cq_status st') m \<longrightarrow> m = STATUS_TRANS_IDLE \<or> m \<noteq> STATUS_SYNC_HCMD_ACTIVE \<and> bit (cq_status st) m"
    "cq_pcie st' = s3" "read_ptr (cq_queue st') = read_ptr (reclaimed (nat ?wp) q2)" "write_ptr (cq_queue st') = write_ptr (reclaimed (nat ?wp) q2)"
    "length (txq_entries (cq_queue st')) = length (txq_entries (reclaimed (nat ?wp) q2))"
    unfolding st by blast
  have "inflight (cq_queue st') = []" using empty st'(6,7) by (simp add: inflight_def in_use_def)
  moreover have "idx < length (txq_entries (cq_queue st'))" using r2(4) st'(8) by (simp add: reclaimed_def)
  ultimately show ?thesis using run st' 3(2) by auto
qed

subsection \<open>Synchronous commands\<close>

definition cmdq_ready :: "dma_env \<Rightarrow> pcie_cfg \<Rightarrow> chunk list iwl_host_cmd \<Rightarrow> 'd cmdq \<Rightarrow> bool" where
  "cmdq_ready env c hc st \<longleftrightarrow> txq_wf (cq_queue st) (cq_pcie st) \<and> unlocked (cq_pcie st) \<and> txq_id (cq_queue st) = cmd_queue c
     \<and> cmd_queue c < 32 \<and> env_ok env \<and> False \<notin> set (pcie_answers (cq_pcie st)) \<and> length (host_data hc) \<le> 2
     \<and> (\<forall>ch \<in> set (host_data hc). chunk_ok ch)"

lemma sync_started:
  assumes "cmdq_ready env c hc st" and "host_flags hc AND CMD_ASYNC = 0" and "iwl_trans_pcie_send_hcmd env hw c wide hc st = ok st1"
  shows "\<exists>idx. idx = iwl_pcie_get_cmd_index (cq_queue st) (write_ptr (cq_queue st)) \<and> queued (cq_queue st) (host_flags hc) idx (cq_queue st1) (cq_pcie st1)
    \<and> cmdq_room False (cq_queue st, cq_pcie st) \<and> unlocked (cq_pcie st1) \<and> cq_waiter st1 = Before_sleep idx \<and> cq_resp st1 = resp_pkt hc
    \<and> (\<forall>m. bit (cq_status st1) m \<longrightarrow> m = STATUS_SYNC_HCMD_ACTIVE \<or> bit (cq_status st) m)
    \<and> \<not> (host_flags hc AND CMD_SEND_IN_RFKILL = 0 \<and> bit (cq_status st) STATUS_RFKILL_OPMODE)"
proof -
  have rf: "status_bit STATUS_RFKILL_OPMODE st = Inr (bit (cq_status st) STATUS_RFKILL_OPMODE)" by (rule status_read) (simp add: STATUS_RFKILL_OPMODE_def)
  have start: "sync_start env hw c wide hc st = ok st1" and nrf: "\<not> (host_flags hc AND CMD_SEND_IN_RFKILL = 0 \<and> bit (cq_status st) STATUS_RFKILL_OPMODE)"
    using assms(2,3) rf by (auto simp: iwl_trans_pcie_send_hcmd_def split: if_splits)
  have bits: "bit (cq_status st OR 1) m \<longrightarrow> m = STATUS_SYNC_HCMD_ACTIVE \<or> bit (cq_status st) m" for m
    by (auto simp: bit_simps STATUS_SYNC_HCMD_ACTIVE_def)
  obtain r q' s' where e: "iwl_pcie_enqueue_hcmd env hw c wide hc (cq_queue st, cq_pcie st) = Inr (r, q', s')" "unlocked s'" and
    r: "case r of Inl e \<Rightarrow> e \<in> {EINVAL, ENOMEM, ENOSPC, EIO} \<and> write_ptr q' = write_ptr (cq_queue st)
     | Inr i \<Rightarrow> i = iwl_pcie_get_cmd_index (cq_queue st) (write_ptr (cq_queue st)) \<and> queued (cq_queue st) (host_flags hc) i q' s'
         \<and> cmdq_room (host_flags hc AND CMD_ASYNC \<noteq> 0) (cq_queue st, cq_pcie st)
         \<and> (\<exists>t. tfd_at q' (write_ptr (cq_queue st)) = Inr t \<and> device_sees t (dma_mem s') =
              cmd_header (host_id hc) (cmd_queue c) (write_ptr (cq_queue st))
                (of_nat (header_size (host_id hc) + length (payload (host_data hc)))) @ payload (host_data hc))"
    using enqueue_result[of "cq_queue st" "cq_pcie st" c env hc hw wide] assms(1) by (auto simp: cmdq_ready_def)
  show ?thesis
  proof (cases r)
    case (Inl er)
    with start e(1) show ?thesis
      by (auto simp: sync_start_def status_test_set enqueue_on_def status_op_def bindF_eq_Inr Let_def split: if_splits)
  next
    case (Inr i)
    with start e(1) have "st1 = st\<lparr>cq_status := cq_status st OR 1, cq_resp := resp_pkt hc, cq_queue := q', cq_pcie := s', cq_waiter := Before_sleep i\<rparr>"
      by (auto simp: sync_start_def status_test_set enqueue_on_def Let_def split: if_splits)
    with Inr r e(2) bits nrf assms(2) show ?thesis by auto
  qed
qed

lemma sync_answer:
  assumes "cmdq_ready env c hc st" and "host_flags hc AND CMD_ASYNC = 0" and "iwl_trans_pcie_send_hcmd env hw c wide hc st = ok st1"
    and "st1' = st1 \<or> st1' = sync_sleep st1"
  shows "\<exists>st2. iwl_pcie_hcmd_complete hw c (cmd_sequence (cmd_queue c) (write_ptr (cq_queue st))) pkt st1' = Some (Inr st2)
    \<and> cq_waiter st2 = cq_waiter (wake_waiter st1') \<and> cq_resp st2 = (if host_flags hc AND CMD_WANT_SKB \<noteq> 0 then Some pkt else resp_pkt hc)
    \<and> (\<forall>m. bit (cq_status st2) m \<longrightarrow> m = STATUS_TRANS_IDLE \<or> m \<noteq> STATUS_SYNC_HCMD_ACTIVE \<and> bit (cq_status st) m)
    \<and> inflight (cq_queue st2) = [] \<and> unlocked (cq_pcie st2)
    \<and> iwl_pcie_get_cmd_index (cq_queue st) (write_ptr (cq_queue st)) < length (txq_entries (cq_queue st2))"
proof -
  obtain idx where s: "idx = iwl_pcie_get_cmd_index (cq_queue st) (write_ptr (cq_queue st))"
    "queued (cq_queue st) (host_flags hc) idx (cq_queue st1) (cq_pcie st1)"
    "cmdq_room False (cq_queue st, cq_pcie st)" "unlocked (cq_pcie st1)" "cq_waiter st1 = Before_sleep idx" "cq_resp st1 = resp_pkt hc"
    "\<forall>m. bit (cq_status st1) m \<longrightarrow> m = STATUS_SYNC_HCMD_ACTIVE \<or> bit (cq_status st) m"
    using sync_started[OF assms(1-3)] by blast
  have e: "cq_queue st1' = cq_queue st1" "cq_pcie st1' = cq_pcie st1" "cq_resp st1' = cq_resp st1" "cq_status st1' = cq_status st1"
    using assms(4) s(5) by (auto simp: sync_sleep_def)
  have rdy: "ring_ok (cq_queue st)" "length (tfds (cq_queue st)) = 256" "cmd_queue c < 32" using assms(1) by (auto simp: cmdq_ready_def txq_wf_def)
  from last_command_completes[OF rdy(1) s(3) rdy(2) s(1) _ _ rdy(3) assms(2), of st1' hw pkt] s show ?thesis
    unfolding e by fastforce
qed

text \<open>C2. A synchronous command that was accepted, is slept on and is then answered with its sequence number: the
  sleeper is woken, the busy bit is clear, no position stays in the ring, and without a firmware error or a radio
  switch the call returns 0, with the packet when one was wanted.\<close>

theorem sync_command_answered:
  assumes "cmdq_ready env c hc st" and "host_flags hc AND CMD_ASYNC = 0" and "iwl_trans_pcie_send_hcmd env hw c wide hc st = ok st1"
    and "\<not> bit (cq_status st) STATUS_FW_ERROR" and "\<not> bit (cq_status st) STATUS_RFKILL_OPMODE"
  shows "\<exists>idx st2 st3. cq_waiter (sync_sleep st1) = Asleep idx
    \<and> iwl_pcie_hcmd_complete hw c (cmd_sequence (cmd_queue c) (write_ptr (cq_queue st))) pkt (sync_sleep st1) = Some (Inr st2)
    \<and> cq_waiter st2 = Awake idx \<and> \<not> bit (cq_status st2) STATUS_SYNC_HCMD_ACTIVE \<and> inflight (cq_queue st2) = []
    \<and> sync_finish hw hc idx THREAD_AWAKENED st2 = ok st3
    \<and> cq_resp st3 = (if host_flags hc AND CMD_WANT_SKB \<noteq> 0 then Some pkt else resp_pkt hc)"
proof -
  obtain idx where w: "cq_waiter st1 = Before_sleep idx" using sync_started[OF assms(1-3)] by blast
  obtain st2 where c: "iwl_pcie_hcmd_complete hw c (cmd_sequence (cmd_queue c) (write_ptr (cq_queue st))) pkt (sync_sleep st1) = Some (Inr st2)"
    "cq_waiter st2 = Awake idx" "cq_resp st2 = (if host_flags hc AND CMD_WANT_SKB \<noteq> 0 then Some pkt else resp_pkt hc)"
    "\<And>m. bit (cq_status st2) m \<Longrightarrow> m = STATUS_TRANS_IDLE \<or> m \<noteq> STATUS_SYNC_HCMD_ACTIVE \<and> bit (cq_status st) m" "inflight (cq_queue st2) = []"
    using sync_answer[OF assms(1-3), of "sync_sleep st1" pkt] w by (auto simp: sync_sleep_def wake_waiter_def)
  have n: "STATUS_SYNC_HCMD_ACTIVE \<noteq> STATUS_TRANS_IDLE" "STATUS_FW_ERROR \<noteq> STATUS_TRANS_IDLE" "STATUS_RFKILL_OPMODE \<noteq> STATUS_TRANS_IDLE"
    by (simp_all add: STATUS_SYNC_HCMD_ACTIVE_def STATUS_TRANS_IDLE_def STATUS_FW_ERROR_def STATUS_RFKILL_OPMODE_def)
  let ?st = "st2\<lparr>cq_waiter := Not_waiting\<rparr>"
  have "\<not> bit (cq_status st2) STATUS_FW_ERROR" "\<not> bit (cq_status st2) STATUS_RFKILL_OPMODE" using c(4) n(2,3) assms(4,5) by blast+
  then have "status_bit STATUS_FW_ERROR ?st = Inr False" "status_bit STATUS_RFKILL_OPMODE ?st = Inr False"
    using status_read[of STATUS_FW_ERROR ?st] status_read[of STATUS_RFKILL_OPMODE ?st]
    by (simp_all add: STATUS_FW_ERROR_def STATUS_RFKILL_OPMODE_def)
  then have "sync_finish hw hc idx THREAD_AWAKENED st2 = ok ?st" using c(3) by (simp add: sync_finish_def Let_def)
  then show ?thesis using w c n(1) by (auto simp: sync_sleep_def)
qed


definition cmdq_demo :: "unit cmdq" where
  "cmdq_demo = \<lparr>cq_queue = tx_demo_q, cq_pcie = tx_demo_s, cq_status = 0, cq_waiter = Not_waiting, cq_resp = None, cq_callbacks = []\<rparr>"

definition hc_demo :: "chunk list iwl_host_cmd" where
  "hc_demo = \<lparr>host_data = [([1, 2, 3], 3, 0)], resp_pkt = None, host_flags = CMD_WANT_SKB, host_id = 7\<rparr>"

lemma sync_demo_ready: "cmdq_ready tx_demo_env ring_demo_cfg hc_demo cmdq_demo"
  using tx_demo_wf by (auto simp: cmdq_ready_def cmdq_demo_def hc_demo_def tx_demo_s_def ring_demo_s_def tx_demo_q_def ring_demo_q_def
    ring_demo_cfg_def env_ok_def tx_demo_env_def chunk_ok_def split: if_splits)

lemma sync_demo_sent: "\<exists>st1. iwl_trans_pcie_send_hcmd tx_demo_env ring_demo_hw ring_demo_cfg False hc_demo cmdq_demo = ok st1"
proof -
  have "case iwl_trans_pcie_send_hcmd tx_demo_env ring_demo_hw ring_demo_cfg False hc_demo cmdq_demo of Inr (None, st) \<Rightarrow> True | _ \<Rightarrow> False"
    by code_simp
  then show ?thesis by (auto split: sum.splits option.splits prod.splits)
qed

lemma sync_demo_facts: "host_flags hc_demo AND CMD_ASYNC = 0" "host_flags hc_demo AND CMD_WANT_SKB \<noteq> 0"
    "\<not> bit (cq_status cmdq_demo) STATUS_FW_ERROR" "\<not> bit (cq_status cmdq_demo) STATUS_RFKILL_OPMODE"
    "cmd_sequence (cmd_queue ring_demo_cfg) (write_ptr (cq_queue cmdq_demo)) = 0"
  by (simp_all add: hc_demo_def CMD_ASYNC_def CMD_WANT_SKB_def cmdq_demo_def tx_demo_q_def ring_demo_q_def ring_demo_cfg_def cmd_sequence_def)

theorem sync_command_answered_witness:
  "\<exists>st1 idx st2 st3. iwl_trans_pcie_send_hcmd tx_demo_env ring_demo_hw ring_demo_cfg False hc_demo cmdq_demo = ok st1
    \<and> iwl_pcie_hcmd_complete ring_demo_hw ring_demo_cfg 0 42 (sync_sleep st1) = Some (Inr st2)
    \<and> sync_finish ring_demo_hw hc_demo idx THREAD_AWAKENED st2 = ok st3 \<and> cq_resp st3 = Some 42"
proof -
  obtain st1 where s: "iwl_trans_pcie_send_hcmd tx_demo_env ring_demo_hw ring_demo_cfg False hc_demo cmdq_demo = ok st1" using sync_demo_sent by blast
  from sync_command_answered[OF sync_demo_ready sync_demo_facts(1) s sync_demo_facts(3,4), of 42] s show ?thesis
    unfolding sync_demo_facts(5) using sync_demo_facts(2) by auto
qed


end
