(* ===== verification/Rx_Queue.thy ===== *)
theory Rx_Queue
  imports Tx_Complete
begin

section \<open>Receive queue\<close>

text \<open>
  The receive ring, the lists of receive buffer descriptors (RBDs) and the page allocator of \<^verbatim>\<open>IntelWifi_rx.cpp\<close>. The
  driver sets \<open>num_rx_queues\<close> to one, so there is one queue. An RBD is named by its index in the pool. A page is named
  by its address; whether a request for a page is granted is an answer of the environment, one for each request, and
  \<open>dmamap\<close> is the bus address of a page or 0. \<open>None\<close> is a loop that never ends.
\<close>

subsection \<open>Data\<close>

definition RX_QUEUE_SIZE :: nat where "RX_QUEUE_SIZE = 256"
definition MQ_RX_TABLE_SIZE :: nat where "MQ_RX_TABLE_SIZE = 512"
definition MQ_RX_NUM_RBDS :: nat where "MQ_RX_NUM_RBDS = MQ_RX_TABLE_SIZE - 1"
definition RX_POST_REQ_ALLOC :: nat where "RX_POST_REQ_ALLOC = 2"
definition RX_CLAIM_REQ_ALLOC :: nat where "RX_CLAIM_REQ_ALLOC = 8"
definition IWL_MAX_RX_HW_QUEUES :: nat where "IWL_MAX_RX_HW_QUEUES = 16"
definition RX_POOL_SIZE :: nat where
  "RX_POOL_SIZE = MQ_RX_NUM_RBDS + IWL_MAX_RX_HW_QUEUES * (RX_CLAIM_REQ_ALLOC - RX_POST_REQ_ALLOC)"
definition STATUS_DEVICE_ENABLED :: nat where "STATUS_DEVICE_ENABLED = 1"

record iwl_rx_mem_buffer =
  rb_page :: "nat option"
  rb_dma :: u64
  rb_vid :: u16
  rb_invalid :: bool

record iwl_rxq =
  rxq_read :: u32
  rxq_write :: u32
  rxq_free_count :: u32
  rxq_used_count :: u32
  rxq_write_actual :: u32
  rxq_size :: u32
  rx_free :: "nat list"
  rx_used :: "nat list"
  rxq_need_update :: bool
  rxq_slots :: "nat option list"
  rxq_bd :: "u64 list"
  rxq_used_bd :: "u32 list"
  bd_dma :: u64
  used_bd_dma :: u64
  rb_stts_dma :: u64

record iwl_rb_allocator =
  req_pending :: int
  req_ready :: int
  rbd_allocated :: "nat list"
  rbd_empty :: "nat list"

text \<open>The pointer to the queue: before it is allocated, while it is live, and after it was released.\<close>

datatype rxq_ptr = Rxq_null | Rxq_live | Rxq_freed

record 'd rx =
  rx_cmdq :: "'d cmdq"
  rx_ptr :: rxq_ptr
  rx_q :: iwl_rxq
  rx_rba :: iwl_rb_allocator
  rx_pool :: "iwl_rx_mem_buffer list"
  global_table :: "nat option list"
  pages_asked :: nat

record rx_env =
  new_page :: "nat \<Rightarrow> nat option"
  dmamap :: "nat \<Rightarrow> u64"

record rx_cfg =
  rx_pcie :: pcie_cfg
  mq_rx_supported :: bool
  rx_page_order :: nat
  no_reclaim_cmds :: "u8 list"

definition rx_on_dev :: "('d, 'a) io \<Rightarrow> 'd rx \<Rightarrow> ('a \<times> 'd rx) run" where
  "rx_on_dev m st = bindF (on_dev m (cq_pcie (rx_cmdq st))) (\<lambda>(x, s). Inr (x, st\<lparr>rx_cmdq := (rx_cmdq st)\<lparr>cq_pcie := s\<rparr>\<rparr>))"

definition upd_q :: "(iwl_rxq \<Rightarrow> iwl_rxq) \<Rightarrow> 'd rx \<Rightarrow> 'd rx" where
  "upd_q f st = st\<lparr>rx_q := f (rx_q st)\<rparr>"

definition upd_rba :: "(iwl_rb_allocator \<Rightarrow> iwl_rb_allocator) \<Rightarrow> 'd rx \<Rightarrow> 'd rx" where
  "upd_rba f st = st\<lparr>rx_rba := f (rx_rba st)\<rparr>"

definition rbd_at :: "nat \<Rightarrow> 'd rx \<Rightarrow> iwl_rx_mem_buffer run" where
  "rbd_at b st = (if b < length (rx_pool st) then Inr (rx_pool st ! b) else Inl OutOfBounds)"

definition upd_rbd :: "nat \<Rightarrow> (iwl_rx_mem_buffer \<Rightarrow> iwl_rx_mem_buffer) \<Rightarrow> 'd rx \<Rightarrow> 'd rx run" where
  "upd_rbd b f st = (if b < length (rx_pool st) then Inr (st\<lparr>rx_pool := (rx_pool st)[b := f (rx_pool st ! b)]\<rparr>) else Inl OutOfBounds)"

subsection \<open>The ring\<close>

definition iwl_rxq_space :: "iwl_rxq \<Rightarrow> int" where
  "iwl_rxq_space q = sint ((rxq_read q - rxq_write q - 1) AND (rxq_size q - 1))"

definition iwl_pcie_dma_addr2rbd_ptr :: "u64 \<Rightarrow> u32" where
  "iwl_pcie_dma_addr2rbd_ptr addr = ucast (drop_bit 8 addr)"

abbreviation FH_RSCSR_CHNL0_WPTR :: u32 where "FH_RSCSR_CHNL0_WPTR \<equiv> 0x1BC8"
abbreviation RFH_Q_FRBDCB_WIDX_TRG :: u32 where "RFH_Q_FRBDCB_WIDX_TRG \<equiv> 0x1C80"

definition iwl_pcie_rxq_inc_wr_ptr :: "'d hw \<Rightarrow> rx_cfg \<Rightarrow> 'd rx \<Rightarrow> 'd rx run" where
  "iwl_pcie_rxq_inc_wr_ptr hw c st =
     bindF (if \<not> shadow_reg_enable (rx_pcie c) \<and> tpower_pmi (rx_pcie c)
            then bindF (rx_on_dev (iwl_read32 hw CSR_UCODE_DRV_GP1) st) (\<lambda>(reg, st).
              if reg AND 1 \<noteq> 0
              then bindF (rx_on_dev (iwl_set_bit hw CSR_GP_CNTRL CSR_GP_CNTRL_REG_FLAG_MAC_ACCESS_REQ) st) (\<lambda>(_, st). Inr (True, st))
              else Inr (False, st))
            else Inr (False, st)) (\<lambda>(asleep, st).
     if asleep then Inr (upd_q (\<lambda>q. q\<lparr>rxq_need_update := True\<rparr>) st)
     else
       let st = upd_q (\<lambda>q. q\<lparr>rxq_write_actual := rxq_write q AND NOT 7\<rparr>) st in
       bindF (rx_on_dev (iwl_write32 hw (if mq_rx_supported c then RFH_Q_FRBDCB_WIDX_TRG else FH_RSCSR_CHNL0_WPTR)
           (rxq_write_actual (rx_q st))) st) (\<lambda>(_, st). Inr st))"

definition iwl_pcie_rxq_check_wrptr :: "'d hw \<Rightarrow> rx_cfg \<Rightarrow> 'd rx \<Rightarrow> 'd rx run" where
  "iwl_pcie_rxq_check_wrptr hw c st =
     (if \<not> rxq_need_update (rx_q st) then Inr st
      else bindF (iwl_pcie_rxq_inc_wr_ptr hw c st) (\<lambda>st. Inr (upd_q (\<lambda>q. q\<lparr>rxq_need_update := False\<rparr>) st)))"

text \<open>The loops take RBDs off the front of the free list, which is the list they are given; an empty list is a NULL entry.\<close>

definition write_bd :: "u64 \<Rightarrow> iwl_rxq \<Rightarrow> iwl_rxq run" where
  "write_bd v q = (let w = unat (rxq_write q) in
     if w < length (rxq_bd q) then Inr (q\<lparr>rxq_bd := (rxq_bd q)[w := v]\<rparr>) else Inl OutOfBounds)"

fun rxmq_loop :: "nat list \<Rightarrow> 'd rx \<Rightarrow> 'd rx run" where
  "rxmq_loop [] st = (if rxq_free_count (rx_q st) = 0 then Inr st else Inl NullDeref)"
| "rxmq_loop (b # bs) st =
     (if rxq_free_count (rx_q st) = 0 then Inr st
      else bindF (upd_rbd b (\<lambda>r. r\<lparr>rb_invalid := False\<rparr>) st) (\<lambda>st.
        bindF (write_bd (rb_dma (rx_pool st ! b) OR ucast (rb_vid (rx_pool st ! b))) (rx_q st)) (\<lambda>q.
          rxmq_loop bs (st\<lparr>rx_q := q\<lparr>rx_free := bs, rxq_write := (rxq_write q + 1) AND 511, rxq_free_count := rxq_free_count q - 1\<rparr>\<rparr>))))"

fun rxsq_loop :: "nat list \<Rightarrow> 'd rx \<Rightarrow> 'd rx run" where
  "rxsq_loop [] st = (if iwl_rxq_space (rx_q st) > 0 \<and> rxq_free_count (rx_q st) \<noteq> 0 then Inl NullDeref else Inr st)"
| "rxsq_loop (b # bs) st =
     (if \<not> (iwl_rxq_space (rx_q st) > 0 \<and> rxq_free_count (rx_q st) \<noteq> 0) then Inr st
      else if length (rxq_slots (rx_q st)) \<le> unat (rxq_write (rx_q st)) then Inl OutOfBounds
      else bindF (upd_rbd b (\<lambda>r. r\<lparr>rb_invalid := False\<rparr>) st) (\<lambda>st.
        bindF (write_bd (ucast (iwl_pcie_dma_addr2rbd_ptr (rb_dma (rx_pool st ! b)))) (rx_q st)) (\<lambda>q.
          rxsq_loop bs (st\<lparr>rx_q := q\<lparr>rx_free := bs, rxq_slots := (rxq_slots q)[unat (rxq_write q) := Some b],
            rxq_write := (rxq_write q + 1) AND 255, rxq_free_count := rxq_free_count q - 1\<rparr>\<rparr>))))"

definition tell_device :: "'d hw \<Rightarrow> rx_cfg \<Rightarrow> 'd rx \<Rightarrow> 'd rx run" where
  "tell_device hw c st = (if rxq_write_actual (rx_q st) \<noteq> rxq_write (rx_q st) AND NOT 7 then iwl_pcie_rxq_inc_wr_ptr hw c st else Inr st)"

definition iwl_pcie_rxmq_restock :: "'d hw \<Rightarrow> rx_cfg \<Rightarrow> 'd rx \<Rightarrow> 'd rx run" where
  "iwl_pcie_rxmq_restock hw c st =
     bindF (status_bit STATUS_DEVICE_ENABLED (rx_cmdq st)) (\<lambda>enabled.
       if \<not> enabled then Inr st else bindF (rxmq_loop (rx_free (rx_q st)) st) (tell_device hw c))"

definition iwl_pcie_rxsq_restock :: "'d hw \<Rightarrow> rx_cfg \<Rightarrow> 'd rx \<Rightarrow> 'd rx run" where
  "iwl_pcie_rxsq_restock hw c st =
     bindF (status_bit STATUS_DEVICE_ENABLED (rx_cmdq st)) (\<lambda>enabled.
       if \<not> enabled then Inr st else bindF (rxsq_loop (rx_free (rx_q st)) st) (tell_device hw c))"

definition iwl_pcie_rxq_restock :: "'d hw \<Rightarrow> rx_cfg \<Rightarrow> 'd rx \<Rightarrow> 'd rx run" where
  "iwl_pcie_rxq_restock hw c st = (if mq_rx_supported c then iwl_pcie_rxmq_restock hw c st else iwl_pcie_rxsq_restock hw c st)"

subsection \<open>Pages\<close>

text \<open>A page for an RBD: what the allocator answers, and the RBD with the page when it can be mapped.\<close>

definition iwl_pcie_rx_alloc_page :: "rx_env \<Rightarrow> 'd rx \<Rightarrow> nat option \<times> 'd rx" where
  "iwl_pcie_rx_alloc_page env st = (new_page env (pages_asked st), st\<lparr>pages_asked := pages_asked st + 1\<rparr>)"

fun iwl_pcie_rxq_alloc_rbs_loop :: "rx_env \<Rightarrow> nat list \<Rightarrow> 'd rx \<Rightarrow> 'd rx run" where
  "iwl_pcie_rxq_alloc_rbs_loop env [] st = Inr st"
| "iwl_pcie_rxq_alloc_rbs_loop env (b # bs) st =
     (case iwl_pcie_rx_alloc_page env st of
        (None, st) \<Rightarrow> Inr st
      | (Some p, st) \<Rightarrow>
          if dmamap env p = 0 then upd_rbd b (\<lambda>r. r\<lparr>rb_page := None, rb_dma := 0\<rparr>) st
          else bindF (upd_rbd b (\<lambda>r. r\<lparr>rb_page := Some p, rb_dma := dmamap env p\<rparr>) st) (\<lambda>st.
            iwl_pcie_rxq_alloc_rbs_loop env bs (upd_q (\<lambda>q. q\<lparr>rx_used := bs, rx_free := rx_free q @ [b],
              rxq_free_count := rxq_free_count q + 1\<rparr>) st)))"

definition iwl_pcie_rxq_alloc_rbs :: "rx_env \<Rightarrow> 'd rx \<Rightarrow> 'd rx run" where
  "iwl_pcie_rxq_alloc_rbs env st = iwl_pcie_rxq_alloc_rbs_loop env (rx_used (rx_q st)) st"

definition iwl_pcie_free_rbs_pool :: "'d rx \<Rightarrow> 'd rx" where
  "iwl_pcie_free_rbs_pool st =
     st\<lparr>rx_pool := map (\<lambda>r. if rb_page r = None then r else r\<lparr>rb_dma := 0, rb_page := None\<rparr>) (rx_pool st)\<rparr>"

subsection \<open>The allocator\<close>

text \<open>
  The loop for one request, which gives pages to up to eight RBDs of its local list; a refused or unmapped page is
  asked for again.
\<close>

partial_function (option) alloc_eight ::
  "rx_env \<Rightarrow> nat \<Rightarrow> nat list \<Rightarrow> nat list \<Rightarrow> 'd rx \<Rightarrow> (nat list \<times> nat list \<times> 'd rx) run option" where
  "alloc_eight env i local_empty local_allocated st =
     (if i \<ge> RX_CLAIM_REQ_ALLOC then Some (Inr (local_empty, local_allocated, st))
      else case local_empty of
        [] \<Rightarrow> Some (Inr ([], local_allocated, st))
      | b # bs \<Rightarrow> (case iwl_pcie_rx_alloc_page env st of
            (None, st) \<Rightarrow> alloc_eight env i local_empty local_allocated st
          | (Some p, st) \<Rightarrow>
              (case upd_rbd b (\<lambda>r. r\<lparr>rb_page := if dmamap env p = 0 then None else Some p, rb_dma := dmamap env p\<rparr>) st of
                 Inl f \<Rightarrow> Some (Inl f)
               | Inr st \<Rightarrow>
                   if dmamap env p = 0 then alloc_eight env i local_empty local_allocated st
                   else alloc_eight env (i + 1) bs (local_allocated @ [b]) st)))"

text \<open>\<open>OSAddAtomic\<close> of the negated value returns the number of requests and leaves zero.\<close>

definition take_pending :: "'d rx \<Rightarrow> int \<times> 'd rx" where
  "take_pending st = (req_pending (rx_rba st), upd_rba (\<lambda>a. a\<lparr>req_pending := 0\<rparr>) st)"

partial_function (option) allocator_loop ::
  "rx_env \<Rightarrow> int \<Rightarrow> nat list \<Rightarrow> 'd rx \<Rightarrow> (nat list \<times> 'd rx) run option" where
  "allocator_loop env pending local_empty st =
     (if pending = 0 then Some (Inr (local_empty, st))
      else case alloc_eight env 0 local_empty [] st of
        None \<Rightarrow> None
      | Some (Inl f) \<Rightarrow> Some (Inl f)
      | Some (Inr (local_empty, local_allocated, st)) \<Rightarrow>
          (case (if pending - 1 = 0 then take_pending st else (pending - 1, st)) of
             (pending, st) \<Rightarrow>
               allocator_loop env pending (local_empty @ rbd_empty (rx_rba st))
                 (upd_rba (\<lambda>a. a\<lparr>rbd_allocated := rbd_allocated a @ local_allocated, rbd_empty := [], req_ready := req_ready a + 1\<rparr>) st)))"

definition iwl_pcie_rx_allocator :: "rx_env \<Rightarrow> 'd rx \<Rightarrow> 'd rx run option" where
  "iwl_pcie_rx_allocator env st =
     (case take_pending st of (pending, st) \<Rightarrow>
       case allocator_loop env pending (rbd_empty (rx_rba st)) (upd_rba (\<lambda>a. a\<lparr>rbd_empty := []\<rparr>) st) of
         None \<Rightarrow> None
       | Some (Inl f) \<Rightarrow> Some (Inl f)
       | Some (Inr (local_empty, st)) \<Rightarrow> Some (Inr (upd_rba (\<lambda>a. a\<lparr>rbd_empty := rbd_empty a @ local_empty\<rparr>) st)))"

text \<open>\<open>OSDecrementAtomic\<close> returns the value before the decrement.\<close>

fun claim_rbds :: "nat \<Rightarrow> 'd rx \<Rightarrow> 'd rx run" where
  "claim_rbds 0 st = Inr st"
| "claim_rbds (Suc n) st = (case rbd_allocated (rx_rba st) of
     [] \<Rightarrow> Inl NullDeref
   | b # bs \<Rightarrow> claim_rbds n (upd_q (\<lambda>q. q\<lparr>rx_free := rx_free q @ [b]\<rparr>) (upd_rba (\<lambda>a. a\<lparr>rbd_allocated := bs\<rparr>) st)))"

definition iwl_pcie_rx_allocator_get :: "'d rx \<Rightarrow> 'd rx run" where
  "iwl_pcie_rx_allocator_get st =
     (let old = req_ready (rx_rba st); st = upd_rba (\<lambda>a. a\<lparr>req_ready := req_ready a - 1\<rparr>) st in
      if old < 0 then Inr (upd_rba (\<lambda>a. a\<lparr>req_ready := 0\<rparr>) st)
      else bindF (claim_rbds RX_CLAIM_REQ_ALLOC st) (\<lambda>st.
        Inr (upd_q (\<lambda>q. q\<lparr>rxq_used_count := rxq_used_count q - of_nat RX_CLAIM_REQ_ALLOC,
          rxq_free_count := rxq_free_count q + of_nat RX_CLAIM_REQ_ALLOC\<rparr>) st)))"

text \<open>The RBDs of the used list go to the allocator.\<close>

definition used_to_allocator :: "'d rx \<Rightarrow> 'd rx" where
  "used_to_allocator st = upd_q (\<lambda>q. q\<lparr>rx_used := []\<rparr>) (upd_rba (\<lambda>a. a\<lparr>rbd_empty := rbd_empty a @ rx_used (rx_q st)\<rparr>) st)"

definition iwl_pcie_rx_reuse_rbd :: "rx_env \<Rightarrow> nat \<Rightarrow> bool \<Rightarrow> 'd rx \<Rightarrow> 'd rx run option" where
  "iwl_pcie_rx_reuse_rbd env b emergency st =
     (let st = upd_q (\<lambda>q. q\<lparr>rx_used := rx_used q @ [b]\<rparr>) st in
      if emergency then Some (Inr st)
      else
        let st = upd_q (\<lambda>q. q\<lparr>rxq_used_count := rxq_used_count q + 1\<rparr>) st in
        if unat (rxq_used_count (rx_q st)) mod RX_CLAIM_REQ_ALLOC = RX_POST_REQ_ALLOC
        then iwl_pcie_rx_allocator env (upd_rba (\<lambda>a. a\<lparr>req_pending := req_pending a + 1\<rparr>) (used_to_allocator st))
        else Some (Inr st))"

declare alloc_eight.simps [code] allocator_loop.simps [code]

end
