(* ===== verification/Rx_Handle.thy ===== *)
theory Rx_Handle
  imports Rx_Queue
begin

section \<open>Handling received buffers\<close>

text \<open>
  \<open>iwl_pcie_rx_handle\<close> of \<^verbatim>\<open>IntelWifi_rx.cpp\<close> and what it calls. The content of the pages, the status word with the
  index of the last closed buffer (\<open>closed k\<close> is what the \<open>k\<close>-th read of it gives) and the list of used descriptors are
  written by the device and are parameters. So is the receive function of the operation mode, which is given the
  address of a packet and answers whether it keeps the page.
\<close>

type_synonym 'd op_rx = "nat \<Rightarrow> 'd cmdq \<Rightarrow> bool \<times> 'd cmdq"

definition PAGE_SIZE :: nat where "PAGE_SIZE = 4096"

abbreviation FH_RSCSR_FRAME_SIZE_MSK :: u32 where "FH_RSCSR_FRAME_SIZE_MSK \<equiv> 0x3FFF"
abbreviation FH_RSCSR_FRAME_INVALID :: u32 where "FH_RSCSR_FRAME_INVALID \<equiv> 0x55550000"
abbreviation SEQ_RX_FRAME :: u16 where "SEQ_RX_FRAME \<equiv> 0x8000"

definition iwl_rx_packet_len :: "u32 \<Rightarrow> nat" where
  "iwl_rx_packet_len len_n_flags = unat (len_n_flags AND FH_RSCSR_FRAME_SIZE_MSK)"

text \<open>The distance to the next packet: the length and the status word, rounded up to 64 bytes.\<close>

definition packet_stride :: "u32 \<Rightarrow> nat" where
  "packet_stride len_n_flags = (iwl_rx_packet_len len_n_flags + 4 + 63) div 64 * 64"

definition max_len :: "rx_cfg \<Rightarrow> nat" where
  "max_len c = PAGE_SIZE * 2 ^ rx_page_order c"

subsection \<open>One packet\<close>

text \<open>Whether completing a command takes the page: it is handed to the caller that wanted the answer.\<close>

definition complete_steals :: "pcie_cfg \<Rightarrow> u16 \<Rightarrow> 'd cmdq \<Rightarrow> bool" where
  "complete_steals c sq st \<longleftrightarrow> ucast (SEQ_TO_QUEUE sq) = cmd_queue c \<and>
     ent_flags (txq_entries (cq_queue st) ! iwl_pcie_get_cmd_index (cq_queue st) (int (unat (SEQ_TO_INDEX sq)))) AND CMD_WANT_SKB \<noteq> 0"

definition is_response :: "rx_cfg \<Rightarrow> u8 \<Rightarrow> u8 \<Rightarrow> u16 \<Rightarrow> bool" where
  "is_response c cid gid sq \<longleftrightarrow> sq AND SEQ_RX_FRAME = 0 \<and> \<not> (gid = 0 \<and> cid \<in> set (no_reclaim_cmds c))"

definition rx_packet ::
  "'d hw \<Rightarrow> rx_cfg \<Rightarrow> 'd op_rx \<Rightarrow> nat \<Rightarrow> u8 list \<Rightarrow> nat \<Rightarrow> 'd cmdq \<Rightarrow> (bool \<times> 'd cmdq) run option" where
  "rx_packet hw c op page bytes offset st =
     (case bindF (rd8 bytes (offset + 4)) (\<lambda>cid. bindF (rd8 bytes (offset + 5)) (\<lambda>gid.
         bindF (rd16 bytes (offset + 6)) (\<lambda>sq. Inr (cid, gid, sq)))) of
        Inl f \<Rightarrow> Some (Inl f)
      | Inr (cid, gid, sq) \<Rightarrow>
          let cmd_index = iwl_pcie_get_cmd_index (cq_queue st) (int (unat (SEQ_TO_INDEX sq)));
              (stolen, st) = op (page + offset) st
          in if \<not> is_response c cid gid sq then Some (Inr (stolen, st))
             else case upd_entry cmd_index (\<lambda>e. e\<lparr>ent_free_buf := False\<rparr>) (cq_queue st) of
               Inl f \<Rightarrow> Some (Inl f)
             | Inr q \<Rightarrow>
                 let st = st\<lparr>cq_queue := q\<rparr> in
                 if stolen then Some (Inr (True, st))
                 else case iwl_pcie_hcmd_complete hw (rx_pcie c) sq (page + offset) st of
                   None \<Rightarrow> None
                 | Some (Inl f) \<Rightarrow> Some (Inl f)
                 | Some (Inr st') \<Rightarrow> Some (Inr (complete_steals (rx_pcie c) sq st, st')))"

subsection \<open>One buffer\<close>

function packet_loop ::
  "'d hw \<Rightarrow> rx_cfg \<Rightarrow> 'd op_rx \<Rightarrow> nat \<Rightarrow> u8 list \<Rightarrow> nat \<Rightarrow> bool \<Rightarrow> 'd cmdq \<Rightarrow> (bool \<times> 'd cmdq) run option" where
  "packet_loop hw c op page bytes offset page_stolen st =
     (if \<not> offset + 4 + 4 < max_len c then Some (Inr (page_stolen, st))
      else case rd32 bytes offset of
        Inl f \<Rightarrow> Some (Inl f)
      | Inr len_n_flags \<Rightarrow>
          if len_n_flags = FH_RSCSR_FRAME_INVALID then Some (Inr (page_stolen, st))
          else case rx_packet hw c op page bytes offset st of
            None \<Rightarrow> None
          | Some (Inl f) \<Rightarrow> Some (Inl f)
          | Some (Inr (stolen, st)) \<Rightarrow>
              packet_loop hw c op page bytes (offset + packet_stride len_n_flags) (page_stolen \<or> stolen) st)"
  by pat_completeness auto
termination
  by (relation "measure (\<lambda>(hw, c, op, page, bytes, offset, stolen, st). max_len c - offset)") (auto simp: packet_stride_def)

definition iwl_pcie_rx_handle_rb ::
  "rx_env \<Rightarrow> 'd hw \<Rightarrow> rx_cfg \<Rightarrow> 'd op_rx \<Rightarrow> (nat \<Rightarrow> u8 list) \<Rightarrow> nat option \<Rightarrow> bool \<Rightarrow> 'd rx \<Rightarrow> 'd rx run option" where
  "iwl_pcie_rx_handle_rb env hw c op page_mem rxb emergency st = (case rxb of
     None \<Rightarrow> Some (Inr st)
   | Some b \<Rightarrow> (case rbd_at b st of
       Inl f \<Rightarrow> Some (Inl f)
     | Inr r \<Rightarrow> (case rb_page r of
         None \<Rightarrow> Some (Inl NullDeref)
       | Some p \<Rightarrow> (case packet_loop hw c op p (page_mem p) 0 False (rx_cmdq st) of
           None \<Rightarrow> None
         | Some (Inl f) \<Rightarrow> Some (Inl f)
         | Some (Inr (page_stolen, cq)) \<Rightarrow>
             let st = st\<lparr>rx_cmdq := cq\<rparr>; dma = (if page_stolen then rb_dma r else dmamap env p);
                 kept = (if page_stolen \<or> dma = 0 then None else Some p)
             in (case upd_rbd b (\<lambda>r. r\<lparr>rb_page := kept, rb_dma := dma\<rparr>) st of
                Inl f \<Rightarrow> Some (Inl f)
              | Inr st \<Rightarrow>
                  if kept = None then iwl_pcie_rx_reuse_rbd env b emergency st
                  else Some (Inr (upd_q (\<lambda>q. q\<lparr>rx_free := rx_free q @ [b], rxq_free_count := rxq_free_count q + 1\<rparr>) st)))))))"

subsection \<open>The queue\<close>

text \<open>The next buffer of the queue; \<open>Inl\<close> is the exit after an index from the device that cannot be right.\<close>

definition next_rxb :: "'d hw \<Rightarrow> rx_cfg \<Rightarrow> u32 \<Rightarrow> 'd rx \<Rightarrow> ((unit + nat option) \<times> 'd rx) run" where
  "next_rxb hw c i st =
     (if mq_rx_supported c then
        if length (rxq_used_bd (rx_q st)) \<le> unat i then Inl OutOfBounds
        else
          let vid = unat (rxq_used_bd (rx_q st) ! unat i AND 0xFFF) in
          if vid = 0 \<or> vid > length (global_table st)
          then bindF (rx_on_dev (iwl_force_nmi hw) st) (\<lambda>(_, st). Inr (Inl (), st))
          else (case global_table st ! (vid - 1) of
             None \<Rightarrow> Inl NullDeref
           | Some b \<Rightarrow> bindF (rbd_at b st) (\<lambda>r.
               if rb_invalid r then bindF (rx_on_dev (iwl_force_nmi hw) st) (\<lambda>(_, st). Inr (Inl (), st))
               else bindF (upd_rbd b (\<lambda>r. r\<lparr>rb_invalid := True\<rparr>) st) (\<lambda>st. Inr (Inr (Some b), st))))
      else if length (rxq_slots (rx_q st)) \<le> unat i then Inl OutOfBounds
      else Inr (Inr (rxq_slots (rx_q st) ! unat i), upd_q (\<lambda>q. q\<lparr>rxq_slots := (rxq_slots q)[unat i := None]\<rparr>) st))"

definition closed_index :: "u16 \<Rightarrow> iwl_rxq \<Rightarrow> u32" where
  "closed_index closed_rb_num q = ucast (closed_rb_num AND 0x0FFF) AND (rxq_size q - 1)"

definition leave_handle :: "rx_env \<Rightarrow> 'd hw \<Rightarrow> rx_cfg \<Rightarrow> u32 \<Rightarrow> nat \<Rightarrow> bool \<Rightarrow> 'd rx \<Rightarrow> 'd rx run" where
  "leave_handle env hw c i count emergency st =
     (let st = upd_q (\<lambda>q. q\<lparr>rxq_read := i\<rparr>) st in
      bindF (if emergency \<and> count \<noteq> 0 then iwl_pcie_rxq_alloc_rbs env st else Inr st) (iwl_pcie_rxq_restock hw c))"

text \<open>After a buffer: the claim when eight RBDs are with the allocator.\<close>

definition claim_ready :: "'d rx \<Rightarrow> 'd rx run" where
  "claim_ready st = (if unat (rxq_used_count (rx_q st)) \<ge> RX_CLAIM_REQ_ALLOC then iwl_pcie_rx_allocator_get st else Inr st)"

text \<open>
  One turn of the loop, for the buffer at \<open>i\<close>: it ends the loop, goes on with a count of buffers in emergency, or starts
  over after eight of them, with the used RBDs given pages and the ring restocked.
\<close>

datatype turn = Leave bool | Go_on nat bool | Restart bool

definition after_buffer ::
  "rx_env \<Rightarrow> 'd hw \<Rightarrow> rx_cfg \<Rightarrow> u32 \<Rightarrow> nat \<Rightarrow> bool \<Rightarrow> 'd rx \<Rightarrow> (turn \<times> 'd rx) run" where
  "after_buffer env hw c i count emergency st =
     bindF (claim_ready st) (\<lambda>st.
       if unat (rxq_used_count (rx_q st)) mod RX_CLAIM_REQ_ALLOC = 0 \<and> \<not> emergency
       then Inr (Go_on count emergency, used_to_allocator st)
       else if \<not> emergency then Inr (Go_on count emergency, st)
       else if count + 1 \<noteq> 8 then Inr (Go_on (count + 1) emergency, st)
       else bindF (iwl_pcie_rxq_alloc_rbs env (upd_q (\<lambda>q. q\<lparr>rxq_read := i\<rparr>) st)) (\<lambda>st'.
            bindF (iwl_pcie_rxq_restock hw c st') (\<lambda>st'.
              Inr (Restart (\<not> rxq_used_count (rx_q st) < rxq_size (rx_q st) div 3), st'))))"

definition handle_turn ::
  "rx_env \<Rightarrow> 'd hw \<Rightarrow> rx_cfg \<Rightarrow> 'd op_rx \<Rightarrow> (nat \<Rightarrow> u8 list) \<Rightarrow> u32 \<Rightarrow> nat \<Rightarrow> bool \<Rightarrow> 'd rx \<Rightarrow> (turn \<times> 'd rx) run option" where
  "handle_turn env hw c op page_mem i count emergency st =
     (let emergency = (emergency \<or> rxq_used_count (rx_q st) = rxq_size (rx_q st) div 2) in
      case next_rxb hw c i st of
        Inl f \<Rightarrow> Some (Inl f)
      | Inr (Inl _, st) \<Rightarrow> Some (Inr (Leave emergency, st))
      | Inr (Inr rxb, st) \<Rightarrow>
          (case iwl_pcie_rx_handle_rb env hw c op page_mem rxb emergency st of
             None \<Rightarrow> None
           | Some (Inl f) \<Rightarrow> Some (Inl f)
           | Some (Inr st) \<Rightarrow> Some (after_buffer env hw c ((i + 1) AND (rxq_size (rx_q st) - 1)) count emergency st)))"

partial_function (option) rx_handle_loop ::
  "rx_env \<Rightarrow> 'd hw \<Rightarrow> rx_cfg \<Rightarrow> 'd op_rx \<Rightarrow> (nat \<Rightarrow> u8 list) \<Rightarrow> (nat \<Rightarrow> u16) \<Rightarrow> nat \<Rightarrow> u32 \<Rightarrow> u32 \<Rightarrow> nat \<Rightarrow> bool \<Rightarrow> 'd rx
    \<Rightarrow> 'd rx run option" where
  "rx_handle_loop env hw c op page_mem closed k r i count emergency st =
     (if i = r then Some (leave_handle env hw c i count emergency st)
      else case handle_turn env hw c op page_mem i count emergency st of
        None \<Rightarrow> None
      | Some (Inl f) \<Rightarrow> Some (Inl f)
      | Some (Inr (t, st')) \<Rightarrow> (case t of
            Leave emergency \<Rightarrow> Some (leave_handle env hw c i count emergency st')
          | Go_on count emergency \<Rightarrow>
              rx_handle_loop env hw c op page_mem closed k r ((i + 1) AND (rxq_size (rx_q st') - 1)) count emergency st'
          | Restart emergency \<Rightarrow>
              rx_handle_loop env hw c op page_mem closed (k + 1) (closed_index (closed (k + 1)) (rx_q st')) (rxq_read (rx_q st'))
                0 emergency st'))"

definition iwl_pcie_rx_handle ::
  "rx_env \<Rightarrow> 'd hw \<Rightarrow> rx_cfg \<Rightarrow> 'd op_rx \<Rightarrow> (nat \<Rightarrow> u8 list) \<Rightarrow> (nat \<Rightarrow> u16) \<Rightarrow> 'd rx \<Rightarrow> 'd rx run option" where
  "iwl_pcie_rx_handle env hw c op page_mem closed st =
     rx_handle_loop env hw c op page_mem closed 0 (closed_index (closed 0) (rx_q st)) (rxq_read (rx_q st)) 0 False st"

declare rx_handle_loop.simps [code]

end
