(* ===== verification/Rx_Setup.thy ===== *)
theory Rx_Setup
  imports Rx_Handle
begin

section \<open>Setting up and releasing the receive queue\<close>

text \<open>
  The memory of the queue, the registers of both kinds of receive hardware, the distribution of the RBDs, and the
  handling of an error interrupt, from \<^verbatim>\<open>IntelWifi_rx.cpp\<close>. A sequence of register writes is a list.
\<close>

datatype amsdu_size = IWL_AMSDU_DEF | IWL_AMSDU_4K | IWL_AMSDU_8K | IWL_AMSDU_12K | IWL_AMSDU_2K

record rx_hw_cfg =
  rx_buf_size :: amsdu_size
  host_interrupt_operation_mode :: bool
  integrated :: bool
  hw_rev :: u32
  internal_wimax_coex :: bool
  apmg_not_supported :: bool

abbreviation FH_MEM_RCSR_CHNL0_CONFIG_REG :: u32 where "FH_MEM_RCSR_CHNL0_CONFIG_REG \<equiv> 0x1C00"
abbreviation FH_MEM_RCSR_CHNL0_RBDCB_WPTR :: u32 where "FH_MEM_RCSR_CHNL0_RBDCB_WPTR \<equiv> 0x1C08"
abbreviation FH_MEM_RCSR_CHNL0_FLUSH_RB_REQ :: u32 where "FH_MEM_RCSR_CHNL0_FLUSH_RB_REQ \<equiv> 0x1C10"
abbreviation FH_RSCSR_CHNL0_STTS_WPTR_REG :: u32 where "FH_RSCSR_CHNL0_STTS_WPTR_REG \<equiv> 0x1BC0"
abbreviation FH_RSCSR_CHNL0_RBDCB_BASE_REG :: u32 where "FH_RSCSR_CHNL0_RBDCB_BASE_REG \<equiv> 0x1BC4"
abbreviation FH_RSCSR_CHNL0_RBDCB_WPTR_REG :: u32 where "FH_RSCSR_CHNL0_RBDCB_WPTR_REG \<equiv> 0x1BC8"
abbreviation FH_RSCSR_CHNL0_RDPTR :: u32 where "FH_RSCSR_CHNL0_RDPTR \<equiv> 0x1BCC"
abbreviation FH_MEM_RSSR_RX_STATUS_REG :: u32 where "FH_MEM_RSSR_RX_STATUS_REG \<equiv> 0x1C44"
abbreviation FH_RSSR_CHNL0_RX_STATUS_CHNL_IDLE :: u32 where "FH_RSSR_CHNL0_RX_STATUS_CHNL_IDLE \<equiv> 0x01000000"
abbreviation CSR_INT_COALESCING :: u32 where "CSR_INT_COALESCING \<equiv> 4"
abbreviation IWL_HOST_INT_TIMEOUT_DEF :: u8 where "IWL_HOST_INT_TIMEOUT_DEF \<equiv> 0x40"
abbreviation IWL_HOST_INT_OPER_MODE :: u32 where "IWL_HOST_INT_OPER_MODE \<equiv> 0x80000000"
abbreviation CSR_MAC_SHADOW_REG_CTRL :: u32 where "CSR_MAC_SHADOW_REG_CTRL \<equiv> 0xA8"
abbreviation CSR_MAC_SHADOW_REG_CTL2 :: u32 where "CSR_MAC_SHADOW_REG_CTL2 \<equiv> 0xAC"
abbreviation RFH_RXF_DMA_CFG :: u32 where "RFH_RXF_DMA_CFG \<equiv> 0xA09820"
abbreviation RFH_RXF_RXQ_ACTIVE :: u32 where "RFH_RXF_RXQ_ACTIVE \<equiv> 0xA0980C"
abbreviation RFH_GEN_CFG :: u32 where "RFH_GEN_CFG \<equiv> 0xA09800"
abbreviation RFH_GEN_STATUS :: u32 where "RFH_GEN_STATUS \<equiv> 0xA09808"
abbreviation RXF_DMA_IDLE :: u32 where "RXF_DMA_IDLE \<equiv> 0x80000000"
abbreviation APMG_CLK_CTRL_REG :: u32 where "APMG_CLK_CTRL_REG \<equiv> 0x3000"
abbreviation APMG_PS_CTRL_REG :: u32 where "APMG_PS_CTRL_REG \<equiv> 0x300c"

subsection \<open>Memory\<close>

text \<open>The result of an allocation is used without a check.\<close>

definition ring_buffer :: "dma_env \<Rightarrow> nat \<Rightarrow> 'd pcie \<Rightarrow> (u64 \<times> 'd pcie) run" where
  "ring_buffer env n s = bindF (allocate_dma_buf env n s) (\<lambda>(a, s). case a of None \<Rightarrow> Inl NullDeref | Some a \<Rightarrow> Inr (a, s))"

definition iwl_pcie_rx_alloc :: "dma_env \<Rightarrow> rx_cfg \<Rightarrow> 'd rx \<Rightarrow> 'd rx outcome" where
  "iwl_pcie_rx_alloc env c st =
     (if rx_ptr st \<noteq> Rxq_null then fail EINVAL st
      else
        let s = cq_pcie (rx_cmdq st); (okay, m) = iwh_malloc (pcie_answers s); s = s\<lparr>pcie_answers := m\<rparr>;
            n = (if mq_rx_supported c then MQ_RX_TABLE_SIZE else RX_QUEUE_SIZE) in
        if \<not> okay then fail EINVAL (st\<lparr>rx_cmdq := (rx_cmdq st)\<lparr>cq_pcie := s\<rparr>\<rparr>)
        else bindF (ring_buffer env ((if mq_rx_supported c then 8 else 4) * n) s) (\<lambda>(bd, s).
             bindF (if mq_rx_supported c then ring_buffer env (4 * n) s else Inr (0, s)) (\<lambda>(used, s).
             bindF (ring_buffer env 12 s) (\<lambda>(stts, s).
               ok (st\<lparr>rx_cmdq := (rx_cmdq st)\<lparr>cq_pcie := s\<rparr>, rx_ptr := Rxq_live,
                 rx_q := \<lparr>rxq_read = 0, rxq_write = 0, rxq_free_count = 0, rxq_used_count = 0, rxq_write_actual = 0,
                   rxq_size = of_nat n, rx_free = [], rx_used = [], rxq_need_update = False,
                   rxq_slots = replicate RX_QUEUE_SIZE None, rxq_bd = replicate n 0,
                   rxq_used_bd = (if mq_rx_supported c then replicate n 0 else []),
                   bd_dma = bd, used_bd_dma = used, rb_stts_dma = stts\<rparr>\<rparr>)))))"

text \<open>\<open>iwl_pcie_rx_free\<close> gives back the queue but not its rings, and keeps the pointer.\<close>

definition iwl_pcie_rx_free :: "'d rx \<Rightarrow> 'd rx run" where
  "iwl_pcie_rx_free st = (case rx_ptr st of
     Rxq_null \<Rightarrow> Inr st
   | Rxq_freed \<Rightarrow> Inl OutOfBounds
   | Rxq_live \<Rightarrow> Inr ((iwl_pcie_free_rbs_pool st)\<lparr>rx_ptr := Rxq_freed\<rparr>))"

subsection \<open>Registers\<close>

fun write_regs :: "(u32 \<Rightarrow> u32 \<Rightarrow> ('d, unit) io) \<Rightarrow> (u32 \<times> u32) list \<Rightarrow> ('d, unit) io" where
  "write_regs w [] = retIO ()"
| "write_regs w ((reg, val) # rest) = bindIO (w reg val) (\<lambda>_. write_regs w rest)"

definition iwl_pcie_rx_stop :: "'d hw \<Rightarrow> rx_cfg \<Rightarrow> ('d, errno + int) io" where
  "iwl_pcie_rx_stop hw c =
     (if mq_rx_supported c
      then bindIO (iwl_write_prph hw RFH_RXF_DMA_CFG 0) (\<lambda>_. iwl_poll_prph_bit hw RFH_GEN_STATUS RXF_DMA_IDLE RXF_DMA_IDLE 1000)
      else bindIO (iwl_write_direct32 hw FH_MEM_RCSR_CHNL0_CONFIG_REG 0)
        (\<lambda>_. iwl_poll_direct_bit hw FH_MEM_RSSR_RX_STATUS_REG FH_RSSR_CHNL0_RX_STATUS_CHNL_IDLE 1000))"

definition rx_config :: "rx_hw_cfg \<Rightarrow> u32" where
  "rx_config h = 0x80000000 OR 4 OR 0x1000
     OR (case rx_buf_size h of IWL_AMSDU_8K \<Rightarrow> 0x10000 | IWL_AMSDU_12K \<Rightarrow> 0x20000 | _ \<Rightarrow> 0) OR push_bit 4 0x11 OR push_bit 20 8"

definition iwl_pcie_rx_hw_init :: "'d hw \<Rightarrow> rx_hw_cfg \<Rightarrow> iwl_rxq \<Rightarrow> ('d, unit) io" where
  "iwl_pcie_rx_hw_init hw h q = bindIO (iwl_trans_pcie_grab_nic_access hw) (\<lambda>okay. if \<not> okay then retIO () else
     bindIO (write_regs (iwl_write32 hw)
       [(FH_MEM_RCSR_CHNL0_CONFIG_REG, 0), (FH_MEM_RCSR_CHNL0_RBDCB_WPTR, 0), (FH_MEM_RCSR_CHNL0_FLUSH_RB_REQ, 0),
        (FH_RSCSR_CHNL0_RDPTR, 0), (FH_RSCSR_CHNL0_RBDCB_WPTR_REG, 0),
        (FH_RSCSR_CHNL0_RBDCB_BASE_REG, ucast (drop_bit 8 (bd_dma q))), (FH_RSCSR_CHNL0_STTS_WPTR_REG, ucast (drop_bit 4 (rb_stts_dma q))),
        (FH_MEM_RCSR_CHNL0_CONFIG_REG, rx_config h)]) (\<lambda>_.
     bindIO (iwl_write8 hw CSR_INT_COALESCING IWL_HOST_INT_TIMEOUT_DEF) (\<lambda>_.
     bindIO (if host_interrupt_operation_mode h then iwl_set_bit hw CSR_INT_COALESCING IWL_HOST_INT_OPER_MODE else retIO ()) (\<lambda>_.
       iwl_trans_pcie_release_nic_access hw))))"

definition iwl_pcie_enable_rx_wake :: "'d hw \<Rightarrow> rx_hw_cfg \<Rightarrow> ('d, unit) io" where
  "iwl_pcie_enable_rx_wake hw h t =
     (if family t \<noteq> IWL_DEVICE_FAMILY_9000 \<or> drop_bit 2 (hw_rev h AND 0xC) \<noteq> 0 \<or> \<not> integrated h then Inr ((), t)
      else bindIO (iwl_set_bit hw CSR_MAC_SHADOW_REG_CTRL 0x100000) (\<lambda>_. iwl_set_bit hw CSR_MAC_SHADOW_REG_CTL2 0xFFFF) t)"

definition rfh_dma_config :: "rx_hw_cfg \<Rightarrow> u32" where
  "rfh_dma_config h = 0x80000000 OR push_bit 16 (case rx_buf_size h of IWL_AMSDU_8K \<Rightarrow> 8 | IWL_AMSDU_12K \<Rightarrow> 9 | _ \<Rightarrow> 4)
     OR push_bit 24 3 OR 0x04000000 OR push_bit 20 9"

definition iwl_pcie_rx_mq_hw_init :: "'d hw \<Rightarrow> rx_hw_cfg \<Rightarrow> iwl_rxq \<Rightarrow> ('d, unit) io" where
  "iwl_pcie_rx_mq_hw_init hw h q = bindIO (iwl_trans_pcie_grab_nic_access hw) (\<lambda>okay. if \<not> okay then retIO () else
     bindIO (write_regs (iwl_write_prph_no_grab hw) [(RFH_RXF_DMA_CFG, 0), (RFH_RXF_RXQ_ACTIVE, 0)]) (\<lambda>_.
     bindIO (iwl_write_prph64_no_grab hw 0xA08000 (bd_dma q)) (\<lambda>_.
     bindIO (iwl_write_prph64_no_grab hw 0xA08100 (used_bd_dma q)) (\<lambda>_.
     bindIO (iwl_write_prph64_no_grab hw 0xA08200 (rb_stts_dma q)) (\<lambda>_.
     bindIO (write_regs (iwl_write_prph_no_grab hw)
       [(0xA08080, 0), (0xA080C0, 0), (0xA08180, 0), (RFH_RXF_DMA_CFG, rfh_dma_config h),
        (RFH_GEN_CFG, 3 OR (if integrated h then 0 else 0x10)), (RFH_RXF_RXQ_ACTIVE, 0x10001)]) (\<lambda>_.
     bindIO (iwl_trans_pcie_release_nic_access hw) (\<lambda>_.
     bindIO (iwl_write8 hw CSR_INT_COALESCING IWL_HOST_INT_TIMEOUT_DEF) (\<lambda>_. iwl_pcie_enable_rx_wake hw h))))))))"

subsection \<open>Distributing the RBDs\<close>

definition iwl_pcie_rx_init_rxb_lists :: "iwl_rxq \<Rightarrow> iwl_rxq" where
  "iwl_pcie_rx_init_rxb_lists q = q\<lparr>rx_free := [], rx_used := [], rxq_free_count := 0, rxq_used_count := 0\<rparr>"

text \<open>From RBD \<open>i\<close> on: the first ones for the allocator, the others for the used list.\<close>

function give_rbds :: "nat \<Rightarrow> nat \<Rightarrow> nat \<Rightarrow> 'd rx \<Rightarrow> 'd rx run" where
  "give_rbds i pool_size num_alloc st =
     (if num_alloc \<le> i then Inr st
      else if length (global_table st) \<le> i then Inl OutOfBounds
      else bindF (upd_rbd i (\<lambda>r. r\<lparr>rb_vid := of_nat (i + 1), rb_invalid := True\<rparr>) st) (\<lambda>st.
        let st = (if i < pool_size then upd_rba (\<lambda>a. a\<lparr>rbd_empty := i # rbd_empty a\<rparr>) st
                  else upd_q (\<lambda>q. q\<lparr>rx_used := i # rx_used q\<rparr>) st)
        in give_rbds (i + 1) pool_size num_alloc (st\<lparr>global_table := (global_table st)[i := Some i]\<rparr>)))"
  by pat_completeness auto
termination by (relation "measure (\<lambda>(i, p, n, st). n - i)") auto

definition rbd_counts :: "rx_cfg \<Rightarrow> nat \<times> nat" where
  "rbd_counts c = (let p = RX_CLAIM_REQ_ALLOC - RX_POST_REQ_ALLOC in
     (p, (if mq_rx_supported c then MQ_RX_NUM_RBDS else RX_QUEUE_SIZE) + p))"

definition rx_reset :: "'d rx \<Rightarrow> 'd rx" where
  "rx_reset st = upd_q (\<lambda>q. iwl_pcie_rx_init_rxb_lists (q\<lparr>rxq_slots := replicate RX_QUEUE_SIZE None, rxq_read := 0, rxq_write := 0, rxq_write_actual := 0\<rparr>))
     (iwl_pcie_free_rbs_pool (st\<lparr>rx_rba := \<lparr>req_pending = 0, req_ready = 0, rbd_allocated = [], rbd_empty = []\<rparr>\<rparr>))"

definition iwl_pcie_gen2_rx_init :: "dma_env \<Rightarrow> rx_env \<Rightarrow> rx_cfg \<Rightarrow> 'd rx \<Rightarrow> 'd rx outcome" where
  "iwl_pcie_gen2_rx_init denv env c st =
     thenS (if rx_ptr st = Rxq_null then iwl_pcie_rx_alloc denv c st else ok st) (\<lambda>st.
       if rx_ptr st = Rxq_freed then Inl OutOfBounds
       else bindF (give_rbds 0 (fst (rbd_counts c)) (snd (rbd_counts c)) (rx_reset st)) (\<lambda>st.
         bindF (iwl_pcie_rxq_alloc_rbs env st) ok))"

definition iwl_pcie_rx_init :: "dma_env \<Rightarrow> rx_env \<Rightarrow> 'd hw \<Rightarrow> rx_hw_cfg \<Rightarrow> rx_cfg \<Rightarrow> 'd rx \<Rightarrow> 'd rx outcome" where
  "iwl_pcie_rx_init denv env hw h c st = thenS (iwl_pcie_gen2_rx_init denv env c st) (\<lambda>st.
     bindF (rx_on_dev (if mq_rx_supported c then iwl_pcie_rx_mq_hw_init hw h (rx_q st) else iwl_pcie_rx_hw_init hw h (rx_q st)) st) (\<lambda>(_, st).
     bindF (iwl_pcie_rxq_restock hw c st) (\<lambda>st.
     bindF (iwl_pcie_rxq_inc_wr_ptr hw c st) ok)))"

subsection \<open>Error interrupts\<close>

text \<open>The sleeper of a synchronous command is woken; the report to the operation mode is commented out in the code.\<close>

definition iwl_pcie_irq_handle_error :: "'d hw \<Rightarrow> rx_hw_cfg \<Rightarrow> 'd rx \<Rightarrow> 'd rx run" where
  "iwl_pcie_irq_handle_error hw h st =
     bindF (if internal_wimax_coex h \<and> \<not> apmg_not_supported h
            then bindF (rx_on_dev (iwl_read_prph hw APMG_CLK_CTRL_REG) st) (\<lambda>(clk, st).
              if clk AND 1 = 0 then Inr st
              else bindF (rx_on_dev (iwl_read_prph hw APMG_PS_CTRL_REG) st) (\<lambda>(_, st). Inr st))
            else Inr st) (\<lambda>st.
     bindF (status_op (clear_bit STATUS_SYNC_HCMD_ACTIVE) (rx_cmdq st)) (\<lambda>cq. Inr (st\<lparr>rx_cmdq := wake_waiter cq\<rparr>)))"

end
