(* ===== verification/Rx_Ownership.thy ===== *)
theory Rx_Ownership
  imports Rx_Setup "HOL-Library.Multiset"
begin

section \<open>Who owns a receive buffer\<close>

text \<open>
  The life cycle in the opening comment of \<^verbatim>\<open>IntelWifi_rx.cpp\<close>, as an invariant of the single queue: every RBD of the
  pool is in exactly one of the free list, the used list, the two lists of the allocator and the slots of the ring, or
  is the one that is being handled. RBDs that can be given to the device have a page, the others have none. Every
  operation is shown to keep it; the content of the status word does not matter.
\<close>

subsection \<open>The invariant\<close>

definition RX_RBDS :: nat where "RX_RBDS = 262"

definition slot_rbds :: "nat option list \<Rightarrow> nat multiset" where
  "slot_rbds ss = image_mset the (filter_mset (\<lambda>x. x \<noteq> None) (mset ss))"

definition places :: "'d rx \<Rightarrow> nat multiset" where
  "places st = mset (rx_free (rx_q st)) + mset (rx_used (rx_q st)) + mset (rbd_empty (rx_rba st)) + mset (rbd_allocated (rx_rba st))
     + slot_rbds (rxq_slots (rx_q st))"

definition paged :: "iwl_rx_mem_buffer list \<Rightarrow> nat \<Rightarrow> bool" where
  "paged pool b \<longleftrightarrow> rb_page (pool ! b) \<noteq> None \<and> rb_dma (pool ! b) \<noteq> 0"

definition bare :: "iwl_rx_mem_buffer list \<Rightarrow> nat \<Rightarrow> bool" where
  "bare pool b \<longleftrightarrow> rb_page (pool ! b) = None"

text \<open>The slots from the write index up to and with the one before \<open>i\<close>, the next to be read, are empty.\<close>

definition gap :: "u32 \<Rightarrow> iwl_rxq \<Rightarrow> bool" where
  "gap i q \<longleftrightarrow> (\<forall>p < 256. (int p - uint (rxq_write q)) mod 256 \<le> (uint i - uint (rxq_write q) - 1) mod 256 \<longrightarrow> rxq_slots q ! p = None)"

text \<open>What the device reads for a slot is the address of the page of its RBD.\<close>

definition slots_told :: "iwl_rx_mem_buffer list \<Rightarrow> iwl_rxq \<Rightarrow> bool" where
  "slots_told pool q \<longleftrightarrow> (\<forall>p b. p < 256 \<longrightarrow> rxq_slots q ! p = Some b \<longrightarrow>
     paged pool b \<and> rxq_bd q ! p = ucast (iwl_pcie_dma_addr2rbd_ptr (rb_dma (pool ! b))))"

definition q_ok :: "u32 \<Rightarrow> iwl_rxq \<Rightarrow> bool" where
  "q_ok i q \<longleftrightarrow> rxq_size q = 256 \<and> length (rxq_slots q) = 256 \<and> length (rxq_bd q) = 256 \<and> i < 256 \<and> rxq_write q < 256
     \<and> rxq_free_count q = of_nat (length (rx_free q)) \<and> gap i q"

text \<open>\<open>i\<close> is the index being read, and \<open>out\<close> are the RBDs in the hands of the handler.\<close>

definition rx_ok :: "u32 \<Rightarrow> nat list \<Rightarrow> 'd rx \<Rightarrow> bool" where
  "rx_ok i out st \<longleftrightarrow> length (rx_pool st) = RX_POOL_SIZE \<and> q_ok i (rx_q st) \<and> places st + mset out = mset [0..<RX_RBDS]
     \<and> list_all (paged (rx_pool st)) (rx_free (rx_q st) @ rbd_allocated (rx_rba st))
     \<and> list_all (bare (rx_pool st)) (rx_used (rx_q st) @ rbd_empty (rx_rba st))
     \<and> slots_told (rx_pool st) (rx_q st)"

subsection \<open>Index arithmetic\<close>

lemma and_255_word: "uint (x AND 255) = uint x mod 256" for x :: u32
proof -
  have "x AND 255 = take_bit 8 x" by (simp add: take_bit_eq_mask mask_eq_exp_minus_1)
  then show ?thesis by (simp only: unsigned_take_bit_eq) (simp add: take_bit_eq_mod)
qed

lemma uint_mod_256: "uint (w :: u32) mod 256 = n mod 256" if "w = word_of_int n"
  using that by (simp add: uint_word_of_int mod_mod_cancel)

lemma next_index: "uint ((i + 1) AND 255) = (uint i + 1) mod 256" for i :: u32
  unfolding and_255_word by (rule uint_mod_256) simp

lemma index_below: "w < 256 \<Longrightarrow> uint w < 256" for w :: u32
  by (simp add: word_less_def)

lemma next_index_less: "(i + 1) AND 255 < 256" for i :: u32
  by (simp add: word_less_def next_index)

lemma mod_dec: "(x - 1) mod 256 = (if x mod 256 = 0 then 255 else x mod 256 - 1)" for x :: int
proof -
  have "(x - 1) mod 256 = (x mod 256 - 1) mod 256" by (simp add: mod_diff_left_eq)
  moreover have "0 \<le> x mod 256" "x mod 256 < 256" by simp_all
  ultimately show ?thesis by (auto simp: mod_pos_pos_trivial)
qed

lemma space_room:
  assumes "rxq_size q = 256"
  shows "iwl_rxq_space q = (uint (rxq_read q) - uint (rxq_write q) - 1) mod 256"
proof -
  have m: "rxq_size q - 1 = 255" using assms by simp
  have "uint ((rxq_read q - rxq_write q - 1) AND (rxq_size q - 1)) = (uint (rxq_read q) - uint (rxq_write q) - 1) mod 256"
    unfolding m and_255_word by (rule uint_mod_256) (simp add: word_of_int_minus[symmetric])
  moreover have "sint w = uint w" if "uint w < 256" for w :: u32
    using that order_trans[of "- 2147483648" 0 "uint w"] by (simp add: sint_uint signed_take_bit_int_eq_self_iff)
  ultimately show ?thesis by (simp add: iwl_rxq_space_def)
qed

lemma same_residue:
  assumes "p < 256" "0 \<le> j" "j < 256" "(int p - w) mod 256 = (j - w) mod 256"
  shows "int p = j"
proof -
  have "(int p - w + w) mod 256 = (j - w + w) mod 256" using assms(4) by (rule mod_add_cong) simp
  then show ?thesis using assms(1-3) by simp
qed

text \<open>Reading a slot makes the gap longer, writing one makes it shorter.\<close>

lemma gap_read:
  assumes "gap i q" and "i < 256" and "length (rxq_slots q) = 256"
  shows "gap ((i + 1) AND 255) (q\<lparr>rxq_slots := (rxq_slots q)[unat i := None]\<rparr>)"
  unfolding gap_def
proof (intro allI impI)
  fix p :: nat assume p: "p < 256"
    and "(int p - uint (rxq_write (q\<lparr>rxq_slots := (rxq_slots q)[unat i := None]\<rparr>))) mod 256
       \<le> (uint ((i + 1) AND 255) - uint (rxq_write (q\<lparr>rxq_slots := (rxq_slots q)[unat i := None]\<rparr>)) - 1) mod 256"
  then have le: "(int p - uint (rxq_write q)) mod 256 \<le> (uint i - uint (rxq_write q)) mod 256"
    unfolding next_index by (simp add: mod_diff_left_eq[of "uint i + 1", symmetric] algebra_simps) (simp add: mod_simps algebra_simps)
  show "rxq_slots (q\<lparr>rxq_slots := (rxq_slots q)[unat i := None]\<rparr>) ! p = None"
  proof (cases "p = unat i")
    case True
    then show ?thesis using p assms(3) by simp
  next
    case False
    then have "int p \<noteq> uint i" by (metis nat_int unat_eq_nat_uint)
    then have "(int p - uint (rxq_write q)) mod 256 \<noteq> (uint i - uint (rxq_write q)) mod 256"
      using same_residue[OF p] index_below[OF assms(2)] by fastforce
    then have "(int p - uint (rxq_write q)) mod 256 \<le> (uint i - uint (rxq_write q) - 1) mod 256"
      using le pos_mod_sign[of 256 "int p - uint (rxq_write q)"] by (auto simp: mod_dec)
    then have "rxq_slots q ! p = None" using assms(1) p by (simp add: gap_def)
    then show ?thesis using False by simp
  qed
qed

lemma gap_write:
  assumes "gap i q" and "(uint i - uint (rxq_write q) - 1) mod 256 > 0" and "rxq_write q < 256" and "length (rxq_slots q) = 256"
  shows "rxq_slots q ! unat (rxq_write q) = None"
    and "gap i (q\<lparr>rxq_slots := (rxq_slots q)[unat (rxq_write q) := Some b], rxq_write := (rxq_write q + 1) AND 255\<rparr>)"
proof -
  let ?w = "uint (rxq_write q)"
  have w: "0 \<le> ?w" "?w < 256" "int (unat (rxq_write q)) = ?w" using index_below[OF assms(3)] by simp_all
  then have n: "unat (rxq_write q) < 256" by linarith
  show "rxq_slots q ! unat (rxq_write q) = None" using assms(1,2) n w(3) by (simp add: gap_def)
  show "gap i (q\<lparr>rxq_slots := (rxq_slots q)[unat (rxq_write q) := Some b], rxq_write := (rxq_write q + 1) AND 255\<rparr>)"
    unfolding gap_def
  proof (intro allI impI)
    let ?q = "q\<lparr>rxq_slots := (rxq_slots q)[unat (rxq_write q) := Some b], rxq_write := (rxq_write q + 1) AND 255\<rparr>"
    fix p :: nat assume p: "p < 256" and le0: "(int p - uint (rxq_write ?q)) mod 256 \<le> (uint i - uint (rxq_write ?q) - 1) mod 256"
    have wq: "uint (rxq_write ?q) = (?w + 1) mod 256" by (simp add: next_index)
    define x where "x = uint i - ?w - 1"
    have e1: "(int p - uint (rxq_write ?q)) mod 256 = (int p - ?w - 1) mod 256"
      unfolding wq by (simp add: mod_diff_right_eq algebra_simps)
    have e2: "(uint i - uint (rxq_write ?q) - 1) mod 256 = (x - 1) mod 256"
      using mod_diff_right_eq[of "uint i - 1" "?w + 1" 256] unfolding wq x_def by (simp add: algebra_simps)
    have x: "0 < x mod 256" using assms(2) by (simp only: x_def)
    have "(int p - ?w) mod 256 \<noteq> 0 \<and> (int p - ?w) mod 256 \<le> x mod 256"
      using le0 x pos_mod_bound[of 256 x] pos_mod_sign[of 256 "int p - ?w"] unfolding e1 e2 mod_dec[of "int p - ?w"] mod_dec[of x]
      by (simp split: if_splits)
    then have "(int p - ?w) mod 256 \<le> (uint i - ?w - 1) mod 256" "int p \<noteq> ?w" unfolding x_def by auto
    then have "(int p - ?w) mod 256 \<le> (uint i - ?w - 1) mod 256" "p \<noteq> unat (rxq_write q)" by auto
    then show "rxq_slots ?q ! p = None" using assms(1) p by (simp add: gap_def)
  qed
qed

subsection \<open>Moving one RBD\<close>

definition held_rbd :: "nat option \<Rightarrow> nat list" where
  "held_rbd x = (case x of None \<Rightarrow> [] | Some b \<Rightarrow> [b])"

lemma slot_take:
  assumes "i < length ss"
  shows "slot_rbds (ss[i := None]) + mset (held_rbd (ss ! i)) = slot_rbds ss"
proof -
  have "ss ! i \<in># mset ss" using assms by simp
  then obtain M where "mset ss = add_mset (ss ! i) M" by (metis insert_DiffM)
  moreover have "mset (ss[i := None]) = add_mset None (mset ss - {#ss ! i#})" using assms by (simp add: mset_update)
  ultimately show ?thesis by (cases "ss ! i") (simp_all add: slot_rbds_def held_rbd_def)
qed

lemma slot_put:
  assumes "i < length ss" and "ss ! i = None"
  shows "slot_rbds (ss[i := Some b]) = add_mset b (slot_rbds ss)"
proof -
  have "ss[i := None] = ss" using assms(2) list_update_id[of ss i] by simp
  then show ?thesis using slot_take[of i "ss[i := Some b]"] assms(1) by (simp add: held_rbd_def)
qed

lemma in_slots: "b \<in># slot_rbds ss \<longleftrightarrow> (\<exists>p < length ss. ss ! p = Some b)"
  by (auto simp: slot_rbds_def in_set_conv_nth image_iff)

text \<open>An RBD in the hands of the handler is nowhere else.\<close>

lemma rx_ok_fresh:
  assumes "rx_ok i (b # out) st"
  shows "b < RX_RBDS" "b < length (rx_pool st)" "b \<notin> set (rx_free (rx_q st))" "b \<notin> set (rx_used (rx_q st))" "b \<notin> set (rbd_empty (rx_rba st))"
    "b \<notin> set (rbd_allocated (rx_rba st))" "p < 256 \<Longrightarrow> rxq_slots (rx_q st) ! p \<noteq> Some b"
proof -
  have m: "places st + mset (b # out) = mset [0..<RX_RBDS]" and l: "length (rxq_slots (rx_q st)) = 256" "length (rx_pool st) = RX_POOL_SIZE"
    using assms by (auto simp: rx_ok_def q_ok_def)
  have "b \<in># mset [0..<RX_RBDS]" unfolding m[symmetric] by simp
  then show r: "b < RX_RBDS" by simp
  then show "b < length (rx_pool st)"
    by (simp add: l RX_RBDS_def RX_POOL_SIZE_def MQ_RX_NUM_RBDS_def MQ_RX_TABLE_SIZE_def IWL_MAX_RX_HW_QUEUES_def RX_CLAIM_REQ_ALLOC_def RX_POST_REQ_ALLOC_def)
  have "count (mset [0..<RX_RBDS]) b = 1" using r by (simp add: distinct_count_atmost_1[THEN iffD1])
  then have "count (places st) b = 0" using arg_cong[OF m, of "\<lambda>M. count M b"] by simp
  then have "b \<notin># places st" by (simp add: not_in_iff)
  then show "b \<notin> set (rx_free (rx_q st))" "b \<notin> set (rx_used (rx_q st))" "b \<notin> set (rbd_empty (rx_rba st))"
    "b \<notin> set (rbd_allocated (rx_rba st))" "p < 256 \<Longrightarrow> rxq_slots (rx_q st) ! p \<noteq> Some b"
    by (auto simp: places_def in_slots l)
qed

lemma upd_rbd_ok: "b < length (rx_pool st) \<Longrightarrow> upd_rbd b f st = Inr (st\<lparr>rx_pool := (rx_pool st)[b := f (rx_pool st ! b)]\<rparr>)"
  by (simp add: upd_rbd_def)

lemma list_all_frame: "list_all (P pool) bs \<Longrightarrow> (\<And>b. b \<in> set bs \<Longrightarrow> P pool b \<Longrightarrow> P pool' b) \<Longrightarrow> list_all (P pool') bs"
  by (auto simp: list_all_iff)

lemma pool_changed:
  assumes "rx_ok i (b # out) st"
  shows "rx_ok i (b # out) (st\<lparr>rx_pool := (rx_pool st)[b := r]\<rparr>)"
proof -
  note f = rx_ok_fresh[OF assms]
  have same: "(rx_pool st)[b := r] ! x = rx_pool st ! x" if "x \<noteq> b" for x using that by simp
  have pg: "list_all (paged ((rx_pool st)[b := r])) bs" if "list_all (paged (rx_pool st)) bs" "b \<notin> set bs" for bs
    using that same unfolding list_all_iff paged_def by metis
  have br: "list_all (bare ((rx_pool st)[b := r])) bs" if "list_all (bare (rx_pool st)) bs" "b \<notin> set bs" for bs
    using that same unfolding list_all_iff bare_def by metis
  have "slots_told ((rx_pool st)[b := r]) (rx_q st)"
    unfolding slots_told_def
  proof (intro allI impI)
    fix p x assume p: "p < 256" "rxq_slots (rx_q st) ! p = Some x"
    then have "x \<noteq> b" using f(7) by blast
    moreover have "paged (rx_pool st) x \<and> rxq_bd (rx_q st) ! p = ucast (iwl_pcie_dma_addr2rbd_ptr (rb_dma (rx_pool st ! x)))"
      using assms p by (auto simp: rx_ok_def slots_told_def)
    ultimately show "paged ((rx_pool st)[b := r]) x
        \<and> rxq_bd (rx_q st) ! p = ucast (iwl_pcie_dma_addr2rbd_ptr (rb_dma ((rx_pool st)[b := r] ! x)))"
      using same by (simp add: paged_def)
  qed
  then show ?thesis using assms f(3-6) pg br by (simp add: rx_ok_def places_def)
qed

lemma put_free:
  assumes "rx_ok i (b # out) st" and "paged (rx_pool st) b"
  shows "rx_ok i out (upd_q (\<lambda>q. q\<lparr>rx_free := rx_free q @ [b], rxq_free_count := rxq_free_count q + 1\<rparr>) st)"
  using assms by (simp add: rx_ok_def q_ok_def upd_q_def places_def gap_def slots_told_def add.commute add.left_commute)

lemma put_used:
  assumes "rx_ok i (b # out) st" and "bare (rx_pool st) b"
  shows "rx_ok i out (upd_q (\<lambda>q. q\<lparr>rx_used := rx_used q @ [b]\<rparr>) st)"
  using assms by (simp add: rx_ok_def q_ok_def upd_q_def places_def gap_def slots_told_def add.commute add.left_commute)

lemma used_to_allocator_ok:
  assumes "rx_ok i out st"
  shows "rx_ok i out (used_to_allocator st)"
  using assms by (simp add: rx_ok_def q_ok_def upd_q_def upd_rba_def used_to_allocator_def places_def gap_def slots_told_def add.commute add.left_commute)

lemma slot_read_ok:
  assumes "rx_ok i [] st"
  shows "rx_ok ((i + 1) AND 255) (held_rbd (rxq_slots (rx_q st) ! unat i)) (upd_q (\<lambda>q. q\<lparr>rxq_slots := (rxq_slots q)[unat i := None]\<rparr>) st)"
    and "rxq_slots (rx_q st) ! unat i = Some b \<Longrightarrow> paged (rx_pool st) b"
proof -
  let ?ss = "rxq_slots (rx_q st)"
  have r: "length ?ss = 256" "i < 256" "gap i (rx_q st)" "slots_told (rx_pool st) (rx_q st)" using assms by (auto simp: rx_ok_def q_ok_def)
  then have n: "unat i < 256" by (simp add: word_less_nat_alt)
  show "?ss ! unat i = Some b \<Longrightarrow> paged (rx_pool st) b" using r(4) n by (auto simp: slots_told_def)
  have "gap ((i + 1) AND 255) ((rx_q st)\<lparr>rxq_slots := ?ss[unat i := None]\<rparr>)" using gap_read r by blast
  moreover have "slots_told (rx_pool st) ((rx_q st)\<lparr>rxq_slots := ?ss[unat i := None]\<rparr>)"
    using r(1,4) n by (auto simp: slots_told_def nth_list_update split: if_splits)
  moreover have "slot_rbds (?ss[unat i := None]) + mset (held_rbd (?ss ! unat i)) = slot_rbds ?ss" using slot_take r(1) n by simp
  ultimately show "rx_ok ((i + 1) AND 255) (held_rbd (?ss ! unat i)) (upd_q (\<lambda>q. q\<lparr>rxq_slots := (rxq_slots q)[unat i := None]\<rparr>) st)"
    using assms r(1) next_index_less by (simp add: rx_ok_def q_ok_def upd_q_def places_def add.assoc)
qed

end
