(* ===== verification/Rx_Cycle.thy ===== *)
theory Rx_Cycle
  imports Rx_Ownership
begin

section \<open>The cycle of the receive buffers\<close>

text \<open>
  The allocator, the claim, the loop that gives pages to used RBDs and restocking keep the ownership of \<open>Rx_Ownership\<close>.
  \<open>credit\<close> is the account between the queue and the allocator: eight RBDs with pages are ready once two used ones
  were handed over, and the claim after eight finds them.
\<close>

subsection \<open>Bookkeeping\<close>

lemma rx_ok_perm: "mset out = mset out' \<Longrightarrow> rx_ok i out st = rx_ok i out' st"
  by (simp add: rx_ok_def)

lemma rx_ok_distinct: "rx_ok i out st \<Longrightarrow> distinct out"
proof -
  assume "rx_ok i out st"
  then have "mset out \<subseteq># mset [0..<RX_RBDS]" by (metis mset_subset_eq_add_right rx_ok_def)
  then show "distinct out" by (metis distinct_upt mset_subset_eq_exists_conv distinct_append mset_append ex_mset mset_eq_imp_distinct_iff)
qed

lemma rx_ok_asked: "rx_ok i out (st\<lparr>pages_asked := n\<rparr>) = rx_ok i out st"
  by (simp add: rx_ok_def places_def)

text \<open>From any point on some request is granted with a page that can be mapped.\<close>

definition page_good :: "rx_env \<Rightarrow> nat \<Rightarrow> bool" where
  "page_good env n \<longleftrightarrow> (\<exists>p. new_page env n = Some p \<and> dmamap env p \<noteq> 0)"

definition pages_come :: "rx_env \<Rightarrow> bool" where
  "pages_come env \<longleftrightarrow> (\<forall>n. \<exists>m \<ge> n. page_good env m)"

subsection \<open>One request to the allocator\<close>

lemma alloc_one:
  assumes "page_good env (pages_asked st + k)" and "b < length (rx_pool st)" and "i < RX_CLAIM_REQ_ALLOC"
  shows "\<exists>r n. alloc_eight env i (b # bs) la st
      = alloc_eight env (i + 1) bs (la @ [b]) (st\<lparr>pages_asked := n, rx_pool := (rx_pool st)[b := r]\<rparr>)
    \<and> rb_page r \<noteq> None \<and> rb_dma r \<noteq> 0"
  using assms
proof (induction k arbitrary: st)
  case (0 st)
  then obtain p where p: "new_page env (pages_asked st) = Some p" "dmamap env p \<noteq> 0" by (auto simp: page_good_def)
  show ?case
    by (rule exI[of _ "(rx_pool st ! b)\<lparr>rb_page := Some p, rb_dma := dmamap env p\<rparr>"], rule exI[of _ "pages_asked st + 1"],
      subst alloc_eight.simps) (use p 0 in \<open>simp add: iwl_pcie_rx_alloc_page_def upd_rbd_ok\<close>)
next
  case (Suc k st)
  show ?case
  proof (cases "page_good env (pages_asked st)")
    case True
    then obtain p where p: "new_page env (pages_asked st) = Some p" "dmamap env p \<noteq> 0" by (auto simp: page_good_def)
    show ?thesis
      by (rule exI[of _ "(rx_pool st ! b)\<lparr>rb_page := Some p, rb_dma := dmamap env p\<rparr>"], rule exI[of _ "pages_asked st + 1"],
        subst alloc_eight.simps) (use p Suc.prems in \<open>simp add: iwl_pcie_rx_alloc_page_def upd_rbd_ok\<close>)
  next
    case False
    define st1 where "st1 = (if new_page env (pages_asked st) = None then st\<lparr>pages_asked := pages_asked st + 1\<rparr>
      else st\<lparr>pages_asked := pages_asked st + 1, rx_pool := (rx_pool st)[b := (rx_pool st ! b)\<lparr>rb_page := None, rb_dma := 0\<rparr>]\<rparr>)"
    have "alloc_eight env i (b # bs) la st = alloc_eight env i (b # bs) la st1"
      by (subst alloc_eight.simps) (use False Suc.prems in \<open>auto simp: iwl_pcie_rx_alloc_page_def upd_rbd_ok st1_def page_good_def split: option.splits\<close>)
    moreover have "pages_asked st1 + k = pages_asked st + Suc k" "length (rx_pool st1) = length (rx_pool st)" by (simp_all add: st1_def)
    moreover have "st1\<lparr>pages_asked := n, rx_pool := (rx_pool st1)[b := r]\<rparr> = st\<lparr>pages_asked := n, rx_pool := (rx_pool st)[b := r]\<rparr>" for r n
      by (rule rx.equality) (simp_all add: st1_def)
    ultimately show ?thesis using Suc.IH[of st1] Suc.prems by simp
  qed
qed

lemma alloc_eight_gives:
  assumes "pages_come env" and "rx_ok x (le @ la) st" and "list_all (paged (rx_pool st)) la" and "list_all (bare (rx_pool st)) le"
    and "i \<le> RX_CLAIM_REQ_ALLOC"
  shows "\<exists>taken le' st'. le = taken @ le' \<and> length taken = min (RX_CLAIM_REQ_ALLOC - i) (length le)
    \<and> alloc_eight env i le la st = Some (Inr (le', la @ taken, st')) \<and> rx_ok x (le' @ la @ taken) st'
    \<and> list_all (paged (rx_pool st')) (la @ taken) \<and> list_all (bare (rx_pool st')) le'
    \<and> rx_q st' = rx_q st \<and> rx_rba st' = rx_rba st \<and> rx_cmdq st' = rx_cmdq st"
  using assms(2-5)
proof (induction le arbitrary: i la st)
  case Nil
  then show ?case by (intro exI[of _ "[]"] exI[of _ st], subst alloc_eight.simps) simp
next
  case (Cons b bs)
  show ?case
  proof (cases "i < RX_CLAIM_REQ_ALLOC")
    case False
    then show ?thesis using Cons.prems by (intro exI[of _ "[]"] exI[of _ "b # bs"] exI[of _ st], subst alloc_eight.simps) simp
  next
    case True
    have okb: "rx_ok x (b # bs @ la) st" using Cons.prems(1) by simp
    obtain m where "m \<ge> pages_asked st" "page_good env m" using assms(1) by (auto simp: pages_come_def)
    then have "page_good env (pages_asked st + (m - pages_asked st))" by simp
    from alloc_one[OF this rx_ok_fresh(2)[OF okb] True] obtain r n
      where step: "alloc_eight env i (b # bs) la st = alloc_eight env (i + 1) bs (la @ [b]) (st\<lparr>pages_asked := n, rx_pool := (rx_pool st)[b := r]\<rparr>)"
      and r: "rb_page r \<noteq> None" "rb_dma r \<noteq> 0" by blast
    let ?st = "st\<lparr>pages_asked := n, rx_pool := (rx_pool st)[b := r]\<rparr>"
    have nb: "b \<notin> set bs" "b \<notin> set la" using rx_ok_distinct[OF okb] by auto
    have "rx_ok x (b # bs @ la) ?st" using pool_changed[of x b "bs @ la" "st\<lparr>pages_asked := n\<rparr>" r] okb by (simp add: rx_ok_asked)
    then have ok: "rx_ok x (bs @ la @ [b]) ?st" by (rule rx_ok_perm[THEN iffD1, rotated]) simp
    have same: "(rx_pool st)[b := r] ! y = rx_pool st ! y" if "y \<noteq> b" for y using that by simp
    have pg: "list_all (paged (rx_pool ?st)) (la @ [b])"
      using Cons.prems(2) nb(2) same r rx_ok_fresh(2)[OF okb] unfolding list_all_append list_all_iff paged_def by (auto) (metis same)+
    have br: "list_all (bare (rx_pool ?st)) bs"
      using Cons.prems(3) nb(1) same unfolding list_all_iff bare_def by (simp) (metis same)
    have "i + 1 \<le> RX_CLAIM_REQ_ALLOC" using True by simp
    from Cons.IH[OF ok pg br this] obtain taken le' st' where
      IH: "bs = taken @ le'" "length taken = min (RX_CLAIM_REQ_ALLOC - (i + 1)) (length bs)"
      "alloc_eight env (i + 1) bs (la @ [b]) ?st = Some (Inr (le', (la @ [b]) @ taken, st'))" "rx_ok x (le' @ (la @ [b]) @ taken) st'"
      "list_all (paged (rx_pool st')) ((la @ [b]) @ taken)" "list_all (bare (rx_pool st')) le'"
      "rx_q st' = rx_q ?st" "rx_rba st' = rx_rba ?st" "rx_cmdq st' = rx_cmdq ?st" by blast
    then show ?thesis using step True
      by (intro exI[of _ "b # taken"] exI[of _ le'] exI[of _ st']) auto
  qed
qed

lemma allocator_once:
  assumes "pages_come env" and "rx_ok x [] st" and "req_pending (rx_rba st) = 1"
  shows "\<exists>taken rest st'. rbd_empty (rx_rba st) = taken @ rest \<and> length taken = min RX_CLAIM_REQ_ALLOC (length (rbd_empty (rx_rba st)))
    \<and> iwl_pcie_rx_allocator env st = Some (Inr st') \<and> rx_ok x [] st' \<and> rx_q st' = rx_q st \<and> rx_cmdq st' = rx_cmdq st
    \<and> rx_rba st' = \<lparr>req_pending = 0, req_ready = req_ready (rx_rba st) + 1, rbd_allocated = rbd_allocated (rx_rba st) @ taken, rbd_empty = rest\<rparr>"
proof -
  let ?le = "rbd_empty (rx_rba st)"
  define st1 where "st1 = st\<lparr>rx_rba := (rx_rba st)\<lparr>req_pending := 0, rbd_empty := []\<rparr>\<rparr>"
  have ok1: "rx_ok x (?le @ []) st1" and br: "list_all (bare (rx_pool st1)) ?le"
    using assms(2) by (auto simp: rx_ok_def places_def st1_def ac_simps)
  have p: "list_all (paged (rx_pool st1)) []" "0 \<le> RX_CLAIM_REQ_ALLOC" by simp_all
  from alloc_eight_gives[OF assms(1) ok1 p(1) br p(2)] obtain taken rest st2 where
    a: "?le = taken @ rest" "length taken = min (RX_CLAIM_REQ_ALLOC - 0) (length ?le)" "alloc_eight env 0 ?le [] st1 = Some (Inr (rest, [] @ taken, st2))"
      "rx_ok x (rest @ [] @ taken) st2" "list_all (paged (rx_pool st2)) ([] @ taken)" "list_all (bare (rx_pool st2)) rest"
      "rx_q st2 = rx_q st1" "rx_rba st2 = rx_rba st1" "rx_cmdq st2 = rx_cmdq st1" by blast
  note 2 = a[unfolded append_Nil diff_zero]
  define st3 where "st3 = st2\<lparr>rx_rba := (rx_rba st1)\<lparr>req_pending := 0, rbd_allocated := rbd_allocated (rx_rba st1) @ taken, rbd_empty := [],
    req_ready := req_ready (rx_rba st1) + 1\<rparr>\<rparr>"
  have "allocator_loop env 1 ?le st1 = allocator_loop env 0 rest st3"
    by (subst allocator_loop.simps) (use 2(3,8) in \<open>simp add: take_pending_def upd_rba_def st1_def st3_def\<close>)
  also have "\<dots> = Some (Inr (rest, st3))" by (subst allocator_loop.simps) simp
  finally have "iwl_pcie_rx_allocator env st = Some (Inr (upd_rba (\<lambda>a. a\<lparr>rbd_empty := rest\<rparr>) st3))"
    using assms(3) by (simp add: iwl_pcie_rx_allocator_def take_pending_def upd_rba_def st1_def st3_def)
  moreover have "rx_ok x [] (upd_rba (\<lambda>a. a\<lparr>rbd_empty := rest\<rparr>) st3)"
    using 2(4-8) by (auto simp: rx_ok_def places_def upd_rba_def st3_def st1_def ac_simps)
  moreover have "rx_q st3 = rx_q st" "rx_cmdq st3 = rx_cmdq st" using 2(7,9) by (simp_all add: st3_def st1_def)
  moreover have "rx_rba (upd_rba (\<lambda>a. a\<lparr>rbd_empty := rest\<rparr>) st3)
      = \<lparr>req_pending = 0, req_ready = req_ready (rx_rba st) + 1, rbd_allocated = rbd_allocated (rx_rba st) @ taken, rbd_empty = rest\<rparr>"
    by (simp add: upd_rba_def st3_def st1_def)
  ultimately show ?thesis using 2(1,2)
    by (intro exI[of _ taken] exI[of _ rest] exI[of _ "upd_rba (\<lambda>a. a\<lparr>rbd_empty := rest\<rparr>) st3"]) (simp add: upd_rba_def)
qed

subsection \<open>The account\<close>

definition credit :: "nat \<Rightarrow> 'd rx \<Rightarrow> bool" where
  "credit m st \<longleftrightarrow> (let u = unat (rxq_used_count (rx_q st)); a = rx_rba st; n = length (rx_used (rx_q st)) in
     req_pending a = 0 \<and> u \<le> m \<and>
     (if u < 2 then req_ready a = 0 \<and> rbd_allocated a = [] \<and> 6 \<le> length (rbd_empty a) \<and> u \<le> n
      else req_ready a = 1 \<and> length (rbd_allocated a) = 8 \<and> u \<le> n + 2))"

lemma used_count_suc: "unat (u + 1) = unat u + 1" if "unat u \<le> 7" for u :: u32
  using unat_add_small[of u 1] that by simp

lemma reuse_ok:
  assumes "pages_come env" and "rx_ok x [b] st" and "bare (rx_pool st) b" and "credit 7 st"
  shows "\<exists>st'. iwl_pcie_rx_reuse_rbd env b False st = Some (Inr st') \<and> rx_ok x [] st' \<and> credit 8 st' \<and> rx_cmdq st' = rx_cmdq st"
proof -
  let ?u = "unat (rxq_used_count (rx_q st))"
  define st1 where "st1 = upd_q (\<lambda>q. q\<lparr>rxq_used_count := rxq_used_count q + 1\<rparr>) (upd_q (\<lambda>q. q\<lparr>rx_used := rx_used q @ [b]\<rparr>) st)"
  have ok1: "rx_ok x [] st1" using put_used[OF assms(2,3)]
    by (simp add: st1_def rx_ok_def q_ok_def upd_q_def places_def gap_def slots_told_def)
  have u: "?u \<le> 7" using assms(4) by (simp add: credit_def Let_def)
  have u1: "unat (rxq_used_count (rx_q st1)) = ?u + 1" using used_count_suc[OF u] by (simp add: st1_def upd_q_def)
  show ?thesis
  proof (cases "?u = 1")
    case False
    then have "(?u + 1) mod 8 \<noteq> 2" using u by presburger
    then have "iwl_pcie_rx_reuse_rbd env b False st = Some (Inr st1)"
      using u1 by (simp add: iwl_pcie_rx_reuse_rbd_def Let_def RX_CLAIM_REQ_ALLOC_def RX_POST_REQ_ALLOC_def st1_def[symmetric])
    moreover have "credit 8 st1" using assms(4) u u1 False by (auto simp: credit_def Let_def st1_def upd_q_def split: if_splits)
    ultimately show ?thesis using ok1 by (simp add: st1_def upd_q_def)
  next
    case True
    define st2 where "st2 = upd_rba (\<lambda>a. a\<lparr>req_pending := req_pending a + 1\<rparr>) (used_to_allocator st1)"
    have c: "req_pending (rx_rba st) = 0" "req_ready (rx_rba st) = 0" "rbd_allocated (rx_rba st) = []" "6 \<le> length (rbd_empty (rx_rba st))"
      "1 \<le> length (rx_used (rx_q st))" using assms(4) True by (auto simp: credit_def Let_def)
    have ok2: "rx_ok x [] st2" using used_to_allocator_ok[OF ok1] by (simp add: st2_def upd_rba_def rx_ok_def places_def)
    have p2: "req_pending (rx_rba st2) = 1" "req_ready (rx_rba st2) = 0" "rbd_allocated (rx_rba st2) = []" "8 \<le> length (rbd_empty (rx_rba st2))"
      "rx_used (rx_q st2) = []" "rxq_used_count (rx_q st2) = rxq_used_count (rx_q st1)" "rx_cmdq st2 = rx_cmdq st"
      using c by (simp_all add: st2_def upd_rba_def used_to_allocator_def upd_q_def st1_def)
    from allocator_once[OF assms(1) ok2 p2(1)] obtain taken rest st' where
      3: "rbd_empty (rx_rba st2) = taken @ rest" "length taken = min RX_CLAIM_REQ_ALLOC (length (rbd_empty (rx_rba st2)))"
        "iwl_pcie_rx_allocator env st2 = Some (Inr st')" "rx_ok x [] st'" "rx_q st' = rx_q st2" "rx_cmdq st' = rx_cmdq st2"
        "rx_rba st' = \<lparr>req_pending = 0, req_ready = req_ready (rx_rba st2) + 1, rbd_allocated = rbd_allocated (rx_rba st2) @ taken, rbd_empty = rest\<rparr>"
      by blast
    have "iwl_pcie_rx_reuse_rbd env b False st = iwl_pcie_rx_allocator env st2"
      using u1 True by (simp add: iwl_pcie_rx_reuse_rbd_def Let_def RX_CLAIM_REQ_ALLOC_def RX_POST_REQ_ALLOC_def st1_def[symmetric] st2_def)
    moreover have "credit 8 st'" using 3(2,5,7) p2 u1 True by (simp add: credit_def Let_def RX_CLAIM_REQ_ALLOC_def)
    ultimately show ?thesis using 3(3,4,6) p2(7) by simp
  qed
qed

text \<open>The claim of eight RBDs.\<close>

lemma claim_rbds_takes:
  assumes "rx_ok x [] (upd_q (\<lambda>q. q\<lparr>rxq_free_count := of_nat (length (rx_free q))\<rparr>) st)" and "n \<le> length (rbd_allocated (rx_rba st))"
  shows "\<exists>st'. claim_rbds n st = Inr st' \<and> rx_ok x [] (upd_q (\<lambda>q. q\<lparr>rxq_free_count := of_nat (length (rx_free q))\<rparr>) st')
    \<and> rx_q st' = (rx_q st)\<lparr>rx_free := rx_free (rx_q st) @ take n (rbd_allocated (rx_rba st))\<rparr>
    \<and> rx_rba st' = (rx_rba st)\<lparr>rbd_allocated := drop n (rbd_allocated (rx_rba st))\<rparr> \<and> rx_cmdq st' = rx_cmdq st"
  using assms
proof (induction n arbitrary: st)
  case (Suc n)
  obtain b bs where a: "rbd_allocated (rx_rba st) = b # bs" using Suc.prems(2) by (cases "rbd_allocated (rx_rba st)") auto
  let ?st = "upd_q (\<lambda>q. q\<lparr>rx_free := rx_free q @ [b]\<rparr>) (upd_rba (\<lambda>a. a\<lparr>rbd_allocated := bs\<rparr>) st)"
  have "rx_ok x [] (upd_q (\<lambda>q. q\<lparr>rxq_free_count := of_nat (length (rx_free q))\<rparr>) ?st)"
    using Suc.prems(1) a by (simp add: rx_ok_def q_ok_def upd_q_def upd_rba_def places_def gap_def slots_told_def ac_simps)
  from Suc.IH[OF this] Suc.prems(2) a show ?case by (auto simp: upd_q_def upd_rba_def)
qed simp

lemma claim_ready_ok:
  assumes "rx_ok x [] st" and "credit 8 st"
  shows "\<exists>st'. claim_ready st = Inr st' \<and> rx_ok x [] st' \<and> rx_cmdq st' = rx_cmdq st
    \<and> (if unat (rxq_used_count (rx_q st')) mod 8 = 0 then credit 7 (used_to_allocator st') else credit 7 st')"
proof (cases "unat (rxq_used_count (rx_q st)) = 8")
  case False
  then have "\<not> 8 \<le> unat (rxq_used_count (rx_q st))" using assms(2) by (simp add: credit_def Let_def)
  moreover have "credit 7 st" using assms(2) False by (auto simp: credit_def Let_def)
  moreover have "credit 7 (used_to_allocator st)" if "unat (rxq_used_count (rx_q st)) mod 8 = 0"
  proof -
    have "unat (rxq_used_count (rx_q st)) = 0" using that calculation(1) by simp
    then show ?thesis using assms(2) by (simp add: credit_def Let_def used_to_allocator_def upd_q_def upd_rba_def)
  qed
  ultimately show ?thesis using assms(1) by (simp add: claim_ready_def RX_CLAIM_REQ_ALLOC_def)
next
  case True
  have c: "req_pending (rx_rba st) = 0" "req_ready (rx_rba st) = 1" "length (rbd_allocated (rx_rba st)) = 8" "6 \<le> length (rx_used (rx_q st))"
    using assms(2) True by (auto simp: credit_def Let_def)
  define st1 where "st1 = upd_rba (\<lambda>a. a\<lparr>req_ready := req_ready a - 1\<rparr>) st"
  have "rx_ok x [] (upd_q (\<lambda>q. q\<lparr>rxq_free_count := of_nat (length (rx_free q))\<rparr>) st1)"
    using assms(1) by (simp add: rx_ok_def q_ok_def upd_q_def upd_rba_def places_def gap_def slots_told_def st1_def)
  moreover have "8 \<le> length (rbd_allocated (rx_rba st1))" using c(3) by (simp add: st1_def upd_rba_def)
  ultimately obtain st2 where a: "claim_rbds 8 st1 = Inr st2" "rx_ok x [] (upd_q (\<lambda>q. q\<lparr>rxq_free_count := of_nat (length (rx_free q))\<rparr>) st2)"
      "rx_q st2 = (rx_q st1)\<lparr>rx_free := rx_free (rx_q st1) @ take 8 (rbd_allocated (rx_rba st1))\<rparr>"
      "rx_rba st2 = (rx_rba st1)\<lparr>rbd_allocated := drop 8 (rbd_allocated (rx_rba st1))\<rparr>" "rx_cmdq st2 = rx_cmdq st1"
    using claim_rbds_takes by blast
  then have 2: "claim_rbds 8 st1 = Inr st2" "rx_ok x [] (upd_q (\<lambda>q. q\<lparr>rxq_free_count := of_nat (length (rx_free q))\<rparr>) st2)"
      "rx_q st2 = (rx_q st)\<lparr>rx_free := rx_free (rx_q st) @ rbd_allocated (rx_rba st)\<rparr>"
      "rx_rba st2 = (rx_rba st1)\<lparr>rbd_allocated := []\<rparr>" "rx_cmdq st2 = rx_cmdq st" using c(3) by (simp_all add: st1_def upd_rba_def)
  define st3 where "st3 = upd_q (\<lambda>q. q\<lparr>rxq_used_count := rxq_used_count q - 8, rxq_free_count := rxq_free_count q + 8\<rparr>) st2"
  have u8: "rxq_used_count (rx_q st) = 8" unfolding word_unat_eq_iff using True by simp
  have u3: "rxq_used_count (rx_q st3) = 0" "rx_used (rx_q st3) = rx_used (rx_q st)" "rx_cmdq st3 = rx_cmdq st" "rx_rba st3 = rx_rba st2"
    using u8 2(3,5) by (simp_all add: st3_def upd_q_def)
  have "rxq_free_count (rx_q st) = of_nat (length (rx_free (rx_q st)))" using assms(1) by (simp add: rx_ok_def q_ok_def)
  then have "rxq_free_count (rx_q st3) = of_nat (length (rx_free (rx_q st3)))" using 2(3) c(3) by (simp add: st3_def upd_q_def)
  then have ok3: "rx_ok x [] st3"
    using 2(2) by (simp add: rx_ok_def q_ok_def upd_q_def places_def gap_def slots_told_def st3_def)
  have "claim_ready st = Inr st3"
    using True c(2) 2(1) by (simp add: claim_ready_def iwl_pcie_rx_allocator_get_def Let_def RX_CLAIM_REQ_ALLOC_def st1_def[symmetric] st3_def)
  moreover have "credit 7 (used_to_allocator st3)"
    using c u3 2(4) by (simp add: credit_def Let_def used_to_allocator_def upd_q_def upd_rba_def st1_def)
  ultimately show ?thesis using ok3 u3 by simp
qed

end
