(* ===== verification/Tx_Answers.thy ===== *)
theory Tx_Answers
  imports Tx_Complete
begin

section \<open>Answers the queue can take\<close>

text \<open>
  What \<open>iwl_pcie_hcmd_complete\<close> of \<^verbatim>\<open>IntelWifi_tx.cpp\<close> needs of the command queue to handle a packet with any
  sequence number, also one that was answered before or never sent, and that it leaves the queue in this state.
\<close>

definition entry_dmas :: "iwl_txq \<Rightarrow> u64 option list" where
  "entry_dmas q = concat (map ent_dma (txq_entries q))"

definition answerable :: "'d cmdq \<Rightarrow> bool" where
  "answerable st \<longleftrightarrow> ring_ok (cq_queue st) \<and> length (tfds (cq_queue st)) = 256
     \<and> n_window (cq_queue st) \<le> int (length (txq_entries (cq_queue st))) \<and> unlocked (cq_pcie st)
     \<and> dmas_ok (entry_dmas (cq_queue st)) (dma_mem (cq_pcie st))
     \<and> (\<forall>e \<in> set (txq_entries (cq_queue st)). ent_flags e AND CMD_WANT_SKB \<noteq> 0 \<longrightarrow> ent_source e)"

subsection \<open>Memory\<close>

lemma on_dev_memory: "on_dev m s = Inr (x, s') \<Longrightarrow> dma_mem s' = dma_mem s"
  by (auto simp: on_dev_def bindF_eq_Inr)

lemma clear_in_flight_memory: "iwl_pcie_clear_cmd_in_flight hw c s = Inr s' \<Longrightarrow> dma_mem s' = dma_mem s"
  by (auto simp: iwl_pcie_clear_cmd_in_flight_def Let_def bindF_eq_Inr set_hold_def split: if_splits dest!: on_dev_memory)

lemma with_reg_lock_memory:
  assumes "\<And>s s'. f s = Inr s' \<Longrightarrow> dma_mem s' = dma_mem s" and "with_reg_lock f s = Inr s'"
  shows "dma_mem s' = dma_mem s"
  using assms(2) by (auto simp: with_reg_lock_def bindF_eq_Inr dest!: on_dev_memory assms(1))

lemma reclaim_loop_memory:
  assumes "reclaim_loop hw idx n qs = Some y"
  shows "\<forall>q' s'. y = Inr (q', s') \<longrightarrow> dma_mem s' = dma_mem (snd qs)"
proof (rule reclaim_loop.raw_induct[OF _ assms])
  fix loop hw idx nfreed qs and y :: "(iwl_txq \<times> 'a pcie) run"
  assume 1: "\<And>hw idx nfreed qs y. loop hw idx nfreed qs = Some y \<Longrightarrow> \<forall>q' s'. y = Inr (q', s') \<longrightarrow> dma_mem s' = dma_mem (snd qs)"
    and 2: "(case qs of (q, s) \<Rightarrow> if read_ptr q = idx then Some (Inr (q, s))
      else case (if nfreed > 0 then on_dev (iwl_force_nmi hw) s else Inr ((), s)) of Inl f \<Rightarrow> Some (Inl f)
        | Inr (_, s) \<Rightarrow> loop hw idx (nfreed + 1) (q\<lparr>read_ptr := iwl_queue_inc_wrap (read_ptr q)\<rparr>, s)) = Some y"
  obtain q s where qs: "qs = (q, s)" by (cases qs)
  show "\<forall>q' s'. y = Inr (q', s') \<longrightarrow> dma_mem s' = dma_mem (snd qs)"
  proof (cases "read_ptr q = idx")
    case True
    then show ?thesis using 2 qs by auto
  next
    case False
    show ?thesis
    proof (cases "if nfreed > 0 then on_dev (iwl_force_nmi hw) s else Inr ((), s)")
      case (Inr r)
      then have "dma_mem (snd r) = dma_mem s" using on_dev_memory[of "iwl_force_nmi hw" s "()"] by (cases r) (auto split: if_splits)
      moreover have "loop hw idx (nfreed + 1) (q\<lparr>read_ptr := iwl_queue_inc_wrap (read_ptr q)\<rparr>, snd r) = Some y"
        using 2 False Inr qs by (cases r) simp
      ultimately show ?thesis using 1[of hw idx "nfreed + 1"] qs by simp
    qed (use 2 False qs in auto)
  qed
qed

lemma reclaim_memory:
  assumes "iwl_pcie_cmdq_reclaim hw c idx (q, s) = Some (Inr (q', s'))"
  shows "dma_mem s' = dma_mem s"
proof (cases "idx \<ge> TFD_QUEUE_SIZE_MAX \<or> \<not> iwl_queue_used q idx")
  case False
  then obtain q1 s1 where 1: "reclaim_loop hw (iwl_queue_inc_wrap idx) 0 (q, s) = Some (Inr (q1, s1))"
    and 2: "(if read_ptr q1 = write_ptr q1 then bindF (with_reg_lock (iwl_pcie_clear_cmd_in_flight hw c) s1) (\<lambda>s. Inr (q1, s))
             else Inr (q1, s1)) = Inr (q', s')"
    using assms unfolding iwl_pcie_cmdq_reclaim_def by (auto split: option.splits sum.splits)
  have "dma_mem s1 = dma_mem s" using reclaim_loop_memory[OF 1] by simp
  moreover have "dma_mem s' = dma_mem s1"
    using 2 with_reg_lock_memory[OF clear_in_flight_memory] by (auto simp: bindF_eq_Inr split: if_splits)
  ultimately show ?thesis by simp
qed (use assms in \<open>auto simp: iwl_pcie_cmdq_reclaim_def\<close>)

lemma free_dmas_memory:
  assumes "dmas_ok ds (dma_mem s)"
  shows "\<exists>s'. free_dmas ds s = Inr s' \<and> same_trans s s' \<and> dma_mem s' = (\<lambda>a. if Some a \<in> set ds then None else dma_mem s a)"
  using assms
proof (induction ds arbitrary: s)
  case (Cons d ds)
  show ?case
  proof (cases d)
    case None
    with Cons show ?thesis by (auto simp: dmas_ok_def)
  next
    case (Some a)
    let ?s = "s\<lparr>dma_mem := (dma_mem s)(a := None)\<rparr>"
    have "dmas_ok ds (dma_mem ?s)" using Cons.prems Some by (auto simp: dmas_ok_def)
    with Cons.IH[of ?s] obtain s' where "free_dmas ds ?s = Inr s'" "same_trans ?s s'"
      "dma_mem s' = (\<lambda>x. if Some x \<in> set ds then None else dma_mem ?s x)" by blast
    with Some Cons.prems show ?thesis by (auto simp: free_dma_buf_def dmas_ok_def same_trans_def fun_eq_iff)
  qed
qed simp

lemma dmas_ok_split:
  "dmas_ok (xs @ ys) m \<longleftrightarrow> dmas_ok xs m \<and> dmas_ok ys m \<and> (\<forall>a. Some a \<in> set xs \<longrightarrow> Some a \<notin> set ys)"
  by (auto simp: dmas_ok_def)

lemma dmas_ok_beside:
  assumes "dmas_ok xs m" and "\<And>a. Some a \<in> set xs \<Longrightarrow> m' a = m a"
  shows "dmas_ok xs m'"
  using assms by (auto simp: dmas_ok_def)

lemma dmas_ok_none [simp]: "dmas_ok (replicate n None) m"
  by (simp add: dmas_ok_def)

lemma entry_dmas_at:
  assumes "i < length (txq_entries q)"
  shows "entry_dmas q = concat (map ent_dma (take i (txq_entries q))) @ ent_dma (txq_entries q ! i) @ concat (map ent_dma (drop (Suc i) (txq_entries q)))"
  using id_take_nth_drop[OF assms] unfolding entry_dmas_def by (metis concat.simps(2) concat_append list.simps(9) map_append)

lemma entry_dmas_upd:
  assumes "i < length (txq_entries q)" and "upd_entry i f q = Inr q'"
  shows "entry_dmas q' = concat (map ent_dma (take i (txq_entries q))) @ ent_dma (f (txq_entries q ! i)) @ concat (map ent_dma (drop (Suc i) (txq_entries q)))"
  using assms by (auto simp: upd_entry_def entry_dmas_def upd_conv_take_nth_drop)

subsection \<open>Unmapping\<close>

lemma unmap_answerable:
  assumes "i < length (txq_entries q)" and "iwl_pcie_get_cmd_index q index < length (tfds q)" and "dmas_ok (entry_dmas q) (dma_mem s)"
  shows "\<exists>q' s'. iwl_pcie_tfd_unmap i index (q, s) = Inr (q', s') \<and> same_ring q q' \<and> same_trans s s'
    \<and> dmas_ok (entry_dmas q') (dma_mem s')
    \<and> map (\<lambda>e. (ent_flags e, ent_source e)) (txq_entries q') = map (\<lambda>e. (ent_flags e, ent_source e)) (txq_entries q)"
proof -
  let ?t = "iwl_pcie_get_tfd q index" and ?e = "txq_entries q ! i"
  obtain t where t: "tfd_at q ?t = Inr t" using assms(2) by (auto simp: tfd_at_def iwl_pcie_get_tfd_def)
  note d = assms(3)[unfolded entry_dmas_at[OF assms(1)] dmas_ok_split]
  obtain s' where s': "free_dmas (ent_dma ?e) s = Inr s'" "same_trans s s'" "dma_mem s' = (\<lambda>a. if Some a \<in> set (ent_dma ?e) then None else dma_mem s a)"
    using free_dmas_memory d by blast
  define q1 where "q1 = q\<lparr>txq_entries := (txq_entries q)[i := ?e\<lparr>ent_dma := replicate (length (ent_dma ?e)) None\<rparr>]\<rparr>"
  have q1: "upd_entry i (\<lambda>e. e\<lparr>ent_dma := replicate (length (ent_dma e)) None\<rparr>) q = Inr q1" using assms(1) by (simp add: upd_entry_def q1_def)
  let ?a = "concat (map ent_dma (take i (txq_entries q)))" and ?b = "concat (map ent_dma (drop (Suc i) (txq_entries q)))"
  have d1: "dmas_ok ?a (dma_mem s)" "dmas_ok ?b (dma_mem s)" "\<And>a. Some a \<in> set ?a \<Longrightarrow> Some a \<notin> set (ent_dma ?e @ ?b)"
    "\<And>a. Some a \<in> set (ent_dma ?e) \<Longrightarrow> Some a \<notin> set ?b" using d by blast+
  have "dmas_ok ?a (dma_mem s')" by (rule dmas_ok_beside[OF d1(1)]) (use d1(3) s'(3) in auto)
  moreover have "dmas_ok ?b (dma_mem s')" by (rule dmas_ok_beside[OF d1(2)]) (use d1(4) s'(3) in auto)
  moreover have "entry_dmas q1 = ?a @ replicate (length (ent_dma ?e)) None @ ?b" using entry_dmas_upd[OF assms(1) q1] by simp
  moreover have "\<And>a. Some a \<in> set ?a \<Longrightarrow> Some a \<notin> set (replicate (length (ent_dma ?e)) None @ ?b)" using d1(3) by auto
  ultimately have "dmas_ok (entry_dmas q1) (dma_mem s')"
    using dmas_ok_split[of ?a "replicate (length (ent_dma ?e)) None @ ?b" "dma_mem s'"] dmas_ok_split[of "replicate (length (ent_dma ?e)) None" ?b "dma_mem s'"]
    by (simp del: set_append set_concat)
  moreover have "map (\<lambda>e. (ent_flags e, ent_source e)) (txq_entries q1) = map (\<lambda>e. (ent_flags e, ent_source e)) (txq_entries q)"
    using assms(1) by (intro nth_equalityI) (auto simp: q1_def nth_list_update)
  moreover define q2 where "q2 = put_tfd ?t (t\<lparr>num_tbs := 0\<rparr>) q1"
  moreover have "same_ring q q2" unfolding q2_def using same_ring_trans same_put same_upd[OF q1] by blast
  ultimately have q2: "dmas_ok (entry_dmas q2) (dma_mem s')" "same_ring q q2"
    "map (\<lambda>e. (ent_flags e, ent_source e)) (txq_entries q2) = map (\<lambda>e. (ent_flags e, ent_source e)) (txq_entries q)"
    by (simp_all add: q2_def put_tfd_def entry_dmas_def)
  show ?thesis
  proof (cases "iwl_pcie_tfd_get_num_tbs t \<ge> IWL_NUM_OF_TBS")
    case True
    then have "iwl_pcie_tfd_unmap i index (q, s) = Inr (q, s)" using t by (simp add: iwl_pcie_tfd_unmap_def)
    then show ?thesis using assms(3) same_refl by blast
  next
    case False
    then have "iwl_pcie_tfd_unmap i index (q, s) = Inr (q2, s')"
      using t assms(1) s'(1) q1 by (simp add: iwl_pcie_tfd_unmap_def entry_at_def q2_def)
    then show ?thesis using q2 s'(2) by blast
  qed
qed

subsection \<open>Completing\<close>

lemma complete_flags_returns:
  fixes st :: "'d cmdq"
  assumes "ci < length (txq_entries (cq_queue st))"
  shows "\<exists>st'. complete_flags flags ci st = Inr st' \<and> cq_pcie st' = cq_pcie st
    \<and> cq_queue st' = (cq_queue st)\<lparr>txq_entries := (txq_entries (cq_queue st))[ci := (txq_entries (cq_queue st) ! ci)\<lparr>ent_flags := 0\<rparr>]\<rparr>"
proof -
  define keeps where "keeps = (\<lambda>(a :: 'd cmdq) (b :: 'd cmdq). cq_queue b = cq_queue a \<and> cq_pcie b = cq_pcie a)"
  have clear: "\<exists>y. status_op (clear_bit n) x = Inr y \<and> keeps x y" if "n < 64" for n and x :: "'d cmdq"
    using status_clear[OF that, of x] by (auto simp: keeps_def)
  have set: "\<exists>y. status_op (set_bit_c n) x = Inr y \<and> keeps x y" if "n < 64" for n and x :: "'d cmdq"
    using status_set[OF that, of x] by (auto simp: keeps_def)
  have wake: "keeps x (wake_waiter x)" for x :: "'d cmdq" by (simp add: keeps_def wake_waiter_def split: waiter.splits)
  obtain s1 where 1: "(if flags AND CMD_ASYNC = 0
      then bindF (status_op (clear_bit STATUS_SYNC_HCMD_ACTIVE) st) (\<lambda>st. Inr (wake_waiter st)) else Inr st) = Inr s1" "keeps st s1"
    using that[of st] clear[of STATUS_SYNC_HCMD_ACTIVE st] wake
    by (cases "flags AND CMD_ASYNC = 0") (auto simp: STATUS_SYNC_HCMD_ACTIVE_def keeps_def)
  obtain s2 where 2: "(if flags AND CMD_MAKE_TRANS_IDLE \<noteq> 0 then status_op (set_bit_c STATUS_TRANS_IDLE) s1 else Inr s1) = Inr s2" "keeps s1 s2"
    using that[of s1] set[of STATUS_TRANS_IDLE s1] by (cases "flags AND CMD_MAKE_TRANS_IDLE = 0") (auto simp: STATUS_TRANS_IDLE_def keeps_def)
  obtain s3 where 3: "(if flags AND CMD_WAKE_UP_TRANS \<noteq> 0 then status_op (clear_bit STATUS_TRANS_IDLE) s2 else Inr s2) = Inr s3" "keeps s2 s3"
    using that[of s2] clear[of STATUS_TRANS_IDLE s2] by (cases "flags AND CMD_WAKE_UP_TRANS = 0") (auto simp: STATUS_TRANS_IDLE_def keeps_def)
  have k: "cq_queue s3 = cq_queue st" "cq_pcie s3 = cq_pcie st" using 1(2) 2(2) 3(2) by (auto simp: keeps_def)
  show ?thesis unfolding complete_flags_def 1(1) bindF_simps 2(1) 3(1) using assms k by (simp add: upd_entry_def)
qed

lemma complete_answerable:
  assumes "answerable st"
  shows "\<exists>st'. iwl_pcie_hcmd_complete hw c sq pkt st = Some (Inr st') \<and> answerable st'"
proof (cases "ucast (SEQ_TO_QUEUE sq) = cmd_queue c")
  case False
  then show ?thesis using assms by (simp add: iwl_pcie_hcmd_complete_def Let_def)
next
  case True
  let ?q = "cq_queue st" and ?s = "cq_pcie st" and ?n = "unat (SEQ_TO_INDEX sq)"
  define ci where "ci = iwl_pcie_get_cmd_index ?q (int ?n)"
  have a: "ring_ok ?q" "length (tfds ?q) = 256" "n_window ?q \<le> int (length (txq_entries ?q))" "unlocked ?s" "dmas_ok (entry_dmas ?q) (dma_mem ?s)"
    "\<And>e. e \<in> set (txq_entries ?q) \<Longrightarrow> ent_flags e AND CMD_WANT_SKB \<noteq> 0 \<Longrightarrow> ent_source e" using assms by (auto simp: answerable_def)
  have ci: "ci < length (txq_entries ?q)" "ci < 256" using index_in_window[OF a(1), of "int ?n"] a(3) by (auto simp: ci_def)
  obtain q1 s1 where 1: "iwl_pcie_tfd_unmap ci (int ?n) (?q, ?s) = Inr (q1, s1)" "same_ring ?q q1" "same_trans ?s s1"
    "dmas_ok (entry_dmas q1) (dma_mem s1)"
    "map (\<lambda>e. (ent_flags e, ent_source e)) (txq_entries q1) = map (\<lambda>e. (ent_flags e, ent_source e)) (txq_entries ?q)"
    using unmap_answerable[OF ci(1), of "int ?n" ?s] ci(2) a(2,5) by (metis ci_def)
  have r1: "ring_ok q1" using ring_cong(1)[of q1 ?q] 1(2) a(1) by (simp add: same_ring_def)
  have u1: "unlocked s1" using 1(3) a(4) by (simp add: same_trans_def)
  obtain s2 where 2: "iwl_pcie_cmdq_reclaim hw c (int ?n) (q1, s1) = Some (Inr (reclaimed ?n q1, s2))" "unlocked s2"
    using reclaim_returns[OF r1 u1] by blast
  define fl where "fl = ent_flags (txq_entries ?q ! ci)"
  have src: "fl AND CMD_WANT_SKB \<noteq> 0 \<Longrightarrow> ent_source (txq_entries ?q ! ci)" using a(6) ci(1) by (simp add: fl_def)
  let ?st = "(let st = (if fl AND CMD_WANT_SKB \<noteq> 0 then st\<lparr>cq_resp := Some pkt\<rparr> else st);
                st = (if fl AND CMD_WANT_ASYNC_CALLBACK \<noteq> 0 then st\<lparr>cq_callbacks := cq_callbacks st @ [ci]\<rparr> else st)
            in st\<lparr>cq_queue := reclaimed ?n q1, cq_pcie := s2\<rparr>)"
  have st: "cq_queue ?st = reclaimed ?n q1" "cq_pcie ?st = s2" by (simp_all add: Let_def)
  have run: "iwl_pcie_hcmd_complete hw c sq pkt st = Some (complete_flags fl ci ?st)"
    unfolding iwl_pcie_hcmd_complete_def Let_def ci_def[symmetric] using True 1(1) 2(1) ci(1) src
    by (cases "fl AND CMD_WANT_SKB = 0") (simp_all add: entry_at_def fl_def[symmetric])
  have e2: "txq_entries (reclaimed ?n q1) = txq_entries q1" "tfds (reclaimed ?n q1) = tfds q1" "n_window (reclaimed ?n q1) = n_window q1"
    by (simp_all add: reclaimed_def)
  have len: "length (txq_entries q1) = length (txq_entries ?q)" using 1(2) by (simp add: same_ring_def)
  then obtain st' where st': "complete_flags fl ci ?st = Inr st'" "cq_pcie st' = s2"
    "cq_queue st' = (reclaimed ?n q1)\<lparr>txq_entries := (txq_entries q1)[ci := (txq_entries q1 ! ci)\<lparr>ent_flags := 0\<rparr>]\<rparr>"
    using complete_flags_returns[of ci ?st fl] ci(1) unfolding st e2 by auto
  have r2: "ring_ok (reclaimed ?n q1)" using pull_reclaimed[OF r1] by blast
  have "ring_ok (cq_queue st')" using ring_cong(1)[of "cq_queue st'" "reclaimed ?n q1"] r2 st'(3) by simp
  moreover have "entry_dmas (cq_queue st') = entry_dmas q1"
    using id_take_nth_drop[of ci "txq_entries q1"] ci(1) len unfolding entry_dmas_at[of ci q1, unfolded len, OF ci(1)] st'(3)
    by (simp add: entry_dmas_def upd_conv_take_nth_drop)
  moreover have "\<forall>e \<in> set (txq_entries (cq_queue st')). ent_flags e AND CMD_WANT_SKB \<noteq> 0 \<longrightarrow> ent_source e"
  proof
    fix e assume "e \<in> set (txq_entries (cq_queue st'))"
    then consider "ent_flags e = 0" | "e \<in> set (txq_entries q1)"
      using subsetD[OF set_update_subset_insert[of "txq_entries q1" ci]] st'(3) by fastforce
    then show "ent_flags e AND CMD_WANT_SKB \<noteq> 0 \<longrightarrow> ent_source e"
    proof cases
      case 2
      then have "(ent_flags e, ent_source e) \<in> (\<lambda>e. (ent_flags e, ent_source e)) ` set (txq_entries ?q)"
        using arg_cong[OF 1(5), of set] by auto
      then show ?thesis using a(6) by auto
    qed simp
  qed
  moreover have "dma_mem s2 = dma_mem s1" using reclaim_memory[OF 2(1)] .
  ultimately have "answerable st'"
    using 1(2,4) 2(2) a(2,3) len e2 st'(2,3) by (simp add: answerable_def same_ring_def)
  then show ?thesis using run st'(1) by simp
qed

end
