(* ===== verification/Rx_Safety.thy ===== *)
theory Rx_Safety
  imports Rx_Cycle Tx_Answers
begin

section \<open>The receive path has no fault\<close>

text \<open>
  \<open>iwl_pcie_rx_handle\<close> from a queue in order, with a command queue that can take answers and enough pages, always
  returns and leaves both in order, whatever the device wrote into the status word and the pages.
\<close>

subsection \<open>Telling the device\<close>

lemma answerable_device:
  assumes "answerable st" and "reg_lock (pcie_trans s) = reg_lock (pcie_trans (cq_pcie st))" and "dma_mem s = dma_mem (cq_pcie st)"
  shows "answerable (st\<lparr>cq_pcie := s\<rparr>)"
  using assms by (simp add: answerable_def)

lemma rx_on_dev_returns:
  assumes "releases m (pcie_trans (cq_pcie (rx_cmdq st)))" and "answerable (rx_cmdq st)"
  shows "\<exists>x st'. rx_on_dev m st = Inr (x, st') \<and> answerable (rx_cmdq st') \<and> rx_q st' = rx_q st \<and> rx_rba st' = rx_rba st
    \<and> rx_pool st' = rx_pool st \<and> global_table st' = global_table st \<and> rx_ptr st' = rx_ptr st"
proof -
  let ?s = "cq_pcie (rx_cmdq st)"
  obtain x d where m: "m (pcie_trans ?s) = Inr (x, (pcie_trans ?s)\<lparr>hw_base := d\<rparr>)" using assms(1) by (auto simp: releases_def)
  have "answerable ((rx_cmdq st)\<lparr>cq_pcie := ?s\<lparr>pcie_trans := (pcie_trans ?s)\<lparr>hw_base := d\<rparr>\<rparr>\<rparr>)"
    by (rule answerable_device[OF assms(2)]) simp_all
  then show ?thesis by (simp add: rx_on_dev_def on_dev_def m)
qed

definition told :: "'d rx \<Rightarrow> 'd rx \<Rightarrow> bool" where
  "told st st' \<longleftrightarrow> answerable (rx_cmdq st') \<and> rx_rba st' = rx_rba st \<and> rx_pool st' = rx_pool st \<and> global_table st' = global_table st
     \<and> rx_ptr st' = rx_ptr st \<and> (\<exists>a n. rx_q st' = (rx_q st)\<lparr>rxq_write_actual := a, rxq_need_update := n\<rparr>)"

lemma told_refl: "answerable (rx_cmdq st) \<Longrightarrow> told st st"
proof -
  assume "answerable (rx_cmdq st)"
  moreover have "rx_q st = (rx_q st)\<lparr>rxq_write_actual := rxq_write_actual (rx_q st), rxq_need_update := rxq_need_update (rx_q st)\<rparr>" by simp
  ultimately show ?thesis unfolding told_def by blast
qed

lemma told_keeps:
  assumes "told st st'"
  shows "rx_ok i out st' = rx_ok i out st" and "credit m st' = credit m st" and "rxq_read (rx_q st') = rxq_read (rx_q st)"
  using assms by (auto simp: told_def rx_ok_def q_ok_def places_def gap_def slots_told_def credit_def Let_def)

lemma inc_wr_ptr_returns:
  assumes "answerable (rx_cmdq st)"
  shows "\<exists>st'. iwl_pcie_rxq_inc_wr_ptr hw c st = Inr st' \<and> told st st'"
proof -
  have dev: "\<exists>x st'. rx_on_dev m st1 = Inr (x, st') \<and> told st st'" if "told st st1" "releases m (pcie_trans (cq_pcie (rx_cmdq st1)))" for m st1
    using rx_on_dev_returns[OF that(2)] that(1) by (fastforce simp: told_def)
  have wake: "releases (iwl_set_bit hw r b) (pcie_trans (cq_pcie (rx_cmdq st1)))" if "told st st1" for r b st1
    unfolding iwl_set_bit_def by (rule set_bits_mask_releases) (use that in \<open>simp add: told_def answerable_def\<close>)
  have upd: "told st (upd_q (\<lambda>q. q\<lparr>rxq_need_update := True\<rparr>) st1)" "told st (upd_q (\<lambda>q. q\<lparr>rxq_write_actual := rxq_write q AND NOT 7\<rparr>) st1)"
    if t: "told st st1" for st1
  proof -
    obtain a n where q: "rx_q st1 = (rx_q st)\<lparr>rxq_write_actual := a, rxq_need_update := n\<rparr>" using t unfolding told_def by blast
    have "rx_q (upd_q (\<lambda>q. q\<lparr>rxq_need_update := True\<rparr>) st1) = (rx_q st)\<lparr>rxq_write_actual := a, rxq_need_update := True\<rparr>"
      using q by (simp add: upd_q_def)
    then show "told st (upd_q (\<lambda>q. q\<lparr>rxq_need_update := True\<rparr>) st1)" using t unfolding told_def by (simp add: upd_q_def) blast
    have "rx_q (upd_q (\<lambda>q. q\<lparr>rxq_write_actual := rxq_write q AND NOT 7\<rparr>) st1)
        = (rx_q st)\<lparr>rxq_write_actual := rxq_write (rx_q st) AND NOT 7, rxq_need_update := n\<rparr>"
      by (rule iwl_rxq.equality) (simp_all add: upd_q_def q)
    then show "told st (upd_q (\<lambda>q. q\<lparr>rxq_write_actual := rxq_write q AND NOT 7\<rparr>) st1)"
      using t unfolding told_def by (simp add: upd_q_def) blast
  qed
  obtain b st1 where 1: "(if \<not> shadow_reg_enable (rx_pcie c) \<and> tpower_pmi (rx_pcie c)
            then bindF (rx_on_dev (iwl_read32 hw CSR_UCODE_DRV_GP1) st) (\<lambda>(reg, st).
              if reg AND 1 \<noteq> 0
              then bindF (rx_on_dev (iwl_set_bit hw CSR_GP_CNTRL CSR_GP_CNTRL_REG_FLAG_MAC_ACCESS_REQ) st) (\<lambda>(_, st). Inr (True, st))
              else Inr (False, st))
            else Inr (False, st)) = Inr (b, st1)" "told st st1"
  proof (cases "\<not> shadow_reg_enable (rx_pcie c) \<and> tpower_pmi (rx_pcie c)")
    case True
    obtain reg st2 where 2: "rx_on_dev (iwl_read32 hw CSR_UCODE_DRV_GP1) st = Inr (reg, st2)" "told st st2"
      using dev[OF told_refl[OF assms] quiet_releases[OF quiet_prims(2)]] by blast
    obtain x st3 where 3: "rx_on_dev (iwl_set_bit hw CSR_GP_CNTRL CSR_GP_CNTRL_REG_FLAG_MAC_ACCESS_REQ) st2 = Inr (x, st3)" "told st st3"
      using dev[OF 2(2) wake[OF 2(2)]] by blast
    show thesis
    proof (cases "reg AND 1 = 0")
      case 0: True
      then show thesis using that[of False st2] True 2 by simp
    next
      case False
      then show thesis using that[of True st3] True 2(1) 3 by simp
    qed
  next
    case False
    then show thesis by (intro that[OF if_not_P told_refl[OF assms]])
  qed
  show ?thesis
  proof (cases b)
    case True
    then show ?thesis using 1 upd(1) by (simp add: iwl_pcie_rxq_inc_wr_ptr_def)
  next
    case False
    let ?st = "upd_q (\<lambda>q. q\<lparr>rxq_write_actual := rxq_write q AND NOT 7\<rparr>) st1"
    obtain x st4 where "rx_on_dev (iwl_write32 hw (if mq_rx_supported c then RFH_Q_FRBDCB_WIDX_TRG else FH_RSCSR_CHNL0_WPTR)
        (rxq_write_actual (rx_q ?st))) ?st = Inr (x, st4)" "told st st4"
      using dev[OF upd(2)[OF 1(2)] quiet_releases[OF quiet_prims(3)]] by blast
    then show ?thesis using 1(1) False by (simp add: iwl_pcie_rxq_inc_wr_ptr_def Let_def)
  qed
qed

subsection \<open>Restocking\<close>

definition shown :: "nat \<Rightarrow> iwl_rx_mem_buffer list \<Rightarrow> iwl_rx_mem_buffer list" where
  "shown b pool = pool[b := (pool ! b)\<lparr>rb_invalid := False\<rparr>]"

lemma shown_nth: "rb_page (shown b pool ! x) = rb_page (pool ! x)" "rb_dma (shown b pool ! x) = rb_dma (pool ! x)"
proof -
  have "shown b pool ! x = pool ! x \<or> shown b pool ! x = (pool ! x)\<lparr>rb_invalid := False\<rparr>"
    by (cases "b < length pool") (auto simp: shown_def nth_list_update list_update_beyond)
  then show "rb_page (shown b pool ! x) = rb_page (pool ! x)" "rb_dma (shown b pool ! x) = rb_dma (pool ! x)" by auto
qed

lemma shown_rbd: "paged (shown b pool) = paged pool" "bare (shown b pool) = bare pool" "length (shown b pool) = length pool"
  by (simp_all add: paged_def bare_def fun_eq_iff shown_nth) (simp add: shown_def)

lemma rxsq_loop_ok:
  assumes "rx_ok i [] st" and "rxq_read (rx_q st) = i"
  shows "\<exists>st'. rxsq_loop (rx_free (rx_q st)) st = Inr st' \<and> rx_ok i [] st' \<and> rxq_read (rx_q st') = i
    \<and> rxq_used_count (rx_q st') = rxq_used_count (rx_q st) \<and> rx_used (rx_q st') = rx_used (rx_q st) \<and> rx_rba st' = rx_rba st \<and> rx_cmdq st' = rx_cmdq st
    \<and> rx_ptr st' = rx_ptr st \<and> global_table st' = global_table st"
  using assms
proof (induction "rx_free (rx_q st)" arbitrary: st)
  case Nil
  have "rxq_free_count (rx_q st) = 0" using Nil by (simp add: rx_ok_def q_ok_def)
  then show ?case using Nil by (simp flip: Nil(1))
next
  case (Cons b bs)
  let ?q = "rx_q st"
  have q: "rxq_size ?q = 256" "length (rxq_slots ?q) = 256" "length (rxq_bd ?q) = 256" "i < 256" "rxq_write ?q < 256" "gap i ?q"
    "rxq_free_count ?q = of_nat (length (rx_free ?q))" using Cons.prems(1) by (auto simp: rx_ok_def q_ok_def)
  show ?case
  proof (cases "iwl_rxq_space ?q > 0 \<and> rxq_free_count ?q \<noteq> 0")
    case False
    then have "rxsq_loop (b # bs) st = Inr st" by simp
    then show ?thesis using Cons.prems by (simp flip: Cons.hyps(2))
  next
    case True
    let ?w = "unat (rxq_write ?q)"
    have w: "?w < 256" using q(5) by (simp add: word_less_nat_alt)
    have room: "(uint i - uint (rxq_write ?q) - 1) mod 256 > 0" using True space_room[OF q(1)] Cons.prems(2) by simp
    note g = gap_write[OF q(6) room q(5,2)]
    have "rx_ok i [b] (upd_q (\<lambda>q. q\<lparr>rx_free := bs, rxq_free_count := of_nat (length bs)\<rparr>) st)"
      using Cons.prems(1) by (simp add: rx_ok_def q_ok_def upd_q_def places_def gap_def slots_told_def flip: Cons.hyps(2))
    note fresh = rx_ok_fresh(2)[OF this]
    then have bl: "b < length (rx_pool st)" by (simp add: upd_q_def)
    define st1 where "st1 = st\<lparr>rx_pool := shown b (rx_pool st)\<rparr>"
    define v :: u64 where "v = ucast (iwl_pcie_dma_addr2rbd_ptr (rb_dma (rx_pool st ! b)))"
    define q2 where "q2 = ?q\<lparr>rxq_bd := (rxq_bd ?q)[?w := v], rx_free := bs, rxq_slots := (rxq_slots ?q)[?w := Some b],
        rxq_write := (rxq_write ?q + 1) AND 255, rxq_free_count := rxq_free_count ?q - 1\<rparr>"
    have "write_bd (ucast (iwl_pcie_dma_addr2rbd_ptr (rb_dma (rx_pool st1 ! b)))) (rx_q st1) = Inr (?q\<lparr>rxq_bd := (rxq_bd ?q)[?w := v]\<rparr>)"
      using q(3) w by (simp add: write_bd_def st1_def v_def shown_nth)
    then have step: "rxsq_loop (b # bs) st = rxsq_loop bs (st1\<lparr>rx_q := q2\<rparr>)"
      using True q(2) w bl by (simp add: upd_rbd_ok shown_def[symmetric] st1_def[symmetric] q2_def not_le)
    have fc: "rxq_free_count q2 = of_nat (length (rx_free q2))" using q(7) by (simp add: q2_def flip: Cons.hyps(2))
    have pb: "paged (rx_pool st) b" using Cons.prems(1) by (simp add: rx_ok_def flip: Cons.hyps(2))
    have told2: "slots_told (rx_pool st1) q2"
      unfolding slots_told_def
    proof (intro allI impI)
      fix p x assume p: "p < 256" "rxq_slots q2 ! p = Some x"
      show "paged (rx_pool st1) x \<and> rxq_bd q2 ! p = ucast (iwl_pcie_dma_addr2rbd_ptr (rb_dma (rx_pool st1 ! x)))"
      proof (cases "p = ?w")
        case True
        then show ?thesis using p q(2,3) w pb by (simp add: q2_def st1_def v_def shown_nth shown_rbd)
      next
        case False
        then have "rxq_slots ?q ! p = Some x" using p(2) by (simp add: q2_def)
        then have "paged (rx_pool st) x \<and> rxq_bd ?q ! p = ucast (iwl_pcie_dma_addr2rbd_ptr (rb_dma (rx_pool st ! x)))"
          using Cons.prems(1) p(1) by (simp add: rx_ok_def slots_told_def)
        then show ?thesis using False by (simp add: q2_def st1_def shown_nth shown_rbd)
      qed
    qed
    have pl: "places (st1\<lparr>rx_q := q2\<rparr>) = places st"
      using slot_put[of ?w "rxq_slots ?q" b] g(1) q(2) w by (simp add: places_def q2_def st1_def ac_simps flip: Cons.hyps(2))
    have "gap i q2" using g(2) by (simp add: q2_def gap_def)
    then have qo: "q_ok i q2" using q fc next_index_less unfolding q_ok_def by (simp add: q2_def)
    have ok2: "rx_ok i [] (st1\<lparr>rx_q := q2\<rparr>)"
      unfolding rx_ok_def pl using Cons.prems(1) qo told2
      by (simp add: rx_ok_def st1_def shown_rbd) (simp add: q2_def flip: Cons.hyps(2))
    have "bs = rx_free (rx_q (st1\<lparr>rx_q := q2\<rparr>))" "rxq_read (rx_q (st1\<lparr>rx_q := q2\<rparr>)) = i" using Cons.prems(2) by (simp_all add: q2_def)
    from Cons.hyps(1)[OF this(1) ok2 this(2)] obtain st' where
      3: "rxsq_loop (rx_free (rx_q (st1\<lparr>rx_q := q2\<rparr>))) (st1\<lparr>rx_q := q2\<rparr>) = Inr st'" "rx_ok i [] st'" "rxq_read (rx_q st') = i"
        "rxq_used_count (rx_q st') = rxq_used_count (rx_q (st1\<lparr>rx_q := q2\<rparr>))" "rx_used (rx_q st') = rx_used (rx_q (st1\<lparr>rx_q := q2\<rparr>))"
        "rx_rba st' = rx_rba (st1\<lparr>rx_q := q2\<rparr>)" "rx_cmdq st' = rx_cmdq (st1\<lparr>rx_q := q2\<rparr>)" "rx_ptr st' = rx_ptr (st1\<lparr>rx_q := q2\<rparr>)"
        "global_table st' = global_table (st1\<lparr>rx_q := q2\<rparr>)" by blast
    have "rx_free (rx_q (st1\<lparr>rx_q := q2\<rparr>)) = bs" by (simp add: q2_def)
    then have "rxsq_loop (b # bs) st = Inr st'" using 3(1) step by simp
    moreover have "rx_q (st1\<lparr>rx_q := q2\<rparr>) = q2" "rx_rba (st1\<lparr>rx_q := q2\<rparr>) = rx_rba st" "rx_cmdq (st1\<lparr>rx_q := q2\<rparr>) = rx_cmdq st"
      "rx_ptr (st1\<lparr>rx_q := q2\<rparr>) = rx_ptr st" "global_table (st1\<lparr>rx_q := q2\<rparr>) = global_table st"
      "rxq_used_count q2 = rxq_used_count ?q" "rx_used q2 = rx_used ?q" by (simp_all add: q2_def st1_def)
    ultimately show ?thesis unfolding Cons.hyps(2)[symmetric] using 3(2-9) by simp
  qed
qed

lemma restock_ok:
  assumes "rx_ok (rxq_read (rx_q st)) [] st" and "answerable (rx_cmdq st)" and "\<not> mq_rx_supported c" and "credit m st"
  shows "\<exists>st'. iwl_pcie_rxq_restock hw c st = Inr st' \<and> rx_ok (rxq_read (rx_q st')) [] st' \<and> credit m st' \<and> answerable (rx_cmdq st')
    \<and> rx_ptr st' = rx_ptr st \<and> global_table st' = global_table st \<and> rxq_read (rx_q st') = rxq_read (rx_q st)"
proof -
  obtain e where e: "status_bit STATUS_DEVICE_ENABLED (rx_cmdq st) = Inr e" 
    using status_read[of STATUS_DEVICE_ENABLED "rx_cmdq st"] by (auto simp: STATUS_DEVICE_ENABLED_def)
  obtain st1 where 1: "rxsq_loop (rx_free (rx_q st)) st = Inr st1" "rx_ok (rxq_read (rx_q st)) [] st1" "rxq_read (rx_q st1) = rxq_read (rx_q st)"
    "rxq_used_count (rx_q st1) = rxq_used_count (rx_q st)" "rx_used (rx_q st1) = rx_used (rx_q st)" "rx_rba st1 = rx_rba st" "rx_cmdq st1 = rx_cmdq st"
    "rx_ptr st1 = rx_ptr st" "global_table st1 = global_table st" using rxsq_loop_ok[OF assms(1) refl] by blast
  obtain st2 where 2: "tell_device hw c st1 = Inr st2" "told st1 st2"
  proof (cases "rxq_write_actual (rx_q st1) = rxq_write (rx_q st1) AND NOT 7")
    case True
    then show thesis using that[of st1] told_refl[of st1] assms(2) 1(7) by (simp add: tell_device_def)
  next
    case False
    obtain st2 where "iwl_pcie_rxq_inc_wr_ptr hw c st1 = Inr st2" "told st1 st2" using inc_wr_ptr_returns[of st1] assms(2) 1(7) by auto
    then show thesis using that[of st2] False by (simp add: tell_device_def)
  qed
  have "credit m st1" using assms(4) unfolding credit_def Let_def 1(4-6) .
  then have "rx_ok (rxq_read (rx_q st2)) [] st2" "credit m st2" "answerable (rx_cmdq st2)" "rx_ptr st2 = rx_ptr st" "global_table st2 = global_table st"
    "rxq_read (rx_q st2) = rxq_read (rx_q st)"
    using told_keeps[OF 2(2)] 1(2,3,8,9) 2(2) by (simp_all add: told_def)
  then show ?thesis using assms e 1(1) 2(1) by (cases e) (auto simp: iwl_pcie_rxq_restock_def iwl_pcie_rxsq_restock_def)
qed

end
