(* ===== verification/Rx_Return.thy ===== *)
theory Rx_Return
  imports Rx_Safety
begin

section \<open>The receive handler returns\<close>

text \<open>
  One packet, one buffer, one turn and the loop of \<open>iwl_pcie_rx_handle\<close>: with a queue in order, whatever the device
  wrote into the status word and the pages, each returns and leaves the queue in order. The receive function of the
  operation mode must leave a command queue that can take answers, with as many commands.
\<close>

definition op_sound :: "'d op_rx \<Rightarrow> bool" where
  "op_sound op \<longleftrightarrow> (\<forall>a st. answerable st \<longrightarrow>
     answerable (snd (op a st)) \<and> n_window (cq_queue (snd (op a st))) = n_window (cq_queue st))"

definition pages_full :: "(nat \<Rightarrow> u8 list) \<Rightarrow> bool" where
  "pages_full page_mem \<longleftrightarrow> (\<forall>p. length (page_mem p) = PAGE_SIZE)"

subsection \<open>One packet\<close>

lemma free_buf_answerable:
  assumes "answerable st" and "i < length (txq_entries (cq_queue st))"
  shows "\<exists>q. upd_entry i (\<lambda>e. e\<lparr>ent_free_buf := False\<rparr>) (cq_queue st) = Inr q \<and> answerable (st\<lparr>cq_queue := q\<rparr>)"
proof -
  define f :: "txq_entry \<Rightarrow> txq_entry" where "f = (\<lambda>e. e\<lparr>ent_free_buf := False\<rparr>)"
  let ?q = "cq_queue st"
  define q where "q = ?q\<lparr>txq_entries := (txq_entries ?q)[i := f (txq_entries ?q ! i)]\<rparr>"
  have u: "upd_entry i f ?q = Inr q" using assms(2) by (simp add: upd_entry_def q_def)
  have "entry_dmas q = entry_dmas ?q" using entry_dmas_upd[OF assms(2) u] entry_dmas_at[OF assms(2)] by (simp add: f_def)
  moreover have "ring_ok q = ring_ok ?q" by (rule ring_cong) (simp_all add: q_def)
  moreover have "ent_source e" if "e \<in> set (txq_entries q)" "ent_flags e AND CMD_WANT_SKB \<noteq> 0" for e
  proof -
    have "e = f (txq_entries ?q ! i) \<or> e \<in> set (txq_entries ?q)"
      using that(1) subsetD[OF set_update_subset_insert, of e "txq_entries ?q" i "f (txq_entries ?q ! i)"] by (auto simp: q_def)
    moreover have "txq_entries ?q ! i \<in> set (txq_entries ?q)" using assms(2) by simp
    ultimately show ?thesis using assms(1) that(2) by (auto simp: answerable_def f_def)
  qed
  ultimately have "answerable (st\<lparr>cq_queue := q\<rparr>)" using assms(1) by (simp add: answerable_def q_def)
  then show ?thesis using u unfolding f_def by blast
qed

lemma rx_packet_returns:
  assumes "answerable st" and "op_sound op" and "offset + 8 \<le> length bytes"
  shows "\<exists>b st'. rx_packet hw c op page bytes offset st = Some (Inr (b, st')) \<and> answerable st'"
proof -
  obtain cid gid sq where rd: "rd8 bytes (offset + 4) = Inr cid" "rd8 bytes (offset + 5) = Inr gid" "rd16 bytes (offset + 6) = Inr sq"
    using assms(3) by (simp add: rd8_def rd16_def)
  obtain stolen st1 where op: "op (page + offset) st = (stolen, st1)" by (cases "op (page + offset) st")
  let ?i = "iwl_pcie_get_cmd_index (cq_queue st) (int (unat (SEQ_TO_INDEX sq)))"
  have a1: "answerable st1" "n_window (cq_queue st1) = n_window (cq_queue st)"
    using assms(1,2) op unfolding op_sound_def by (metis snd_conv)+
  have "int ?i < n_window (cq_queue st)" by (rule index_in_window) (use assms(1) in \<open>simp add: answerable_def\<close>)
  then have i: "?i < length (txq_entries (cq_queue st1))" using a1 by (simp add: answerable_def)
  obtain q where q: "upd_entry ?i (\<lambda>e. e\<lparr>ent_free_buf := False\<rparr>) (cq_queue st1) = Inr q" "answerable (st1\<lparr>cq_queue := q\<rparr>)"
    using free_buf_answerable[OF a1(1) i] by blast
  obtain st2 where 2: "iwl_pcie_hcmd_complete hw (rx_pcie c) sq (page + offset) (st1\<lparr>cq_queue := q\<rparr>) = Some (Inr st2)" "answerable st2"
    using complete_answerable[OF q(2)] by blast
  show ?thesis using rd op a1(1) q 2 unfolding rx_packet_def by (simp add: Let_def) (intro impI exI TrueI)
qed

lemma packet_loop_returns:
  assumes "answerable st" and "op_sound op" and "max_len c = length bytes"
  shows "\<exists>b st'. packet_loop hw c op page bytes offset stolen st = Some (Inr (b, st')) \<and> answerable st'"
  using assms
proof (induction hw c op page bytes offset stolen st rule: packet_loop.induct)
  case (1 hw c op page bytes offset stolen st)
  show ?case
  proof (cases "offset + 4 + 4 < max_len c")
    case False
    then show ?thesis using "1.prems"(1) by simp
  next
    case True
    then obtain w where w: "rd32 bytes offset = Inr w" using "1.prems"(3) by (simp add: rd32_def)
    obtain b st1 where p: "rx_packet hw c op page bytes offset st = Some (Inr (b, st1))" "answerable st1"
      using rx_packet_returns[OF "1.prems"(1,2), of offset bytes hw c page] True "1.prems"(3) by auto
    show ?thesis
    proof (cases "w = FH_RSCSR_FRAME_INVALID")
      case inv: True
      then show ?thesis using True w "1.prems"(1) by simp
    next
      case False
      have "\<exists>b' st'. packet_loop hw c op page bytes (offset + packet_stride w) (stolen \<or> b) st1 = Some (Inr (b', st')) \<and> answerable st'"
        by (rule "1.IH"[OF _ w False p(1) refl refl p(2) "1.prems"(2,3)]) (use True in simp)
      then show ?thesis using True w False p(1) by simp
    qed
  qed
qed

subsection \<open>One buffer\<close>

lemma credit_frame:
  "credit m (st\<lparr>rx_pool := p\<rparr>) = credit m st" "credit m (st\<lparr>rx_cmdq := x\<rparr>) = credit m st" "credit m (upd_q (\<lambda>q. q\<lparr>rxq_slots := y q\<rparr>) st) = credit m st"
  "credit m (upd_q (\<lambda>q. q\<lparr>rxq_read := i\<rparr>) st) = credit m st"
  "credit m (upd_q (\<lambda>q. q\<lparr>rx_free := f q, rxq_free_count := g q\<rparr>) st) = credit m st"
  by (simp_all add: credit_def upd_q_def Let_def)

lemma rx_ok_frame: "rx_ok i out (st\<lparr>rx_cmdq := x\<rparr>) = rx_ok i out st" "rx_ok i out (upd_q (\<lambda>q. q\<lparr>rxq_read := r\<rparr>) st) = rx_ok i out st"
  by (simp_all add: rx_ok_def places_def upd_q_def q_ok_def gap_def slots_told_def)

lemma handle_rb_ok:
  assumes "rx_ok x (held_rbd rxb) st" and "\<And>b. rxb = Some b \<Longrightarrow> paged (rx_pool st) b" and "credit 7 st" and "answerable (rx_cmdq st)"
    and "pages_come env" and "op_sound op" and "pages_full page_mem" and "rx_page_order c = 0"
  shows "\<exists>st'. iwl_pcie_rx_handle_rb env hw c op page_mem rxb False st = Some (Inr st') \<and> rx_ok x [] st' \<and> credit 8 st'
    \<and> answerable (rx_cmdq st')"
proof (cases rxb)
  case None
  have "credit 8 st" using assms(3) by (auto simp: credit_def Let_def)
  then show ?thesis using assms(1,4) None by (simp add: iwl_pcie_rx_handle_rb_def held_rbd_def)
next
  case (Some b')
  then have ok: "rx_ok x [b'] st" using assms(1) by (simp add: held_rbd_def)
  have bl: "b' < length (rx_pool st)" by (rule rx_ok_fresh(2)[OF ok])
  define r where "r = rx_pool st ! b'"
  obtain p where p: "rb_page r = Some p" "rb_dma r \<noteq> 0"
    using assms(2) Some ok by (auto simp: paged_def r_def)
  have "max_len c = length (page_mem p)" using assms(7,8) by (simp add: max_len_def pages_full_def)
  then obtain sn cq where 1: "packet_loop hw c op p (page_mem p) 0 False (rx_cmdq st) = Some (Inr (sn, cq))" "answerable cq"
    using packet_loop_returns[OF assms(4,6)] by blast
  define dma where "dma = (if sn then rb_dma r else dmamap env p)"
  define kept where "kept = (if sn \<or> dma = 0 then None else Some p)"
  define st1 where "st1 = st\<lparr>rx_cmdq := cq, rx_pool := (rx_pool st)[b' := r\<lparr>rb_page := kept, rb_dma := dma\<rparr>]\<rparr>"
  have ok1: "rx_ok x [b'] st1" and c1: "credit 7 st1" and a1: "answerable (rx_cmdq st1)"
    using pool_changed[of x b' "[]" "st\<lparr>rx_cmdq := cq\<rparr>"] ok assms(3) 1(2) by (simp_all add: st1_def rx_ok_frame credit_frame)
  have run: "iwl_pcie_rx_handle_rb env hw c op page_mem rxb False st = (if kept = None then iwl_pcie_rx_reuse_rbd env b' False st1
      else Some (Inr (upd_q (\<lambda>q. q\<lparr>rx_free := rx_free q @ [b'], rxq_free_count := rxq_free_count q + 1\<rparr>) st1)))"
    using Some bl p(1) 1(1) unfolding iwl_pcie_rx_handle_rb_def
    by (cases kept) (simp_all add: rbd_at_def upd_rbd_ok r_def[symmetric] dma_def[symmetric] kept_def[symmetric] st1_def Let_def
      del: packet_loop.simps)
  show ?thesis
  proof (cases "kept = None")
    case True
    have "bare (rx_pool st1) b'" using bl True by (simp add: bare_def st1_def)
    from reuse_ok[OF assms(5) ok1 this c1] show ?thesis using run True a1 by auto
  next
    case False
    then have "dma \<noteq> 0" by (simp add: kept_def split: if_splits)
    then have "paged (rx_pool st1) b'" using bl False by (simp add: paged_def st1_def)
    note f = put_free[OF ok1 this]
    have "credit 8 st1" using c1 by (auto simp: credit_def Let_def)
    then show ?thesis using run False f a1 by (simp add: credit_frame) (simp add: upd_q_def)
  qed
qed

subsection \<open>One turn\<close>

lemma turn_ok:
  assumes "rx_ok i [] st" and "credit 7 st" and "answerable (rx_cmdq st)" and "pages_come env" and "op_sound op" and "pages_full page_mem"
    and "rx_page_order c = 0" and "\<not> mq_rx_supported c"
  shows "\<exists>st'. handle_turn env hw c op page_mem i 0 False st = Some (Inr (Go_on 0 False, st')) \<and> rx_ok ((i + 1) AND 255) [] st'
    \<and> credit 7 st' \<and> answerable (rx_cmdq st')"
proof -
  let ?x = "(i + 1) AND 255"
  let ?rxb = "rxq_slots (rx_q st) ! unat i"
  define st1 where "st1 = upd_q (\<lambda>q. q\<lparr>rxq_slots := (rxq_slots q)[unat i := None]\<rparr>) st"
  have q: "rxq_size (rx_q st) = 256" "length (rxq_slots (rx_q st)) = 256" "i < 256" using assms(1) by (auto simp: rx_ok_def q_ok_def)
  then have n: "unat i < 256" by (simp add: word_less_nat_alt)
  have nx: "next_rxb hw c i st = Inr (Inr ?rxb, st1)" using assms(8) q(2) n by (simp add: next_rxb_def st1_def not_le)
  have ok1: "rx_ok ?x (held_rbd ?rxb) st1" unfolding st1_def by (rule slot_read_ok(1)[OF assms(1)])
  have pg: "?rxb = Some b \<Longrightarrow> paged (rx_pool st1) b" for b using slot_read_ok(2)[OF assms(1)] by (simp add: st1_def upd_q_def)
  have c1: "credit 7 st1" and a1: "answerable (rx_cmdq st1)"
    using assms(2,3) unfolding st1_def credit_frame by (simp_all add: upd_q_def)
  have small: "rxq_used_count (rx_q st) \<noteq> 128" using assms(2) by (auto simp: credit_def Let_def)
  obtain st2 where 2: "iwl_pcie_rx_handle_rb env hw c op page_mem ?rxb False st1 = Some (Inr st2)" "rx_ok ?x [] st2" "credit 8 st2" "answerable (rx_cmdq st2)"
    using handle_rb_ok[OF ok1 pg c1 a1 assms(4-7)] by blast
  obtain st3 where 3: "claim_ready st2 = Inr st3" "rx_ok ?x [] st3" "rx_cmdq st3 = rx_cmdq st2"
    "if unat (rxq_used_count (rx_q st3)) mod 8 = 0 then credit 7 (used_to_allocator st3) else credit 7 st3"
    using claim_ready_ok[OF 2(2,3)] by blast
  have "after_buffer env hw c j 0 False st2 = Inr (Go_on 0 False, if unat (rxq_used_count (rx_q st3)) mod 8 = 0 then used_to_allocator st3 else st3)" for j
    using 3(1) by (simp add: after_buffer_def RX_CLAIM_REQ_ALLOC_def)
  then have "handle_turn env hw c op page_mem i 0 False st
      = Some (Inr (Go_on 0 False, if unat (rxq_used_count (rx_q st3)) mod 8 = 0 then used_to_allocator st3 else st3))"
    using small nx 2(1) q(1) by (simp add: handle_turn_def Let_def)
  moreover have "rx_cmdq (used_to_allocator st3) = rx_cmdq st3" by (simp add: used_to_allocator_def upd_q_def upd_rba_def)
  ultimately show ?thesis using 3 2(4) used_to_allocator_ok[OF 3(2)] by (cases "unat (rxq_used_count (rx_q st3)) mod 8 = 0") auto
qed

subsection \<open>The loop\<close>

definition steps_left :: "u32 \<Rightarrow> u32 \<Rightarrow> nat" where
  "steps_left r i = nat ((uint r - uint i) mod 256)"

lemma one_step_left:
  assumes "i \<noteq> r" and "i < 256" and "r < 256"
  shows "steps_left r i = Suc (steps_left r ((i + 1) AND 255))"
proof -
  have b: "0 \<le> uint i" "uint i < 256" "0 \<le> uint r" "uint r < 256" using assms(2,3) index_below by auto
  have "uint i \<noteq> uint r" using assms(1) unfolding word_uint_eq_iff .
  then have nz: "(uint r - uint i) mod 256 \<noteq> 0" 
    using same_residue[of "unat r" "uint i" "uint i"] b assms(3)[unfolded word_less_nat_alt] by auto
  have "(uint r - uint ((i + 1) AND 255)) mod 256 = (uint r - uint i - 1) mod 256"
    unfolding next_index by (simp add: mod_diff_right_eq algebra_simps)
  also have "\<dots> = (uint r - uint i) mod 256 - 1" using nz unfolding mod_dec by simp
  finally show ?thesis using nz pos_mod_sign[of 256 "uint r - uint i"] by (simp add: steps_left_def)
qed

lemma loop_ok:
  assumes "rx_ok i [] st" and "credit 7 st" and "answerable (rx_cmdq st)" and "r < 256"
    and "pages_come env" "op_sound op" "pages_full page_mem" "rx_page_order c = 0" "\<not> mq_rx_supported c"
  shows "\<exists>st'. rx_handle_loop env hw c op page_mem closed k r i 0 False st = Some (Inr st') \<and> rx_ok (rxq_read (rx_q st')) [] st'
    \<and> credit 7 st' \<and> answerable (rx_cmdq st') \<and> rxq_read (rx_q st') = r"
  using assms(1-3)
proof (induction "steps_left r i" arbitrary: i st rule: less_induct)
  case less
  show ?case
  proof (cases "i = r")
    case True
    let ?st = "upd_q (\<lambda>q. q\<lparr>rxq_read := i\<rparr>) st"
    have "rx_ok (rxq_read (rx_q ?st)) [] ?st" using less.prems(1) by (simp add: rx_ok_frame) (simp add: upd_q_def)
    moreover have "answerable (rx_cmdq ?st)" using less.prems(3) by (simp add: upd_q_def)
    moreover have "credit 7 ?st" using less.prems(2) unfolding credit_frame .
    ultimately obtain st' where "iwl_pcie_rxq_restock hw c ?st = Inr st'" "rx_ok (rxq_read (rx_q st')) [] st'" "credit 7 st'"
      "answerable (rx_cmdq st')" "rxq_read (rx_q st') = rxq_read (rx_q ?st)" using restock_ok[OF _ _ assms(9)] by blast
    then show ?thesis using True by (subst rx_handle_loop.simps) (simp add: leave_handle_def Let_def upd_q_def)
  next
    case False
    obtain st1 where 1: "handle_turn env hw c op page_mem i 0 False st = Some (Inr (Go_on 0 False, st1))" "rx_ok ((i + 1) AND 255) [] st1"
      "credit 7 st1" "answerable (rx_cmdq st1)" using turn_ok[OF less.prems(1-3) assms(5-9)] by blast
    have s: "rxq_size (rx_q st1) = 256" "i < 256" using 1(2) less.prems(1) by (simp_all add: rx_ok_def q_ok_def)
    have "steps_left r ((i + 1) AND 255) < steps_left r i" using one_step_left[OF False s(2) assms(4)] by simp
    from less.hyps[OF this 1(2-4)] show ?thesis using False 1(1) s(1) by (subst rx_handle_loop.simps) simp
  qed
qed

end
