(* ===== verification/Rx_Init.thy ===== *)
theory Rx_Init
  imports Rx_Return
begin

section \<open>The receive queue starts in order\<close>

text \<open>
  \<open>iwl_pcie_rx_init\<close> distributes the RBDs, gives them pages until a request is refused, programs the hardware and shows
  the first buffers to the device; what it leaves is what the handler needs.
\<close>

definition rx_wf :: "'d rx \<Rightarrow> bool" where
  "rx_wf st \<longleftrightarrow> rx_ok (rxq_read (rx_q st)) [] st \<and> credit 7 st"

text \<open>What must hold before: the fixed arrays, and for a queue that is live its own.\<close>

definition rx_sized :: "'d rx \<Rightarrow> bool" where
  "rx_sized st \<longleftrightarrow> length (rx_pool st) = RX_POOL_SIZE \<and> length (global_table st) = MQ_RX_TABLE_SIZE \<and> rx_ptr st = Rxq_live
     \<and> rxq_size (rx_q st) = 256 \<and> length (rxq_bd (rx_q st)) = 256"

subsection \<open>Distribution\<close>

lemma reset_ok:
  assumes "rx_sized st"
  shows "rx_ok 0 [0..<RX_RBDS] (rx_reset st)" and "b < RX_RBDS \<Longrightarrow> bare (rx_pool (rx_reset st)) b"
    and "rx_rba (rx_reset st) = \<lparr>req_pending = 0, req_ready = 0, rbd_allocated = [], rbd_empty = []\<rparr>"
    and "rxq_used_count (rx_q (rx_reset st)) = 0" and "rxq_read (rx_q (rx_reset st)) = 0" and "rx_cmdq (rx_reset st) = rx_cmdq st"
    and "global_table (rx_reset st) = global_table st" and "rx_ptr (rx_reset st) = rx_ptr st"
proof -
  have "mset (replicate 256 (None :: nat option)) = replicate_mset 256 None" by simp
  then have "slot_rbds (replicate RX_QUEUE_SIZE None) = {#}" by (simp add: slot_rbds_def RX_QUEUE_SIZE_def filter_mset_eq_conv)
  then show "rx_ok 0 [0..<RX_RBDS] (rx_reset st)"
    using assms by (simp add: rx_ok_def rx_sized_def rx_reset_def upd_q_def iwl_pcie_rx_init_rxb_lists_def iwl_pcie_free_rbs_pool_def places_def
      q_ok_def gap_def slots_told_def RX_QUEUE_SIZE_def)
  show "b < RX_RBDS \<Longrightarrow> bare (rx_pool (rx_reset st)) b"
    using assms by (simp add: rx_sized_def rx_reset_def upd_q_def iwl_pcie_free_rbs_pool_def bare_def RX_RBDS_def
      RX_POOL_SIZE_def MQ_RX_NUM_RBDS_def MQ_RX_TABLE_SIZE_def IWL_MAX_RX_HW_QUEUES_def RX_CLAIM_REQ_ALLOC_def RX_POST_REQ_ALLOC_def)
qed (simp_all add: rx_reset_def upd_q_def iwl_pcie_rx_init_rxb_lists_def iwl_pcie_free_rbs_pool_def)

lemma give_one:
  assumes "rx_ok x (i # out) st" and "bare (rx_pool st) i"
  shows "rx_ok x out (upd_rba (\<lambda>a. a\<lparr>rbd_empty := i # rbd_empty a\<rparr>) st)" "rx_ok x out (upd_q (\<lambda>q. q\<lparr>rx_used := i # rx_used q\<rparr>) st)"
  using assms by (simp_all add: rx_ok_def q_ok_def upd_q_def upd_rba_def places_def gap_def slots_told_def)

lemma give_rbds_ok:
  assumes "rx_ok x [i..<RX_RBDS] st" and "\<And>b. i \<le> b \<Longrightarrow> b < RX_RBDS \<Longrightarrow> bare (rx_pool st) b" and "length (global_table st) = MQ_RX_TABLE_SIZE"
  shows "\<exists>st'. give_rbds i 6 RX_RBDS st = Inr st' \<and> rx_ok x [] st' \<and> length (rbd_empty (rx_rba st')) = length (rbd_empty (rx_rba st)) + (6 - i)
    \<and> req_pending (rx_rba st') = req_pending (rx_rba st) \<and> req_ready (rx_rba st') = req_ready (rx_rba st)
    \<and> rbd_allocated (rx_rba st') = rbd_allocated (rx_rba st) \<and> rxq_used_count (rx_q st') = rxq_used_count (rx_q st)
    \<and> rxq_read (rx_q st') = rxq_read (rx_q st) \<and> rx_cmdq st' = rx_cmdq st \<and> rx_ptr st' = rx_ptr st"
  using assms
proof (induction "RX_RBDS - i" arbitrary: i st)
  case 0
  then show ?case by (simp add: RX_RBDS_def)
next
  case (Suc n)
  then have i: "i < RX_RBDS" by simp
  have up: "[i..<RX_RBDS] = i # [Suc i..<RX_RBDS]" using i by (rule upt_conv_Cons)
  define st1 where "st1 = st\<lparr>rx_pool := (rx_pool st)[i := (rx_pool st ! i)\<lparr>rb_vid := of_nat (i + 1), rb_invalid := True\<rparr>]\<rparr>"
  have il: "i < length (rx_pool st)" by (rule rx_ok_fresh(2)) (use Suc.prems(1) up in simp)
  have ok1: "rx_ok x (i # [Suc i..<RX_RBDS]) st1" unfolding st1_def by (rule pool_changed) (use Suc.prems(1) up in simp)
  have br: "bare (rx_pool st1) b" if "i \<le> b" "b < RX_RBDS" for b
    using Suc.prems(2)[OF that] il by (cases "b = i") (simp_all add: st1_def bare_def)
  define st2 where "st2 = (if i < 6 then upd_rba (\<lambda>a. a\<lparr>rbd_empty := i # rbd_empty a\<rparr>) st1
    else upd_q (\<lambda>q. q\<lparr>rx_used := i # rx_used q\<rparr>) st1)"
  define st3 where "st3 = st2\<lparr>global_table := (global_table st2)[i := Some i]\<rparr>"
  have "rx_ok x [Suc i..<RX_RBDS] st2" using give_one[OF ok1 br[OF order_refl i]] by (simp add: st2_def)
  then have ok3: "rx_ok x [Suc i..<RX_RBDS] st3" by (simp add: st3_def rx_ok_def places_def)
  have gl: "length (global_table st3) = MQ_RX_TABLE_SIZE" using Suc.prems(3) by (simp add: st3_def st2_def st1_def upd_rba_def upd_q_def)
  have pool3: "rx_pool st3 = rx_pool st1" by (simp add: st3_def st2_def upd_rba_def upd_q_def)
  have step: "give_rbds i 6 RX_RBDS st = give_rbds (Suc i) 6 RX_RBDS st3"
    using i il Suc.prems(3) by (subst give_rbds.simps)
      (simp add: upd_rbd_ok st1_def st2_def st3_def Let_def RX_RBDS_def MQ_RX_TABLE_SIZE_def del: give_rbds.simps)
  have "length (rbd_empty (rx_rba st3)) = (if i < 6 then Suc (length (rbd_empty (rx_rba st))) else length (rbd_empty (rx_rba st)))"
    by (simp add: st3_def st2_def st1_def upd_rba_def upd_q_def)
  then have el: "length (rbd_empty (rx_rba st3)) + (6 - Suc i) = length (rbd_empty (rx_rba st)) + (6 - i)" by (cases "i < 6") simp_all
  have keep: "req_pending (rx_rba st3) = req_pending (rx_rba st)" "req_ready (rx_rba st3) = req_ready (rx_rba st)"
    "rbd_allocated (rx_rba st3) = rbd_allocated (rx_rba st)" "rxq_used_count (rx_q st3) = rxq_used_count (rx_q st)"
    "rxq_read (rx_q st3) = rxq_read (rx_q st)" "rx_cmdq st3 = rx_cmdq st" "rx_ptr st3 = rx_ptr st"
    by (simp_all add: st3_def st2_def st1_def upd_rba_def upd_q_def)
  have n: "n = RX_RBDS - Suc i" using Suc.hyps(2) by simp
  have br3: "bare (rx_pool st3) b" if "Suc i \<le> b" "b < RX_RBDS" for b using br that pool3 by simp
  from Suc.hyps(1)[OF n ok3 br3 gl] show ?case unfolding step keep el by simp
qed

subsection \<open>First pages\<close>

lemma take_used:
  assumes "rx_ok x [] st" and "rx_used (rx_q st) = b # bs"
  shows "rx_ok x [b] (upd_q (\<lambda>q. q\<lparr>rx_used := bs\<rparr>) st)"
  using assms by (simp add: rx_ok_def q_ok_def upd_q_def places_def gap_def slots_told_def)

lemma alloc_rbs_ok:
  assumes "rx_ok x [] st"
  shows "\<exists>st'. iwl_pcie_rxq_alloc_rbs env st = Inr st' \<and> rx_ok x [] st' \<and> rx_rba st' = rx_rba st
    \<and> rxq_used_count (rx_q st') = rxq_used_count (rx_q st) \<and> rxq_read (rx_q st') = rxq_read (rx_q st)
    \<and> rx_cmdq st' = rx_cmdq st \<and> rx_ptr st' = rx_ptr st"
  unfolding iwl_pcie_rxq_alloc_rbs_def using assms
proof (induction "rx_used (rx_q st)" arbitrary: st)
  case Nil
  then show ?case by (simp flip: Nil(1))
next
  case (Cons b bs)
  define a where "a = st\<lparr>pages_asked := pages_asked st + 1\<rparr>"
  have oka: "rx_ok x [] a" using Cons.prems by (simp add: a_def rx_ok_asked)
  have ua: "rx_used (rx_q a) = b # bs" using Cons.hyps(2) by (simp add: a_def)
  note out = take_used[OF oka ua]
  have bl: "b < length (rx_pool a)" using rx_ok_fresh(2)[OF out] by (simp add: upd_q_def)
  show ?case
  proof (cases "new_page env (pages_asked st)")
    case None
    then show ?thesis using oka unfolding Cons.hyps(2)[symmetric]
      by (simp add: iwl_pcie_rx_alloc_page_def a_def[symmetric]) (simp add: a_def)
  next
    case (Some p)
    define r where "r = (rx_pool a ! b)\<lparr>rb_page := (if dmamap env p = 0 then None else Some p), rb_dma := dmamap env p\<rparr>"
    note changed = pool_changed[OF out, of r]
    have pg: "iwl_pcie_rx_alloc_page env st = (Some p, a)" using Some by (simp add: iwl_pcie_rx_alloc_page_def a_def)
    have up: "upd_rbd b (\<lambda>x. x\<lparr>rb_page := (if dmamap env p = 0 then None else Some p), rb_dma := dmamap env p\<rparr>) a
        = Inr (a\<lparr>rx_pool := (rx_pool a)[b := r]\<rparr>)" using upd_rbd_ok[OF bl] by (simp add: r_def)
    show ?thesis
    proof (cases "dmamap env p = 0")
      case True
      have "rx_ok x [] (upd_q (\<lambda>q. q\<lparr>rx_used := b # rx_used q\<rparr>) ((upd_q (\<lambda>q. q\<lparr>rx_used := bs\<rparr>) a)\<lparr>rx_pool := (rx_pool a)[b := r]\<rparr>))"
        by (rule give_one(2)) (use changed bl True in \<open>simp_all add: bare_def r_def upd_q_def\<close>)
      moreover have "upd_q (\<lambda>q. q\<lparr>rx_used := b # rx_used q\<rparr>) ((upd_q (\<lambda>q. q\<lparr>rx_used := bs\<rparr>) a)\<lparr>rx_pool := (rx_pool a)[b := r]\<rparr>)
          = a\<lparr>rx_pool := (rx_pool a)[b := r]\<rparr>"
        by (rule rx.equality) (simp_all add: upd_q_def ua[symmetric])
      ultimately have "rx_ok x [] (a\<lparr>rx_pool := (rx_pool a)[b := r]\<rparr>)" by simp
      then show ?thesis using True pg up unfolding Cons.hyps(2)[symmetric] by simp (simp add: a_def)
    next
      case False
      let ?f = "\<lambda>q. q\<lparr>rx_used := bs, rx_free := rx_free q @ [b], rxq_free_count := rxq_free_count q + 1\<rparr>"
      define st1 where "st1 = upd_q ?f (a\<lparr>rx_pool := (rx_pool a)[b := r]\<rparr>)"
      have "rx_ok x [] (upd_q (\<lambda>q. q\<lparr>rx_free := rx_free q @ [b], rxq_free_count := rxq_free_count q + 1\<rparr>)
          ((upd_q (\<lambda>q. q\<lparr>rx_used := bs\<rparr>) a)\<lparr>rx_pool := (rx_pool a)[b := r]\<rparr>))"
        by (rule put_free) (use changed bl False in \<open>simp_all add: paged_def r_def upd_q_def\<close>)
      moreover have "upd_q (\<lambda>q. q\<lparr>rx_free := rx_free q @ [b], rxq_free_count := rxq_free_count q + 1\<rparr>)
          ((upd_q (\<lambda>q. q\<lparr>rx_used := bs\<rparr>) a)\<lparr>rx_pool := (rx_pool a)[b := r]\<rparr>) = st1"
        by (rule rx.equality) (simp_all add: upd_q_def st1_def)
      ultimately have ok1: "rx_ok x [] st1" by simp
      have bs: "bs = rx_used (rx_q st1)" by (simp add: st1_def upd_q_def)
      have step: "iwl_pcie_rxq_alloc_rbs_loop env (b # bs) st = iwl_pcie_rxq_alloc_rbs_loop env (rx_used (rx_q st1)) st1"
        using False pg up unfolding bs[symmetric] by (simp add: st1_def)
      have same: "rx_rba st1 = rx_rba st" "rxq_used_count (rx_q st1) = rxq_used_count (rx_q st)" "rxq_read (rx_q st1) = rxq_read (rx_q st)"
        "rx_cmdq st1 = rx_cmdq st" "rx_ptr st1 = rx_ptr st" by (simp_all add: st1_def a_def upd_q_def)
      from Cons.hyps(1)[OF bs ok1] show ?thesis unfolding Cons.hyps(2)[symmetric] step same .
    qed
  qed
qed

subsection \<open>The hardware\<close>

lemma quiet_write_regs [quiet_intros]: "(\<And>r v. quiet (w r v)) \<Longrightarrow> quiet (write_regs w rs)"
  by (induction w rs rule: write_regs.induct) (auto intro!: quiet_intros)

text \<open>Programming the single queue is an access with the lock held, unless the hardware needs the interrupt work-around.\<close>

lemma rx_hw_init_access:
  assumes "\<not> host_interrupt_operation_mode h"
  shows "iwl_pcie_rx_hw_init hw h q = with_nic_access hw () (bindIO (write_regs (iwl_write32 hw)
       [(FH_MEM_RCSR_CHNL0_CONFIG_REG, 0), (FH_MEM_RCSR_CHNL0_RBDCB_WPTR, 0), (FH_MEM_RCSR_CHNL0_FLUSH_RB_REQ, 0),
        (FH_RSCSR_CHNL0_RDPTR, 0), (FH_RSCSR_CHNL0_RBDCB_WPTR_REG, 0),
        (FH_RSCSR_CHNL0_RBDCB_BASE_REG, ucast (drop_bit 8 (bd_dma q))), (FH_RSCSR_CHNL0_STTS_WPTR_REG, ucast (drop_bit 4 (rb_stts_dma q))),
        (FH_MEM_RCSR_CHNL0_CONFIG_REG, rx_config h)]) (\<lambda>_. iwl_write8 hw CSR_INT_COALESCING IWL_HOST_INT_TIMEOUT_DEF))"
proof -
  have unit: "(\<lambda>x. bindIO (iwl_trans_pcie_release_nic_access hw) (\<lambda>_. retIO (x :: unit))) = (\<lambda>_. iwl_trans_pcie_release_nic_access hw)"
    by (simp add: fun_eq_iff bindIO_def bindF_def retIO_def split: sum.splits)
  have skip: "bindIO (retIO ()) k = k ()" for k :: "unit \<Rightarrow> ('d, unit) io" by (rule ext) (simp add: bindIO_def retIO_def)
  show ?thesis using assms unfolding iwl_pcie_rx_hw_init_def with_nic_access_def unit bindIO_assoc
    by (intro arg_cong[of _ _ "bindIO (iwl_trans_pcie_grab_nic_access hw)"] ext) (simp add: skip del: write_regs.simps)
qed

lemma rx_hw_init_releases:
  assumes "\<not> reg_lock s" and "\<not> host_interrupt_operation_mode h"
  shows "releases (iwl_pcie_rx_hw_init hw h q) s"
  unfolding rx_hw_init_access[OF assms(2)] by (rule with_access_releases[OF _ assms(1)]) (intro quiet_intros)

text \<open>With the work-around the bit is set while the lock is still held.\<close>

lemma rx_hw_init_locks:
  assumes "\<not> reg_lock s" and "host_interrupt_operation_mode h" and "iwl_trans_pcie_grab_nic_access hw s = Inr (True, s')"
  shows "iwl_pcie_rx_hw_init hw h q s = Inl Deadlock"
proof -
  have lock: "reg_lock s'" using grab_cases[OF assms(1), of hw] assms(3) by auto
  let ?regs = "write_regs (iwl_write32 hw)
       [(FH_MEM_RCSR_CHNL0_CONFIG_REG, 0), (FH_MEM_RCSR_CHNL0_RBDCB_WPTR, 0), (FH_MEM_RCSR_CHNL0_FLUSH_RB_REQ, 0),
        (FH_RSCSR_CHNL0_RDPTR, 0), (FH_RSCSR_CHNL0_RBDCB_WPTR_REG, 0),
        (FH_RSCSR_CHNL0_RBDCB_BASE_REG, ucast (drop_bit 8 (bd_dma q))), (FH_RSCSR_CHNL0_STTS_WPTR_REG, ucast (drop_bit 4 (rb_stts_dma q))),
        (FH_MEM_RCSR_CHNL0_CONFIG_REG, rx_config h)]"
  have q: "quiet ?regs" "quiet (iwl_write8 hw CSR_INT_COALESCING IWL_HOST_INT_TIMEOUT_DEF)" by (intro quiet_intros)+
  obtain x1 d1 where 1: "?regs s' = Inr (x1, s'\<lparr>hw_base := d1\<rparr>)" using q(1) unfolding quiet_def by blast
  obtain x2 d2 where 2: "iwl_write8 hw CSR_INT_COALESCING IWL_HOST_INT_TIMEOUT_DEF (s'\<lparr>hw_base := d1\<rparr>)
      = Inr (x2, (s'\<lparr>hw_base := d1\<rparr>)\<lparr>hw_base := d2\<rparr>)" using q(2) unfolding quiet_def by blast
  have "iwl_set_bit hw CSR_INT_COALESCING IWL_HOST_INT_OPER_MODE ((s'\<lparr>hw_base := d1\<rparr>)\<lparr>hw_base := d2\<rparr>) = Inl Deadlock"
    unfolding iwl_set_bit_def by (rule set_bits_mask_locked) (use lock in simp)
  then show ?thesis using assms(2) unfolding iwl_pcie_rx_hw_init_def bindIO_Inr[of "iwl_trans_pcie_grab_nic_access hw", OF assms(3)]
    by (simp only: not_True_eq_False if_False if_True bindIO_Inr[of ?regs, OF 1] bindIO_Inr[of "iwl_write8 hw CSR_INT_COALESCING IWL_HOST_INT_TIMEOUT_DEF", OF 2])
      (simp add: bindIO_def)
qed

lemma rx_hw_init_asleep:
  assumes "iwl_trans_pcie_grab_nic_access hw s = Inr (False, s')"
  shows "iwl_pcie_rx_hw_init hw h q s = Inr ((), s')"
  unfolding iwl_pcie_rx_hw_init_def bindIO_Inr[of "iwl_trans_pcie_grab_nic_access hw", OF assms] by (simp add: retIO_def)

subsection \<open>The whole\<close>

lemma gen2_init_ok:
  assumes "rx_sized st" and "\<not> mq_rx_supported c"
  shows "\<exists>st'. iwl_pcie_gen2_rx_init denv env c st = ok st' \<and> rx_wf st' \<and> rxq_read (rx_q st') = 0 \<and> rx_cmdq st' = rx_cmdq st"
proof -
  note r = reset_ok[OF assms(1)]
  have "length (global_table (rx_reset st)) = MQ_RX_TABLE_SIZE" using assms(1) r(7) by (simp add: rx_sized_def)
  from give_rbds_ok[OF r(1) r(2) this] obtain st1 where
    1: "give_rbds 0 6 RX_RBDS (rx_reset st) = Inr st1" "rx_ok 0 [] st1"
      "length (rbd_empty (rx_rba st1)) = length (rbd_empty (rx_rba (rx_reset st))) + (6 - 0)"
      "req_pending (rx_rba st1) = req_pending (rx_rba (rx_reset st))" "req_ready (rx_rba st1) = req_ready (rx_rba (rx_reset st))"
      "rbd_allocated (rx_rba st1) = rbd_allocated (rx_rba (rx_reset st))" "rxq_used_count (rx_q st1) = rxq_used_count (rx_q (rx_reset st))"
      "rxq_read (rx_q st1) = rxq_read (rx_q (rx_reset st))" "rx_cmdq st1 = rx_cmdq (rx_reset st)" "rx_ptr st1 = rx_ptr (rx_reset st)" by blast
  obtain st2 where 2: "iwl_pcie_rxq_alloc_rbs env st1 = Inr st2" "rx_ok 0 [] st2" "rx_rba st2 = rx_rba st1"
    "rxq_used_count (rx_q st2) = rxq_used_count (rx_q st1)" "rxq_read (rx_q st2) = rxq_read (rx_q st1)" "rx_cmdq st2 = rx_cmdq st1"
    using alloc_rbs_ok[OF 1(2)] by blast
  have "rx_ptr st = Rxq_live" using assms(1) by (simp add: rx_sized_def)
  moreover have "rbd_counts c = (6, RX_RBDS)"
    using assms(2) by (simp add: rbd_counts_def Let_def RX_CLAIM_REQ_ALLOC_def RX_POST_REQ_ALLOC_def RX_QUEUE_SIZE_def RX_RBDS_def)
  ultimately have "iwl_pcie_gen2_rx_init denv env c st = ok st2"
    using 1(1) 2(1) by (simp add: iwl_pcie_gen2_rx_init_def thenS_def del: give_rbds.simps)
  moreover have "credit 7 st2" using 1(3-7) 2(3,4) r(3,4) by (simp add: credit_def)
  ultimately show ?thesis using 2(2,5,6) 1(8,9) r(5,6) by (simp add: rx_wf_def)
qed

lemma rx_init_ok:
  assumes "rx_sized st" and "\<not> mq_rx_supported c" and "answerable (rx_cmdq st)" and "\<not> host_interrupt_operation_mode h"
  shows "\<exists>st'. iwl_pcie_rx_init denv env hw h c st = ok st' \<and> rx_wf st' \<and> answerable (rx_cmdq st')"
proof -
  obtain st1 where 1: "iwl_pcie_gen2_rx_init denv env c st = ok st1" "rx_wf st1" "rxq_read (rx_q st1) = 0" "rx_cmdq st1 = rx_cmdq st"
    using gen2_init_ok[OF assms(1,2)] by blast
  have a1: "answerable (rx_cmdq st1)" using 1(4) assms(3) by simp
  have "releases (iwl_pcie_rx_hw_init hw h (rx_q st1)) (pcie_trans (cq_pcie (rx_cmdq st1)))"
    by (rule rx_hw_init_releases) (use a1 assms(4) in \<open>simp_all add: answerable_def\<close>)
  then obtain x st2 where 2: "rx_on_dev (iwl_pcie_rx_hw_init hw h (rx_q st1)) st1 = Inr (x, st2)" "answerable (rx_cmdq st2)"
    "rx_q st2 = rx_q st1" "rx_rba st2 = rx_rba st1" "rx_pool st2 = rx_pool st1" using rx_on_dev_returns a1 by blast
  have ok2: "rx_ok (rxq_read (rx_q st2)) [] st2" and c2: "credit 7 st2"
    using 1(2) 2(3-5) by (simp_all add: rx_wf_def rx_ok_def places_def credit_def)
  obtain st3 where 3: "iwl_pcie_rxq_restock hw c st2 = Inr st3" "rx_ok (rxq_read (rx_q st3)) [] st3" "credit 7 st3" "answerable (rx_cmdq st3)"
    using restock_ok[OF ok2 2(2) assms(2) c2] by blast
  obtain st4 where 4: "iwl_pcie_rxq_inc_wr_ptr hw c st3 = Inr st4" "told st3 st4" using inc_wr_ptr_returns[OF 3(4)] by blast
  have "iwl_pcie_rx_init denv env hw h c st = ok st4"
    using 1(1) 2(1) 3(1) 4(1) assms(2) by (simp add: iwl_pcie_rx_init_def thenS_def)
  moreover have "rx_wf st4" using told_keeps[OF 4(2)] 3(2,3) by (simp add: rx_wf_def)
  ultimately show ?thesis using 4(2) by (simp add: told_def)
qed

lemma rx_handle_ok:
  assumes "rx_wf st" and "answerable (rx_cmdq st)" and "pages_come env" "op_sound op" "pages_full page_mem" "rx_page_order c = 0" "\<not> mq_rx_supported c"
  shows "\<exists>st'. iwl_pcie_rx_handle env hw c op page_mem closed st = Some (Inr st') \<and> rx_wf st' \<and> answerable (rx_cmdq st')
    \<and> rxq_read (rx_q st') = closed_index (closed 0) (rx_q st)"
proof -
  let ?r = "closed_index (closed 0) (rx_q st)"
  have "rxq_size (rx_q st) = 256" using assms(1) by (simp add: rx_wf_def rx_ok_def q_ok_def)
  then have "?r < 256" by (simp add: closed_index_def word_less_def and_255_word)
  from loop_ok[OF _ _ assms(2) this assms(3-7)] assms(1) show ?thesis
    unfolding iwl_pcie_rx_handle_def rx_wf_def by blast
qed

end
