(* ===== verification/Rx_Contract.thy ===== *)
theory Rx_Contract
  imports Rx_Init
begin

section \<open>What the receive path promises\<close>

text \<open>
  The properties of \<^verbatim>\<open>IntelWifi_rx.cpp\<close>: the handler never fails and loses no buffer, from the initialisation on and
  for any sequence of calls; the packets it takes from a page are those of a reference definition; and where the code
  breaks what it promises: the work-around that sets a bit under its own lock, the claim without a request, and the
  allocator that asks for a page for ever.
\<close>

text \<open>The calls of the interrupt handler, each with what the device wrote into the pages and the status word.\<close>

fun rx_calls ::
  "rx_env \<Rightarrow> 'd hw \<Rightarrow> rx_cfg \<Rightarrow> 'd op_rx \<Rightarrow> ((nat \<Rightarrow> u8 list) \<times> (nat \<Rightarrow> u16)) list \<Rightarrow> 'd rx \<Rightarrow> 'd rx run option" where
  "rx_calls env hw c op [] st = Some (Inr st)"
| "rx_calls env hw c op ((page_mem, closed) # calls) st = (case iwl_pcie_rx_handle env hw c op page_mem closed st of
     None \<Rightarrow> None
   | Some (Inl f) \<Rightarrow> Some (Inl f)
   | Some (Inr st) \<Rightarrow> rx_calls env hw c op calls st)"

lemma rx_calls_ok:
  assumes "rx_wf st" and "answerable (rx_cmdq st)" and "\<forall>call \<in> set calls. pages_full (fst call)"
    and "pages_come env" "op_sound op" "rx_page_order c = 0" "\<not> mq_rx_supported c"
  shows "\<exists>st'. rx_calls env hw c op calls st = Some (Inr st') \<and> rx_wf st' \<and> answerable (rx_cmdq st')"
  using assms(1-3)
proof (induction calls arbitrary: st)
  case (Cons call calls)
  obtain pm cl where c: "call = (pm, cl)" by (cases call)
  then have "pages_full pm" using Cons.prems(3) by simp
  from rx_handle_ok[OF Cons.prems(1,2) assms(4,5) this assms(6,7)] obtain st1
    where 1: "iwl_pcie_rx_handle env hw c op pm cl st = Some (Inr st1)" "rx_wf st1" "answerable (rx_cmdq st1)" by blast
  have "\<forall>call \<in> set calls. pages_full (fst call)" using Cons.prems(3) by simp
  from Cons.IH[OF 1(2,3) this] show ?case using 1(1) c by simp
qed simp

subsection \<open>Properties\<close>



text \<open>
  C23. Lock order of the hardware set-up: with the lock free, \<open>iwl_pcie_rx_hw_init\<close> deadlocks exactly when the device wakes up
  and is one that needs the interrupt work-around, because \<open>iwl_set_bit\<close> takes the lock that is still held.
\<close>

theorem rx_hw_init_lock:
  assumes "\<not> reg_lock s" and "iwl_trans_pcie_grab_nic_access hw s = Inr (okay, s')"
  shows "iwl_pcie_rx_hw_init hw h q s = Inl Deadlock \<longleftrightarrow> okay \<and> host_interrupt_operation_mode h"
proof (cases okay)
  case True
  then show ?thesis using rx_hw_init_locks[OF assms(1), of h hw s' q] rx_hw_init_releases[OF assms(1), of h hw q] assms(2)
    by (cases "host_interrupt_operation_mode h") (auto simp: releases_def)
next
  case False
  then show ?thesis using rx_hw_init_asleep[of hw s] assms(2) by simp
qed

lemma claim_short: "length (rbd_allocated (rx_rba st)) < n \<Longrightarrow> claim_rbds n st = Inl NullDeref"
proof (induction n arbitrary: st)
  case (Suc n)
  then show ?case by (cases "rbd_allocated (rx_rba st)") (simp_all add: upd_q_def upd_rba_def)
qed simp

text \<open>
  Claim without a request: \<open>OSDecrementAtomic\<close> gives the old value, so \<open>iwl_pcie_rx_allocator_get\<close> goes on when no request
  is ready and takes RBDs that are not there; only a count that was already negative is caught.
\<close>

theorem rx_claim_unready:
  "iwl_pcie_rx_allocator_get st =
     (if req_ready (rx_rba st) < 0 then Inr (upd_rba (\<lambda>a. a\<lparr>req_ready := 0\<rparr>) st)
      else if length (rbd_allocated (rx_rba st)) < 8 then Inl NullDeref
      else Inr (upd_rba (\<lambda>a. a\<lparr>req_ready := req_ready a - 1, rbd_allocated := drop 8 (rbd_allocated a)\<rparr>)
        (upd_q (\<lambda>q. q\<lparr>rx_free := rx_free q @ take 8 (rbd_allocated (rx_rba st)), rxq_used_count := rxq_used_count q - 8,
          rxq_free_count := rxq_free_count q + 8\<rparr>) st)))"
proof -
  have claim: "claim_rbds n s = Inr (upd_rba (\<lambda>a. a\<lparr>rbd_allocated := drop n (rbd_allocated a)\<rparr>)
      (upd_q (\<lambda>q. q\<lparr>rx_free := rx_free q @ take n (rbd_allocated (rx_rba s))\<rparr>) s))" if "n \<le> length (rbd_allocated (rx_rba s))" for n s
    using that
  proof (induction n arbitrary: s)
    case 0
    show ?case by (simp add: upd_rba_def upd_q_def)
  next
    case (Suc n)
    then obtain b bs where "rbd_allocated (rx_rba s) = b # bs" by (cases "rbd_allocated (rx_rba s)") auto
    then show ?case using Suc by (simp add: upd_rba_def upd_q_def)
  qed
  let ?st = "upd_rba (\<lambda>a. a\<lparr>req_ready := req_ready a - 1\<rparr>) st"
  have "rbd_allocated (rx_rba ?st) = rbd_allocated (rx_rba st)" by (simp add: upd_rba_def)
  then show ?thesis using claim_short[of ?st 8] claim[of 8 ?st]
    by (auto simp: iwl_pcie_rx_allocator_get_def Let_def RX_CLAIM_REQ_ALLOC_def not_less upd_rba_def upd_q_def)
qed

lemma alloc_eight_spins:
  assumes "alloc_eight env i le la st = Some y"
  shows "(\<forall>n. \<not> page_good env n) \<longrightarrow> i < RX_CLAIM_REQ_ALLOC \<longrightarrow> (\<forall>b bs. le = b # bs \<longrightarrow> \<not> b < length (rx_pool st))"
proof (rule alloc_eight.raw_induct[OF _ assms])
  fix loop env i le la and st :: "'a rx" and y
  assume IH: "\<And>env i le la (st :: 'a rx) y. loop env i le la st = Some y \<Longrightarrow>
      (\<forall>n. \<not> page_good env n) \<longrightarrow> i < RX_CLAIM_REQ_ALLOC \<longrightarrow> (\<forall>b bs. le = b # bs \<longrightarrow> \<not> b < length (rx_pool st))"
    and run: "(if i \<ge> RX_CLAIM_REQ_ALLOC then Some (Inr (le, la, st))
      else case le of
        [] \<Rightarrow> Some (Inr ([], la, st))
      | b # bs \<Rightarrow> (case iwl_pcie_rx_alloc_page env st of
            (None, st) \<Rightarrow> loop env i le la st
          | (Some p, st) \<Rightarrow>
              (case upd_rbd b (\<lambda>r. r\<lparr>rb_page := if dmamap env p = 0 then None else Some p, rb_dma := dmamap env p\<rparr>) st of
                 Inl f \<Rightarrow> Some (Inl f)
               | Inr st \<Rightarrow>
                   if dmamap env p = 0 then loop env i le la st
                   else loop env (i + 1) bs (la @ [b]) st))) = Some y"
  show "(\<forall>n. \<not> page_good env n) \<longrightarrow> i < RX_CLAIM_REQ_ALLOC \<longrightarrow> (\<forall>b bs. le = b # bs \<longrightarrow> \<not> b < length (rx_pool st))"
  proof (intro impI allI notI)
    fix b bs assume a: "\<forall>n. \<not> page_good env n" "i < RX_CLAIM_REQ_ALLOC" "le = b # bs" "b < length (rx_pool st)"
    obtain st1 where st1: "loop env i le la st1 = Some y" "length (rx_pool st1) = length (rx_pool st)"
    proof (cases "new_page env (pages_asked st)")
      case None
      then show thesis using run a(2,3) that by (simp add: iwl_pcie_rx_alloc_page_def)
    next
      case (Some p)
      then have "dmamap env p = 0" using a(1) by (auto simp: page_good_def)
      then show thesis using run a(2-4) that Some by (simp add: iwl_pcie_rx_alloc_page_def upd_rbd_def)
    qed
    then show False using IH[OF st1(1)] a by auto
  qed
qed

text \<open>
  C38. No page, no end: when every request for a page is refused or cannot be mapped, an allocator with a request and an RBD
  without a page never returns.
\<close>

theorem rx_allocator_spins:
  assumes "\<And>n. \<not> page_good env n" and "req_pending (rx_rba st) \<noteq> 0" and "rbd_empty (rx_rba st) = b # bs" and "b < length (rx_pool st)"
  shows "iwl_pcie_rx_allocator env st = None"
proof -
  let ?st = "upd_rba (\<lambda>a. a\<lparr>rbd_empty := []\<rparr>) (upd_rba (\<lambda>a. a\<lparr>req_pending := 0\<rparr>) st)"
  have "alloc_eight env 0 (b # bs) [] ?st = None"
  proof (rule ccontr)
    assume "alloc_eight env 0 (b # bs) [] ?st \<noteq> None"
    then obtain y where "alloc_eight env 0 (b # bs) [] ?st = Some y" by blast
    from alloc_eight_spins[OF this] show False using assms(1,4) by (simp add: RX_CLAIM_REQ_ALLOC_def upd_rba_def)
  qed
  then have "allocator_loop env (req_pending (rx_rba st)) (b # bs) ?st = None" using assms(2) by (subst allocator_loop.simps) simp
  then show ?thesis using assms(3) by (simp add: iwl_pcie_rx_allocator_def take_pending_def upd_rba_def)
qed

subsection \<open>The packets of a page\<close>

text \<open>The reference: the offsets of the packets, from the lengths alone, without handling any of them.\<close>

function packet_offsets :: "u8 list \<Rightarrow> nat \<Rightarrow> nat list" where
  "packet_offsets bytes offset =
     (if length bytes \<le> offset + 8 then []
      else let w = le32 (bytes ! offset) (bytes ! (offset + 1)) (bytes ! (offset + 2)) (bytes ! (offset + 3)) in
           if w = FH_RSCSR_FRAME_INVALID then [] else offset # packet_offsets bytes (offset + packet_stride w))"
  by pat_completeness auto
termination by (relation "measure (\<lambda>(bytes, offset). length bytes - offset)") (auto simp: packet_stride_def)

declare packet_offsets.simps [simp del, code]

lemma packet_offsets_ok:
  assumes "64 dvd x"
  shows "sorted_wrt (<) (packet_offsets bytes x) \<and> (\<forall>p \<in> set (packet_offsets bytes x). 64 dvd p \<and> x \<le> p \<and> p + 8 < length bytes)"
  using assms
proof (induction bytes x rule: packet_offsets.induct)
  case (1 bytes x)
  let ?w = "le32 (bytes ! x) (bytes ! (x + 1)) (bytes ! (x + 2)) (bytes ! (x + 3))"
  show ?case
  proof (cases "length bytes \<le> x + 8 \<or> ?w = FH_RSCSR_FRAME_INVALID")
    case True
    then have "packet_offsets bytes x = []" by (subst packet_offsets.simps) (auto simp: Let_def)
    then show ?thesis by simp
  next
    case False
    then have o: "packet_offsets bytes x = x # packet_offsets bytes (x + packet_stride ?w)"
      by (subst packet_offsets.simps) (auto simp: Let_def)
    have d: "64 dvd x + packet_stride ?w" "x < x + packet_stride ?w" using "1.prems" by (auto simp: packet_stride_def)
    have "sorted_wrt (<) (packet_offsets bytes (x + packet_stride ?w))
        \<and> (\<forall>p \<in> set (packet_offsets bytes (x + packet_stride ?w)). 64 dvd p \<and> x + packet_stride ?w \<le> p \<and> p + 8 < length bytes)"
      using "1.IH"[OF _ refl _ d(1)] False by blast
    then show ?thesis using False "1.prems" d(2) unfolding o by auto
  qed
qed

fun packets_in_turn ::
  "'d hw \<Rightarrow> rx_cfg \<Rightarrow> 'd op_rx \<Rightarrow> nat \<Rightarrow> u8 list \<Rightarrow> nat list \<Rightarrow> bool \<Rightarrow> 'd cmdq \<Rightarrow> (bool \<times> 'd cmdq) run option" where
  "packets_in_turn hw c op page bytes [] page_stolen st = Some (Inr (page_stolen, st))"
| "packets_in_turn hw c op page bytes (offset # rest) page_stolen st = (case rx_packet hw c op page bytes offset st of
     None \<Rightarrow> None
   | Some (Inl f) \<Rightarrow> Some (Inl f)
   | Some (Inr (stolen, st)) \<Rightarrow> packets_in_turn hw c op page bytes rest (page_stolen \<or> stolen) st)"

text \<open>
  C40. The loop over a buffer handles the packets of the reference in order, each starting at a multiple of 64 with its header
  inside the page.
\<close>

theorem rx_packets_of_page:
  assumes "max_len c = length bytes" and "64 dvd offset"
  shows "packet_loop hw c op page bytes offset stolen st = packets_in_turn hw c op page bytes (packet_offsets bytes offset) stolen st
    \<and> sorted_wrt (<) (packet_offsets bytes offset) \<and> (\<forall>p \<in> set (packet_offsets bytes offset). 64 dvd p \<and> offset \<le> p \<and> p + 8 < length bytes)"
  using assms
proof (induction hw c op page bytes offset stolen st rule: packet_loop.induct)
  case (1 hw c op page bytes offset stolen st)
  let ?w = "le32 (bytes ! offset) (bytes ! (offset + 1)) (bytes ! (offset + 2)) (bytes ! (offset + 3))"
  show ?case
  proof (cases "length bytes \<le> offset + 8 \<or> ?w = FH_RSCSR_FRAME_INVALID")
    case True
    then have "packet_offsets bytes offset = []" by (subst packet_offsets.simps) (auto simp: Let_def)
    then show ?thesis using True "1.prems"(1) by (auto simp: rd32_def)
  next
    case False
    then have o: "packet_offsets bytes offset = offset # packet_offsets bytes (offset + packet_stride ?w)"
      by (subst packet_offsets.simps) (auto simp: Let_def)
    have r: "offset + 4 + 4 < max_len c" "rd32 bytes offset = Inr ?w" using False "1.prems"(1) by (auto simp: rd32_def)
    have d: "64 dvd offset + packet_stride ?w" "offset < offset + packet_stride ?w" using "1.prems"(2) by (auto simp: packet_stride_def)
    have rec: "packet_loop hw c op page bytes (offset + packet_stride ?w) (stolen \<or> b) st1
        = packets_in_turn hw c op page bytes (packet_offsets bytes (offset + packet_stride ?w)) (stolen \<or> b) st1"
      if "rx_packet hw c op page bytes offset st = Some (Inr (b, st1))" for b st1
      using "1.IH"[OF _ r(2) _ that refl refl "1.prems"(1) d(1)] r(1) False by simp
    have "packet_loop hw c op page bytes offset stolen st = packets_in_turn hw c op page bytes (packet_offsets bytes offset) stolen st"
      using r False rec unfolding o by (simp split: option.splits sum.splits)
    then show ?thesis using packet_offsets_ok[OF "1.prems"(2)] by blast
  qed
qed

subsection \<open>Witnesses\<close>

definition rx_demo :: "unit rx" where
  "rx_demo = \<lparr>rx_cmdq = cmdq_demo, rx_ptr = Rxq_live,
     rx_q = \<lparr>rxq_read = 7, rxq_write = 9, rxq_free_count = 3, rxq_used_count = 1, rxq_write_actual = 8, rxq_size = 256, rx_free = [], rx_used = [],
       rxq_need_update = False, rxq_slots = [], rxq_bd = replicate 256 0, rxq_used_bd = [], bd_dma = 0x10000, used_bd_dma = 0, rb_stts_dma = 0x20000\<rparr>,
     rx_rba = \<lparr>req_pending = 0, req_ready = 0, rbd_allocated = [], rbd_empty = []\<rparr>,
     rx_pool = replicate RX_POOL_SIZE \<lparr>rb_page = None, rb_dma = 0, rb_vid = 0, rb_invalid = False\<rparr>,
     global_table = replicate MQ_RX_TABLE_SIZE None, pages_asked = 0\<rparr>"

definition rx_demo_cfg :: rx_cfg where
  "rx_demo_cfg = \<lparr>rx_pcie = ring_demo_cfg, mq_rx_supported = False, rx_page_order = 0, no_reclaim_cmds = [0xC1]\<rparr>"

definition rx_demo_hw_cfg :: "bool \<Rightarrow> rx_hw_cfg" where
  "rx_demo_hw_cfg wa = \<lparr>rx_buf_size = IWL_AMSDU_4K, host_interrupt_operation_mode = wa, integrated = False, hw_rev = 0,
     internal_wimax_coex = False, apmg_not_supported = False\<rparr>"

text \<open>Every second request for a page is refused.\<close>

definition rx_demo_env :: rx_env where
  "rx_demo_env = \<lparr>new_page = \<lambda>n. if even n then Some (4096 * n) else None, dmamap = \<lambda>p. 0x100000\<rparr>"

definition rx_demo_op :: "unit op_rx" where
  "rx_demo_op = (\<lambda>a st. (even a, st))"

text \<open>A page with the answer to command 5 and then a frame of the device, and no third packet.\<close>

definition rx_demo_page :: "u8 list" where
  "rx_demo_page = [8, 0, 0, 0, 0x1C, 0, 5, 0] @ replicate 56 0 @ [20, 0, 0, 0, 0xC1, 0, 0, 0x80] @ replicate 56 0 @ [0, 0, 0x55, 0x55] @ replicate 3964 0"

lemma rx_demo_ready: "rx_sized rx_demo" "answerable (rx_cmdq rx_demo)" "\<not> mq_rx_supported rx_demo_cfg" "rx_page_order rx_demo_cfg = 0"
    "pages_come rx_demo_env" "op_sound rx_demo_op" "pages_full (\<lambda>_. rx_demo_page)"
proof -
  have "page_good rx_demo_env (2 * n)" for n by (simp add: page_good_def rx_demo_env_def)
  moreover have "n \<le> 2 * n" for n :: nat by simp
  ultimately show "pages_come rx_demo_env" unfolding pages_come_def by blast
  show "answerable (rx_cmdq rx_demo)"
    using tx_demo_wf by (simp add: rx_demo_def cmdq_demo_def answerable_def txq_wf_def entry_dmas_def dmas_ok_def)
      (simp add: tx_demo_q_def tx_demo_s_def ring_demo_s_def)
qed (simp_all add: rx_demo_def rx_sized_def rx_demo_cfg_def op_sound_def rx_demo_op_def pages_full_def rx_demo_page_def PAGE_SIZE_def)

lemma rx_demo_quirk: "\<not> host_interrupt_operation_mode (rx_demo_hw_cfg False)" "host_interrupt_operation_mode (rx_demo_hw_cfg True)"
  by (simp_all add: rx_demo_hw_cfg_def)



theorem rx_hw_init_lock_witness:
  "iwl_pcie_rx_hw_init ring_demo_hw (rx_demo_hw_cfg True) (rx_q rx_demo) ((pcie_trans ring_demo_s)\<lparr>cmd_hold_nic_awake := True\<rparr>) = Inl Deadlock"
proof -
  let ?s = "(pcie_trans ring_demo_s)\<lparr>cmd_hold_nic_awake := True\<rparr>"
  have "iwl_trans_pcie_grab_nic_access ring_demo_hw ?s = Inr (True, ?s\<lparr>reg_lock := True\<rparr>)" "\<not> reg_lock ?s"
    by (simp_all add: iwl_trans_pcie_grab_nic_access_def bindIO_def IOSimpleLockLockDisableInterrupt_def retIO_def ring_demo_s_def)
  from rx_hw_init_lock[OF this(2,1), of "rx_demo_hw_cfg True" "rx_q rx_demo"] show ?thesis using rx_demo_quirk(2) by blast
qed

theorem rx_allocator_spins_witness:
  "iwl_pcie_rx_allocator \<lparr>new_page = \<lambda>_. None, dmamap = \<lambda>_. 0\<rparr> (rx_demo\<lparr>rx_rba := \<lparr>req_pending = 1, req_ready = 0, rbd_allocated = [], rbd_empty = [0, 1]\<rparr>\<rparr>) = None"
  by (rule rx_allocator_spins[where b = 0 and bs = "[1]"]) (simp_all add: page_good_def rx_demo_def RX_POOL_SIZE_def MQ_RX_NUM_RBDS_def MQ_RX_TABLE_SIZE_def
    RX_CLAIM_REQ_ALLOC_def RX_POST_REQ_ALLOC_def IWL_MAX_RX_HW_QUEUES_def)

theorem rx_packets_of_page_witness:
  "packet_loop ring_demo_hw rx_demo_cfg rx_demo_op 0 rx_demo_page 0 False cmdq_demo
     = packets_in_turn ring_demo_hw rx_demo_cfg rx_demo_op 0 rx_demo_page [0, 64] False cmdq_demo"
proof -
  have "packet_offsets rx_demo_page 0 = [0, 64]" by code_simp
  moreover have "max_len rx_demo_cfg = length rx_demo_page" by (simp add: max_len_def rx_demo_cfg_def rx_demo_page_def PAGE_SIZE_def)
  ultimately show ?thesis
    using rx_packets_of_page[of rx_demo_cfg rx_demo_page 0 ring_demo_hw rx_demo_op 0 False cmdq_demo] by (simp only: dvd_0_right simp_thms)
qed

end
