(* ===== verification/Pcie_Card.thy ===== *)
theory Pcie_Card
  imports Rx_Setup Tx_Answers
begin

section \<open>The card\<close>

text \<open>
  The rest of \<open>struct iwl_trans_pcie\<close>, the interrupt mask helpers of \<^verbatim>\<open>iwlwifi/pcie/internal.h\<close>, and the part of
  \<^verbatim>\<open>IntelWifi_trans.cpp\<close> that wakes, prepares and stops the card: the functions up to \<open>iwl_pcie_prepare_card_hw\<close>.
\<close>

subsection \<open>State\<close>

definition STATUS_TPOWER_PMI :: nat where "STATUS_TPOWER_PMI = 2"
definition STATUS_INT_ENABLED :: nat where "STATUS_INT_ENABLED = 3"
definition STATUS_RFKILL_HW :: nat where "STATUS_RFKILL_HW = 4"

datatype isr_stat = Isr_hw | Isr_sw | Isr_sch | Isr_alive | Isr_rfkill | Isr_ctkill | Isr_wakeup | Isr_rx | Isr_tx | Isr_unhandled

text \<open>
  \<open>txq_at\<close> are the queues for frames, next to the command queue, which is the one of the receive state and is there when
  \<open>cmd_txq_live\<close> holds; \<open>txq_rest\<close> are the fields of a queue that the queue operations do not look at. \<open>kw_buf\<close> and \<open>scd_bc\<close>
  are the keep-warm buffer and the byte count tables of the scheduler.
  \<open>rfkill_reports\<close> are the states \<open>iwl_trans_pcie_rf_kill\<close> was called with, which the code only logs, and \<open>uploads\<close> the
  transfers the service channel was started for: the address in the device and the bytes the buffer held.
\<close>

record txq_more =
  txq_dma :: u64
  wd_timeout :: u64
  frozen_rest :: u64
  frozen :: bool
  ampdu :: bool

record 'd card =
  card_rx :: "'d rx"
  txq_memory :: bool
  cmd_txq_live :: bool
  txq_at :: "nat \<Rightarrow> iwl_txq option"
  txq_rest :: "nat \<Rightarrow> txq_more"
  queue_used :: "nat \<Rightarrow> bool"
  queue_stopped :: "nat \<Rightarrow> bool"
  kw_buf :: "u64 option"
  scd_bc :: "u64 option"
  scd_base :: u32
  ict_tbl :: "u32 list option"
  ict_tbl_dma :: u64
  ict_index :: nat
  use_ict :: bool
  is_down :: bool
  opmode_down :: bool
  debug_rfkill :: bool
  isr_stats :: "isr_stat \<Rightarrow> u32"
  card_mutex :: bool
  inta_mask :: u32
  msix_enabled :: bool
  fh_init_mask :: u32
  hw_init_mask :: u32
  fh_mask :: u32
  hw_mask :: u32
  ucode_write_complete :: bool
  pm_support :: bool
  rfkill_reports :: "bool list"
  uploads :: "(u32 \<times> u8 list) list"

record card_cfg =
  cfg_rx :: rx_cfg
  cfg_hw :: rx_hw_cfg
  pll_cfg :: bool
  lp_xtal_workaround :: bool
  gen2 :: bool
  use_tfh :: bool
  isr_debug :: bool
  link_caps :: "u32 option"
  num_of_queues :: nat
  scd_chain_ext_wa :: bool
  cmd_fifo :: u8
  cmd_q_wdg_timeout :: u32
  scd_set_active :: bool

subsection \<open>Sequencing\<close>

type_synonym ('d, 'a) card_io = "'d card \<Rightarrow> ('a \<times> 'd card) run"

definition retC :: "'a \<Rightarrow> ('d, 'a) card_io" where
  "retC x st = Inr (x, st)"

definition bindC :: "('d, 'a) card_io \<Rightarrow> ('a \<Rightarrow> ('d, 'b) card_io) \<Rightarrow> ('d, 'b) card_io" where
  "bindC m k st = bindF (m st) (\<lambda>(x, st). k x st)"

fun seqC :: "('d, unit) card_io list \<Rightarrow> ('d, unit) card_io" where
  "seqC [] = retC ()"
| "seqC (m # ms) = bindC m (\<lambda>_. seqC ms)"

definition whenC :: "bool \<Rightarrow> ('d, unit) card_io \<Rightarrow> ('d, unit) card_io" where
  "whenC b m = (if b then m else retC ())"

definition getC :: "('d card \<Rightarrow> 'a) \<Rightarrow> ('d, 'a) card_io" where
  "getC f st = Inr (f st, st)"

definition updC :: "('d card \<Rightarrow> 'd card) \<Rightarrow> ('d, unit) card_io" where
  "updC f st = Inr ((), f st)"

text \<open>A step may have parts that need not return; the run is then an option.\<close>

type_synonym ('d, 'a) card_run = "'d card \<Rightarrow> ('a \<times> 'd card) run option"

definition thenC :: "('a \<times> 'd card) run \<Rightarrow> ('a \<Rightarrow> 'd card \<Rightarrow> ('b \<times> 'd card) run option) \<Rightarrow> ('b \<times> 'd card) run option" where
  "thenC r k = (case r of Inl f \<Rightarrow> Some (Inl f) | Inr (x, st) \<Rightarrow> k x st)"

definition liftL :: "('d, 'a) card_io \<Rightarrow> ('d, 'a) card_run" where
  "liftL m st = Some (m st)"

definition bindL :: "('d, 'a) card_run \<Rightarrow> ('a \<Rightarrow> ('d, 'b) card_run) \<Rightarrow> ('d, 'b) card_run" where
  "bindL m k st = (case m st of None \<Rightarrow> None | Some r \<Rightarrow> thenC r k)"

definition whenL :: "bool \<Rightarrow> ('d, unit) card_run \<Rightarrow> ('d, unit) card_run" where
  "whenL b m = (if b then m else liftL (retC ()))"

definition dev :: "('d, 'a) io \<Rightarrow> ('d, 'a) card_io" where
  "dev m st = bindF (rx_on_dev m (card_rx st)) (\<lambda>(x, r). Inr (x, st\<lparr>card_rx := r\<rparr>))"

definition set_status :: "nat \<Rightarrow> ('d, unit) card_io" where
  "set_status n st = bindF (status_op (set_bit_c n) (rx_cmdq (card_rx st)))
     (\<lambda>q. Inr ((), st\<lparr>card_rx := (card_rx st)\<lparr>rx_cmdq := q\<rparr>\<rparr>))"

definition clear_status :: "nat \<Rightarrow> ('d, unit) card_io" where
  "clear_status n st = bindF (status_op (clear_bit n) (rx_cmdq (card_rx st)))
     (\<lambda>q. Inr ((), st\<lparr>card_rx := (card_rx st)\<lparr>rx_cmdq := q\<rparr>\<rparr>))"

definition status_is :: "nat \<Rightarrow> ('d, bool) card_io" where
  "status_is n st = bindF (status_bit n (rx_cmdq (card_rx st))) (\<lambda>b. Inr (b, st))"

definition card_family :: "'d card \<Rightarrow> iwl_device_family" where
  "card_family st = family (pcie_trans (cq_pcie (rx_cmdq (card_rx st))))"

definition count_stat :: "isr_stat \<Rightarrow> ('d, unit) card_io" where
  "count_stat k = updC (\<lambda>st. st\<lparr>isr_stats := (isr_stats st)(k := isr_stats st k + 1)\<rparr>)"

subsection \<open>Interrupt masks\<close>

abbreviation CSR_INT :: u32 where "CSR_INT \<equiv> 8"
abbreviation CSR_INT_MASK :: u32 where "CSR_INT_MASK \<equiv> 0xC"
abbreviation CSR_FH_INT_STATUS :: u32 where "CSR_FH_INT_STATUS \<equiv> 0x10"
abbreviation CSR_MSIX_FH_INT_MASK_AD :: u32 where "CSR_MSIX_FH_INT_MASK_AD \<equiv> 0x2804"
abbreviation CSR_MSIX_HW_INT_MASK_AD :: u32 where "CSR_MSIX_HW_INT_MASK_AD \<equiv> 0x280C"
definition CSR_INT_BIT_FH_RX :: u32 where "CSR_INT_BIT_FH_RX = 0x80000000"
definition CSR_INT_BIT_HW_ERR :: u32 where "CSR_INT_BIT_HW_ERR = 0x20000000"
definition CSR_INT_BIT_RX_PERIODIC :: u32 where "CSR_INT_BIT_RX_PERIODIC = 0x10000000"
definition CSR_INT_BIT_FH_TX :: u32 where "CSR_INT_BIT_FH_TX = 0x08000000"
definition CSR_INT_BIT_SCD :: u32 where "CSR_INT_BIT_SCD = 0x04000000"
definition CSR_INT_BIT_SW_ERR :: u32 where "CSR_INT_BIT_SW_ERR = 0x02000000"
definition CSR_INT_BIT_PAGING :: u32 where "CSR_INT_BIT_PAGING = 0x01000000"
definition CSR_INT_BIT_RF_KILL :: u32 where "CSR_INT_BIT_RF_KILL = 0x80"
definition CSR_INT_BIT_CT_KILL :: u32 where "CSR_INT_BIT_CT_KILL = 0x40"
definition CSR_INT_BIT_SW_RX :: u32 where "CSR_INT_BIT_SW_RX = 8"
definition CSR_INT_BIT_WAKEUP :: u32 where "CSR_INT_BIT_WAKEUP = 2"
definition CSR_INT_BIT_ALIVE :: u32 where "CSR_INT_BIT_ALIVE = 1"

definition CSR_INI_SET_MASK :: u32 where
  "CSR_INI_SET_MASK = CSR_INT_BIT_FH_RX OR CSR_INT_BIT_HW_ERR OR CSR_INT_BIT_FH_TX OR CSR_INT_BIT_SW_ERR OR CSR_INT_BIT_PAGING
     OR CSR_INT_BIT_RF_KILL OR CSR_INT_BIT_SW_RX OR CSR_INT_BIT_WAKEUP OR CSR_INT_BIT_ALIVE OR CSR_INT_BIT_RX_PERIODIC"

definition iwl_disable_interrupts :: "'d hw \<Rightarrow> ('d, unit) card_io" where
  "iwl_disable_interrupts hw = bindC (clear_status STATUS_INT_ENABLED) (\<lambda>_. bindC (getC id) (\<lambda>st.
     if \<not> msix_enabled st
     then seqC [dev (iwl_write32 hw CSR_INT_MASK 0), dev (iwl_write32 hw CSR_INT 0xFFFFFFFF), dev (iwl_write32 hw CSR_FH_INT_STATUS 0xFFFFFFFF)]
     else seqC [dev (iwl_write32 hw CSR_MSIX_FH_INT_MASK_AD (fh_init_mask st)), dev (iwl_write32 hw CSR_MSIX_HW_INT_MASK_AD (hw_init_mask st))]))"

definition set_inta_mask :: "'d hw \<Rightarrow> u32 \<Rightarrow> ('d, unit) card_io" where
  "set_inta_mask hw m = seqC [updC (\<lambda>st. st\<lparr>inta_mask := m\<rparr>), dev (iwl_write32 hw CSR_INT_MASK m)]"

definition iwl_enable_interrupts :: "'d hw \<Rightarrow> ('d, unit) card_io" where
  "iwl_enable_interrupts hw = bindC (set_status STATUS_INT_ENABLED) (\<lambda>_. bindC (getC id) (\<lambda>st.
     if \<not> msix_enabled st then set_inta_mask hw CSR_INI_SET_MASK
     else seqC [updC (\<lambda>st. st\<lparr>hw_mask := hw_init_mask st, fh_mask := fh_init_mask st\<rparr>),
       dev (iwl_write32 hw CSR_MSIX_FH_INT_MASK_AD (NOT (fh_init_mask st))), dev (iwl_write32 hw CSR_MSIX_HW_INT_MASK_AD (NOT (hw_init_mask st)))]))"

definition iwl_enable_hw_int_msk_msix :: "'d hw \<Rightarrow> u32 \<Rightarrow> ('d, unit) card_io" where
  "iwl_enable_hw_int_msk_msix hw msk = seqC [dev (iwl_write32 hw CSR_MSIX_HW_INT_MASK_AD (NOT msk)), updC (\<lambda>st. st\<lparr>hw_mask := msk\<rparr>)]"

definition iwl_enable_fh_int_msk_msix :: "'d hw \<Rightarrow> u32 \<Rightarrow> ('d, unit) card_io" where
  "iwl_enable_fh_int_msk_msix hw msk = seqC [dev (iwl_write32 hw CSR_MSIX_FH_INT_MASK_AD (NOT msk)), updC (\<lambda>st. st\<lparr>fh_mask := msk\<rparr>)]"

definition iwl_enable_fw_load_int :: "'d hw \<Rightarrow> ('d, unit) card_io" where
  "iwl_enable_fw_load_int hw = bindC (getC id) (\<lambda>st.
     if \<not> msix_enabled st then set_inta_mask hw CSR_INT_BIT_FH_TX
     else seqC [dev (iwl_write32 hw CSR_MSIX_HW_INT_MASK_AD (hw_init_mask st)), iwl_enable_fh_int_msk_msix hw 0x10000])"

definition iwl_enable_rfkill_int :: "'d hw \<Rightarrow> ('d, unit) card_io" where
  "iwl_enable_rfkill_int hw = bindC (getC id) (\<lambda>st. seqC [
     (if \<not> msix_enabled st then set_inta_mask hw CSR_INT_BIT_RF_KILL
      else seqC [dev (iwl_write32 hw CSR_MSIX_FH_INT_MASK_AD (fh_init_mask st)), iwl_enable_hw_int_msk_msix hw 0x80]),
     whenC (card_family st = IWL_DEVICE_FAMILY_9000) (dev (iwl_set_bit hw CSR_GP_CNTRL 0x04000000))])"

definition iwl_pcie_sw_reset :: "'d hw \<Rightarrow> ('d, unit) card_io" where
  "iwl_pcie_sw_reset hw = seqC [dev (iwl_set_bit hw CSR_RESET 0x80), dev (IODelay hw 6000)]"

definition iwl_is_rfkill_set :: "'d hw \<Rightarrow> ('d, bool) card_io" where
  "iwl_is_rfkill_set hw = bindC (getC debug_rfkill) (\<lambda>debug.
     if debug then retC True else bindC (dev (iwl_read32 hw CSR_GP_CNTRL)) (\<lambda>v. retC (v AND 0x08000000 = 0)))"

subsection \<open>Power management of the adapter\<close>

abbreviation CSR_HW_IF_CONFIG_REG :: u32 where "CSR_HW_IF_CONFIG_REG \<equiv> 0"
abbreviation CSR_GIO_REG :: u32 where "CSR_GIO_REG \<equiv> 0x3C"
abbreviation CSR_MBOX_SET_REG :: u32 where "CSR_MBOX_SET_REG \<equiv> 0x88"
abbreviation HEEP_CTRL_WRD_PCIEX_CTRL_REG :: u32 where "HEEP_CTRL_WRD_PCIEX_CTRL_REG \<equiv> 0xEC"
abbreviation HEEP_CTRL_WRD_PCIEX_DATA_REG :: u32 where "HEEP_CTRL_WRD_PCIEX_DATA_REG \<equiv> 0xF4"
abbreviation CSR_GIO_CHICKEN_BITS :: u32 where "CSR_GIO_CHICKEN_BITS \<equiv> 0x100"
abbreviation CSR_ANA_PLL_CFG :: u32 where "CSR_ANA_PLL_CFG \<equiv> 0x20C"
abbreviation CSR_MONITOR_CFG_REG :: u32 where "CSR_MONITOR_CFG_REG \<equiv> 0x214"
abbreviation CSR_DBG_HPET_MEM_REG :: u32 where "CSR_DBG_HPET_MEM_REG \<equiv> 0x240"
abbreviation CSR_DBG_LINK_PWR_MGMT_REG :: u32 where "CSR_DBG_LINK_PWR_MGMT_REG \<equiv> 0x250"
abbreviation CSR_GP_CNTRL_REG_FLAG_INIT_DONE :: u32 where "CSR_GP_CNTRL_REG_FLAG_INIT_DONE \<equiv> 4"
abbreviation CSR_GP_CNTRL_REG_FLAG_XTAL_ON :: u32 where "CSR_GP_CNTRL_REG_FLAG_XTAL_ON \<equiv> 0x400"
abbreviation CSR_HW_IF_CONFIG_REG_BIT_NIC_READY :: u32 where "CSR_HW_IF_CONFIG_REG_BIT_NIC_READY \<equiv> 0x00400000"
abbreviation CSR_HW_IF_CONFIG_REG_PREPARE :: u32 where "CSR_HW_IF_CONFIG_REG_PREPARE \<equiv> 0x08000000"
abbreviation CSR_RESET_LINK_PWR_MGMT_DISABLED :: u32 where "CSR_RESET_LINK_PWR_MGMT_DISABLED \<equiv> 0x80000000"
abbreviation APMG_CLK_EN_REG :: u32 where "APMG_CLK_EN_REG \<equiv> 0x3004"
abbreviation APMG_CLK_DIS_REG :: u32 where "APMG_CLK_DIS_REG \<equiv> 0x3008"
abbreviation APMG_PCIDEV_STT_REG :: u32 where "APMG_PCIDEV_STT_REG \<equiv> 0x3010"
abbreviation APMG_RTC_INT_STT_REG :: u32 where "APMG_RTC_INT_STT_REG \<equiv> 0x301C"
abbreviation SHR_APMG_XTAL_CFG_REG :: u32 where "SHR_APMG_XTAL_CFG_REG \<equiv> 0x1C0"
abbreviation SHR_APMG_DL_CFG_REG :: u32 where "SHR_APMG_DL_CFG_REG \<equiv> 0x1C4"
abbreviation SHR_APMG_GP1_REG :: u32 where "SHR_APMG_GP1_REG \<equiv> 0x1DC"
abbreviation OSC_CLK :: u32 where "OSC_CLK \<equiv> 0xA04068"

definition iwl_trans_pcie_read_shr :: "'d hw \<Rightarrow> u32 \<Rightarrow> ('d, u32) card_io" where
  "iwl_trans_pcie_read_shr hw reg =
     bindC (dev (iwl_write32 hw HEEP_CTRL_WRD_PCIEX_CTRL_REG ((reg AND 0xFFFF) OR 0x20000000))) (\<lambda>_.
       dev (iwl_read32 hw HEEP_CTRL_WRD_PCIEX_DATA_REG))"

definition iwl_trans_pcie_write_shr :: "'d hw \<Rightarrow> u32 \<Rightarrow> u32 \<Rightarrow> ('d, unit) card_io" where
  "iwl_trans_pcie_write_shr hw reg val = seqC
     [dev (iwl_write32 hw HEEP_CTRL_WRD_PCIEX_DATA_REG val), dev (iwl_write32 hw HEEP_CTRL_WRD_PCIEX_CTRL_REG ((reg AND 0xFFFF) OR 0x30000000))]"

definition iwl_pcie_set_pwr :: "'d hw \<Rightarrow> card_cfg \<Rightarrow> bool \<Rightarrow> ('d, unit) card_io" where
  "iwl_pcie_set_pwr hw c vaux = whenC (\<not> apmg_not_supported (cfg_hw c))
     (dev (iwl_set_bits_mask_prph hw APMG_PS_CTRL_REG (if vaux then 0x02000000 else 0) (NOT 0x03000000)))"

definition iwl_pcie_apm_config :: "'d hw \<Rightarrow> card_cfg \<Rightarrow> ('d, unit) card_io" where
  "iwl_pcie_apm_config hw c = (case link_caps c of
     None \<Rightarrow> retC ()
   | Some caps \<Rightarrow> seqC [
       (if caps AND 0x800 \<noteq> 0 then dev (iwl_set_bit hw CSR_GIO_REG 2) else dev (iwl_clear_bit hw CSR_GIO_REG 2)),
       updC (\<lambda>st. st\<lparr>pm_support := (caps AND 0x400 = 0)\<rparr>)])"

definition wait_clock :: "'d hw \<Rightarrow> ('d, errno + int) card_io" where
  "wait_clock hw = dev (iwl_poll_bit hw CSR_GP_CNTRL CSR_GP_CNTRL_REG_FLAG_MAC_CLOCK_READY CSR_GP_CNTRL_REG_FLAG_MAC_CLOCK_READY 25000)"

text \<open>An error is the value of the result; the caller gets it as the return value of the function.\<close>

definition iwl_pcie_apm_init :: "'d hw \<Rightarrow> card_cfg \<Rightarrow> ('d, errno option) card_io" where
  "iwl_pcie_apm_init hw c =
     bindC (getC id) (\<lambda>st. bindC (seqC [
       whenC (card_family st < IWL_DEVICE_FAMILY_8000) (dev (iwl_set_bit hw CSR_GIO_CHICKEN_BITS 0x20000000)),
       dev (iwl_set_bit hw CSR_GIO_CHICKEN_BITS 0x00800000),
       dev (iwl_set_bit hw CSR_DBG_HPET_MEM_REG 0xFFFF0000),
       dev (iwl_set_bit hw CSR_HW_IF_CONFIG_REG 0x00080000),
       iwl_pcie_apm_config hw c,
       whenC (pll_cfg c) (dev (iwl_set_bit hw CSR_ANA_PLL_CFG 0x00880300)),
       dev (iwl_set_bit hw CSR_GP_CNTRL CSR_GP_CNTRL_REG_FLAG_INIT_DONE)]) (\<lambda>_.
     bindC (wait_clock hw) (\<lambda>ret. case ret of
       Inl e \<Rightarrow> retC (Some e)
     | Inr _ \<Rightarrow> bindC (seqC [
         whenC (host_interrupt_operation_mode (cfg_hw c)) (
           bindC (dev (iwl_read_prph hw OSC_CLK)) (\<lambda>_. bindC (dev (iwl_read_prph hw OSC_CLK)) (\<lambda>_.
           bindC (dev (iwl_set_bits_prph hw OSC_CLK 8)) (\<lambda>_.
           bindC (dev (iwl_read_prph hw OSC_CLK)) (\<lambda>_. bindC (dev (iwl_read_prph hw OSC_CLK)) (\<lambda>_. retC ())))))),
         whenC (\<not> apmg_not_supported (cfg_hw c)) (seqC [
           dev (iwl_write_prph hw APMG_CLK_EN_REG 0x200),
           dev (IODelay hw 20),
           dev (iwl_set_bits_prph hw APMG_PCIDEV_STT_REG 0x800),
           dev (iwl_write_prph hw APMG_RTC_INT_STT_REG 0x10000000)]),
         set_status STATUS_DEVICE_ENABLED]) (\<lambda>_. retC None))))"

definition iwl_pcie_apm_lp_xtal_enable :: "'d hw \<Rightarrow> ('d, unit) card_io" where
  "iwl_pcie_apm_lp_xtal_enable hw =
     bindC (seqC [dev (pcie_set_bit hw CSR_GP_CNTRL CSR_GP_CNTRL_REG_FLAG_XTAL_ON), iwl_pcie_sw_reset hw,
       dev (iwl_set_bit hw CSR_GP_CNTRL CSR_GP_CNTRL_REG_FLAG_INIT_DONE)]) (\<lambda>_.
     bindC (wait_clock hw) (\<lambda>ret. case ret of
       Inl _ \<Rightarrow> dev (iwl_clear_bit hw CSR_GP_CNTRL CSR_GP_CNTRL_REG_FLAG_XTAL_ON)
     | Inr _ \<Rightarrow>
         bindC (dev (iwl_clear_bits_prph hw APMG_PCIDEV_STT_REG 0x200)) (\<lambda>_.
         bindC (iwl_trans_pcie_read_shr hw SHR_APMG_XTAL_CFG_REG) (\<lambda>xtal_cfg.
         bindC (iwl_trans_pcie_write_shr hw SHR_APMG_XTAL_CFG_REG (xtal_cfg OR 0x80000000)) (\<lambda>_.
         bindC (iwl_pcie_sw_reset hw) (\<lambda>_.
         bindC (iwl_trans_pcie_read_shr hw SHR_APMG_GP1_REG) (\<lambda>gp1.
         bindC (iwl_trans_pcie_write_shr hw SHR_APMG_GP1_REG (gp1 OR 4 OR 0x80000000)) (\<lambda>_.
         bindC (iwl_trans_pcie_read_shr hw SHR_APMG_DL_CFG_REG) (\<lambda>dl_cfg. seqC [
           iwl_trans_pcie_write_shr hw SHR_APMG_DL_CFG_REG (dl_cfg AND NOT 0x100),
           dev (iwl_set_bit hw CSR_HW_IF_CONFIG_REG 0x40000000),
           dev (iwl_clear_bit hw CSR_GP_CNTRL CSR_GP_CNTRL_REG_FLAG_INIT_DONE),
           dev (iwl_set_bit hw CSR_MONITOR_CFG_REG 0x10),
           dev (iwl_clear_bit hw CSR_GP_CNTRL CSR_GP_CNTRL_REG_FLAG_XTAL_ON),
           dev (IODelay hw 10),
           iwl_trans_pcie_write_shr hw SHR_APMG_XTAL_CFG_REG (xtal_cfg AND NOT 0x80000000)])))))))))"

definition iwl_pcie_apm_stop_master :: "'d hw \<Rightarrow> ('d, unit) card_io" where
  "iwl_pcie_apm_stop_master hw = bindC (dev (iwl_set_bit hw CSR_RESET 0x200)) (\<lambda>_.
     bindC (dev (iwl_poll_bit hw CSR_RESET 0x100 0x100 100)) (\<lambda>_. retC ()))"

definition iwl_pcie_apm_stop :: "'d hw \<Rightarrow> card_cfg \<Rightarrow> bool \<Rightarrow> ('d, unit) card_io" where
  "iwl_pcie_apm_stop hw c op_mode_leave =
     bindC (whenC op_mode_leave (
       bindC (status_is STATUS_DEVICE_ENABLED) (\<lambda>enabled.
       bindC (if enabled then retC None else iwl_pcie_apm_init hw c) (\<lambda>_.
       bindC (getC card_family) (\<lambda>fam. seqC [
         (if fam = IWL_DEVICE_FAMILY_7000 then dev (iwl_set_bits_prph hw APMG_PCIDEV_STT_REG 0x4000)
          else whenC (fam \<ge> IWL_DEVICE_FAMILY_8000) (seqC [
            dev (iwl_set_bit hw CSR_DBG_LINK_PWR_MGMT_REG CSR_RESET_LINK_PWR_MGMT_DISABLED),
            dev (iwl_set_bit hw CSR_HW_IF_CONFIG_REG (CSR_HW_IF_CONFIG_REG_PREPARE OR 0x10000000)),
            dev (IODelay hw 1),
            dev (iwl_clear_bit hw CSR_DBG_LINK_PWR_MGMT_REG CSR_RESET_LINK_PWR_MGMT_DISABLED)])),
         dev (IODelay hw 5)]))))) (\<lambda>_.
     bindC (clear_status STATUS_DEVICE_ENABLED) (\<lambda>_.
     bindC (iwl_pcie_apm_stop_master hw) (\<lambda>_.
       if lp_xtal_workaround c then iwl_pcie_apm_lp_xtal_enable hw
       else seqC [iwl_pcie_sw_reset hw, dev (iwl_clear_bit hw CSR_GP_CNTRL CSR_GP_CNTRL_REG_FLAG_INIT_DONE)])))"

subsection \<open>Taking the card\<close>

definition iwl_pcie_set_hw_ready :: "'d hw \<Rightarrow> ('d, errno + int) card_io" where
  "iwl_pcie_set_hw_ready hw = bindC (dev (iwl_set_bit hw CSR_HW_IF_CONFIG_REG CSR_HW_IF_CONFIG_REG_BIT_NIC_READY)) (\<lambda>_.
     bindC (dev (iwl_poll_bit hw CSR_HW_IF_CONFIG_REG CSR_HW_IF_CONFIG_REG_BIT_NIC_READY CSR_HW_IF_CONFIG_REG_BIT_NIC_READY 50)) (\<lambda>ret.
       case ret of Inl e \<Rightarrow> retC (Inl e) | Inr t \<Rightarrow> bindC (dev (iwl_set_bit hw CSR_MBOX_SET_REG 0x20)) (\<lambda>_. retC (Inr t))))"

text \<open>The inner loop, with the time that has passed so far; \<open>None\<close> is success.\<close>

function ready_loop :: "'d hw \<Rightarrow> nat \<Rightarrow> 'd card \<Rightarrow> ((errno option \<times> nat) \<times> 'd card) run" where
  "ready_loop hw t st = bindF (iwl_pcie_set_hw_ready hw st) (\<lambda>(ret, st). case ret of
     Inr _ \<Rightarrow> Inr ((None, t), st)
   | Inl e \<Rightarrow> bindF (dev (IODelay hw 1000) st) (\<lambda>(_, st).
       if t + 200 < 150000 then ready_loop hw (t + 200) st else Inr ((Some e, t + 200), st)))"
  by pat_completeness auto
termination by (relation "measure (\<lambda>(hw, t, st). 150000 - t)") auto

declare ready_loop.simps [simp del]

fun prepare_loop :: "'d hw \<Rightarrow> nat \<Rightarrow> nat \<Rightarrow> errno \<Rightarrow> ('d, errno option) card_io" where
  "prepare_loop hw 0 t e = retC (Some e)"
| "prepare_loop hw (Suc n) t e = bindC (dev (iwl_set_bit hw CSR_HW_IF_CONFIG_REG CSR_HW_IF_CONFIG_REG_PREPARE)) (\<lambda>_.
     bindC (ready_loop hw t) (\<lambda>(ret, t). case ret of
       None \<Rightarrow> retC None
     | Some e \<Rightarrow> bindC (dev (IODelay hw 25000)) (\<lambda>_. prepare_loop hw n t e)))"

definition iwl_pcie_prepare_card_hw :: "'d hw \<Rightarrow> ('d, errno option) card_io" where
  "iwl_pcie_prepare_card_hw hw = bindC (iwl_pcie_set_hw_ready hw) (\<lambda>ret. case ret of
     Inr _ \<Rightarrow> retC None
   | Inl e \<Rightarrow> bindC (dev (iwl_set_bit hw CSR_DBG_LINK_PWR_MGMT_REG CSR_RESET_LINK_PWR_MGMT_DISABLED)) (\<lambda>_.
       bindC (dev (IODelay hw 2000)) (\<lambda>_. prepare_loop hw 10 0 e)))"

end
