(* ===== verification/Tx_Setup.thy ===== *)
theory Tx_Setup
  imports Pcie_Card
begin

section \<open>Setting up and releasing the transmit queues\<close>

text \<open>
  The memory of the queues, the registers of the scheduler (\<^verbatim>\<open>iwlwifi/iwl-scd.h\<close>), starting and stopping, and
  enabling and disabling a queue, from \<^verbatim>\<open>IntelWifi_tx.cpp\<close>. The buffer of the first fragments is an array that the
  queue addresses element by element, so it is one block of shared memory per element.
\<close>

subsection \<open>A queue of the card\<close>

definition get_txq :: "card_cfg \<Rightarrow> nat \<Rightarrow> 'd card \<Rightarrow> iwl_txq option" where
  "get_txq c i st = (if i = unat (cmd_queue (rx_pcie (cfg_rx c)))
     then (if cmd_txq_live st then Some (cq_queue (rx_cmdq (card_rx st))) else None) else txq_at st i)"

definition put_txq :: "card_cfg \<Rightarrow> nat \<Rightarrow> iwl_txq \<Rightarrow> 'd card \<Rightarrow> 'd card" where
  "put_txq c i q st = (if i = unat (cmd_queue (rx_pcie (cfg_rx c)))
     then st\<lparr>card_rx := (card_rx st)\<lparr>rx_cmdq := (rx_cmdq (card_rx st))\<lparr>cq_queue := q\<rparr>\<rparr>, cmd_txq_live := True\<rparr>
     else st\<lparr>txq_at := (txq_at st)(i \<mapsto> q)\<rparr>)"

definition drop_txq :: "card_cfg \<Rightarrow> nat \<Rightarrow> 'd card \<Rightarrow> 'd card" where
  "drop_txq c i st = (if i = unat (cmd_queue (rx_pcie (cfg_rx c))) then st\<lparr>cmd_txq_live := False\<rparr>
     else st\<lparr>txq_at := (txq_at st)(i := None)\<rparr>)"

definition card_pcie :: "'d card \<Rightarrow> 'd pcie" where
  "card_pcie st = cq_pcie (rx_cmdq (card_rx st))"

definition put_pcie :: "'d pcie \<Rightarrow> 'd card \<Rightarrow> 'd card" where
  "put_pcie s st = st\<lparr>card_rx := (card_rx st)\<lparr>rx_cmdq := (rx_cmdq (card_rx st))\<lparr>cq_pcie := s\<rparr>\<rparr>\<rparr>"

definition on_pcie :: "('d pcie \<Rightarrow> ('a \<times> 'd pcie) run) \<Rightarrow> ('d, 'a) card_io" where
  "on_pcie f st = bindF (f (card_pcie st)) (\<lambda>(x, s). Inr (x, put_pcie s st))"

definition on_txq :: "card_cfg \<Rightarrow> nat \<Rightarrow> (iwl_txq \<times> 'd pcie \<Rightarrow> (iwl_txq \<times> 'd pcie) run) \<Rightarrow> ('d, unit) card_io" where
  "on_txq c i f st = (case get_txq c i st of None \<Rightarrow> Inl NullDeref
     | Some q \<Rightarrow> bindF (f (q, card_pcie st)) (\<lambda>(q, s). Inr ((), put_txq c i q (put_pcie s st))))"

definition upd_more :: "nat \<Rightarrow> (txq_more \<Rightarrow> txq_more) \<Rightarrow> 'd card \<Rightarrow> 'd card" where
  "upd_more i f st = st\<lparr>txq_rest := (txq_rest st)(i := f (txq_rest st i))\<rparr>"

text \<open>Unmapping what is left in a queue, which need not end.\<close>

definition unmap_queue :: "'d hw \<Rightarrow> card_cfg \<Rightarrow> nat \<Rightarrow> ('d, unit) card_run" where
  "unmap_queue hw c i st = (case get_txq c i st of None \<Rightarrow> Some (Inl NullDeref)
     | Some q \<Rightarrow> (case iwl_pcie_txq_unmap hw (rx_pcie (cfg_rx c)) (q, card_pcie st) of
         None \<Rightarrow> None
       | Some (Inl f) \<Rightarrow> Some (Inl f)
       | Some (Inr (q, s)) \<Rightarrow> Some (Inr ((), put_txq c i q (put_pcie s st)))))"

fun seqL :: "('d, unit) card_run list \<Rightarrow> ('d, unit) card_run" where
  "seqL [] = liftL (retC ())"
| "seqL (m # ms) = bindL m (\<lambda>_. seqL ms)"

subsection \<open>Memory\<close>

definition TFD_TX_CMD_SLOTS :: nat where "TFD_TX_CMD_SLOTS = 256"
definition TFD_CMD_SLOTS :: nat where "TFD_CMD_SLOTS = 32"
definition IWL_FIRST_TB_SIZE_ALIGN :: nat where "IWL_FIRST_TB_SIZE_ALIGN = 64"
definition IWL_KW_SIZE :: nat where "IWL_KW_SIZE = 4096"

definition slots_of :: "card_cfg \<Rightarrow> nat \<Rightarrow> nat" where
  "slots_of c i = (if i = unat (cmd_queue (rx_pcie (cfg_rx c))) then TFD_CMD_SLOTS else TFD_TX_CMD_SLOTS)"

definition zero_entry :: txq_entry where
  "zero_entry = \<lparr>ent_cmd = replicate TFD_MAX_PAYLOAD_SIZE 0, ent_flags = 0, ent_source = False, ent_dma = replicate 3 None,
     ent_free_buf = False, ent_skb = False\<rparr>"

definition zero_txq :: iwl_txq where
  "zero_txq = \<lparr>write_ptr = 0, read_ptr = 0, n_window = 0, low_mark = 0, high_mark = 0, need_update = False, txq_block = 0, txq_id = 0,
     tfds = [], txq_entries = [], first_tb_dma = 0\<rparr>"

definition zero_more :: txq_more where
  "zero_more = \<lparr>txq_dma = 0, wd_timeout = 0, frozen_rest = 0, frozen = False, ampdu = False\<rparr>"

definition zalloc :: "'d pcie \<Rightarrow> bool \<times> 'd pcie" where
  "zalloc s = (let (okay, m) = iwh_malloc (pcie_answers s) in (okay, s\<lparr>pcie_answers := m\<rparr>))"

fun zallocs :: "nat \<Rightarrow> 'd pcie \<Rightarrow> bool \<times> 'd pcie" where
  "zallocs 0 s = (True, s)"
| "zallocs (Suc n) s = (let (okay, s) = zalloc s in if okay then zallocs n s else (False, s))"

text \<open>The result is the code and the address, where there is one.\<close>

definition iwl_pcie_alloc_dma_ptr :: "dma_env \<Rightarrow> u64 option \<Rightarrow> nat \<Rightarrow> 'd pcie \<Rightarrow> ((errno + u64) \<times> 'd pcie) run" where
  "iwl_pcie_alloc_dma_ptr env p n s =
     (if p \<noteq> None then Inr (Inl EINVAL, s)
      else bindF (allocate_dma_buf env n s) (\<lambda>(a, s). Inr (case a of None \<Rightarrow> Inl ENOMEM | Some a \<Rightarrow> Inr a, s)))"

definition iwl_pcie_free_dma_ptr :: "u64 option \<Rightarrow> 'd pcie \<Rightarrow> 'd pcie run" where
  "iwl_pcie_free_dma_ptr p s = (case p of None \<Rightarrow> Inl NullDeref | Some a \<Rightarrow> free_dma_buf a s)"

definition elements :: "u64 \<Rightarrow> nat \<Rightarrow> u64 set" where
  "elements a n = (\<lambda>i. a + of_nat IWL_FIRST_TB_SIZE_ALIGN * of_nat i) ` {..<n}"

definition alloc_first_tbs :: "dma_env \<Rightarrow> nat \<Rightarrow> 'd pcie \<Rightarrow> ((errno + u64) \<times> 'd pcie) run" where
  "alloc_first_tbs env n s = bindF (iwl_pcie_alloc_dma_ptr env None (IWL_FIRST_TB_SIZE_ALIGN * n) s) (\<lambda>(r, s). case r of
     Inl e \<Rightarrow> Inr (Inl e, s)
   | Inr a \<Rightarrow> Inr (Inr a, s\<lparr>dma_mem := (\<lambda>x. if x \<in> elements a n then Some (replicate IWL_FIRST_TB_SIZE_ALIGN 0) else dma_mem s x)\<rparr>))"

definition free_first_tbs :: "u64 \<Rightarrow> nat \<Rightarrow> 'd pcie \<Rightarrow> 'd pcie run" where
  "free_first_tbs a n s = bindF (free_dma_buf a s) (\<lambda>s. Inr (s\<lparr>dma_mem := (\<lambda>x. if x \<in> elements a n then None else dma_mem s x)\<rparr>))"

definition iwl_pcie_txq_alloc ::
  "dma_env \<Rightarrow> nat \<Rightarrow> bool \<Rightarrow> iwl_txq \<times> txq_more \<times> 'd pcie \<Rightarrow> (iwl_txq \<times> txq_more \<times> 'd pcie) outcome" where
  "iwl_pcie_txq_alloc env slots is_cmd = (\<lambda>(q, m, s).
     if txq_entries q \<noteq> [] \<or> tfds q \<noteq> [] then fail EINVAL (q, m, s)
     else
       let q = q\<lparr>n_window := int slots\<rparr>; (okay, s) = zalloc s in
       if \<not> okay then fail ENOMEM (q, m, s)
       else
         let (okay, s) = (if is_cmd then zallocs slots s else (True, s)) in
         if \<not> okay then fail ENOMEM (q, m, s)
         else bindF (iwl_pcie_alloc_dma_ptr env None (128 * 256) s) (\<lambda>(r, s). case r of
           Inl _ \<Rightarrow> fail ENOMEM (q, m, s)
         | Inr ring \<Rightarrow>
             let q = q\<lparr>tfds := replicate 256 zero_tfd\<rparr>; m = m\<lparr>txq_dma := ring\<rparr> in
             bindF (alloc_first_tbs env slots s) (\<lambda>(r, s). case r of
               Inl _ \<Rightarrow> bindF (free_dma_buf ring s) (\<lambda>s. fail ENOMEM (q, m, s))
             | Inr first \<Rightarrow> ok (q\<lparr>first_tb_dma := first, txq_entries := replicate slots zero_entry\<rparr>, m, s))))"

text \<open>
  Releasing a queue: the commands of the entries are freed up to \<open>n_window\<close>, and the rings go when \<open>tfds\<close> is not NULL. A queue
  of which only the ring was allocated has no second buffer to give back.
\<close>

definition iwl_pcie_txq_free :: "'d hw \<Rightarrow> card_cfg \<Rightarrow> nat \<Rightarrow> ('d, unit) card_run" where
  "iwl_pcie_txq_free hw c i st = (if get_txq c i st = None then Some (Inr ((), st))
     else bindL (unmap_queue hw c i) (\<lambda>_. liftL (bindC (getC (\<lambda>st. (the (get_txq c i st), txq_rest st i))) (\<lambda>(q, m).
       if i = unat (cmd_queue (rx_pcie (cfg_rx c))) \<and> int (length (txq_entries q)) < n_window q then (\<lambda>st. Inl NullDeref)
       else
         bindC (if tfds q = [] then retC ()
                else on_pcie (\<lambda>s. bindF (free_dma_buf (txq_dma m) s) (\<lambda>s.
                  bindF (if first_tb_dma q = 0 then Inl NullDeref else free_first_tbs (first_tb_dma q) (nat (n_window q)) s) (\<lambda>s. Inr ((), s))))) (\<lambda>_.
         updC (\<lambda>st. put_txq c i zero_txq (upd_more i (\<lambda>_. zero_more) st)))))) st)"

definition no_queues :: "'d card \<Rightarrow> 'd card" where
  "no_queues st = st\<lparr>queue_used := \<lambda>_. False\<rparr>"

definition iwl_pcie_tx_free :: "'d hw \<Rightarrow> card_cfg \<Rightarrow> ('d, unit) card_run" where
  "iwl_pcie_tx_free hw c = bindL (liftL (bindC (updC no_queues) (\<lambda>_. getC txq_memory))) (\<lambda>mem.
     bindL (whenL mem (seqL (map (\<lambda>i. bindL (iwl_pcie_txq_free hw c i) (\<lambda>_. liftL (updC (drop_txq c i)))) [0..<num_of_queues c]))) (\<lambda>_.
     liftL (bindC (updC (\<lambda>st. st\<lparr>txq_memory := False\<rparr>)) (\<lambda>_. bindC (getC id) (\<lambda>st. seqC [
       on_pcie (\<lambda>s. bindF (iwl_pcie_free_dma_ptr (kw_buf st) s) (\<lambda>s. Inr ((), s))),
       on_pcie (\<lambda>s. bindF (iwl_pcie_free_dma_ptr (scd_bc st) s) (\<lambda>s. Inr ((), s)))])))))"

text \<open>The allocation of one queue of the array, and of all of them up to the first that fails.\<close>

definition alloc_queue :: "dma_env \<Rightarrow> card_cfg \<Rightarrow> nat \<Rightarrow> ('d, errno option) card_io" where
  "alloc_queue env c i st =
     (let st = put_txq c i zero_txq (upd_more i (\<lambda>_. zero_more) st) in
      bindF (iwl_pcie_txq_alloc env (slots_of c i) (i = unat (cmd_queue (rx_pcie (cfg_rx c)))) (zero_txq, zero_more, card_pcie st)) (\<lambda>(r, q, m, s).
        let st = upd_more i (\<lambda>_. m) (put_pcie s st) in
        case r of Some e \<Rightarrow> Inr (Some e, put_txq c i q st)
        | None \<Rightarrow> Inr (None, put_txq c i (q\<lparr>txq_id := of_nat i\<rparr>) st)))"

fun alloc_queues :: "dma_env \<Rightarrow> card_cfg \<Rightarrow> nat list \<Rightarrow> ('d, errno option) card_io" where
  "alloc_queues env c [] = retC None"
| "alloc_queues env c (i # is) = bindC (alloc_queue env c i) (\<lambda>ret. case ret of
     Some e \<Rightarrow> retC (Some e) | None \<Rightarrow> alloc_queues env c is)"

text \<open>The allocations of \<open>iwl_pcie_tx_alloc\<close>, with the code at which the function goes to its error exit.\<close>

definition tx_alloc_steps :: "dma_env \<Rightarrow> card_cfg \<Rightarrow> ('d, errno option) card_io" where
  "tx_alloc_steps env c = bindC (getC txq_memory) (\<lambda>mem. if mem then retC (Some EINVAL) else
     bindC (on_pcie (iwl_pcie_alloc_dma_ptr env None (unat (of_nat (num_of_queues c * 640) :: u16)))) (\<lambda>r.
     bindC (updC (\<lambda>st. st\<lparr>scd_bc := (case r of Inl _ \<Rightarrow> None | Inr a \<Rightarrow> Some a)\<rparr>)) (\<lambda>_. case r of Inl e \<Rightarrow> retC (Some e) | Inr _ \<Rightarrow>
     bindC (on_pcie (iwl_pcie_alloc_dma_ptr env None IWL_KW_SIZE)) (\<lambda>r.
     bindC (updC (\<lambda>st. st\<lparr>kw_buf := (case r of Inl _ \<Rightarrow> None | Inr a \<Rightarrow> Some a)\<rparr>)) (\<lambda>_. case r of Inl e \<Rightarrow> retC (Some e) | Inr _ \<Rightarrow>
     bindC (on_pcie (\<lambda>s. Inr (zalloc s))) (\<lambda>okay.
       if \<not> okay then retC (Some ENOMEM)
       else bindC (updC (\<lambda>st. st\<lparr>txq_memory := True\<rparr>)) (\<lambda>_. alloc_queues env c [0..<num_of_queues c])))))))"

definition iwl_pcie_tx_alloc :: "dma_env \<Rightarrow> 'd hw \<Rightarrow> card_cfg \<Rightarrow> ('d, errno option) card_run" where
  "iwl_pcie_tx_alloc env hw c = bindL (liftL (tx_alloc_steps env c)) (\<lambda>ret. case ret of
     None \<Rightarrow> liftL (retC None) | Some e \<Rightarrow> bindL (iwl_pcie_tx_free hw c) (\<lambda>_. liftL (retC (Some e))))"

subsection \<open>Registers of the scheduler\<close>

abbreviation SCD_SRAM_BASE_ADDR :: u32 where "SCD_SRAM_BASE_ADDR \<equiv> 0xA02C00"
abbreviation SCD_DRAM_BASE_ADDR :: u32 where "SCD_DRAM_BASE_ADDR \<equiv> 0xA02C08"
abbreviation SCD_TXFACT :: u32 where "SCD_TXFACT \<equiv> 0xA02C10"
abbreviation SCD_QUEUECHAIN_SEL :: u32 where "SCD_QUEUECHAIN_SEL \<equiv> 0xA02CE8"
abbreviation SCD_CHAINEXT_EN :: u32 where "SCD_CHAINEXT_EN \<equiv> 0xA02E44"
abbreviation SCD_AGGR_SEL :: u32 where "SCD_AGGR_SEL \<equiv> 0xA02E48"
abbreviation SCD_GP_CTRL :: u32 where "SCD_GP_CTRL \<equiv> 0xA02DA8"
abbreviation SCD_EN_CTRL :: u32 where "SCD_EN_CTRL \<equiv> 0xA02E54"

definition SCD_QUEUE_WRPTR :: "u32 \<Rightarrow> u32" where
  "SCD_QUEUE_WRPTR chnl = (if chnl < 20 then 0xA02C18 + chnl * 4 else 0xA02E84 + (chnl - 20) * 4)"

definition SCD_QUEUE_RDPTR :: "u32 \<Rightarrow> u32" where
  "SCD_QUEUE_RDPTR chnl = (if chnl < 20 then 0xA02C68 + chnl * 4 else 0xA02EB4 + chnl * 4)"

definition SCD_QUEUE_STATUS_BITS :: "u32 \<Rightarrow> u32" where
  "SCD_QUEUE_STATUS_BITS chnl = (if chnl < 20 then 0xA02D0C + chnl * 4 else 0xA02F34 + chnl * 4)"

definition SCD_CONTEXT_QUEUE_OFFSET :: "nat \<Rightarrow> u32" where
  "SCD_CONTEXT_QUEUE_OFFSET x = of_nat (0x600 + x * 8)"

definition SCD_TX_STTS_QUEUE_OFFSET :: "nat \<Rightarrow> u32" where
  "SCD_TX_STTS_QUEUE_OFFSET x = of_nat (0x6A0 + x * 16)"

definition SCD_TRANS_TBL_OFFSET_QUEUE :: "nat \<Rightarrow> u32" where
  "SCD_TRANS_TBL_OFFSET_QUEUE x = of_nat (0x7E0 + x * 2) AND 0xFFFC"

definition queue_bit :: "nat \<Rightarrow> u32" where
  "queue_bit i = push_bit i 1"

definition iwl_scd_txq_set_chain :: "'d hw \<Rightarrow> nat \<Rightarrow> ('d, unit) io" where
  "iwl_scd_txq_set_chain hw i = iwl_set_bits_prph hw SCD_QUEUECHAIN_SEL (queue_bit i)"

definition iwl_scd_txq_enable_agg :: "'d hw \<Rightarrow> nat \<Rightarrow> ('d, unit) io" where
  "iwl_scd_txq_enable_agg hw i = iwl_set_bits_prph hw SCD_AGGR_SEL (queue_bit i)"

definition iwl_scd_txq_disable_agg :: "'d hw \<Rightarrow> nat \<Rightarrow> ('d, unit) io" where
  "iwl_scd_txq_disable_agg hw i = iwl_clear_bits_prph hw SCD_AGGR_SEL (queue_bit i)"

definition iwl_scd_disable_agg :: "'d hw \<Rightarrow> ('d, unit) io" where
  "iwl_scd_disable_agg hw = iwl_set_bits_prph hw SCD_AGGR_SEL 0"

definition iwl_scd_activate_fifos :: "'d hw \<Rightarrow> ('d, unit) io" where
  "iwl_scd_activate_fifos hw = iwl_write_prph hw SCD_TXFACT 0xFF"

definition iwl_scd_deactivate_fifos :: "'d hw \<Rightarrow> ('d, unit) io" where
  "iwl_scd_deactivate_fifos hw = iwl_write_prph hw SCD_TXFACT 0"

definition iwl_scd_enable_set_active :: "'d hw \<Rightarrow> u32 \<Rightarrow> ('d, unit) io" where
  "iwl_scd_enable_set_active hw v = iwl_write_prph hw SCD_EN_CTRL v"

definition iwl_scd_txq_set_inactive :: "'d hw \<Rightarrow> nat \<Rightarrow> ('d, unit) io" where
  "iwl_scd_txq_set_inactive hw i = iwl_write_prph hw (SCD_QUEUE_STATUS_BITS (of_nat i)) 0x80000"

text \<open>The base register of the ring of a queue.\<close>

definition FH_MEM_CBBC_QUEUE :: "bool \<Rightarrow> u32 \<Rightarrow> u32" where
  "FH_MEM_CBBC_QUEUE tfh chnl =
     (if tfh then 0x1C00 + 8 * chnl else if chnl < 16 then 0x19D0 + 4 * chnl
      else if chnl < 20 then 0x1BF0 + 4 * (chnl - 16) else 0x1B20 + 4 * (chnl - 20))"

text \<open>The bits of an address a base register holds: the cast to 32 bits comes before the shift.\<close>

definition base_of :: "nat \<Rightarrow> u64 \<Rightarrow> u32" where
  "base_of n a = drop_bit n (ucast a)"

subsection \<open>Initialisation\<close>

definition init_queue :: "'d hw \<Rightarrow> card_cfg \<Rightarrow> nat \<Rightarrow> ('d, errno option) card_io" where
  "init_queue hw c i st = (case get_txq c i st of None \<Rightarrow> Inl NullDeref
     | Some q \<Rightarrow> bindF (iwl_pcie_txq_init (int (slots_of c i)) q) (\<lambda>(r, q).
         let st = put_txq c i q st in
         case r of Some e \<Rightarrow> Inr (Some e, st)
         | None \<Rightarrow> bindC (dev (iwl_write_direct32 hw (FH_MEM_CBBC_QUEUE (use_tfh c) (of_nat i)) (base_of 8 (txq_dma (txq_rest st i))))) (\<lambda>_. retC None) st))"

fun init_queues :: "'d hw \<Rightarrow> card_cfg \<Rightarrow> nat list \<Rightarrow> ('d, errno option) card_io" where
  "init_queues hw c [] = retC None"
| "init_queues hw c (i # is) = bindC (init_queue hw c i) (\<lambda>ret. case ret of
     Some e \<Rightarrow> retC (Some e) | None \<Rightarrow> init_queues hw c is)"

abbreviation FH_KW_MEM_ADDR_REG :: u32 where "FH_KW_MEM_ADDR_REG \<equiv> 0x197C"

definition tx_init_steps :: "'d hw \<Rightarrow> card_cfg \<Rightarrow> ('d, errno option) card_io" where
  "tx_init_steps hw c =
     bindC (dev (iwl_scd_deactivate_fifos hw)) (\<lambda>_.
     bindC (getC kw_buf) (\<lambda>kw. case kw of None \<Rightarrow> (\<lambda>st. Inl NullDeref) | Some a \<Rightarrow>
     bindC (dev (iwl_write_direct32 hw FH_KW_MEM_ADDR_REG (base_of 4 a))) (\<lambda>_.
     bindC (init_queues hw c [0..<num_of_queues c]) (\<lambda>ret. case ret of Some e \<Rightarrow> retC (Some e) | None \<Rightarrow>
     bindC (seqC [dev (iwl_set_bits_prph hw SCD_GP_CTRL 0x40000),
       whenC (num_of_queues c > 20) (dev (iwl_set_bits_prph hw SCD_GP_CTRL 1))]) (\<lambda>_. retC None)))))"

definition iwl_pcie_tx_init :: "dma_env \<Rightarrow> 'd hw \<Rightarrow> card_cfg \<Rightarrow> ('d, errno option) card_run" where
  "iwl_pcie_tx_init env hw c = bindL (liftL (getC txq_memory)) (\<lambda>mem.
     bindL (if mem then liftL (retC None) else iwl_pcie_tx_alloc env hw c) (\<lambda>ret. case ret of
       Some e \<Rightarrow> liftL (retC (Some e))
     | None \<Rightarrow> bindL (liftL (tx_init_steps hw c)) (\<lambda>ret.
         bindL (whenL (ret \<noteq> None \<and> \<not> mem) (iwl_pcie_tx_free hw c)) (\<lambda>_. liftL (retC ret)))))"

text \<open>Nothing is done with the timer.\<close>

definition iwl_pcie_txq_progress :: "('d, unit) card_io" where
  "iwl_pcie_txq_progress = retC ()"

subsection \<open>Starting and stopping\<close>

definition iwl_pcie_tx_stop_fh :: "'d hw \<Rightarrow> ('d, unit) io" where
  "iwl_pcie_tx_stop_fh hw = bindIO (iwl_trans_pcie_grab_nic_access hw) (\<lambda>okay. if \<not> okay then retIO () else
     bindIO (write_regs (iwl_write32 hw) (map (\<lambda>ch. (0x1D00 + 0x20 * of_nat ch, 0)) [0..<8])) (\<lambda>_.
     bindIO (iwl_poll_bit hw 0x1EB0 0xFF0000 0xFF0000 5000) (\<lambda>ret.
     bindIO (case ret of Inl _ \<Rightarrow> bindIO (iwl_read32 hw 0x1EB0) (\<lambda>_. retIO ()) | Inr _ \<Rightarrow> retIO ()) (\<lambda>_.
       iwl_trans_pcie_release_nic_access hw))))"

definition iwl_pcie_tx_stop :: "'d hw \<Rightarrow> card_cfg \<Rightarrow> ('d, unit) card_run" where
  "iwl_pcie_tx_stop hw c =
     bindL (liftL (seqC [dev (iwl_scd_deactivate_fifos hw), dev (iwl_pcie_tx_stop_fh hw),
       updC (\<lambda>st. st\<lparr>queue_stopped := \<lambda>_. False, queue_used := \<lambda>_. False\<rparr>)])) (\<lambda>_.
     bindL (liftL (getC txq_memory)) (\<lambda>mem. whenL mem (seqL (map (unmap_queue hw c) [0..<num_of_queues c]))))"

definition msecs_to_jiffies :: "u64 \<Rightarrow> u64" where
  "msecs_to_jiffies m = m * 10"

definition BUILD_RAxTID :: "u8 \<Rightarrow> u8 \<Rightarrow> u16" where
  "BUILD_RAxTID sta tid = push_bit 4 (ucast sta) + ucast tid"

definition iwl_pcie_txq_set_ratid_map :: "'d hw \<Rightarrow> u16 \<Rightarrow> nat \<Rightarrow> ('d, unit) card_io" where
  "iwl_pcie_txq_set_ratid_map hw ra_tid i = bindC (getC scd_base) (\<lambda>base.
     let scd_q2ratid = ucast (ra_tid AND 0x1FF) :: u32; addr = base + SCD_TRANS_TBL_OFFSET_QUEUE i in
     bindC (dev (iwl_trans_read_mem32 hw addr)) (\<lambda>tbl_dw.
     bindC (dev (iwl_trans_write_mem32 hw addr (if odd i then push_bit 16 scd_q2ratid OR (tbl_dw AND 0xFFFF)
       else scd_q2ratid OR (tbl_dw AND 0xFFFF0000)))) (\<lambda>_. retC ())))"

text \<open>The step the scheduler cannot make: a multiple of 64 that is not 0.\<close>

definition scd_stuck :: "card_cfg \<Rightarrow> u16 \<Rightarrow> int \<Rightarrow> bool" where
  "scd_stuck c ssn wp \<longleftrightarrow> \<not> mq_rx_supported (cfg_rx c) \<and> (uint ssn - wp) AND 0x3F = 0 \<and> uint ssn \<noteq> wp"

text \<open>The part of \<open>iwl_trans_pcie_txq_enable\<close> before the pointers are set: it returns the sequence number and the result.\<close>

definition enable_prepare :: "'d hw \<Rightarrow> card_cfg \<Rightarrow> nat \<Rightarrow> u16 \<Rightarrow> iwl_trans_txq_scd_cfg option \<Rightarrow> ('d, u16 \<times> bool) card_io" where
  "enable_prepare hw c i ssn sc = (let is_cmd = (i = unat (cmd_queue (rx_pcie (cfg_rx c)))) in case sc of
     None \<Rightarrow> bindC (getC (\<lambda>st. the (get_txq c i st))) (\<lambda>q. if scd_stuck c ssn (write_ptr q) then retC (ssn + 1, True) else retC (ssn, False))
   | Some f \<Rightarrow> bindC (seqC [
         whenC (is_cmd \<and> scd_set_active c) (dev (iwl_scd_enable_set_active hw 0)),
         dev (iwl_scd_txq_set_inactive hw i),
         whenC (\<not> is_cmd) (dev (iwl_scd_txq_set_chain hw i)),
         (if scd_aggregate f
          then seqC [iwl_pcie_txq_set_ratid_map hw (BUILD_RAxTID (scd_sta_id f) (scd_tid f)) i, dev (iwl_scd_txq_enable_agg hw i),
            updC (upd_more i (\<lambda>m. m\<lparr>ampdu := True\<rparr>))]
          else dev (iwl_scd_txq_disable_agg hw i))]) (\<lambda>_.
       bindC (getC (\<lambda>st. the (get_txq c i st))) (\<lambda>q. retC (if scd_aggregate f then ssn else word_of_int (read_ptr q), False))))"

definition enable_configure :: "'d hw \<Rightarrow> card_cfg \<Rightarrow> nat \<Rightarrow> u16 \<Rightarrow> iwl_trans_txq_scd_cfg \<Rightarrow> ('d, unit) card_io" where
  "enable_configure hw c i ssn f = bindC (getC scd_base) (\<lambda>base.
     let limit = word_of_int (scd_frame_limit f) :: u8 in seqC [
       dev (iwl_write_prph hw (SCD_QUEUE_RDPTR (of_nat i)) (ucast ssn)),
       bindC (dev (iwl_trans_write_mem32 hw (base + SCD_CONTEXT_QUEUE_OFFSET i) 0)) (\<lambda>_. retC ()),
       bindC (dev (iwl_trans_write_mem32 hw (base + SCD_CONTEXT_QUEUE_OFFSET i + 4)
         ((ucast limit AND 0x7F) OR (push_bit 16 (ucast limit) AND 0x7F0000)))) (\<lambda>_. retC ()),
       dev (iwl_write_prph hw (SCD_QUEUE_STATUS_BITS (of_nat i)) (8 OR ucast (scd_fifo f) OR 0x10 OR 0x017F0000)),
       whenC (i = unat (cmd_queue (rx_pcie (cfg_rx c))) \<and> scd_set_active c) (dev (iwl_scd_enable_set_active hw (queue_bit i)))])"

definition iwl_trans_pcie_txq_enable ::
  "'d hw \<Rightarrow> card_cfg \<Rightarrow> nat \<Rightarrow> u16 \<Rightarrow> iwl_trans_txq_scd_cfg option \<Rightarrow> u32 \<Rightarrow> ('d, bool) card_io" where
  "iwl_trans_pcie_txq_enable hw c i ssn sc wdg =
     bindC (updC (\<lambda>st. st\<lparr>queue_used := (queue_used st)(i := True)\<rparr>)) (\<lambda>_.
     bindC (getC (get_txq c i)) (\<lambda>q. if q = None then (\<lambda>st. Inl NullDeref) else
     bindC (updC (upd_more i (\<lambda>m. m\<lparr>wd_timeout := msecs_to_jiffies (ucast wdg)\<rparr>))) (\<lambda>_.
     bindC (enable_prepare hw c i ssn sc) (\<lambda>(ssn, scd_bug).
     let p = uint ssn AND 0xFF in
     bindC (updC (\<lambda>st. put_txq c i ((the (get_txq c i st))\<lparr>read_ptr := p, write_ptr := p\<rparr>) st)) (\<lambda>_.
     bindC (dev (iwl_write_direct32 hw HBUS_TARG_WRPTR (word_of_int p OR push_bit 8 (of_nat i)))) (\<lambda>_.
     bindC (case sc of None \<Rightarrow> retC () | Some f \<Rightarrow> enable_configure hw c i ssn f) (\<lambda>_. retC scd_bug)))))))"

definition iwl_trans_pcie_txq_set_shared_mode :: "card_cfg \<Rightarrow> nat \<Rightarrow> bool \<Rightarrow> ('d, unit) card_io" where
  "iwl_trans_pcie_txq_set_shared_mode c i shared st = (if get_txq c i st = None then Inl NullDeref
     else Inr ((), upd_more i (\<lambda>m. m\<lparr>ampdu := \<not> shared\<rparr>) st))"

definition iwl_trans_pcie_txq_disable :: "'d hw \<Rightarrow> card_cfg \<Rightarrow> nat \<Rightarrow> bool \<Rightarrow> ('d, unit) card_run" where
  "iwl_trans_pcie_txq_disable hw c i configure_scd st = (if get_txq c i st = None then Some (Inl NullDeref)
     else
       let st = upd_more i (\<lambda>m. m\<lparr>frozen_rest := 0, frozen := False\<rparr>) st; used = queue_used st i;
           st = st\<lparr>queue_used := (queue_used st)(i := False)\<rparr> in
       if \<not> used then Some (Inr ((), st))
       else bindL (liftL (whenC configure_scd (seqC [dev (iwl_scd_txq_set_inactive hw i),
           bindC (dev (iwl_trans_pcie_write_mem hw (scd_base st + SCD_TX_STTS_QUEUE_OFFSET i) (Some (replicate 4 0)) 4)) (\<lambda>_. retC ())]))) (\<lambda>_.
         bindL (unmap_queue hw c i) (\<lambda>_. liftL (updC (upd_more i (\<lambda>m. m\<lparr>ampdu := False\<rparr>))))) st)"

text \<open>\<open>iwl_trans_ac_txq_enable\<close> of \<^verbatim>\<open>iwl-trans.h\<close> for the command queue; the firmware is alive when the device is started.\<close>

definition ac_txq_cfg :: "u8 \<Rightarrow> iwl_trans_txq_scd_cfg" where
  "ac_txq_cfg fifo = \<lparr>scd_fifo = fifo, scd_sta_id = 0xFF, scd_tid = 8, scd_aggregate = False, scd_frame_limit = 64\<rparr>"

definition clear_dwords :: "nat \<Rightarrow> nat" where
  "clear_dwords nq = unat (SCD_TRANS_TBL_OFFSET_QUEUE nq - 0x600) div 4"

definition iwl_pcie_tx_start :: "'d hw \<Rightarrow> card_cfg \<Rightarrow> ('d, unit) card_io" where
  "iwl_pcie_tx_start hw c =
     bindC (updC (\<lambda>st. st\<lparr>queue_stopped := \<lambda>_. False, queue_used := \<lambda>_. False\<rparr>)) (\<lambda>_.
     bindC (dev (iwl_read_prph hw SCD_SRAM_BASE_ADDR)) (\<lambda>base.
     bindC (updC (\<lambda>st. st\<lparr>scd_base := base\<rparr>)) (\<lambda>_.
     bindC (dev (iwl_trans_pcie_write_mem hw (base + 0x600) None (clear_dwords (num_of_queues c)))) (\<lambda>_.
     bindC (getC scd_bc) (\<lambda>bc. case bc of None \<Rightarrow> (\<lambda>st. Inl NullDeref) | Some a \<Rightarrow>
     bindC (seqC [
       dev (iwl_write_prph hw SCD_DRAM_BASE_ADDR (base_of 10 a)),
       whenC (scd_chain_ext_wa c) (dev (iwl_write_prph hw SCD_CHAINEXT_EN 0)),
       bindC (iwl_trans_pcie_txq_enable hw c (unat (cmd_queue (rx_pcie (cfg_rx c)))) 0 (Some (ac_txq_cfg (cmd_fifo c))) (cmd_q_wdg_timeout c)) (\<lambda>_. retC ()),
       dev (iwl_scd_activate_fifos hw),
       seqC (map (\<lambda>ch. dev (iwl_write_direct32 hw (0x1D00 + 0x20 * of_nat ch) 0x80000008)) [0..<8])]) (\<lambda>_.
     bindC (dev (iwl_read_direct32 hw 0x1E98)) (\<lambda>chicken.
     bindC (dev (iwl_write_direct32 hw 0x1E98 (chicken OR 2))) (\<lambda>_.
     bindC (getC card_family) (\<lambda>fam. whenC (fam < IWL_DEVICE_FAMILY_8000) (dev (iwl_clear_bits_prph hw APMG_PCIDEV_STT_REG 0x800)))))))))))"

end
