(* ===== verification/Pcie_Irq.thy ===== *)
theory Pcie_Irq
  imports Tx_Setup
begin

section \<open>Interrupts\<close>

text \<open>
  The interrupt handlers of \<^verbatim>\<open>IntelWifi_rx.cpp\<close> with the interrupt cause table (ICT), the radio kill switch
  (with \<open>iwl_pcie_check_hw_rf_kill\<close> of \<^verbatim>\<open>IntelWifi_trans.cpp\<close>) and the write pointers that are told again after a
  wake-up. The content of the table at the call is what the device has written. A lock that is taken while it is held,
  or given back while it is not, is the fault \<open>Deadlock\<close>.
\<close>

subsection \<open>Locks\<close>

definition IOLockLock :: "('d, unit) card_io" where
  "IOLockLock st = (if card_mutex st then Inl Deadlock else Inr ((), st\<lparr>card_mutex := True\<rparr>))"

definition IOLockUnlock :: "('d, unit) card_io" where
  "IOLockUnlock st = (if card_mutex st then Inr ((), st\<lparr>card_mutex := False\<rparr>) else Inl Deadlock)"

subsection \<open>The interrupt cause table\<close>

definition ICT_COUNT :: nat where "ICT_COUNT = 1024"

function ict_loop :: "u32 list \<Rightarrow> nat \<Rightarrow> u32 \<Rightarrow> (u32 \<times> u32 list \<times> nat) run" where
  "ict_loop tbl i val =
     (if length tbl \<le> i then Inl OutOfBounds
      else if tbl ! i = 0 then Inr (val, tbl, i)
      else ict_loop (tbl[i := 0]) ((i + 1) AND (ICT_COUNT - 1)) (val OR tbl ! i))"
  by pat_completeness auto
termination
proof (relation "measure (\<lambda>(tbl, i, val). length (filter (\<lambda>v. v \<noteq> 0) tbl))", goal_cases)
  case (2 tbl i val)
  then have "length (filter (\<lambda>v. v \<noteq> 0) (tbl[i := 0])) < length (filter (\<lambda>v. v \<noteq> 0) (take i tbl @ tbl ! i # drop (Suc i) tbl))"
    by (simp add: upd_conv_take_nth_drop)
  then show ?case using 2 by (simp add: id_take_nth_drop[symmetric])
qed simp

declare ict_loop.simps [simp del]

definition ict_cause :: "u32 \<Rightarrow> u32" where
  "ict_cause v = (let v = (if v = 0xFFFFFFFF then 0 else v); v = (if v AND 0xC0000 \<noteq> 0 then v OR 0x8000 else v)
     in (0xFF AND v) OR push_bit 16 (0xFF00 AND v))"

definition iwl_pcie_int_cause_ict :: "('d, u32) card_io" where
  "iwl_pcie_int_cause_ict st = (case ict_tbl st of
     None \<Rightarrow> Inl NullDeref
   | Some tbl \<Rightarrow>
       if length tbl \<le> ict_index st then Inl OutOfBounds
       else if tbl ! ict_index st = 0 then Inr (0, st)
       else bindF (ict_loop tbl (ict_index st) 0) (\<lambda>(v, tbl, i). Inr (ict_cause v, st\<lparr>ict_tbl := Some tbl, ict_index := i\<rparr>)))"

definition iwl_pcie_int_cause_non_ict :: "'d hw \<Rightarrow> ('d, u32) card_io" where
  "iwl_pcie_int_cause_non_ict hw = dev (iwl_read32 hw CSR_INT)"

subsection \<open>The radio kill switch\<close>

definition iwl_trans_pcie_rf_kill :: "bool \<Rightarrow> ('d, unit) card_io" where
  "iwl_trans_pcie_rf_kill state = updC (\<lambda>st. st\<lparr>rfkill_reports := rfkill_reports st @ [state]\<rparr>)"

definition iwl_pcie_check_hw_rf_kill :: "'d hw \<Rightarrow> ('d, bool) card_io" where
  "iwl_pcie_check_hw_rf_kill hw =
     bindC (iwl_is_rfkill_set hw) (\<lambda>hw_rfkill.
     bindC (status_is STATUS_RFKILL_OPMODE) (\<lambda>prev.
     bindC (getC opmode_down) (\<lambda>down.
     bindC (if hw_rfkill then seqC [set_status STATUS_RFKILL_HW, set_status STATUS_RFKILL_OPMODE]
            else seqC [clear_status STATUS_RFKILL_HW, whenC down (clear_status STATUS_RFKILL_OPMODE)]) (\<lambda>_.
     bindC (status_is STATUS_RFKILL_OPMODE) (\<lambda>report.
     bindC (whenC (prev \<noteq> report) (iwl_trans_pcie_rf_kill report)) (\<lambda>_. retC hw_rfkill))))))"

definition wake_sync_command :: "('d, unit) card_io" where
  "wake_sync_command = updC (\<lambda>st. st\<lparr>card_rx := (card_rx st)\<lparr>rx_cmdq := wake_waiter (rx_cmdq (card_rx st))\<rparr>\<rparr>)"

definition iwl_pcie_handle_rfkill_irq :: "'d hw \<Rightarrow> ('d, unit) card_io" where
  "iwl_pcie_handle_rfkill_irq hw =
     bindC IOLockLock (\<lambda>_.
     bindC (status_is STATUS_RFKILL_OPMODE) (\<lambda>prev.
     bindC (iwl_is_rfkill_set hw) (\<lambda>hw_rfkill.
     bindC (whenC hw_rfkill (seqC [set_status STATUS_RFKILL_OPMODE, set_status STATUS_RFKILL_HW])) (\<lambda>_.
     bindC (getC opmode_down) (\<lambda>down.
     bindC (if down then retC hw_rfkill else status_is STATUS_RFKILL_OPMODE) (\<lambda>report.
     bindC (count_stat Isr_rfkill) (\<lambda>_.
     bindC (whenC (prev \<noteq> report) (iwl_trans_pcie_rf_kill report)) (\<lambda>_.
     bindC IOLockUnlock (\<lambda>_.
       if hw_rfkill then seqC [clear_status STATUS_SYNC_HCMD_ACTIVE, wake_sync_command]
       else seqC [clear_status STATUS_RFKILL_HW, whenC down (clear_status STATUS_RFKILL_OPMODE)])))))))))"

subsection \<open>Write pointers after a wake-up\<close>

text \<open>One queue of \<open>iwl_pcie_txq_check_wrptrs\<close>.\<close>

definition check_wrptr :: "'d hw \<Rightarrow> card_cfg \<Rightarrow> nat \<Rightarrow> ('d, unit) card_io" where
  "check_wrptr hw c i = bindC (getC (\<lambda>st. queue_used st i)) (\<lambda>used. whenC used
     (on_txq c i (\<lambda>(q, s). if \<not> need_update q then Inr (q, s)
        else bindF (iwl_pcie_txq_inc_wr_ptr hw (rx_pcie (cfg_rx c)) (q, s)) (\<lambda>(q, s). Inr (q\<lparr>need_update := False\<rparr>, s)))))"

definition iwl_pcie_txq_check_wrptrs :: "'d hw \<Rightarrow> card_cfg \<Rightarrow> ('d, unit) card_io" where
  "iwl_pcie_txq_check_wrptrs hw c = seqC (map (check_wrptr hw c) [0..<num_of_queues c])"

subsection \<open>The handler\<close>

definition on_rx :: "('d rx \<Rightarrow> 'd rx run) \<Rightarrow> ('d, unit) card_io" where
  "on_rx f st = bindF (f (card_rx st)) (\<lambda>r. Inr ((), st\<lparr>card_rx := r\<rparr>))"

definition hw_gone :: "u32 \<Rightarrow> bool" where
  "hw_gone inta \<longleftrightarrow> inta = 0xFFFFFFFF \<or> inta AND 0xFFFFFFF0 = 0xA5A5A5A0"

abbreviation CSR_INT_PERIODIC_REG :: u32 where "CSR_INT_PERIODIC_REG \<equiv> 5"

text \<open>The bits each part of the handler has serviced.\<close>

definition handled_bits :: "u32 \<Rightarrow> u32" where
  "handled_bits inta = (inta AND (CSR_INT_BIT_RF_KILL OR CSR_INT_BIT_CT_KILL OR CSR_INT_BIT_SW_ERR OR CSR_INT_BIT_WAKEUP
       OR CSR_INT_BIT_RX_PERIODIC OR CSR_INT_BIT_FH_TX))
     OR (if inta AND (CSR_INT_BIT_FH_RX OR CSR_INT_BIT_SW_RX) \<noteq> 0 then CSR_INT_BIT_FH_RX OR CSR_INT_BIT_SW_RX else 0)"

text \<open>Up to the receive interrupt: the switch, the heat, an error of the firmware, a wake-up.\<close>

definition service_early :: "'d hw \<Rightarrow> card_cfg \<Rightarrow> u32 \<Rightarrow> ('d, unit) card_io" where
  "service_early hw c inta = seqC [
     whenC (inta AND CSR_INT_BIT_RF_KILL \<noteq> 0) (iwl_pcie_handle_rfkill_irq hw),
     whenC (inta AND CSR_INT_BIT_CT_KILL \<noteq> 0) (count_stat Isr_ctkill),
     whenC (inta AND CSR_INT_BIT_SW_ERR \<noteq> 0) (seqC [count_stat Isr_sw, on_rx (iwl_pcie_irq_handle_error hw (cfg_hw c))]),
     whenC (inta AND CSR_INT_BIT_WAKEUP \<noteq> 0)
       (seqC [on_rx (iwl_pcie_rxq_check_wrptr hw (cfg_rx c)), iwl_pcie_txq_check_wrptrs hw c, count_stat Isr_wakeup])]"

definition announce_rx :: "'d hw \<Rightarrow> u32 \<Rightarrow> ('d, unit) card_io" where
  "announce_rx hw inta = seqC [
     whenC (inta AND (CSR_INT_BIT_FH_RX OR CSR_INT_BIT_SW_RX) \<noteq> 0) (dev (iwl_write32 hw CSR_FH_INT_STATUS 0x40030000)),
     whenC (inta AND CSR_INT_BIT_RX_PERIODIC \<noteq> 0) (dev (iwl_write32 hw CSR_INT CSR_INT_BIT_RX_PERIODIC)),
     dev (iwl_write8 hw CSR_INT_PERIODIC_REG 0),
     whenC (inta AND (CSR_INT_BIT_FH_RX OR CSR_INT_BIT_SW_RX) \<noteq> 0) (dev (iwl_write8 hw CSR_INT_PERIODIC_REG 0xFF)),
     count_stat Isr_rx]"

text \<open>After the receive interrupt: the end of a firmware chunk, the statistics, and the interrupts that are enabled again.\<close>

definition service_late :: "'d hw \<Rightarrow> u32 \<Rightarrow> ('d, unit) card_io" where
  "service_late hw inta = bindC (seqC [
     whenC (inta AND CSR_INT_BIT_FH_TX \<noteq> 0) (seqC [dev (iwl_write32 hw CSR_FH_INT_STATUS 3), count_stat Isr_tx,
       updC (\<lambda>st. st\<lparr>ucode_write_complete := True\<rparr>)]),
     whenC (inta AND NOT (handled_bits inta) \<noteq> 0) (count_stat Isr_unhandled)]) (\<lambda>_.
   bindC (status_is STATUS_INT_ENABLED) (\<lambda>enabled.
     if enabled then iwl_enable_interrupts hw
     else if handled_bits inta AND CSR_INT_BIT_FH_TX \<noteq> 0 then iwl_enable_fw_load_int hw
     else whenC (handled_bits inta AND CSR_INT_BIT_RF_KILL \<noteq> 0) (iwl_enable_rfkill_int hw)))"

definition service_debug :: "'d hw \<Rightarrow> card_cfg \<Rightarrow> u32 \<Rightarrow> ('d, unit) card_io" where
  "service_debug hw c inta = whenC (isr_debug c) (seqC [
     whenC (inta AND CSR_INT_BIT_SCD \<noteq> 0) (count_stat Isr_sch),
     whenC (inta AND CSR_INT_BIT_ALIVE \<noteq> 0) (seqC [count_stat Isr_alive, whenC (gen2 c) (on_rx (iwl_pcie_rxmq_restock hw (cfg_rx c)))])])"

definition debug_reads :: "'d hw \<Rightarrow> card_cfg \<Rightarrow> u32 list \<Rightarrow> ('d, unit) card_io" where
  "debug_reads hw c regs = whenC (isr_debug c) (seqC (map (\<lambda>r. bindC (dev (iwl_read32 hw r)) (\<lambda>_. retC ())) regs))"

definition irq_begin :: "'d hw \<Rightarrow> card_cfg \<Rightarrow> ('d, u32) card_io" where
  "irq_begin hw c =
     bindC (getC use_ict) (\<lambda>ict.
     bindC (if ict then iwl_pcie_int_cause_ict else iwl_pcie_int_cause_non_ict hw) (\<lambda>inta.
     bindC (debug_reads hw c [CSR_INT_MASK, CSR_FH_INT_STATUS]) (\<lambda>_.
     bindC (getC inta_mask) (\<lambda>m. retC (inta AND m)))))"

definition irq_hw_error :: "'d hw \<Rightarrow> card_cfg \<Rightarrow> ('d, unit) card_io" where
  "irq_hw_error hw c = seqC [iwl_disable_interrupts hw, count_stat Isr_hw, on_rx (iwl_pcie_irq_handle_error hw (cfg_hw c))]"

definition irq_ack :: "'d hw \<Rightarrow> card_cfg \<Rightarrow> u32 \<Rightarrow> ('d, unit) card_io" where
  "irq_ack hw c inta = bindC (getC inta_mask) (\<lambda>m.
     seqC [dev (iwl_write32 hw CSR_INT (inta OR NOT m)), debug_reads hw c [CSR_INT_MASK]])"

definition irq_idle :: "'d hw \<Rightarrow> ('d, unit) card_io" where
  "irq_idle hw = bindC (status_is STATUS_INT_ENABLED) (\<lambda>enabled. whenC enabled (iwl_enable_interrupts hw))"

definition iwl_pcie_irq_handler ::
  "rx_env \<Rightarrow> 'd hw \<Rightarrow> card_cfg \<Rightarrow> 'd op_rx \<Rightarrow> (nat \<Rightarrow> u8 list) \<Rightarrow> (nat \<Rightarrow> u16) \<Rightarrow> 'd card \<Rightarrow> (unit \<times> 'd card) run option" where
  "iwl_pcie_irq_handler env hw c op page_mem closed st =
     thenC (irq_begin hw c st) (\<lambda>inta st.
       if inta = 0 then Some (irq_idle hw st)
       else if hw_gone inta then Some (Inr ((), st))
       else thenC (irq_ack hw c inta st) (\<lambda>_ st.
         if inta AND CSR_INT_BIT_HW_ERR \<noteq> 0 then Some (irq_hw_error hw c st)
         else
           let inta' = inta AND NOT (CSR_INT_BIT_SCD OR CSR_INT_BIT_ALIVE) in
           thenC (bindC (service_debug hw c inta) (\<lambda>_. service_early hw c inta') st) (\<lambda>_ st.
             if inta' AND (CSR_INT_BIT_FH_RX OR CSR_INT_BIT_SW_RX OR CSR_INT_BIT_RX_PERIODIC) = 0 then Some (service_late hw inta' st)
             else thenC (announce_rx hw inta' st) (\<lambda>_ st.
               case iwl_pcie_rx_handle env hw (cfg_rx c) op page_mem closed (card_rx st) of
                 None \<Rightarrow> None
               | Some (Inl f) \<Rightarrow> Some (Inl f)
               | Some (Inr r) \<Rightarrow> Some (service_late hw inta' (st\<lparr>card_rx := r\<rparr>))))))"

subsection \<open>Setting up the table\<close>

definition iwl_pcie_free_ict :: "('d, unit) card_io" where
  "iwl_pcie_free_ict = bindC (getC id) (\<lambda>st. whenC (ict_tbl st \<noteq> None) (seqC [
     on_pcie (\<lambda>s. bindF (free_dma_buf (ict_tbl_dma st) s) (\<lambda>s. Inr ((), s))),
     updC (\<lambda>st. st\<lparr>ict_tbl := None, ict_tbl_dma := 0\<rparr>)]))"

definition iwl_pcie_alloc_ict :: "dma_env \<Rightarrow> ('d, errno option) card_io" where
  "iwl_pcie_alloc_ict env =
     bindC (on_pcie (ring_buffer env 4096)) (\<lambda>a.
     bindC (updC (\<lambda>st. st\<lparr>ict_tbl := Some (replicate ICT_COUNT 0), ict_tbl_dma := a\<rparr>)) (\<lambda>_.
       if a AND 0xFFF \<noteq> 0 then bindC iwl_pcie_free_ict (\<lambda>_. retC (Some EINVAL)) else retC None))"

definition iwl_pcie_reset_ict :: "'d hw \<Rightarrow> ('d, unit) card_io" where
  "iwl_pcie_reset_ict hw = bindC (getC id) (\<lambda>st0. whenC (ict_tbl st0 \<noteq> None) (seqC [
     iwl_disable_interrupts hw,
     updC (\<lambda>st. st\<lparr>ict_tbl := Some (replicate ICT_COUNT 0)\<rparr>),
     dev (iwl_write32 hw 0xA0 (ucast (drop_bit 12 (ict_tbl_dma st0)) OR 0x80000000 OR 0x08000000 OR 0x10000000)),
     updC (\<lambda>st. st\<lparr>use_ict := True, ict_index := 0\<rparr>),
     dev (iwl_write32 hw CSR_INT (inta_mask st0)),
     iwl_enable_interrupts hw]))"

definition iwl_pcie_disable_ict :: "('d, unit) card_io" where
  "iwl_pcie_disable_ict = updC (\<lambda>st. st\<lparr>use_ict := False\<rparr>)"

end
