(* ===== verification/Fw_Load.thy ===== *)
theory Fw_Load
  imports Pcie_Irq Notif_Wait Drv_Lifetime
begin

section \<open>Loading the firmware into the device\<close>

text \<open>
  The microcode loader of \<^verbatim>\<open>IntelWifi_trans.cpp\<close>: a section of the image goes to the device in chunks over the
  service channel, each chunk is waited for, and the sections of the two processors are told apart by separators. The image
  lives in the heap of the driver (\<open>Iwl_Drv\<close>), which the loader only reads. \<open>uploads\<close> collects what the channel was
  started with. A loop that need not end is a partial function, so a run is an option.
\<close>

subsection \<open>Runs that need not return\<close>

text \<open>The rest runs when there is no error.\<close>

definition unless_error :: "errno option \<Rightarrow> ('d, errno option) card_run \<Rightarrow> ('d, errno option) card_run" where
  "unless_error ret m = (case ret of None \<Rightarrow> m | Some e \<Rightarrow> liftL (retC (Some e)))"

subsection \<open>The environment\<close>

text \<open>
  The buffer for a section (none at all, one that cannot be mapped, or its bus address), and the wait for a chunk: the interrupt
  has come before the wait, or the thread slept and this is how it ended. Both may depend on the number of transfers so far.
\<close>

datatype section_buffer = No_buffer | No_segment | Segment u32

record load_env =
  section_buf :: "nat \<Rightarrow> section_buffer"
  chunk_wait :: "nat \<Rightarrow> wait_result option"

record load_cfg =
  card_of :: card_cfg
  dbg_dest :: "nat option"
  dbg_dest_regs :: nat
  fw_monitor :: bool
  fw_mon_size :: u32
  fw_mon_phys :: u64
  power_debug :: bool

subsection \<open>One chunk\<close>

abbreviation FH_SRVC_TX_CONFIG :: u32 where "FH_SRVC_TX_CONFIG \<equiv> 0x1E20"
abbreviation FH_SRVC_TX_BUF_STS :: u32 where "FH_SRVC_TX_BUF_STS \<equiv> 0x1E28"
abbreviation FH_SRVC_SRAM_ADDR :: u32 where "FH_SRVC_SRAM_ADDR \<equiv> 0x19C8"
abbreviation FH_SRVC_TFDIB_CTRL0 :: u32 where "FH_SRVC_TFDIB_CTRL0 \<equiv> 0x1948"
abbreviation FH_SRVC_TFDIB_CTRL1 :: u32 where "FH_SRVC_TFDIB_CTRL1 \<equiv> 0x194C"

definition load_firmware_chunk_fh :: "'d hw \<Rightarrow> u32 \<Rightarrow> u64 \<Rightarrow> u32 \<Rightarrow> ('d, unit) card_io" where
  "load_firmware_chunk_fh hw dst phys n = seqC [
     dev (iwl_write32 hw FH_SRVC_TX_CONFIG 0),
     dev (iwl_write32 hw FH_SRVC_SRAM_ADDR dst),
     dev (iwl_write32 hw FH_SRVC_TFDIB_CTRL0 (ucast phys)),
     dev (iwl_write32 hw FH_SRVC_TFDIB_CTRL1 (push_bit 28 (ucast (drop_bit 32 phys AND 0xF)) OR n)),
     dev (iwl_write32 hw FH_SRVC_TX_BUF_STS 0x00101003),
     dev (iwl_write32 hw FH_SRVC_TX_CONFIG 0x80100000)]"

definition load_firmware_chunk :: "load_env \<Rightarrow> 'd hw \<Rightarrow> u32 \<Rightarrow> u64 \<Rightarrow> u8 list \<Rightarrow> ('d, errno option) card_io" where
  "load_firmware_chunk env hw dst phys chunk =
     bindC (updC (\<lambda>st. st\<lparr>ucode_write_complete := False\<rparr>)) (\<lambda>_.
     bindC (dev (iwl_trans_pcie_grab_nic_access hw)) (\<lambda>got.
     if \<not> got then retC (Some EIO)
     else
       bindC (load_firmware_chunk_fh hw dst phys (of_nat (length chunk))) (\<lambda>_.
       bindC (dev (iwl_trans_pcie_release_nic_access hw)) (\<lambda>_.
       bindC (getC (\<lambda>st. chunk_wait env (length (uploads st)))) (\<lambda>w.
       bindC (updC (\<lambda>st. st\<lparr>uploads := uploads st @ [(dst, chunk)],
           ucode_write_complete := (w = None \<or> w = Some THREAD_AWAKENED)\<rparr>)) (\<lambda>_.
       retC (if w = None \<or> w = Some THREAD_AWAKENED then None else Some ETIMEDOUT)))))))"

subsection \<open>One section\<close>

definition FH_MEM_TB_MAX_LENGTH :: u32 where "FH_MEM_TB_MAX_LENGTH = 0x20000"
abbreviation IWL_FW_MEM_EXTENDED_START :: u32 where "IWL_FW_MEM_EXTENDED_START \<equiv> 0x40000"
abbreviation IWL_FW_MEM_EXTENDED_END :: u32 where "IWL_FW_MEM_EXTENDED_END \<equiv> 0x57FFF"
abbreviation LMPM_CHICK :: u32 where "LMPM_CHICK \<equiv> 0xA01FF8"

definition extended_addr :: "u32 \<Rightarrow> bool" where
  "extended_addr dst \<longleftrightarrow> IWL_FW_MEM_EXTENDED_START \<le> dst \<and> dst \<le> IWL_FW_MEM_EXTENDED_END"

text \<open>The body of the loop, which copies the chunk into the buffer first.\<close>

definition section_chunk :: "load_env \<Rightarrow> 'd hw \<Rightarrow> u32 \<Rightarrow> fw_desc \<Rightarrow> u8 list \<Rightarrow> u32 \<Rightarrow> u32 \<Rightarrow> ('d, errno option) card_io" where
  "section_chunk env hw phys d bytes chunk_sz offset =
     (let n = min chunk_sz (ucast (desc_len d - ucast offset)); dst = desc_offset d + offset in
      bindC (whenC (extended_addr dst) (dev (iwl_set_bits_prph hw LMPM_CHICK 1))) (\<lambda>_.
      if length bytes < unat offset + unat n then (\<lambda>st. Inl OutOfBounds)
      else
        bindC (load_firmware_chunk env hw dst (ucast phys) (take (unat n) (drop (unat offset) bytes))) (\<lambda>ret.
        bindC (whenC (extended_addr dst) (dev (iwl_clear_bits_prph hw LMPM_CHICK 1))) (\<lambda>_. retC ret))))"

partial_function (option) chunk_loop ::
  "load_env \<Rightarrow> 'd hw \<Rightarrow> u32 \<Rightarrow> fw_desc \<Rightarrow> u8 list \<Rightarrow> u32 \<Rightarrow> u32 \<Rightarrow> 'd card \<Rightarrow> (errno option \<times> 'd card) run option" where
  "chunk_loop env hw phys d bytes chunk_sz offset st =
     (if \<not> ucast offset < desc_len d then Some (Inr (None, st))
      else case section_chunk env hw phys d bytes chunk_sz offset st of
        Inl f \<Rightarrow> Some (Inl f)
      | Inr (Some e, st) \<Rightarrow> Some (Inr (Some e, st))
      | Inr (None, st) \<Rightarrow> chunk_loop env hw phys d bytes chunk_sz (offset + chunk_sz) st)"

definition get_bytes :: "nat option \<Rightarrow> dheap \<Rightarrow> u8 list run" where
  "get_bytes p h = bindF (heap_get p h) (\<lambda>b. case b of Bytes bs \<Rightarrow> Inr bs | Descs _ \<Rightarrow> Inl OutOfBounds)"

text \<open>The code for a buffer that cannot be mapped is -1, which is \<open>EPERM\<close>.\<close>

definition load_section :: "load_env \<Rightarrow> 'd hw \<Rightarrow> dheap \<Rightarrow> fw_desc \<Rightarrow> ('d, errno option) card_run" where
  "load_section env hw h d st =
     (case section_buf env (length (uploads st)) of
        No_buffer \<Rightarrow> Some (Inl NullDeref)
      | No_segment \<Rightarrow> Some (Inr (Some EPERM, st))
      | Segment phys \<Rightarrow> (case get_bytes (desc_data d) h of
            Inl f \<Rightarrow> Some (Inl f)
          | Inr bytes \<Rightarrow> chunk_loop env hw phys d bytes (min FH_MEM_TB_MAX_LENGTH (ucast (desc_len d))) 0 st))"

subsection \<open>The sections of a processor\<close>

abbreviation CPU1_CPU2_SEPARATOR_SECTION :: u32 where "CPU1_CPU2_SEPARATOR_SECTION \<equiv> 0xFFFFCCCC"
abbreviation PAGING_SEPARATOR_SECTION :: u32 where "PAGING_SEPARATOR_SECTION \<equiv> 0xAAAABBBB"

definition loadable :: "fw_desc \<Rightarrow> bool" where
  "loadable d \<longleftrightarrow> desc_data d \<noteq> None \<and> desc_offset d \<noteq> CPU1_CPU2_SEPARATOR_SECTION \<and> desc_offset d \<noteq> PAGING_SEPARATOR_SECTION"

definition image_sec :: "dheap \<Rightarrow> fw_img \<Rightarrow> nat \<Rightarrow> fw_desc run" where
  "image_sec h im i = bindF (get_descs (fw_img_sec im) h) (\<lambda>ds. if i < length ds then Inr (ds ! i) else Inl OutOfBounds)"

text \<open>
  The loop over the sections, with the action after each of them, which the 8000 family has. The result is the error and the
  last index that was looked at.
\<close>

fun sections_loop ::
  "load_env \<Rightarrow> 'd hw \<Rightarrow> dheap \<Rightarrow> fw_img \<Rightarrow> (u32 \<Rightarrow> ('d, unit) card_io) \<Rightarrow> nat \<Rightarrow> nat list \<Rightarrow> u32 \<Rightarrow> 'd card \<Rightarrow> ((errno option \<times> nat) \<times> 'd card) run option" where
  "sections_loop env hw h im after seen [] sec_num st = Some (Inr ((None, seen), st))"
| "sections_loop env hw h im after seen (i # is) sec_num st =
     (case image_sec h im i of
        Inl f \<Rightarrow> Some (Inl f)
      | Inr d \<Rightarrow>
          if \<not> loadable d then Some (Inr ((None, i), st))
          else bindL (load_section env hw h d) (\<lambda>ret. case ret of
              Some e \<Rightarrow> liftL (retC (Some e, seen))
            | None \<Rightarrow> bindL (liftL (after sec_num)) (\<lambda>_. sections_loop env hw h im after i is (push_bit 1 sec_num OR 1))) st)"

definition first_section :: "nat \<Rightarrow> nat \<Rightarrow> nat" where
  "first_section cpu first = (if cpu = 1 then 0 else first + 1)"

text \<open>The second result is \<open>*first_ucode_section\<close> after the call.\<close>

definition load_cpu_sections ::
  "load_env \<Rightarrow> 'd hw \<Rightarrow> dheap \<Rightarrow> fw_img \<Rightarrow> nat \<Rightarrow> nat \<Rightarrow> ('d, errno option \<times> nat) card_run" where
  "load_cpu_sections env hw h im cpu first =
     sections_loop env hw h im (\<lambda>_. retC ()) 0 [first_section cpu first..<num_sec im] 1"

abbreviation FH_UCODE_LOAD_STATUS :: u32 where "FH_UCODE_LOAD_STATUS \<equiv> 0x1AF0"
abbreviation UREG_UCODE_LOAD_STATUS :: u32 where "UREG_UCODE_LOAD_STATUS \<equiv> 0xA05C40"

definition notify_section :: "'d hw \<Rightarrow> nat \<Rightarrow> u32 \<Rightarrow> ('d, unit) card_io" where
  "notify_section hw shift_param sec_num = bindC (dev (iwl_read_direct32 hw FH_UCODE_LOAD_STATUS)) (\<lambda>val.
     dev (iwl_write_direct32 hw FH_UCODE_LOAD_STATUS (val OR push_bit shift_param sec_num)))"

definition load_cpu_sections_8000 ::
  "load_env \<Rightarrow> 'd hw \<Rightarrow> card_cfg \<Rightarrow> dheap \<Rightarrow> fw_img \<Rightarrow> nat \<Rightarrow> nat \<Rightarrow> ('d, errno option \<times> nat) card_run" where
  "load_cpu_sections_8000 env hw c h im cpu first =
     bindL (sections_loop env hw h im (notify_section hw (if cpu = 1 then 0 else 16)) 0 [first_section cpu first..<num_sec im] 1)
       (\<lambda>(ret, seen). case ret of
          Some e \<Rightarrow> liftL (retC (Some e, seen))
        | None \<Rightarrow> liftL (bindC (iwl_enable_interrupts hw) (\<lambda>_.
            bindC (if use_tfh c then dev (iwl_write_prph hw UREG_UCODE_LOAD_STATUS (if cpu = 1 then 0xFFFF else 0xFFFFFFFF))
                   else dev (iwl_write_direct32 hw FH_UCODE_LOAD_STATUS (if cpu = 1 then 0xFFFF else 0xFFFFFFFF))) (\<lambda>_.
            retC (None, seen)))))"

subsection \<open>The debug destination\<close>

text \<open>
  The descriptor is a packed block of the driver's heap: the version at 0, the mode at 1, the registers at 4 and 8, the shifts at 20 and 21, and
  from 22 on the register operations of 12 bytes. A shift of one by 64 or more is not defined.
\<close>

definition dest_byte :: "u8 list \<Rightarrow> nat \<Rightarrow> u8 run" where
  "dest_byte bs i = (if i < length bs then Inr (bs ! i) else Inl OutOfBounds)"

definition BIT_u32 :: "u32 \<Rightarrow> u32 run" where
  "BIT_u32 n = (if n < 64 then Inr (push_bit (unat n) 1) else Inl Indeterminate)"

definition with_bit :: "u32 \<Rightarrow> (u32 \<Rightarrow> ('d, 'a) card_io) \<Rightarrow> ('d, 'a) card_io" where
  "with_bit n m st = bindF (BIT_u32 n) (\<lambda>b. m b st)"

text \<open>One operation; the result says whether the list goes on.\<close>

definition dest_op :: "'d hw \<Rightarrow> u8 \<Rightarrow> u32 \<Rightarrow> u32 \<Rightarrow> ('d, bool) card_io" where
  "dest_op hw opr addr val =
     (if opr = 0 then bindC (dev (iwl_write32 hw addr val)) (\<lambda>_. retC True)
      else if opr = 1 then with_bit val (\<lambda>b. bindC (dev (iwl_set_bit hw addr b)) (\<lambda>_. retC True))
      else if opr = 2 then with_bit val (\<lambda>b. bindC (dev (iwl_clear_bit hw addr b)) (\<lambda>_. retC True))
      else if opr = 3 then bindC (dev (iwl_write_prph hw addr val)) (\<lambda>_. retC True)
      else if opr = 4 then with_bit val (\<lambda>b. bindC (dev (iwl_set_bits_prph hw addr b)) (\<lambda>_. retC True))
      else if opr = 5 then with_bit val (\<lambda>b. bindC (dev (iwl_clear_bits_prph hw addr b)) (\<lambda>_. retC True))
      else if opr = 9 then bindC (dev (iwl_read_prph hw addr)) (\<lambda>v. with_bit val (\<lambda>b. retC (v AND b = 0)))
      else retC True)"

fun dest_ops :: "'d hw \<Rightarrow> u8 list \<Rightarrow> nat list \<Rightarrow> ('d, unit) card_io" where
  "dest_ops hw bs [] st = Inr ((), st)"
| "dest_ops hw bs (i # is) st =
     bindF (dest_byte bs (22 + 12 * i)) (\<lambda>opr. bindF (rd32 bs (22 + 12 * i + 4)) (\<lambda>addr. bindF (rd32 bs (22 + 12 * i + 8)) (\<lambda>val.
       bindF (dest_op hw opr addr val st) (\<lambda>(more, st). if more then dest_ops hw bs is st else Inr ((), st)))))"

abbreviation EXTERNAL_MODE :: u8 where "EXTERNAL_MODE \<equiv> 1"

definition apply_destination :: "'d hw \<Rightarrow> load_cfg \<Rightarrow> dheap \<Rightarrow> ('d, unit) card_io" where
  "apply_destination hw c h st =
     bindF (get_bytes (dbg_dest c) h) (\<lambda>bs. bindF (dest_byte bs 0) (\<lambda>_. bindF (dest_byte bs 1) (\<lambda>mode.
     bindF (dest_ops hw bs [0..<dbg_dest_regs c] st) (\<lambda>(_, st).
       if mode = EXTERNAL_MODE \<and> fw_mon_size c \<noteq> 0
       then bindF (rd32 bs 4) (\<lambda>base_reg. bindF (rd32 bs 8) (\<lambda>end_reg. bindF (dest_byte bs 20) (\<lambda>base_shift. bindF (dest_byte bs 21) (\<lambda>end_shift.
         seqC [dev (iwl_write_prph hw base_reg (ucast (drop_bit (unat base_shift) (fw_mon_phys c)))),
           dev (iwl_write_prph hw end_reg (ucast (drop_bit (unat end_shift)
             (fw_mon_phys c + ucast (fw_mon_size c) - (if card_family st \<ge> IWL_DEVICE_FAMILY_8000 then 256 else 0)))))] st))))
       else Inr ((), st)))))"

subsection \<open>An image\<close>

abbreviation LMPM_SECURE_UCODE_LOAD_CPU2_HDR_ADDR :: u32 where "LMPM_SECURE_UCODE_LOAD_CPU2_HDR_ADDR \<equiv> 0x1E7C"
abbreviation LMPM_SECURE_CPU2_HDR_MEM_SPACE :: u32 where "LMPM_SECURE_CPU2_HDR_MEM_SPACE \<equiv> 0x420400"
abbreviation MON_BUFF_BASE_ADDR :: u32 where "MON_BUFF_BASE_ADDR \<equiv> 0xA03C3C"
abbreviation MON_BUFF_END_ADDR :: u32 where "MON_BUFF_END_ADDR \<equiv> 0xA03C40"
abbreviation WFPM_GP2 :: u32 where "WFPM_GP2 \<equiv> 0xA030B4"
abbreviation RELEASE_CPU_RESET :: u32 where "RELEASE_CPU_RESET \<equiv> 0x300C"

text \<open>The last part: where the monitor writes, the interrupts, and the reset of the processor that is released.\<close>

definition start_ucode :: "'d hw \<Rightarrow> load_cfg \<Rightarrow> dheap \<Rightarrow> ('d, errno option) card_io" where
  "start_ucode hw c h = bindC (getC card_family) (\<lambda>fam.
     bindC (seqC [
       (if fw_monitor c \<and> fam = IWL_DEVICE_FAMILY_7000
        then whenC (fw_mon_size c \<noteq> 0) (seqC [
          dev (iwl_write_prph hw MON_BUFF_BASE_ADDR (ucast (drop_bit 4 (fw_mon_phys c)))),
          dev (iwl_write_prph hw MON_BUFF_END_ADDR (ucast (drop_bit 4 (fw_mon_phys c + ucast (fw_mon_size c)))))])
        else whenC (dbg_dest c \<noteq> None) (apply_destination hw c h)),
       iwl_enable_interrupts hw,
       dev (iwl_write32 hw CSR_RESET 0)]) (\<lambda>_. retC None))"

definition load_given_ucode :: "load_env \<Rightarrow> 'd hw \<Rightarrow> load_cfg \<Rightarrow> dheap \<Rightarrow> fw_img \<Rightarrow> ('d, errno option) card_run" where
  "load_given_ucode env hw c h im =
     bindL (load_cpu_sections env hw h im 1 0) (\<lambda>(ret, first). unless_error ret (
       if is_dual_cpus im
       then bindL (liftL (dev (iwl_write_prph hw LMPM_SECURE_UCODE_LOAD_CPU2_HDR_ADDR LMPM_SECURE_CPU2_HDR_MEM_SPACE))) (\<lambda>_.
            bindL (load_cpu_sections env hw h im 2 first) (\<lambda>(ret, _). unless_error ret (liftL (start_ucode hw c h))))
       else liftL (start_ucode hw c h)))"

definition load_given_ucode_8000 :: "load_env \<Rightarrow> 'd hw \<Rightarrow> load_cfg \<Rightarrow> dheap \<Rightarrow> fw_img \<Rightarrow> ('d, errno option) card_run" where
  "load_given_ucode_8000 env hw c h im =
     bindL (liftL (seqC [
       whenC (dbg_dest c \<noteq> None) (apply_destination hw c h),
       whenC (power_debug c) (bindC (dev (iwl_read_prph hw WFPM_GP2)) (\<lambda>_. retC ())),
       dev (iwl_write_prph hw WFPM_GP2 0x01010101),
       dev (iwl_write_prph hw RELEASE_CPU_RESET 0x01000000)])) (\<lambda>_.
     bindL (load_cpu_sections_8000 env hw (card_of c) h im 1 0) (\<lambda>(ret, first). unless_error ret (
     bindL (load_cpu_sections_8000 env hw (card_of c) h im 2 first) (\<lambda>(ret, _). liftL (retC ret)))))"

end
