(* ===== verification/Pcie_Start.thy ===== *)
theory Pcie_Start
  imports Fw_Load
begin

section \<open>Starting and stopping the device\<close>

text \<open>
  The second half of \<^verbatim>\<open>IntelWifi_trans.cpp\<close>: the interrupt vectors, the initialisation of the adapter, starting and stopping
  the firmware under the transport's mutex, leaving, the configuration, and what is released at the end; and the same operations
  of \<^verbatim>\<open>IntelWifi_trans-gen2.cpp\<close> as far as they are not commented out there. The configuration of the adapter by the
  operation mode (\<open>nic_config\<close>) is a parameter.
\<close>

subsection \<open>Interrupt vectors\<close>

record msix_cfg =
  num_rxqs :: nat
  shared_vec_mask :: u8
  def_irq :: u32

abbreviation CSR_MSIX_RX_IVAR :: "nat \<Rightarrow> u32" where "CSR_MSIX_RX_IVAR cause \<equiv> 0x2880 + of_nat cause"
abbreviation CSR_MSIX_IVAR :: "u32 \<Rightarrow> u32" where "CSR_MSIX_IVAR cause \<equiv> 0x2890 + cause"
abbreviation UREG_CHICK :: u32 where "UREG_CHICK \<equiv> 0xA05C00"

text \<open>A cause: its bit, the mask register that holds it, and its place in the vector table.\<close>

definition causes_list :: "(u32 \<times> u32 \<times> u32) list" where
  "causes_list = [(0x10000, CSR_MSIX_FH_INT_MASK_AD, 0), (0x20000, CSR_MSIX_FH_INT_MASK_AD, 1), (0x80000, CSR_MSIX_FH_INT_MASK_AD, 3),
     (0x200000, CSR_MSIX_FH_INT_MASK_AD, 5), (1, CSR_MSIX_HW_INT_MASK_AD, 0x10), (2, CSR_MSIX_HW_INT_MASK_AD, 0x11),
     (0x40, CSR_MSIX_HW_INT_MASK_AD, 0x16), (0x80, CSR_MSIX_HW_INT_MASK_AD, 0x17), (0x100, CSR_MSIX_HW_INT_MASK_AD, 0x18),
     (0x02000000, CSR_MSIX_HW_INT_MASK_AD, 0x29), (0x04000000, CSR_MSIX_HW_INT_MASK_AD, 0x2A), (0x08000000, CSR_MSIX_HW_INT_MASK_AD, 0x2B),
     (0x20000000, CSR_MSIX_HW_INT_MASK_AD, 0x2D), (0x40000000, CSR_MSIX_HW_INT_MASK_AD, 0x2E)]"

definition iwl_pcie_map_non_rx_causes :: "'d hw \<Rightarrow> msix_cfg \<Rightarrow> ('d, unit) card_io" where
  "iwl_pcie_map_non_rx_causes hw x = seqC (concat (map (\<lambda>(num, reg, addr).
     [dev (iwl_write8 hw (CSR_MSIX_IVAR addr) (ucast (def_irq x OR 0x80))), dev (iwl_clear_bit hw reg num)]) causes_list))"

definition iwl_pcie_map_rx_causes :: "'d hw \<Rightarrow> msix_cfg \<Rightarrow> ('d, unit) card_io" where
  "iwl_pcie_map_rx_causes hw x =
     (let first = shared_vec_mask x AND 2 \<noteq> 0; offset = (if first then 1 else 0); val = (if shared_vec_mask x AND 1 \<noteq> 0 then 0x80 else 0) in
      seqC (map (\<lambda>idx. dev (iwl_write8 hw (CSR_MSIX_RX_IVAR idx) (of_nat (idx - offset)))) [1..<num_rxqs x]
        @ [dev (iwl_write32 hw CSR_MSIX_FH_INT_MASK_AD (NOT (foldr (OR) (map queue_bit [0..<max 1 (num_rxqs x)]) 0))),
           dev (iwl_write8 hw (CSR_MSIX_RX_IVAR 0) val), whenC first (dev (iwl_write8 hw (CSR_MSIX_RX_IVAR 1) val))]))"

definition iwl_pcie_conf_msix_hw :: "'d hw \<Rightarrow> card_cfg \<Rightarrow> msix_cfg \<Rightarrow> ('d, unit) card_io" where
  "iwl_pcie_conf_msix_hw hw c x = bindC (getC msix_enabled) (\<lambda>msix.
     if \<not> msix
     then bindC (if mq_rx_supported (cfg_rx c) then status_is STATUS_DEVICE_ENABLED else retC False) (\<lambda>enabled.
       whenC enabled (dev (iwl_write_prph hw UREG_CHICK 0x01000000)))
     else bindC (status_is STATUS_DEVICE_ENABLED) (\<lambda>enabled. seqC [
       whenC enabled (dev (iwl_write_prph hw UREG_CHICK 0x02000000)), iwl_pcie_map_rx_causes hw x, iwl_pcie_map_non_rx_causes hw x]))"

definition iwl_pcie_init_msix :: "'d hw \<Rightarrow> card_cfg \<Rightarrow> msix_cfg \<Rightarrow> ('d, unit) card_io" where
  "iwl_pcie_init_msix hw c x = bindC (iwl_pcie_conf_msix_hw hw c x) (\<lambda>_. bindC (getC msix_enabled) (\<lambda>msix. whenC msix (
     bindC (dev (iwl_read32 hw CSR_MSIX_FH_INT_MASK_AD)) (\<lambda>fh.
     bindC (updC (\<lambda>st. st\<lparr>fh_init_mask := NOT fh, fh_mask := NOT fh\<rparr>)) (\<lambda>_.
     bindC (dev (iwl_read32 hw CSR_MSIX_HW_INT_MASK_AD)) (\<lambda>h.
     updC (\<lambda>st. st\<lparr>hw_init_mask := NOT h, hw_mask := NOT h\<rparr>)))))))"

subsection \<open>Stopping\<close>

definition take_status :: "nat \<Rightarrow> ('d, bool) card_io" where
  "take_status n st = bindF (test_and_clear_bit n [cq_status (rx_cmdq (card_rx st))]) (\<lambda>(b, a).
     Inr (b, st\<lparr>card_rx := (card_rx st)\<lparr>rx_cmdq := (rx_cmdq (card_rx st))\<lparr>cq_status := a ! 0\<rparr>\<rparr>\<rparr>))"

text \<open>What follows the power-down: the vectors, the interrupts, the status, and the card that is taken again.\<close>

definition after_stop :: "'d hw \<Rightarrow> card_cfg \<Rightarrow> msix_cfg \<Rightarrow> ('d, unit) card_io" where
  "after_stop hw c x = seqC [
     iwl_pcie_sw_reset hw,
     iwl_pcie_conf_msix_hw hw c x,
     iwl_disable_interrupts hw,
     clear_status STATUS_SYNC_HCMD_ACTIVE, clear_status STATUS_INT_ENABLED, clear_status STATUS_TPOWER_PMI,
     iwl_enable_rfkill_int hw,
     bindC (iwl_pcie_prepare_card_hw hw) (\<lambda>_. retC ())]"

definition stop_device_locked :: "'d hw \<Rightarrow> card_cfg \<Rightarrow> msix_cfg \<Rightarrow> ('d, unit) card_run" where
  "stop_device_locked hw c x = bindL (liftL (getC is_down)) (\<lambda>down. whenL (\<not> down) (
     bindL (liftL (seqC [updC (\<lambda>st. st\<lparr>is_down := True\<rparr>), iwl_disable_interrupts hw, iwl_pcie_disable_ict])) (\<lambda>_.
     bindL (liftL (take_status STATUS_DEVICE_ENABLED)) (\<lambda>enabled.
     bindL (whenL enabled (bindL (iwl_pcie_tx_stop hw c) (\<lambda>_. liftL (seqC [
         bindC (dev (iwl_pcie_rx_stop hw (cfg_rx c))) (\<lambda>_. retC ()),
         whenC (\<not> apmg_not_supported (cfg_hw c)) (seqC [dev (iwl_write_prph hw APMG_CLK_DIS_REG 0x200), dev (IODelay hw 5)])])))) (\<lambda>_.
     liftL (seqC [
       dev (iwl_clear_bit hw CSR_GP_CNTRL CSR_GP_CNTRL_REG_FLAG_MAC_ACCESS_REQ),
       iwl_pcie_apm_stop hw c False,
       after_stop hw c x]))))))"

definition iwl_trans_pcie_handle_stop_rfkill :: "'d hw \<Rightarrow> bool \<Rightarrow> ('d, unit) card_io" where
  "iwl_trans_pcie_handle_stop_rfkill hw was_in_rfkill = bindC (iwl_is_rfkill_set hw) (\<lambda>hw_rfkill. seqC [
     (if hw_rfkill then seqC [set_status STATUS_RFKILL_HW, set_status STATUS_RFKILL_OPMODE]
      else seqC [clear_status STATUS_RFKILL_HW, clear_status STATUS_RFKILL_OPMODE]),
     whenC (hw_rfkill \<noteq> was_in_rfkill) (iwl_trans_pcie_rf_kill hw_rfkill)])"

text \<open>Both generations stop under the mutex in the same way.\<close>

definition stop_with :: "'d hw \<Rightarrow> ('d, unit) card_run \<Rightarrow> ('d, unit) card_run" where
  "stop_with hw stop = bindL (liftL (bindC IOLockLock (\<lambda>_. bindC (updC (\<lambda>st. st\<lparr>opmode_down := True\<rparr>)) (\<lambda>_. status_is STATUS_RFKILL_OPMODE)))) (\<lambda>was_in_rfkill.
     bindL stop (\<lambda>_. liftL (seqC [iwl_trans_pcie_handle_stop_rfkill hw was_in_rfkill, IOLockUnlock])))"

definition iwl_trans_pcie_stop_device :: "'d hw \<Rightarrow> card_cfg \<Rightarrow> msix_cfg \<Rightarrow> ('d, unit) card_run" where
  "iwl_trans_pcie_stop_device hw c x = stop_with hw (stop_device_locked hw c x)"

subsection \<open>Starting\<close>

record 'd start_env =
  start_dma :: dma_env
  start_pages :: rx_env
  start_load :: load_env
  nic_config :: "('d, unit) card_io"

text \<open>The result of the receive initialisation is not looked at.\<close>

definition rx_init_step :: "'d start_env \<Rightarrow> 'd hw \<Rightarrow> card_cfg \<Rightarrow> ('d, unit) card_io" where
  "rx_init_step env hw c st =
     bindF (iwl_pcie_rx_init (start_dma env) (start_pages env) hw (cfg_hw c) (cfg_rx c) (card_rx st)) (\<lambda>(_, r). Inr ((), st\<lparr>card_rx := r\<rparr>))"

definition iwl_pcie_nic_init :: "'d start_env \<Rightarrow> 'd hw \<Rightarrow> card_cfg \<Rightarrow> ('d, errno option) card_run" where
  "iwl_pcie_nic_init env hw c = bindL (liftL (iwl_pcie_apm_init hw c)) (\<lambda>ret. unless_error ret (
     bindL (liftL (seqC [iwl_pcie_set_pwr hw c False, nic_config env, rx_init_step env hw c])) (\<lambda>_.
     bindL (iwl_pcie_tx_init (start_dma env) hw c) (\<lambda>ret.
       if ret \<noteq> None then liftL (retC (Some ENOMEM))
       else liftL (bindC (whenC (shadow_reg_enable (rx_pcie (cfg_rx c))) (dev (iwl_set_bit hw CSR_MAC_SHADOW_REG_CTRL 0x800FFFFF))) (\<lambda>_.
         retC None))))))"

abbreviation CSR_UCODE_DRV_GP1_CLR :: u32 where "CSR_UCODE_DRV_GP1_CLR \<equiv> 0x5C"
abbreviation CSR_UCODE_SW_BIT_RFKILL :: u32 where "CSR_UCODE_SW_BIT_RFKILL \<equiv> 2"
abbreviation CSR_UCODE_DRV_GP1_BIT_CMD_BLOCKED :: u32 where "CSR_UCODE_DRV_GP1_BIT_CMD_BLOCKED \<equiv> 4"

text \<open>
  \<open>iwl_trans_pcie_start_fw\<close>, for both generations: \<open>init\<close> prepares the adapter and \<open>load\<close> the firmware. The exit \<open>out\<close> gives the
  mutex back, also when it is reached from the first step, before the mutex is taken.
\<close>

definition start_out :: "errno option \<Rightarrow> ('d, errno option) card_io" where
  "start_out ret = bindC IOLockUnlock (\<lambda>_. retC ret)"

definition start_with ::
  "'d hw \<Rightarrow> bool \<Rightarrow> ('d, errno option) card_run \<Rightarrow> ('d, errno option) card_run \<Rightarrow> ('d, errno option) card_run" where
  "start_with hw run_in_rfkill init load =
     bindL (liftL (iwl_pcie_prepare_card_hw hw)) (\<lambda>ret. if ret \<noteq> None then liftL (start_out (Some EIO)) else
     bindL (liftL (seqC [iwl_enable_rfkill_int hw, dev (iwl_write32 hw CSR_INT 0xFFFFFFFF), iwl_disable_interrupts hw, IOLockLock])) (\<lambda>_.
     bindL (liftL (iwl_pcie_check_hw_rf_kill hw)) (\<lambda>hw_rfkill. if hw_rfkill \<and> \<not> run_in_rfkill then liftL (start_out (Some ERFKILL)) else
     bindL (liftL (getC is_down)) (\<lambda>down. if down then liftL (start_out (Some EIO)) else
     bindL (liftL (seqC [dev (iwl_write32 hw CSR_UCODE_DRV_GP1_CLR CSR_UCODE_SW_BIT_RFKILL),
       dev (iwl_write32 hw CSR_UCODE_DRV_GP1_CLR CSR_UCODE_DRV_GP1_BIT_CMD_BLOCKED), dev (iwl_write32 hw CSR_INT 0xFFFFFFFF)])) (\<lambda>_.
     bindL init (\<lambda>ret. if ret \<noteq> None then liftL (start_out ret) else
     bindL load (\<lambda>ret.
     bindL (liftL (iwl_pcie_check_hw_rf_kill hw)) (\<lambda>hw_rfkill.
       liftL (start_out (if hw_rfkill \<and> \<not> run_in_rfkill then Some ERFKILL else ret))))))))))"

definition load_image :: "'d start_env \<Rightarrow> 'd hw \<Rightarrow> load_cfg \<Rightarrow> dheap \<Rightarrow> fw_img \<Rightarrow> ('d, errno option) card_run" where
  "load_image env hw lc h im =
     bindL (liftL (bindC (seqC [iwl_enable_fw_load_int hw, dev (iwl_write32 hw CSR_UCODE_DRV_GP1_CLR CSR_UCODE_SW_BIT_RFKILL),
       dev (iwl_write32 hw CSR_UCODE_DRV_GP1_CLR CSR_UCODE_SW_BIT_RFKILL)]) (\<lambda>_. getC card_family))) (\<lambda>fam.
     if fam \<ge> IWL_DEVICE_FAMILY_8000 then load_given_ucode_8000 (start_load env) hw lc h im else load_given_ucode (start_load env) hw lc h im)"

definition iwl_trans_pcie_start_fw ::
  "'d start_env \<Rightarrow> 'd hw \<Rightarrow> load_cfg \<Rightarrow> dheap \<Rightarrow> fw_img \<Rightarrow> bool \<Rightarrow> ('d, errno option) card_run" where
  "iwl_trans_pcie_start_fw env hw lc h im run_in_rfkill =
     start_with hw run_in_rfkill (iwl_pcie_nic_init env hw (card_of lc)) (load_image env hw lc h im)"

definition iwl_trans_pcie_fw_alive :: "'d hw \<Rightarrow> card_cfg \<Rightarrow> ('d, unit) card_io" where
  "iwl_trans_pcie_fw_alive hw c = seqC [iwl_pcie_reset_ict hw, iwl_pcie_tx_start hw c]"

text \<open>Raising the power state at the end is the business of IOKit.\<close>

definition start_hw_locked :: "'d hw \<Rightarrow> card_cfg \<Rightarrow> msix_cfg \<Rightarrow> ('d, errno option) card_io" where
  "start_hw_locked hw c x = bindC (iwl_pcie_prepare_card_hw hw) (\<lambda>err. case err of Some e \<Rightarrow> retC (Some e) | None \<Rightarrow>
     bindC (iwl_pcie_sw_reset hw) (\<lambda>_. bindC (iwl_pcie_apm_init hw c) (\<lambda>err. case err of Some e \<Rightarrow> retC (Some e) | None \<Rightarrow>
     bindC (seqC [iwl_pcie_init_msix hw c x, iwl_enable_rfkill_int hw, updC (\<lambda>st. st\<lparr>opmode_down := False, is_down := False\<rparr>),
       bindC (iwl_pcie_check_hw_rf_kill hw) (\<lambda>_. retC ())]) (\<lambda>_. retC None))))"

definition iwl_trans_pcie_start_hw :: "'d hw \<Rightarrow> card_cfg \<Rightarrow> msix_cfg \<Rightarrow> ('d, errno option) card_io" where
  "iwl_trans_pcie_start_hw hw c x = bindC IOLockLock (\<lambda>_. bindC (start_hw_locked hw c x) (\<lambda>ret. bindC IOLockUnlock (\<lambda>_. retC ret)))"

subsection \<open>Leaving and releasing\<close>

definition iwl_trans_pcie_op_mode_leave :: "'d hw \<Rightarrow> card_cfg \<Rightarrow> ('d, unit) card_io" where
  "iwl_trans_pcie_op_mode_leave hw c = seqC [IOLockLock, iwl_disable_interrupts hw, iwl_pcie_apm_stop hw c True, iwl_disable_interrupts hw,
     iwl_pcie_disable_ict, IOLockUnlock]"

text \<open>The locks and the transport structure itself are released by the operating system and by \<open>iwl_trans_free\<close>.\<close>

definition iwl_trans_pcie_free :: "'d hw \<Rightarrow> card_cfg \<Rightarrow> ('d, unit) card_run" where
  "iwl_trans_pcie_free hw c = bindL (whenL (\<not> gen2 c) (iwl_pcie_tx_free hw c)) (\<lambda>_.
     liftL (bindC (on_rx iwl_pcie_rx_free) (\<lambda>_. bindC (getC msix_enabled) (\<lambda>msix.
       if msix then updC (\<lambda>st. st\<lparr>msix_enabled := False\<rparr>) else iwl_pcie_free_ict))))"

subsection \<open>Configuration\<close>

record pcie_trans_config =
  tc_cmd_queue :: u8
  tc_cmd_fifo :: u8
  tc_wdg_timeout :: u32
  tc_no_reclaim :: "u8 list"
  tc_rx_buf_size :: amsdu_size
  tc_scd_set_active :: bool

definition MAX_NO_RECLAIM_CMDS :: nat where "MAX_NO_RECLAIM_CMDS = 6"

text \<open>\<open>fls64\<close> of \<^verbatim>\<open>porting/linux/kernel.h\<close> is the processor's bit scan, and \<open>__get_order\<close> the exponent of a number of pages.\<close>

definition fls64 :: "u64 \<Rightarrow> nat" where
  "fls64 x = (case find (bit x) (rev [0..<64]) of Some n \<Rightarrow> n + 1 | None \<Rightarrow> 0)"

definition get_order :: "u64 \<Rightarrow> nat" where
  "get_order n = fls64 (drop_bit 12 (n - 1))"

definition iwl_trans_get_rb_size_order :: "amsdu_size \<Rightarrow> int" where
  "iwl_trans_get_rb_size_order sz = (case sz of IWL_AMSDU_4K \<Rightarrow> int (get_order 4096) | IWL_AMSDU_8K \<Rightarrow> int (get_order 8192)
     | IWL_AMSDU_12K \<Rightarrow> int (get_order 12288) | _ \<Rightarrow> - 1)"

text \<open>The page order is kept as a \<open>u32\<close>.\<close>

definition iwl_trans_pcie_configure :: "pcie_trans_config \<Rightarrow> card_cfg \<Rightarrow> card_cfg" where
  "iwl_trans_pcie_configure t c = c\<lparr>
     cfg_rx := (cfg_rx c)\<lparr>rx_pcie := (rx_pcie (cfg_rx c))\<lparr>cmd_queue := ucast (tc_cmd_queue t)\<rparr>,
       rx_page_order := unat (word_of_int (iwl_trans_get_rb_size_order (tc_rx_buf_size t)) :: u32),
       no_reclaim_cmds := (if length (tc_no_reclaim t) > MAX_NO_RECLAIM_CMDS then [] else tc_no_reclaim t)\<rparr>,
     cfg_hw := (cfg_hw c)\<lparr>rx_buf_size := tc_rx_buf_size t\<rparr>,
     cmd_fifo := tc_cmd_fifo t, cmd_q_wdg_timeout := tc_wdg_timeout t, scd_set_active := tc_scd_set_active t\<rparr>"

subsection \<open>Finding the revision of the hardware\<close>

text \<open>
  The part of \<open>iwl_trans_pcie_alloc\<close> that talks to the device, from \<open>iwl_disable_interrupts\<close> to the interrupt table; the result is
  the revision, or nothing when the function gives up.
\<close>

abbreviation WFPM_CTRL_REG :: u32 where "WFPM_CTRL_REG \<equiv> 0xA03030"
abbreviation AUX_MISC_REG :: u32 where "AUX_MISC_REG \<equiv> 0xA200B0"

definition old_format :: "u32 \<Rightarrow> u32" where
  "old_format hwrev = (hwrev AND 0xFFF0) OR push_bit 2 (CSR_HW_REV_STEP (push_bit 2 hwrev))"

definition c_step :: "'d hw \<Rightarrow> u32 \<Rightarrow> ('d, u32) io" where
  "c_step hw hwrev = bindIO (iwl_trans_pcie_grab_nic_access hw) (\<lambda>okay. if \<not> okay then retIO hwrev else
     bindIO (iwl_read_prph_no_grab hw WFPM_CTRL_REG) (\<lambda>v.
     bindIO (iwl_write_prph_no_grab hw WFPM_CTRL_REG (v OR 0x80000000)) (\<lambda>_.
     bindIO (iwl_read_prph_no_grab hw AUX_MISC_REG) (\<lambda>v.
     bindIO (iwl_trans_pcie_release_nic_access hw) (\<lambda>_.
       retIO (if drop_bit 24 v AND 0xF = 3 then (hwrev AND 0xFFFFFFF3) OR push_bit 2 2 else hwrev))))))"

definition revision_8000 :: "'d hw \<Rightarrow> u32 \<Rightarrow> ('d, u32 option) card_io" where
  "revision_8000 hw hwrev = bindC (iwl_pcie_prepare_card_hw hw) (\<lambda>ret. if ret \<noteq> None then retC None else
     bindC (seqC [dev (iwl_set_bit hw CSR_GP_CNTRL CSR_GP_CNTRL_REG_FLAG_INIT_DONE), dev (IODelay hw 2)]) (\<lambda>_.
     bindC (wait_clock hw) (\<lambda>ret. case ret of Inl _ \<Rightarrow> retC None
     | Inr _ \<Rightarrow> bindC (dev (c_step hw (old_format hwrev))) (\<lambda>hwrev. retC (Some hwrev)))))"

definition find_revision :: "'d hw \<Rightarrow> card_cfg \<Rightarrow> ('d, u32 option) card_io" where
  "find_revision hw c =
     bindC (iwl_disable_interrupts hw) (\<lambda>_. bindC (dev (iwl_read32 hw 0x28)) (\<lambda>hwrev.
     bindC (getC card_family) (\<lambda>fam.
     bindC (if fam \<ge> IWL_DEVICE_FAMILY_8000 then revision_8000 hw hwrev else retC (Some hwrev)) (\<lambda>r. case r of None \<Rightarrow> retC None
     | Some hwrev \<Rightarrow> bindC (whenC (integrated (cfg_hw c) \<and> fam = IWL_DEVICE_FAMILY_9000 \<and> CSR_HW_REV_STEP hwrev = 0)
           (dev (iwl_set_bit hw 0x204 0x80000))) (\<lambda>_. retC (Some hwrev))))))"

definition alloc_interrupts :: "dma_env \<Rightarrow> ('d, errno option) card_io" where
  "alloc_interrupts env = bindC (updC (\<lambda>st. st\<lparr>msix_enabled := False\<rparr>)) (\<lambda>_. bindC (iwl_pcie_alloc_ict env) (\<lambda>ret. case ret of
     Some e \<Rightarrow> retC (Some e) | None \<Rightarrow> bindC (updC (\<lambda>st. st\<lparr>inta_mask := CSR_INI_SET_MASK\<rparr>)) (\<lambda>_. retC None)))"

subsection \<open>The second generation\<close>

definition iwl_pcie_gen2_apm_init :: "'d hw \<Rightarrow> card_cfg \<Rightarrow> ('d, errno option) card_io" where
  "iwl_pcie_gen2_apm_init hw c = bindC (seqC [
     dev (iwl_set_bit hw CSR_GIO_CHICKEN_BITS 0x00800000), dev (iwl_set_bit hw CSR_DBG_HPET_MEM_REG 0xFFFF0000),
     dev (iwl_set_bit hw CSR_HW_IF_CONFIG_REG 0x00080000), iwl_pcie_apm_config hw c,
     dev (iwl_set_bit hw CSR_GP_CNTRL CSR_GP_CNTRL_REG_FLAG_INIT_DONE)]) (\<lambda>_.
     bindC (wait_clock hw) (\<lambda>ret. case ret of Inl e \<Rightarrow> retC (Some e) | Inr _ \<Rightarrow> bindC (set_status STATUS_DEVICE_ENABLED) (\<lambda>_. retC None)))"

definition iwl_pcie_gen2_apm_stop :: "'d hw \<Rightarrow> card_cfg \<Rightarrow> bool \<Rightarrow> ('d, unit) card_io" where
  "iwl_pcie_gen2_apm_stop hw c op_mode_leave =
     bindC (whenC op_mode_leave (bindC (status_is STATUS_DEVICE_ENABLED) (\<lambda>enabled.
       bindC (if enabled then retC None else iwl_pcie_gen2_apm_init hw c) (\<lambda>_. seqC [
         dev (iwl_set_bit hw CSR_DBG_LINK_PWR_MGMT_REG CSR_RESET_LINK_PWR_MGMT_DISABLED),
         dev (iwl_set_bit hw CSR_HW_IF_CONFIG_REG (CSR_HW_IF_CONFIG_REG_PREPARE OR 0x10000000)), dev (IODelay hw 1),
         dev (iwl_clear_bit hw CSR_DBG_LINK_PWR_MGMT_REG CSR_RESET_LINK_PWR_MGMT_DISABLED), dev (IODelay hw 5)])))) (\<lambda>_.
     seqC [clear_status STATUS_DEVICE_ENABLED, iwl_pcie_apm_stop_master hw, iwl_pcie_sw_reset hw,
       dev (iwl_clear_bit hw CSR_GP_CNTRL CSR_GP_CNTRL_REG_FLAG_INIT_DONE)])"

definition gen2_stop_device_locked :: "'d hw \<Rightarrow> card_cfg \<Rightarrow> msix_cfg \<Rightarrow> ('d, unit) card_io" where
  "gen2_stop_device_locked hw c x = bindC (getC is_down) (\<lambda>down. whenC (\<not> down) (
     bindC (seqC [updC (\<lambda>st. st\<lparr>is_down := True\<rparr>), iwl_disable_interrupts hw, iwl_pcie_disable_ict]) (\<lambda>_.
     bindC (take_status STATUS_DEVICE_ENABLED) (\<lambda>_. seqC [
       dev (iwl_clear_bit hw CSR_GP_CNTRL CSR_GP_CNTRL_REG_FLAG_MAC_ACCESS_REQ), iwl_pcie_gen2_apm_stop hw c False, after_stop hw c x]))))"

definition iwl_trans_pcie_gen2_stop_device :: "'d hw \<Rightarrow> card_cfg \<Rightarrow> msix_cfg \<Rightarrow> ('d, unit) card_run" where
  "iwl_trans_pcie_gen2_stop_device hw c x = stop_with hw (liftL (gen2_stop_device_locked hw c x))"

definition iwl_pcie_gen2_nic_init :: "'d start_env \<Rightarrow> 'd hw \<Rightarrow> card_cfg \<Rightarrow> ('d, errno option) card_io" where
  "iwl_pcie_gen2_nic_init env hw c = bindC (iwl_pcie_gen2_apm_init hw c) (\<lambda>_. bindC (nic_config env) (\<lambda>_.
     bindC (dev (iwl_set_bit hw CSR_MAC_SHADOW_REG_CTRL 0x800FFFFF)) (\<lambda>_. retC None)))"

definition iwl_trans_pcie_gen2_fw_alive :: "'d hw \<Rightarrow> ('d, unit) card_io" where
  "iwl_trans_pcie_gen2_fw_alive hw = iwl_pcie_reset_ict hw"

definition iwl_trans_pcie_gen2_start_fw :: "'d start_env \<Rightarrow> 'd hw \<Rightarrow> card_cfg \<Rightarrow> bool \<Rightarrow> ('d, errno option) card_run" where
  "iwl_trans_pcie_gen2_start_fw env hw c run_in_rfkill =
     start_with hw run_in_rfkill (liftL (iwl_pcie_gen2_nic_init env hw c)) (liftL (retC None))"

end
