(* ===== verification/Pcie_Laws.thy ===== *)
theory Pcie_Laws
  imports Pcie_Start Rx_Contract
begin

section \<open>States of the card the transport keeps\<close>

text \<open>
  An interface: a set of states in which the register lock is free, closed under what the device answers and under changes of the
  status word, the interrupt masks and the bookkeeping. In such states every operation of the transport that is made of register
  accesses and of such changes returns, and leaves the card in such a state.
\<close>

subsection \<open>Device actions that give the lock back\<close>

named_theorems free_intros \<open>device actions that return from states with a free register lock and change the device only\<close>
named_theorems keeps_intros \<open>steps of the card that return and keep a set of states\<close>

definition free_io :: "('d, 'a) io \<Rightarrow> bool" where
  "free_io m \<longleftrightarrow> (\<forall>s. \<not> reg_lock s \<longrightarrow> releases m s)"

lemma free_quiet: "quiet m \<Longrightarrow> free_io m"
  by (simp add: free_io_def quiet_releases)

lemma free_ret [free_intros]: "free_io (retIO x)"
  by (intro free_quiet quiet_intros)

lemma free_bind [free_intros]:
  fixes m :: "('d, 'a) io"
  assumes "free_io m" and "\<And>x. free_io (k x)"
  shows "free_io (bindIO m k)"
  unfolding free_io_def releases_def
proof (intro allI impI)
  fix s :: "'d trans" assume l: "\<not> reg_lock s"
  with assms(1) obtain x d where 1: "m s = Inr (x, s\<lparr>hw_base := d\<rparr>)" unfolding free_io_def releases_def by blast
  have "\<not> reg_lock (s\<lparr>hw_base := d\<rparr>)" using l by simp
  with assms(2) obtain y e where "k x (s\<lparr>hw_base := d\<rparr>) = Inr (y, (s\<lparr>hw_base := d\<rparr>)\<lparr>hw_base := e\<rparr>)"
    unfolding free_io_def releases_def by blast
  with 1 show "\<exists>x d. bindIO m k s = Inr (x, s\<lparr>hw_base := d\<rparr>)" by (auto simp: bindIO_def)
qed

lemma free_if [free_intros]: "free_io m \<Longrightarrow> free_io n \<Longrightarrow> free_io (if b then m else n)"
  by simp

lemma free_access [free_intros]: "quiet body \<Longrightarrow> free_io (with_nic_access hw dflt body)"
  by (simp add: free_io_def with_access_releases)

lemma free_plain [free_intros]:
  "free_io (iwl_write32 hw reg v)" "free_io (iwl_write8 hw reg b)" "free_io (iwl_read32 hw reg)" "free_io (IODelay hw us)"
  "free_io (iwl_poll_bit hw reg bits msk timeout)" "free_io (pcie_set_bit hw reg msk)"
  by (intro free_quiet quiet_intros)+

lemma free_bits [free_intros]: "free_io (iwl_set_bit hw reg msk)" "free_io (iwl_clear_bit hw reg msk)"
  by (simp_all add: free_io_def iwl_set_bit_def iwl_clear_bit_def set_bits_mask_releases)

lemma free_window [free_intros]:
  "free_io (iwl_read_prph hw reg)" "free_io (iwl_write_prph hw reg v)" "free_io (iwl_set_bits_prph hw reg v)"
  "free_io (iwl_clear_bits_prph hw reg v)" "free_io (iwl_set_bits_mask_prph hw reg v w)"
  "free_io (iwl_read_direct32 hw reg)" "free_io (iwl_write_direct32 hw reg v)"
  unfolding iwl_read_prph_def iwl_write_prph_def iwl_set_bits_prph_def iwl_clear_bits_prph_def iwl_set_bits_mask_prph_def
    iwl_read_direct32_def iwl_write_direct32_def
  by (intro free_intros quiet_intros)+

lemma free_memory [free_intros]:
  "free_io (iwl_trans_read_mem32 hw addr)" "free_io (iwl_trans_write_mem32 hw addr v)" "free_io (iwl_trans_pcie_write_mem hw addr None n)"
  unfolding iwl_trans_read_mem32_def iwl_trans_write_mem32_def iwl_trans_pcie_read_mem_def iwl_trans_pcie_write_mem_def option.case
  by (auto intro!: free_intros quiet_intros)

text \<open>A body between taking and giving back access that the code writes out itself.\<close>

lemma free_grabbed:
  assumes "quiet body" and "\<And>x. quiet (k x)"
  shows "free_io (bindIO (iwl_trans_pcie_grab_nic_access hw) (\<lambda>okay. if \<not> okay then retIO e else
    bindIO body (\<lambda>x. bindIO (iwl_trans_pcie_release_nic_access hw) (\<lambda>_. k x))))"
proof -
  have "free_io (bindIO (with_nic_access hw None (bindIO body (\<lambda>x. retIO (Some x)))) (\<lambda>r. case r of None \<Rightarrow> retIO e | Some x \<Rightarrow> k x))"
    using assms by (auto intro!: free_intros quiet_intros intro: free_quiet split: option.split)
  moreover have "bindIO (with_nic_access hw None (bindIO body (\<lambda>x. retIO (Some x)))) (\<lambda>r. case r of None \<Rightarrow> retIO e | Some x \<Rightarrow> k x)
      = bindIO (iwl_trans_pcie_grab_nic_access hw) (\<lambda>okay. if \<not> okay then retIO e else
    bindIO body (\<lambda>x. bindIO (iwl_trans_pcie_release_nic_access hw) (\<lambda>_. k x)))"
  proof (rule ext)
    fix s
    have r: "bindIO (retIO y) g = g y" for y and g :: "_ \<Rightarrow> ('a, 'c) io" by (rule ext) (simp add: bindIO_def retIO_def)
    show "bindIO (with_nic_access hw None (bindIO body (\<lambda>x. retIO (Some x)))) (\<lambda>r. case r of None \<Rightarrow> retIO e | Some x \<Rightarrow> k x) s
      = bindIO (iwl_trans_pcie_grab_nic_access hw) (\<lambda>okay. if \<not> okay then retIO e else
        bindIO body (\<lambda>x. bindIO (iwl_trans_pcie_release_nic_access hw) (\<lambda>_. k x))) s"
      unfolding with_nic_access_def bindIO_assoc
      by (rule fun_cong[where x = s], rule arg_cong[where f = "bindIO _"], rule ext)
        (auto simp: bindIO_assoc fun_eq_iff bindIO_def retIO_def bindF_def split: sum.splits)
  qed
  ultimately show ?thesis by simp
qed

subsection \<open>Steps that keep a set of states\<close>

definition keeps :: "('d card \<Rightarrow> bool) \<Rightarrow> ('d, 'a) card_io \<Rightarrow> bool" where
  "keeps P m \<longleftrightarrow> (\<forall>st. P st \<longrightarrow> (\<exists>x st'. m st = Inr (x, st') \<and> P st'))"

definition keepsL :: "('d card \<Rightarrow> bool) \<Rightarrow> ('d, 'a) card_run \<Rightarrow> bool" where
  "keepsL P m \<longleftrightarrow> (\<forall>st. P st \<longrightarrow> (\<exists>x st'. m st = Some (Inr (x, st')) \<and> P st'))"

lemma keepsE:
  assumes "keeps P m" and "P st"
  obtains x st' where "m st = Inr (x, st')" and "P st'"
  using assms unfolding keeps_def by blast

lemma keeps_ret [keeps_intros]: "keeps P (retC x)"
  by (simp add: keeps_def retC_def)

lemma keeps_get [keeps_intros]: "keeps P (getC f)"
  by (simp add: keeps_def getC_def)

lemma keeps_upd: "(\<And>st. P st \<Longrightarrow> P (f st)) \<Longrightarrow> keeps P (updC f)"
  by (simp add: keeps_def updC_def)

lemma keeps_bind [keeps_intros]:
  assumes "keeps P m" and "\<And>x. keeps P (k x)"
  shows "keeps P (bindC m k)"
  unfolding keeps_def
proof (intro allI impI)
  fix st assume "P st"
  with assms(1) obtain x st1 where 1: "m st = Inr (x, st1)" "P st1" by (rule keepsE)
  from assms(2) 1(2) obtain y st2 where "k x st1 = Inr (y, st2)" "P st2" by (rule keepsE)
  with 1(1) show "\<exists>x st'. bindC m k st = Inr (x, st') \<and> P st'" by (simp add: bindC_def)
qed

lemma keeps_seq [keeps_intros]: "list_all (keeps P) ms \<Longrightarrow> keeps P (seqC ms)"
  by (induction ms) (auto intro: keeps_intros)

lemma keeps_all [keeps_intros]: "list_all (keeps P) []" "keeps P m \<Longrightarrow> list_all (keeps P) ms \<Longrightarrow> list_all (keeps P) (m # ms)"
  "list_all (keeps P) ms \<Longrightarrow> list_all (keeps P) ns \<Longrightarrow> list_all (keeps P) (ms @ ns)"
  "(\<And>x. keeps P (g x)) \<Longrightarrow> list_all (keeps P) (map g xs)"
  by (auto simp: list_all_iff)

lemma keeps_when [keeps_intros]: "(b \<Longrightarrow> keeps P m) \<Longrightarrow> keeps P (whenC b m)"
  by (auto simp: whenC_def keeps_ret)

lemma keeps_if [keeps_intros]: "(b \<Longrightarrow> keeps P m) \<Longrightarrow> (\<not> b \<Longrightarrow> keeps P n) \<Longrightarrow> keeps P (if b then m else n)"
  by simp

lemma keeps_cases [keeps_intros]:
  "keeps P m \<Longrightarrow> (\<And>x. keeps P (k x)) \<Longrightarrow> keeps P (case r of None \<Rightarrow> m | Some x \<Rightarrow> k x)"
  "(\<And>x. keeps P (f x)) \<Longrightarrow> (\<And>y. keeps P (g y)) \<Longrightarrow> keeps P (case s of Inl x \<Rightarrow> f x | Inr y \<Rightarrow> g y)"
  by (simp_all split: option.split sum.split)

lemma keepsL_lift [keeps_intros]: "keeps P m \<Longrightarrow> keepsL P (liftL m)"
  by (simp add: keeps_def keepsL_def liftL_def)

lemma keepsL_bind [keeps_intros]:
  assumes "keepsL P m" and "\<And>x. keepsL P (k x)"
  shows "keepsL P (bindL m k)"
  unfolding keepsL_def
proof (intro allI impI)
  fix st assume "P st"
  with assms(1) obtain x st1 where 1: "m st = Some (Inr (x, st1))" "P st1" unfolding keepsL_def by blast
  from assms(2) 1(2) obtain y st2 where "k x st1 = Some (Inr (y, st2))" "P st2" unfolding keepsL_def by blast
  with 1(1) show "\<exists>x st'. bindL m k st = Some (Inr (x, st')) \<and> P st'" by (simp add: bindL_def thenC_def)
qed

lemma keepsL_when [keeps_intros]: "(b \<Longrightarrow> keepsL P m) \<Longrightarrow> keepsL P (whenL b m)"
  by (auto simp: whenL_def intro: keeps_intros)

lemma keepsL_if [keeps_intros]: "(b \<Longrightarrow> keepsL P m) \<Longrightarrow> (\<not> b \<Longrightarrow> keepsL P n) \<Longrightarrow> keepsL P (if b then m else n)"
  by simp

lemma keepsL_cases [keeps_intros]:
  "keepsL P m \<Longrightarrow> (\<And>x. keepsL P (k x)) \<Longrightarrow> keepsL P (case r of None \<Rightarrow> m | Some x \<Rightarrow> k x)"
  "keepsL P m \<Longrightarrow> keepsL P (unless_error r m)"
  by (auto simp: unless_error_def intro: keeps_intros split: option.split)

subsection \<open>The interface\<close>

definition with_status :: "u64 \<Rightarrow> 'd card \<Rightarrow> 'd card" where
  "with_status w st = st\<lparr>card_rx := (card_rx st)\<lparr>rx_cmdq := (rx_cmdq (card_rx st))\<lparr>cq_status := w\<rparr>\<rparr>\<rparr>"

definition with_device :: "'d \<Rightarrow> 'd card \<Rightarrow> 'd card" where
  "with_device d st = put_pcie ((card_pcie st)\<lparr>pcie_trans := (pcie_trans (card_pcie st))\<lparr>hw_base := d\<rparr>\<rparr>) st"

locale card_states =
  fixes P :: "'d card \<Rightarrow> bool"
  assumes law_free: "P st \<Longrightarrow> \<not> reg_lock (pcie_trans (card_pcie st))"
    and law_device: "P st \<Longrightarrow> P (with_device d st)"
    and law_status: "P st \<Longrightarrow> P (with_status w st)"
    and law_masks: "P st \<Longrightarrow> P (st\<lparr>inta_mask := m1, fh_init_mask := m2, hw_init_mask := m3, fh_mask := m4, hw_mask := m5\<rparr>)"
    and law_books: "P st \<Longrightarrow> P (st\<lparr>isr_stats := s, pm_support := b, ucode_write_complete := u, rfkill_reports := r\<rparr>)"
begin

lemma keeps_dev [keeps_intros]:
  assumes "free_io m"
  shows "keeps P (dev m)"
  unfolding keeps_def
proof (intro allI impI)
  fix st assume st: "P st"
  with assms obtain x d where "m (pcie_trans (card_pcie st)) = Inr (x, (pcie_trans (card_pcie st))\<lparr>hw_base := d\<rparr>)"
    using law_free[OF st] by (auto simp: free_io_def releases_def)
  then have "dev m st = Inr (x, with_device d st)"
    by (simp add: dev_def rx_on_dev_def on_dev_def card_pcie_def with_device_def put_pcie_def)
  then show "\<exists>x st'. dev m st = Inr (x, st') \<and> P st'" using law_device[OF st] by blast
qed

lemma set_status_keeps: "n < 64 \<Longrightarrow> keeps P (set_status n)"
  unfolding keeps_def
proof (intro allI impI)
  fix st assume "n < 64" "P st"
  from status_set[OF this(1), of "rx_cmdq (card_rx st)"] law_status[OF this(2)]
  show "\<exists>x st'. set_status n st = Inr (x, st') \<and> P st'" by (fastforce simp: set_status_def with_status_def)
qed

lemma clear_status_keeps: "n < 64 \<Longrightarrow> keeps P (clear_status n)"
  unfolding keeps_def
proof (intro allI impI)
  fix st assume "n < 64" "P st"
  from status_clear[OF this(1), of "rx_cmdq (card_rx st)"] law_status[OF this(2)]
  show "\<exists>x st'. clear_status n st = Inr (x, st') \<and> P st'" by (fastforce simp: clear_status_def with_status_def)
qed

lemma status_is_keeps: "n < 32 \<Longrightarrow> keeps P (status_is n)"
  by (simp add: keeps_def status_is_def status_read)

lemma take_status_keeps: "n < 64 \<Longrightarrow> keeps P (take_status n)"
  unfolding keeps_def
proof (intro allI impI)
  fix st assume "n < 64" "P st"
  then have "take_status n st = Inr (cq_status (rx_cmdq (card_rx st)) AND push_bit n 1 \<noteq> 0,
      with_status (cq_status (rx_cmdq (card_rx st)) AND NOT (push_bit n 1)) st)"
    by (simp add: take_status_def test_and_clear_bit_def BIT_WORD_def BIT_MASK_def Let_def with_status_def)
  then show "\<exists>x st'. take_status n st = Inr (x, st') \<and> P st'" using law_status[OF \<open>P st\<close>] by blast
qed

lemma status_keeps [keeps_intros]:
  "keeps P (set_status STATUS_DEVICE_ENABLED)" "keeps P (set_status STATUS_INT_ENABLED)" "keeps P (set_status STATUS_RFKILL_HW)"
  "keeps P (set_status STATUS_RFKILL_OPMODE)"
  "keeps P (clear_status STATUS_DEVICE_ENABLED)" "keeps P (clear_status STATUS_INT_ENABLED)" "keeps P (clear_status STATUS_RFKILL_HW)"
  "keeps P (clear_status STATUS_RFKILL_OPMODE)" "keeps P (clear_status STATUS_SYNC_HCMD_ACTIVE)" "keeps P (clear_status STATUS_TPOWER_PMI)"
  "keeps P (status_is STATUS_DEVICE_ENABLED)" "keeps P (status_is STATUS_INT_ENABLED)" "keeps P (status_is STATUS_RFKILL_OPMODE)"
  "keeps P (take_status STATUS_DEVICE_ENABLED)"
  by (rule set_status_keeps clear_status_keeps status_is_keeps take_status_keeps,
    simp add: STATUS_DEVICE_ENABLED_def STATUS_INT_ENABLED_def STATUS_RFKILL_HW_def STATUS_RFKILL_OPMODE_def STATUS_SYNC_HCMD_ACTIVE_def
      STATUS_TPOWER_PMI_def)+

lemma masks_keep [keeps_intros]:
  "keeps P (updC (\<lambda>st. st\<lparr>inta_mask := m st\<rparr>))" "keeps P (updC (\<lambda>st. st\<lparr>hw_mask := m st, fh_mask := m' st\<rparr>))"
  "keeps P (updC (\<lambda>st. st\<lparr>hw_mask := m st\<rparr>))" "keeps P (updC (\<lambda>st. st\<lparr>fh_mask := m st\<rparr>))"
  "keeps P (updC (\<lambda>st. st\<lparr>fh_init_mask := m st, fh_mask := m' st\<rparr>))" "keeps P (updC (\<lambda>st. st\<lparr>hw_init_mask := m st, hw_mask := m' st\<rparr>))"
proof -
  have u: "st\<lparr>inta_mask := v\<rparr> = st\<lparr>inta_mask := v, fh_init_mask := fh_init_mask st, hw_init_mask := hw_init_mask st, fh_mask := fh_mask st, hw_mask := hw_mask st\<rparr>"
    "st\<lparr>hw_mask := v, fh_mask := w\<rparr> = st\<lparr>inta_mask := inta_mask st, fh_init_mask := fh_init_mask st, hw_init_mask := hw_init_mask st, fh_mask := w, hw_mask := v\<rparr>"
    "st\<lparr>hw_mask := v\<rparr> = st\<lparr>inta_mask := inta_mask st, fh_init_mask := fh_init_mask st, hw_init_mask := hw_init_mask st, fh_mask := fh_mask st, hw_mask := v\<rparr>"
    "st\<lparr>fh_mask := v\<rparr> = st\<lparr>inta_mask := inta_mask st, fh_init_mask := fh_init_mask st, hw_init_mask := hw_init_mask st, fh_mask := v, hw_mask := hw_mask st\<rparr>"
    "st\<lparr>fh_init_mask := v, fh_mask := w\<rparr> = st\<lparr>inta_mask := inta_mask st, fh_init_mask := v, hw_init_mask := hw_init_mask st, fh_mask := w, hw_mask := hw_mask st\<rparr>"
    "st\<lparr>hw_init_mask := v, hw_mask := w\<rparr> = st\<lparr>inta_mask := inta_mask st, fh_init_mask := fh_init_mask st, hw_init_mask := v, fh_mask := fh_mask st, hw_mask := w\<rparr>"
    for st :: "'d card" and v w by simp_all
  show "keeps P (updC (\<lambda>st. st\<lparr>inta_mask := m st\<rparr>))" by (rule keeps_upd, subst u(1)) (rule law_masks)
  show "keeps P (updC (\<lambda>st. st\<lparr>hw_mask := m st, fh_mask := m' st\<rparr>))" by (rule keeps_upd, subst u(2)) (rule law_masks)
  show "keeps P (updC (\<lambda>st. st\<lparr>hw_mask := m st\<rparr>))" by (rule keeps_upd, subst u(3)) (rule law_masks)
  show "keeps P (updC (\<lambda>st. st\<lparr>fh_mask := m st\<rparr>))" by (rule keeps_upd, subst u(4)) (rule law_masks)
  show "keeps P (updC (\<lambda>st. st\<lparr>fh_init_mask := m st, fh_mask := m' st\<rparr>))" by (rule keeps_upd, subst u(5)) (rule law_masks)
  show "keeps P (updC (\<lambda>st. st\<lparr>hw_init_mask := m st, hw_mask := m' st\<rparr>))" by (rule keeps_upd, subst u(6)) (rule law_masks)
qed

lemma books_keep [keeps_intros]:
  "keeps P (updC (\<lambda>st. st\<lparr>pm_support := b\<rparr>))" "keeps P (updC (\<lambda>st. st\<lparr>ucode_write_complete := b\<rparr>))"
  "keeps P (count_stat k)" "keeps P (iwl_trans_pcie_rf_kill b)"
proof -
  have u: "st\<lparr>isr_stats := f st\<rparr> = st\<lparr>isr_stats := f st, pm_support := pm_support st, ucode_write_complete := ucode_write_complete st, rfkill_reports := rfkill_reports st\<rparr>"
    "st\<lparr>pm_support := b\<rparr> = st\<lparr>isr_stats := isr_stats st, pm_support := b, ucode_write_complete := ucode_write_complete st, rfkill_reports := rfkill_reports st\<rparr>"
    "st\<lparr>ucode_write_complete := b\<rparr> = st\<lparr>isr_stats := isr_stats st, pm_support := pm_support st, ucode_write_complete := b, rfkill_reports := rfkill_reports st\<rparr>"
    "st\<lparr>rfkill_reports := r\<rparr> = st\<lparr>isr_stats := isr_stats st, pm_support := pm_support st, ucode_write_complete := ucode_write_complete st, rfkill_reports := r\<rparr>"
    for st :: "'d card" and b r f by simp_all
  show "keeps P (updC (\<lambda>st. st\<lparr>pm_support := b\<rparr>))" by (rule keeps_upd, subst u(2)) (rule law_books)
  show "keeps P (updC (\<lambda>st. st\<lparr>ucode_write_complete := b\<rparr>))" by (rule keeps_upd, subst u(3)) (rule law_books)
  show "keeps P (count_stat k)" unfolding count_stat_def by (rule keeps_upd, subst u(1)) (rule law_books)
  show "keeps P (iwl_trans_pcie_rf_kill b)" unfolding iwl_trans_pcie_rf_kill_def by (rule keeps_upd, subst u(4)) (rule law_books)
qed

lemma interrupts_keep [keeps_intros]:
  "keeps P (iwl_disable_interrupts hw)" "keeps P (iwl_enable_interrupts hw)" "keeps P (iwl_enable_fw_load_int hw)" "keeps P (iwl_enable_rfkill_int hw)"
  unfolding iwl_disable_interrupts_def iwl_enable_interrupts_def iwl_enable_fw_load_int_def iwl_enable_rfkill_int_def set_inta_mask_def
    iwl_enable_fh_int_msk_msix_def iwl_enable_hw_int_msk_msix_def
  by (auto intro!: keeps_intros free_intros)

lemma switch_keeps [keeps_intros]:
  "keeps P (iwl_is_rfkill_set hw)" "keeps P (iwl_pcie_check_hw_rf_kill hw)" "keeps P (iwl_trans_pcie_handle_stop_rfkill hw was)"
  unfolding iwl_is_rfkill_set_def iwl_pcie_check_hw_rf_kill_def iwl_trans_pcie_handle_stop_rfkill_def
  by (auto intro!: keeps_intros free_intros)

lemma power_keeps [keeps_intros]:
  "keeps P (iwl_pcie_sw_reset hw)" "keeps P (iwl_trans_pcie_read_shr hw reg)" "keeps P (iwl_trans_pcie_write_shr hw reg v)"
  "keeps P (iwl_pcie_set_pwr hw c vaux)" "keeps P (iwl_pcie_apm_config hw c)" "keeps P (wait_clock hw)" "keeps P (iwl_pcie_apm_stop_master hw)"
  unfolding iwl_pcie_sw_reset_def iwl_trans_pcie_read_shr_def iwl_trans_pcie_write_shr_def iwl_pcie_set_pwr_def iwl_pcie_apm_config_def
    wait_clock_def iwl_pcie_apm_stop_master_def
  by (intro keeps_intros free_intros)+

lemma apm_keeps [keeps_intros]:
  "keeps P (iwl_pcie_apm_init hw c)" "keeps P (iwl_pcie_apm_lp_xtal_enable hw)" "keeps P (iwl_pcie_gen2_apm_init hw c)"
  unfolding iwl_pcie_apm_init_def iwl_pcie_apm_lp_xtal_enable_def iwl_pcie_gen2_apm_init_def
  by (intro keeps_intros free_intros)+

lemma apm_stop_keeps [keeps_intros]: "keeps P (iwl_pcie_apm_stop hw c b)" "keeps P (iwl_pcie_gen2_apm_stop hw c b)"
  unfolding iwl_pcie_apm_stop_def iwl_pcie_gen2_apm_stop_def
  by (intro keeps_intros free_intros)+

lemma ready_keeps [keeps_intros]: "keeps P (iwl_pcie_set_hw_ready hw)"
  unfolding iwl_pcie_set_hw_ready_def by (intro keeps_intros free_intros)

lemma ready_loop_keeps [keeps_intros]: "keeps P (ready_loop hw t)"
proof -
  have "P st \<Longrightarrow> \<exists>x st'. ready_loop hw t st = Inr (x, st') \<and> P st'" for st
  proof (induction hw t st rule: ready_loop.induct)
    case (1 hw t st)
    obtain ret st1 where r: "iwl_pcie_set_hw_ready hw st = Inr (ret, st1)" "P st1" using ready_keeps 1(2) by (rule keepsE)
    have "keeps P (dev (IODelay hw 1000))" by (intro keeps_intros free_intros)
    then obtain u st2 where d: "dev (IODelay hw 1000) st1 = Inr (u, st2)" "P st2" using r(2) by (rule keepsE)
    show ?case
    proof (cases ret)
      case (Inl e)
      have "\<exists>x st'. ready_loop hw (t + 200) st2 = Inr (x, st') \<and> P st'" if "t + 200 < 150000"
        using "1.IH"[OF r(1) refl Inl d(1) refl that d(2)] .
      then show ?thesis using r d Inl by (subst ready_loop.simps) auto
    qed (use r in \<open>subst ready_loop.simps, auto\<close>)
  qed
  then show ?thesis by (simp add: keeps_def)
qed

lemma prepare_loop_keeps [keeps_intros]: "keeps P (prepare_loop hw n t e)"
  by (induction hw n t e rule: prepare_loop.induct) (auto intro!: keeps_intros free_intros)

lemma prepare_keeps [keeps_intros]: "keeps P (iwl_pcie_prepare_card_hw hw)"
  unfolding iwl_pcie_prepare_card_hw_def by (intro keeps_intros free_intros)

lemma vectors_keep [keeps_intros]:
  "keeps P (iwl_pcie_map_rx_causes hw x)" "keeps P (iwl_pcie_map_non_rx_causes hw x)" "keeps P (iwl_pcie_conf_msix_hw hw c x)"
  "keeps P (iwl_pcie_init_msix hw c x)"
proof -
  show r: "keeps P (iwl_pcie_map_rx_causes hw x)" "keeps P (iwl_pcie_map_non_rx_causes hw x)"
    unfolding iwl_pcie_map_rx_causes_def iwl_pcie_map_non_rx_causes_def Let_def causes_list_def by (auto intro!: keeps_intros free_intros)
  show m: "keeps P (iwl_pcie_conf_msix_hw hw c x)"
    unfolding iwl_pcie_conf_msix_hw_def by (intro keeps_intros free_intros r)
  show "keeps P (iwl_pcie_init_msix hw c x)"
    unfolding iwl_pcie_init_msix_def by (intro keeps_intros free_intros m)
qed

lemma after_stop_keeps [keeps_intros]: "keeps P (after_stop hw c x)"
  unfolding after_stop_def by (intro keeps_intros)

end

subsection \<open>A card\<close>

text \<open>A card of the 7000 family that is held awake, with the mutex taken.\<close>

definition card_demo :: "unit card" where
  "card_demo = \<lparr>card_rx = rx_demo\<lparr>rx_cmdq := (rx_cmdq rx_demo)\<lparr>cq_pcie := (cq_pcie (rx_cmdq rx_demo))\<lparr>pcie_trans :=
       (pcie_trans (cq_pcie (rx_cmdq rx_demo)))\<lparr>reg_lock := False, cmd_hold_nic_awake := True, family := IWL_DEVICE_FAMILY_7000\<rparr>\<rparr>\<rparr>\<rparr>,
     txq_memory = False, cmd_txq_live = False, txq_at = Map.empty, txq_rest = (\<lambda>_. zero_more), queue_used = (\<lambda>_. False),
     queue_stopped = (\<lambda>_. False), kw_buf = None, scd_bc = None, scd_base = 0, ict_tbl = None, ict_tbl_dma = 0, ict_index = 0, use_ict = False,
     is_down = False, opmode_down = False, debug_rfkill = False, isr_stats = (\<lambda>_. 0), card_mutex = True, inta_mask = 0, msix_enabled = False,
     fh_init_mask = 0, hw_init_mask = 0, fh_mask = 0, hw_mask = 0, ucode_write_complete = False, pm_support = False, rfkill_reports = [],
     uploads = []\<rparr>"

definition card_cfg_demo :: card_cfg where
  "card_cfg_demo = \<lparr>cfg_rx = rx_demo_cfg, cfg_hw = rx_demo_hw_cfg False, pll_cfg = False, lp_xtal_workaround = False, gen2 = False,
     use_tfh = False, isr_debug = False, link_caps = None, num_of_queues = 5, scd_chain_ext_wa = False, cmd_fifo = 7, cmd_q_wdg_timeout = 0,
     scd_set_active = False\<rparr>"

end
