(* ===== verification/Fw_Upload.thy ===== *)
theory Fw_Upload
  imports Pcie_Laws
begin

section \<open>What the loader sends\<close>

text \<open>
  The transfers the loader starts are, for the sections of the firmware file in the order of the two processors, the chunks of each
  section, one after the other and without a gap. A run that ends early has sent a prefix of them.
\<close>

subsection \<open>The states, as an instance of the interface\<close>

text \<open>The register lock is free, the device of this family is (or is not) held awake, and this is what was sent so far.\<close>

definition sent :: "bool \<Rightarrow> iwl_device_family \<Rightarrow> (u32 \<times> u8 list) list \<Rightarrow> 'd card \<Rightarrow> bool" where
  "sent b f U st \<longleftrightarrow> \<not> reg_lock (pcie_trans (card_pcie st)) \<and> cmd_hold_nic_awake (pcie_trans (card_pcie st)) = b \<and>
     card_family st = f \<and> uploads st = U"

interpretation loader: card_states "sent b f U"
  by unfold_locales (simp_all add: sent_def with_device_def with_status_def card_pcie_def put_pcie_def card_family_def)

text \<open>\<open>sends b f good U ups ret st\<close>: what a step that started with \<open>U\<close> has done when it returned \<open>ret\<close>: without an error it has sent \<open>ups\<close>, otherwise a prefix, and not when all is \<open>good\<close>.\<close>

definition sends :: "bool \<Rightarrow> iwl_device_family \<Rightarrow> bool \<Rightarrow> (u32 \<times> u8 list) list \<Rightarrow> (u32 \<times> u8 list) list \<Rightarrow> errno option \<Rightarrow> 'd card \<Rightarrow> bool" where
  "sends b f good U ups ret st \<longleftrightarrow> (\<exists>V. sent b f (U @ V) st \<and> (if ret = None then V = ups else (\<exists>W. ups = V @ W) \<and> \<not> (b \<and> good)))"

definition loads_good :: "load_env \<Rightarrow> bool" where
  "loads_good env \<longleftrightarrow> (\<forall>n. chunk_wait env n = None \<or> chunk_wait env n = Some THREAD_AWAKENED) \<and> (\<forall>n. section_buf env n \<noteq> No_segment)"

subsection \<open>One chunk\<close>

lemma grab_sent:
  assumes "sent b f U st"
  shows "\<exists>got st'. dev (iwl_trans_pcie_grab_nic_access hw) st = Inr (got, st') \<and> (b \<longrightarrow> got) \<and> uploads st' = U
     \<and> cmd_hold_nic_awake (pcie_trans (card_pcie st')) = b \<and> reg_lock (pcie_trans (card_pcie st')) = got \<and> card_family st' = f"
proof -
  let ?s = "pcie_trans (card_pcie st)"
  have free: "\<not> reg_lock ?s" and hold: "cmd_hold_nic_awake ?s = b" and up: "uploads st = U" and fam: "card_family st = f" using assms by (simp_all add: sent_def)
  obtain d where "iwl_trans_pcie_grab_nic_access hw ?s = Inr (True, ?s\<lparr>hw_base := d, reg_lock := True\<rparr>)
      \<or> iwl_trans_pcie_grab_nic_access hw ?s = Inr (False, ?s\<lparr>hw_base := d\<rparr>) \<and> \<not> b"
    using grab_cases[OF free, of hw] hold free
    by (cases b) (auto simp: iwl_trans_pcie_grab_nic_access_def bindIO_def IOSimpleLockLockDisableInterrupt_def)
  then show ?thesis using free hold up fam
    by (auto simp: dev_def rx_on_dev_def on_dev_def card_pcie_def card_family_def)
qed

lemma locked_steps:
  assumes "quiet m" and "reg_lock (pcie_trans (card_pcie st))"
  shows "\<exists>x d. dev m st = Inr (x, with_device d st)"
proof -
  obtain x d where "m (pcie_trans (card_pcie st)) = Inr (x, (pcie_trans (card_pcie st))\<lparr>hw_base := d\<rparr>)" using assms(1) unfolding quiet_def by blast
  then show ?thesis by (auto simp: dev_def rx_on_dev_def on_dev_def card_pcie_def with_device_def put_pcie_def)
qed

lemma with_device_fields: "uploads (with_device d st) = uploads st" "reg_lock (pcie_trans (card_pcie (with_device d st))) = reg_lock (pcie_trans (card_pcie st))"
    "cmd_hold_nic_awake (pcie_trans (card_pcie (with_device d st))) = cmd_hold_nic_awake (pcie_trans (card_pcie st))"
    "with_device d (with_device e st) = with_device d st" "card_family (with_device d st) = card_family st"
  by (simp_all add: with_device_def card_pcie_def put_pcie_def card_family_def)

lemma locked_seq:
  fixes st :: "'d card"
  assumes "\<forall>m \<in> set ms. quiet m" and "reg_lock (pcie_trans (card_pcie st))"
  shows "\<exists>d. seqC (map dev ms) st = Inr ((), with_device d st)"
  using assms
proof (induction ms arbitrary: st)
  case Nil
  have "with_device (hw_base (pcie_trans (card_pcie st))) st = st" by (simp add: with_device_def card_pcie_def put_pcie_def)
  then show ?case by (metis list.map(1) seqC.simps(1) retC_def)
next
  case (Cons m ms)
  obtain x d where 1: "dev m st = Inr (x, with_device d st)" using locked_steps[of m st] Cons.prems by auto
  have "reg_lock (pcie_trans (card_pcie (with_device d st)))" using Cons.prems(2) by (simp add: with_device_fields)
  with Cons.IH[of "with_device d st"] Cons.prems(1) obtain e where "seqC (map dev ms) (with_device d st) = Inr ((), with_device e (with_device d st))" by auto
  then show ?case using 1 by (auto simp: bindC_def with_device_fields)
qed

lemma release_sent:
  assumes "reg_lock (pcie_trans (card_pcie st))"
  shows "\<exists>st'. dev (iwl_trans_pcie_release_nic_access hw) st = Inr ((), st') \<and> uploads st' = uploads st
     \<and> cmd_hold_nic_awake (pcie_trans (card_pcie st')) = cmd_hold_nic_awake (pcie_trans (card_pcie st)) \<and> \<not> reg_lock (pcie_trans (card_pcie st')) \<and> card_family st' = card_family st"
proof -
  obtain d where "iwl_trans_pcie_release_nic_access hw (pcie_trans (card_pcie st)) = Inr ((), (pcie_trans (card_pcie st))\<lparr>hw_base := d, reg_lock := False\<rparr>)"
    using release_unlocks[OF assms, of hw] by blast
  then show ?thesis by (simp add: dev_def rx_on_dev_def on_dev_def card_pcie_def card_family_def)
qed

lemma chunk_sent:
  assumes "sent b f U st"
  shows "\<exists>ret st'. load_firmware_chunk env hw dst phys bs st = Inr (ret, st') \<and> sends b f (loads_good env) U [(dst, bs)] ret st'"
proof -
  define st0 where "st0 = st\<lparr>ucode_write_complete := False\<rparr>"
  have "sent b f U st0" using assms by (simp add: st0_def sent_def card_pcie_def card_family_def)
  with grab_sent[of b f U st0 hw] obtain got st1 where
    1: "dev (iwl_trans_pcie_grab_nic_access hw) st0 = Inr (got, st1)" "b \<longrightarrow> got" "uploads st1 = U"
       "cmd_hold_nic_awake (pcie_trans (card_pcie st1)) = b" "reg_lock (pcie_trans (card_pcie st1)) = got" "card_family st1 = f" by blast
  show ?thesis
  proof (cases got)
    case False
    have "load_firmware_chunk env hw dst phys bs st = Inr (Some EIO, st1)"
      using 1(1) False by (simp add: load_firmware_chunk_def bindC_def updC_def st0_def[symmetric] retC_def)
    moreover have "sends b f (loads_good env) U [(dst, bs)] (Some EIO) st1"
      using 1 False by (auto simp: sends_def sent_def intro!: exI[of _ "[]"])
    ultimately show ?thesis by blast
  next
    case True
    let ?ms = "[iwl_write32 hw FH_SRVC_TX_CONFIG 0, iwl_write32 hw FH_SRVC_SRAM_ADDR dst, iwl_write32 hw FH_SRVC_TFDIB_CTRL0 (ucast phys),
        iwl_write32 hw FH_SRVC_TFDIB_CTRL1 (push_bit 28 (ucast (drop_bit 32 phys AND 0xF)) OR of_nat (length bs)),
        iwl_write32 hw FH_SRVC_TX_BUF_STS 0x00101003, iwl_write32 hw FH_SRVC_TX_CONFIG 0x80100000]"
    obtain d where 2: "load_firmware_chunk_fh hw dst phys (of_nat (length bs)) st1 = Inr ((), with_device d st1)"
      using locked_seq[of ?ms st1] 1(5) True by (auto simp: load_firmware_chunk_fh_def intro: quiet_prims)
    obtain st2 where 3: "dev (iwl_trans_pcie_release_nic_access hw) (with_device d st1) = Inr ((), st2)" "uploads st2 = U"
        "cmd_hold_nic_awake (pcie_trans (card_pcie st2)) = b" "\<not> reg_lock (pcie_trans (card_pcie st2))" "card_family st2 = f"
      using release_sent[of "with_device d st1" hw] 1 True by (auto simp: with_device_fields)
    let ?w = "chunk_wait env (length U)"
    let ?ok = "?w = None \<or> ?w = Some THREAD_AWAKENED"
    let ?st = "st2\<lparr>uploads := U @ [(dst, bs)], ucode_write_complete := ?ok\<rparr>"
    have "load_firmware_chunk env hw dst phys bs st = Inr (if ?ok then None else Some ETIMEDOUT, ?st)"
      using 1(1) True 2 3(1,2) by (simp add: load_firmware_chunk_def bindC_def updC_def getC_def st0_def[symmetric] retC_def)
    moreover have "sends b f (loads_good env) U [(dst, bs)] (if ?ok then None else Some ETIMEDOUT) ?st"
    proof -
      have "sent b f (U @ [(dst, bs)]) ?st" using 3 by (simp add: sent_def card_pcie_def card_family_def)
      moreover have "\<not> ?ok \<Longrightarrow> \<not> loads_good env" unfolding loads_good_def by blast
      ultimately show ?thesis unfolding sends_def by auto
    qed
    ultimately show ?thesis by blast
  qed
qed

subsection \<open>One section\<close>

text \<open>The reference: a block of bytes cut into chunks of a size, each with the address it goes to.\<close>

function chunks :: "nat \<Rightarrow> u32 \<Rightarrow> u8 list \<Rightarrow> (u32 \<times> u8 list) list" where
  "chunks k dst bs = (if k = 0 \<or> bs = [] then [] else (dst, take k bs) # chunks k (dst + of_nat k) (drop k bs))"
  by pat_completeness auto
termination by (relation "measure (\<lambda>(k, dst, bs). length bs)") auto

declare chunks.simps [simp del, code]

lemma chunks_bytes: "0 < k \<Longrightarrow> concat (map snd (chunks k dst bs)) = bs"
proof (induction k dst bs rule: chunks.induct)
  case (1 k dst bs)
  then show ?case by (subst chunks.simps) simp
qed

lemma chunks_sizes: "(a, piece) \<in> set (chunks k dst bs) \<Longrightarrow> 0 < length piece \<and> length piece \<le> k"
proof (induction k dst bs rule: chunks.induct)
  case (1 k dst bs)
  from 1(2) have ne: "k \<noteq> 0" "bs \<noteq> []" by (subst (asm) chunks.simps, simp split: if_splits)+
  from 1(2) consider "piece = take k bs" | "(a, piece) \<in> set (chunks k (dst + of_nat k) (drop k bs))"
    using ne by (subst (asm) chunks.simps) auto
  then show ?case using 1(1) ne by cases auto
qed

lemma chunks_single: "bs \<noteq> [] \<Longrightarrow> length bs \<le> k \<Longrightarrow> chunks k dst bs = [(dst, bs)]"
  by (cases "k = 0") (simp_all add: chunks.simps[of k dst bs] chunks.simps[of _ _ "[]"])

lemma chunks_cut: "chunks (min K (length bs)) dst bs = chunks K dst bs"
proof (cases "length bs \<le> K \<and> bs \<noteq> []")
  case True
  then show ?thesis by (simp add: min_def chunks_single)
next
  case False
  then show ?thesis by (cases "bs = []") (simp_all add: min_def chunks.simps[of _ dst "[]"])
qed

lemma chunk_bounds:
  fixes len :: u64 and off k :: u32
  assumes "unat len \<le> 0xFFFE0000" and "ucast off < len" and "k = min FH_MEM_TB_MAX_LENGTH (ucast len)"
  shows "unat (min k (ucast (len - ucast off))) = min (unat k) (unat len - unat off)"
    and "unat (off + k) = unat off + unat k" and "0 < unat k" and "unat off < unat len"
proof -
  have o: "unat (ucast off :: u64) = unat off" by (rule unat_ucast_32_64)
  then show less: "unat off < unat len" using assms(2) by (simp add: word_less_nat_alt)
  have d: "unat (len - ucast off) = unat len - unat off" using less o by (simp add: unat_sub word_le_nat_alt)
  have small: "unat (ucast (w :: u64) :: u32) = unat w" if "unat w \<le> 0xFFFE0000" for w
    using that by (simp add: unsigned_ucast_eq take_bit_eq_mod)
  have mn: "unat (min x y) = min (unat x) (unat y)" for x y :: u32 by (simp add: min_def word_le_nat_alt)
  have k: "unat k = min 0x20000 (unat len)" using assms(1,3) by (simp add: mn small FH_MEM_TB_MAX_LENGTH_def)
  show "0 < unat k" using k less by simp
  show "unat (min k (ucast (len - ucast off))) = min (unat k) (unat len - unat off)" using assms(1) d by (simp add: mn small)
  have "unat off + unat k < 4294967296" using k less assms(1) by linarith
  then show "unat (off + k) = unat off + unat k" by (simp add: unat_word_ariths)
qed

lemma chunk_size: "unat len \<le> 0xFFFE0000 \<Longrightarrow> unat (min FH_MEM_TB_MAX_LENGTH (ucast (len :: u64))) = min 0x20000 (unat len)"
  by (simp add: min_def word_le_nat_alt FH_MEM_TB_MAX_LENGTH_def unsigned_ucast_eq take_bit_eq_mod)

text \<open>How the parts of a transfer compose.\<close>

lemma sends_none: "sends b f g U ups None st \<Longrightarrow> sent b f (U @ ups) st"
  by (simp add: sends_def)

lemma sends_nothing: "sent b f U st \<Longrightarrow> sends b f g U [] None st"
  by (simp add: sends_def)

lemma sends_then: "sends b f g (U @ ups) vps ret st \<Longrightarrow> sends b f g U (ups @ vps) ret st"
  by (auto simp: sends_def split: if_splits)

lemma sends_failed: "sends b f g U ups (Some e) st \<Longrightarrow> sends b f g U (ups @ vps) (Some e) st"
  by (auto simp: sends_def)

lemma sends_keeps:
  assumes "sends b f g U ups ret st" and "\<And>V. keeps (sent b f V) m"
  shows "\<exists>x st'. m st = Inr (x, st') \<and> sends b f g U ups ret st'"
proof -
  from assms(1) obtain V where V: "sent b f (U @ V) st" "if ret = None then V = ups else (\<exists>W. ups = V @ W) \<and> \<not> (b \<and> g)"
    unfolding sends_def by blast
  from assms(2) V(1) obtain x st' where "m st = Inr (x, st')" "sent b f (U @ V) st'" by (rule keepsE)
  then show ?thesis using V(2) unfolding sends_def by blast
qed

lemma section_chunk_sent:
  assumes "sent b f U st" and "length bytes = unat (desc_len d)" and "unat (desc_len d) \<le> 0xFFFE0000" and "ucast off < desc_len d"
    and "k = min FH_MEM_TB_MAX_LENGTH (ucast (desc_len d))"
  shows "\<exists>ret st'. section_chunk env hw phys d bytes k off st = Inr (ret, st')
    \<and> sends b f (loads_good env) U [(desc_offset d + off, take (unat k) (drop (unat off) bytes))] ret st'"
proof -
  note c = chunk_bounds[OF assms(3,4,5)]
  let ?n = "min k (ucast (desc_len d - ucast off))"
  let ?piece = "take (unat k) (drop (unat off) bytes)"
  have n: "unat ?n = min (unat k) (unat (desc_len d) - unat off)" by (rule c(1))
  have piece: "take (unat ?n) (drop (unat off) bytes) = ?piece" unfolding n using assms(2) by (simp add: min_def)
  have fits: "\<not> length bytes < unat off + unat ?n" using assms(2) c(4) by (simp add: n)
  let ?ext = "extended_addr (desc_offset d + off)"
  have k1: "keeps (sent b f U) (whenC ?ext (dev (iwl_set_bits_prph hw LMPM_CHICK 1)))" by (intro keeps_intros loader.keeps_dev free_intros)
  have k2: "keeps (sent b f V) (whenC ?ext (dev (iwl_clear_bits_prph hw LMPM_CHICK 1)))" for V by (intro keeps_intros loader.keeps_dev free_intros)
  from k1 assms(1) obtain u st1 where 1: "whenC ?ext (dev (iwl_set_bits_prph hw LMPM_CHICK 1)) st = Inr (u, st1)" "sent b f U st1" by (rule keepsE)
  from chunk_sent[OF 1(2), of env hw "desc_offset d + off" "ucast phys" ?piece] obtain ret st2 where
    2: "load_firmware_chunk env hw (desc_offset d + off) (ucast phys) ?piece st1 = Inr (ret, st2)"
       "sends b f (loads_good env) U [(desc_offset d + off, ?piece)] ret st2" by blast
  from sends_keeps[OF 2(2) k2] obtain v st3 where 3: "whenC ?ext (dev (iwl_clear_bits_prph hw LMPM_CHICK 1)) st2 = Inr (v, st3)"
       "sends b f (loads_good env) U [(desc_offset d + off, ?piece)] ret st3" by blast
  have "section_chunk env hw phys d bytes k off st = Inr (ret, st3)"
    using 1(1) 2(1) 3(1) fits by (simp add: section_chunk_def Let_def bindC_def piece retC_def del: take_drop drop_drop)
  with 3(2) show ?thesis by blast
qed

lemma chunk_loop_sent:
  assumes "length bytes = unat (desc_len d)" and "unat (desc_len d) \<le> 0xFFFE0000"
    and "k = min FH_MEM_TB_MAX_LENGTH (ucast (desc_len d))" and "sent b f U st"
  shows "\<exists>ret st'. chunk_loop env hw phys d bytes k off st = Some (Inr (ret, st'))
    \<and> sends b f (loads_good env) U (chunks (unat k) (desc_offset d + off) (drop (unat off) bytes)) ret st'"
  using assms(4)
proof (induction "unat (desc_len d) - unat off" arbitrary: off U st rule: less_induct)
  case less
  show ?case
  proof (cases "ucast off < desc_len d")
    case False
    then have "unat (desc_len d) \<le> unat off" by (simp add: word_less_nat_alt unat_ucast_32_64)
    then have "drop (unat off) bytes = []" using assms(1) by simp
    then show ?thesis using False less.prems by (simp add: chunk_loop.simps chunks.simps[of _ _ "[]"] sends_nothing)
  next
    case True
    note c = chunk_bounds[OF assms(2) True assms(3)]
    let ?piece = "take (unat k) (drop (unat off) bytes)"
    let ?dst = "desc_offset d + off"
    have ne: "drop (unat off) bytes \<noteq> []" using c(4) assms(1) by simp
    have split: "chunks (unat k) ?dst (drop (unat off) bytes) = [(?dst, ?piece)] @ chunks (unat k) (desc_offset d + (off + k)) (drop (unat (off + k)) bytes)"
    proof -
      have "?dst + of_nat (unat k) = desc_offset d + (off + k)" by simp
      moreover have "drop (unat k) (drop (unat off) bytes) = drop (unat (off + k)) bytes"
        unfolding c(2) drop_drop by (simp only: add.commute)
      ultimately show ?thesis using c(3) ne by (subst chunks.simps) (simp del: drop_drop add: add.assoc)
    qed
    from section_chunk_sent[OF less.prems assms(1,2) True assms(3), of env hw phys] obtain ret st1 where
      1: "section_chunk env hw phys d bytes k off st = Inr (ret, st1)" "sends b f (loads_good env) U [(?dst, ?piece)] ret st1" by blast
    show ?thesis
    proof (cases ret)
      case (Some e)
      have "chunk_loop env hw phys d bytes k off st = Some (Inr (Some e, st1))"
        using True 1(1) Some by (subst chunk_loop.simps) simp
      moreover have "sends b f (loads_good env) U (chunks (unat k) ?dst (drop (unat off) bytes)) (Some e) st1"
        using sends_failed 1(2) unfolding split Some by blast
      ultimately show ?thesis by blast
    next
      case None
      have small: "unat (desc_len d) - unat (off + k) < unat (desc_len d) - unat off" using c by simp
      have s1: "sent b f (U @ [(?dst, ?piece)]) st1" using 1(2) sends_none unfolding None by blast
      from less.hyps[OF small s1] obtain ret' st2 where
        2: "chunk_loop env hw phys d bytes k (off + k) st1 = Some (Inr (ret', st2))"
           "sends b f (loads_good env) (U @ [(?dst, ?piece)]) (chunks (unat k) (desc_offset d + (off + k)) (drop (unat (off + k)) bytes)) ret' st2" by blast
      have "chunk_loop env hw phys d bytes k off st = Some (Inr (ret', st2))"
        using True 1(1) None 2(1) by (subst chunk_loop.simps) simp
      then show ?thesis using sends_then[OF 2(2)] unfolding split by blast
    qed
  qed
qed

definition section_transfers :: "u32 \<times> u8 list \<Rightarrow> (u32 \<times> u8 list) list" where
  "section_transfers sec = chunks 0x20000 (fst sec) (snd sec)"

text \<open>A descriptor whose block of the heap holds the bytes of a section.\<close>

definition holds :: "dheap \<Rightarrow> fw_desc \<Rightarrow> u32 \<times> u8 list \<Rightarrow> bool" where
  "holds h d sec \<longleftrightarrow> get_bytes (desc_data d) h = Inr (snd sec) \<and> desc_offset d = fst sec \<and> length (snd sec) = unat (desc_len d)
     \<and> unat (desc_len d) \<le> 0xFFFE0000"

lemma load_section_sent:
  assumes "holds h d sec" and "\<And>n. section_buf env n \<noteq> No_buffer" and "sent b f U st"
  shows "\<exists>ret st'. load_section env hw h d st = Some (Inr (ret, st')) \<and> sends b f (loads_good env) U (section_transfers sec) ret st'"
proof (cases "section_buf env (length (uploads st))")
  case No_buffer
  then show ?thesis using assms(2) by blast
next
  case No_segment
  then have "\<not> loads_good env" unfolding loads_good_def by blast
  then have "sends b f (loads_good env) U (section_transfers sec) (Some EPERM) st" using assms(3) unfolding sends_def by (auto intro: exI[of _ "[]"])
  then show ?thesis using No_segment by (simp add: load_section_def)
next
  case (Segment phys)
  note h = assms(1)[unfolded holds_def]
  have size: "chunks (unat (min FH_MEM_TB_MAX_LENGTH (ucast (desc_len d)) :: u32)) (desc_offset d + 0) (drop (unat (0 :: u32)) (snd sec)) = section_transfers sec"
    using h chunks_cut[of "0x20000" "snd sec" "fst sec"] by (simp add: chunk_size section_transfers_def)
  from chunk_loop_sent[of "snd sec" d _ b f U st env hw phys 0, OF _ _ refl assms(3)] h
  show ?thesis unfolding size by (simp add: load_section_def Segment)
qed

subsection \<open>An image\<close>

text \<open>The reference: the sections of an image in the order they are loaded. A section whose address is a separator ends the part of a processor.\<close>

definition is_code :: "u32 \<times> u8 list \<Rightarrow> bool" where
  "is_code sec \<longleftrightarrow> fst sec \<noteq> CPU1_CPU2_SEPARATOR_SECTION \<and> fst sec \<noteq> PAGING_SEPARATOR_SECTION"

definition boot_order :: "bool \<Rightarrow> (u32 \<times> u8 list) list \<Rightarrow> (u32 \<times> u8 list) list" where
  "boot_order dual secs = (let first = takeWhile is_code secs in
     first @ (if dual then takeWhile is_code (drop (Suc (length first)) secs) else []))"

definition transfers :: "(u32 \<times> u8 list) list \<Rightarrow> (u32 \<times> u8 list) list" where
  "transfers secs = concat (map section_transfers secs)"

lemma transfers_simps [simp]: "transfers [] = []" "transfers (sec # secs) = section_transfers sec @ transfers secs"
  "transfers (secs @ secs') = transfers secs @ transfers secs'"
  by (simp_all add: transfers_def)

text \<open>\<open>sendsS\<close>: a part that also returns a value; without an error the value satisfies \<open>Q\<close>. \<open>sendsL\<close>: a part that returns its error only.\<close>

definition sendsS :: "bool \<Rightarrow> iwl_device_family \<Rightarrow> bool \<Rightarrow> (u32 \<times> u8 list) list \<Rightarrow> ('a \<Rightarrow> bool) \<Rightarrow> ('d, errno option \<times> 'a) card_run \<Rightarrow> bool" where
  "sendsS b f g ups Q m \<longleftrightarrow> (\<forall>U st. sent b f U st \<longrightarrow> (\<exists>ret x st'. m st = Some (Inr ((ret, x), st')) \<and> sends b f g U ups ret st' \<and> (ret = None \<longrightarrow> Q x)))"

definition sendsL :: "bool \<Rightarrow> iwl_device_family \<Rightarrow> bool \<Rightarrow> (u32 \<times> u8 list) list \<Rightarrow> ('d, errno option) card_run \<Rightarrow> bool" where
  "sendsL b f g ups m \<longleftrightarrow> (\<forall>U st. sent b f U st \<longrightarrow> (\<exists>ret st'. m st = Some (Inr (ret, st')) \<and> sends b f g U ups ret st'))"

lemma sendsL_step:
  fixes m :: "('d, 'a) card_io"
  assumes "\<And>V. keeps (sent b f V) m" and "\<And>x. sendsL b f g ups (k x)"
  shows "sendsL b f g ups (bindL (liftL m) k)"
  unfolding sendsL_def
proof (intro allI impI)
  fix U and st :: "'d card" assume "sent b f U st"
  with assms(1) obtain x st1 where 1: "m st = Inr (x, st1)" "sent b f U st1" by (rule keepsE)
  from assms(2) 1(2) obtain ret st' where "k x st1 = Some (Inr (ret, st'))" "sends b f g U ups ret st'" unfolding sendsL_def by blast
  with 1(1) show "\<exists>ret st'. bindL (liftL m) k st = Some (Inr (ret, st')) \<and> sends b f g U ups ret st'"
    by (simp add: bindL_def liftL_def thenC_def)
qed

lemma bindC_assoc: "bindC (bindC m k) l = bindC m (\<lambda>x. bindC (k x) l)"
  by (rule ext) (auto simp: bindC_def bindF_def split: sum.split)

lemma sendsL_done:
  fixes m :: "('d, 'a) card_io"
  assumes "\<And>V. keeps (sent b f V) m"
  shows "sendsL b f g [] (liftL (bindC m (\<lambda>_. retC None)))"
  unfolding sendsL_def
proof (intro allI impI)
  fix U and st :: "'d card" assume "sent b f U st"
  with assms obtain x st1 where 1: "m st = Inr (x, st1)" "sent b f U st1" by (rule keepsE)
  then show "\<exists>ret st'. liftL (bindC m (\<lambda>_. retC None)) st = Some (Inr (ret, st')) \<and> sends b f g U [] ret st'"
    using sends_nothing by (simp add: liftL_def bindC_def retC_def)
qed

lemma sendsL_then:
  fixes m :: "('d, errno option \<times> 'a) card_run"
  assumes "sendsS b f g ups Q m" and "\<And>x. Q x \<Longrightarrow> sendsL b f g vps (k x)"
  shows "sendsL b f g (ups @ vps) (bindL m (\<lambda>(ret, x). unless_error ret (k x)))"
  unfolding sendsL_def
proof (intro allI impI)
  fix U and st :: "'d card" assume "sent b f U st"
  with assms(1) obtain ret x st1 where 1: "m st = Some (Inr ((ret, x), st1))" "sends b f g U ups ret st1" "ret = None \<longrightarrow> Q x"
    unfolding sendsS_def by blast
  show "\<exists>ret st'. bindL m (\<lambda>(ret, x). unless_error ret (k x)) st = Some (Inr (ret, st')) \<and> sends b f g U (ups @ vps) ret st'"
  proof (cases ret)
    case None
    have "sent b f (U @ ups) st1" using 1(2) sends_none unfolding None by blast
    then obtain ret' st2 where "k x st1 = Some (Inr (ret', st2))" "sends b f g (U @ ups) vps ret' st2"
      using assms(2)[of x] 1(3) None unfolding sendsL_def by blast
    then show ?thesis using 1(1) None sends_then by (fastforce simp: bindL_def thenC_def unless_error_def)
  next
    case (Some e)
    then show ?thesis using 1(1,2) sends_failed by (fastforce simp: bindL_def thenC_def unless_error_def liftL_def retC_def)
  qed
qed

lemma sendsL_result: "sendsS b f g ups Q m \<Longrightarrow> sendsL b f g ups (bindL m (\<lambda>(ret, _). liftL (retC ret)))"
  by (fastforce simp: sendsL_def sendsS_def bindL_def thenC_def liftL_def retC_def)

lemma sendsS_finish:
  fixes m :: "('d, errno option \<times> 'a) card_run"
  assumes "sendsS b f g ups Q m" and "\<And>V. keeps (sent b f V) n1" and "\<And>V. keeps (sent b f V) n2"
  shows "sendsS b f g ups Q (bindL m (\<lambda>(ret, x). case ret of Some e \<Rightarrow> liftL (retC (Some e, x))
    | None \<Rightarrow> liftL (bindC n1 (\<lambda>_. bindC n2 (\<lambda>_. retC (None, x))))))"
  unfolding sendsS_def
proof (intro allI impI)
  fix U and st :: "'d card" assume "sent b f U st"
  with assms(1) obtain ret x st1 where 1: "m st = Some (Inr ((ret, x), st1))" "sends b f g U ups ret st1" "ret = None \<longrightarrow> Q x"
    unfolding sendsS_def by blast
  from sends_keeps[OF 1(2) assms(2)] obtain u st2 where 2: "n1 st1 = Inr (u, st2)" "sends b f g U ups ret st2" by blast
  from sends_keeps[OF 2(2) assms(3)] obtain v st3 where 3: "n2 st2 = Inr (v, st3)" "sends b f g U ups ret st3" by blast
  show "\<exists>ret x st'. bindL m (\<lambda>(ret, x). case ret of Some e \<Rightarrow> liftL (retC (Some e, x))
      | None \<Rightarrow> liftL (bindC n1 (\<lambda>_. bindC n2 (\<lambda>_. retC (None, x))))) st = Some (Inr ((ret, x), st'))
    \<and> sends b f g U ups ret st' \<and> (ret = None \<longrightarrow> Q x)"
    using 1 2(1) 3 by (cases ret) (simp_all add: bindL_def thenC_def liftL_def retC_def bindC_def)
qed

text \<open>The loop over the sections. \<open>seen_after\<close> is the last index it looked at.\<close>

definition seen_after :: "nat \<Rightarrow> (u32 \<times> u8 list) list \<Rightarrow> nat \<Rightarrow> nat" where
  "seen_after seen secs i = (if length secs \<le> i then seen else
     min (i + length (takeWhile is_code (drop i secs))) (length secs - 1))"

lemma holds_loadable: "holds h d sec \<Longrightarrow> loadable d = is_code sec"
  by (cases "desc_data d") (simp_all add: holds_def loadable_def is_code_def get_bytes_def heap_get_def)

lemma sections_sent:
  assumes "get_descs (fw_img_sec im) h = Inr ds" and "list_all2 (holds h) ds secs" and "\<And>n. section_buf env n \<noteq> No_buffer"
    and "\<And>n V. keeps (sent b f V) (after n)"
  shows "sendsS b f (loads_good env) (transfers (takeWhile is_code (drop i secs))) (\<lambda>x. x = seen_after seen secs i)
    (sections_loop env hw h im after seen [i..<length ds] num)"
proof (induction "length ds - i" arbitrary: i seen num)
  case 0
  then have r: "length secs \<le> i" "[i..<length ds] = []" using assms(2) by (auto dest: list_all2_lengthD)
  show ?case unfolding r(2) using r(1) by (simp add: sendsS_def seen_after_def sends_nothing)
next
  case (Suc n)
  have len: "length ds = length secs" using assms(2) by (rule list_all2_lengthD)
  have i: "i < length ds" using Suc.hyps(2) by simp
  have range: "[i..<length ds] = i # [Suc i..<length ds]" using i by (rule upt_conv_Cons)
  have sec: "image_sec h im i = Inr (ds ! i)" using assms(1) i by (simp add: image_sec_def)
  have h: "holds h (ds ! i) (secs ! i)" using assms(2) i by (rule list_all2_nthD)
  have drop: "drop i secs = secs ! i # drop (Suc i) secs" using i len by (simp add: Cons_nth_drop_Suc)
  show ?case
  proof (cases "is_code (secs ! i)")
    case False
    then have "seen_after seen secs i = i" using i len by (simp add: seen_after_def drop)
    moreover have "\<not> loadable (ds ! i)" using holds_loadable[OF h] False by simp
    ultimately show ?thesis using False unfolding range drop
      by (simp add: sendsS_def sec sends_nothing)
  next
    case True
    then have code: "loadable (ds ! i)" using holds_loadable[OF h] by simp
    have IH: "sendsS b f (loads_good env) (transfers (takeWhile is_code (drop (Suc i) secs))) (\<lambda>x. x = seen_after i secs (Suc i))
        (sections_loop env hw h im after i [Suc i..<length ds] (push_bit 1 num OR 1))"
      by (rule Suc.hyps(1)) (use Suc.hyps(2) in simp)
    have last: "seen_after i secs (Suc i) = seen_after seen secs i" using i len True by (auto simp: seen_after_def drop)
    show ?thesis unfolding sendsS_def
    proof (intro allI impI)
      fix U and st :: "'a card" assume st: "sent b f U st"
      from load_section_sent[OF h assms(3) st] obtain ret st1 where
        1: "load_section env hw h (ds ! i) st = Some (Inr (ret, st1))" "sends b f (loads_good env) U (section_transfers (secs ! i)) ret st1" by blast
      show "\<exists>ret x st'. sections_loop env hw h im after seen [i..<length ds] num st = Some (Inr ((ret, x), st'))
          \<and> sends b f (loads_good env) U (transfers (takeWhile is_code (drop i secs))) ret st' \<and> (ret = None \<longrightarrow> x = seen_after seen secs i)"
      proof (cases ret)
        case (Some e)
        then show ?thesis using 1 code True sends_failed unfolding range drop
          by (fastforce simp: sec bindL_def thenC_def liftL_def retC_def)
      next
        case None
        have s1: "sent b f (U @ section_transfers (secs ! i)) st1" using 1(2) sends_none unfolding None by blast
        from assms(4) s1 obtain u st2 where 2: "after num st1 = Inr (u, st2)" "sent b f (U @ section_transfers (secs ! i)) st2" by (rule keepsE)
        from IH 2(2) obtain ret' x st3 where
          3: "sections_loop env hw h im after i [Suc i..<length ds] (push_bit 1 num OR 1) st2 = Some (Inr ((ret', x), st3))"
             "sends b f (loads_good env) (U @ section_transfers (secs ! i)) (transfers (takeWhile is_code (drop (Suc i) secs))) ret' st3"
             "ret' = None \<longrightarrow> x = seen_after i secs (Suc i)" unfolding sendsS_def by blast
        have "sections_loop env hw h im after seen (i # [Suc i..<length ds]) num st = Some (Inr ((ret', x), st3))"
          using 1(1) None code 2(1) 3(1) by (simp add: sec bindL_def thenC_def liftL_def)
        then show ?thesis using 3(3) sends_then[OF 3(2)] True unfolding range drop last by auto
      qed
    qed
  qed
qed

lemma second_part:
  "takeWhile is_code (drop (Suc (seen_after 0 secs 0)) secs) = takeWhile is_code (drop (Suc (length (takeWhile is_code secs))) secs)"
  using length_takeWhile_le[of is_code secs] by (cases "length (takeWhile is_code secs) = length secs") (auto simp: seen_after_def min_def)

lemma load_given_sends:
  assumes "get_descs (fw_img_sec im) h = Inr ds" and "list_all2 (holds h) ds secs" and "num_sec im = length ds"
    and "\<And>n. section_buf env n \<noteq> No_buffer" and "dbg_dest c = None"
  shows "sendsL b f (loads_good env) (transfers (boot_order (is_dual_cpus im) secs)) (load_given_ucode env hw c h im)"
    and "sendsL b f (loads_good env) (transfers (boot_order True secs)) (load_given_ucode_8000 env hw c h im)"
proof -
  have notify: "keeps (sent b f V) (notify_section hw n k)" for n k V
    unfolding notify_section_def by (intro keeps_intros loader.keeps_dev free_intros)
  note secs = sections_sent[OF assms(1,2,4)]
  have start: "sendsL b f (loads_good env) [] (liftL (start_ucode hw c h))"
  proof -
    have "keeps (sent b f V) (bindC (getC card_family) (\<lambda>fam. seqC [
       (if fw_monitor c \<and> fam = IWL_DEVICE_FAMILY_7000
        then whenC (fw_mon_size c \<noteq> 0) (seqC [
          dev (iwl_write_prph hw MON_BUFF_BASE_ADDR (ucast (drop_bit 4 (fw_mon_phys c)))),
          dev (iwl_write_prph hw MON_BUFF_END_ADDR (ucast (drop_bit 4 (fw_mon_phys c + ucast (fw_mon_size c)))))])
        else whenC (dbg_dest c \<noteq> None) (apply_destination hw c h)),
       iwl_enable_interrupts hw, dev (iwl_write32 hw CSR_RESET 0)]))" for V
      using assms(5) by (auto intro!: keeps_intros loader.keeps_dev loader.interrupts_keep free_intros)
    from sendsL_done[OF this] show ?thesis unfolding start_ucode_def bindC_assoc .
  qed
  have first: "sendsS b f (loads_good env) (transfers (takeWhile is_code secs)) (\<lambda>x. x = seen_after 0 secs 0)
      (load_cpu_sections env hw h im 1 0)"
    using secs[where after = "\<lambda>_. retC ()" and b = b and f = f and hw = hw and i = 0 and seen = 0 and num = 1] assms(3) by (simp add: load_cpu_sections_def first_section_def keeps_ret)
  have snd: "sendsS b f (loads_good env) (transfers (takeWhile is_code (drop (Suc (length (takeWhile is_code secs))) secs)))
      (\<lambda>x. x = seen_after 0 secs (Suc (seen_after 0 secs 0))) (load_cpu_sections env hw h im 2 (seen_after 0 secs 0))"
    using secs[where after = "\<lambda>_. retC ()" and b = b and f = f and hw = hw and i = "Suc (seen_after 0 secs 0)" and seen = 0 and num = 1] assms(3)
    by (simp add: load_cpu_sections_def first_section_def keeps_ret second_part)
  show "sendsL b f (loads_good env) (transfers (boot_order (is_dual_cpus im) secs)) (load_given_ucode env hw c h im)"
  proof (cases "is_dual_cpus im")
    case False
    have "sendsL b f (loads_good env) (transfers (takeWhile is_code secs) @ []) (load_given_ucode env hw c h im)"
      unfolding load_given_ucode_def by (rule sendsL_then[OF first]) (use start False in simp)
    then show ?thesis using False by (simp add: boot_order_def Let_def)
  next
    case True
    have "sendsL b f (loads_good env) (transfers (takeWhile is_code secs) @
        (transfers (takeWhile is_code (drop (Suc (length (takeWhile is_code secs))) secs)) @ [])) (load_given_ucode env hw c h im)"
      unfolding load_given_ucode_def
    proof (rule sendsL_then[OF first])
      fix x assume x: "x = seen_after 0 secs 0"
      have "sendsL b f (loads_good env) (transfers (takeWhile is_code (drop (Suc (length (takeWhile is_code secs))) secs)) @ [])
          (bindL (load_cpu_sections env hw h im 2 x) (\<lambda>(ret, _). unless_error ret (liftL (start_ucode hw c h))))"
        unfolding x by (rule sendsL_then[OF snd start])
      then show "sendsL b f (loads_good env) (transfers (takeWhile is_code (drop (Suc (length (takeWhile is_code secs))) secs)) @ [])
          (if is_dual_cpus im then bindL (liftL (dev (iwl_write_prph hw LMPM_SECURE_UCODE_LOAD_CPU2_HDR_ADDR LMPM_SECURE_CPU2_HDR_MEM_SPACE))) (\<lambda>_.
            bindL (load_cpu_sections env hw h im 2 x) (\<lambda>(ret, _). unless_error ret (liftL (start_ucode hw c h))))
           else liftL (start_ucode hw c h))"
        using True by (simp add: sendsL_step loader.keeps_dev free_window)
    qed
    then show ?thesis using True by (simp add: boot_order_def Let_def)
  qed
  have load: "sendsS b f (loads_good env) (transfers (takeWhile is_code (drop i secs))) (\<lambda>x. x = seen_after 0 secs i)
      (bindL (sections_loop env hw h im (notify_section hw n) 0 [i..<num_sec im] 1) (\<lambda>(ret, seen). case ret of
          Some e \<Rightarrow> liftL (retC (Some e, seen))
        | None \<Rightarrow> liftL (bindC (iwl_enable_interrupts hw) (\<lambda>_.
            bindC (if use_tfh d then dev (iwl_write_prph hw UREG_UCODE_LOAD_STATUS v)
                   else dev (iwl_write_direct32 hw FH_UCODE_LOAD_STATUS v)) (\<lambda>_. retC (None, seen))))))" for i n d v
    unfolding assms(3)
    by (rule sendsS_finish[OF secs[where after = "notify_section hw n" and b = b and f = f and hw = hw and i = i and seen = 0 and num = 1, OF notify]])
      (intro keeps_if loader.keeps_dev loader.interrupts_keep free_intros)+
  have eight: "sendsS b f (loads_good env) (transfers (takeWhile is_code (drop (first_section cpu x) secs)))
      (\<lambda>y. y = seen_after 0 secs (first_section cpu x)) (load_cpu_sections_8000 env hw (card_of c) h im cpu x)" for cpu x
    unfolding load_cpu_sections_8000_def by (rule load)
  show "sendsL b f (loads_good env) (transfers (boot_order True secs)) (load_given_ucode_8000 env hw c h im)"
  proof -
    have "sendsL b f (loads_good env) (transfers (takeWhile is_code (drop (first_section 1 0) secs)) @
        transfers (takeWhile is_code (drop (Suc (length (takeWhile is_code secs))) secs)))
        (bindL (load_cpu_sections_8000 env hw (card_of c) h im 1 0) (\<lambda>(ret, first). unless_error ret (
           bindL (load_cpu_sections_8000 env hw (card_of c) h im 2 first) (\<lambda>(ret, _). liftL (retC ret)))))"
    proof (rule sendsL_then[OF eight])
      fix x assume "x = seen_after 0 secs (first_section 1 0)"
      then show "sendsL b f (loads_good env) (transfers (takeWhile is_code (drop (Suc (length (takeWhile is_code secs))) secs)))
          (bindL (load_cpu_sections_8000 env hw (card_of c) h im 2 x) (\<lambda>(ret, _). liftL (retC ret)))"
        using sendsL_result[OF eight[of 2 x]] by (simp add: first_section_def second_part)
    qed
    then show ?thesis unfolding load_given_ucode_8000_def boot_order_def Let_def using assms(5)
      by (auto simp: first_section_def intro!: sendsL_step keeps_intros loader.keeps_dev free_intros)
  qed
qed

subsection \<open>From the file to the device\<close>

text \<open>The sections of an image as the parser found them in the file: the load address and the bytes.\<close>

definition file_section :: "u8 list \<Rightarrow> fw_sec \<Rightarrow> u32 \<times> u8 list" where
  "file_section raw sec = (the (sec_offset sec), take (unat (the (sec_size sec))) (drop (the (sec_data sec)) raw))"

definition file_sections :: "u8 list \<Rightarrow> iwl_firmware_pieces \<Rightarrow> iwl_ucode_type \<Rightarrow> (u32 \<times> u8 list) list" where
  "file_sections raw p ty = map (file_section raw) (take (sec_counter (pimg p ty)) (case img_sec (pimg p ty) of None \<Rightarrow> [] | Some secs \<Rightarrow> secs))"

lemma copied_holds:
  assumes "copied raw sec h d" and "length raw \<le> 0xFFFE0000"
  shows "holds h d (file_section raw sec)"
proof -
  from assms(1) obtain x src where c: "desc_data d = Some x" "sec_data sec = Some src" "sec_size sec = Some (desc_len d)"
    "sec_offset sec = Some (desc_offset d)" "src + unat (desc_len d) \<le> length raw"
    "blocks h x = Some (Bytes (take (unat (desc_len d)) (drop src raw)))" unfolding copied_def by blast
  then show ?thesis using assms(2) by (simp add: holds_def file_section_def get_bytes_def heap_get_def)
qed

lemma img_holds:
  assumes "img_copied raw p ty h im" and "length raw \<le> 0xFFFE0000"
  shows "\<exists>ds. get_descs (fw_img_sec im) h = Inr ds \<and> num_sec im = length ds \<and> list_all2 (holds h) ds (file_sections raw p ty)"
proof -
  from assms(1) obtain a ds where i: "fw_img_sec im = Some a" "blocks h a = Some (Descs ds)" "length ds = sec_counter (pimg p ty)"
    "num_sec im = length ds" and c: "\<And>k. k < length ds \<Longrightarrow> \<exists>sec. get_sec p ty k = Inr sec \<and> copied raw sec h (ds ! k)"
    unfolding img_copied_def by blast
  have "list_all2 (holds h) ds (file_sections raw p ty)"
  proof (cases "img_sec (pimg p ty)")
    case None
    then show ?thesis using c[of 0] by (cases ds) (auto simp: get_sec_def file_sections_def)
  next
    case (Some secs)
    have k: "k < length secs \<and> copied raw (secs ! k) h (ds ! k)" if "k < length ds" for k
      using c[OF that] Some by (auto simp: get_sec_def split: if_splits)
    have "length ds \<le> length secs" using k[of "length ds - 1"] by (cases ds) auto
    then show ?thesis using k copied_holds[OF _ assms(2)] i(3) Some by (auto simp: list_all2_conv_all_nth file_sections_def)
  qed
  then show ?thesis using i by (auto simp: get_descs_def heap_get_def)
qed

lemma load_image_sends:
  assumes "get_descs (fw_img_sec im) h = Inr ds" and "list_all2 (holds h) ds secs" and "num_sec im = length ds"
    and "\<And>n. section_buf (start_load env) n \<noteq> No_buffer" and "dbg_dest c = None"
  shows "sendsL b f (loads_good (start_load env)) (transfers (boot_order (IWL_DEVICE_FAMILY_8000 \<le> f \<or> is_dual_cpus im) secs)) (load_image env hw c h im)"
  unfolding sendsL_def
proof (intro allI impI)
  fix U and st :: "'a card" assume st: "sent b f U st"
  let ?m = "seqC [iwl_enable_fw_load_int hw, dev (iwl_write32 hw CSR_UCODE_DRV_GP1_CLR CSR_UCODE_SW_BIT_RFKILL),
       dev (iwl_write32 hw CSR_UCODE_DRV_GP1_CLR CSR_UCODE_SW_BIT_RFKILL)]"
  have "keeps (sent b f U) ?m" by (intro keeps_intros loader.interrupts_keep loader.keeps_dev free_intros)
  from this st obtain u st1 where 1: "?m st = Inr (u, st1)" "sent b f U st1" by (rule keepsE)
  let ?load = "if IWL_DEVICE_FAMILY_8000 \<le> f then load_given_ucode_8000 (start_load env) hw c h im else load_given_ucode (start_load env) hw c h im"
  have "card_family st1 = f" using 1(2) by (simp add: sent_def)
  then have run: "load_image env hw c h im st = ?load st1"
    using 1(1) by (simp add: load_image_def bindL_def liftL_def thenC_def bindC_def getC_def bindF_def split: sum.splits prod.splits)
  have "sendsL b f (loads_good (start_load env)) (transfers (boot_order (IWL_DEVICE_FAMILY_8000 \<le> f \<or> is_dual_cpus im) secs)) ?load"
    by (simp add: load_given_sends[OF assms])
  then show "\<exists>ret st'. load_image env hw c h im st = Some (Inr (ret, st'))
      \<and> sends b f (loads_good (start_load env)) U (transfers (boot_order (IWL_DEVICE_FAMILY_8000 \<le> f \<or> is_dual_cpus im) secs)) ret st'"
    using 1(2) unfolding sendsL_def run by blast
qed


text \<open>Buffers that can all be mapped.\<close>

definition load_demo_env :: "unit start_env" where
  "load_demo_env = \<lparr>start_dma = tx_demo_env, start_pages = rx_demo_env,
     start_load = \<lparr>section_buf = \<lambda>n. Segment 0x10000, chunk_wait = \<lambda>n. if even n then None else Some THREAD_AWAKENED\<rparr>, nic_config = retC ()\<rparr>"

definition load_demo_cfg :: load_cfg where
  "load_demo_cfg = \<lparr>card_of = card_cfg_demo, dbg_dest = None, dbg_dest_regs = 0, fw_monitor = False, fw_mon_size = 0, fw_mon_phys = 0, power_debug = False\<rparr>"


end
