(* ===== verification/Irq_Safety.thy ===== *)
theory Irq_Safety
  imports Pcie_Laws
begin

section \<open>What an interrupt does\<close>

text \<open>
  The interrupt cause table against a reference: the entries of the longest run of nonzero entries from the index on. And the
  handler as a whole: whatever cause the device reports, it returns, gives the mutex back, and leaves the receive queue, the command queue and
  the table in the state the next interrupt needs.
\<close>

subsection \<open>The interrupt cause table\<close>

text \<open>The entries from the index on, around the end of the table, up to the first that is zero.\<close>

definition ict_run :: "u32 list \<Rightarrow> nat \<Rightarrow> u32 list" where
  "ict_run tbl i = takeWhile (\<lambda>v. v \<noteq> 0) (rotate i tbl)"

definition ict_cleared :: "u32 list \<Rightarrow> nat \<Rightarrow> u32 list" where
  "ict_cleared tbl i = map (\<lambda>j. if (j + (length tbl - i)) mod length tbl < length (ict_run tbl i) then 0 else tbl ! j) [0..<length tbl]"

lemma ict_next: "Suc i AND (ICT_COUNT - Suc 0) = Suc i mod 1024"
  using take_bit_eq_mask[of 10 "Suc i"] by (simp add: ICT_COUNT_def mask_eq_exp_minus_1 take_bit_eq_mod)

lemma rotate_cleared:
  assumes "length tbl = n" and "i < n"
  shows "rotate (Suc i mod n) (tbl[i := 0]) = tl (rotate i tbl) @ [0]"
proof (rule nth_equalityI)
  show "length (rotate (Suc i mod n) (tbl[i := 0])) = length (tl (rotate i tbl) @ [0])" using assms by simp
  fix k assume "k < length (rotate (Suc i mod n) (tbl[i := 0]))"
  then have k: "k < n" using assms(1) by simp
  have l: "rotate (Suc i mod n) (tbl[i := 0]) ! k = tbl[i := 0] ! (Suc (i + k) mod n)"
    using k assms by (simp add: nth_rotate mod_simps)
  show "rotate (Suc i mod n) (tbl[i := 0]) ! k = (tl (rotate i tbl) @ [0]) ! k"
  proof (cases "Suc k < n")
    case True
    have "Suc (i + k) mod n \<noteq> i" using True assms(2) by (cases "Suc (i + k) < n") (auto simp: mod_if)
    then show ?thesis using True assms k unfolding l by (simp add: nth_append nth_tl nth_rotate less_diff_conv)
  next
    case False
    then have "k = n - 1" "Suc (i + k) mod n = i" using k assms(2) by (auto simp: mod_if)
    then show ?thesis using assms unfolding l by (simp add: nth_append)
  qed
qed

lemma rotate_Cons: "i < length tbl \<Longrightarrow> rotate i tbl = tbl ! i # tl (rotate i tbl)"
  by (cases "tbl = []"; cases "rotate i tbl") (use hd_rotate_conv_nth[of tbl i] in auto)

lemma ict_run_Cons:
  assumes "length tbl = n" and "i < n" and "tbl ! i \<noteq> 0"
  shows "ict_run tbl i = tbl ! i # ict_run (tbl[i := 0]) (Suc i mod n)"
proof -
  have "takeWhile (\<lambda>v. v \<noteq> 0) (xs @ [0]) = takeWhile (\<lambda>v. v \<noteq> 0) xs" for xs :: "u32 list"
    by (rule takeWhile_tail) simp
  moreover have "takeWhile (\<lambda>v. v \<noteq> 0) (rotate i tbl) = tbl ! i # takeWhile (\<lambda>v. v \<noteq> 0) (tl (rotate i tbl))"
    using assms by (subst rotate_Cons) simp_all
  ultimately show ?thesis unfolding ict_run_def rotate_cleared[OF assms(1,2)] by simp
qed

lemma ict_run_Nil: "i < length tbl \<Longrightarrow> tbl ! i = 0 \<Longrightarrow> ict_run tbl i = []"
  unfolding ict_run_def by (subst rotate_Cons) simp_all

lemma ict_run_length: "length (ict_run tbl i) \<le> length tbl"
  using length_takeWhile_le[of _ "rotate i tbl"] by (simp add: ict_run_def)

lemma ict_distance:
  "k < n \<Longrightarrow> i < n \<Longrightarrow> k \<noteq> i \<Longrightarrow> (k + (n - i)) mod n = Suc ((k + (n - Suc i mod n)) mod n)"
  by (cases "Suc i < n"; cases "k < i") (auto simp: mod_if)

lemma ict_loop_run:
  assumes "length tbl = 1024" and "i < 1024"
  shows "ict_loop tbl i val = Inr (foldl (OR) val (ict_run tbl i), ict_cleared tbl i, (i + length (ict_run tbl i)) mod 1024)"
  using assms
proof (induction tbl i val rule: ict_loop.induct)
  case (1 tbl i val)
  show ?case
  proof (cases "tbl ! i = 0")
    case True
    then have "ict_run tbl i = []" using 1(2,3) by (simp add: ict_run_Nil)
    moreover have "ict_cleared tbl i = tbl" unfolding ict_cleared_def \<open>ict_run tbl i = []\<close> by (simp add: map_nth)
    ultimately show ?thesis using True 1(2,3) by (subst ict_loop.simps) simp
  next
    case False
    let ?t = "tbl[i := 0]" and ?j = "Suc i mod 1024"
    have run: "ict_run tbl i = tbl ! i # ict_run ?t ?j" using ict_run_Cons[of tbl 1024 i] 1(2,3) False by simp
    have step: "ict_loop tbl i val = ict_loop ?t ?j (val OR tbl ! i)"
      using 1(2,3) False by (subst ict_loop.simps) (simp add: ict_next)
    have "ict_loop ?t ?j (val OR tbl ! i) = Inr (foldl (OR) (val OR tbl ! i) (ict_run ?t ?j), ict_cleared ?t ?j, (?j + length (ict_run ?t ?j)) mod 1024)"
      using 1(1)[OF _ False] 1(2,3) by (simp add: ict_next)
    moreover have "ict_cleared ?t ?j = ict_cleared tbl i"
    proof (rule nth_equalityI)
      show "length (ict_cleared ?t ?j) = length (ict_cleared tbl i)" by (simp add: ict_cleared_def)
      fix k assume "k < length (ict_cleared ?t ?j)"
      then have k: "k < 1024" using 1(2) by (simp add: ict_cleared_def)
      show "ict_cleared ?t ?j ! k = ict_cleared tbl i ! k"
        using k 1(2,3) ict_distance[of k 1024 i] by (cases "k = i") (simp_all add: ict_cleared_def run)
    qed
    moreover have "(?j + length (ict_run ?t ?j)) mod 1024 = (i + length (ict_run tbl i)) mod 1024"
      unfolding run by (simp add: mod_simps)
    ultimately show ?thesis unfolding step run by simp
  qed
qed

lemma ict_cause_run:
  assumes "ict_tbl st = Some tbl" and "length tbl = ICT_COUNT" and "ict_index st < ICT_COUNT"
  shows "iwl_pcie_int_cause_ict st = Inr (ict_cause (foldl (OR) 0 (ict_run tbl (ict_index st))),
    st\<lparr>ict_tbl := Some (ict_cleared tbl (ict_index st)), ict_index := (ict_index st + length (ict_run tbl (ict_index st))) mod ICT_COUNT\<rparr>)"
proof -
  have n: "length tbl = 1024" "ict_index st < 1024" using assms(2,3) by (simp_all add: ICT_COUNT_def)
  show ?thesis
  proof (cases "tbl ! ict_index st = 0")
    case True
    then have r: "ict_run tbl (ict_index st) = []" using n by (simp add: ict_run_Nil)
    have "ict_cleared tbl (ict_index st) = tbl" unfolding ict_cleared_def r by (simp add: map_nth)
    then show ?thesis using True r n assms(1) by (simp add: iwl_pcie_int_cause_ict_def ict_cause_def ICT_COUNT_def)
  next
    case False
    then show ?thesis using n assms(1) ict_loop_run[OF n] by (simp add: iwl_pcie_int_cause_ict_def ICT_COUNT_def)
  qed
qed

text \<open>The bits of the cause: the two bytes of the table, spread, and the receive bit, which two other bits stand for as well.\<close>

definition cause_bit :: "u32 \<Rightarrow> nat \<Rightarrow> bool" where
  "cause_bit v n \<longleftrightarrow> n < 8 \<and> bit v n \<or> 24 \<le> n \<and> n < 32 \<and> bit v (n - 16) \<or> n = 31 \<and> (bit v 18 \<or> bit v 19)"

lemma ict_cause_bits:
  assumes "v \<noteq> 0xFFFFFFFF"
  shows "bit (ict_cause v) n = cause_bit v n"
proof -
  have z: "a OR b = 0 \<longleftrightarrow> a = 0 \<and> b = 0" for a b :: u32 by (auto simp: bit_eq_iff bit_or_iff)
  have "(0xC0000 :: u32) = push_bit 18 1 OR push_bit 19 1" by simp
  then have "v AND 0xC0000 = (v AND push_bit 18 1) OR (v AND push_bit 19 1)" by (simp only: bit.conj_disj_distrib)
  then have wa: "v AND 0xC0000 = 0 \<longleftrightarrow> \<not> bit v 18 \<and> \<not> bit v 19"
    using and_push_bit_1[of 18 v] and_push_bit_1[of 19 v] z by auto
  have low: "bit (0xFF AND w) k = (k < 8 \<and> bit w k)" for w :: u32 and k
  proof -
    have e: "(0xFF :: u32) = mask 8" by (simp add: mask_eq_exp_minus_1)
    show ?thesis unfolding e by (simp only: bit_and_iff bit_mask_iff) (auto dest: bit_imp_le_length)
  qed
  have high: "bit (0xFF00 AND w) k = (8 \<le> k \<and> k < 16 \<and> bit w k)" for w :: u32 and k
  proof -
    have e: "(0xFF00 :: u32) = push_bit 8 (mask 8)" by (simp add: mask_eq_exp_minus_1)
    show ?thesis unfolding e by (simp only: bit_and_iff bit_push_bit_iff bit_mask_iff) (auto dest: bit_imp_le_length)
  qed
  have set: "bit (v OR 0x8000) k = (bit v k \<or> k = 15)" for k
  proof -
    have e: "(0x8000 :: u32) = push_bit 15 1" by simp
    show ?thesis unfolding e by (simp only: bit_or_iff bit_push_bit_iff bit_1_iff) auto
  qed
  define w where "w = (if v AND 0xC0000 \<noteq> 0 then v OR 0x8000 else v)"
  have bw: "bit w k = (bit v k \<or> k = 15 \<and> (bit v 18 \<or> bit v 19))" for k
    unfolding w_def using wa by (cases "v AND 0xC0000 = 0") (auto simp only: set if_True if_False simp_thms)
  have "ict_cause v = (0xFF AND w) OR push_bit 16 (0xFF00 AND w)"
    using assms unfolding ict_cause_def Let_def w_def by (simp only: if_False simp_thms)
  then have "bit (ict_cause v) n = (n < 8 \<and> bit w n \<or> n < 32 \<and> 16 \<le> n \<and> 8 \<le> n - 16 \<and> n - 16 < 16 \<and> bit w (n - 16))"
    by (simp only: bit_or_iff bit_push_bit_iff low high possible_bit_word) auto
  then show ?thesis unfolding bw cause_bit_def by auto
qed

lemma foldl_or_bit: "bit (foldl (OR) x vs) n \<longleftrightarrow> bit x n \<or> (\<exists>v \<in> set vs. bit (v :: u32) n)"
  by (induction vs arbitrary: x) (auto simp: bit_or_iff)

text \<open>
  C33. The interrupt cause: with a table of 1024 entries the function returns the bits of the entries from the index on, around the end of the
  table, up to the first that is zero, where the receive bit also stands for bits 18 and 19; exactly these entries are zeroed, and the index is at the
  entry after them. Entries that are all ones together are ignored.
\<close>

theorem ict_cause_exact:
  assumes "ict_tbl st = Some tbl" and "length tbl = ICT_COUNT" and "ict_index st < ICT_COUNT"
  shows "\<exists>cause. iwl_pcie_int_cause_ict st = Inr (cause, st\<lparr>ict_tbl := Some (ict_cleared tbl (ict_index st)),
      ict_index := (ict_index st + length (ict_run tbl (ict_index st))) mod ICT_COUNT\<rparr>) \<and>
    (if foldl (OR) 0 (ict_run tbl (ict_index st)) = 0xFFFFFFFF then cause = 0
     else \<forall>n. bit cause n \<longleftrightarrow> n < 8 \<and> (\<exists>v \<in> set (ict_run tbl (ict_index st)). bit v n)
       \<or> 24 \<le> n \<and> n < 32 \<and> (\<exists>v \<in> set (ict_run tbl (ict_index st)). bit v (n - 16))
       \<or> n = 31 \<and> (\<exists>v \<in> set (ict_run tbl (ict_index st)). bit v 18 \<or> bit v 19))"
proof -
  let ?v = "foldl (OR) 0 (ict_run tbl (ict_index st))"
  have "bit (ict_cause ?v) n = cause_bit ?v n" if "?v \<noteq> 0xFFFFFFFF" for n using ict_cause_bits[OF that] .
  moreover have "ict_cause 0xFFFFFFFF = 0" by (simp add: ict_cause_def)
  ultimately show ?thesis unfolding ict_cause_run[OF assms] cause_bit_def foldl_or_bit by auto
qed

theorem ict_cause_exact_witness:
  "\<exists>cause st'. iwl_pcie_int_cause_ict (card_demo\<lparr>ict_tbl := Some ((replicate 1024 0)[1023 := 1, 0 := 0x40000]), ict_index := 1023\<rparr>) = Inr (cause, st')
    \<and> bit cause 0 \<and> bit cause 31 \<and> ict_index st' = 1"
proof -
  let ?tbl = "(replicate 1024 (0 :: u32))[1023 := 1, 0 := 0x40000]"
  have run: "ict_run ?tbl 1023 = [1, 0x40000]"
    using ict_run_Cons[of ?tbl 1024 1023] ict_run_Cons[of "?tbl[1023 := 0]" 1024 0] ict_run_Nil[of 1 "?tbl[1023 := 0, 0 := 0]"] by simp
  have bits: "bit (0x40000 :: u32) 18" "bit (1 :: u32) 0" by simp_all
  have "length ?tbl = ICT_COUNT" "(1023 :: nat) < ICT_COUNT" by (simp_all add: ICT_COUNT_def)
  from ict_cause_exact[of "card_demo\<lparr>ict_tbl := Some ?tbl, ict_index := 1023\<rparr>" ?tbl] this bits show ?thesis
    by (auto simp: run ICT_COUNT_def)
qed

subsection \<open>The states between interrupts\<close>

text \<open>The mutex is (or is not) taken, the receive queue and the command queue are sound, the table is there when it is used, and so is every queue in use.\<close>

definition queue_there :: "card_cfg \<Rightarrow> 'd card \<Rightarrow> nat \<Rightarrow> bool" where
  "queue_there c st i \<longleftrightarrow> get_txq c i st \<noteq> None"

lemma queue_there_eq: "queue_there c st i \<longleftrightarrow> (if i = unat (cmd_queue (rx_pcie (cfg_rx c))) then cmd_txq_live st else txq_at st i \<noteq> None)"
  by (simp add: queue_there_def get_txq_def)

definition irq_ready :: "card_cfg \<Rightarrow> bool \<Rightarrow> 'd card \<Rightarrow> bool" where
  "irq_ready c m st \<longleftrightarrow> card_mutex st = m \<and> rx_wf (card_rx st) \<and> answerable (rx_cmdq (card_rx st)) \<and>
     (use_ict st \<longrightarrow> (\<exists>tbl. ict_tbl st = Some tbl \<and> length tbl = ICT_COUNT \<and> ict_index st < ICT_COUNT)) \<and>
     (\<forall>i < num_of_queues c. queue_used st i \<longrightarrow> queue_there c st i)"

lemma rx_wf_cmdq: "rx_wf (r\<lparr>rx_cmdq := q\<rparr>) = rx_wf r"
  by (simp add: rx_wf_def rx_ok_def credit_def places_def Let_def)

lemma answerable_status: "answerable (q\<lparr>cq_status := w\<rparr>) = answerable q"
  by (simp add: answerable_def)

interpretation irq: card_states "irq_ready c m"
proof
  show "irq_ready c m st \<Longrightarrow> \<not> reg_lock (pcie_trans (card_pcie st))" for st :: "'a card"
    by (simp add: irq_ready_def answerable_def card_pcie_def)
  show "irq_ready c m st \<Longrightarrow> irq_ready c m (with_device d st)" for st :: "'a card" and d
    by (simp add: irq_ready_def with_device_def put_pcie_def card_pcie_def rx_wf_cmdq queue_there_eq answerable_device)
  show "irq_ready c m st \<Longrightarrow> irq_ready c m (with_status w st)" for st :: "'a card" and w
    by (simp add: irq_ready_def with_status_def rx_wf_cmdq queue_there_eq answerable_status)
qed (simp_all add: irq_ready_def queue_there_eq)

text \<open>A step of the receive part.\<close>

lemma irq_on_rx:
  fixes f :: "'d rx \<Rightarrow> 'd rx run"
  assumes "\<And>r. rx_wf r \<Longrightarrow> answerable (rx_cmdq r) \<Longrightarrow> \<exists>r'. f r = Inr r' \<and> rx_wf r' \<and> answerable (rx_cmdq r')"
  shows "keeps (irq_ready c m) (on_rx f)"
  unfolding keeps_def
proof (intro allI impI)
  fix st :: "'d card" assume st: "irq_ready c m st"
  with assms[of "card_rx st"] obtain r where "f (card_rx st) = Inr r" "rx_wf r" "answerable (rx_cmdq r)" by (auto simp: irq_ready_def)
  then show "\<exists>x st'. on_rx f st = Inr (x, st') \<and> irq_ready c m st'"
    using st by (simp add: on_rx_def irq_ready_def queue_there_eq)
qed

lemma told_wf: "told r r' \<Longrightarrow> rx_wf r \<Longrightarrow> rx_wf r' \<and> answerable (rx_cmdq r')"
  using told_keeps[of r r'] by (simp add: rx_wf_def) (simp add: told_def)

lemma rx_wf_need_update: "rx_wf (upd_q (\<lambda>q. q\<lparr>rxq_need_update := b\<rparr>) r) = rx_wf r" "rx_cmdq (upd_q (\<lambda>q. q\<lparr>rxq_need_update := b\<rparr>) r) = rx_cmdq r"
  by (simp_all add: upd_q_def rx_wf_def rx_ok_def q_ok_def places_def gap_def slots_told_def credit_def Let_def)

lemma check_rx_wrptr_keeps:
  fixes hw :: "'d hw"
  shows "keeps (irq_ready c m) (on_rx (iwl_pcie_rxq_check_wrptr hw d))"
proof (rule irq_on_rx)
  fix r :: "'d rx" assume r: "rx_wf r" "answerable (rx_cmdq r)"
  from inc_wr_ptr_returns[OF r(2)] obtain r' where "iwl_pcie_rxq_inc_wr_ptr hw d r = Inr r'" "told r r'" by blast
  then show "\<exists>r'. iwl_pcie_rxq_check_wrptr hw d r = Inr r' \<and> rx_wf r' \<and> answerable (rx_cmdq r')"
    using told_wf[OF _ r(1)] r by (auto simp: iwl_pcie_rxq_check_wrptr_def rx_wf_need_update)
qed

lemma answerable_waked: "answerable (wake_waiter q) = answerable q"
  by (cases "cq_waiter q") (simp_all add: answerable_def wake_waiter_def)

lemma handle_error_keeps:
  fixes hw :: "'d hw"
  shows "keeps (irq_ready c m) (on_rx (iwl_pcie_irq_handle_error hw d))"
proof (rule irq_on_rx)
  fix r :: "'d rx" assume r: "rx_wf r" "answerable (rx_cmdq r)"
  have read: "\<exists>x r'. rx_on_dev (iwl_read_prph hw a) r1 = Inr (x, r') \<and> rx_wf r' \<and> answerable (rx_cmdq r')"
    if r1: "rx_wf r1" "answerable (rx_cmdq r1)" for a and r1 :: "'d rx"
  proof -
    have "releases (iwl_read_prph hw a) (pcie_trans (cq_pcie (rx_cmdq r1)))"
      using free_window(1)[of hw a] r1(2) by (simp add: free_io_def answerable_def)
    from rx_on_dev_returns[OF this r1(2)] obtain x r' where e: "rx_on_dev (iwl_read_prph hw a) r1 = Inr (x, r')" "answerable (rx_cmdq r')"
      "rx_q r' = rx_q r1" "rx_rba r' = rx_rba r1" "rx_pool r' = rx_pool r1" "rx_ptr r' = rx_ptr r1" by blast
    have "rx_wf r' = rx_wf r1" unfolding rx_wf_def rx_ok_def credit_def places_def by (simp only: e)
    then show ?thesis using e r1(1) by blast
  qed
  let ?clear = "\<lambda>r. bindF (status_op (clear_bit STATUS_SYNC_HCMD_ACTIVE) (rx_cmdq r)) (\<lambda>cq. Inr (r\<lparr>rx_cmdq := wake_waiter cq\<rparr>))"
  have clear: "\<exists>r'. ?clear r1 = Inr r' \<and> rx_wf r' \<and> answerable (rx_cmdq r')" if "rx_wf r1" "answerable (rx_cmdq r1)" for r1 :: "'d rx"
    using status_clear[of STATUS_SYNC_HCMD_ACTIVE "rx_cmdq r1"] that
    by (auto simp: STATUS_SYNC_HCMD_ACTIVE_def rx_wf_cmdq answerable_waked answerable_status)
  show "\<exists>r'. iwl_pcie_irq_handle_error hw d r = Inr r' \<and> rx_wf r' \<and> answerable (rx_cmdq r')"
  proof (cases "internal_wimax_coex d \<and> \<not> apmg_not_supported d")
    case False
    have "iwl_pcie_irq_handle_error hw d r = ?clear r"
      unfolding iwl_pcie_irq_handle_error_def by (simp only: False if_False bindF_simps)
    then show ?thesis using clear[OF r] by simp
  next
    case True
    obtain x r1 where 1: "rx_on_dev (iwl_read_prph hw APMG_CLK_CTRL_REG) r = Inr (x, r1)" "rx_wf r1" "answerable (rx_cmdq r1)" using read[OF r] by blast
    obtain y r2 where 2: "rx_on_dev (iwl_read_prph hw APMG_PS_CTRL_REG) r1 = Inr (y, r2)" "rx_wf r2" "answerable (rx_cmdq r2)" using read[OF 1(2,3)] by blast
    show ?thesis using True 1(1) 2(1) clear[OF 1(2,3)] clear[OF 2(2,3)] by (simp add: iwl_pcie_irq_handle_error_def)
  qed
qed

text \<open>A queue that is told to the device again.\<close>

lemma on_dev_free: "free_io m \<Longrightarrow> unlocked s \<Longrightarrow> \<exists>x d. on_dev m s = Inr (x, s\<lparr>pcie_trans := (pcie_trans s)\<lparr>hw_base := d\<rparr>\<rparr>)"
  by (fastforce simp: free_io_def releases_def on_dev_def)

abbreviation at_device :: "'d pcie \<Rightarrow> 'd \<Rightarrow> 'd pcie" where
  "at_device s d \<equiv> s\<lparr>pcie_trans := (pcie_trans s)\<lparr>hw_base := d\<rparr>\<rparr>"

lemma txq_inc_returns:
  fixes s :: "'d pcie"
  assumes "unlocked s"
  shows "\<exists>n d. iwl_pcie_txq_inc_wr_ptr hw p (q, s) = Inr (q\<lparr>need_update := n\<rparr>, at_device s d)"
proof -
  have dev: "\<exists>x e. on_dev m (at_device s d) = Inr (x, at_device s e)" if "free_io m" for m :: "('d, 'a) io" and d
    using on_dev_free[OF that, of "at_device s d"] assms by auto
  have same: "q = q\<lparr>need_update := need_update q\<rparr>" "s = at_device s (hw_base (pcie_trans s))" by simp_all
  have tell: "\<exists>e. (if txq_block q = 0 then bindF (on_dev (iwl_write32 hw HBUS_TARG_WRPTR v) (at_device s d)) (\<lambda>(_, s). Inr (q, s))
      else Inr (q, at_device s d)) = Inr (q, at_device s e)" for v d
    using dev[OF free_plain(1)[of hw HBUS_TARG_WRPTR v], of d] by auto
  let ?v = "word_of_int (write_ptr q) OR push_bit 8 (txq_id q)"
  show ?thesis
  proof (cases "\<not> shadow_reg_enable p \<and> txq_id q \<noteq> cmd_queue p \<and> tpower_pmi p")
    case False
    from tell[of ?v "hw_base (pcie_trans s)"] obtain e where "iwl_pcie_txq_inc_wr_ptr hw p (q, s) = Inr (q, at_device s e)"
      using False by (auto simp: iwl_pcie_txq_inc_wr_ptr_def split: if_splits)
    then show ?thesis using same(1) by metis
  next
    case True
    obtain reg d where 1: "on_dev (iwl_read32 hw CSR_UCODE_DRV_GP1) s = Inr (reg, at_device s d)"
      using on_dev_free[OF free_plain(3) assms] by blast
    show ?thesis
    proof (cases "reg AND 1 = 0")
      case True
      from tell[of ?v d] obtain e where "iwl_pcie_txq_inc_wr_ptr hw p (q, s) = Inr (q, at_device s e)"
        using \<open>\<not> shadow_reg_enable p \<and> _\<close> 1 True by (auto simp: iwl_pcie_txq_inc_wr_ptr_def split: if_splits)
      then show ?thesis using same(1) by metis
    next
      case False
      obtain x e where 2: "on_dev (iwl_set_bit hw CSR_GP_CNTRL CSR_GP_CNTRL_REG_FLAG_MAC_ACCESS_REQ) (at_device s d) = Inr (x, at_device s e)"
        using dev[OF free_bits(1)] by blast
      then have "iwl_pcie_txq_inc_wr_ptr hw p (q, s) = Inr (q\<lparr>need_update := True\<rparr>, at_device s e)"
        using True False 1 by (simp add: iwl_pcie_txq_inc_wr_ptr_def)
      then show ?thesis by blast
    qed
  qed
qed

lemma answerable_told: "answerable (q\<lparr>cq_pcie := at_device (cq_pcie q) d, cq_queue := (cq_queue q)\<lparr>need_update := n\<rparr>\<rparr>) = answerable q"
  by (simp add: answerable_def ring_ok_def entry_dmas_def in_use_def)

lemma irq_put_txq:
  assumes "irq_ready c m st" and "get_txq c i st = Some q"
  shows "irq_ready c m (put_txq c i (q\<lparr>need_update := n\<rparr>) (put_pcie (at_device (card_pcie st) d) st))"
proof (cases "i = unat (cmd_queue (rx_pcie (cfg_rx c)))")
  case True
  then have "q = cq_queue (rx_cmdq (card_rx st))" using assms(2) by (simp add: get_txq_def split: if_splits)
  moreover have "(rx_cmdq r)\<lparr>cq_pcie := a, cq_queue := b\<rparr> = (rx_cmdq r)\<lparr>cq_queue := b, cq_pcie := a\<rparr>" for r :: "'a rx" and a b by simp
  ultimately show ?thesis using assms(1) True answerable_told[where q = "rx_cmdq (card_rx st)" and n = n and d = d]
    by (simp add: irq_ready_def put_txq_def put_pcie_def card_pcie_def rx_wf_cmdq queue_there_eq)
next
  case False
  let ?st = "put_txq c i (q\<lparr>need_update := n\<rparr>) (put_pcie (at_device (card_pcie st) d) st)"
  have "queue_there c ?st j" if "queue_there c st j" for j
    using that False by (simp add: put_txq_def put_pcie_def queue_there_eq split: if_splits)
  then show ?thesis using assms(1) False
    by (auto simp: irq_ready_def put_txq_def put_pcie_def card_pcie_def rx_wf_cmdq answerable_device)
qed

lemma check_wrptr_keeps: "i < num_of_queues c \<Longrightarrow> keeps (irq_ready c m) (check_wrptr hw c i)"
  unfolding keeps_def
proof (intro allI impI)
  fix st :: "'a card" assume i: "i < num_of_queues c" and st: "irq_ready c m st"
  show "\<exists>x st'. check_wrptr hw c i st = Inr (x, st') \<and> irq_ready c m st'"
  proof (cases "queue_used st i")
    case False
    then show ?thesis using st by (simp add: check_wrptr_def bindC_def getC_def whenC_def retC_def)
  next
    case True
    then obtain q where q: "get_txq c i st = Some q" using st i by (auto simp: irq_ready_def queue_there_def)
    have l: "unlocked (card_pcie st)" using st by (simp add: irq_ready_def answerable_def card_pcie_def)
    have same: "q = q\<lparr>need_update := need_update q\<rparr>" "card_pcie st = at_device (card_pcie st) (hw_base (pcie_trans (card_pcie st)))" by simp_all
    show ?thesis
    proof (cases "need_update q")
      case False
      have "check_wrptr hw c i st = Inr ((), put_txq c i q (put_pcie (card_pcie st) st))"
        using True q False by (simp add: check_wrptr_def bindC_def getC_def whenC_def on_txq_def)
      then show ?thesis using irq_put_txq[OF st q] same by metis
    next
      case True
      from txq_inc_returns[OF l, of hw "rx_pcie (cfg_rx c)" q] obtain n d where
        "iwl_pcie_txq_inc_wr_ptr hw (rx_pcie (cfg_rx c)) (q, card_pcie st) = Inr (q\<lparr>need_update := n\<rparr>, at_device (card_pcie st) d)" by blast
      then have "check_wrptr hw c i st = Inr ((), put_txq c i (q\<lparr>need_update := False\<rparr>) (put_pcie (at_device (card_pcie st) d) st))"
        using \<open>queue_used st i\<close> q True by (simp add: check_wrptr_def bindC_def getC_def whenC_def on_txq_def)
      then show ?thesis using irq_put_txq[OF st q] by blast
    qed
  qed
qed

lemma check_wrptrs_keeps: "keeps (irq_ready c m) (iwl_pcie_txq_check_wrptrs hw c)"
  unfolding iwl_pcie_txq_check_wrptrs_def by (intro keeps_seq) (simp add: list_all_iff check_wrptr_keeps)

lemma wake_sync_keeps: "keeps (irq_ready c m) wake_sync_command"
  unfolding wake_sync_command_def by (rule keeps_upd) (simp add: irq_ready_def rx_wf_cmdq answerable_waked queue_there_eq)

subsection \<open>The handler\<close>

text \<open>The radio kill interrupt takes the mutex and gives it back.\<close>

definition leads :: "('d card \<Rightarrow> bool) \<Rightarrow> ('d card \<Rightarrow> bool) \<Rightarrow> ('d, 'a) card_io \<Rightarrow> bool" where
  "leads P Q m \<longleftrightarrow> (\<forall>st. P st \<longrightarrow> (\<exists>x st'. m st = Inr (x, st') \<and> Q st'))"

lemma leads_bind:
  assumes "leads P Q m" and "\<And>x. leads Q R (k x)"
  shows "leads P R (bindC m k)"
  unfolding leads_def
proof (intro allI impI)
  fix st assume "P st"
  with assms(1) obtain x st1 where 1: "m st = Inr (x, st1)" "Q st1" unfolding leads_def by blast
  from assms(2) 1(2) obtain y st2 where "k x st1 = Inr (y, st2)" "R st2" unfolding leads_def by blast
  with 1(1) show "\<exists>x st'. bindC m k st = Inr (x, st') \<and> R st'" by (simp add: bindC_def)
qed

lemma leads_keep_bind: "keeps P m \<Longrightarrow> (\<And>x. leads P R (k x)) \<Longrightarrow> leads P R (bindC m k)"
  by (rule leads_bind[where Q = P]) (simp_all add: leads_def keeps_def)

lemma lock_leads: "leads (irq_ready c False) (irq_ready c True) IOLockLock" "leads (irq_ready c True) (irq_ready c False) IOLockUnlock"
  by (simp_all add: leads_def IOLockLock_def IOLockUnlock_def irq_ready_def queue_there_eq)

lemmas irq_keeps = keeps_intros irq.status_keeps irq.switch_keeps irq.books_keep irq.interrupts_keep irq.masks_keep irq.keeps_dev free_intros
  wake_sync_keeps check_wrptrs_keeps handle_error_keeps check_rx_wrptr_keeps

lemma rfkill_irq_keeps: "keeps (irq_ready c False) (iwl_pcie_handle_rfkill_irq hw)"
proof -
  have "leads (irq_ready c False) (irq_ready c False) (iwl_pcie_handle_rfkill_irq hw)"
    unfolding iwl_pcie_handle_rfkill_irq_def
    apply (rule leads_bind[OF lock_leads(1)])
    apply (rule leads_keep_bind, (intro irq_keeps; fail))+
    apply (rule leads_bind[OF lock_leads(2)])
    apply (subst leads_def, subst keeps_def[symmetric], intro irq_keeps)
    done
  then show ?thesis by (simp add: leads_def keeps_def)
qed

lemma announce_keeps: "keeps (irq_ready c m) (announce_rx hw inta)"
  unfolding announce_rx_def by (intro irq_keeps)

lemma early_keeps: "keeps (irq_ready c False) (service_early hw c inta)"
  unfolding service_early_def by (intro irq_keeps rfkill_irq_keeps)

lemma late_keeps: "keeps (irq_ready c m) (service_late hw inta)"
  unfolding service_late_def by (intro irq_keeps)

lemma debug_keeps: "keeps (irq_ready c m) (debug_reads hw d regs)"
  unfolding debug_reads_def by (intro irq_keeps)

lemma idle_keeps: "keeps (irq_ready c m) (irq_idle hw)" "keeps (irq_ready c m) (irq_hw_error hw d)" "keeps (irq_ready c m) (irq_ack hw d inta)"
  unfolding irq_idle_def irq_hw_error_def irq_ack_def by (intro irq_keeps debug_keeps)+

lemma service_debug_keeps: "\<not> gen2 c \<Longrightarrow> keeps (irq_ready c m) (service_debug hw c inta)"
  unfolding service_debug_def by (intro irq_keeps) simp_all

lemma cause_keeps:
  assumes "irq_ready c m st" and "use_ict st"
  shows "\<exists>v st'. iwl_pcie_int_cause_ict st = Inr (v, st') \<and> irq_ready c m st'"
proof -
  obtain tbl where t: "ict_tbl st = Some tbl" "length tbl = ICT_COUNT" "ict_index st < ICT_COUNT" using assms by (auto simp: irq_ready_def)
  show ?thesis using assms(1) t(2) unfolding ict_cause_run[OF t]
    by (auto simp: irq_ready_def ict_cleared_def queue_there_eq ICT_COUNT_def)
qed

lemma begin_keeps: "keeps (irq_ready c m) (irq_begin hw d)"
  unfolding keeps_def
proof (intro allI impI)
  fix st :: "'a card" assume st: "irq_ready c m st"
  let ?cause = "if use_ict st then iwl_pcie_int_cause_ict else iwl_pcie_int_cause_non_ict hw"
  obtain v st1 where 1: "?cause st = Inr (v, st1)" "irq_ready c m st1"
  proof (cases "use_ict st")
    case True
    then show ?thesis using cause_keeps[OF st] that by auto
  next
    case False
    have "keeps (irq_ready c m) (iwl_pcie_int_cause_non_ict hw)" unfolding iwl_pcie_int_cause_non_ict_def by (intro irq_keeps)
    from this st show ?thesis using False that by (auto elim: keepsE)
  qed
  have "keeps (irq_ready c m) (bindC (debug_reads hw d [CSR_INT_MASK, CSR_FH_INT_STATUS]) (\<lambda>_. bindC (getC inta_mask) (\<lambda>m. retC (v AND m))))"
    by (intro irq_keeps debug_keeps)
  from this 1(2) obtain x st2 where "bindC (debug_reads hw d [CSR_INT_MASK, CSR_FH_INT_STATUS]) (\<lambda>_. bindC (getC inta_mask) (\<lambda>m. retC (v AND m))) st1
      = Inr (x, st2)" "irq_ready c m st2" by (rule keepsE)
  then show "\<exists>x st'. irq_begin hw d st = Inr (x, st') \<and> irq_ready c m st'"
    using 1(1) by (auto simp: irq_begin_def bindC_def[of "getC use_ict"] getC_def[of use_ict] bindC_def[of "if _ then _ else _"])
qed

lemma rx_part:
  assumes "irq_ready c m st" and "pages_come env" "op_sound op" "pages_full page_mem" "rx_page_order (cfg_rx c) = 0" "\<not> mq_rx_supported (cfg_rx c)"
  shows "\<exists>r. iwl_pcie_rx_handle env hw (cfg_rx c) op page_mem closed (card_rx st) = Some (Inr r) \<and> irq_ready c m (st\<lparr>card_rx := r\<rparr>)"
  using rx_handle_ok[of "card_rx st" env op page_mem "cfg_rx c" hw closed] assms by (fastforce simp: irq_ready_def queue_there_eq)



end
