(* ===== verification/Tx_Typed.thy ===== *)
theory Tx_Typed
  imports Pcie_Laws
begin

section \<open>The transmit queues after the start\<close>

text \<open>
  When the allocations are granted, \<open>iwl_pcie_tx_init\<close> succeeds, and every queue is well-formed in the sense the queue operations
  need (\<open>txq_wf\<close> of \<open>Tx_Delivery\<close>, \<open>answerable\<close> of \<open>Tx_Answers\<close>): all arrays have their lengths, the ring is empty, and every slot has its part of
  the buffer of first fragments.
\<close>

subsection \<open>Memory\<close>

text \<open>The memory that is handed out is free and has an address the device can be given.\<close>

definition dma_sound :: "dma_env \<Rightarrow> bool" where
  "dma_sound env \<longleftrightarrow> (\<forall>m n a. env m n = Some a \<longrightarrow> uint a + int n \<le> 2 ^ 36 \<and> (\<forall>i < n. m (a + of_nat i) = None))"

lemma dma_soundD: "dma_sound env \<Longrightarrow> env m n = Some a \<Longrightarrow> i < n \<Longrightarrow> m (a + of_nat i) = None"
  "dma_sound env \<Longrightarrow> env m n = Some a \<Longrightarrow> uint a + int n \<le> 2 ^ 36"
  unfolding dma_sound_def by auto

text \<open>What is live stays live with its content, and the device is not touched.\<close>

definition keeps_live :: "'d pcie \<Rightarrow> 'd pcie \<Rightarrow> bool" where
  "keeps_live s s' \<longleftrightarrow> pcie_trans s' = pcie_trans s \<and> dma_mem s \<subseteq>\<^sub>m dma_mem s'"

lemma keeps_live_refl: "keeps_live s s"
  by (simp add: keeps_live_def)

lemma keeps_live_trans: "keeps_live s s1 \<Longrightarrow> keeps_live s1 s2 \<Longrightarrow> keeps_live s s2"
  unfolding keeps_live_def by (auto intro: map_le_trans)

lemma zalloc_live: "zalloc s = (r, s') \<Longrightarrow> keeps_live s s'"
  by (auto simp: zalloc_def Let_def keeps_live_def split: prod.splits)

lemma zallocs_live: "zallocs n s = (r, s') \<Longrightarrow> keeps_live s s'"
proof (induction n arbitrary: s)
  case (Suc n)
  obtain b s1 where z: "zalloc s = (b, s1)" by (cases "zalloc s")
  show ?case
  proof (cases b)
    case True
    then show ?thesis using Suc z zalloc_live[OF z] keeps_live_trans by auto
  next
    case False
    then show ?thesis using Suc.prems z zalloc_live[OF z] by auto
  qed
qed (simp add: keeps_live_refl)

lemma alloc_ptr_cases:
  assumes "iwl_pcie_alloc_dma_ptr env None n s = Inr (r, s')" and "dma_sound env" and "0 < n"
  shows "keeps_live s s' \<and> (\<forall>a. r = Inr a \<longrightarrow> env (dma_mem s) n = Some a \<and> dma_mem s' = (dma_mem s)(a \<mapsto> replicate n 0))"
proof (cases "env (dma_mem s) n")
  case None
  then show ?thesis using assms(1) by (auto simp: iwl_pcie_alloc_dma_ptr_def allocate_dma_buf_def keeps_live_refl)
next
  case (Some a)
  have "dma_mem s (a + of_nat 0) = None" by (rule dma_soundD(1)[OF assms(2) Some assms(3)])
  then show ?thesis using assms(1) Some
    by (auto simp: iwl_pcie_alloc_dma_ptr_def allocate_dma_buf_def keeps_live_def Let_def map_le_def split: prod.splits if_splits)
qed

lemma first_tbs_cases:
  assumes "alloc_first_tbs env n s = Inr (r, s')" and "dma_sound env" and "0 < n"
  shows "keeps_live s s' \<and> (\<forall>a. r = Inr a \<longrightarrow> uint a + 64 * int n \<le> 2 ^ 36 \<and> (\<forall>k < n. dma_mem s' (a + 64 * of_nat k) = Some (replicate 64 0)))"
proof -
  obtain r1 s1 where 1: "iwl_pcie_alloc_dma_ptr env None (IWL_FIRST_TB_SIZE_ALIGN * n) s = Inr (r1, s1)"
    using assms(1) by (auto simp: alloc_first_tbs_def bindF_def split: sum.splits)
  have c: "keeps_live s s1" "r1 = Inr a \<Longrightarrow> env (dma_mem s) (64 * n) = Some a" for a
    using alloc_ptr_cases[OF 1 assms(2)] assms(3) by (auto simp: IWL_FIRST_TB_SIZE_ALIGN_def)
  show ?thesis
  proof (cases r1)
    case (Inl e)
    then show ?thesis using assms(1) 1 c(1) by (auto simp: alloc_first_tbs_def)
  next
    case (Inr a)
    note env = c(2)[OF Inr]
    have free: "dma_mem s x = None" if x: "x \<in> elements a n" for x
    proof -
      obtain i where i: "i < n" "x = a + of_nat (64 * i)" using x by (auto simp: elements_def IWL_FIRST_TB_SIZE_ALIGN_def)
      then have "64 * i < 64 * n" by simp
      from dma_soundD(1)[OF assms(2) env this] show ?thesis by (simp only: i(2))
    qed
    let ?s = "s1\<lparr>dma_mem := \<lambda>x. if x \<in> elements a n then Some (replicate IWL_FIRST_TB_SIZE_ALIGN 0) else dma_mem s1 x\<rparr>"
    have run: "alloc_first_tbs env n s = Inr (Inr a, ?s)" using 1 Inr by (simp add: alloc_first_tbs_def)
    have "keeps_live s ?s" using c(1) free by (fastforce simp: keeps_live_def map_le_def)
    moreover have "uint a + 64 * int n \<le> 2 ^ 36" using dma_soundD(2)[OF assms(2) env] by simp
    moreover have "a + 64 * of_nat k \<in> elements a n" if "k < n" for k
      using that by (auto simp: elements_def IWL_FIRST_TB_SIZE_ALIGN_def)
    ultimately show ?thesis using assms(1) run by (auto simp: IWL_FIRST_TB_SIZE_ALIGN_def)
  qed
qed

subsection \<open>One queue\<close>

definition queue_sized :: "nat \<Rightarrow> iwl_txq \<Rightarrow> 'd pcie \<Rightarrow> bool" where
  "queue_sized n q s \<longleftrightarrow> tfds q = replicate 256 zero_tfd \<and> txq_entries q = replicate n zero_entry \<and>
     (\<forall>k < n. uint (iwl_pcie_get_first_tb_dma q k) < 2 ^ 36 \<and> dma_mem s (iwl_pcie_get_first_tb_dma q k) = Some (replicate 64 0))"

lemma queue_sized_live: "queue_sized n q s \<Longrightarrow> keeps_live s s' \<Longrightarrow> queue_sized n q s'"
  by (auto simp: queue_sized_def keeps_live_def map_le_def dom_def)

lemma uint_offset:
  fixes a :: u64
  assumes "uint a + 64 * int n \<le> 2 ^ 36" and "k < n"
  shows "uint (a + 64 * of_nat k) < 2 ^ 36"
proof -
  have k: "uint (64 * of_nat k :: u64) = 64 * int k"
  proof -
    have "0 \<le> uint a" "uint a + 64 * int n \<le> 68719476736" using assms(1) by simp_all
    then have "64 * k < 18446744073709551616" using assms(2) by linarith
    then have "64 * k < 2 ^ LENGTH(64)" by simp
    then have "uint (of_nat (64 * k) :: u64) = int (64 * k)" unfolding unsigned_of_nat by (subst take_bit_nat_eq_self) simp_all
    then show ?thesis unfolding of_nat_mult of_nat_numeral .
  qed
  have "uint (a + 64 * of_nat k) = (uint a + 64 * int k) mod 2 ^ 64" unfolding uint_word_ariths(1) k by simp
  also have "\<dots> \<le> uint a + 64 * int k" by (rule zmod_le_nonneg_dividend) simp
  finally show ?thesis using assms by linarith
qed

lemma txq_alloc_sized:
  assumes "iwl_pcie_txq_alloc env n is_cmd (zero_txq, m, s) = ok (q, m', s')" and "dma_sound env" and "0 < n"
  shows "queue_sized n q s' \<and> keeps_live s s'"
proof -
  obtain b1 s1 where 1: "zalloc s = (b1, s1)" by (cases "zalloc s")
  have b1: b1 using assms(1) 1 by (auto simp: iwl_pcie_txq_alloc_def zero_txq_def Let_def split: if_splits)
  obtain b2 s2 where 2: "(if is_cmd then zallocs n s1 else (True, s1)) = (b2, s2)" by (cases "if is_cmd then zallocs n s1 else (True, s1)")
  have b2: b2 using assms(1) 1 b1 2 by (auto simp: iwl_pcie_txq_alloc_def zero_txq_def Let_def split: if_splits)
  obtain r3 s3 where 3: "iwl_pcie_alloc_dma_ptr env None (128 * 256) s2 = Inr (r3, s3)"
    using assms(1) 1 b1 2 b2 by (cases "iwl_pcie_alloc_dma_ptr env None (128 * 256) s2") (auto simp: iwl_pcie_txq_alloc_def zero_txq_def Let_def)
  obtain ring where r3: "r3 = Inr ring"
    using assms(1) 1 b1 2 b2 3 by (cases r3) (auto simp: iwl_pcie_txq_alloc_def zero_txq_def Let_def)
  obtain r4 s4 where 4: "alloc_first_tbs env n s3 = Inr (r4, s4)"
    using assms(1) 1 b1 2 b2 3 r3 by (cases "alloc_first_tbs env n s3") (auto simp: iwl_pcie_txq_alloc_def zero_txq_def Let_def)
  obtain first where r4: "r4 = Inr first"
    using assms(1) 1 b1 2 b2 3 r3 4 by (cases r4) (auto simp: iwl_pcie_txq_alloc_def zero_txq_def Let_def bindF_def split: sum.splits)
  have res: "q = zero_txq\<lparr>n_window := int n, tfds := replicate 256 zero_tfd, first_tb_dma := first, txq_entries := replicate n zero_entry\<rparr>" "s' = s4"
    using assms(1) 1 b1 2 b2 3 r3 4 r4 by (auto simp: iwl_pcie_txq_alloc_def zero_txq_def Let_def)
  have live: "keeps_live s1 s2" using 2 zallocs_live keeps_live_refl by (cases is_cmd) auto
  note f = first_tbs_cases[OF 4 assms(2,3)]
  have "keeps_live s s4"
  proof -
    have "keeps_live s2 s3" using alloc_ptr_cases[OF 3 assms(2)] by simp
    then have "keeps_live s2 s4" using f keeps_live_trans by blast
    then show ?thesis using zalloc_live[OF 1] live keeps_live_trans by blast
  qed
  moreover have "queue_sized n q s4"
    using f r4 uint_offset by (auto simp: queue_sized_def res(1) iwl_pcie_get_first_tb_dma_def)
  ultimately show ?thesis unfolding res(2) by blast
qed

subsection \<open>The queues of the card\<close>

lemma txq_access [simp]:
  "get_txq c j (put_txq c i q st) = (if j = i then Some q else get_txq c j st)" "card_pcie (put_txq c i q st) = card_pcie st"
  "get_txq c j (put_pcie s st) = get_txq c j st" "card_pcie (put_pcie s st) = s"
  "get_txq c j (upd_more k f st) = get_txq c j st" "card_pcie (upd_more k f st) = card_pcie st"
  "kw_buf (put_txq c i q st) = kw_buf st" "kw_buf (put_pcie s st) = kw_buf st" "kw_buf (upd_more k f st) = kw_buf st"
  "get_txq c j (with_device d st) = get_txq c j st" "dma_mem (card_pcie (with_device d st)) = dma_mem (card_pcie st)"
  "unlocked (card_pcie (with_device d st)) = unlocked (card_pcie st)" "kw_buf (with_device d st) = kw_buf st"
  by (simp_all add: get_txq_def put_txq_def card_pcie_def put_pcie_def upd_more_def with_device_def)

definition queue_at :: "card_cfg \<Rightarrow> 'd card \<Rightarrow> nat \<Rightarrow> bool" where
  "queue_at c st i \<longleftrightarrow> (\<exists>q. get_txq c i st = Some q \<and> queue_sized (slots_of c i) q (card_pcie st) \<and> txq_id q = of_nat i)"

text \<open>A queue the operations can be called on: well-formed and empty.\<close>

definition queue_ready :: "card_cfg \<Rightarrow> 'd card \<Rightarrow> nat \<Rightarrow> bool" where
  "queue_ready c st i \<longleftrightarrow> (\<exists>q. get_txq c i st = Some q \<and> txq_wf q (card_pcie st) \<and> inflight q = [] \<and> n_window q = int (slots_of c i)
     \<and> txq_id q = of_nat i \<and> txq_entries q = replicate (slots_of c i) zero_entry)"

lemma slots_pos: "0 < slots_of c i"
  by (simp add: slots_of_def TFD_CMD_SLOTS_def TFD_TX_CMD_SLOTS_def)

lemma slots_cases: "slots_of c i = TFD_CMD_SLOTS \<or> slots_of c i = TFD_TX_CMD_SLOTS"
  by (simp add: slots_of_def)

lemma queue_sized_id: "queue_sized n (q\<lparr>txq_id := w\<rparr>) s = queue_sized n q s"
  by (simp add: queue_sized_def iwl_pcie_get_first_tb_dma_def)

lemma alloc_queue_at:
  assumes "alloc_queue env c i st = Inr (None, st')" and "dma_sound env"
  shows "queue_at c st' i \<and> keeps_live (card_pcie st) (card_pcie st') \<and> (\<forall>j. j \<noteq> i \<longrightarrow> get_txq c j st' = get_txq c j st) \<and> kw_buf st' = kw_buf st"
proof -
  let ?st = "put_txq c i zero_txq (upd_more i (\<lambda>_. zero_more) st)"
  obtain r q m s where 1: "iwl_pcie_txq_alloc env (slots_of c i) (i = unat (cmd_queue (rx_pcie (cfg_rx c)))) (zero_txq, zero_more, card_pcie st) = Inr (r, q, m, s)"
    using assms(1) by (auto simp: alloc_queue_def Let_def bindF_def split: sum.splits)
  have r: "r = None" using assms(1) 1 by (cases r) (auto simp: alloc_queue_def Let_def)
  have st': "st' = put_txq c i (q\<lparr>txq_id := of_nat i\<rparr>) (upd_more i (\<lambda>_. m) (put_pcie s ?st))"
    using assms(1) 1 r by (simp add: alloc_queue_def Let_def)
  have "queue_sized (slots_of c i) q s \<and> keeps_live (card_pcie st) s"
    using txq_alloc_sized[OF _ assms(2) slots_pos] 1 r by blast
  then show ?thesis unfolding st' by (simp add: queue_at_def queue_sized_id)
qed

lemma queue_at_frame: "queue_at c st i \<Longrightarrow> get_txq c i st' = get_txq c i st \<Longrightarrow> keeps_live (card_pcie st) (card_pcie st') \<Longrightarrow> queue_at c st' i"
  unfolding queue_at_def using queue_sized_live by metis

lemma alloc_queues_at:
  assumes "alloc_queues env c is st = Inr (None, st')" and "dma_sound env" and "distinct is"
  shows "(\<forall>i \<in> set is. queue_at c st' i) \<and> keeps_live (card_pcie st) (card_pcie st') \<and> (\<forall>j. j \<notin> set is \<longrightarrow> get_txq c j st' = get_txq c j st)
    \<and> kw_buf st' = kw_buf st"
  using assms(1,3)
proof (induction "is" arbitrary: st)
  case (Cons i "is")
  obtain r st1 where 1: "alloc_queue env c i st = Inr (r, st1)" using Cons.prems(1) by (auto simp: bindC_def bindF_def split: sum.splits)
  have r: "r = None" using Cons.prems(1) 1 by (cases r) (auto simp: bindC_def retC_def)
  note a = alloc_queue_at[OF 1[unfolded r] assms(2)]
  have "alloc_queues env c is st1 = Inr (None, st')" using Cons.prems(1) 1 r by (simp add: bindC_def)
  from Cons.IH[OF this] Cons.prems(2) have b: "\<forall>i \<in> set is. queue_at c st' i" "keeps_live (card_pcie st1) (card_pcie st')"
    "\<forall>j. j \<notin> set is \<longrightarrow> get_txq c j st' = get_txq c j st1" "kw_buf st' = kw_buf st1" by simp_all
  have "queue_at c st' i" using a b(2,3) Cons.prems(2) queue_at_frame[of c st1 i st'] by auto
  then show ?case using a b keeps_live_trans by auto
qed (simp add: retC_def keeps_live_refl)

lemma bindC_Inr: "bindC m k st = Inr (y, st') \<longleftrightarrow> (\<exists>x st1. m st = Inr (x, st1) \<and> k x st1 = Inr (y, st'))"
  by (auto simp: bindC_def bindF_def split: sum.splits)

lemma alloc_ptr_trans: "iwl_pcie_alloc_dma_ptr env p n s = Inr (r, s') \<Longrightarrow> pcie_trans s' = pcie_trans s"
  by (auto simp: iwl_pcie_alloc_dma_ptr_def allocate_dma_buf_def Let_def bindF_def split: if_splits sum.splits option.splits prod.splits)

lemma alloc_steps_queues:
  assumes "tx_alloc_steps env c st = Inr (None, st')"
  obtains st1 where "alloc_queues env c [0..<num_of_queues c] st1 = Inr (None, st')" and "kw_buf st1 \<noteq> None"
    and "pcie_trans (card_pcie st1) = pcie_trans (card_pcie st)" and "\<not> txq_memory st"
proof -
  have mem: "\<not> txq_memory st" using assms by (auto simp: tx_alloc_steps_def bindC_def getC_def retC_def)
  obtain r1 st1 where 1: "on_pcie (iwl_pcie_alloc_dma_ptr env None (unat (of_nat (num_of_queues c * 640) :: u16))) st = Inr (r1, st1)"
      "(case r1 of Inl e \<Rightarrow> retC (Some e) | Inr _ \<Rightarrow>
     bindC (on_pcie (iwl_pcie_alloc_dma_ptr env None IWL_KW_SIZE)) (\<lambda>r.
     bindC (updC (\<lambda>st. st\<lparr>kw_buf := (case r of Inl _ \<Rightarrow> None | Inr a \<Rightarrow> Some a)\<rparr>)) (\<lambda>_. case r of Inl e \<Rightarrow> retC (Some e) | Inr _ \<Rightarrow>
     bindC (on_pcie (\<lambda>s. Inr (zalloc s))) (\<lambda>okay.
       if \<not> okay then retC (Some ENOMEM)
       else bindC (updC (\<lambda>st. st\<lparr>txq_memory := True\<rparr>)) (\<lambda>_. alloc_queues env c [0..<num_of_queues c])))))
       (st1\<lparr>scd_bc := (case r1 of Inl _ \<Rightarrow> None | Inr a \<Rightarrow> Some a)\<rparr>) = Inr (None, st')"
    using assms mem by (auto simp: tx_alloc_steps_def bindC_Inr getC_def updC_def)
  obtain a where r1: "r1 = Inr a" using 1(2) by (cases r1) (auto simp: retC_def)
  let ?st1 = "st1\<lparr>scd_bc := Some a\<rparr>"
  obtain r2 st2 where 2: "on_pcie (iwl_pcie_alloc_dma_ptr env None IWL_KW_SIZE) ?st1 = Inr (r2, st2)"
      "(case r2 of Inl e \<Rightarrow> retC (Some e) | Inr _ \<Rightarrow>
     bindC (on_pcie (\<lambda>s. Inr (zalloc s))) (\<lambda>okay.
       if \<not> okay then retC (Some ENOMEM)
       else bindC (updC (\<lambda>st. st\<lparr>txq_memory := True\<rparr>)) (\<lambda>_. alloc_queues env c [0..<num_of_queues c])))
       (st2\<lparr>kw_buf := (case r2 of Inl _ \<Rightarrow> None | Inr a \<Rightarrow> Some a)\<rparr>) = Inr (None, st')"
    using 1(2) r1 by (auto simp: bindC_Inr updC_def)
  obtain b where r2: "r2 = Inr b" using 2(2) by (cases r2) (auto simp: retC_def)
  let ?st2 = "st2\<lparr>kw_buf := Some b\<rparr>"
  obtain okay s3 where z: "zalloc (card_pcie ?st2) = (okay, s3)" by (cases "zalloc (card_pcie ?st2)")
  let ?st3 = "(put_pcie s3 ?st2)\<lparr>txq_memory := True\<rparr>"
  have 3: "alloc_queues env c [0..<num_of_queues c] ?st3 = Inr (None, st')"
    using 2(2) r2 z by (auto simp: bindC_Inr updC_def on_pcie_def retC_def split: if_splits)
  have "pcie_trans (card_pcie st1) = pcie_trans (card_pcie st)" "pcie_trans (card_pcie st2) = pcie_trans (card_pcie ?st1)"
    using 1(1) 2(1) alloc_ptr_trans by (auto simp: on_pcie_def bindF_def split: sum.splits)
  then have "pcie_trans (card_pcie ?st3) = pcie_trans (card_pcie st)"
    using zalloc_live[OF z] by (simp add: keeps_live_def card_pcie_def put_pcie_def)
  moreover have "kw_buf ?st3 \<noteq> None" by (simp add: put_pcie_def)
  ultimately show ?thesis using that 3 mem by blast
qed

lemma alloc_steps_at:
  assumes "tx_alloc_steps env c st = Inr (None, st')" and "dma_sound env"
  shows "(\<forall>i < num_of_queues c. queue_at c st' i) \<and> kw_buf st' \<noteq> None \<and> pcie_trans (card_pcie st') = pcie_trans (card_pcie st) \<and> \<not> txq_memory st"
  using assms(1)
proof (rule alloc_steps_queues)
  fix st1 assume a: "alloc_queues env c [0..<num_of_queues c] st1 = Inr (None, st')" "kw_buf st1 \<noteq> None"
    "pcie_trans (card_pcie st1) = pcie_trans (card_pcie st)" "\<not> txq_memory st"
  with alloc_queues_at[OF a(1) assms(2) distinct_upt] show ?thesis by (simp add: keeps_live_def)
qed

subsection \<open>The initialisation\<close>

lemma dev_free:
  assumes "free_io m" and "unlocked (card_pcie st)"
  shows "\<exists>x d. dev m st = Inr (x, with_device d st)"
  using assms by (fastforce simp: free_io_def releases_def dev_def rx_on_dev_def on_dev_def card_pcie_def with_device_def put_pcie_def)

lemma queue_init_ready:
  assumes "queue_sized n q s" and "n = TFD_CMD_SLOTS \<or> n = TFD_TX_CMD_SLOTS"
  shows "\<exists>q'. iwl_pcie_txq_init (int n) q = ok q' \<and> txq_wf q' s \<and> inflight q' = [] \<and> n_window q' = int n \<and> txq_id q' = txq_id q
    \<and> txq_entries q' = replicate n zero_entry"
proof -
  have p: "is_power_of_2 (int n)" "0 < int n" "int n \<le> 256" using assms(2) by (auto simp: TFD_CMD_SLOTS_def TFD_TX_CMD_SLOTS_def is_power_of_2_def)
  obtain q' where q': "iwl_pcie_txq_init (int n) q = ok q'" "tfds q' = tfds q" "txq_entries q' = txq_entries q" "first_tb_dma q' = first_tb_dma q"
      "txq_id q' = txq_id q" using p(1) by (simp add: iwl_pcie_txq_init_def iwl_queue_init_def Let_def)
  note r = init_ring[OF p(2,3) q'(1)]
  have first: "iwl_pcie_get_first_tb_dma q' i = iwl_pcie_get_first_tb_dma q i" for i by (simp add: iwl_pcie_get_first_tb_dma_def q'(4))
  have "txq_wf q' s" using r assms(1) unfolding txq_wf_def first
    by (auto simp: queue_sized_def q'(2,3) zero_tfd_def zero_entry_def IWL_FIRST_TB_SIZE_def)
  then show ?thesis using q'(1,3,5) r assms(1) by (auto simp: queue_sized_def)
qed

lemma init_queue_ready:
  assumes "queue_at c st i" and "unlocked (card_pcie st)"
  shows "\<exists>st'. init_queue hw c i st = Inr (None, st') \<and> queue_ready c st' i \<and> (\<forall>j. j \<noteq> i \<longrightarrow> get_txq c j st' = get_txq c j st)
    \<and> dma_mem (card_pcie st') = dma_mem (card_pcie st) \<and> unlocked (card_pcie st')"
proof -
  from assms(1) obtain q where q: "get_txq c i st = Some q" "queue_sized (slots_of c i) q (card_pcie st)" "txq_id q = of_nat i" unfolding queue_at_def by blast
  from queue_init_ready[OF q(2) slots_cases] obtain q' where q': "iwl_pcie_txq_init (int (slots_of c i)) q = ok q'" "txq_wf q' (card_pcie st)" "inflight q' = []"
    "n_window q' = int (slots_of c i)" "txq_id q' = txq_id q" "txq_entries q' = replicate (slots_of c i) zero_entry" by blast
  let ?st = "put_txq c i q' st"
  obtain x d where d: "dev (iwl_write_direct32 hw (FH_MEM_CBBC_QUEUE (use_tfh c) (of_nat i)) (base_of 8 (txq_dma (txq_rest ?st i)))) ?st = Inr (x, with_device d ?st)"
    using dev_free[OF free_window(7), of ?st] assms(2) by (simp only: txq_access) blast
  have run: "init_queue hw c i st = Inr (None, with_device d ?st)" using q(1) q'(1) d by (simp add: init_queue_def Let_def bindC_def retC_def)
  have wf: "txq_wf q' (card_pcie (with_device d ?st))" using q'(2) by (simp add: txq_wf_def)
  have "queue_ready c (with_device d ?st) i" unfolding queue_ready_def using q' q(3) wf by simp
  then show ?thesis using run assms(2) by auto
qed

lemma queue_frame:
  assumes "get_txq c i st' = get_txq c i st" and "dma_mem (card_pcie st') = dma_mem (card_pcie st)"
  shows "queue_at c st' i = queue_at c st i" and "queue_ready c st' i = queue_ready c st i"
  by (simp_all add: queue_at_def queue_ready_def assms queue_sized_def txq_wf_def)

lemma init_queues_ready:
  assumes "\<forall>i \<in> set is. queue_at c st i" and "unlocked (card_pcie st)" and "distinct is"
  shows "\<exists>st'. init_queues hw c is st = Inr (None, st') \<and> (\<forall>i \<in> set is. queue_ready c st' i) \<and> (\<forall>j. j \<notin> set is \<longrightarrow> get_txq c j st' = get_txq c j st)
    \<and> dma_mem (card_pcie st') = dma_mem (card_pcie st) \<and> unlocked (card_pcie st')"
  using assms
proof (induction "is" arbitrary: st)
  case (Cons i "is")
  have "queue_at c st i" using Cons.prems(1) by simp
  from init_queue_ready[OF this Cons.prems(2)] obtain st1 where 1: "init_queue hw c i st = Inr (None, st1)" "queue_ready c st1 i"
    "\<forall>j. j \<noteq> i \<longrightarrow> get_txq c j st1 = get_txq c j st" "dma_mem (card_pcie st1) = dma_mem (card_pcie st)" "unlocked (card_pcie st1)" by blast
  have "\<forall>j \<in> set is. queue_at c st1 j"
  proof
    fix j assume "j \<in> set is"
    then have "j \<noteq> i" "queue_at c st j" using Cons.prems(1,3) by auto
    then show "queue_at c st1 j" using queue_frame(1)[of c j st1 st] 1(3,4) by simp
  qed
  from Cons.IH[OF this 1(5)] Cons.prems(3) obtain st2 where 2: "init_queues hw c is st1 = Inr (None, st2)" "\<forall>j \<in> set is. queue_ready c st2 j"
    "\<forall>j. j \<notin> set is \<longrightarrow> get_txq c j st2 = get_txq c j st1" "dma_mem (card_pcie st2) = dma_mem (card_pcie st1)" "unlocked (card_pcie st2)" by auto
  have "queue_ready c st2 i" using 1(2) 2(3,4) Cons.prems(3) queue_frame(2)[of c i st2 st1] by simp
  moreover have "init_queues hw c (i # is) st = Inr (None, st2)" using 1(1) 2(1) by (simp add: bindC_def)
  ultimately show ?case using 1(3,4) 2(2-5) by auto
qed (simp add: retC_def)

lemma init_steps_ready:
  assumes "\<forall>i < num_of_queues c. queue_at c st i" and "unlocked (card_pcie st)" and "kw_buf st \<noteq> None"
  shows "\<exists>st'. tx_init_steps hw c st = Inr (None, st') \<and> (\<forall>i < num_of_queues c. queue_ready c st' i) \<and> unlocked (card_pcie st')"
proof -
  obtain a where a: "kw_buf st = Some a" using assms(3) by blast
  have free: "free_io (iwl_scd_deactivate_fifos hw)" unfolding iwl_scd_deactivate_fifos_def by (rule free_window)
  from dev_free[OF this assms(2)] obtain x1 d1 where 1: "dev (iwl_scd_deactivate_fifos hw) st = Inr (x1, with_device d1 st)" by blast
  let ?s1 = "with_device d1 st"
  have u1: "unlocked (card_pcie ?s1)" using assms(2) by simp
  from dev_free[OF free_window(7) u1] obtain x2 d2 where 2: "dev (iwl_write_direct32 hw FH_KW_MEM_ADDR_REG (base_of 4 a)) ?s1 = Inr (x2, with_device d2 ?s1)" by blast
  let ?s2 = "with_device d2 ?s1"
  have at: "\<forall>i \<in> set [0..<num_of_queues c]. queue_at c ?s2 i"
    using assms(1) queue_frame(1)[of c _ ?s2 st] by simp
  have u2: "unlocked (card_pcie ?s2)" using assms(2) by simp
  from init_queues_ready[OF at u2 distinct_upt, of hw] obtain s3 where 3: "init_queues hw c [0..<num_of_queues c] ?s2 = Inr (None, s3)"
    "\<forall>i < num_of_queues c. queue_ready c s3 i" "unlocked (card_pcie s3)" by auto
  from dev_free[OF free_window(3) 3(3)] obtain x4 d4 where 4: "dev (iwl_set_bits_prph hw SCD_GP_CTRL 0x40000) s3 = Inr (x4, with_device d4 s3)" by blast
  let ?s4 = "with_device d4 s3"
  have u4: "unlocked (card_pcie ?s4)" using 3(3) by simp
  obtain s5 where 5: "whenC (num_of_queues c > 20) (dev (iwl_set_bits_prph hw SCD_GP_CTRL 1)) ?s4 = Inr ((), s5)"
    "dma_mem (card_pcie s5) = dma_mem (card_pcie s3)" "\<forall>i. get_txq c i s5 = get_txq c i s3" "unlocked (card_pcie s5)"
  proof (cases "num_of_queues c > 20")
    case False
    then show ?thesis using that[of ?s4] u4 by (simp add: whenC_def retC_def)
  next
    case True
    from dev_free[OF free_window(3) u4] obtain x d where "dev (iwl_set_bits_prph hw SCD_GP_CTRL 1) ?s4 = Inr (x, with_device d ?s4)" by blast
    then show ?thesis using that[of "with_device d ?s4"] True u4 by (simp add: whenC_def)
  qed
  have "tx_init_steps hw c st = Inr (None, s5)"
    using a 1 2 3(1) 4 5(1) by (simp add: tx_init_steps_def bindC_def getC_def retC_def)
  moreover have "\<forall>i < num_of_queues c. queue_ready c s5 i" using 3(2) 5(2,3) queue_frame(2)[of c _ s5 s3] by simp
  ultimately show ?thesis using 5(4) by blast
qed

lemma ready_answerable:
  assumes "queue_ready c st (unat (cmd_queue (rx_pcie (cfg_rx c))))" and "unlocked (card_pcie st)"
  shows "answerable (rx_cmdq (card_rx st))"
proof -
  from assms(1) obtain q n where q: "get_txq c (unat (cmd_queue (rx_pcie (cfg_rx c)))) st = Some q" "txq_wf q (card_pcie st)"
    "txq_entries q = replicate n zero_entry" unfolding queue_ready_def by blast
  have cq: "q = cq_queue (rx_cmdq (card_rx st))" using q(1) by (simp add: get_txq_def split: if_splits)
  have none: "x = None" if "x \<in> set (entry_dmas q)" for x
    using that by (auto simp: entry_dmas_def q(3) zero_entry_def split: if_splits)
  have "dmas_ok (entry_dmas q) m" for m
  proof -
    have "filter (\<lambda>d. d \<noteq> None) (entry_dmas q) = []" using none by (auto simp: filter_empty_conv)
    then show ?thesis using none unfolding dmas_ok_def by fastforce
  qed
  then show ?thesis using q(2,3) assms(2) unfolding cq by (auto simp: answerable_def txq_wf_def zero_entry_def card_pcie_def)
qed

text \<open>
  C19. When the allocations of \<open>iwl_pcie_tx_alloc\<close> are granted, in memory that is free, the initialisation of the transmit queues succeeds, and every queue
  is of the type its operations need: a ring of 256 descriptors of 20 fragments each, an entry with a command buffer for each slot of its window, a part of the
  buffer of first fragments at an address of 36 bits for each slot, nothing in flight, and its own number; the command queue can take any answer.
\<close>

theorem tx_queues_ready:
  assumes "tx_alloc_steps env c st = Inr (None, st1)" and "dma_sound env" and "\<not> reg_lock (pcie_trans (card_pcie st))"
  shows "\<exists>st'. iwl_pcie_tx_init env hw c st = Some (Inr (None, st')) \<and> (\<forall>i < num_of_queues c. queue_ready c st' i) \<and>
    (unat (cmd_queue (rx_pcie (cfg_rx c))) < num_of_queues c \<longrightarrow> answerable (rx_cmdq (card_rx st')))"
proof -
  note a = alloc_steps_at[OF assms(1,2)]
  have u: "unlocked (card_pcie st1)" using a assms(3) by simp
  from init_steps_ready[of c st1 hw] a u obtain st' where st': "tx_init_steps hw c st1 = Inr (None, st')"
    "\<forall>i < num_of_queues c. queue_ready c st' i" "unlocked (card_pcie st')" by blast
  have "iwl_pcie_tx_alloc env hw c st = Some (Inr (None, st1))"
    using assms(1) by (simp add: iwl_pcie_tx_alloc_def bindL_def liftL_def thenC_def retC_def)
  then have "iwl_pcie_tx_init env hw c st = Some (Inr (None, st'))"
    using a st'(1) by (simp add: iwl_pcie_tx_init_def bindL_def liftL_def thenC_def getC_def whenL_def retC_def)
  then show ?thesis using st'(2,3) ready_answerable by blast
qed

text \<open>Buffers at multiples of 64 KB, the first of four that is free.\<close>

definition dma_demo :: dma_env where
  "dma_demo m n = (if n \<le> 0x10000 then find (\<lambda>a. \<forall>i < n. m (a + of_nat i) = None) [0x10000, 0x20000, 0x30000, 0x40000] else None)"

lemma dma_demo_sound: "dma_sound dma_demo"
  by (auto simp: dma_sound_def dma_demo_def split: if_splits)

lemma apart:
  fixes a b :: u64
  assumes "a + of_nat i = b" and "i < 0x10000" and "unat a + 0x10000 < 2 ^ 64"
  shows "unat b = unat a + i"
proof -
  have "unat (of_nat i :: u64) = i" using assms(2) by (simp add: unsigned_of_nat take_bit_nat_eq_self)
  then show ?thesis using assms unat_add_lem[of a "of_nat i"] by simp
qed

lemma dma_demo_next:
  assumes "0 < n" and "n \<le> 0x10000"
  shows "(\<forall>x. m x = None) \<Longrightarrow> dma_demo m n = Some 0x10000" and "dom m = {0x10000} \<Longrightarrow> dma_demo m n = Some 0x20000"
    and "dom m = {0x10000, 0x20000} \<Longrightarrow> dma_demo m n = Some 0x30000" and "dom m = {0x10000, 0x20000, 0x30000} \<Longrightarrow> dma_demo m n = Some 0x40000"
proof -
  have taken: "\<not> (\<forall>i < n. m (a + of_nat i) = None)" if "a \<in> dom m" for a
    using that assms(1) by (auto intro!: exI[of _ 0])
  have free: "m (a + of_nat i) = None" if "\<forall>b \<in> dom m. unat b < unat a" "unat a + 0x10000 < 2 ^ 64" "i < n" for a i
  proof (rule ccontr)
    assume "m (a + of_nat i) \<noteq> None"
    then have "unat (a + of_nat i) < unat a" using that(1) by blast
    moreover have "unat (a + of_nat i) = unat a + i" using apart[of a i "a + of_nat i"] that(2,3) assms(2) by simp
    ultimately show False by simp
  qed
  show "(\<forall>x. m x = None) \<Longrightarrow> dma_demo m n = Some 0x10000" using assms(2) by (simp add: dma_demo_def)
  show "dom m = {0x10000} \<Longrightarrow> dma_demo m n = Some 0x20000"
    using assms(2) taken[of "0x10000"] free[of "0x20000"] by (simp add: dma_demo_def)
  show "dom m = {0x10000, 0x20000} \<Longrightarrow> dma_demo m n = Some 0x30000"
    using assms(2) taken[of "0x10000"] taken[of "0x20000"] free[of "0x30000"] by (simp add: dma_demo_def)
  show "dom m = {0x10000, 0x20000, 0x30000} \<Longrightarrow> dma_demo m n = Some 0x40000"
    using assms(2) taken[of "0x10000"] taken[of "0x20000"] taken[of "0x30000"] free[of "0x40000"] by (simp add: dma_demo_def)
qed

lemma zalloc_granted: "pcie_answers s = [] \<Longrightarrow> zalloc s = (True, s)"
  by (simp add: zalloc_def)

lemma zallocs_granted: "pcie_answers s = [] \<Longrightarrow> zallocs k s = (True, s)"
  by (induction k) (simp_all add: zalloc_granted)

lemma alloc_granted:
  assumes "pcie_answers s = []" and "env (dma_mem s) n = Some a"
  shows "iwl_pcie_alloc_dma_ptr env None n s = Inr (Inr a, s\<lparr>dma_mem := (dma_mem s)(a \<mapsto> replicate n 0)\<rparr>)"
  using assms by (simp add: iwl_pcie_alloc_dma_ptr_def allocate_dma_buf_def)

lemma txq_alloc_granted:
  assumes "pcie_answers s = []" and "env (dma_mem s) (128 * 256) = Some r" and "env ((dma_mem s)(r \<mapsto> replicate (128 * 256) 0)) (64 * n) = Some a"
  shows "\<exists>q m s'. iwl_pcie_txq_alloc env n b (zero_txq, zero_more, s) = ok (q, m, s')"
  using assms alloc_granted[of s env "128 * 256" r] alloc_granted[of "s\<lparr>dma_mem := (dma_mem s)(r \<mapsto> replicate (128 * 256) 0)\<rparr>" env "64 * n" a]
  by (simp add: iwl_pcie_txq_alloc_def zero_txq_def zalloc_granted zallocs_granted alloc_first_tbs_def IWL_FIRST_TB_SIZE_ALIGN_def)

definition tx_card_demo :: "unit card" where
  "tx_card_demo = card_demo\<lparr>card_rx := (card_rx card_demo)\<lparr>rx_cmdq := (rx_cmdq (card_rx card_demo))\<lparr>cq_pcie := ring_demo_s\<rparr>\<rparr>\<rparr>"

lemma tx_demo_granted: "\<exists>st1. tx_alloc_steps dma_demo (card_cfg_demo\<lparr>num_of_queues := 1\<rparr>) tx_card_demo = Inr (None, st1)"
proof -
  let ?c = "card_cfg_demo\<lparr>num_of_queues := 1\<rparr>"
  let ?s1 = "ring_demo_s\<lparr>dma_mem := (dma_mem ring_demo_s)(0x10000 \<mapsto> replicate 640 0)\<rparr>"
  let ?s2 = "?s1\<lparr>dma_mem := (dma_mem ?s1)(0x20000 \<mapsto> replicate 4096 0)\<rparr>"
  have ans: "pcie_answers ring_demo_s = []" "dma_mem ring_demo_s = (\<lambda>_. None)" by (simp_all add: ring_demo_s_def)
  have 1: "iwl_pcie_alloc_dma_ptr dma_demo None 640 ring_demo_s = Inr (Inr 0x10000, ?s1)"
    by (rule alloc_granted) (simp_all add: ans dma_demo_next)
  have d1: "dom (dma_mem ?s1) = {0x10000}" by (simp add: ans)
  have 2: "iwl_pcie_alloc_dma_ptr dma_demo None 4096 ?s1 = Inr (Inr 0x20000, ?s2)"
    using ans d1 by (intro alloc_granted) (simp_all add: dma_demo_next del: dom_fun_upd)
  have d2: "dom (dma_mem ?s2) = {0x10000, 0x20000}" by (auto simp: ans)
  have d3: "dom ((dma_mem ?s2)(0x30000 \<mapsto> replicate (128 * 256) 0)) = {0x10000, 0x20000, 0x30000}" using d2 by auto
  have n: "0 < 64 * slots_of ?c 0" "64 * slots_of ?c 0 \<le> 0x10000" using slots_cases[of ?c 0] by (auto simp: TFD_CMD_SLOTS_def TFD_TX_CMD_SLOTS_def)
  have ans2: "pcie_answers ?s2 = []" by (simp add: ans)
  have r3: "dma_demo (dma_mem ?s2) (128 * 256) = Some 0x30000" by (rule dma_demo_next(3)[OF _ _ d2]) simp_all
  obtain q m s' where 3: "iwl_pcie_txq_alloc dma_demo (slots_of ?c 0) True (zero_txq, zero_more, ?s2) = ok (q, m, s')"
    using txq_alloc_granted[OF ans2 r3 dma_demo_next(4)[OF n d3]] by blast
  have cq: "unat (cmd_queue (rx_pcie (cfg_rx card_cfg_demo))) = 0" by (simp add: card_cfg_demo_def rx_demo_cfg_def ring_demo_cfg_def)
  show ?thesis
    using 1 2 3 ans cq
    by (simp add: tx_alloc_steps_def alloc_queue_def bindC_def getC_def retC_def updC_def on_pcie_def tx_card_demo_def card_demo_def put_pcie_def
      card_pcie_def IWL_KW_SIZE_def zalloc_granted put_txq_def upd_more_def)
qed

theorem tx_queues_ready_witness:
  "\<exists>st1 st'. tx_alloc_steps dma_demo (card_cfg_demo\<lparr>num_of_queues := 1\<rparr>) tx_card_demo = Inr (None, st1) \<and>
     iwl_pcie_tx_init dma_demo ring_demo_hw (card_cfg_demo\<lparr>num_of_queues := 1\<rparr>) tx_card_demo = Some (Inr (None, st')) \<and>
     queue_ready (card_cfg_demo\<lparr>num_of_queues := 1\<rparr>) st' 0 \<and> answerable (rx_cmdq (card_rx st'))"
proof -
  obtain st1 where 1: "tx_alloc_steps dma_demo (card_cfg_demo\<lparr>num_of_queues := 1\<rparr>) tx_card_demo = Inr (None, st1)" using tx_demo_granted by blast
  have "\<not> reg_lock (pcie_trans (card_pcie tx_card_demo))" by (simp add: tx_card_demo_def card_pcie_def ring_demo_s_def)
  moreover have "unat (cmd_queue (rx_pcie (cfg_rx (card_cfg_demo\<lparr>num_of_queues := 1\<rparr>)))) = 0" by (simp add: card_cfg_demo_def rx_demo_cfg_def ring_demo_cfg_def)
  ultimately show ?thesis using tx_queues_ready[OF 1 dma_demo_sound, of ring_demo_hw] 1 by auto
qed

end
