(* ===== verification/Spec2Isabelle.thy ===== *)
theory Spec2Isabelle
  imports Fw_Formats Drv_Lifecycle Eeprom_Bands Eeprom_Image Cmd_Names Trans_Gate Phy_Sections Dvm_Time Tx_Complete Rx_Contract Fw_Upload Irq_Safety Tx_Typed
begin

text \<open>
  \<^bold>\<open>A verification development for the IntelWifi driver.\<close>

  The program is a kernel extension for Intel wireless cards, a port of the Linux driver \<^verbatim>\<open>iwlwifi\<close>. All
  paths below are relative to \<^verbatim>\<open>src/IntelWifi/IntelWifi\<close>. When a card is found, the driver core
  (\<^verbatim>\<open>iwlwifi/iwl-drv.c\<close>) asks for a firmware file, parses it, copies its sections into buffers and starts an
  operation mode. The operation mode reads the EEPROM of the card (\<^verbatim>\<open>iwlwifi/iwl-eeprom-read.c\<close>), parses it
  (\<^verbatim>\<open>iwlwifi/iwl-eeprom-parse.c\<close>), and waits for notifications of the firmware
  (\<^verbatim>\<open>iwlwifi/fw/notif-wait.c\<close>). It talks to the firmware through the transport interface
  (\<^verbatim>\<open>iwlwifi/iwl-trans.c\<close>, \<^verbatim>\<open>iwlwifi/iwl-trans.h\<close>), over which the calibration data base
  (\<^verbatim>\<open>iwlwifi/iwl-phy-db.c\<close>) is sent; commands travel through the rings of \<^verbatim>\<open>IntelWifi_tx.cpp\<close>,
  answers and frames come through the ring of \<^verbatim>\<open>IntelWifi_rx.cpp\<close>. All of them reach the card through the register access functions
  (\<^verbatim>\<open>iwlwifi/iwl-io.c\<close>, \<^verbatim>\<open>iwlwifi/pcie/trans.c\<close>).

  \<^bold>\<open>Conventions.\<close> \<open>Iwl_Prelude\<close> has the C integer types as words, the error codes, the undefined behaviours
  (\<open>fault\<close>: an access outside an object or through NULL, the use of an indeterminate value, a double free, and
  taking a spin lock twice), little-endian reads with explicit bounds and the sequencing of fallible steps. A C
  function becomes a function into \<open>fault + result\<close>; an error return is a value of the result, so "the code
  returns an error" and "the code has no defined behaviour" are different outcomes. Log output is left out,
  but a read that only serves the log is kept where it can go wrong.

  \<^bold>\<open>The theories, in the order of the calls.\<close>

  \<^item> \<open>Bitmap\<close>: \<^verbatim>\<open>porting/linux/bitfield.h\<close> and \<^verbatim>\<open>porting/linux/util/find_next_bit.c\<close>, the bit sets over arrays of
    64-bit words. C1 is the correctness of the bit search with its wrap-around arithmetic; a further theorem says what
    \<open>test_bit\<close> reads after \<open>set_bit\<close>. The locale \<open>bit_store\<close> states the bit-set contract and is interpreted on these functions.

  \<^item> \<open>Fw_File\<close>, \<open>Fw_Tlv\<close>: the firmware file, the first 1100 lines of \<^verbatim>\<open>iwl-drv.c\<close>: section arrays, the old
    format with its fixed header, the tagged format with every case of its switch and the loop over the tags.
    \<open>Fw_Directory\<close> has the abstract reading of a tagged file as a list of entries (C3: the parser accepts
    exactly the files whose entries are all acceptable; C4: a file written from entries is read back).
    \<open>Fw_Invariant\<close> has the invariant of the parse state (C5) and the sections the images end up with (C6).
    \<open>Fw_Formats\<close> has the old format (C7), capability words and the wrap-around of the remaining length
    on a last entry without padding (C9).

  \<^item> \<open>Iwl_Heap\<close>: \<^verbatim>\<open>iw_utils/allocation.c\<close> over an explicit heap of blocks. Whether a request is granted is an
    answer of the environment, so every failure of every allocation is covered.

  \<^item> \<open>Iwl_Drv\<close>: the rest of \<^verbatim>\<open>iwl-drv.c\<close>: the name of the file, the firmware callback with all its exits, the
    section buffers, start and stop, the operation-mode table. \<open>Drv_Lifetime\<close>: the buffers hold the sections
    (C10), releasing gives back exactly what was allocated (C11), and doing it twice is a double free.
    \<open>Drv_Lifecycle\<close>: start and stop (C13), a missing file (C14), the table.

  \<^item> \<open>Eeprom_Parse\<close>: \<^verbatim>\<open>iwl-eeprom-parse.c\<close>. \<open>Eeprom_Channels\<close> and \<open>Eeprom_Bands\<close>: the bands handed to the network
    stack are exactly the valid channels of the image in order (C16), the parse has no fault on an image that
    is long enough (C17), the wide-channel flags (C18), what stays indeterminate, the frequencies of the
    channel tables, and the population count of \<^verbatim>\<open>hweight8\<close>.

  \<^item> \<open>Iwl_Io\<close>: register access. The device is a parameter (\<open>'d hw\<close>: what a read answers and what a write and
    the passing of time do to it), and the functions are state transformers over the device and the driver's
    lock. \<open>Io_Access\<close> has the locale \<open>device_read\<close> for "a read that answers and leaves the lock as it was", its
    polling lemma and three interpretations: C22 polling, C24 the lock is always given back, and
    the bits of periphery registers.

  \<^item> \<open>Eeprom_Read\<close>: \<^verbatim>\<open>iwl-eeprom-read.c\<close> over these functions. \<open>Eeprom_Image\<close>: no fault on the EEPROM path
    (C26), the overrun on the one-time-programmable path (C27), the content of the buffer (C28), and that the semaphore
    is released.

  \<^item> \<open>Notif_Wait\<close>: \<^verbatim>\<open>fw/notif-wait.c\<close> and \<^verbatim>\<open>fw/notif-wait.h\<close>; threads and packets as events of a step relation. C30
    which entries a packet marks, C31 the wait is sound with one waiter, C32 it is not with two, and what
    happens to a packet that comes before the sleep.

  \<^item> \<open>Cmd_Search\<close>: the search for the name of a command in \<^verbatim>\<open>iwl-trans.c\<close>. The locale \<open>search_order\<close> states what a
    comparison promises and proves the binary search once; it is interpreted on \<open>iwl_hcmd_names_cmp\<close>. \<open>Cmd_Names\<close> has
    the tables of the operation modes: C34 the lookup is exact on sorted tables; these tables are sorted.

  \<^item> \<open>Iwl_Trans\<close>: host commands and the wrappers of \<^verbatim>\<open>iwl-trans.h\<close>, and the class of \<^verbatim>\<open>IwlTransOps.cpp\<close>, over a table of
    functions. \<open>Trans_Gate\<close>: runs of these calls as a step relation; C36 nothing is sent unless the firmware is
    alive, C37 an error is reported once per start.

  \<^item> \<open>Phy_Db\<close>: \<^verbatim>\<open>iwl-phy-db.c\<close> over the heap and the host commands. \<open>Phy_Sections\<close>: the index of a channel,
    C39 the data base keeps no data and cannot be sent.

  \<^item> \<open>Dvm_Devices\<close>: \<^verbatim>\<open>dvm/devices.c\<close> and \<^verbatim>\<open>dvm/lib.c\<close>, with their tables. \<open>Dvm_Time\<close>: the temperature of the 5150
    is constant, the beacon time of a channel switch, the order of the limits in the sensitivity tables.

  \<^item> \<open>Tx_Queue\<close>: \<^verbatim>\<open>IntelWifi_tx.cpp\<close> with the inline functions of \<^verbatim>\<open>pcie/internal.h\<close>: the transmit rings, their frame
    descriptors, the buffers of \<^verbatim>\<open>dma-utils.cpp\<close>, and reclaiming. \<open>Tx_Ring\<close> states the contract of a bounded queue as the
    locale \<open>fifo_ring\<close> and interprets it on the command queue (C12), and has the descriptor round trip (C21).
    \<open>Tx_Command\<close> is \<open>iwl_pcie_enqueue_hcmd\<close>; \<open>Tx_Enqueue\<close> and \<open>Tx_Delivery\<close> follow the bytes of a command through its two
    loops into the fragments the device reads (C15). \<open>Tx_Complete\<close>: sending and the answer; C2 an answered
    synchronous command returns, C8 it does not when the answer comes before the sleep. \<open>Tx_Answers\<close> has what the queue needs to
    take a packet with any sequence number.

  \<^item> \<open>Rx_Queue\<close>, \<open>Rx_Handle\<close>, \<open>Rx_Setup\<close>: \<^verbatim>\<open>IntelWifi_rx.cpp\<close> up to its interrupt handlers: the ring, the lists of receive
    buffer descriptors (RBDs) and the page allocator; the handler; memory, registers and the start. \<open>Rx_Ownership\<close> states the
    life cycle of an RBD as an invariant, a multiset equation over all places an RBD can be in, and \<open>Rx_Cycle\<close>, \<open>Rx_Safety\<close> and
    \<open>Rx_Return\<close> show that the allocator, restocking, a buffer, a turn and the loop keep it. \<open>Rx_Init\<close>: the start establishes it.
    \<open>Rx_Contract\<close>: C20 the handler returns and loses no buffer whatever the device writes, C35 so do a start and any sequence
    of calls, C40 the packets of a page, C23 the lock that the start takes twice on some devices, C38 the allocator
    without memory.

  \<^item> \<open>Pcie_Card\<close>: the state of the transport as a whole (\<^verbatim>\<open>struct iwl_trans_pcie\<close> of \<^verbatim>\<open>pcie/internal.h\<close>), which holds the receive ring, the
    command queue and the registers of the theories above, with its mutex, interrupt masks and power management (first part of
    \<^verbatim>\<open>IntelWifi_trans.cpp\<close>). \<open>Tx_Setup\<close>: allocation, start, stop and release of all queues and the scheduler (rest of \<^verbatim>\<open>IntelWifi_tx.cpp\<close>,
    \<^verbatim>\<open>iwl-scd.h\<close>). \<open>Pcie_Irq\<close>: the interrupt handlers and the interrupt cause table (end of \<^verbatim>\<open>IntelWifi_rx.cpp\<close>). \<open>Fw_Load\<close>: the firmware loader.
    \<open>Pcie_Start\<close>: start and stop of the device for both generations, with \<^verbatim>\<open>IntelWifi_trans-gen2.cpp\<close>. \<open>Pcie_Laws\<close> has the locale \<open>card_states\<close>
    for a set of states that the register operations keep, with the rules that carry it through any composition of them.

  \<^item> \<open>Tx_Typed\<close>: C19 the initialisation gives every queue the type its operations need. \<open>Irq_Safety\<close>: C33 the interrupt cause is exactly what the
    device put into the table; C29 the handler, whatever it is told, keeps the invariants of both rings (an interpretation of \<open>card_states\<close>).
    \<open>Fw_Upload\<close>: C25 joins the file, the driver's buffers (C10) and the loader: what the device is sent is the firmware file in boot order.

  \<^bold>\<open>Loops.\<close> No definition uses fuel. The loops around a ring, \<open>reclaim_loop\<close> and \<open>iwl_pcie_txq_unmap\<close>, are partial
  functions into \<open>option\<close>, where \<open>None\<close> is a loop that never ends; C12 has that reclaiming ends. So are \<open>alloc_eight\<close>, \<open>allocator_loop\<close> and
  \<open>rx_handle_loop\<close> of the receive queue: C20 has that the handler ends when pages come again and again, C38 that the allocator does not
  when they do not. So is \<open>chunk_loop\<close> of the firmware loader, whose offset wraps at 4 GB: C25 has that loading returns for sections of a file
  below that. The loop over the interrupt cause table ends because each turn clears an entry; the loops that wait for the card count
  their attempts. The loop over the tags ends because its position in the file grows by at least
  the eight bytes of a tag header; the bit search because the word index reaches the end of the array; the polling loop
  because the time grows by its interval up to the timeout; the copy loops because the address grows; the
  semaphore loop has the thousand attempts the source has; the binary search because its range shrinks.

  \<^bold>\<open>Parameters.\<close> The device, the answers of the allocator, the firmware file and the way it arrives, the start
  function of the operation mode, the callbacks of notification waits, the function table of the transport,
  the bus address at which IOKit maps a buffer (\<open>dma_env\<close>), the result of a sleep, the content of the receive
  pages and the status word, how a section is mapped and whether a transfer is acknowledged (\<open>load_env\<close>), which requests for a page are granted, the receive function of the operation mode, and the thermal handler and command sender of the DVM mode.

  \<^bold>\<open>Not modelled.\<close> The operation modes (\<^verbatim>\<open>IwlDvmOpMode_*.cpp\<close>, \<^verbatim>\<open>Mvm\<close>, \<^verbatim>\<open>iwlwifi/mvm\<close>): those of the DVM mode are not
  in the build target and those under \<^verbatim>\<open>iwlwifi/mvm\<close> are upstream text that is being ported. Frames of the network stack (the body of
  \<^verbatim>\<open>iwl_trans_pcie_tx\<close> is commented out), the mapping of the device memory in \<^verbatim>\<open>iwl_trans_pcie_alloc\<close>, the MSI-X handlers, which this port
  never enables, the dump functions, the IOKit and user-client glue, the constant tables of \<^verbatim>\<open>iwlwifi/cfg\<close>, and \<^verbatim>\<open>iwl-nvm-parse.c\<close>,
  which is not compiled. Debug file systems and lock checking are compiled out of the driver.
\<close>

end
